(* ===== verification/Prelude.thy ===== *)
theory Prelude
  imports Main
    "HOL-Library.Char_ord" "HOL-Library.List_Lexorder" "HOL-Library.Product_Lexorder"
begin

text \<open>
  What every component shares.

  \<^item> Python text: a \<open>string\<close> is a list of code points below 256 (so \<open>length\<close> is \<open>len\<close>);
    whitespace, lower case, stripping, prefixes, decimal rendering and UTF-8 are written out.
  \<^item> Program state: \<open>pstate\<close> pairs the database with the outside world. Every call of
    \<open>utc_now\<close>, \<open>time.time\<close>, \<open>time.monotonic\<close>, \<open>uuid.uuid4\<close> and \<open>secrets.token_urlsafe\<close> consumes one
    position of an arbitrary stream, so two calls may return different values.
  \<^item> Exceptions: \<open>tx\<close> is the state-and-exception monad. A raise keeps the state reached so far;
    \<open>with_connection\<close> is SQLite's connection context manager, which rolls the database back.
  \<^item> Tables: rows are lists in insertion order; \<open>update_where\<close> is SQL's UPDATE ... WHERE.
\<close>

section \<open>Collections of facts\<close>

named_theorems tx_simps \<open>successful runs of transaction code, as iff rules\<close>
named_theorems tx_errs \<open>raising runs of transaction code, as iff rules\<close>
named_theorems row_simps \<open>rewriting of table rows and table updates\<close>

section \<open>Text\<close>

abbreviation code_of :: "char \<Rightarrow> nat" where
  "code_of c \<equiv> of_char c"

definition py_space :: "char \<Rightarrow> bool" where
  "py_space c = (let n = code_of c in
     (9 \<le> n \<and> n \<le> 13) \<or> (28 \<le> n \<and> n \<le> 32) \<or> n = 133 \<or> n = 160)"

definition py_strip :: "string \<Rightarrow> string" where
  "py_strip s = rev (dropWhile py_space (rev (dropWhile py_space s)))"

definition py_lower_char :: "char \<Rightarrow> char" where
  "py_lower_char c = (let n = code_of c in
     if (65 \<le> n \<and> n \<le> 90) \<or> (192 \<le> n \<and> n \<le> 222 \<and> n \<noteq> 215) then char_of (n + 32) else c)"

definition py_lower :: "string \<Rightarrow> string" where
  "py_lower s = map py_lower_char s"

definition starts_with :: "string \<Rightarrow> string \<Rightarrow> bool" where
  "starts_with s p = (take (length p) s = p)"

text \<open>SQLite's LIKE folds ASCII letters only; every pattern of the program is a prefix pattern.\<close>

definition ascii_fold :: "char \<Rightarrow> char" where
  "ascii_fold c = (let n = code_of c in if 65 \<le> n \<and> n \<le> 90 then char_of (n + 32) else c)"

definition sql_like_prefix :: "string \<Rightarrow> string \<Rightarrow> bool" where
  "sql_like_prefix s p = (map ascii_fold (take (length p) s) = map ascii_fold p)"

definition is_digit :: "char \<Rightarrow> bool" where
  "is_digit c = (48 \<le> code_of c \<and> code_of c \<le> 57)"

definition is_ascii_alnum :: "char \<Rightarrow> bool" where
  "is_ascii_alnum c = (let n = code_of c in
     (48 \<le> n \<and> n \<le> 57) \<or> (65 \<le> n \<and> n \<le> 90) \<or> (97 \<le> n \<and> n \<le> 122))"

definition is_lower_hex :: "char \<Rightarrow> bool" where
  "is_lower_hex c = (let n = code_of c in (48 \<le> n \<and> n \<le> 57) \<or> (97 \<le> n \<and> n \<le> 102))"

text \<open>\<open>re.fullmatch(r"[0-9a-f]{64}", text)\<close>.\<close>

definition is_sha256_hex :: "string \<Rightarrow> bool" where
  "is_sha256_hex s = (length s = 64 \<and> list_all is_lower_hex s)"

fun show_nat :: "nat \<Rightarrow> string" where
  "show_nat n = (if n < 10 then [char_of (48 + n)] else show_nat (n div 10) @ [char_of (48 + n mod 10)])"

declare show_nat.simps [simp del]

definition show_int :: "int \<Rightarrow> string" where
  "show_int i = (if i < 0 then CHR ''-'' # show_nat (nat (- i)) else show_nat (nat i))"

text \<open>\<open>str.encode("utf-8")\<close> on code points below 256: one byte, or two.\<close>

definition utf8_char :: "char \<Rightarrow> string" where
  "utf8_char c = (let n = code_of c in
     if n < 128 then [c] else [char_of (192 + n div 64), char_of (128 + n mod 64)])"

definition utf8_encode :: "string \<Rightarrow> string" where
  "utf8_encode s = concat (map utf8_char s)"

text \<open>Evaluation by bits: the range tests of printing and encoding without arithmetic.\<close>

lemma char_high_bit: "of_char (Char b0 b1 b2 b3 b4 b5 b6 b7) < (128::nat) \<longleftrightarrow> \<not> b7"
  by (cases b0; cases b1; cases b2; cases b3; cases b4; cases b5; cases b6; cases b7; simp)
lemma char_control: "of_char (Char b0 b1 b2 b3 b4 b5 b6 b7) < (32::nat) \<longleftrightarrow> \<not> b5 \<and> \<not> b6 \<and> \<not> b7"
  by (cases b0; cases b1; cases b2; cases b3; cases b4; cases b5; cases b6; cases b7; simp)

lemma utf8_char_code [code]:
  "utf8_char c = (case c of Char b0 b1 b2 b3 b4 b5 b6 b7 \<Rightarrow> if \<not> b7 then [c]
     else let n = code_of c in [char_of (192 + n div 64), char_of (128 + n mod 64)])"
  by (cases c) (simp add: utf8_char_def Let_def char_high_bit del: of_char_Char)

lemma code_of_eq: "n < 256 \<Longrightarrow> code_of c = n \<longleftrightarrow> c = char_of n"
  by (metis char_of_char of_char_of mod_less)

section \<open>Results of pure checks\<close>

definition res_bind :: "'e + 'a \<Rightarrow> ('a \<Rightarrow> 'e + 'b) \<Rightarrow> 'e + 'b" where
  "res_bind r f = (case r of Inl e \<Rightarrow> Inl e | Inr a \<Rightarrow> f a)"

definition res_require :: "bool \<Rightarrow> 'e \<Rightarrow> 'e + 'a \<Rightarrow> 'e + 'a" where
  "res_require c e r = (if c then r else Inl e)"

lemma res_bind_Inr [tx_simps]: "res_bind r f = Inr b \<longleftrightarrow> (\<exists>a. r = Inr a \<and> f a = Inr b)"
  by (cases r) (auto simp: res_bind_def)

lemma res_bind_Inl [tx_errs]: "res_bind r f = Inl e \<longleftrightarrow> r = Inl e \<or> (\<exists>a. r = Inr a \<and> f a = Inl e)"
  by (cases r) (auto simp: res_bind_def)

lemma res_require_Inr [tx_simps]: "res_require c e r = Inr b \<longleftrightarrow> c \<and> r = Inr b"
  by (simp add: res_require_def)

lemma res_require_Inl [tx_errs]: "res_require c e r = Inl f \<longleftrightarrow> (c \<and> r = Inl f) \<or> (\<not> c \<and> f = e)"
  by (auto simp: res_require_def)

section \<open>State, world and exceptions\<close>

text \<open>
  The outside world of one process: streams of the values its non-deterministic library calls
  return, read at the position \<open>w_calls\<close>. Epoch instants and durations are whole seconds.
\<close>

record world =
  w_time :: "nat \<Rightarrow> int"
  w_monotonic :: "nat \<Rightarrow> int"
  w_utc :: "nat \<Rightarrow> string"
  w_uuid :: "nat \<Rightarrow> string"
  w_token :: "nat \<Rightarrow> string"
  w_calls :: nat

record 'd pstate =
  st_db :: 'd
  st_world :: world

type_synonym ('d, 'e, 'a) tx = "'d pstate \<Rightarrow> ('e + 'a) \<times> 'd pstate"

definition tx_return :: "'a \<Rightarrow> ('d, 'e, 'a) tx" where
  "tx_return a s = (Inr a, s)"

definition tx_raise :: "'e \<Rightarrow> ('d, 'e, 'a) tx" where
  "tx_raise e s = (Inl e, s)"

definition tx_bind :: "('d, 'e, 'a) tx \<Rightarrow> ('a \<Rightarrow> ('d, 'e, 'b) tx) \<Rightarrow> ('d, 'e, 'b) tx" where
  "tx_bind m f s = (case m s of (Inl e, t) \<Rightarrow> (Inl e, t) | (Inr a, t) \<Rightarrow> f a t)"

definition tx_then :: "('d, 'e, 'a) tx \<Rightarrow> ('d, 'e, 'b) tx \<Rightarrow> ('d, 'e, 'b) tx" where
  "tx_then m n = tx_bind m (\<lambda>_. n)"

text \<open>\<open>if not c: raise e\<close>.\<close>

definition tx_require :: "bool \<Rightarrow> 'e \<Rightarrow> ('d, 'e, unit) tx" where
  "tx_require c e = (if c then tx_return () else tx_raise e)"

definition tx_lift :: "'e + 'a \<Rightarrow> ('d, 'e, 'a) tx" where
  "tx_lift r s = (r, s)"

definition tx_query :: "('d \<Rightarrow> 'a) \<Rightarrow> ('d, 'e, 'a) tx" where
  "tx_query g s = (Inr (g (st_db s)), s)"

definition tx_execute :: "('d \<Rightarrow> 'd) \<Rightarrow> ('d, 'e, unit) tx" where
  "tx_execute f s = (Inr (), s\<lparr>st_db := f (st_db s)\<rparr>)"

text \<open>\<open>try: m / except handled: h\<close>: the exceptions \<open>P\<close> accepts are handled, the others go on.\<close>

definition tx_catch :: "('d, 'e, 'a) tx \<Rightarrow> ('e \<Rightarrow> bool) \<Rightarrow> ('d, 'e, 'a) tx \<Rightarrow> ('d, 'e, 'a) tx" where
  "tx_catch m P h s = (case m s of (Inl e, t) \<Rightarrow> (if P e then h t else (Inl e, t)) | r \<Rightarrow> r)"

text \<open>\<open>with self._connect() as connection:\<close> commits on success and rolls back on a raise.\<close>

definition with_connection :: "('d, 'e, 'a) tx \<Rightarrow> ('d, 'e, 'a) tx" where
  "with_connection m s = (case m s of
     (Inl e, t) \<Rightarrow> (Inl e, t\<lparr>st_db := st_db s\<rparr>) | (Inr a, t) \<Rightarrow> (Inr a, t))"

text \<open>A \<open>for\<close> loop that collects one result per element and stops at the first raise.\<close>

fun tx_for :: "('x \<Rightarrow> ('d, 'e, 'a) tx) \<Rightarrow> 'x list \<Rightarrow> ('d, 'e, 'a list) tx" where
  "tx_for f [] = tx_return []"
| "tx_for f (x # xs) = tx_bind (f x) (\<lambda>a. tx_bind (tx_for f xs) (\<lambda>as. tx_return (a # as)))"

text \<open>One call: the value at the current position, and the position moves on.\<close>

definition tick :: "'d pstate \<Rightarrow> 'd pstate" where
  "tick s = s\<lparr>st_world := (st_world s)\<lparr>w_calls := Suc (w_calls (st_world s))\<rparr>\<rparr>"

definition world_call :: "(world \<Rightarrow> nat \<Rightarrow> 'a) \<Rightarrow> ('d, 'e, 'a) tx" where
  "world_call g s = (Inr (g (st_world s) (w_calls (st_world s))), tick s)"

definition time_time :: "('d, 'e, int) tx" where
  "time_time = world_call w_time"

definition time_monotonic :: "('d, 'e, int) tx" where
  "time_monotonic = world_call w_monotonic"

definition utc_now :: "('d, 'e, string) tx" where
  "utc_now = world_call w_utc"

definition uuid4_hex :: "('d, 'e, string) tx" where
  "uuid4_hex = world_call w_uuid"

definition token_urlsafe :: "('d, 'e, string) tx" where
  "token_urlsafe = world_call w_token"

section \<open>Successful runs\<close>

text \<open>
  A run that ends in \<open>Inr\<close> passed every guard on its way. Each rule turns one construct into
  the facts its success gives, so a proof about an operation simplifies the run to its facts.
\<close>

lemma tx_return_ok [tx_simps]: "tx_return a s = (Inr b, t) \<longleftrightarrow> b = a \<and> t = s"
  by (auto simp: tx_return_def)

lemma tx_raise_ok [tx_simps]: "\<not> tx_raise e s = (Inr b, t)"
  by (simp add: tx_raise_def)

lemma tx_bind_ok [tx_simps]:
  "tx_bind m f s = (Inr b, t) \<longleftrightarrow> (\<exists>a u. m s = (Inr a, u) \<and> f a u = (Inr b, t))"
  by (auto simp: tx_bind_def split: prod.splits sum.splits)

lemma tx_then_ok [tx_simps]:
  "tx_then m n s = (Inr b, t) \<longleftrightarrow> (\<exists>a u. m s = (Inr a, u) \<and> n u = (Inr b, t))"
  by (simp add: tx_then_def tx_bind_ok)

lemma tx_require_ok [tx_simps]: "tx_require c e s = (Inr b, t) \<longleftrightarrow> c \<and> t = s"
  by (auto simp: tx_require_def tx_return_ok tx_raise_ok)

lemma tx_lift_ok [tx_simps]: "tx_lift r s = (Inr b, t) \<longleftrightarrow> r = Inr b \<and> t = s"
  by (auto simp: tx_lift_def)

lemma tx_query_ok [tx_simps]: "tx_query g s = (Inr b, t) \<longleftrightarrow> b = g (st_db s) \<and> t = s"
  by (auto simp: tx_query_def)

lemma tx_execute_ok [tx_simps]:
  "tx_execute f s = (Inr b, t) \<longleftrightarrow> t = s\<lparr>st_db := f (st_db s)\<rparr>"
  by (auto simp: tx_execute_def)

lemma tx_catch_ok [tx_simps]:
  "tx_catch m P h s = (Inr b, t) \<longleftrightarrow>
     m s = (Inr b, t) \<or> (\<exists>e u. m s = (Inl e, u) \<and> P e \<and> h u = (Inr b, t))"
  by (auto simp: tx_catch_def split: prod.splits sum.splits)

lemma with_connection_ok [tx_simps]: "with_connection m s = (Inr b, t) \<longleftrightarrow> m s = (Inr b, t)"
  by (auto simp: with_connection_def split: prod.splits sum.splits)

lemma with_connection_error:
  "with_connection m s = (Inl e, t) \<Longrightarrow> st_db t = st_db s"
  by (auto simp: with_connection_def split: prod.splits sum.splits)

lemma tick_db [simp]: "st_db (tick s) = st_db s"
  by (simp add: tick_def)

lemma world_call_ok:
  "world_call g s = (Inr b, t) \<longleftrightarrow> b = g (st_world s) (w_calls (st_world s)) \<and> t = tick s"
  by (auto simp: world_call_def)

text \<open>The values the next call would return.\<close>

abbreviation "time_at s \<equiv> w_time (st_world s) (w_calls (st_world s))"
abbreviation "monotonic_at s \<equiv> w_monotonic (st_world s) (w_calls (st_world s))"
abbreviation "utc_at s \<equiv> w_utc (st_world s) (w_calls (st_world s))"
abbreviation "uuid_at s \<equiv> w_uuid (st_world s) (w_calls (st_world s))"
abbreviation "token_at s \<equiv> w_token (st_world s) (w_calls (st_world s))"

lemma world_ok [tx_simps]:
  "time_time s = (Inr i, t) \<longleftrightarrow> i = time_at s \<and> t = tick s"
  "time_monotonic s = (Inr i, t) \<longleftrightarrow> i = monotonic_at s \<and> t = tick s"
  "utc_now s = (Inr x, t) \<longleftrightarrow> x = utc_at s \<and> t = tick s"
  "uuid4_hex s = (Inr x, t) \<longleftrightarrow> x = uuid_at s \<and> t = tick s"
  "token_urlsafe s = (Inr x, t) \<longleftrightarrow> x = token_at s \<and> t = tick s"
  by (simp_all add: time_time_def time_monotonic_def utc_now_def uuid4_hex_def token_urlsafe_def
        world_call_ok)

section \<open>Raising runs\<close>

lemma tx_return_err [tx_errs]: "\<not> tx_return a s = (Inl e, t)"
  by (simp add: tx_return_def)

lemma tx_raise_err [tx_errs]: "tx_raise e s = (Inl f, t) \<longleftrightarrow> f = e \<and> t = s"
  by (auto simp: tx_raise_def)

lemma tx_bind_err [tx_errs]:
  "tx_bind m f s = (Inl e, t) \<longleftrightarrow> m s = (Inl e, t) \<or> (\<exists>a u. m s = (Inr a, u) \<and> f a u = (Inl e, t))"
  by (auto simp: tx_bind_def split: prod.splits sum.splits)

lemma tx_then_err [tx_errs]:
  "tx_then m n s = (Inl e, t) \<longleftrightarrow> m s = (Inl e, t) \<or> (\<exists>a u. m s = (Inr a, u) \<and> n u = (Inl e, t))"
  by (simp add: tx_then_def tx_bind_err)

lemma tx_require_err [tx_errs]: "tx_require c e s = (Inl f, t) \<longleftrightarrow> \<not> c \<and> f = e \<and> t = s"
  by (auto simp: tx_require_def tx_return_err tx_raise_err)

lemma tx_lift_err [tx_errs]: "tx_lift r s = (Inl f, t) \<longleftrightarrow> r = Inl f \<and> t = s"
  by (auto simp: tx_lift_def)

lemma tx_query_err [tx_errs]: "\<not> tx_query g s = (Inl f, t)"
  by (simp add: tx_query_def)

lemma tx_execute_err [tx_errs]: "\<not> tx_execute g s = (Inl f, t)"
  by (simp add: tx_execute_def)

lemma tx_catch_err [tx_errs]:
  "tx_catch m P h s = (Inl f, t) \<longleftrightarrow>
     (\<exists>e u. m s = (Inl e, u) \<and> (if P e then h u = (Inl f, t) else f = e \<and> t = u))"
  by (auto simp: tx_catch_def split: prod.splits sum.splits)

lemma with_connection_err [tx_errs]:
  "with_connection m s = (Inl f, t) \<longleftrightarrow> (\<exists>u. m s = (Inl f, u) \<and> t = u\<lparr>st_db := st_db s\<rparr>)"
  by (auto simp: with_connection_def split: prod.splits sum.splits)

lemma world_err [tx_errs]:
  "\<not> time_time s = (Inl f, t)" "\<not> time_monotonic s = (Inl f, t)" "\<not> utc_now s = (Inl f, t)"
  "\<not> uuid4_hex s = (Inl f, t)" "\<not> token_urlsafe s = (Inl f, t)"
  by (simp_all add: time_time_def time_monotonic_def utc_now_def uuid4_hex_def token_urlsafe_def
        world_call_def)

section \<open>Outcomes of a run\<close>

definition succeeds :: "('d, 'e, 'a) tx \<Rightarrow> 'd pstate \<Rightarrow> bool" where
  "succeeds m s = (case fst (m s) of Inl e \<Rightarrow> False | Inr a \<Rightarrow> True)"

definition value_of :: "('d, 'e, 'a) tx \<Rightarrow> 'd pstate \<Rightarrow> 'a" where
  "value_of m s = projr (fst (m s))"

definition raises :: "('d, 'e, 'a) tx \<Rightarrow> 'd pstate \<Rightarrow> 'e \<Rightarrow> bool" where
  "raises m s e = (case fst (m s) of Inl f \<Rightarrow> f = e | Inr a \<Rightarrow> False)"

definition after :: "('d, 'e, 'a) tx \<Rightarrow> 'd pstate \<Rightarrow> 'd pstate" where
  "after m s = snd (m s)"

lemma succeeds_run: "succeeds m s \<Longrightarrow> m s = (Inr (value_of m s), after m s)"
  by (cases "m s") (auto simp: succeeds_def value_of_def after_def split: sum.splits)

lemma raises_run: "raises m s e \<Longrightarrow> m s = (Inl e, after m s)"
  by (cases "m s") (auto simp: raises_def after_def split: sum.splits)

section \<open>Preservation of a database predicate\<close>

text \<open>
  \<open>keeps I m\<close>: a run of \<open>m\<close> that returns leads from a database in \<open>I\<close> to one in \<open>I\<close>. The
  rules follow the constructs, so the preservation proof of an operation follows its text.
\<close>

definition keeps :: "('d \<Rightarrow> bool) \<Rightarrow> ('d, 'e, 'a) tx \<Rightarrow> bool" where
  "keeps I m \<longleftrightarrow> (\<forall>s a t. I (st_db s) \<longrightarrow> m s = (Inr a, t) \<longrightarrow> I (st_db t))"

lemma keepsI: "(\<And>s a t. I (st_db s) \<Longrightarrow> m s = (Inr a, t) \<Longrightarrow> I (st_db t)) \<Longrightarrow> keeps I m"
  by (auto simp: keeps_def)

lemma keepsD: "keeps I m \<Longrightarrow> m s = (Inr a, t) \<Longrightarrow> I (st_db s) \<Longrightarrow> I (st_db t)"
  by (auto simp: keeps_def)

lemma keeps_return [intro, simp]: "keeps I (tx_return a)"
  by (rule keepsI) (simp add: tx_simps)

lemma keeps_raise [intro, simp]: "keeps I (tx_raise e)"
  by (rule keepsI) (simp add: tx_simps)

lemma keeps_require [intro, simp]: "keeps I (tx_require c e)"
  by (rule keepsI) (simp add: tx_simps)

lemma keeps_lift [intro, simp]: "keeps I (tx_lift r)"
  by (rule keepsI) (simp add: tx_simps)

lemma keeps_query [intro, simp]: "keeps I (tx_query g)"
  by (rule keepsI) (simp add: tx_simps)

lemma keeps_world_call [intro, simp]: "keeps I (world_call g)"
  by (rule keepsI) (simp add: world_call_ok)

lemma keeps_world [intro, simp]:
  "keeps I time_time" "keeps I time_monotonic" "keeps I utc_now" "keeps I uuid4_hex"
  "keeps I token_urlsafe"
  by (simp_all add: time_time_def time_monotonic_def utc_now_def uuid4_hex_def token_urlsafe_def)

lemma keeps_bind: "keeps I m \<Longrightarrow> (\<And>a. keeps I (f a)) \<Longrightarrow> keeps I (tx_bind m f)"
  by (rule keepsI) (auto simp: tx_bind_ok dest: keepsD)

lemma keeps_then: "keeps I m \<Longrightarrow> keeps I n \<Longrightarrow> keeps I (tx_then m n)"
  by (simp add: tx_then_def keeps_bind)

lemma keeps_execute: "(\<And>d. I d \<Longrightarrow> I (f d)) \<Longrightarrow> keeps I (tx_execute f)"
  by (rule keepsI) (simp add: tx_simps)

lemma keeps_for: "(\<And>x. keeps I (f x)) \<Longrightarrow> keeps I (tx_for f xs)"
  by (induction xs) (auto intro!: keeps_bind)

lemma keeps_with_connection: "keeps I m \<Longrightarrow> keeps I (with_connection m)"
  by (rule keepsI) (auto simp: with_connection_ok dest: keepsD)

text \<open>A whole API call, whatever its outcome: on a raise the transaction was rolled back.\<close>

lemma with_connection_invariant:
  assumes "keeps I m" and "I (st_db s)"
  shows "I (st_db (snd (with_connection m s)))"
proof (cases "m s")
  case (Pair r t)
  then show ?thesis
    using assms by (cases r) (auto simp: with_connection_def dest: keepsD)
qed

section \<open>Atomic calls\<close>

text \<open>\<open>readonly\<close>: the database is as before, whatever the outcome. \<open>atomic\<close>: it is as before after a raise.\<close>

definition readonly :: "('d, 'e, 'a) tx \<Rightarrow> bool" where
  "readonly m \<longleftrightarrow> (\<forall>s. st_db (snd (m s)) = st_db s)"

definition atomic :: "('d, 'e, 'a) tx \<Rightarrow> bool" where
  "atomic m \<longleftrightarrow> (\<forall>s e t. m s = (Inl e, t) \<longrightarrow> st_db t = st_db s)"

named_theorems atomic_intros \<open>syntax-directed rules for atomic and readonly\<close>

lemma readonlyI: "(\<And>s. st_db (snd (m s)) = st_db s) \<Longrightarrow> readonly m"
  by (simp add: readonly_def)

lemma readonly_basic [atomic_intros]:
  "readonly (tx_return a)" "readonly (tx_raise e)" "readonly (tx_require c e)" "readonly (tx_lift r)"
  "readonly (tx_query g)" "readonly time_time" "readonly time_monotonic" "readonly utc_now"
  "readonly uuid4_hex" "readonly token_urlsafe"
  by (rule readonlyI; simp add: tx_return_def tx_raise_def tx_require_def tx_lift_def tx_query_def
      time_time_def time_monotonic_def utc_now_def uuid4_hex_def token_urlsafe_def world_call_def)+

lemma readonly_atomic: "readonly m \<Longrightarrow> atomic m"
  by (auto simp: atomic_def readonly_def) (metis snd_conv)

lemma atomic_basic [atomic_intros]:
  "atomic (tx_return a)" "atomic (tx_raise e)" "atomic (tx_require c e)" "atomic (tx_lift r)" "atomic (tx_query g)"
  by (intro readonly_atomic readonly_basic)+

lemma atomic_with_connection [atomic_intros]: "atomic (with_connection m)"
  by (auto simp: atomic_def dest: with_connection_error)

lemma atomic_bind [atomic_intros]: "readonly m \<Longrightarrow> (\<And>a. atomic (f a)) \<Longrightarrow> atomic (tx_bind m f)"
  by (auto simp: atomic_def readonly_def tx_bind_err) (metis snd_conv)+

lemma atomic_then [atomic_intros]: "readonly m \<Longrightarrow> atomic n \<Longrightarrow> atomic (tx_then m n)"
  by (simp add: tx_then_def atomic_bind)

lemma atomicD: "atomic m \<Longrightarrow> m s = (Inl e, t) \<Longrightarrow> st_db t = st_db s"
  by (auto simp: atomic_def)

section \<open>Tables\<close>

definition update_where :: "('r \<Rightarrow> bool) \<Rightarrow> ('r \<Rightarrow> 'r) \<Rightarrow> 'r list \<Rightarrow> 'r list" where
  "update_where P f rows = map (\<lambda>r. if P r then f r else r) rows"

text \<open>\<open>fetchone\<close> of a SELECT.\<close>

definition fetch_one :: "('r \<Rightarrow> bool) \<Rightarrow> 'r list \<Rightarrow> 'r option" where
  "fetch_one P rows = find P rows"

lemma update_where_simps [row_simps, simp]:
  "update_where P f [] = []"
  "update_where P f (r # rs) = (if P r then f r else r) # update_where P f rs"
  by (simp_all add: update_where_def)

lemma length_update_where [simp]: "length (update_where P f rows) = length rows"
  by (simp add: update_where_def)

lemma set_update_where [row_simps]:
  "set (update_where P f rows) = (\<lambda>r. if P r then f r else r) ` set rows"
  by (auto simp: update_where_def)

lemma map_update_where:
  "(\<And>r. P r \<Longrightarrow> g (f r) = g r) \<Longrightarrow> map g (update_where P f rows) = map g rows"
  by (auto simp: update_where_def)

lemma fetch_one_SomeD: "fetch_one P rows = Some r \<Longrightarrow> r \<in> set rows \<and> P r"
  by (auto simp: fetch_one_def find_Some_iff in_set_conv_nth)

lemma fetch_one_NoneD: "fetch_one P rows = None \<Longrightarrow> \<forall>r \<in> set rows. \<not> P r"
  by (simp add: fetch_one_def find_None_iff)

lemma fetch_one_unique:
  assumes "distinct (map k rows)" and "r \<in> set rows"
  shows "fetch_one (\<lambda>x. k x = k r) rows = Some r"
  using assms unfolding fetch_one_def by (induction rows) (auto simp: image_iff)

lemma update_where_cong:
  "(\<And>r. r \<in> set rows \<Longrightarrow> P r = Q r) \<Longrightarrow> (\<And>r. r \<in> set rows \<Longrightarrow> Q r \<Longrightarrow> f r = g r) \<Longrightarrow>
     update_where P f rows = update_where Q g rows"
  by (auto simp: update_where_def)

lemma update_where_twice:
  assumes "\<And>r. P (f r) = P r" and "\<And>r. f (f r) = f r"
  shows "update_where P f (update_where Q f rows) = update_where (\<lambda>r. P r \<or> Q r) f rows"
  using assms by (auto simp: update_where_def)

lemma update_where_none: "(\<And>r. r \<in> set rows \<Longrightarrow> \<not> P r) \<Longrightarrow> update_where P f rows = rows"
  by (induction rows) auto

lemma distinct_key_eq: "distinct (map k rows) \<Longrightarrow> r \<in> set rows \<Longrightarrow> q \<in> set rows \<Longrightarrow> k r = k q \<Longrightarrow> r = q"
  by (auto simp: distinct_map dest: inj_onD)

section \<open>Loops over a snapshot\<close>

text \<open>
  A loop whose body handles one row of a list read before: \<open>J\<close> speaks of the rows still to come
  and of the current database.
\<close>

lemma tx_for_rule:
  assumes "tx_for f xs s = (Inr ys, t)" and "J xs (st_db s)"
    and "\<And>x xs u a v. J (x # xs) (st_db u) \<Longrightarrow> f x u = (Inr a, v) \<Longrightarrow> J xs (st_db v)"
  shows "J [] (st_db t)"
  using assms(1,2)
proof (induction xs arbitrary: s ys)
  case Nil
  then show ?case by (simp add: tx_simps)
next
  case (Cons x xs)
  then show ?case using assms(3) by (fastforce simp: tx_simps)
qed

end
