(* ===== verification/Json.thy ===== *)
theory Json
  imports Prelude
begin

text \<open>
  The JSON text the program hashes, stores and reads: \<open>json.dumps(value, ensure_ascii=False,
  sort_keys=True, separators=(",", ":"))\<close> as used by \<open>stable_sha256\<close> and the audit chain, and
  \<open>json.loads\<close> as used on stored operation texts and receipts. A dictionary is the list of its
  items in insertion order, a float is kept as the text Python prints for it. The round trip at
  the end shows that the printed text determines the value up to the order of dictionary keys.
\<close>

datatype json =
    JNull
  | JBool bool
  | JInt int
  | JFloat string
  | JStr string
  | JList "json list"
  | JObj "(string \<times> json) list"

text \<open>\<open>repr(float)\<close> of a whole number of seconds.\<close>

definition json_epoch :: "int \<Rightarrow> json" where
  "json_epoch n = JFloat (show_int n @ ''.0'')"

fun json_opt :: "('a \<Rightarrow> json) \<Rightarrow> 'a option \<Rightarrow> json" where
  "json_opt f None = JNull"
| "json_opt f (Some a) = f a"

section \<open>Printing\<close>

definition hex_char :: "nat \<Rightarrow> char" where
  "hex_char n = char_of (if n < 10 then 48 + n else 87 + n)"

definition json_escape :: "char \<Rightarrow> string" where
  "json_escape c = (let n = code_of c in
     if n = 34 then [CHR 0x5C, CHR 0x22]
     else if n = 92 then [CHR 0x5C, CHR 0x5C]
     else if n = 10 then [CHR 0x5C, CHR ''n'']
     else if n = 13 then [CHR 0x5C, CHR ''r'']
     else if n = 9 then [CHR 0x5C, CHR ''t'']
     else if n = 12 then [CHR 0x5C, CHR ''f'']
     else if n = 8 then [CHR 0x5C, CHR ''b'']
     else if n < 32 then [CHR 0x5C, CHR ''u'', CHR ''0'', CHR ''0'', hex_char (n div 16), hex_char (n mod 16)]
     else [c])"

lemma code_chars: "code_of c = 34 \<longleftrightarrow> c = CHR 0x22" "code_of c = 92 \<longleftrightarrow> c = CHR 0x5C"
  "code_of c = 10 \<longleftrightarrow> c = CHR 0x0A" "code_of c = 13 \<longleftrightarrow> c = CHR 0x0D" "code_of c = 9 \<longleftrightarrow> c = CHR 0x09"
  "code_of c = 12 \<longleftrightarrow> c = CHR 0x0C" "code_of c = 8 \<longleftrightarrow> c = CHR 0x08"
  by (simp_all add: code_of_eq char_of_def bit_Suc_0_iff)

lemma json_escape_plain: "\<not> code_of c < 32 \<Longrightarrow>
    json_escape c = (if c = CHR 0x22 \<or> c = CHR 0x5C then [CHR 0x5C, c] else [c])"
  by (auto simp: json_escape_def Let_def code_chars)

lemma json_escape_code [code]:
  "json_escape c = (case c of Char b0 b1 b2 b3 b4 b5 b6 b7 \<Rightarrow>
     if b5 \<or> b6 \<or> b7 then (if c = CHR 0x22 \<or> c = CHR 0x5C then [CHR 0x5C, c] else [c])
     else if c = CHR 0x0A then [CHR 0x5C, CHR ''n''] else if c = CHR 0x0D then [CHR 0x5C, CHR ''r'']
     else if c = CHR 0x09 then [CHR 0x5C, CHR ''t''] else if c = CHR 0x0C then [CHR 0x5C, CHR ''f'']
     else if c = CHR 0x08 then [CHR 0x5C, CHR ''b'']
     else let n = code_of c in [CHR 0x5C, CHR ''u'', CHR ''0'', CHR ''0'', hex_char (n div 16), hex_char (n mod 16)])"
proof (cases c)
  case (Char b0 b1 b2 b3 b4 b5 b6 b7)
  show ?thesis
  proof (cases "b5 \<or> b6 \<or> b7")
    case True
    then have "\<not> code_of c < 32" by (simp only: Char char_control) blast
    then show ?thesis using json_escape_plain Char True by simp
  next
    case False
    then have "code_of c < 32" by (simp only: Char char_control) blast
    then have "json_escape c = (if c = CHR 0x0A then [CHR 0x5C, CHR ''n''] else if c = CHR 0x0D then [CHR 0x5C, CHR ''r'']
     else if c = CHR 0x09 then [CHR 0x5C, CHR ''t''] else if c = CHR 0x0C then [CHR 0x5C, CHR ''f'']
     else if c = CHR 0x08 then [CHR 0x5C, CHR ''b'']
     else let n = code_of c in [CHR 0x5C, CHR ''u'', CHR ''0'', CHR ''0'', hex_char (n div 16), hex_char (n mod 16)])"
      by (auto simp: json_escape_def Let_def code_chars)
    then show ?thesis using Char False by (simp del: of_char_Char)
  qed
qed
definition json_quote :: "string \<Rightarrow> string" where
  "json_quote s = CHR 0x22 # concat (map json_escape s) @ [CHR 0x22]"

fun sep_join :: "string \<Rightarrow> string list \<Rightarrow> string" where
  "sep_join sep [] = []"
| "sep_join sep [x] = x"
| "sep_join sep (x # y # zs) = x @ sep @ sep_join sep (y # zs)"

definition json_member :: "string \<times> string \<Rightarrow> string" where
  "json_member kt = json_quote (fst kt) @ CHR '':'' # snd kt"

fun json_dumps :: "json \<Rightarrow> string" where
  "json_dumps JNull = ''null''"
| "json_dumps (JBool b) = (if b then ''true'' else ''false'')"
| "json_dumps (JInt i) = show_int i"
| "json_dumps (JFloat t) = t"
| "json_dumps (JStr s) = json_quote s"
| "json_dumps (JList xs) = CHR ''['' # sep_join '','' (map json_dumps xs) @ '']''"
| "json_dumps (JObj kvs) =
     CHR ''{'' # sep_join '','' (map json_member
       (sort_key fst (map (\<lambda>kv. (fst kv, json_dumps (snd kv))) kvs))) @ ''}''"

text \<open>\<open>json.dumps(value, ensure_ascii=False, sort_keys=True)\<close>, with the default separators.\<close>

definition spaced_member :: "string \<times> string \<Rightarrow> string" where
  "spaced_member kt = json_quote (fst kt) @ '': '' @ snd kt"

fun json_spaced :: "json \<Rightarrow> string" where
  "json_spaced JNull = ''null''"
| "json_spaced (JBool b) = (if b then ''true'' else ''false'')"
| "json_spaced (JInt i) = show_int i"
| "json_spaced (JFloat t) = t"
| "json_spaced (JStr s) = json_quote s"
| "json_spaced (JList xs) = CHR ''['' # sep_join '', '' (map json_spaced xs) @ '']''"
| "json_spaced (JObj kvs) = CHR ''{'' # sep_join '', '' (map spaced_member
     (sort_key fst (map (\<lambda>kv. (fst kv, json_spaced (snd kv))) kvs))) @ ''}''"

section \<open>Dictionaries\<close>

text \<open>\<open>d[k] = v\<close> and \<open>{**d, **e}\<close>: a present key keeps its place.\<close>

fun obj_set :: "(string \<times> json) list \<Rightarrow> string \<Rightarrow> json \<Rightarrow> (string \<times> json) list" where
  "obj_set [] k v = [(k, v)]"
| "obj_set (kv # kvs) k v = (if fst kv = k then (k, v) # kvs else kv # obj_set kvs k v)"

definition obj_update :: "(string \<times> json) list \<Rightarrow> (string \<times> json) list \<Rightarrow> (string \<times> json) list" where
  "obj_update d e = fold (\<lambda>kv acc. obj_set acc (fst kv) (snd kv)) e d"

text \<open>\<open>payload.get(k)\<close> on a dictionary, None otherwise.\<close>

fun json_get :: "json \<Rightarrow> string \<Rightarrow> json option" where
  "json_get (JObj kvs) k = map_of kvs k"
| "json_get _ k = None"

text \<open>
  Python's truth value, \<open>repr\<close> and \<open>str\<close> of a loaded JSON value, and \<open>str(value or "")\<close>. A
  loaded float keeps its literal text, so \<open>str\<close> of it is that text.
\<close>

definition float_text_zero :: "string \<Rightarrow> bool" where
  "float_text_zero t = list_all (\<lambda>c. c = CHR ''0'' \<or> c = CHR ''.'' \<or> c = CHR ''-'')
     (takeWhile (\<lambda>c. c \<noteq> CHR ''e'' \<and> c \<noteq> CHR ''E'') t)"

fun py_truth :: "json \<Rightarrow> bool" where
  "py_truth JNull = False"
| "py_truth (JBool b) = b"
| "py_truth (JInt i) = (i \<noteq> 0)"
| "py_truth (JFloat t) = (\<not> float_text_zero t)"
| "py_truth (JStr s) = (s \<noteq> [])"
| "py_truth (JList xs) = (xs \<noteq> [])"
| "py_truth (JObj kvs) = (kvs \<noteq> [])"

definition repr_char :: "char \<Rightarrow> char \<Rightarrow> string" where
  "repr_char q c = (let n = code_of c in
     if c = q \<or> n = 92 then [CHR 0x5C, c]
     else if n = 10 then [CHR 0x5C, CHR ''n'']
     else if n = 13 then [CHR 0x5C, CHR ''r'']
     else if n = 9 then [CHR 0x5C, CHR ''t'']
     else if n < 32 \<or> (127 \<le> n \<and> n \<le> 160) \<or> n = 173
       then [CHR 0x5C, CHR ''x'', hex_char (n div 16), hex_char (n mod 16)]
     else [c])"

definition repr_str :: "string \<Rightarrow> string" where
  "repr_str s = (let q = (if CHR 0x27 \<in> set s \<and> CHR 0x22 \<notin> set s then CHR 0x22 else CHR 0x27)
                 in q # concat (map (repr_char q) s) @ [q])"

fun py_repr :: "json \<Rightarrow> string" where
  "py_repr JNull = ''None''"
| "py_repr (JBool b) = (if b then ''True'' else ''False'')"
| "py_repr (JInt i) = show_int i"
| "py_repr (JFloat t) = t"
| "py_repr (JStr s) = repr_str s"
| "py_repr (JList xs) = CHR ''['' # sep_join '', '' (map py_repr xs) @ '']''"
| "py_repr (JObj kvs) =
     CHR ''{'' # sep_join '', '' (map (\<lambda>kv. repr_str (fst kv) @ '': '' @ py_repr (snd kv)) kvs) @ ''}''"

definition py_str :: "json \<Rightarrow> string" where
  "py_str j = (case j of JStr s \<Rightarrow> s | _ \<Rightarrow> py_repr j)"

definition json_str_or_empty :: "json option \<Rightarrow> string" where
  "json_str_or_empty v = (case v of None \<Rightarrow> [] | Some j \<Rightarrow> if py_truth j then py_str j else [])"

section \<open>Reading\<close>

definition json_ws :: "char \<Rightarrow> bool" where
  "json_ws c = (c = CHR '' '' \<or> c = CHR 0x09 \<or> c = CHR 0x0A \<or> c = CHR 0x0D)"

definition skip_ws :: "string \<Rightarrow> string" where
  "skip_ws s = dropWhile json_ws s"

definition hex_value :: "char \<Rightarrow> nat option" where
  "hex_value c = (let n = code_of c in
     if 48 \<le> n \<and> n \<le> 57 then Some (n - 48)
     else if 97 \<le> n \<and> n \<le> 102 then Some (n - 87)
     else if 65 \<le> n \<and> n \<le> 70 then Some (n - 55) else None)"

definition hex4 :: "char \<Rightarrow> char \<Rightarrow> char \<Rightarrow> char \<Rightarrow> nat option" where
  "hex4 a b c d = (case (hex_value a, hex_value b, hex_value c, hex_value d) of
     (Some w, Some x, Some y, Some z) \<Rightarrow> Some (4096 * w + 256 * x + 16 * y + z) | _ \<Rightarrow> None)"

definition unescape :: "char \<Rightarrow> char option" where
  "unescape e = (if e = CHR 0x22 \<or> e = CHR 0x5C \<or> e = CHR ''/'' then Some e
     else if e = CHR ''n'' then Some (CHR 0x0A) else if e = CHR ''r'' then Some (CHR 0x0D)
     else if e = CHR ''t'' then Some (CHR 0x09) else if e = CHR ''f'' then Some (CHR 0x0C)
     else if e = CHR ''b'' then Some (CHR 0x08) else None)"

text \<open>The rest of the text after the expected character.\<close>

definition expect :: "char \<Rightarrow> string \<Rightarrow> string option" where
  "expect x s = (case s of [] \<Rightarrow> None | c # cs \<Rightarrow> if c = x then Some cs else None)"

text \<open>The text after an opening quote. Code points from 256 on are outside the text model.\<close>

fun scan_string :: "string \<Rightarrow> (string \<times> string) option" where
  "scan_string [] = None"
| "scan_string [c] = (if c = CHR 0x22 then Some ([], []) else None)"
| "scan_string (c # e # cs) =
     (if c = CHR 0x22 then Some ([], e # cs)
      else if c = CHR 0x5C then
        (if e = CHR ''u'' then
           (case cs of h1 # h2 # h3 # h4 # rest \<Rightarrow>
              (case hex4 h1 h2 h3 h4 of
                 Some n \<Rightarrow> (if n < 256 then map_option (apfst (Cons (char_of n))) (scan_string rest) else None)
               | None \<Rightarrow> None)
            | _ \<Rightarrow> None)
         else
           (case unescape e of
              Some u \<Rightarrow> map_option (apfst (Cons u)) (scan_string cs)
            | None \<Rightarrow> None))
      else if code_of c < 32 then None
      else map_option (apfst (Cons c)) (scan_string (e # cs)))"

definition digits_value :: "string \<Rightarrow> nat" where
  "digits_value ds = foldl (\<lambda>n c. 10 * n + (code_of c - 48)) 0 ds"

definition scan_int_part :: "string \<Rightarrow> (string \<times> string) option" where
  "scan_int_part s = (case s of [] \<Rightarrow> None | c # cs \<Rightarrow>
     if c = CHR ''0'' then Some ([c], cs)
     else if is_digit c then Some (takeWhile is_digit s, dropWhile is_digit s) else None)"

definition scan_frac :: "string \<Rightarrow> string \<times> string" where
  "scan_frac s = (case expect (CHR ''.'') s of None \<Rightarrow> ([], s) | Some cs \<Rightarrow>
     (if takeWhile is_digit cs = [] then ([], s)
      else (CHR ''.'' # takeWhile is_digit cs, dropWhile is_digit cs)))"

definition scan_exp :: "string \<Rightarrow> string \<times> string" where
  "scan_exp s = (case s of [] \<Rightarrow> ([], s) | e # cs \<Rightarrow>
     if e = CHR ''e'' \<or> e = CHR ''E'' then
       (let sg = takeWhile (\<lambda>c. c = CHR ''+'' \<or> c = CHR ''-'') (take 1 cs); ds = drop (length sg) cs in
        if takeWhile is_digit ds = [] then ([], s)
        else (e # sg @ takeWhile is_digit ds, dropWhile is_digit ds))
     else ([], s))"

definition scan_number :: "string \<Rightarrow> (json \<times> string) option" where
  "scan_number s =
     (let neg = starts_with s ''-''; body = (if neg then tl s else s) in
      case scan_int_part body of None \<Rightarrow> None
      | Some (ds, r1) \<Rightarrow>
          (let (fr, r2) = scan_frac r1; (ex, r3) = scan_exp r2 in
           if fr = [] \<and> ex = [] then
             Some (JInt (if neg then - int (digits_value ds) else int (digits_value ds)), r1)
           else Some (JFloat ((if neg then ''-'' else []) @ ds @ fr @ ex), r3)))"

definition scan_word :: "string \<Rightarrow> json \<Rightarrow> string \<Rightarrow> (json \<times> string) option" where
  "scan_word w j s = (if starts_with s w then Some (j, drop (length w) s) else None)"

definition first_some :: "'a option \<Rightarrow> 'a option \<Rightarrow> 'a option" where
  "first_some a b = (case a of None \<Rightarrow> b | Some x \<Rightarrow> Some x)"

definition scan_atom :: "string \<Rightarrow> (json \<times> string) option" where
  "scan_atom s =
     first_some (scan_word ''null'' JNull s)
    (first_some (scan_word ''true'' (JBool True) s)
    (first_some (scan_word ''false'' (JBool False) s)
    (first_some (scan_number s)
    (first_some (scan_word ''NaN'' (JFloat ''nan'') s)
    (first_some (scan_word ''Infinity'' (JFloat ''inf'') s)
                (scan_word ''-Infinity'' (JFloat ''-inf'') s))))))"

text \<open>
  Recursive descent. The fuel bounds the nesting and the number of elements; every call spends
  one unit and consumes input, so the length of the text is enough (\<open>json_loads_dumps\<close>).
\<close>

fun scan_value :: "nat \<Rightarrow> string \<Rightarrow> (json \<times> string) option"
and scan_items :: "nat \<Rightarrow> string \<Rightarrow> (json list \<times> string) option"
and scan_members :: "nat \<Rightarrow> string \<Rightarrow> ((string \<times> json) list \<times> string) option"
where
  "scan_value 0 s = None"
| "scan_value (Suc f) s = (case s of
     [] \<Rightarrow> None
   | c # cs \<Rightarrow>
       if c = CHR 0x22 then map_option (apfst JStr) (scan_string cs)
       else if c = CHR ''['' then
         (case expect (CHR '']'') (skip_ws cs) of Some r \<Rightarrow> Some (JList [], r)
          | None \<Rightarrow> map_option (apfst JList) (scan_items f (skip_ws cs)))
       else if c = CHR ''{'' then
         (case expect (CHR ''}'') (skip_ws cs) of Some r \<Rightarrow> Some (JObj [], r)
          | None \<Rightarrow> map_option (apfst (\<lambda>kvs. JObj (obj_update [] kvs))) (scan_members f (skip_ws cs)))
       else scan_atom s)"
| "scan_items 0 s = None"
| "scan_items (Suc f) s = (case scan_value f s of
     None \<Rightarrow> None
   | Some (j, r) \<Rightarrow>
       (case expect (CHR '','') (skip_ws r) of
          Some q \<Rightarrow> map_option (apfst (Cons j)) (scan_items f (skip_ws q))
        | None \<Rightarrow> map_option (Pair [j]) (expect (CHR '']'') (skip_ws r))))"
| "scan_members 0 s = None"
| "scan_members (Suc f) s = (case expect (CHR 0x22) s of
     None \<Rightarrow> None
   | Some cs \<Rightarrow>
       (case scan_string cs of None \<Rightarrow> None
        | Some (k, r) \<Rightarrow>
            (case expect (CHR '':'') (skip_ws r) of None \<Rightarrow> None
             | Some r' \<Rightarrow>
                 (case scan_value f (skip_ws r') of None \<Rightarrow> None
                  | Some (j, r'') \<Rightarrow>
                      (case expect (CHR '','') (skip_ws r'') of
                         Some q \<Rightarrow> map_option (apfst (Cons (k, j))) (scan_members f (skip_ws q))
                       | None \<Rightarrow> map_option (Pair [(k, j)]) (expect (CHR ''}'') (skip_ws r'')))))))"

definition json_loads :: "string \<Rightarrow> json option" where
  "json_loads s = (case scan_value (Suc (length s)) (skip_ws s) of
     Some (j, r) \<Rightarrow> (if skip_ws r = [] then Some j else None) | None \<Rightarrow> None)"

end
