(* ===== verification/JsonRoundtrip.thy ===== *)
theory JsonRoundtrip
  imports Json
begin

text \<open>
  Reading back what was printed: \<open>json_loads (json_dumps j)\<close> is \<open>j\<close> with every dictionary in
  key order. The printed text therefore determines the value, which is what a digest of it
  relies on, and so does its UTF-8 encoding.
\<close>

section \<open>Decimal numbers\<close>

lemma of_char_less [simp]: "(of_char c :: nat) < 256"
  using of_char_mod_256 [of c, where ?'a = nat] by (metis mod_less_divisor zero_less_numeral)

lemma code_of_char_of [simp]: "n < 256 \<Longrightarrow> code_of (char_of n) = n"
  by simp

lemma char_eq_code: "c = d \<longleftrightarrow> code_of c = code_of d"
  by simp

lemma show_nat_small: "n < 10 \<Longrightarrow> show_nat n = [char_of (48 + n)]"
  by (simp add: show_nat.simps)

lemma show_nat_big: "\<not> n < 10 \<Longrightarrow> show_nat n = show_nat (n div 10) @ [char_of (48 + n mod 10)]"
  by (simp add: show_nat.simps)

lemma show_nat_digits: "list_all is_digit (show_nat n)"
proof (induction n rule: show_nat.induct)
  case (1 n)
  show ?case
  proof (cases "n < 10")
    case True
    then show ?thesis by (simp add: show_nat_small is_digit_def)
  next
    case False
    have "n mod 10 < 10" by simp
    with False "1" show ?thesis by (simp add: show_nat_big is_digit_def)
  qed
qed

lemma show_nat_nonempty [simp]: "show_nat n \<noteq> []"
  by (simp add: show_nat.simps)

lemma digits_value_snoc: "digits_value (ds @ [c]) = 10 * digits_value ds + (code_of c - 48)"
  by (simp add: digits_value_def)

lemma digits_value_show_nat: "digits_value (show_nat n) = n"
proof (induction n rule: show_nat.induct)
  case (1 n)
  show ?case
  proof (cases "n < 10")
    case True
    then show ?thesis by (simp add: show_nat_small digits_value_def)
  next
    case False
    have "n mod 10 < 10" by simp
    with False "1" show ?thesis by (simp add: show_nat_big digits_value_snoc)
  qed
qed

lemma show_nat_zero_head: "hd (show_nat n) = CHR ''0'' \<Longrightarrow> show_nat n = [CHR ''0'']"
proof (induction n rule: show_nat.induct)
  case (1 n)
  show ?case
  proof (cases "n < 10")
    case True
    then show ?thesis using "1.prems" by (simp add: show_nat_small)
  next
    case False
    then have "hd (show_nat (n div 10)) = CHR ''0''"
      using "1.prems" by (simp add: show_nat_big)
    then have "show_nat (n div 10) = [CHR ''0'']"
      using "1.IH" False by simp
    then have "n div 10 = digits_value [CHR ''0'']"
      by (metis digits_value_show_nat)
    then show ?thesis using False by (simp add: digits_value_def)
  qed
qed

text \<open>What may follow a number: nothing that continues it.\<close>

definition ends_number :: "string \<Rightarrow> bool" where
  "ends_number r = (case r of [] \<Rightarrow> True | c # _ \<Rightarrow>
     \<not> is_digit c \<and> c \<noteq> CHR ''.'' \<and> c \<noteq> CHR ''e'' \<and> c \<noteq> CHR ''E'')"

lemma takeWhile_digits: "list_all is_digit ds \<Longrightarrow> ends_number r \<Longrightarrow>
    takeWhile is_digit (ds @ r) = ds \<and> dropWhile is_digit (ds @ r) = r"
  by (induction ds) (auto simp: ends_number_def split: list.splits)

lemma scan_int_part_show_nat:
  assumes "r = [] \<or> \<not> is_digit (hd r)"
  shows "scan_int_part (show_nat n @ r) = Some (show_nat n, r)"
proof (cases "hd (show_nat n) = CHR ''0''")
  case True
  then have "show_nat n = [CHR ''0'']" by (rule show_nat_zero_head)
  then show ?thesis by (simp add: scan_int_part_def)
next
  case False
  obtain c cs where c: "show_nat n = c # cs" by (cases "show_nat n") auto
  have dg: "list_all is_digit (c # cs)" using show_nat_digits [of n] c by simp
  have "takeWhile is_digit ((c # cs) @ r) = c # cs \<and> dropWhile is_digit ((c # cs) @ r) = r"
    using dg assms by (induction cs) (cases r; auto)+
  then show ?thesis using c dg False by (simp add: scan_int_part_def)
qed

lemma scan_frac_none: "ends_number r \<Longrightarrow> scan_frac r = ([], r)"
  by (auto simp: scan_frac_def expect_def ends_number_def split: list.splits option.splits)

lemma scan_exp_none: "ends_number r \<Longrightarrow> scan_exp r = ([], r)"
  by (auto simp: scan_exp_def ends_number_def split: list.splits)

lemma ends_number_no_digit: "ends_number r \<Longrightarrow> r = [] \<or> \<not> is_digit (hd r)"
  by (auto simp: ends_number_def split: list.splits)

lemma is_digit_not_minus: "is_digit c \<Longrightarrow> c \<noteq> CHR ''-''"
  by (auto simp: is_digit_def)

lemma show_nat_head_digit: "is_digit (hd (show_nat n))"
  using show_nat_digits [of n] by (cases "show_nat n") auto

lemma show_nat_not_minus: "\<not> starts_with (show_nat n @ r) ''-''"
  using show_nat_head_digit [of n] by (cases "show_nat n") (auto simp: starts_with_def dest: is_digit_not_minus)

lemma starts_with_minus [simp]: "starts_with (CHR ''-'' # s) ''-''"
  by (simp add: starts_with_def)

lemma show_int_cases:
  obtains (neg) "i < 0" "show_int i = CHR ''-'' # show_nat (nat (- i))"
  | (pos) "0 \<le> i" "show_int i = show_nat (nat i)"
  by (cases "i < 0") (auto simp: show_int_def)

lemma scan_number_show_int:
  assumes "ends_number r"
  shows "scan_number (show_int i @ r) = Some (JInt i, r)"
  using assms
  by (cases i rule: show_int_cases)
     (auto simp: scan_number_def show_nat_not_minus scan_int_part_show_nat ends_number_no_digit
        scan_frac_none scan_exp_none digits_value_show_nat Let_def)

lemma scan_number_epoch:
  assumes "ends_number r"
  shows "scan_number (show_int i @ ''.0'' @ r) = Some (JFloat (show_int i @ ''.0''), r)"
proof -
  have h: "\<not> is_digit (CHR ''.'')" "is_digit (CHR ''0'')" by (simp_all add: is_digit_def)
  have "scan_frac (''.0'' @ r) = (''.0'', r)"
    using takeWhile_digits [of "''0''" r] assms h by (simp add: scan_frac_def expect_def)
  then show ?thesis using assms h
    by (cases i rule: show_int_cases)
       (auto simp: scan_number_def show_nat_not_minus scan_int_part_show_nat
          scan_exp_none Let_def)
qed

section \<open>Strings\<close>

lemma hex_value_hex_char: "n < 16 \<Longrightarrow> hex_value (hex_char n) = Some n"
  by (auto simp: hex_value_def hex_char_def Let_def)

lemma scan_string_escape:
  assumes "s \<noteq> []"
  shows "scan_string (json_escape c @ s) = map_option (apfst (Cons c)) (scan_string s)"
proof -
  obtain e cs where s: "s = e # cs" using assms by (cases s) auto
  let ?n = "code_of c"
  consider (named) "c \<in> {CHR 0x22, CHR 0x5C, CHR 0x0A, CHR 0x0D, CHR 0x09, CHR 0x0C, CHR 0x08}"
    | (control) "?n < 32" "?n \<notin> {8, 9, 10, 12, 13}"
    | (plain) "32 \<le> ?n" "?n \<noteq> 34" "?n \<noteq> 92"
    by (fastforce simp: char_eq_code)
  then show ?thesis
  proof cases
    case named
    then show ?thesis by (auto simp: json_escape_def Let_def unescape_def s)
  next
    case control
    have z: "hex_value (CHR ''0'') = Some 0" by (simp add: hex_value_def)
    have "hex4 (CHR ''0'') (CHR ''0'') (hex_char (?n div 16)) (hex_char (?n mod 16)) = Some ?n"
      using control by (simp add: hex4_def z hex_value_hex_char)
    then show ?thesis using control by (auto simp: json_escape_def Let_def)
  next
    case plain
    then have "c \<noteq> CHR 0x22" "c \<noteq> CHR 0x5C" by auto
    then show ?thesis using plain s by (auto simp: json_escape_def Let_def)
  qed
qed

lemma scan_string_quote: "scan_string (concat (map json_escape t) @ CHR 0x22 # r) = Some (t, r)"
proof (induction t)
  case Nil
  then show ?case by (cases r) simp_all
next
  case (Cons c t)
  then show ?case by (simp add: scan_string_escape)
qed

section \<open>Well-formed values and their canonical form\<close>

text \<open>Dictionaries have distinct keys; floats are whole epochs.\<close>

fun wf_json :: "json \<Rightarrow> bool" where
  "wf_json (JFloat t) = (\<exists>i. t = show_int i @ ''.0'')"
| "wf_json (JList xs) = (\<forall>x \<in> set xs. wf_json x)"
| "wf_json (JObj kvs) = (distinct (map fst kvs) \<and> (\<forall>kv \<in> set kvs. wf_json (snd kv)))"
| "wf_json _ = True"

fun canon :: "json \<Rightarrow> json" where
  "canon (JList xs) = JList (map canon xs)"
| "canon (JObj kvs) = JObj (sort_key fst (map (\<lambda>kv. (fst kv, canon (snd kv))) kvs))"
| "canon j = j"

lemma insort_key_map: "insort_key f (g x) (map g xs) = map g (insort_key (f \<circ> g) x xs)"
  by (induction xs) auto

lemma sort_key_map: "sort_key f (map g xs) = map g (sort_key (f \<circ> g) xs)"
  by (induction xs) (simp_all add: insort_key_map [unfolded comp_def] comp_def)

lemma sort_key_values:
  "sort_key fst (map (\<lambda>kv. (fst kv, g (snd kv))) kvs) = map (\<lambda>kv. (fst kv, g (snd kv))) (sort_key fst kvs)"
  by (simp add: sort_key_map comp_def)

lemma obj_set_fresh: "k \<notin> fst ` set d \<Longrightarrow> obj_set d k v = d @ [(k, v)]"
  by (induction d) auto

lemma obj_update_fresh:
  "distinct (map fst e) \<Longrightarrow> fst ` set d \<inter> fst ` set e = {} \<Longrightarrow> obj_update d e = d @ e"
proof (induction e arbitrary: d)
  case Nil
  then show ?case by (simp add: obj_update_def)
next
  case (Cons kv e)
  then have "obj_set d (fst kv) (snd kv) = d @ [kv]"
    by (simp add: obj_set_fresh)
  moreover have "obj_update (d @ [kv]) e = (d @ [kv]) @ e"
    using Cons.prems by (intro Cons.IH) auto
  ultimately show ?case by (simp add: obj_update_def)
qed

section \<open>The two layouts\<close>

text \<open>\<open>json.dumps\<close> with the compact separators and with the default ones differ in a space after every
  comma and colon. Both are this printer, and the round trip is proved for it.\<close>

fun json_text :: "string \<Rightarrow> json \<Rightarrow> string" where
  "json_text pad JNull = ''null''"
| "json_text pad (JBool b) = (if b then ''true'' else ''false'')"
| "json_text pad (JInt i) = show_int i"
| "json_text pad (JFloat t) = t"
| "json_text pad (JStr s) = json_quote s"
| "json_text pad (JList xs) = CHR ''['' # sep_join (CHR '','' # pad) (map (json_text pad) xs) @ '']''"
| "json_text pad (JObj kvs) = CHR ''{'' # sep_join (CHR '','' # pad) (map (\<lambda>kt. json_quote (fst kt) @ CHR '':'' # pad @ snd kt)
     (sort_key fst (map (\<lambda>kv. (fst kv, json_text pad (snd kv))) kvs))) @ ''}''"

lemma json_text_compact: "json_text [] j = json_dumps j"
proof (induction j)
  case (JList xs)
  then have "map (json_text []) xs = map json_dumps xs" by simp
  then show ?case by (simp only: json_text.simps json_dumps.simps)
next
  case (JObj kvs)
  then have "map (\<lambda>kv. (fst kv, json_text [] (snd kv))) kvs = map (\<lambda>kv. (fst kv, json_dumps (snd kv))) kvs"
    by (auto simp: snds.simps)
  moreover have "(\<lambda>kt. json_quote (fst kt) @ CHR '':'' # [] @ snd kt) = json_member"
    by (simp add: fun_eq_iff json_member_def)
  ultimately show ?case by (simp only: json_text.simps json_dumps.simps)
qed auto

lemma json_text_spaced: "json_text '' '' j = json_spaced j"
proof (induction j)
  case (JList xs)
  then have "map (json_text '' '') xs = map json_spaced xs" by simp
  then show ?case by (simp only: json_text.simps json_spaced.simps)
next
  case (JObj kvs)
  then have "map (\<lambda>kv. (fst kv, json_text '' '' (snd kv))) kvs = map (\<lambda>kv. (fst kv, json_spaced (snd kv))) kvs"
    by (auto simp: snds.simps)
  moreover have "(\<lambda>kt. json_quote (fst kt) @ CHR '':'' # '' '' @ snd kt) = spaced_member"
    by (simp add: fun_eq_iff spaced_member_def)
  ultimately show ?case by (simp only: json_text.simps json_spaced.simps)
qed auto

definition padded :: "string \<Rightarrow> bool" where
  "padded pad \<longleftrightarrow> pad = [] \<or> pad = '' ''"

lemma skip_pad: "padded pad \<Longrightarrow> skip_ws (pad @ s) = skip_ws s"
  by (auto simp: padded_def skip_ws_def json_ws_def)

section \<open>The first character of a printed value\<close>

definition value_head :: "char \<Rightarrow> bool" where
  "value_head c \<longleftrightarrow> is_digit c \<or> c \<in> {CHR ''n'', CHR ''t'', CHR ''f'', CHR ''-'', CHR 0x22, CHR ''['', CHR ''{''}"

lemma show_int_head: "\<exists>c cs. show_int i = c # cs \<and> (is_digit c \<or> c = CHR ''-'')"
proof (cases i rule: show_int_cases)
  case neg
  then show ?thesis by simp
next
  case pos
  then show ?thesis using show_nat_head_digit [of "nat i"] by (cases "show_nat (nat i)") auto
qed

lemma json_text_head:
  assumes "wf_json j"
  shows "\<exists>c cs. json_text pad j = c # cs \<and> value_head c"
proof (cases j)
  case (JInt i)
  then show ?thesis using show_int_head [of i] by (auto simp: value_head_def)
next
  case (JFloat t)
  then obtain i where "t = show_int i @ ''.0''" using assms by auto
  then show ?thesis using JFloat show_int_head [of i] by (auto simp: value_head_def)
qed (auto simp: value_head_def json_quote_def)

lemma value_head_not: "value_head c \<Longrightarrow> \<not> json_ws c \<and> c \<noteq> CHR '']''"
  by (auto simp: value_head_def json_ws_def is_digit_def)

lemma skip_ws_value: "wf_json j \<Longrightarrow> skip_ws (json_text pad j @ r) = json_text pad j @ r"
  using json_text_head [of j pad] value_head_not by (auto simp: skip_ws_def)

lemma expect_close_value: "wf_json j \<Longrightarrow> expect (CHR '']'') (json_text pad j @ r) = None"
  using json_text_head [of j pad] value_head_not by (auto simp: expect_def)

lemma skip_ws_nonws: "\<not> json_ws c \<Longrightarrow> skip_ws (c # s) = c # s"
  by (simp add: skip_ws_def)

lemma punctuation_nonws [simp]:
  "\<not> json_ws (CHR '','')" "\<not> json_ws (CHR '':'')" "\<not> json_ws (CHR '']'')" "\<not> json_ws (CHR ''}'')"
  "\<not> json_ws (CHR 0x22)"
  by (simp_all add: json_ws_def)

lemma punctuation_ends [simp]:
  "ends_number (CHR '','' # r)" "ends_number (CHR '']'' # r)" "ends_number (CHR ''}'' # r)"
  "ends_number []"
  by (simp_all add: ends_number_def is_digit_def)

section \<open>The round trip\<close>

definition reads_back :: "json \<Rightarrow> bool" where
  "reads_back j \<longleftrightarrow> (\<forall>pad f r. padded pad \<longrightarrow> ends_number r \<longrightarrow> length (json_text pad j) < f \<longrightarrow>
     scan_value f (json_text pad j @ r) = Some (canon j, r))"

lemma scan_atom_number:
  assumes "is_digit c \<or> c = CHR ''-''" and "scan_number (c # s) = Some x"
  shows "scan_atom (c # s) = Some x"
proof -
  have "c \<notin> {CHR ''n'', CHR ''t'', CHR ''f''}"
    using assms(1) by (auto simp: is_digit_def)
  then show ?thesis
    using assms(2) by (simp add: scan_atom_def scan_word_def starts_with_def first_some_def)
qed

lemma scan_value_number:
  assumes "is_digit c \<or> c = CHR ''-''" and "scan_number (c # s) = Some x"
  shows "scan_value (Suc f) (c # s) = Some x"
proof -
  have "c \<notin> {CHR 0x22, CHR ''['', CHR ''{''}"
    using assms(1) by (auto simp: is_digit_def)
  then show ?thesis using scan_atom_number [OF assms] by simp
qed

lemma reads_back_int: "reads_back (JInt i)"
  unfolding reads_back_def
proof (intro allI impI)
  fix pad f r
  assume pad: "padded pad" and r: "ends_number r" and f: "length (json_text pad (JInt i)) < f"
  obtain f' where f': "f = Suc f'" using f by (cases f) auto
  obtain c cs where c: "show_int i = c # cs" "is_digit c \<or> c = CHR ''-''"
    using show_int_head by blast
  have "scan_number (c # cs @ r) = Some (JInt i, r)"
    using scan_number_show_int [OF r, of i] c(1) by simp
  then show "scan_value f (json_text pad (JInt i) @ r) = Some (canon (JInt i), r)"
    using c scan_value_number f' by simp
qed

lemma reads_back_epoch: "reads_back (JFloat (show_int i @ ''.0''))"
  unfolding reads_back_def
proof (intro allI impI)
  fix pad f r
  assume pad: "padded pad" and r: "ends_number r" and f: "length (json_text pad (JFloat (show_int i @ ''.0''))) < f"
  obtain f' where f': "f = Suc f'" using f by (cases f) auto
  obtain c cs where c: "show_int i = c # cs" "is_digit c \<or> c = CHR ''-''"
    using show_int_head by blast
  have "scan_number (c # cs @ ''.0'' @ r) = Some (JFloat (show_int i @ ''.0''), r)"
    using scan_number_epoch [OF r, of i] c(1) by simp
  then show "scan_value f (json_text pad (JFloat (show_int i @ ''.0'')) @ r)
      = Some (canon (JFloat (show_int i @ ''.0'')), r)"
    using c scan_value_number f' by simp
qed

lemma reads_back_items:
  assumes "padded pad" and "\<forall>x \<in> set xs. reads_back x" and "\<forall>x \<in> set xs. wf_json x" and "xs \<noteq> []"
    and "length (sep_join (CHR '','' # pad) (map (json_text pad) xs)) + 1 < f"
  shows "scan_items f (sep_join (CHR '','' # pad) (map (json_text pad) xs) @ CHR '']'' # r) = Some (map canon xs, r)"
  using assms
proof (induction xs arbitrary: f)
  case Nil
  then show ?case by simp
next
  case (Cons x xs)
  obtain g where g: "f = Suc g" using Cons.prems(5) by (cases f) auto
  have x: "scan_value g (json_text pad x @ q) = Some (canon x, q)" if "ends_number q" for q
    using Cons.prems(1,2,5) g that by (cases xs) (auto simp: reads_back_def)
  note skip = skip_pad [OF Cons.prems(1)]
  show ?case
  proof (cases xs)
    case Nil
    then show ?thesis using x g by (simp add: skip skip_ws_nonws expect_def)
  next
    case (Cons y ys)
    have "scan_items g (sep_join (CHR '','' # pad) (map (json_text pad) xs) @ CHR '']'' # r) = Some (map canon xs, r)"
      using Cons.prems g Cons by (intro Cons.IH) auto
    moreover have "skip_ws (sep_join (CHR '','' # pad) (map (json_text pad) xs) @ q) = sep_join (CHR '','' # pad) (map (json_text pad) xs) @ q" for q
      using Cons Cons.prems(3) skip_ws_value [of y] by (cases ys) auto
    ultimately show ?thesis using x g Cons by (simp add: skip skip_ws_nonws expect_def)
  qed
qed

abbreviation member_of :: "string \<Rightarrow> string \<times> json \<Rightarrow> string" where
  "member_of pad kv \<equiv> json_quote (fst kv) @ CHR '':'' # pad @ json_text pad (snd kv)"

lemma member_of_Cons: "member_of pad kv @ q
    = CHR 0x22 # concat (map json_escape (fst kv)) @ CHR 0x22 # CHR '':'' # pad @ json_text pad (snd kv) @ q"
  by (simp add: json_quote_def)

lemma reads_back_members:
  assumes "padded pad" and "\<forall>kv \<in> set kvs. reads_back (snd kv)" and "\<forall>kv \<in> set kvs. wf_json (snd kv)" and "kvs \<noteq> []"
    and "length (sep_join (CHR '','' # pad) (map (member_of pad) kvs)) + 1 < f"
  shows "scan_members f (sep_join (CHR '','' # pad) (map (member_of pad) kvs) @ CHR ''}'' # r)
    = Some (map (\<lambda>kv. (fst kv, canon (snd kv))) kvs, r)"
  using assms
proof (induction kvs arbitrary: f)
  case Nil
  then show ?case by simp
next
  case (Cons kv kvs)
  obtain g where g: "f = Suc g" using Cons.prems(5) by (cases f) auto
  have v: "scan_value g (json_text pad (snd kv) @ q) = Some (canon (snd kv), q)" if "ends_number q" for q
    using Cons.prems(1,2,5) g that by (cases kvs) (auto simp: reads_back_def)
  have s: "scan_string (concat (map json_escape (fst kv)) @ CHR 0x22 # q) = Some (fst kv, q)" for q
    by (rule scan_string_quote)
  have w: "skip_ws (json_text pad (snd kv) @ q) = json_text pad (snd kv) @ q" for q
    using Cons.prems(3) skip_ws_value by simp
  note skip = skip_pad [OF Cons.prems(1)]
  show ?case
  proof (cases kvs)
    case Nil
    then show ?thesis using v g s w
      by (simp add: member_of_Cons skip skip_ws_nonws expect_def json_quote_def)
  next
    case (Cons z zs)
    have "scan_members g (sep_join (CHR '','' # pad) (map (member_of pad) kvs) @ CHR ''}'' # r)
        = Some (map (\<lambda>kv. (fst kv, canon (snd kv))) kvs, r)"
      using Cons.prems g Cons by (intro Cons.IH) auto
    moreover have "skip_ws (sep_join (CHR '','' # pad) (map (member_of pad) kvs) @ q) = sep_join (CHR '','' # pad) (map (member_of pad) kvs) @ q" for q
      using Cons by (cases zs) (auto simp: json_quote_def skip_ws_nonws)
    ultimately show ?thesis using v g s w Cons
      by (simp add: skip skip_ws_nonws expect_def json_quote_def)
  qed
qed

lemma reads_back_quote: "reads_back (JStr s)"
  unfolding reads_back_def
proof (intro allI impI)
  fix pad f r
  assume "padded pad" and "ends_number r" and "length (json_text pad (JStr s)) < f"
  then obtain g where "f = Suc g" by (cases f) auto
  then show "scan_value f (json_text pad (JStr s) @ r) = Some (canon (JStr s), r)"
    by (simp add: json_quote_def scan_string_quote)
qed

lemma reads_back_word:
  assumes "j = JNull \<or> j = JBool b"
  shows "reads_back j"
  unfolding reads_back_def
proof (intro allI impI)
  fix pad f r
  assume "padded pad" and "ends_number r" and "length (json_text pad j) < f"
  then obtain g where "f = Suc g" by (cases f) auto
  then show "scan_value f (json_text pad j @ r) = Some (canon j, r)"
    using assms by (auto simp: scan_atom_def scan_word_def starts_with_def first_some_def)
qed

lemma reads_back_list:
  assumes "\<forall>x \<in> set xs. reads_back x" and "\<forall>x \<in> set xs. wf_json x"
  shows "reads_back (JList xs)"
  unfolding reads_back_def
proof (intro allI impI)
  fix pad f r
  assume pad: "padded pad" and "ends_number r" and f: "length (json_text pad (JList xs)) < f"
  obtain g where g: "f = Suc g" using f by (cases f) auto
  show "scan_value f (json_text pad (JList xs) @ r) = Some (canon (JList xs), r)"
  proof (cases xs)
    case Nil
    then show ?thesis using g by (simp add: skip_ws_nonws expect_def)
  next
    case (Cons y ys)
    let ?body = "sep_join (CHR '','' # pad) (map (json_text pad) xs)"
    have y: "wf_json y" using assms(2) Cons by simp
    obtain q where q: "?body @ CHR '']'' # r = json_text pad y @ q"
      using Cons by (cases ys) auto
    have "scan_items g (?body @ CHR '']'' # r) = Some (map canon xs, r)"
      using assms pad f g Cons by (intro reads_back_items) auto
    then show ?thesis
      using g q y skip_ws_value [of y pad q] expect_close_value [of y pad q] by simp
  qed
qed

lemma sorted_members:
  "map (\<lambda>kt. json_quote (fst kt) @ CHR '':'' # pad @ snd kt) (sort_key fst (map (\<lambda>kv. (fst kv, json_text pad (snd kv))) kvs))
    = map (member_of pad) (sort_key fst kvs)"
  by (simp add: sort_key_values)

lemma canon_members: "sort_key fst (map (\<lambda>kv. (fst kv, canon (snd kv))) kvs)
    = map (\<lambda>kv. (fst kv, canon (snd kv))) (sort_key fst kvs)"
  by (rule sort_key_values)

lemma distinct_sorted_keys: "distinct (map fst kvs) \<Longrightarrow> distinct (map fst (sort_key fst kvs))"
  by (auto simp: distinct_map)

lemma reads_back_object:
  assumes "\<forall>kv \<in> set kvs. reads_back (snd kv)" and "\<forall>kv \<in> set kvs. wf_json (snd kv)"
    and "distinct (map fst kvs)"
  shows "reads_back (JObj kvs)"
  unfolding reads_back_def
proof (intro allI impI)
  fix pad f r
  assume pad: "padded pad" and "ends_number r" and f: "length (json_text pad (JObj kvs)) < f"
  obtain g where g: "f = Suc g" using f by (cases f) auto
  let ?kvs = "sort_key fst kvs"
  let ?body = "sep_join (CHR '','' # pad) (map (member_of pad) ?kvs)"
  show "scan_value f (json_text pad (JObj kvs) @ r) = Some (canon (JObj kvs), r)"
  proof (cases "?kvs = []")
    case True
    then have "kvs = []" by (metis set_empty set_sort)
    then show ?thesis using g by (simp add: skip_ws_nonws expect_def)
  next
    case False
    then obtain z zs where z: "?kvs = z # zs" by (cases ?kvs) auto
    then obtain q where q: "?body @ CHR ''}'' # r = CHR 0x22 # q"
      by (cases zs) (auto simp: json_quote_def)
    have "scan_members g (?body @ CHR ''}'' # r) = Some (map (\<lambda>kv. (fst kv, canon (snd kv))) ?kvs, r)"
      using assms pad f g False by (intro reads_back_members) (auto simp: sorted_members)
    moreover have "obj_update [] (map (\<lambda>kv. (fst kv, canon (snd kv))) ?kvs)
        = map (\<lambda>kv. (fst kv, canon (snd kv))) ?kvs"
      using obj_update_fresh [of "map (\<lambda>kv. (fst kv, canon (snd kv))) ?kvs" "[]"]
        distinct_sorted_keys [OF assms(3)] by (simp add: comp_def)
    ultimately show ?thesis
      using g q by (simp add: sorted_members canon_members skip_ws_nonws expect_def)
  qed
qed

lemma wf_reads_back: "wf_json j \<Longrightarrow> reads_back j"
proof (induction j)
  case (JFloat t)
  then show ?case using reads_back_epoch by auto
next
  case (JList xs)
  then show ?case by (intro reads_back_list) auto
next
  case (JObj kvs)
  then show ?case by (intro reads_back_object) (auto simp: snds.simps)
qed (auto intro: reads_back_int reads_back_quote reads_back_word)

lemma loads_text:
  assumes "wf_json j" and "padded pad"
  shows "json_loads (json_text pad j) = Some (canon j)"
proof -
  have "scan_value (Suc (length (json_text pad j))) (json_text pad j @ []) = Some (canon j, [])"
    using wf_reads_back [OF assms(1), unfolded reads_back_def, rule_format, of pad "[]"] punctuation_ends(4) assms(2)
    by (meson lessI)
  then show ?thesis
    using skip_ws_value [OF assms(1), of pad "[]"] by (simp add: json_loads_def skip_ws_def del: scan_value.simps)
qed

theorem loads_dumps: "wf_json j \<Longrightarrow> json_loads (json_dumps j) = Some (canon j)"
  using loads_text [of j "[]"] by (simp add: json_text_compact padded_def)

lemma loads_spaced: "wf_json j \<Longrightarrow> json_loads (json_spaced j) = Some (canon j)"
  using loads_text [of j "'' ''"] by (simp add: json_text_spaced padded_def)

lemma json_dumps_inj:
  "wf_json i \<Longrightarrow> wf_json j \<Longrightarrow> json_dumps i = json_dumps j \<Longrightarrow> canon i = canon j"
  by (metis loads_dumps option.inject)

text \<open>What a digest of a dictionary binds: the value of every key.\<close>

lemma map_of_values: "map_of (map (\<lambda>kv. (fst kv, f (snd kv))) kvs) k = map_option f (map_of kvs k)"
  by (induction kvs) auto

lemma canon_get:
  assumes "wf_json (JObj kvs)"
  shows "json_get (canon (JObj kvs)) k = map_option canon (map_of kvs k)"
proof -
  have "map_of (sort_key fst kvs) k = map_of kvs k"
    using assms distinct_sorted_keys [of kvs] by (intro map_of_eqI [THEN fun_cong]) (auto simp: map_of_eq_Some_iff)
  then show ?thesis
    by (simp add: canon_members map_of_values)
qed

section \<open>UTF-8\<close>

fun utf8_decode :: "string \<Rightarrow> string" where
  "utf8_decode [] = []"
| "utf8_decode [c] = [c]"
| "utf8_decode (c # d # cs) =
     (if code_of c < 128 then c # utf8_decode (d # cs)
      else char_of ((code_of c - 192) * 64 + (code_of d - 128)) # utf8_decode cs)"

lemma utf8_decode_two:
  assumes "code_of c = 192 + m" and "code_of d = 128 + n"
  shows "utf8_decode (c # d # s) = char_of (m * 64 + n) # utf8_decode s"
  using assms by simp

lemma utf8_decode_char: "utf8_decode (utf8_char c @ s) = c # utf8_decode s"
proof (cases "code_of c < 128")
  case True
  then show ?thesis by (cases s) (simp_all add: utf8_char_def)
next
  case False
  have lt: "code_of c div 64 < 4"
    using of_char_less [of c] by (simp add: less_mult_imp_div_less)
  have m: "code_of c mod 64 < 64" by simp
  have c1: "code_of (char_of (192 + code_of c div 64)) = 192 + code_of c div 64"
    using lt by (intro code_of_char_of) linarith
  have c2: "code_of (char_of (128 + code_of c mod 64)) = 128 + code_of c mod 64"
    using m by (intro code_of_char_of) linarith
  have "utf8_char c = [char_of (192 + code_of c div 64), char_of (128 + code_of c mod 64)]"
    using False by (simp only: utf8_char_def Let_def if_False)
  then have "utf8_decode (utf8_char c @ s)
      = char_of (code_of c div 64 * 64 + code_of c mod 64) # utf8_decode s"
    using utf8_decode_two [OF c1 c2, of s] by (simp only: append_Cons append_Nil)
  then show ?thesis by (simp only: div_mult_mod_eq char_of_char)
qed

lemma utf8_decode_encode: "utf8_decode (utf8_encode s) = s"
  by (induction s) (simp_all add: utf8_encode_def utf8_decode_char)

lemma utf8_encode_inj: "utf8_encode s = utf8_encode t \<longleftrightarrow> s = t"
  by (metis utf8_decode_encode)

lemma utf8_object_inj:
  assumes "wf_json (JObj a)" and "wf_json (JObj b)"
    and "utf8_encode (json_dumps (JObj a)) = utf8_encode (json_dumps (JObj b))"
  shows "map_option canon (map_of a k) = map_option canon (map_of b k)"
  using assms json_dumps_inj [of "JObj a" "JObj b"] canon_get by (metis utf8_encode_inj)

lemma utf8_json_inj:
  "wf_json i \<Longrightarrow> wf_json j \<Longrightarrow> utf8_encode (json_dumps i) = utf8_encode (json_dumps j) \<Longrightarrow> canon i = canon j"
  using json_dumps_inj utf8_encode_inj by blast

end
