(* ===== verification/SecretScan.thy ===== *)
theory SecretScan
  imports Prelude
begin

text \<open>
  \<open>secret_scan.py\<close>: the credential detector every persisted text passes, and the redactor.
  The part of Python's \<open>re\<close> the patterns use is a backtracking matcher that lists the results
  of a match in the order Python tries them, so the first one is the match Python reports. The
  patterns are transcribed below; a text is a list of code points below 256.
\<close>

section \<open>The regular expressions of the module\<close>

text \<open>A character class: negated or not, and its ranges of code points.\<close>

datatype cclass = CC bool "(nat \<times> nat) list"

fun cc_mem :: "cclass \<Rightarrow> char \<Rightarrow> bool" where
  "cc_mem (CC neg rs) c = (neg \<noteq> list_ex (\<lambda>(lo, hi). lo \<le> code_of c \<and> code_of c \<le> hi) rs)"

datatype re =
    REps
  | RLit char
  | RCls cclass
  | RSeq re re
  | RAlt re re
  | RStar bool re \<comment> \<open>greedy or lazy\<close>
  | RGroup nat re
  | RRef nat
  | RNotBehind cclass
  | RWordB

text \<open>A match state: the text before (reversed), the text ahead, the captured groups.\<close>

type_synonym mstate = "string \<times> string \<times> (nat \<times> string) list"

text \<open>Every iteration must consume, so the length of the text ahead bounds the iterations.\<close>

primrec re_iter :: "bool \<Rightarrow> (mstate \<Rightarrow> mstate list) \<Rightarrow> nat \<Rightarrow> mstate \<Rightarrow> mstate list" where
  "re_iter g step 0 x = [x]"
| "re_iter g step (Suc n) x =
     (let more = concat (map (\<lambda>y. if length (fst (snd y)) < length (fst (snd x))
                                  then re_iter g step n y else []) (step x))
      in if g then more @ [x] else x # more)"

definition is_word_char :: "char \<Rightarrow> bool" where
  "is_word_char c = (let n = code_of c in
     (48 \<le> n \<and> n \<le> 57) \<or> (65 \<le> n \<and> n \<le> 90) \<or> (97 \<le> n \<and> n \<le> 122) \<or> n = 95
     \<or> n = 170 \<or> n = 178 \<or> n = 179 \<or> n = 181 \<or> n = 185 \<or> n = 186 \<or> (188 \<le> n \<and> n \<le> 190)
     \<or> (192 \<le> n \<and> n \<noteq> 215 \<and> n \<noteq> 247))"

definition at_word :: "string \<Rightarrow> bool" where
  "at_word s = (case s of [] \<Rightarrow> False | c # _ \<Rightarrow> is_word_char c)"

definition fold_case :: "bool \<Rightarrow> char \<Rightarrow> char" where
  "fold_case ic c = (if ic then py_lower_char c else c)"

primrec re_match :: "bool \<Rightarrow> re \<Rightarrow> mstate \<Rightarrow> mstate list" where
  "re_match ic REps = (\<lambda>x. [x])"
| "re_match ic (RLit p) = (\<lambda>(b, a, g). case a of [] \<Rightarrow> [] | c # cs \<Rightarrow>
     if fold_case ic c = fold_case ic p then [(c # b, cs, g)] else [])"
| "re_match ic (RCls k) = (\<lambda>(b, a, g). case a of [] \<Rightarrow> [] | c # cs \<Rightarrow>
     if cc_mem k (fold_case ic c) then [(c # b, cs, g)] else [])"
| "re_match ic (RSeq r q) = (\<lambda>x. concat (map (re_match ic q) (re_match ic r x)))"
| "re_match ic (RAlt r q) = (\<lambda>x. re_match ic r x @ re_match ic q x)"
| "re_match ic (RStar g r) = (\<lambda>x. re_iter g (re_match ic r) (length (fst (snd x))) x)"
| "re_match ic (RGroup n r) = (\<lambda>(b, a, g). map (\<lambda>(b', a', g').
     (b', a', (n, take (length a - length a') a) # g')) (re_match ic r (b, a, g)))"
| "re_match ic (RRef n) = (\<lambda>(b, a, g). case map_of g n of None \<Rightarrow> [] | Some t \<Rightarrow>
     if map (fold_case ic) (take (length t) a) = map (fold_case ic) t
     then [(rev (take (length t) a) @ b, drop (length t) a, g)] else [])"
| "re_match ic (RNotBehind k) = (\<lambda>(b, a, g). case b of
     c # _ \<Rightarrow> if cc_mem k c then [] else [(b, a, g)] | [] \<Rightarrow> [(b, a, g)])"
| "re_match ic RWordB = (\<lambda>(b, a, g). if at_word b \<noteq> at_word a then [(b, a, g)] else [])"

text \<open>\<open>pattern.finditer(text)\<close>: the matched text and the groups of each match, left to right.\<close>

fun re_find_from :: "nat \<Rightarrow> bool \<Rightarrow> re \<Rightarrow> string \<Rightarrow> string \<Rightarrow> (string \<times> (nat \<times> string) list) list" where
  "re_find_from 0 ic r b a = []"
| "re_find_from (Suc n) ic r b a = (case re_match ic r (b, a, []) of
     (b', a', g) # _ \<Rightarrow> (take (length a - length a') a, g) # re_find_from n ic r b' a'
   | [] \<Rightarrow> (case a of [] \<Rightarrow> [] | c # cs \<Rightarrow> re_find_from n ic r (c # b) cs))"

type_synonym pattern = "bool \<times> re"

definition re_finditer :: "pattern \<Rightarrow> string \<Rightarrow> (string \<times> (nat \<times> string) list) list" where
  "re_finditer p s = re_find_from (Suc (length s)) (fst p) (snd p) [] s"

definition re_search :: "pattern \<Rightarrow> string \<Rightarrow> bool" where
  "re_search p s = (re_finditer p s \<noteq> [])"

text \<open>\<open>pattern.sub(f, text)\<close>; \<open>f\<close> sees the groups of the match.\<close>

fun re_sub_from :: "nat \<Rightarrow> bool \<Rightarrow> re \<Rightarrow> ((nat \<times> string) list \<Rightarrow> string) \<Rightarrow> string \<Rightarrow> string \<Rightarrow> string" where
  "re_sub_from 0 ic r f b a = a"
| "re_sub_from (Suc n) ic r f b a = (case re_match ic r (b, a, []) of
     (b', a', g) # _ \<Rightarrow> f g @ re_sub_from n ic r f b' a'
   | [] \<Rightarrow> (case a of [] \<Rightarrow> [] | c # cs \<Rightarrow> c # re_sub_from n ic r f (c # b) cs))"

definition re_sub :: "pattern \<Rightarrow> ((nat \<times> string) list \<Rightarrow> string) \<Rightarrow> string \<Rightarrow> string" where
  "re_sub p f s = re_sub_from (Suc (length s)) (fst p) (snd p) f [] s"

text \<open>Building blocks: literals, sequences, alternatives, options and counted repetition.\<close>

fun re_lit :: "string \<Rightarrow> re" where
  "re_lit [] = REps"
| "re_lit [c] = RLit c"
| "re_lit (c # d # cs) = RSeq (RLit c) (re_lit (d # cs))"

fun re_seq :: "re list \<Rightarrow> re" where
  "re_seq [] = REps"
| "re_seq [r] = r"
| "re_seq (r # q # rs) = RSeq r (re_seq (q # rs))"

fun re_alts :: "re list \<Rightarrow> re" where
  "re_alts [] = REps"
| "re_alts [r] = r"
| "re_alts (r # q # rs) = RAlt r (re_alts (q # rs))"

definition re_opt :: "re \<Rightarrow> re" where
  "re_opt r = RAlt r REps"

definition re_plus :: "re \<Rightarrow> re" where
  "re_plus r = RSeq r (RStar True r)"

primrec re_times :: "nat \<Rightarrow> re \<Rightarrow> re \<Rightarrow> re" where
  "re_times 0 r q = q"
| "re_times (Suc n) r q = RSeq r (re_times n r q)"

definition re_at_least :: "nat \<Rightarrow> re \<Rightarrow> re" where
  "re_at_least n r = re_times n r (RStar True r)"

definition cc_of :: "string \<Rightarrow> (nat \<times> nat) list" where
  "cc_of s = map (\<lambda>c. (code_of c, code_of c)) s"

definition alnum_ranges :: "(nat \<times> nat) list" where
  "alnum_ranges = [(65, 90), (97, 122), (48, 57)]"

definition space_ranges :: "(nat \<times> nat) list" where
  "space_ranges = [(9, 13), (28, 32), (133, 133), (160, 160)]"

definition blank :: re where
  "blank = RCls (CC False [(32, 32), (9, 9)])"

definition key_prefix :: re where
  "key_prefix = re_alts [re_lit ''sk-'', re_lit ''pk-'', re_lit ''rk-'', re_lit ''ghp_'',
     re_lit ''github_pat_'', re_seq [re_lit ''xox'', RCls (CC False [(97, 122)]), re_lit ''-''],
     re_lit ''AIza'']"

definition PREFIXED_TOKEN_PATTERN :: pattern where
  "PREFIXED_TOKEN_PATTERN = (True, re_seq [RNotBehind (CC False alnum_ranges), key_prefix,
     re_at_least 10 (RCls (CC False (alnum_ranges @ cc_of ''_.-'')))])"

definition JWT_PATTERN :: pattern where
  "JWT_PATTERN = (let part = re_at_least 8 (RCls (CC False (alnum_ranges @ cc_of ''_-''))) in
     (False, re_seq [RWordB, re_lit ''eyJ'', part, RLit CHR ''.'', part, RLit CHR ''.'', part, RWordB]))"

definition AWS_ACCESS_KEY_PATTERN :: pattern where
  "AWS_ACCESS_KEY_PATTERN =
     (False, re_seq [RWordB, re_lit ''AKIA'', re_times 16 (RCls (CC False [(48, 57), (65, 90)])) RWordB])"

definition key_kind :: re where
  "key_kind = RSeq (re_opt (re_alts [re_lit ''RSA '', re_lit ''EC '', re_lit ''OPENSSH ''])) (re_lit ''PRIVATE KEY'')"

definition PRIVATE_KEY_BLOCK_PATTERN :: pattern where
  "PRIVATE_KEY_BLOCK_PATTERN = (True, re_seq [re_lit ''-----BEGIN '', RGroup 1 key_kind, re_lit ''-----'',
     RStar False (RCls (CC True [])), re_lit ''-----END '', RRef 1, re_lit ''-----''])"

definition PRIVATE_KEY_PATTERN :: pattern where
  "PRIVATE_KEY_PATTERN = (True, re_seq [re_lit ''-----BEGIN '', key_kind, re_lit ''-----''])"

text \<open>Group 1 is the prefix a redaction keeps, group 2 the value.\<close>

definition bearer_or_basic :: re where
  "bearer_or_basic = RAlt (re_lit ''bearer'') (re_lit ''basic'')"

definition colon_or_equals :: re where
  "colon_or_equals = RCls (CC False (cc_of '':=''))"

definition AUTH_PATTERN :: pattern where
  "AUTH_PATTERN = (True, RSeq
     (RGroup 1 (RAlt
        (re_seq [re_lit ''authorization'', RStar True blank, colon_or_equals, RStar True blank,
                 re_opt bearer_or_basic, RStar True blank])
        (RSeq bearer_or_basic (re_plus (RCls (CC False space_ranges))))))
     (RGroup 2 (re_plus (RCls (CC True [(13, 13), (10, 10), (44, 44), (59, 59)])))))"

definition SENSITIVE_QUERY_PATTERN :: pattern where
  "SENSITIVE_QUERY_PATTERN = (True, RSeq
     (RGroup 1 (re_seq [RCls (CC False (cc_of ''?&'')),
        re_alts [re_seq [re_lit ''api'', re_opt (RCls (CC False (cc_of ''_-''))), re_lit ''key''],
          re_lit ''key'', re_lit ''token'', re_lit ''access_token'', re_lit ''secret'', re_lit ''password'',
          re_lit ''signature'', re_lit ''sig'', re_lit ''auth''], re_lit ''='']))
     (RGroup 2 (re_plus (RCls (CC True (cc_of ''&#'' @ space_ranges))))))"

definition quote_class :: re where
  "quote_class = RCls (CC False [(34, 34), (39, 39)])"

definition ASSIGNMENT_PATTERN :: pattern where
  "ASSIGNMENT_PATTERN = (True, RSeq
     (RGroup 1 (re_seq [re_opt quote_class, RStar True (RCls (CC False (alnum_ranges @ cc_of ''_.-''))),
        re_alts [re_seq [re_lit ''api'', re_opt (RCls (CC False (cc_of ''_-''))), re_lit ''key''],
          re_seq [re_lit ''access'', re_opt (RCls (CC False (cc_of ''_-''))), re_lit ''token''],
          re_lit ''token'', re_lit ''authorization'', re_lit ''password'', re_lit ''secret''],
        re_opt quote_class, RStar True blank, colon_or_equals, RStar True blank]))
     (RGroup 2 (re_plus (RCls (CC True ([(13, 13), (10, 10)] @ cc_of '',;}&''))))))"

section \<open>Detection\<close>

definition SOURCE_REFERENCE_VALUES :: "string list" where
  "SOURCE_REFERENCE_VALUES = [''api_key'', ''authorization'', ''none'', ''null'', ''password'',
     ''secret'', ''token'', ''value'']"

definition strip_quotes :: "string \<Rightarrow> string" where
  "strip_quotes s = (let q = (\<lambda>c. c = CHR 0x22 \<or> c = CHR 0x27) in rev (dropWhile q (rev (dropWhile q s))))"

definition normalized_assignment_value :: "string \<Rightarrow> string" where
  "normalized_assignment_value v = py_strip (strip_quotes (py_strip v))"

definition assignment_contains_secret :: "string \<Rightarrow> bool" where
  "assignment_contains_secret v =
     (let candidate = normalized_assignment_value v; lowered = py_lower candidate in
      if candidate = [] \<or> lowered \<in> set SOURCE_REFERENCE_VALUES then False
      else if list_ex (starts_with candidate) [''$'', ''${'', ''{{'', ''os.'', ''env.'', ''getenv(''] then False
      else if re_search PREFIXED_TOKEN_PATTERN candidate \<or> re_search JWT_PATTERN candidate then True
      else if 12 \<le> length candidate then True
      else 6 \<le> length candidate \<and>
        list_ex (\<lambda>c. \<not> (is_ascii_alnum c \<or> c = CHR ''_'')) candidate)"

definition assignment_match_is_secret :: "string \<times> (nat \<times> string) list \<Rightarrow> bool" where
  "assignment_match_is_secret m = (case map_of (snd m) 2 of
     Some v \<Rightarrow> assignment_contains_secret v | None \<Rightarrow> False)"

definition contains_secret :: "string \<Rightarrow> bool" where
  "contains_secret s =
     (list_ex (\<lambda>p. re_search p s) [PREFIXED_TOKEN_PATTERN, JWT_PATTERN, AWS_ACCESS_KEY_PATTERN,
        PRIVATE_KEY_PATTERN, AUTH_PATTERN, SENSITIVE_QUERY_PATTERN]
      \<or> list_ex assignment_match_is_secret (re_finditer ASSIGNMENT_PATTERN s))"

section \<open>Redaction\<close>

definition REDACTED :: string where
  "REDACTED = ''[REDACTED]''"

definition keep_prefix :: "(nat \<times> string) list \<Rightarrow> string" where
  "keep_prefix g = (case map_of g 1 of Some p \<Rightarrow> p | None \<Rightarrow> []) @ REDACTED"

definition drop_all :: "(nat \<times> string) list \<Rightarrow> string" where
  "drop_all g = REDACTED"

definition redact_secrets :: "string \<Rightarrow> string" where
  "redact_secrets s0 =
     (let s1 = re_sub PRIVATE_KEY_BLOCK_PATTERN drop_all s0;
          s2 = re_sub AUTH_PATTERN keep_prefix s1;
          s3 = re_sub SENSITIVE_QUERY_PATTERN keep_prefix s2;
          s4 = re_sub ASSIGNMENT_PATTERN keep_prefix s3
      in fold (\<lambda>p s. re_sub p drop_all s)
           [PREFIXED_TOKEN_PATTERN, JWT_PATTERN, AWS_ACCESS_KEY_PATTERN, PRIVATE_KEY_PATTERN] s4)"

section \<open>Lengths\<close>

text \<open>What a match consumes at least; a shorter text cannot match, so it is not scanned.\<close>

primrec re_min :: "re \<Rightarrow> nat" where
  "re_min REps = 0"
| "re_min (RLit p) = 1"
| "re_min (RCls k) = 1"
| "re_min (RSeq r q) = re_min r + re_min q"
| "re_min (RAlt r q) = min (re_min r) (re_min q)"
| "re_min (RStar g r) = 0"
| "re_min (RGroup n r) = re_min r"
| "re_min (RRef n) = 0"
| "re_min (RNotBehind k) = 0"
| "re_min RWordB = 0"

definition ahead :: "mstate \<Rightarrow> nat" where
  "ahead x = length (fst (snd x))"

lemma re_iter_ahead:
  assumes "\<And>x y. y \<in> set (step x) \<Longrightarrow> ahead y \<le> ahead x"
  shows "y \<in> set (re_iter g step n x) \<Longrightarrow> ahead y \<le> ahead x"
proof (induction n arbitrary: x)
  case (Suc n)
  show ?case
  proof (cases "y = x")
    case False
    then obtain z where z: "z \<in> set (step x)" "y \<in> set (re_iter g step n z)"
      using Suc.prems by (auto simp: Let_def split: if_splits)
    then show ?thesis using Suc.IH [OF z(2)] assms [OF z(1)] by simp
  qed simp
qed simp

lemma re_match_min: "y \<in> set (re_match ic r x) \<Longrightarrow> ahead y + re_min r \<le> ahead x"
proof (induction r arbitrary: x y)
  case (RSeq r q)
  then obtain z where z: "z \<in> set (re_match ic r x)" "y \<in> set (re_match ic q z)" by auto
  then show ?case using RSeq.IH(1) [OF z(1)] RSeq.IH(2) [OF z(2)] by simp
next
  case (RStar g r)
  have step: "\<And>x y. y \<in> set (re_match ic r x) \<Longrightarrow> ahead y \<le> ahead x"
    using RStar.IH by fastforce
  then show ?case using re_iter_ahead [of "re_match ic r", OF step] RStar.prems by auto
next
  case (RGroup n r)
  then obtain b a g where x: "x = (b, a, g)" by (cases x)
  then obtain z where "z \<in> set (re_match ic r (b, a, g))" "ahead y = ahead z"
    using RGroup.prems by (auto simp: ahead_def)
  then show ?case using RGroup.IH [of z "(b, a, g)"] x by simp
next
  case (RAlt r q)
  then consider "y \<in> set (re_match ic r x)" | "y \<in> set (re_match ic q x)" by auto
  then show ?case using RAlt.IH [where x = x and y = y] by cases auto
next
  case (RNotBehind k)
  then have "y = x" by (cases x) (auto split: list.splits if_splits)
  then show ?case by simp
qed (auto simp: ahead_def split: list.splits if_splits option.splits)

lemma re_find_short: "length a < re_min r \<Longrightarrow> re_find_from n ic r b a = []"
proof (induction n arbitrary: a b)
  case (Suc n)
  have "re_match ic r (b, a, []) = []"
  proof (rule ccontr)
    assume "re_match ic r (b, a, []) \<noteq> []"
    then obtain y where "y \<in> set (re_match ic r (b, a, []))" by (cases "re_match ic r (b, a, [])") auto
    then show False using re_match_min [of y ic r "(b, a, [])"] Suc.prems by (simp add: ahead_def)
  qed
  then show ?case using Suc by (auto split: list.splits)
qed simp

lemma re_finditer_short: "length s < re_min (snd p) \<Longrightarrow> re_finditer p s = []"
  unfolding re_finditer_def by (rule re_find_short)

lemma pattern_lengths:
  "6 \<le> re_min (snd PREFIXED_TOKEN_PATTERN)" "6 \<le> re_min (snd JWT_PATTERN)"
  "6 \<le> re_min (snd AWS_ACCESS_KEY_PATTERN)" "6 \<le> re_min (snd PRIVATE_KEY_PATTERN)"
  "6 \<le> re_min (snd AUTH_PATTERN)" "6 \<le> re_min (snd SENSITIVE_QUERY_PATTERN)"
  "6 \<le> re_min (snd ASSIGNMENT_PATTERN)"
  by code_simp+

lemma short_text_no_secret: "length s < 6 \<Longrightarrow> \<not> contains_secret s"
  using pattern_lengths by (simp add: contains_secret_def re_search_def re_finditer_short)

lemma contains_secret_code [code]:
  "contains_secret s = (if length s < 6 then False else
     list_ex (\<lambda>p. re_search p s) [PREFIXED_TOKEN_PATTERN, JWT_PATTERN, AWS_ACCESS_KEY_PATTERN,
        PRIVATE_KEY_PATTERN, AUTH_PATTERN, SENSITIVE_QUERY_PATTERN]
      \<or> list_ex assignment_match_is_secret (re_finditer ASSIGNMENT_PATTERN s))"
  using short_text_no_secret by (simp add: contains_secret_def)

end
