(* ===== verification/Errors.thy ===== *)
theory Errors
  imports Main
begin

text \<open>
  The exceptions of the modelled modules, with the message each \<open>raise\<close> of the source gives. A
  message that the source formats from a label or a value takes it as an argument.
\<close>

datatype exn =
    BridgeError string
  | OperationQueueError string
  | OperationCapacityError
  | ValueError string
  | KeyError
  | IntegrityError
  | DatabaseError string
  | AssertionError
  | OSError

fun is_bridge_error :: "exn \<Rightarrow> bool" where
  "is_bridge_error (BridgeError m) = True"
| "is_bridge_error _ = False"

section \<open>Messages of the validators and of the audit chain\<close>

definition B_invalid_identifier :: "string \<Rightarrow> string" where
  "B_invalid_identifier label = label @ '' must contain only letters, digits, dot, underscore, colon or dash''"

definition B_text_required :: "string \<Rightarrow> string" where
  "B_text_required label = label @ '' is required''"

definition B_text_too_long :: "string \<Rightarrow> string \<Rightarrow> string" where
  "B_text_too_long label limit = label @ '' exceeds '' @ limit @ '' characters''"

definition B_text_secret :: "string \<Rightarrow> string" where
  "B_text_secret label = label @ '' appears to contain a credential or private key''"

definition B_event_reservation_invalid :: string where
  "B_event_reservation_invalid = ''event storage reservation is invalid''"

definition B_event_quota :: string where
  "B_event_quota = ''durable event storage quota exceeded''"

definition B_audit_event_budget :: string where
  "B_audit_event_budget = ''audit chain exceeds the interactive verification event budget''"

definition B_audit_time_budget :: string where
  "B_audit_time_budget = ''audit chain verification exceeded the interactive time budget''"

end
