(* ===== verification/BridgeBase.thy ===== *)
theory BridgeBase
  imports JsonRoundtrip SecretScan Errors
begin

text \<open>
  What every coordination component takes from \<open>bridge.py\<close>: the identity of a \<open>Bridge\<close>, its
  validators, and its digests. SHA-256 (\<open>hashlib\<close>) is the field \<open>br_sha256\<close>, an arbitrary function \<open>H\<close>
  from bytes to text: nothing is assumed of it, and the tamper-evidence theorems exhibit a
  collision of it where the code relies on there being none.
\<close>

record bridge =
  br_agent_id :: string
  br_scope :: string
  br_session_id :: string
  br_client_name :: "string option"
  br_provider_id :: "string option"
  br_model_id :: "string option"
  br_reasoning_mode :: "string option"
  br_route_class :: "string option"
  br_workspace_root_key :: string
  br_sha256 :: "string \<Rightarrow> string"

type_synonym ('d, 'a) op = "('d, exn, 'a) tx"

section \<open>Identities and digests\<close>

definition ZERO_SHA256 :: string where
  "ZERO_SHA256 = replicate 64 (CHR ''0'')"

definition HUMAN_OPERATOR_ID :: string where
  "HUMAN_OPERATOR_ID = ''human-operator''"

definition CONTROL_ROOM_WORKFLOW_ID :: string where
  "CONTROL_ROOM_WORKFLOW_ID = ''control-room-workflow''"

definition sha256_bytes :: "(string \<Rightarrow> string) \<Rightarrow> string \<Rightarrow> string" where
  "sha256_bytes H data = H data"

definition sha256_text :: "(string \<Rightarrow> string) \<Rightarrow> string \<Rightarrow> string" where
  "sha256_text H t = sha256_bytes H (utf8_encode t)"

definition stable_sha256 :: "(string \<Rightarrow> string) \<Rightarrow> json \<Rightarrow> string" where
  "stable_sha256 H value = sha256_text H (json_dumps value)"

text \<open>The digest is an arbitrary function. What it binds is stated for the inputs \<open>X\<close> that were hashed: on
  these it is injective, or two of them are a collision.\<close>

lemma sha256_text_inj:
  "inj_on H X \<Longrightarrow> utf8_encode s \<in> X \<Longrightarrow> utf8_encode t \<in> X \<Longrightarrow> sha256_text H s = sha256_text H t \<longleftrightarrow> s = t"
  by (auto simp: inj_on_eq_iff sha256_text_def sha256_bytes_def utf8_encode_inj)

lemma stable_sha256_inj:
  assumes "inj_on H X" and "utf8_encode (json_dumps (JObj a)) \<in> X" and "utf8_encode (json_dumps (JObj b)) \<in> X"
    and "wf_json (JObj a)" and "wf_json (JObj b)" and "stable_sha256 H (JObj a) = stable_sha256 H (JObj b)"
  shows "map_option canon (map_of a k) = map_option canon (map_of b k)"
  using assms utf8_object_inj [of a b k] sha256_text_inj by (simp add: stable_sha256_def)

section \<open>Validators\<close>

definition safe_id_char :: "char \<Rightarrow> bool" where
  "safe_id_char c = (is_ascii_alnum c \<or> c = CHR ''_'' \<or> c = CHR ''.'' \<or> c = CHR '':'' \<or> c = CHR ''-'')"

text \<open>\<open>SAFE_ID.fullmatch\<close> with \<open>[A-Za-z0-9_.:-]{1,200}\<close>.\<close>

definition safe_id :: "string \<Rightarrow> bool" where
  "safe_id s = (1 \<le> length s \<and> length s \<le> 200 \<and> list_all safe_id_char s)"

definition require_identifier :: "string \<Rightarrow> string \<Rightarrow> exn + string" where
  "require_identifier value label =
     (let text = py_strip value in
      if \<not> safe_id text \<or> text = ''.'' \<or> text = ''..'' then Inl (BridgeError (B_invalid_identifier label))
      else Inr text)"

definition optional_identifier :: "string option \<Rightarrow> string \<Rightarrow> exn + string option" where
  "optional_identifier value label =
     (let text = py_strip (case value of None \<Rightarrow> [] | Some v \<Rightarrow> v) in
      if text = [] then Inr None
      else (case require_identifier text label of Inl e \<Rightarrow> Inl e | Inr t \<Rightarrow> Inr (Some t)))"

definition require_text :: "string \<Rightarrow> string \<Rightarrow> nat \<Rightarrow> exn + string" where
  "require_text value label limit =
     (let text = py_strip value in
      if text = [] then Inl (BridgeError (B_text_required label))
      else if limit < length text then Inl (BridgeError (B_text_too_long label (show_nat limit)))
      else if contains_secret text then Inl (BridgeError (B_text_secret label))
      else Inr text)"

text \<open>Callers act under the identity of the runtime only.\<close>

definition bound_consumer :: "bridge \<Rightarrow> string option \<Rightarrow> exn + string" where
  "bound_consumer b requested = (case requested of None \<Rightarrow> Inr (br_agent_id b)
     | Some r \<Rightarrow> res_bind (require_identifier r ''agent_id'') (\<lambda>consumer.
         res_require (consumer = br_agent_id b) (BridgeError ''agent_id must match the current runtime identity'')
           (Inr consumer)))"

lemma require_identifier_Inr:
  "require_identifier v l = Inr t \<longleftrightarrow> t = py_strip v \<and> safe_id t \<and> t \<noteq> ''.'' \<and> t \<noteq> ''..''"
  by (auto simp: require_identifier_def Let_def)

lemma require_text_Inr:
  "require_text v l n = Inr t \<longleftrightarrow> t = py_strip v \<and> t \<noteq> [] \<and> length t \<le> n \<and> \<not> contains_secret t"
  by (auto simp: require_text_def Let_def)

section \<open>Digest-bound rows\<close>

text \<open>
  Several tables store a digest of the other columns next to them and rewrite it after every change.
  The contract: sealing a row changes nothing that is hashed, and a row is sealed when its stored
  digest is the digest of its payload. The operation, schedule,
  discussion and dispatch tables interpret the locale.
\<close>

locale sealed_row =
  fixes digest :: "'r \<Rightarrow> string"
    and stored :: "'r \<Rightarrow> string"
    and seal :: "'r \<Rightarrow> 'r"
  assumes digest_seal: "digest (seal r) = digest r"
    and stored_seal: "stored (seal r) = digest r"
begin

definition sealed :: "'r \<Rightarrow> bool" where
  "sealed r \<longleftrightarrow> stored r = digest r"

lemma sealed_seal [simp, intro]: "sealed (seal r)"
  by (simp add: sealed_def digest_seal stored_seal)

lemma sealed_update:
  assumes "\<forall>r \<in> set rows. sealed r"
  shows "\<forall>r \<in> set (update_where P (\<lambda>r. seal (f r)) rows). sealed r"
  using assms by (auto simp: set_update_where)

lemma sealed_append: "\<forall>r \<in> set rows. sealed r \<Longrightarrow> sealed x \<Longrightarrow> \<forall>r \<in> set (rows @ [x]). sealed r"
  by auto

end

end
