(* ===== verification/AuditChain.thy ===== *)
theory AuditChain
  imports BridgeBase
begin

text \<open>
  The audit chain of \<open>bridge.py\<close>: \<open>_reserve_event_storage\<close>, \<open>_event\<close> and \<open>verify_audit_chain\<close>.
  The table \<open>events\<close> is append only and ordered by its AUTOINCREMENT \<open>sequence\<close>; each event stores
  the digest of its payload and a chain digest over its envelope, which names the chain digest of
  the event before it in the same scope.
\<close>

record event_row =
  ev_sequence :: nat
  ev_event_id :: string
  ev_scope :: string
  ev_actor :: string
  ev_event_type :: string
  ev_task_id :: "string option"
  ev_payload_json :: string
  ev_created_utc :: string
  ev_payload_sha256 :: string
  ev_prev_chain_sha256 :: string
  ev_chain_sha256 :: string

record usage_row =
  us_scope :: string
  us_message_rows :: int
  us_message_bytes :: int
  us_event_rows :: int
  us_event_bytes :: int
  us_updated_utc :: string

text \<open>The part of the database the chain lives in; \<open>event_seq\<close> is SQLite's sequence counter.\<close>

record audit_db =
  events :: "event_row list"
  event_seq :: nat
  scope_storage_usage :: "usage_row list"

definition MAX_SCOPE_EVENT_ROWS :: int where
  "MAX_SCOPE_EVENT_ROWS = 1000000"

definition MAX_SCOPE_EVENT_BYTES :: int where
  "MAX_SCOPE_EVENT_BYTES = 1024 * 1024 * 1024"

definition MAX_MCP_AUDIT_EVENTS :: int where
  "MAX_MCP_AUDIT_EVENTS = MAX_SCOPE_EVENT_ROWS"

definition MAX_MCP_AUDIT_SECONDS :: int where
  "MAX_MCP_AUDIT_SECONDS = 60"

section \<open>Storage reservation\<close>

definition ensure_usage :: "string \<Rightarrow> string \<Rightarrow> usage_row list \<Rightarrow> usage_row list" where
  "ensure_usage scope now rows =
     (if list_ex (\<lambda>u. us_scope u = scope) rows then rows
      else rows @ [\<lparr>us_scope = scope, us_message_rows = 0, us_message_bytes = 0, us_event_rows = 0,
                    us_event_bytes = 0, us_updated_utc = now\<rparr>])"

definition event_fits :: "string \<Rightarrow> int \<Rightarrow> usage_row \<Rightarrow> bool" where
  "event_fits scope bytes u = (us_scope u = scope
     \<and> us_event_rows u + 1 \<le> MAX_SCOPE_EVENT_ROWS
     \<and> us_event_bytes u + bytes \<le> MAX_SCOPE_EVENT_BYTES)"

definition reserve_event_storage :: "bridge \<Rightarrow> int \<Rightarrow> ('a audit_db_scheme, unit) op" where
  "reserve_event_storage b payload_bytes =
     tx_then (tx_require (0 \<le> payload_bytes) (BridgeError B_event_reservation_invalid))
    (tx_bind utc_now (\<lambda>now.
     tx_then (tx_execute (\<lambda>d. d\<lparr>scope_storage_usage := ensure_usage (br_scope b) now (scope_storage_usage d)\<rparr>))
    (tx_bind (tx_query (\<lambda>d. length (filter (event_fits (br_scope b) payload_bytes) (scope_storage_usage d)))) (\<lambda>rowcount.
     tx_then (tx_execute (\<lambda>d. d\<lparr>scope_storage_usage := update_where (event_fits (br_scope b) payload_bytes)
        (\<lambda>u. u\<lparr>us_event_rows := us_event_rows u + 1, us_event_bytes := us_event_bytes u + payload_bytes,
               us_updated_utc := now\<rparr>) (scope_storage_usage d)\<rparr>))
     (tx_require (rowcount = 1) (BridgeError B_event_quota))))))"

section \<open>Appending an event\<close>

definition runtime_identity :: "bridge \<Rightarrow> json" where
  "runtime_identity b = JObj
     [(''client_name'', json_opt JStr (br_client_name b)), (''provider_id'', json_opt JStr (br_provider_id b)),
      (''model_id'', json_opt JStr (br_model_id b)), (''reasoning_mode'', json_opt JStr (br_reasoning_mode b)),
      (''route_class'', json_opt JStr (br_route_class b))]"

definition event_payload :: "bridge \<Rightarrow> (string \<times> json) list \<Rightarrow> json" where
  "event_payload b payload = JObj (obj_update payload
     [(''session_id'', JStr (br_session_id b)), (''runtime_identity'', runtime_identity b)])"

definition event_envelope ::
  "string \<Rightarrow> string \<Rightarrow> string \<Rightarrow> string \<Rightarrow> string option \<Rightarrow> string \<Rightarrow> string \<Rightarrow> string \<Rightarrow> json" where
  "event_envelope event_id scope actor event_type task_id payload_sha created prev_sha = JObj
     [(''event_id'', JStr event_id), (''scope'', JStr scope), (''actor'', JStr actor),
      (''event_type'', JStr event_type), (''task_id'', json_opt JStr task_id),
      (''payload_sha256'', JStr payload_sha), (''created_utc'', JStr created),
      (''prev_chain_sha256'', JStr prev_sha)]"

definition scope_events :: "string \<Rightarrow> event_row list \<Rightarrow> event_row list" where
  "scope_events scope rows = filter (\<lambda>e. ev_scope e = scope) rows"

text \<open>\<open>ORDER BY sequence DESC LIMIT 1\<close> of an append-only table.\<close>

definition chain_head :: "event_row list \<Rightarrow> string" where
  "chain_head rows = (if rows = [] then ZERO_SHA256 else ev_chain_sha256 (last rows))"

definition new_event :: "bridge \<Rightarrow> string \<Rightarrow> string \<Rightarrow> string option \<Rightarrow> string \<Rightarrow> string \<Rightarrow> string \<Rightarrow> nat \<Rightarrow> event_row" where
  "new_event b event_type payload_json task_id event_id created prev_sha seq =
    (let payload_sha = sha256_text (br_sha256 b) payload_json in
     \<lparr>ev_sequence = seq, ev_event_id = event_id, ev_scope = br_scope b, ev_actor = br_agent_id b,
      ev_event_type = event_type, ev_task_id = task_id, ev_payload_json = payload_json,
      ev_created_utc = created, ev_payload_sha256 = payload_sha, ev_prev_chain_sha256 = prev_sha,
      ev_chain_sha256 = stable_sha256 (br_sha256 b) (event_envelope event_id (br_scope b)
        (br_agent_id b) event_type task_id payload_sha created prev_sha)\<rparr>)"

definition event_op :: "bridge \<Rightarrow> string \<Rightarrow> (string \<times> json) list \<Rightarrow> string option
    \<Rightarrow> ('a audit_db_scheme, string \<times> string) op" where
  "event_op b event_type payload task_id =
     tx_bind (tx_query (\<lambda>d. chain_head (scope_events (br_scope b) (events d)))) (\<lambda>prev_sha.
     tx_bind uuid4_hex (\<lambda>event_id.
     tx_bind utc_now (\<lambda>created.
     let payload_json = json_dumps (event_payload b payload) in
     tx_then (reserve_event_storage b (int (length (utf8_encode payload_json))))
    (tx_bind (tx_query (\<lambda>d. new_event b event_type payload_json task_id event_id created prev_sha
        (Suc (event_seq d)))) (\<lambda>row.
     tx_bind (tx_query (\<lambda>d. list_ex (\<lambda>e. ev_event_id e = event_id) (events d))) (\<lambda>clash.
     tx_then (tx_require (\<not> clash) IntegrityError)
    (tx_then (tx_execute (\<lambda>d. d\<lparr>event_seq := ev_sequence row, events := events d @ [row]\<rparr>))
     (tx_return (event_id, ev_chain_sha256 row)))))))))"

section \<open>Verifying the chain\<close>

datatype mismatch = M_payload_sha256 | M_prev_chain_sha256 | M_chain_sha256

record audit_report =
  ar_valid :: bool
  ar_event_count :: nat
  ar_head_chain_sha256 :: string
  ar_errors :: "(nat \<times> mismatch) list"
  ar_error_count :: nat
  ar_errors_truncated :: bool

definition recomputed_chain_sha :: "(string \<Rightarrow> string) \<Rightarrow> string \<Rightarrow> event_row \<Rightarrow> string" where
  "recomputed_chain_sha H previous row = stable_sha256 H (event_envelope (ev_event_id row) (ev_scope row)
     (ev_actor row) (ev_event_type row) (ev_task_id row) (sha256_text H (ev_payload_json row))
     (ev_created_utc row) previous)"

text \<open>The mismatches the three checks of the loop body report for one row.\<close>

definition audit_row :: "(string \<Rightarrow> string) \<Rightarrow> string \<Rightarrow> event_row \<Rightarrow> mismatch list" where
  "audit_row H previous row =
     (if ev_payload_sha256 row \<noteq> sha256_text H (ev_payload_json row) then [M_payload_sha256] else [])
     @ (if ev_prev_chain_sha256 row \<noteq> previous then [M_prev_chain_sha256] else [])
     @ (if ev_chain_sha256 row \<noteq> recomputed_chain_sha H previous row then [M_chain_sha256] else [])"

text \<open>The loop: every row is checked against the wall-clock budget first.\<close>

fun audit_loop :: "bridge \<Rightarrow> int \<Rightarrow> event_row list \<Rightarrow> string \<Rightarrow> (nat \<times> mismatch) list
    \<Rightarrow> ('a audit_db_scheme, string \<times> (nat \<times> mismatch) list) op" where
  "audit_loop b deadline [] previous found = tx_return (previous, found)"
| "audit_loop b deadline (row # rows) previous found =
     tx_bind time_monotonic (\<lambda>now.
     tx_then (tx_require (now \<le> deadline) (BridgeError B_audit_time_budget))
     (audit_loop b deadline rows (ev_chain_sha256 row)
        (found @ map (Pair (ev_sequence row)) (audit_row (br_sha256 b) previous row))))"

definition verify_audit_chain :: "bridge \<Rightarrow> ('a audit_db_scheme, audit_report) op" where
  "verify_audit_chain b = with_connection (
     tx_bind (tx_query (\<lambda>d. scope_events (br_scope b) (events d))) (\<lambda>rows.
     tx_then (tx_require (int (length rows) \<le> MAX_MCP_AUDIT_EVENTS) (BridgeError B_audit_event_budget))
    (tx_bind time_monotonic (\<lambda>start.
     tx_bind (audit_loop b (start + MAX_MCP_AUDIT_SECONDS) rows ZERO_SHA256 []) (\<lambda>(head, found).
     tx_return \<lparr>ar_valid = (found = []), ar_event_count = length rows, ar_head_chain_sha256 = head,
       ar_errors = take 100 found, ar_error_count = length found,
       ar_errors_truncated = (100 < length found)\<rparr>)))))"

section \<open>What one event does\<close>

fun chain_ok :: "(string \<Rightarrow> string) \<Rightarrow> string \<Rightarrow> event_row list \<Rightarrow> bool" where
  "chain_ok H previous [] = True"
| "chain_ok H previous (e # es) = (audit_row H previous e = [] \<and> chain_ok H (ev_chain_sha256 e) es)"

fun chain_end :: "string \<Rightarrow> event_row list \<Rightarrow> string" where
  "chain_end previous [] = previous"
| "chain_end previous (e # es) = chain_end (ev_chain_sha256 e) es"

lemma chain_end_append [simp]: "chain_end p (xs @ ys) = chain_end (chain_end p xs) ys"
  by (induction xs arbitrary: p) auto

lemma chain_ok_append [simp]: "chain_ok H p (xs @ ys) = (chain_ok H p xs \<and> chain_ok H (chain_end p xs) ys)"
  by (induction xs arbitrary: p) auto

lemma chain_head_end: "chain_head es = chain_end ZERO_SHA256 es"
  by (induction es rule: rev_induct) (auto simp: chain_head_def)

lemma scope_events_append [simp]: "scope_events sc (xs @ ys) = scope_events sc xs @ scope_events sc ys"
  by (simp add: scope_events_def)

lemma scope_events_single [simp]: "scope_events sc [e] = (if ev_scope e = sc then [e] else [])"
  by (simp add: scope_events_def)

text \<open>The event and the usage rows a successful append of \<open>bytes\<close> payload bytes leaves.\<close>

definition charge :: "string \<Rightarrow> int \<Rightarrow> string \<Rightarrow> usage_row list \<Rightarrow> usage_row list" where
  "charge scope bytes now rows = update_where (event_fits scope bytes)
     (\<lambda>u. u\<lparr>us_event_rows := us_event_rows u + 1, us_event_bytes := us_event_bytes u + bytes,
            us_updated_utc := now\<rparr>) (ensure_usage scope now rows)"

definition payload_bytes_of :: "event_row \<Rightarrow> int" where
  "payload_bytes_of e = int (length (utf8_encode (ev_payload_json e)))"

definition appends :: "bridge \<Rightarrow> string \<Rightarrow> (string \<times> json) list \<Rightarrow> string option \<Rightarrow> event_row
    \<Rightarrow> string \<Rightarrow> 'a audit_db_scheme \<Rightarrow> 'a audit_db_scheme \<Rightarrow> bool" where
  "appends b event_type payload task_id e now d d' \<longleftrightarrow>
     d' = d\<lparr>scope_storage_usage := charge (br_scope b) (payload_bytes_of e) now (scope_storage_usage d),
            event_seq := Suc (event_seq d), events := events d @ [e]\<rparr>
   \<and> (\<exists>event_id created. e = new_event b event_type (json_dumps (event_payload b payload)) task_id
         event_id created (chain_head (scope_events (br_scope b) (events d))) (Suc (event_seq d)))
   \<and> (\<forall>f \<in> set (events d). ev_event_id f \<noteq> ev_event_id e)
   \<and> length (filter (event_fits (br_scope b) (payload_bytes_of e))
       (ensure_usage (br_scope b) now (scope_storage_usage d))) = 1"

lemma new_event_simps [simp]:
  "ev_scope (new_event b ty pj tid i c p n) = br_scope b"
  "ev_actor (new_event b ty pj tid i c p n) = br_agent_id b"
  "ev_event_type (new_event b ty pj tid i c p n) = ty"
  "ev_task_id (new_event b ty pj tid i c p n) = tid"
  "ev_event_id (new_event b ty pj tid i c p n) = i"
  "ev_payload_json (new_event b ty pj tid i c p n) = pj"
  "ev_sequence (new_event b ty pj tid i c p n) = n"
  "payload_bytes_of (new_event b ty pj tid i c p n) = int (length (utf8_encode pj))"
  by (simp_all add: new_event_def payload_bytes_of_def Let_def)

lemma audit_new_event [simp]: "audit_row (br_sha256 b) p (new_event b ty pj tid i c p n) = []"
  by (simp add: audit_row_def recomputed_chain_sha_def new_event_def Let_def)

lemma reserve_event_storage_ok [tx_simps]:
  "reserve_event_storage b n s = (Inr u, t) \<longleftrightarrow> 0 \<le> n
    \<and> t = (tick s)\<lparr>st_db := (st_db s)\<lparr>scope_storage_usage :=
            charge (br_scope b) n (utc_at s) (scope_storage_usage (st_db s))\<rparr>\<rparr>
    \<and> length (filter (event_fits (br_scope b) n)
         (ensure_usage (br_scope b) (utc_at s) (scope_storage_usage (st_db s)))) = 1"
  unfolding reserve_event_storage_def charge_def
  by (auto simp: tx_simps)

lemma event_op_ok:
  assumes "event_op b event_type payload task_id s = (Inr r, t)"
  shows "\<exists>e now. appends b event_type payload task_id e now (st_db s) (st_db t)
    \<and> r = (ev_event_id e, ev_chain_sha256 e)"
proof -
  let ?s2 = "tick (tick s)"
  define e where "e = new_event b event_type (json_dumps (event_payload b payload)) task_id (uuid_at s)
    (utc_at (tick s)) (chain_head (scope_events (br_scope b) (events (st_db s)))) (Suc (event_seq (st_db s)))"
  have e: "ev_event_id e = uuid_at s"
    "payload_bytes_of e = int (length (utf8_encode (json_dumps (event_payload b payload))))"
    by (simp_all add: e_def)
  have "appends b event_type payload task_id e (utc_at ?s2) (st_db s) (st_db t)
      \<and> r = (ev_event_id e, ev_chain_sha256 e)"
    using assms unfolding event_op_def appends_def e
    by (auto simp: tx_simps Let_def list_ex_iff e_def)
  then show ?thesis by blast
qed

section \<open>The invariant of the chain and of its accounting\<close>

definition audit_valid :: "(string \<Rightarrow> string) \<Rightarrow> event_row list \<Rightarrow> bool" where
  "audit_valid H rows \<longleftrightarrow> (\<forall>sc. chain_ok H ZERO_SHA256 (scope_events sc rows))"

text \<open>Sequence numbers rise and never pass the counter; event ids are unique.\<close>

definition sequence_ok :: "event_row list \<Rightarrow> nat \<Rightarrow> bool" where
  "sequence_ok rows n \<longleftrightarrow> sorted_wrt (<) (map ev_sequence rows) \<and> (\<forall>e \<in> set rows. ev_sequence e \<le> n)
     \<and> distinct (map ev_event_id rows)"

definition sum_bytes :: "event_row list \<Rightarrow> int" where
  "sum_bytes rows = sum_list (map payload_bytes_of rows)"

text \<open>The usage row of a scope counts its events and their bytes, within the limits.\<close>

definition usage_row_ok :: "event_row list \<Rightarrow> usage_row \<Rightarrow> bool" where
  "usage_row_ok rows u \<longleftrightarrow> us_event_rows u = int (length (scope_events (us_scope u) rows))
     \<and> us_event_bytes u = sum_bytes (scope_events (us_scope u) rows)
     \<and> us_event_rows u \<le> MAX_SCOPE_EVENT_ROWS \<and> us_event_bytes u \<le> MAX_SCOPE_EVENT_BYTES"

definition usage_ok :: "event_row list \<Rightarrow> usage_row list \<Rightarrow> bool" where
  "usage_ok rows usage \<longleftrightarrow> distinct (map us_scope usage) \<and> (\<forall>u \<in> set usage. usage_row_ok rows u)
     \<and> (\<forall>e \<in> set rows. ev_scope e \<in> us_scope ` set usage)"

definition audit_inv :: "(string \<Rightarrow> string) \<Rightarrow> 'a audit_db_scheme \<Rightarrow> bool" where
  "audit_inv H d \<longleftrightarrow> audit_valid H (events d) \<and> sequence_ok (events d) (event_seq d)
     \<and> usage_ok (events d) (scope_storage_usage d)"

lemma audit_valid_append:
  assumes "audit_valid H rows" and "audit_row H (chain_head (scope_events (ev_scope e) rows)) e = []"
  shows "audit_valid H (rows @ [e])"
  using assms by (simp add: audit_valid_def chain_head_end)

lemma sequence_ok_append:
  assumes "sequence_ok rows n" and "ev_sequence e = Suc n" and "\<forall>f \<in> set rows. ev_event_id f \<noteq> ev_event_id e"
  shows "sequence_ok (rows @ [e]) (Suc n)"
  using assms by (auto simp: sequence_ok_def sorted_wrt_append less_Suc_eq_le)

lemma ensure_usage_ok: "usage_ok rows usage \<Longrightarrow> usage_ok rows (ensure_usage sc now usage)"
proof (cases "list_ex (\<lambda>u. us_scope u = sc) usage")
  case False
  assume u: "usage_ok rows usage"
  have "sc \<notin> us_scope ` set usage" using False by (auto simp: list_ex_iff)
  moreover have "scope_events sc rows = []"
    using calculation u by (auto simp: usage_ok_def scope_events_def filter_empty_conv)
  ultimately show ?thesis using u False
    by (auto simp: ensure_usage_def usage_ok_def usage_row_ok_def sum_bytes_def MAX_SCOPE_EVENT_ROWS_def MAX_SCOPE_EVENT_BYTES_def)
qed (simp add: ensure_usage_def)

lemma sum_bytes_append [simp]: "sum_bytes (xs @ ys) = sum_bytes xs + sum_bytes ys"
  by (simp add: sum_bytes_def)

lemma sum_bytes_single [simp]: "sum_bytes [e] = payload_bytes_of e" "sum_bytes [] = 0"
  by (simp_all add: sum_bytes_def)

lemma usage_ok_charge:
  assumes u: "usage_ok rows usage"
    and one: "length (filter (event_fits (ev_scope e) (payload_bytes_of e)) (ensure_usage (ev_scope e) now usage)) = 1"
  shows "usage_ok (rows @ [e]) (charge (ev_scope e) (payload_bytes_of e) now usage)"
proof -
  define rs where "rs = ensure_usage (ev_scope e) now usage"
  let ?P = "event_fits (ev_scope e) (payload_bytes_of e)"
  have ok: "usage_ok rows rs" using ensure_usage_ok [OF u] rs_def by simp
  have "filter ?P rs \<noteq> []" using one rs_def by auto
  then obtain v where v: "v \<in> set rs" "?P v" by (auto simp: filter_empty_conv)
  have same: "w = v" if "w \<in> set rs" "us_scope w = ev_scope e" for w
    using ok v that by (auto simp: usage_ok_def event_fits_def distinct_map inj_on_def)
  have m: "map us_scope (charge (ev_scope e) (payload_bytes_of e) now usage) = map us_scope rs"
    by (simp add: charge_def map_update_where rs_def)
  have "distinct (map us_scope (charge (ev_scope e) (payload_bytes_of e) now usage))"
    using ok by (simp only: m usage_ok_def)
  moreover have "us_scope ` set (charge (ev_scope e) (payload_bytes_of e) now usage) = us_scope ` set rs"
    by (simp only: set_map [symmetric] m)
  moreover have "ev_scope e \<in> us_scope ` set rs" using v by (force simp: event_fits_def)
  moreover have "usage_row_ok (rows @ [e]) u"
    if "u \<in> set (charge (ev_scope e) (payload_bytes_of e) now usage)" for u
  proof -
    from that obtain w where w: "w \<in> set rs"
      "u = (if ?P w then w\<lparr>us_event_rows := us_event_rows w + 1,
          us_event_bytes := us_event_bytes w + payload_bytes_of e, us_updated_utc := now\<rparr> else w)"
      unfolding charge_def set_update_where rs_def [symmetric] by blast
    have row: "usage_row_ok rows w" using ok w(1) by (simp add: usage_ok_def)
    show ?thesis
    proof (cases "us_scope w = ev_scope e")
      case True
      then have "?P w" using same w(1) v by blast
      then show ?thesis using row w(2) True by (simp add: event_fits_def usage_row_ok_def)
    next
      case False
      then have "\<not> ?P w" by (simp add: event_fits_def)
      then show ?thesis using row w(2) False by (simp add: usage_row_ok_def)
    qed
  qed
  ultimately show ?thesis using ok by (simp add: usage_ok_def)
qed

lemma appends_inv:
  assumes "appends b ty payload tid e now d d'" and "audit_inv (br_sha256 b) d"
  shows "audit_inv (br_sha256 b) d'"
proof -
  have e: "ev_scope e = br_scope b" "ev_sequence e = Suc (event_seq d)"
    "audit_row (br_sha256 b) (chain_head (scope_events (br_scope b) (events d))) e = []"
    using assms(1) by (auto simp: appends_def)
  have "usage_ok (events d @ [e]) (charge (ev_scope e) (payload_bytes_of e) now (scope_storage_usage d))"
    using assms e by (intro usage_ok_charge) (simp_all add: appends_def audit_inv_def)
  then show ?thesis
    using assms e by (auto simp: appends_def audit_inv_def intro!: audit_valid_append sequence_ok_append)
qed

lemma event_op_keeps: "keeps (audit_inv (br_sha256 b)) (event_op b ty payload tid)"
  by (rule keepsI) (auto dest!: event_op_ok intro: appends_inv)

section \<open>What verification reports\<close>

fun audit_trace :: "(string \<Rightarrow> string) \<Rightarrow> string \<Rightarrow> event_row list \<Rightarrow> (nat \<times> mismatch) list" where
  "audit_trace H previous [] = []"
| "audit_trace H previous (e # es) =
     map (Pair (ev_sequence e)) (audit_row H previous e) @ audit_trace H (ev_chain_sha256 e) es"

lemma audit_trace_Nil: "audit_trace H p es = [] \<longleftrightarrow> chain_ok H p es"
  by (induction es arbitrary: p) auto

text \<open>
  The three checks of one row by its position: the payload digest is the one of the payload, the previous
  digest is the chain digest of the row before, or the fixed first one, and the chain digest is the one of
  the envelope over them.
\<close>

definition digest_before :: "string \<Rightarrow> event_row list \<Rightarrow> nat \<Rightarrow> string" where
  "digest_before first rows i = (if i = 0 then first else ev_chain_sha256 (rows ! (i - 1)))"

definition check_fails :: "(string \<Rightarrow> string) \<Rightarrow> string \<Rightarrow> event_row list \<Rightarrow> nat \<Rightarrow> mismatch \<Rightarrow> bool" where
  "check_fails H first rows i m \<longleftrightarrow> (case m of
     M_payload_sha256 \<Rightarrow> ev_payload_sha256 (rows ! i) \<noteq> sha256_text H (ev_payload_json (rows ! i))
   | M_prev_chain_sha256 \<Rightarrow> ev_prev_chain_sha256 (rows ! i) \<noteq> digest_before first rows i
   | M_chain_sha256 \<Rightarrow> ev_chain_sha256 (rows ! i) \<noteq> stable_sha256 H (event_envelope (ev_event_id (rows ! i))
       (ev_scope (rows ! i)) (ev_actor (rows ! i)) (ev_event_type (rows ! i)) (ev_task_id (rows ! i))
       (sha256_text H (ev_payload_json (rows ! i))) (ev_created_utc (rows ! i)) (digest_before first rows i)))"

definition failed_checks :: "(string \<Rightarrow> string) \<Rightarrow> string \<Rightarrow> event_row list \<Rightarrow> nat \<Rightarrow> (nat \<times> mismatch) list" where
  "failed_checks H first rows i = map (Pair (ev_sequence (rows ! i)))
     (filter (check_fails H first rows i) [M_payload_sha256, M_prev_chain_sha256, M_chain_sha256])"

lemma check_fails_Suc: "check_fails H p (e # es) (Suc i) = check_fails H (ev_chain_sha256 e) es i"
  by (auto simp: check_fails_def digest_before_def fun_eq_iff nth_Cons' split: mismatch.splits)

lemma failed_checks_Suc: "failed_checks H p (e # es) (Suc i) = failed_checks H (ev_chain_sha256 e) es i"
  by (simp add: failed_checks_def check_fails_Suc)

lemma failed_checks_first: "failed_checks H p (e # es) 0 = map (Pair (ev_sequence e)) (audit_row H p e)"
  by (simp add: failed_checks_def check_fails_def audit_row_def digest_before_def recomputed_chain_sha_def)

lemma audit_trace_checks: "audit_trace H p es = concat (map (failed_checks H p es) [0..<length es])"
proof (induction es arbitrary: p)
  case (Cons e es)
  have "[0..<length (e # es)] = 0 # map Suc [0..<length es]" by (simp add: upt_conv_Cons map_Suc_upt del: upt_Suc)
  then show ?case by (simp add: Cons.IH failed_checks_first failed_checks_Suc comp_def del: upt_Suc)
qed simp

lemma audit_loop_ok:
  "audit_loop b deadline rows p found s = (Inr x, t) \<Longrightarrow>
     x = (chain_end p rows, found @ audit_trace (br_sha256 b) p rows) \<and> st_db t = st_db s"
  by (induction rows arbitrary: p found s) (fastforce simp: tx_simps)+

lemma audit_loop_error:
  "audit_loop b deadline rows p found s = (Inl x, t) \<Longrightarrow> x = BridgeError B_audit_time_budget"
  by (induction rows arbitrary: p found s) (auto simp: tx_errs tx_simps)

definition report_of :: "(string \<Rightarrow> string) \<Rightarrow> event_row list \<Rightarrow> audit_report" where
  "report_of H rows = (let found = audit_trace H ZERO_SHA256 rows in
     \<lparr>ar_valid = (found = []), ar_event_count = length rows, ar_head_chain_sha256 = chain_end ZERO_SHA256 rows,
      ar_errors = take 100 found, ar_error_count = length found, ar_errors_truncated = (100 < length found)\<rparr>)"

lemma verify_audit_chain_ok:
  assumes "verify_audit_chain b s = (Inr r, t)"
  shows "r = report_of (br_sha256 b) (scope_events (br_scope b) (events (st_db s))) \<and> st_db t = st_db s"
  using assms unfolding verify_audit_chain_def report_of_def
  by (auto simp: tx_simps Let_def dest!: audit_loop_ok)

lemma verify_audit_chain_error:
  assumes "verify_audit_chain b s = (Inl x, t)"
  shows "st_db t = st_db s \<and> (x = BridgeError B_audit_time_budget \<or> x = BridgeError B_audit_event_budget
    \<and> MAX_MCP_AUDIT_EVENTS < int (length (scope_events (br_scope b) (events (st_db s)))))"
proof -
  have "st_db t = st_db s" using assms unfolding verify_audit_chain_def by (rule with_connection_error)
  then show ?thesis using assms unfolding verify_audit_chain_def
    by (auto simp: tx_errs tx_simps dest: audit_loop_error)
qed

lemma report_valid: "ar_valid (report_of H rows) \<longleftrightarrow> chain_ok H ZERO_SHA256 rows"
  by (simp add: report_of_def Let_def audit_trace_Nil)

lemma usage_ok_length:
  assumes "usage_ok rows usage"
  shows "int (length (scope_events sc rows)) \<le> MAX_SCOPE_EVENT_ROWS"
proof (cases "sc \<in> us_scope ` set usage")
  case True
  then obtain u where "u \<in> set usage" "us_scope u = sc" by auto
  then show ?thesis using assms by (auto simp: usage_ok_def usage_row_ok_def)
next
  case False
  then have "scope_events sc rows = []"
    using assms by (auto simp: usage_ok_def scope_events_def filter_empty_conv)
  then show ?thesis by (simp add: MAX_SCOPE_EVENT_ROWS_def)
qed

lemma report_of_simps [simp]:
  "ar_event_count (report_of H rows) = length rows"
  "ar_head_chain_sha256 (report_of H rows) = chain_end ZERO_SHA256 rows"
  "ar_errors (report_of H rows) = take 100 (audit_trace H ZERO_SHA256 rows)"
  "ar_error_count (report_of H rows) = length (audit_trace H ZERO_SHA256 rows)"
  "ar_errors_truncated (report_of H rows) = (100 < length (audit_trace H ZERO_SHA256 rows))"
  by (simp_all add: report_of_def Let_def)

section \<open>Tamper evidence\<close>

text \<open>The columns the chain digest binds.\<close>

definition hashed_columns where
  "hashed_columns e = (ev_event_id e, ev_scope e, ev_actor e, ev_event_type e, ev_task_id e,
     ev_payload_json e, ev_created_utc e, ev_payload_sha256 e, ev_prev_chain_sha256 e, ev_chain_sha256 e)"

lemma wf_json_opt [simp]: "wf_json (json_opt JStr x)"
  by (cases x) simp_all

lemma canon_json_opt [simp]: "canon (json_opt JStr x) = json_opt JStr x"
  by (cases x) simp_all

lemma json_opt_inj [simp]: "json_opt JStr x = json_opt JStr y \<longleftrightarrow> x = y"
  by (cases x; cases y) simp_all

text \<open>What the verification of a row hashes: the payload, and the envelope of the stored columns.\<close>

definition hashed_inputs :: "(string \<Rightarrow> string) \<Rightarrow> event_row \<Rightarrow> string set" where
  "hashed_inputs H e = {utf8_encode (ev_payload_json e), utf8_encode (json_dumps (event_envelope (ev_event_id e) (ev_scope e)
     (ev_actor e) (ev_event_type e) (ev_task_id e) (sha256_text H (ev_payload_json e)) (ev_created_utc e) (ev_prev_chain_sha256 e)))}"

definition chain_inputs :: "(string \<Rightarrow> string) \<Rightarrow> event_row list \<Rightarrow> string set" where
  "chain_inputs H rows = (\<Union>e \<in> set rows. hashed_inputs H e)"

lemma envelope_inj:
  assumes "inj_on H X" and "utf8_encode (json_dumps (event_envelope i sc a ty tid ps c pv)) \<in> X"
    and "utf8_encode (json_dumps (event_envelope i' sc' a' ty' tid' ps' c' pv')) \<in> X"
    and "stable_sha256 H (event_envelope i sc a ty tid ps c pv) = stable_sha256 H (event_envelope i' sc' a' ty' tid' ps' c' pv')"
  shows "i = i' \<and> sc = sc' \<and> a = a' \<and> ty = ty' \<and> tid = tid' \<and> ps = ps' \<and> c = c' \<and> pv = pv'"
proof -
  note same = stable_sha256_inj [OF assms(1) assms(2,3) [unfolded event_envelope_def] _ _ assms(4) [unfolded event_envelope_def]]
  show ?thesis
    using same [of "''event_id''"] same [of "''scope''"] same [of "''actor''"] same [of "''event_type''"]
      same [of "''task_id''"] same [of "''payload_sha256''"] same [of "''created_utc''"]
      same [of "''prev_chain_sha256''"] by simp
qed

lemma audit_row_inj:
  assumes "inj_on H X" and "hashed_inputs H e \<subseteq> X" and "hashed_inputs H f \<subseteq> X"
    and "audit_row H p e = []" and "audit_row H q f = []" and "ev_chain_sha256 e = ev_chain_sha256 f"
  shows "hashed_columns e = hashed_columns f \<and> p = q"
proof -
  have same: "recomputed_chain_sha H p e = recomputed_chain_sha H q f"
    and e: "ev_payload_sha256 e = sha256_text H (ev_payload_json e)" "ev_prev_chain_sha256 e = p"
    and f: "ev_payload_sha256 f = sha256_text H (ev_payload_json f)" "ev_prev_chain_sha256 f = q"
    using assms(4-6) by (auto simp: audit_row_def split: if_splits)
  note columns = envelope_inj [OF assms(1) _ _ same [unfolded recomputed_chain_sha_def]]
  then have "ev_payload_json e = ev_payload_json f"
    using assms(2,3) e(2) f(2) sha256_text_inj [OF assms(1)] by (auto simp: hashed_inputs_def)
  then show ?thesis using columns e f assms(2,3,6) by (simp add: hashed_columns_def hashed_inputs_def)
qed

lemma chain_determined:
  assumes "inj_on H X" and "length xs = length ys" and "chain_inputs H xs \<subseteq> X" and "chain_inputs H ys \<subseteq> X"
    and "chain_ok H p xs" and "chain_ok H q ys" and "chain_end p xs = chain_end q ys"
  shows "map hashed_columns xs = map hashed_columns ys \<and> (xs \<noteq> [] \<longrightarrow> p = q)"
  using assms(2-7)
proof (induction xs ys arbitrary: p q rule: list_induct2)
  case Nil
  then show ?case by simp
next
  case (Cons x xs y ys)
  have xy: "hashed_inputs H x \<subseteq> X" "hashed_inputs H y \<subseteq> X" "audit_row H p x = []" "audit_row H q y = []"
    using Cons.prems by (auto simp: chain_inputs_def)
  have IH: "map hashed_columns xs = map hashed_columns ys"
      "xs \<noteq> [] \<longrightarrow> ev_chain_sha256 x = ev_chain_sha256 y"
    using Cons.IH [of "ev_chain_sha256 x" "ev_chain_sha256 y"] Cons.prems by (auto simp: chain_inputs_def)
  have "ev_chain_sha256 x = ev_chain_sha256 y"
    using IH Cons.hyps Cons.prems by (cases "xs = []") auto
  then show ?case using audit_row_inj [OF assms(1) xy] IH by simp
qed

section \<open>Properties\<close>

text \<open>C30: appending an event keeps every scope's hash chain valid, the sequence numbers rising, the
  event ids unique and the storage accounting exact and within its limits, whatever the payload.\<close>

theorem event_keeps_chain: "keeps (audit_inv (br_sha256 b)) (event_op b event_type payload task_id)"
  by (rule event_op_keeps)

text \<open>Verification writes nothing and checks every row of the caller's scope: the error list is the first
  hundred of all failed checks, in the order of the rows and of the three checks of each row, the count is
  the number of all of them, and the verdict is that, at every position, the payload digest is the one of
  the payload, the previous digest is the chain digest of the row before (all zeros for the first), and the
  chain digest is the one of the envelope. The head is the chain digest of the last row.\<close>

theorem verify_audit_chain_correct:
  assumes "verify_audit_chain b s = (Inr r, t)" and "rows = scope_events (br_scope b) (events (st_db s))"
    and "found = concat (map (failed_checks (br_sha256 b) ZERO_SHA256 rows) [0..<length rows])"
  shows "st_db t = st_db s
    \<and> (ar_valid r \<longleftrightarrow> (\<forall>i < length rows. ev_payload_sha256 (rows ! i) = sha256_text (br_sha256 b) (ev_payload_json (rows ! i))
        \<and> ev_prev_chain_sha256 (rows ! i) = (if i = 0 then ZERO_SHA256 else ev_chain_sha256 (rows ! (i - 1)))
        \<and> ev_chain_sha256 (rows ! i) = stable_sha256 (br_sha256 b) (event_envelope (ev_event_id (rows ! i))
            (ev_scope (rows ! i)) (ev_actor (rows ! i)) (ev_event_type (rows ! i)) (ev_task_id (rows ! i))
            (ev_payload_sha256 (rows ! i)) (ev_created_utc (rows ! i)) (ev_prev_chain_sha256 (rows ! i)))))
    \<and> ar_event_count r = length rows \<and> ar_head_chain_sha256 r = chain_head rows
    \<and> ar_errors r = take 100 found \<and> ar_error_count r = length found \<and> (ar_errors_truncated r \<longleftrightarrow> 100 < length found)"
proof -
  have r: "r = report_of (br_sha256 b) rows" "st_db t = st_db s" using verify_audit_chain_ok [OF assms(1)] assms(2) by simp_all
  have found: "audit_trace (br_sha256 b) ZERO_SHA256 rows = found" by (simp add: audit_trace_checks assms(3))
  have "ar_valid r \<longleftrightarrow> (\<forall>i < length rows. \<forall>m. \<not> check_fails (br_sha256 b) ZERO_SHA256 rows i m)"
  proof -
    have "failed_checks (br_sha256 b) ZERO_SHA256 rows i = [] \<longleftrightarrow> (\<forall>m. \<not> check_fails (br_sha256 b) ZERO_SHA256 rows i m)" for i
      by (auto simp: failed_checks_def split: if_splits) (metis mismatch.exhaust)
    moreover have "ar_valid r \<longleftrightarrow> found = []" using found by (simp add: r(1) report_of_def Let_def)
    ultimately show ?thesis by (auto simp: assms(3))
  qed
  also have "\<dots> \<longleftrightarrow> (\<forall>i < length rows. ev_payload_sha256 (rows ! i) = sha256_text (br_sha256 b) (ev_payload_json (rows ! i))
        \<and> ev_prev_chain_sha256 (rows ! i) = (if i = 0 then ZERO_SHA256 else ev_chain_sha256 (rows ! (i - 1)))
        \<and> ev_chain_sha256 (rows ! i) = stable_sha256 (br_sha256 b) (event_envelope (ev_event_id (rows ! i))
            (ev_scope (rows ! i)) (ev_actor (rows ! i)) (ev_event_type (rows ! i)) (ev_task_id (rows ! i))
            (ev_payload_sha256 (rows ! i)) (ev_created_utc (rows ! i)) (ev_prev_chain_sha256 (rows ! i))))"
  proof -
    have "(\<forall>m. \<not> check_fails H p es i m) \<longleftrightarrow> \<not> check_fails H p es i M_payload_sha256
        \<and> \<not> check_fails H p es i M_prev_chain_sha256 \<and> \<not> check_fails H p es i M_chain_sha256" for H p es i
      by (metis mismatch.exhaust)
    then show ?thesis by (auto simp: check_fails_def digest_before_def)
  qed
  finally show ?thesis using r found chain_head_end [of rows] by simp
qed

text \<open>a database that the invariant holds for is never refused for its number of events: the
  only way verification fails there is the wall-clock budget, and then nothing was written either.\<close>

theorem verify_within_event_budget:
  assumes "audit_inv (br_sha256 b) (st_db s)" and "verify_audit_chain b s = (Inl x, t)"
  shows "x = BridgeError B_audit_time_budget \<and> st_db t = st_db s"
proof -
  have "int (length (scope_events (br_scope b) (events (st_db s)))) \<le> MAX_MCP_AUDIT_EVENTS"
    using assms(1) usage_ok_length unfolding audit_inv_def MAX_MCP_AUDIT_EVENTS_def by blast
  then show ?thesis using verify_audit_chain_error [OF assms(2)] by auto
qed

text \<open>C31: tamper evidence. Two databases whose chains verify with the same count and the same head hold
  the same events in every hashed column, or else two of the payloads and envelopes that the two
  verifications hashed are different texts with the same SHA-256.\<close>

theorem audit_tamper_evident:
  assumes "verify_audit_chain b s = (Inr r, s')" and "verify_audit_chain b t = (Inr q, t')"
    and "ar_valid r" and "ar_valid q"
    and "ar_event_count r = ar_event_count q" and "ar_head_chain_sha256 r = ar_head_chain_sha256 q"
  shows "map hashed_columns (scope_events (br_scope b) (events (st_db s)))
      = map hashed_columns (scope_events (br_scope b) (events (st_db t)))
    \<or> \<not> inj_on (br_sha256 b) (chain_inputs (br_sha256 b) (scope_events (br_scope b) (events (st_db s)))
        \<union> chain_inputs (br_sha256 b) (scope_events (br_scope b) (events (st_db t))))"
proof -
  let ?rows = "\<lambda>u. scope_events (br_scope b) (events (st_db u))"
  have r: "r = report_of (br_sha256 b) (?rows s)" and q: "q = report_of (br_sha256 b) (?rows t)"
    using verify_audit_chain_ok assms(1,2) by blast+
  have chains: "chain_ok (br_sha256 b) ZERO_SHA256 (?rows s)" "chain_ok (br_sha256 b) ZERO_SHA256 (?rows t)"
    "length (?rows s) = length (?rows t)" "chain_end ZERO_SHA256 (?rows s) = chain_end ZERO_SHA256 (?rows t)"
    using assms(3-6) by (simp_all add: r q report_valid)
  show ?thesis
    using chain_determined [OF _ chains(3) _ _ chains(1,2,4)] by blast
qed

section \<open>Concrete runs\<close>

text \<open>A one-bridge example world: constant clocks, numbered identifiers, and a toy digest.\<close>

definition demo_sha :: "string \<Rightarrow> string" where
  "demo_sha x = show_nat (length x)"

definition demo_bridge :: bridge where
  "demo_bridge = \<lparr>br_agent_id = ''lead'', br_scope = ''team'', br_session_id = ''s1'', br_client_name = None,
     br_provider_id = Some ''p'', br_model_id = None, br_reasoning_mode = None, br_route_class = None,
     br_workspace_root_key = ''/w'', br_sha256 = demo_sha\<rparr>"

definition demo_world :: world where
  "demo_world = \<lparr>w_time = (\<lambda>n. 100 + int n), w_monotonic = (\<lambda>n. int n), w_utc = (\<lambda>n. ''2026-01-01T00:00:00Z''),
     w_uuid = (\<lambda>n. ''id-'' @ show_nat n), w_token = (\<lambda>n. ''tok-'' @ show_nat n), w_calls = 0\<rparr>"

definition demo_audit :: "audit_db pstate" where
  "demo_audit = \<lparr>st_db = \<lparr>events = [], event_seq = 0, scope_storage_usage = []\<rparr>, st_world = demo_world\<rparr>"

definition demo_audit_2 :: "audit_db pstate" where
  "demo_audit_2 = snd (event_op demo_bridge ''b'' [] None (snd (event_op demo_bridge ''a'' [(''k'', JInt 1)] None demo_audit)))"

abbreviation "demo_report \<equiv> value_of (verify_audit_chain demo_bridge) demo_audit_2"

lemma demo_audit_runs:
  "succeeds (verify_audit_chain demo_bridge) demo_audit_2"
  "ar_valid demo_report"
  "ar_event_count demo_report = 2"
  by code_simp+

theorem verify_audit_chain_correct_witness:
  "ar_event_count demo_report = length (scope_events ''team'' (events (st_db demo_audit_2)))"
  using verify_audit_chain_correct [OF succeeds_run [OF demo_audit_runs(1)] refl refl]
  by (simp add: demo_bridge_def)

text \<open>Where the digest separates what was hashed, the second alternative is impossible: the same event
  under another sequence number, which no digest binds.\<close>

definition demo_audit_1 :: "audit_db pstate" where
  "demo_audit_1 = snd (event_op demo_bridge ''a'' [(''k'', JInt 1)] None demo_audit)"

definition demo_event :: event_row where
  "demo_event = hd (events (st_db demo_audit_1))"

definition renumbered :: "audit_db pstate" where
  "renumbered = demo_audit_1\<lparr>st_db := (st_db demo_audit_1)\<lparr>events := [demo_event\<lparr>ev_sequence := 7\<rparr>]\<rparr>\<rparr>"

abbreviation "first_report \<equiv> value_of (verify_audit_chain demo_bridge) demo_audit_1"
abbreviation "renumbered_report \<equiv> value_of (verify_audit_chain demo_bridge) renumbered"

lemma renumbered_runs:
  "succeeds (verify_audit_chain demo_bridge) demo_audit_1" "succeeds (verify_audit_chain demo_bridge) renumbered"
  "ar_valid first_report" "ar_valid renumbered_report" "ar_event_count first_report = ar_event_count renumbered_report"
  "ar_head_chain_sha256 first_report = ar_head_chain_sha256 renumbered_report"
  by code_simp+

lemma demo_separates:
  "demo_sha (utf8_encode (ev_payload_json demo_event)) \<noteq> demo_sha (utf8_encode (json_dumps (event_envelope
     (ev_event_id demo_event) (ev_scope demo_event) (ev_actor demo_event) (ev_event_type demo_event) (ev_task_id demo_event)
     (sha256_text demo_sha (ev_payload_json demo_event)) (ev_created_utc demo_event) (ev_prev_chain_sha256 demo_event))))"
  "map ev_scope (events (st_db demo_audit_1)) = [''team'']" "ev_scope demo_event = ''team''"
  by code_simp+

lemma demo_events:
  "scope_events (br_scope demo_bridge) (events (st_db demo_audit_1)) = [demo_event]"
  "scope_events (br_scope demo_bridge) (events (st_db renumbered)) = [demo_event\<lparr>ev_sequence := 7\<rparr>]"
  using demo_separates(2,3) by (auto simp: demo_event_def renumbered_def demo_bridge_def scope_events_def map_eq_Cons_conv)

theorem audit_tamper_evident_witness: "map hashed_columns [demo_event] = map hashed_columns [demo_event\<lparr>ev_sequence := 7\<rparr>]"
  using audit_tamper_evident [OF succeeds_run [OF renumbered_runs(1)] succeeds_run [OF renumbered_runs(2)] renumbered_runs(3-6)]
    demo_separates(1) unfolding demo_events by (auto simp: chain_inputs_def hashed_inputs_def demo_bridge_def)

text \<open>A clock that jumps past the deadline between two readings.\<close>

definition slow_world :: world where
  "slow_world = demo_world\<lparr>w_monotonic := (\<lambda>n. 100 * int n)\<rparr>"

definition slow_audit :: "audit_db pstate" where
  "slow_audit = snd (event_op demo_bridge ''a'' [] None (demo_audit\<lparr>st_world := slow_world\<rparr>))"

lemma slow_audit_run: "raises (verify_audit_chain demo_bridge) slow_audit (BridgeError B_audit_time_budget)"
  by code_simp

lemma demo_audit_inv: "audit_inv H (st_db demo_audit)"
  by (simp add: demo_audit_def audit_inv_def audit_valid_def sequence_ok_def usage_ok_def scope_events_def)

theorem verify_within_event_budget_witness:
  "BridgeError B_audit_time_budget = BridgeError B_audit_time_budget
   \<and> st_db (after (verify_audit_chain demo_bridge) slow_audit) = st_db slow_audit"
proof (rule verify_within_event_budget [OF _ raises_run [OF slow_audit_run]])
  let ?s = "demo_audit\<lparr>st_world := slow_world\<rparr>"
  have "succeeds (event_op demo_bridge ''a'' [] None) ?s" by code_simp
  moreover have "audit_inv (br_sha256 demo_bridge) (st_db ?s)" using demo_audit_inv by simp
  ultimately show "audit_inv (br_sha256 demo_bridge) (st_db slow_audit)"
    using event_op_keeps keepsD succeeds_run unfolding slow_audit_def after_def by metis
qed

end
