(* ===== verification/Discussions.thy ===== *)
theory Discussions
  imports AuditChain
begin

text \<open>
  The room discussions of \<open>bridge.py\<close> as far as the operation queue drives them: the digest-bound
  discussion row (\<open>_discussion_row_payload\<close>, \<open>_store_discussion_state\<close>), the fencing of unfinished
  prompts (\<open>_dispatch_payload\<close>, \<open>_cancel_discussion_dispatches\<close>) and the search for the discussion an
  operation belongs to (\<open>_guided_participant_binding\<close>, \<open>_matching_discussions_for_operation\<close>,
  \<open>_bound_discussion_for_operation\<close>). The store of the rooms and messages extends this database.
\<close>

record msg_row =
  mg_sequence :: nat
  mg_message_id :: string
  mg_scope :: string
  mg_room_id :: string
  mg_task_id :: string
  mg_sender :: string
  mg_recipient :: string
  mg_subject :: string
  mg_body :: string
  mg_priority :: string
  mg_reply_to :: "string option"
  mg_artifact_paths_json :: string
  mg_route_profile_id :: "string option"
  mg_route_profile_sha256 :: "string option"
  mg_requested_provider_id :: "string option"
  mg_requested_model_id :: "string option"
  mg_requested_reasoning_mode :: "string option"
  mg_requested_route_class :: "string option"
  mg_route_request_sha256 :: "string option"
  mg_discussion_id :: "string option"
  mg_discussion_round :: "int option"
  mg_discussion_role :: "string option"
  mg_visibility :: string
  mg_created_utc :: string
  mg_acknowledged_utc :: "string option"
  mg_content_sha256 :: string

record dispatch_row =
  dp_scope :: string
  dp_message_id :: string
  dp_agent_id :: string
  dp_status :: string
  dp_claimed_session_id :: "string option"
  dp_lease_token_sha256 :: "string option"
  dp_lease_expires_epoch :: "int option"
  dp_attempt_count :: int
  dp_claimed_utc :: "string option"
  dp_updated_utc :: string
  dp_completed_utc :: "string option"
  dp_reply_message_id :: "string option"
  dp_inference_receipt_sha256 :: "string option"
  dp_error_code :: "string option"
  dp_dispatch_sha256 :: string

record disc_row =
  di_scope :: string
  di_discussion_id :: string
  di_room_id :: string
  di_task_id :: string
  di_subject :: string
  di_starter_agent_id :: string
  di_status :: string
  di_current_round :: int
  di_processed_round :: int
  di_max_rounds :: int
  di_max_messages :: int
  di_stagnation_rounds :: int
  di_message_count :: int
  di_stagnation_count :: int
  di_last_round_digest :: "string option"
  di_stop_reason :: "string option"
  di_created_utc :: string
  di_updated_utc :: string
  di_discussion_sha256 :: string

record disc_db = audit_db +
  messages :: "msg_row list"
  message_dispatches :: "dispatch_row list"
  room_discussions :: "disc_row list"

section \<open>Discussion state\<close>

definition discussion_row_payload :: "disc_row \<Rightarrow> json" where
  "discussion_row_payload r = JObj
     [(''scope'', JStr (di_scope r)), (''discussion_id'', JStr (di_discussion_id r)),
      (''room_id'', JStr (di_room_id r)), (''task_id'', JStr (di_task_id r)),
      (''subject'', JStr (di_subject r)), (''starter_agent_id'', JStr (di_starter_agent_id r)),
      (''status'', JStr (di_status r)), (''current_round'', JInt (di_current_round r)),
      (''processed_round'', JInt (di_processed_round r)), (''max_rounds'', JInt (di_max_rounds r)),
      (''max_messages'', JInt (di_max_messages r)), (''stagnation_rounds'', JInt (di_stagnation_rounds r)),
      (''message_count'', JInt (di_message_count r)), (''stagnation_count'', JInt (di_stagnation_count r)),
      (''last_round_digest'', json_opt JStr (di_last_round_digest r)),
      (''stop_reason'', json_opt JStr (di_stop_reason r))]"

definition discussion_digest :: "(string \<Rightarrow> string) \<Rightarrow> disc_row \<Rightarrow> string" where
  "discussion_digest H r = stable_sha256 H (discussion_row_payload r)"

text \<open>
  The UPDATE writes the mutable columns of \<open>changes row\<close>, where \<open>row\<close> is the caller's copy, and the
  digest of that copy; the identity columns of the stored row stay.
\<close>

definition write_discussion :: "disc_row \<Rightarrow> string \<Rightarrow> string \<Rightarrow> disc_row \<Rightarrow> disc_row" where
  "write_discussion payload now sha r = r\<lparr>
     di_status := di_status payload, di_current_round := di_current_round payload,
     di_processed_round := di_processed_round payload, di_max_rounds := di_max_rounds payload,
     di_max_messages := di_max_messages payload, di_stagnation_rounds := di_stagnation_rounds payload,
     di_message_count := di_message_count payload, di_stagnation_count := di_stagnation_count payload,
     di_last_round_digest := di_last_round_digest payload, di_stop_reason := di_stop_reason payload,
     di_updated_utc := now, di_discussion_sha256 := sha\<rparr>"

definition store_discussion_state :: "bridge \<Rightarrow> disc_row \<Rightarrow> string \<Rightarrow> (disc_row \<Rightarrow> disc_row)
    \<Rightarrow> ('a disc_db_scheme, disc_row \<times> string) op" where
  "store_discussion_state b row now changes =
    (let payload = changes row; discussion_sha = discussion_digest (br_sha256 b) payload in
     tx_then (tx_execute (\<lambda>d. d\<lparr>room_discussions :=
        update_where (\<lambda>r. di_scope r = br_scope b \<and> di_discussion_id r = di_discussion_id payload)
          (write_discussion payload now discussion_sha) (room_discussions d)\<rparr>))
     (tx_return (payload, discussion_sha)))"

definition open_discussion :: "disc_row \<Rightarrow> bool" where
  "open_discussion r = (di_status r \<in> {''active'', ''paused'', ''waiting_human''})"

definition stop_changes :: "string \<Rightarrow> disc_row \<Rightarrow> disc_row" where
  "stop_changes reason r = r\<lparr>di_status := ''stopped'', di_stop_reason := Some reason\<rparr>"

section \<open>Fencing unfinished prompts\<close>

definition dispatch_payload :: "dispatch_row \<Rightarrow> json" where
  "dispatch_payload r = JObj
     [(''scope'', JStr (dp_scope r)), (''message_id'', JStr (dp_message_id r)),
      (''agent_id'', JStr (dp_agent_id r)), (''status'', JStr (dp_status r)),
      (''claimed_session_id'', json_opt JStr (dp_claimed_session_id r)),
      (''lease_token_sha256'', json_opt JStr (dp_lease_token_sha256 r)),
      (''lease_expires_epoch'', json_opt json_epoch (dp_lease_expires_epoch r)),
      (''attempt_count'', JInt (dp_attempt_count r)),
      (''claimed_utc'', json_opt JStr (dp_claimed_utc r)), (''updated_utc'', JStr (dp_updated_utc r)),
      (''completed_utc'', json_opt JStr (dp_completed_utc r)),
      (''reply_message_id'', json_opt JStr (dp_reply_message_id r)),
      (''inference_receipt_sha256'', json_opt JStr (dp_inference_receipt_sha256 r)),
      (''error_code'', json_opt JStr (dp_error_code r))]"

definition dispatch_digest :: "(string \<Rightarrow> string) \<Rightarrow> dispatch_row \<Rightarrow> string" where
  "dispatch_digest H r = stable_sha256 H (dispatch_payload r)"

definition fail_dispatch :: "string \<Rightarrow> string \<Rightarrow> dispatch_row \<Rightarrow> dispatch_row" where
  "fail_dispatch error_code now r = r\<lparr>dp_status := ''failed'', dp_claimed_session_id := None,
     dp_lease_token_sha256 := None, dp_lease_expires_epoch := None, dp_updated_utc := now,
     dp_completed_utc := Some now, dp_reply_message_id := None, dp_inference_receipt_sha256 := None,
     dp_error_code := Some error_code\<rparr>"

definition unfinished_prompt :: "string \<Rightarrow> string \<Rightarrow> dispatch_row \<Rightarrow> msg_row \<Rightarrow> bool" where
  "unfinished_prompt scope discussion_id d m = (mg_scope m = dp_scope d \<and> mg_message_id m = dp_message_id d
     \<and> mg_scope m = scope \<and> mg_discussion_id m = Some discussion_id
     \<and> mg_discussion_role m = Some ''prompt'' \<and> dp_status d \<in> {''claimed'', ''retryable''})"

definition unfinished_dispatches :: "string \<Rightarrow> string \<Rightarrow> 'a disc_db_scheme \<Rightarrow> dispatch_row list" where
  "unfinished_dispatches scope discussion_id d =
     concat (map (\<lambda>m. filter (\<lambda>r. unfinished_prompt scope discussion_id r m) (message_dispatches d))
       (sort_key mg_sequence (messages d)))"

definition same_dispatch :: "bridge \<Rightarrow> dispatch_row \<Rightarrow> dispatch_row \<Rightarrow> bool" where
  "same_dispatch b row r = (dp_scope r = br_scope b \<and> dp_message_id r = dp_message_id row
     \<and> dp_agent_id r = dp_agent_id row)"

definition cancel_dispatch :: "bridge \<Rightarrow> string \<Rightarrow> string \<Rightarrow> dispatch_row \<Rightarrow> ('a disc_db_scheme, unit) op" where
  "cancel_dispatch b error_code now row =
    (let dispatch_sha = dispatch_digest (br_sha256 b) (fail_dispatch error_code now row) in
     tx_execute (\<lambda>d. d\<lparr>message_dispatches := update_where (same_dispatch b row)
       (\<lambda>r. (fail_dispatch error_code now r)\<lparr>dp_dispatch_sha256 := dispatch_sha\<rparr>) (message_dispatches d)\<rparr>))"

definition cancel_discussion_dispatches :: "bridge \<Rightarrow> string \<Rightarrow> string \<Rightarrow> string \<Rightarrow> ('a disc_db_scheme, int) op" where
  "cancel_discussion_dispatches b discussion_id error_code now =
     tx_bind (tx_query (unfinished_dispatches (br_scope b) discussion_id)) (\<lambda>rows.
     tx_then (tx_for (cancel_dispatch b error_code now) rows)
     (tx_return (int (length rows))))"

section \<open>The discussion of an operation\<close>

type_synonym participant = "string \<times> string \<times> string"

definition B_binding_invalid :: string where
  "B_binding_invalid = ''bound discussion participant binding is invalid''"

definition B_discussion_sha_mismatch :: string where
  "B_discussion_sha_mismatch = ''bound discussion SHA-256 mismatch''"

definition participant_of :: "json \<Rightarrow> participant" where
  "participant_of p = (json_str_or_empty (json_get p ''agent_id''),
     json_str_or_empty (json_get p ''route_profile_id''),
     json_str_or_empty (json_get p ''route_profile_sha256''))"

definition is_mapping :: "json \<Rightarrow> bool" where
  "is_mapping j = (case j of JObj kvs \<Rightarrow> True | _ \<Rightarrow> False)"

definition participant_ok :: "string set \<Rightarrow> participant \<Rightarrow> bool" where
  "participant_ok seen t = (case t of (agent_id, route_profile_id, route_profile_sha256) \<Rightarrow>
     safe_id agent_id \<and> safe_id route_profile_id \<and> is_sha256_hex route_profile_sha256 \<and> agent_id \<notin> seen)"

fun participant_loop :: "string set \<Rightarrow> json list \<Rightarrow> exn + participant list" where
  "participant_loop seen [] = Inr []"
| "participant_loop seen (p # ps) =
     res_require (is_mapping p \<and> participant_ok seen (participant_of p)) (BridgeError B_binding_invalid)
       (res_bind (participant_loop (insert (fst (participant_of p)) seen) ps) (\<lambda>ts. Inr (participant_of p # ts)))"

definition guided_participant_binding :: "json list \<Rightarrow> exn + participant list" where
  "guided_participant_binding participants =
     res_bind (participant_loop {} participants) (\<lambda>expected.
     res_require (expected \<noteq> []) (BridgeError B_binding_invalid) (Inr (sort expected)))"

definition round_one_prompts :: "string \<Rightarrow> string \<Rightarrow> 'a disc_db_scheme \<Rightarrow> msg_row list" where
  "round_one_prompts scope discussion_id d = sort_key mg_recipient (filter (\<lambda>m. mg_scope m = scope
     \<and> mg_discussion_id m = Some discussion_id \<and> mg_discussion_round m = Some 1
     \<and> mg_discussion_role m = Some ''prompt'') (messages d))"

definition text_or_empty :: "string option \<Rightarrow> string" where
  "text_or_empty t = (case t of None \<Rightarrow> [] | Some x \<Rightarrow> x)"

definition observed_participants :: "msg_row list \<Rightarrow> participant list" where
  "observed_participants prompts = sort (map (\<lambda>m. (mg_recipient m, text_or_empty (mg_route_profile_id m),
     text_or_empty (mg_route_profile_sha256 m))) prompts)"

definition prompts_match :: "bridge \<Rightarrow> 'a disc_db_scheme \<Rightarrow> string \<Rightarrow> participant list \<Rightarrow> disc_row \<Rightarrow> bool" where
  "prompts_match b d prompt_sha256 expected r =
    (let prompts = round_one_prompts (br_scope b) (di_discussion_id r) d in
     observed_participants prompts = expected
     \<and> list_all (\<lambda>m. sha256_text (br_sha256 b) (mg_body m) = prompt_sha256) prompts)"

fun matching_loop :: "bridge \<Rightarrow> 'a disc_db_scheme \<Rightarrow> string \<Rightarrow> participant list \<Rightarrow> disc_row list
    \<Rightarrow> exn + disc_row list" where
  "matching_loop b d prompt_sha256 expected [] = Inr []"
| "matching_loop b d prompt_sha256 expected (r # rs) =
     (if prompts_match b d prompt_sha256 expected r then
        res_require (discussion_digest (br_sha256 b) r = di_discussion_sha256 r)
          (BridgeError B_discussion_sha_mismatch)
          (res_bind (matching_loop b d prompt_sha256 expected rs) (\<lambda>ms. Inr (r # ms)))
      else matching_loop b d prompt_sha256 expected rs)"

definition discussions_of_task :: "string \<Rightarrow> string \<Rightarrow> string \<Rightarrow> 'a disc_db_scheme \<Rightarrow> disc_row list" where
  "discussions_of_task scope room_id task_id d =
     sort_key (\<lambda>r. (di_created_utc r, di_discussion_id r))
       (filter (\<lambda>r. di_scope r = scope \<and> di_room_id r = room_id \<and> di_task_id r = task_id) (room_discussions d))"

definition matching_discussions_for_operation :: "bridge \<Rightarrow> 'a disc_db_scheme \<Rightarrow> string \<Rightarrow> string \<Rightarrow> string
    \<Rightarrow> json list \<Rightarrow> exn + disc_row list" where
  "matching_discussions_for_operation b d room_id task_id prompt_sha256 participants =
     res_require (is_sha256_hex prompt_sha256) (BridgeError ''bound discussion prompt SHA-256 is invalid'')
    (res_bind (require_identifier room_id ''bound discussion room id'') (\<lambda>room_id.
     res_bind (require_identifier task_id ''bound discussion task id'') (\<lambda>task_id.
     res_bind (guided_participant_binding participants) (\<lambda>expected.
     matching_loop b d prompt_sha256 expected (discussions_of_task (br_scope b) room_id task_id d)))))"

definition bound_discussion_for_operation :: "bridge \<Rightarrow> 'a disc_db_scheme \<Rightarrow> string \<Rightarrow> string \<Rightarrow> string \<Rightarrow> string
    \<Rightarrow> json list \<Rightarrow> exn + disc_row option" where
  "bound_discussion_for_operation b d discussion_id room_id task_id prompt_sha256 participants =
     res_bind (require_identifier discussion_id ''bound discussion id'') (\<lambda>discussion_id.
     case fetch_one (\<lambda>r. di_scope r = br_scope b \<and> di_discussion_id r = discussion_id) (room_discussions d) of
       None \<Rightarrow> Inr None
     | Some row \<Rightarrow>
         res_require (di_room_id row = room_id \<and> di_task_id row = task_id)
           (BridgeError ''bound discussion source identity does not match'')
        (res_bind (matching_discussions_for_operation b d room_id task_id prompt_sha256 participants) (\<lambda>matching.
         res_require (list_ex (\<lambda>c. di_discussion_id c = discussion_id) matching)
           (BridgeError ''bound discussion prompt or route binding does not match'') (Inr (Some row)))))"

section \<open>Sealed rows\<close>

definition seal_discussion :: "(string \<Rightarrow> string) \<Rightarrow> disc_row \<Rightarrow> disc_row" where
  "seal_discussion H r = r\<lparr>di_discussion_sha256 := discussion_digest H r\<rparr>"

definition seal_dispatch :: "(string \<Rightarrow> string) \<Rightarrow> dispatch_row \<Rightarrow> dispatch_row" where
  "seal_dispatch H r = r\<lparr>dp_dispatch_sha256 := dispatch_digest H r\<rparr>"

interpretation disc: sealed_row "discussion_digest H" di_discussion_sha256 "seal_discussion H" for H
  by unfold_locales (simp_all add: seal_discussion_def discussion_digest_def discussion_row_payload_def)

interpretation disp: sealed_row "dispatch_digest H" dp_dispatch_sha256 "seal_dispatch H" for H
  by unfold_locales (simp_all add: seal_dispatch_def dispatch_digest_def dispatch_payload_def)

definition disc_key :: "disc_row \<Rightarrow> string \<times> string" where
  "disc_key r = (di_scope r, di_discussion_id r)"

definition disp_key :: "dispatch_row \<Rightarrow> string \<times> string \<times> string" where
  "disp_key r = (dp_scope r, dp_message_id r, dp_agent_id r)"

text \<open>The primary keys are unique and every digest-bound row is sealed.\<close>

definition disc_inv :: "(string \<Rightarrow> string) \<Rightarrow> 'a disc_db_scheme \<Rightarrow> bool" where
  "disc_inv H d \<longleftrightarrow> distinct (map disc_key (room_discussions d)) \<and> distinct (map disp_key (message_dispatches d))
     \<and> (\<forall>r \<in> set (room_discussions d). disc.sealed H r) \<and> (\<forall>r \<in> set (message_dispatches d). disp.sealed H r)"

section \<open>What fencing does\<close>

definition unfinished_in :: "string \<Rightarrow> string \<Rightarrow> msg_row list \<Rightarrow> dispatch_row \<Rightarrow> bool" where
  "unfinished_in scope discussion_id ms r \<longleftrightarrow> (\<exists>m \<in> set ms. unfinished_prompt scope discussion_id r m)"

definition fence :: "(string \<Rightarrow> string) \<Rightarrow> string \<Rightarrow> string \<Rightarrow> dispatch_row \<Rightarrow> dispatch_row" where
  "fence H error_code now r = seal_dispatch H (fail_dispatch error_code now r)"

text \<open>The columns \<open>fail_dispatch\<close> keeps.\<close>

definition kept_columns :: "dispatch_row \<Rightarrow> string \<times> string \<times> string \<times> int \<times> string option" where
  "kept_columns r = (dp_scope r, dp_message_id r, dp_agent_id r, dp_attempt_count r, dp_claimed_utc r)"

lemma dispatch_digest_kept:
  "kept_columns r = kept_columns q \<Longrightarrow>
     dispatch_digest H (fail_dispatch e now r) = dispatch_digest H (fail_dispatch e now q)"
  by (simp add: dispatch_digest_def dispatch_payload_def fail_dispatch_def kept_columns_def)

lemma kept_fence [simp]: "kept_columns (fence H e now r) = kept_columns r"
  by (simp add: kept_columns_def fence_def seal_dispatch_def fail_dispatch_def)

lemma same_dispatch_fence [simp]: "same_dispatch b row (fence H e now r) = same_dispatch b row r"
  by (simp add: same_dispatch_def fence_def seal_dispatch_def fail_dispatch_def)

lemma disp_key_fence [simp]: "disp_key (fence H e now r) = disp_key r"
  by (simp add: disp_key_def fence_def seal_dispatch_def fail_dispatch_def)

lemma fence_twice [simp]: "fence H e now (fence H e now r) = fence H e now r"
  by (simp add: fence_def seal_dispatch_def fail_dispatch_def dispatch_digest_def dispatch_payload_def)

lemma fence_status [simp]: "dp_status (fence H e now r) = ''failed''"
  by (simp add: fence_def seal_dispatch_def fail_dispatch_def)

lemma cancel_dispatch_run:
  assumes "\<forall>r \<in> set (message_dispatches (st_db s)). same_dispatch b row r \<longrightarrow> kept_columns r = kept_columns row"
  shows "cancel_dispatch b e now row s = (Inr (), s\<lparr>st_db := (st_db s)\<lparr>message_dispatches :=
    update_where (same_dispatch b row) (fence (br_sha256 b) e now) (message_dispatches (st_db s))\<rparr>\<rparr>)"
proof -
  have "update_where (same_dispatch b row) (\<lambda>r. (fail_dispatch e now r)\<lparr>dp_dispatch_sha256 :=
        dispatch_digest (br_sha256 b) (fail_dispatch e now row)\<rparr>) (message_dispatches (st_db s))
      = update_where (same_dispatch b row) (fence (br_sha256 b) e now) (message_dispatches (st_db s))"
  proof (rule update_where_cong)
    fix r
    assume "r \<in> set (message_dispatches (st_db s))" and "same_dispatch b row r"
    then have "kept_columns r = kept_columns row" using assms by blast
    then have "dispatch_digest (br_sha256 b) (fail_dispatch e now row)
        = dispatch_digest (br_sha256 b) (fail_dispatch e now r)"
      by (rule dispatch_digest_kept [OF sym])
    then show "(fail_dispatch e now r)\<lparr>dp_dispatch_sha256 :=
          dispatch_digest (br_sha256 b) (fail_dispatch e now row)\<rparr> = fence (br_sha256 b) e now r"
      by (simp only: fence_def seal_dispatch_def)
  qed simp
  then show ?thesis by (simp add: cancel_dispatch_def Let_def tx_execute_def)
qed

lemma cancel_dispatches_run:
  assumes "\<forall>row \<in> set rows. \<forall>r \<in> set (message_dispatches (st_db s)).
    same_dispatch b row r \<longrightarrow> kept_columns r = kept_columns row"
  shows "\<exists>us. tx_for (cancel_dispatch b e now) rows s = (Inr us, s\<lparr>st_db := (st_db s)\<lparr>message_dispatches :=
    update_where (\<lambda>r. \<exists>row \<in> set rows. same_dispatch b row r) (fence (br_sha256 b) e now)
      (message_dispatches (st_db s))\<rparr>\<rparr>)"
  using assms
proof (induction rows arbitrary: s)
  case Nil
  then show ?case by (simp add: tx_return_def update_where_def)
next
  case (Cons row rows)
  let ?f = "fence (br_sha256 b) e now"
  let ?t = "s\<lparr>st_db := (st_db s)\<lparr>message_dispatches :=
    update_where (same_dispatch b row) ?f (message_dispatches (st_db s))\<rparr>\<rparr>"
  have one: "cancel_dispatch b e now row s = (Inr (), ?t)"
    using Cons.prems by (intro cancel_dispatch_run) simp
  have "\<forall>q \<in> set rows. \<forall>r \<in> set (message_dispatches (st_db ?t)).
      same_dispatch b q r \<longrightarrow> kept_columns r = kept_columns q"
    using Cons.prems by (auto simp: set_update_where)
  from Cons.IH [OF this]
  obtain us where "tx_for (cancel_dispatch b e now) rows ?t = (Inr us, ?t\<lparr>st_db := (st_db ?t)\<lparr>message_dispatches :=
      update_where (\<lambda>r. \<exists>q \<in> set rows. same_dispatch b q r) ?f (message_dispatches (st_db ?t))\<rparr>\<rparr>)"
    by blast
  moreover have "update_where (\<lambda>r. \<exists>q \<in> set rows. same_dispatch b q r) ?f
        (update_where (same_dispatch b row) ?f (message_dispatches (st_db s)))
      = update_where (\<lambda>r. \<exists>q \<in> set (row # rows). same_dispatch b q r) ?f (message_dispatches (st_db s))"
    by (subst update_where_twice) (auto intro!: update_where_cong)
  ultimately show ?case using one by (simp add: tx_bind_def tx_return_def)
qed

definition fence_db :: "(string \<Rightarrow> string) \<Rightarrow> string \<Rightarrow> string \<Rightarrow> string \<Rightarrow> string
    \<Rightarrow> 'a disc_db_scheme \<Rightarrow> 'a disc_db_scheme" where
  "fence_db H scope discussion_id e now d = d\<lparr>message_dispatches :=
     update_where (unfinished_in scope discussion_id (messages d)) (fence H e now) (message_dispatches d)\<rparr>"

lemma set_unfinished_dispatches:
  "set (unfinished_dispatches scope did d) = {r \<in> set (message_dispatches d). unfinished_in scope did (messages d) r}"
  by (auto simp: unfinished_dispatches_def unfinished_in_def)

lemma unfinished_in_scope: "unfinished_in scope did ms r \<Longrightarrow> dp_scope r = scope"
  by (auto simp: unfinished_in_def unfinished_prompt_def)

lemma cancel_discussion_dispatches_run:
  assumes "distinct (map disp_key (message_dispatches (st_db s)))"
  shows "cancel_discussion_dispatches b did e now s =
    (Inr (int (length (unfinished_dispatches (br_scope b) did (st_db s)))),
     s\<lparr>st_db := fence_db (br_sha256 b) (br_scope b) did e now (st_db s)\<rparr>)"
proof -
  let ?rows = "unfinished_dispatches (br_scope b) did (st_db s)"
  let ?table = "message_dispatches (st_db s)"
  have same: "r = row" if "row \<in> set ?rows" "r \<in> set ?table" "same_dispatch b row r" for row r
    using that unfinished_in_scope distinct_key_eq [OF assms]
    by (auto simp: set_unfinished_dispatches same_dispatch_def disp_key_def)
  have self: "same_dispatch b row row" if "row \<in> set ?rows" for row
    using that unfinished_in_scope by (auto simp: set_unfinished_dispatches same_dispatch_def)
  have "\<forall>row \<in> set ?rows. \<forall>r \<in> set ?table. same_dispatch b row r \<longrightarrow> kept_columns r = kept_columns row"
    using same by blast
  from cancel_dispatches_run [OF this, of e now]
  obtain us where us: "tx_for (cancel_dispatch b e now) ?rows s = (Inr us, s\<lparr>st_db := (st_db s)\<lparr>message_dispatches :=
    update_where (\<lambda>r. \<exists>row \<in> set ?rows. same_dispatch b row r) (fence (br_sha256 b) e now) ?table\<rparr>\<rparr>)" ..
  have "update_where (\<lambda>r. \<exists>row \<in> set ?rows. same_dispatch b row r) (fence (br_sha256 b) e now) ?table
      = update_where (unfinished_in (br_scope b) did (messages (st_db s))) (fence (br_sha256 b) e now) ?table"
  proof (rule update_where_cong)
    fix r
    assume r: "r \<in> set ?table"
    show "(\<exists>row \<in> set ?rows. same_dispatch b row r) = unfinished_in (br_scope b) did (messages (st_db s)) r"
      using same [OF _ r] self r by (auto simp: set_unfinished_dispatches)
  qed simp
  then show ?thesis
    using us by (simp add: cancel_discussion_dispatches_def fence_db_def tx_bind_def tx_then_def tx_query_def tx_return_def)
qed

lemma fence_db_frame [simp]:
  "events (fence_db H sc did e now d) = events d" "event_seq (fence_db H sc did e now d) = event_seq d"
  "scope_storage_usage (fence_db H sc did e now d) = scope_storage_usage d"
  "room_discussions (fence_db H sc did e now d) = room_discussions d"
  "messages (fence_db H sc did e now d) = messages d"
  by (simp_all add: fence_db_def)

lemma fence_db_inv: "disc_inv H d \<Longrightarrow> disc_inv H (fence_db H sc did e now d)"
proof -
  assume d: "disc_inv H d"
  have keys: "map disp_key (message_dispatches (fence_db H sc did e now d)) = map disp_key (message_dispatches d)"
    by (simp add: fence_db_def map_update_where)
  have "\<forall>r \<in> set (message_dispatches (fence_db H sc did e now d)). disp.sealed H r"
    using d disp.sealed_update [of "message_dispatches d" H] by (simp add: disc_inv_def fence_db_def fence_def [abs_def])
  then show ?thesis using d unfolding disc_inv_def keys by simp
qed

section \<open>What storing a discussion does\<close>

text \<open>The columns a state change may not touch.\<close>

definition disc_identity where
  "disc_identity r = (di_scope r, di_discussion_id r, di_room_id r, di_task_id r, di_subject r,
     di_starter_agent_id r, di_created_utc r)"

lemma stop_changes_identity [simp]: "disc_identity (stop_changes reason r) = disc_identity r"
  by (simp add: disc_identity_def stop_changes_def)

definition store_db :: "(string \<Rightarrow> string) \<Rightarrow> disc_row \<Rightarrow> string \<Rightarrow> (disc_row \<Rightarrow> disc_row)
    \<Rightarrow> 'a disc_db_scheme \<Rightarrow> 'a disc_db_scheme" where
  "store_db H row now changes d = d\<lparr>room_discussions := update_where (\<lambda>r. disc_key r = disc_key row)
     (\<lambda>r. seal_discussion H ((changes r)\<lparr>di_updated_utc := now\<rparr>)) (room_discussions d)\<rparr>"

lemma write_is_seal:
  assumes "disc_identity (changes row) = disc_identity row"
  shows "write_discussion (changes row) now (discussion_digest H (changes row)) row
    = seal_discussion H ((changes row)\<lparr>di_updated_utc := now\<rparr>)"
  using assms
  by (cases "changes row") (auto simp: write_discussion_def seal_discussion_def disc_identity_def
      discussion_digest_def discussion_row_payload_def)

lemma store_discussion_state_run:
  assumes "distinct (map disc_key (room_discussions (st_db s)))" and "row \<in> set (room_discussions (st_db s))"
    and "di_scope row = br_scope b" and "disc_identity (changes row) = disc_identity row"
  shows "store_discussion_state b row now changes s =
    (Inr (changes row, discussion_digest (br_sha256 b) (changes row)),
     s\<lparr>st_db := store_db (br_sha256 b) row now changes (st_db s)\<rparr>)"
proof -
  have id: "di_discussion_id (changes row) = di_discussion_id row"
    using assms(4) by (simp add: disc_identity_def)
  have "update_where (\<lambda>r. di_scope r = br_scope b \<and> di_discussion_id r = di_discussion_id (changes row))
      (write_discussion (changes row) now (discussion_digest (br_sha256 b) (changes row))) (room_discussions (st_db s))
    = update_where (\<lambda>r. disc_key r = disc_key row)
      (\<lambda>r. seal_discussion (br_sha256 b) ((changes r)\<lparr>di_updated_utc := now\<rparr>)) (room_discussions (st_db s))"
  proof (rule update_where_cong)
    fix r
    assume r: "r \<in> set (room_discussions (st_db s))"
    show "(di_scope r = br_scope b \<and> di_discussion_id r = di_discussion_id (changes row)) = (disc_key r = disc_key row)"
      using assms(3) id by (auto simp: disc_key_def)
    assume "disc_key r = disc_key row"
    then have "r = row" by (rule distinct_key_eq [OF assms(1) r assms(2)])
    then show "write_discussion (changes row) now (discussion_digest (br_sha256 b) (changes row)) r
        = seal_discussion (br_sha256 b) ((changes r)\<lparr>di_updated_utc := now\<rparr>)"
      using write_is_seal [where changes = changes and row = row] assms(4) by simp
  qed
  then show ?thesis
    by (simp add: store_discussion_state_def Let_def tx_then_def tx_bind_def tx_execute_def tx_return_def store_db_def)
qed

lemma store_db_frame [simp]:
  "events (store_db H row now ch d) = events d" "event_seq (store_db H row now ch d) = event_seq d"
  "scope_storage_usage (store_db H row now ch d) = scope_storage_usage d"
  "message_dispatches (store_db H row now ch d) = message_dispatches d"
  "messages (store_db H row now ch d) = messages d"
  by (simp_all add: store_db_def)

lemma store_db_inv:
  assumes "disc_inv H d" and "\<And>r. disc_identity (ch r) = disc_identity r"
  shows "disc_inv H (store_db H row now ch d)"
proof -
  have "disc_key (seal_discussion H ((ch r)\<lparr>di_updated_utc := now\<rparr>)) = disc_key r" for r
    using assms(2) [of r] by (simp add: disc_key_def disc_identity_def seal_discussion_def)
  then have keys: "map disc_key (room_discussions (store_db H row now ch d)) = map disc_key (room_discussions d)"
    by (simp add: store_db_def map_update_where)
  have "\<forall>r \<in> set (room_discussions (store_db H row now ch d)). disc.sealed H r"
    using assms(1) disc.sealed_update [of "room_discussions d" H] by (simp add: disc_inv_def store_db_def)
  then show ?thesis using assms(1) unfolding disc_inv_def keys by simp
qed

section \<open>What the search returns\<close>

lemma participant_ok_seen: "participant_ok seen t \<longleftrightarrow> participant_ok {} t \<and> fst t \<notin> seen"
  by (cases t) (auto simp: participant_ok_def)

lemma participant_loop_Inr:
  "participant_loop seen ps = Inr ts \<longleftrightarrow> ts = map participant_of ps
     \<and> (\<forall>p \<in> set ps. is_mapping p \<and> participant_ok {} (participant_of p) \<and> fst (participant_of p) \<notin> seen)
     \<and> distinct (map (fst \<circ> participant_of) ps)"
proof (induction ps arbitrary: seen ts)
  case (Cons p ps)
  show ?case
    by (auto simp: tx_simps Cons.IH participant_ok_seen [of seen] image_iff)
qed auto

lemma guided_participant_binding_Inr:
  "guided_participant_binding ps = Inr ts \<longleftrightarrow> ts = sort (map participant_of ps) \<and> ps \<noteq> []
     \<and> (\<forall>p \<in> set ps. is_mapping p \<and> participant_ok {} (participant_of p))
     \<and> distinct (map (fst \<circ> participant_of) ps)"
  by (auto simp: guided_participant_binding_def tx_simps participant_loop_Inr)

lemma matching_loop_result:
  "matching_loop b d psha expected rs =
     (if \<forall>r \<in> set rs. prompts_match b d psha expected r \<longrightarrow> disc.sealed (br_sha256 b) r
      then Inr (filter (prompts_match b d psha expected) rs) else Inl (BridgeError B_discussion_sha_mismatch))"
  by (induction rs) (auto simp: res_require_def res_bind_def disc.sealed_def)

end
