(* ===== verification/OperationQueue.thy ===== *)
theory OperationQueue
  imports Discussions
begin

text \<open>
  \<open>operation_queue.py\<close>, first part: the row of \<open>governance_operations\<close> and its digest, the workflow
  templates, the validators, and \<open>_row\<close>, \<open>_rehash\<close>, \<open>_enqueue_locked\<close>, \<open>enqueue\<close>, \<open>ensure\<close>,
  \<open>_set_terminal_locked\<close>, \<open>get_operation\<close> and \<open>list_operations\<close>. The queue shares the database and the
  audit chain of its bridge; epochs are whole seconds.
\<close>

datatype op_status = Queued | Running | Retry | Cancelling | Succeeded | Failed | Cancelled

fun status_text :: "op_status \<Rightarrow> string" where
  "status_text Queued = ''queued''"
| "status_text Running = ''running''"
| "status_text Retry = ''retry''"
| "status_text Cancelling = ''cancelling''"
| "status_text Succeeded = ''succeeded''"
| "status_text Failed = ''failed''"
| "status_text Cancelled = ''cancelled''"

definition TERMINAL_OPERATION_STATUSES :: "op_status set" where
  "TERMINAL_OPERATION_STATUSES = {Succeeded, Failed, Cancelled}"

abbreviation terminal :: "op_status \<Rightarrow> bool" where
  "terminal st \<equiv> st \<in> TERMINAL_OPERATION_STATUSES"

abbreviation leased :: "op_status \<Rightarrow> bool" where
  "leased st \<equiv> st \<in> {Running, Cancelling}"

record workflow_template =
  wt_label :: string
  wt_roles :: "string list"
  wt_session_modes :: "string list"
  wt_same_source_review :: bool
  wt_automatic_retry :: bool

definition WORKFLOW_TEMPLATES :: "(string \<times> workflow_template) list" where
  "WORKFLOW_TEMPLATES =
     [(''implement-review'', \<lparr>wt_label = ''Implement + Review'', wt_roles = [''implementer'', ''reviewer''],
        wt_session_modes = [''isolated-write'', ''observe''], wt_same_source_review = True,
        wt_automatic_retry = False\<rparr>),
      (''investigate-debate'', \<lparr>wt_label = ''Investigate + Debate'',
        wt_roles = [''investigator'', ''investigator'', ''reviewer''],
        wt_session_modes = [''observe'', ''observe'', ''observe''], wt_same_source_review = True,
        wt_automatic_retry = True\<rparr>),
      (''read-only-audit'', \<lparr>wt_label = ''Read-only Audit'', wt_roles = [''auditor''],
        wt_session_modes = [''observe''], wt_same_source_review = True, wt_automatic_retry = True\<rparr>),
      (''release-gate'', \<lparr>wt_label = ''Release Gate'', wt_roles = [''auditor'', ''reviewer''],
        wt_session_modes = [''observe'', ''observe''], wt_same_source_review = True,
        wt_automatic_retry = True\<rparr>)]"

definition known_workflow :: "string \<Rightarrow> bool" where
  "known_workflow w = (map_of WORKFLOW_TEMPLATES w \<noteq> None)"

definition MAX_TASK_CHARS :: int where "MAX_TASK_CHARS = 50000"
definition MAX_OPERATION_ATTEMPTS :: int where "MAX_OPERATION_ATTEMPTS = 10"
definition MAX_OPERATION_TIMEOUT_SECONDS :: int where "MAX_OPERATION_TIMEOUT_SECONDS = 86400"
definition MAX_OPERATION_LEASE_SECONDS :: int where "MAX_OPERATION_LEASE_SECONDS = 3600"

definition ROOM_DISCUSSION_RESOURCE_PREFIX :: string where
  "ROOM_DISCUSSION_RESOURCE_PREFIX = ''room-discussion:''"

section \<open>Rows\<close>

record op_row =
  op_scope :: string
  op_operation_id :: string
  op_workflow_id :: string
  op_requested_by :: string
  op_task_text :: string
  op_working_directory :: string
  op_resource_key :: string
  op_permission_decision_id :: "string option"
  op_bound_discussion_id :: "string option"
  op_status :: op_status
  op_attempt_count :: int
  op_max_attempts :: int
  op_timeout_seconds :: int
  op_not_before_epoch :: int
  op_lease_owner :: "string option"
  op_lease_token_sha256 :: "string option"
  op_lease_expires_epoch :: "int option"
  op_attempt_deadline_epoch :: "int option"
  op_cancellation_requested :: bool
  op_terminal_outcome :: "string option"
  op_terminal_detail :: "string option"
  op_created_utc :: string
  op_updated_utc :: string
  op_operation_sha256 :: string

record sched_row =
  sc_scope :: string
  sc_schedule_id :: string
  sc_workflow_id :: string
  sc_requested_by :: string
  sc_task_text :: string
  sc_working_directory :: string
  sc_resource_key :: string
  sc_permission_decision_id :: "string option"
  sc_interval_seconds :: int
  sc_next_run_epoch :: int
  sc_enabled :: bool
  sc_last_materialized_epoch :: "int option"
  sc_created_utc :: string
  sc_updated_utc :: string
  sc_schedule_sha256 :: string

record queue_db = disc_db +
  governance_operations :: "op_row list"
  workflow_schedules :: "sched_row list"

definition json_flag :: "bool \<Rightarrow> json" where
  "json_flag c = JInt (if c then 1 else 0)"

definition governance_operation_payload :: "op_row \<Rightarrow> json" where
  "governance_operation_payload r = JObj
     [(''scope'', JStr (op_scope r)), (''operation_id'', JStr (op_operation_id r)),
      (''workflow_id'', JStr (op_workflow_id r)), (''requested_by'', JStr (op_requested_by r)),
      (''task_text'', JStr (op_task_text r)), (''working_directory'', JStr (op_working_directory r)),
      (''resource_key'', JStr (op_resource_key r)),
      (''permission_decision_id'', json_opt JStr (op_permission_decision_id r)),
      (''bound_discussion_id'', json_opt JStr (op_bound_discussion_id r)),
      (''status'', JStr (status_text (op_status r))), (''attempt_count'', JInt (op_attempt_count r)),
      (''max_attempts'', JInt (op_max_attempts r)), (''timeout_seconds'', JInt (op_timeout_seconds r)),
      (''not_before_epoch'', json_epoch (op_not_before_epoch r)),
      (''lease_owner'', json_opt JStr (op_lease_owner r)),
      (''lease_token_sha256'', json_opt JStr (op_lease_token_sha256 r)),
      (''lease_expires_epoch'', json_opt json_epoch (op_lease_expires_epoch r)),
      (''attempt_deadline_epoch'', json_opt json_epoch (op_attempt_deadline_epoch r)),
      (''cancellation_requested'', json_flag (op_cancellation_requested r)),
      (''terminal_outcome'', json_opt JStr (op_terminal_outcome r)),
      (''terminal_detail'', json_opt JStr (op_terminal_detail r)),
      (''created_utc'', JStr (op_created_utc r)), (''updated_utc'', JStr (op_updated_utc r))]"

definition operation_digest :: "(string \<Rightarrow> string) \<Rightarrow> op_row \<Rightarrow> string" where
  "operation_digest H r = stable_sha256 H (governance_operation_payload r)"

section \<open>Validators\<close>

definition op_identifier :: "string \<Rightarrow> string \<Rightarrow> exn + string" where
  "op_identifier value label = (let text = py_strip value in
     if safe_id text then Inr text else Inl (OperationQueueError (label @ '' is invalid'')))"

definition safe_text :: "string \<Rightarrow> string \<Rightarrow> int \<Rightarrow> exn + string" where
  "safe_text value label limit = (let text = py_strip value in
     if text = [] \<or> limit < int (length text) then Inl (OperationQueueError (label @ '' is invalid or too large''))
     else if contains_secret text then Inl (OperationQueueError (label @ '' contains credential-like data''))
     else Inr text)"

definition truthy :: "string option \<Rightarrow> string option" where
  "truthy t = (case t of Some x \<Rightarrow> if x = [] then None else Some x | None \<Rightarrow> None)"

definition optional_id :: "string option \<Rightarrow> string \<Rightarrow> exn + string option" where
  "optional_id value label = (case truthy value of None \<Rightarrow> Inr None
     | Some v \<Rightarrow> res_bind (op_identifier v label) (\<lambda>t. Inr (Some t)))"

definition require_service_transition :: "bridge \<Rightarrow> string \<Rightarrow> ('d, unit) op" where
  "require_service_transition b action = tx_require (br_agent_id b \<in> {HUMAN_OPERATOR_ID, CONTROL_ROOM_WORKFLOW_ID})
     (OperationQueueError (''only '' @ HUMAN_OPERATOR_ID @ '' or '' @ CONTROL_ROOM_WORKFLOW_ID @ '' may '' @ action))"

section \<open>Reading and rehashing a row\<close>

definition op_is :: "bridge \<Rightarrow> string \<Rightarrow> op_row \<Rightarrow> bool" where
  "op_is b operation_id r = (op_scope r = br_scope b \<and> op_operation_id r = operation_id)"

definition row_locked :: "bridge \<Rightarrow> string \<Rightarrow> ('a queue_db_scheme, op_row) op" where
  "row_locked b operation_id =
     tx_bind (tx_query (\<lambda>d. fetch_one (op_is b operation_id) (governance_operations d))) (\<lambda>found.
     case found of
       None \<Rightarrow> tx_raise (OperationQueueError ''operation does not exist'')
     | Some row \<Rightarrow> tx_then (tx_require (operation_digest (br_sha256 b) row = op_operation_sha256 row)
           (OperationQueueError ''operation SHA-256 does not match its state''))
         (tx_return row))"

definition assert_found :: "'r option \<Rightarrow> ('d, 'r) op" where
  "assert_found found = (case found of None \<Rightarrow> tx_raise AssertionError | Some row \<Rightarrow> tx_return row)"

definition update_operations :: "bridge \<Rightarrow> string \<Rightarrow> (op_row \<Rightarrow> op_row) \<Rightarrow> ('a queue_db_scheme, unit) op" where
  "update_operations b operation_id f = tx_execute (\<lambda>d. d\<lparr>governance_operations :=
     update_where (op_is b operation_id) f (governance_operations d)\<rparr>)"

definition rehash :: "bridge \<Rightarrow> string \<Rightarrow> ('a queue_db_scheme, op_row) op" where
  "rehash b operation_id =
     tx_bind (tx_query (\<lambda>d. fetch_one (op_is b operation_id) (governance_operations d))) (\<lambda>found.
     tx_bind (assert_found found) (\<lambda>row.
     let digest = operation_digest (br_sha256 b) row in
     tx_then (update_operations b operation_id (\<lambda>r. r\<lparr>op_operation_sha256 := digest\<rparr>))
    (tx_bind (tx_query (\<lambda>d. fetch_one (op_is b operation_id) (governance_operations d))) assert_found)))"

section \<open>Enqueueing\<close>

record op_request =
  rq_workflow_id :: string
  rq_task_text :: string
  rq_working_directory :: string
  rq_resource_key :: string
  rq_requested_by :: string
  rq_permission_decision_id :: "string option"
  rq_max_attempts :: int
  rq_timeout_seconds :: int
  rq_not_before_epoch :: int
  rq_operation_id :: "string option"

text \<open>The checks of \<open>_enqueue_locked\<close> before it names the operation, in their order.\<close>

definition check_limits :: "int \<Rightarrow> int \<Rightarrow> exn + unit" where
  "check_limits max_attempts timeout_seconds =
     res_require (1 \<le> max_attempts \<and> max_attempts \<le> MAX_OPERATION_ATTEMPTS)
       (OperationQueueError ''operation attempt limit is invalid'')
    (res_require (1 \<le> timeout_seconds \<and> timeout_seconds \<le> MAX_OPERATION_TIMEOUT_SECONDS)
       (OperationQueueError ''operation timeout is invalid'') (Inr ()))"

definition validate_request :: "op_request \<Rightarrow> exn + op_request" where
  "validate_request q =
     res_bind (op_identifier (rq_workflow_id q) ''workflow id'') (\<lambda>workflow_id.
     res_require (known_workflow workflow_id) (OperationQueueError ''workflow template is not registered'')
    (res_bind (safe_text (rq_task_text q) ''task text'' MAX_TASK_CHARS) (\<lambda>task_text.
     res_bind (safe_text (rq_working_directory q) ''working directory'' 2000) (\<lambda>working_directory.
     res_bind (op_identifier (rq_resource_key q) ''resource key'') (\<lambda>resource_key.
     res_bind (op_identifier (rq_requested_by q) ''requester'') (\<lambda>requested_by.
     res_require (requested_by \<in> {HUMAN_OPERATOR_ID, CONTROL_ROOM_WORKFLOW_ID})
       (OperationQueueError ''only human-operator or control-room-workflow may enqueue local workflows'')
    (res_bind (optional_id (rq_permission_decision_id q) ''permission decision id'') (\<lambda>permission_decision_id.
     res_bind (check_limits (rq_max_attempts q) (rq_timeout_seconds q)) (\<lambda>_.
     Inr (q\<lparr>rq_workflow_id := workflow_id, rq_task_text := task_text, rq_working_directory := working_directory,
            rq_resource_key := resource_key, rq_requested_by := requested_by,
            rq_permission_decision_id := permission_decision_id\<rparr>))))))))))"

definition new_operation :: "bridge \<Rightarrow> op_request \<Rightarrow> string \<Rightarrow> string \<Rightarrow> op_row" where
  "new_operation b q operation_id created =
    (let row = \<lparr>op_scope = br_scope b, op_operation_id = operation_id, op_workflow_id = rq_workflow_id q,
       op_requested_by = rq_requested_by q, op_task_text = rq_task_text q,
       op_working_directory = rq_working_directory q, op_resource_key = rq_resource_key q,
       op_permission_decision_id = rq_permission_decision_id q, op_bound_discussion_id = None,
       op_status = Queued, op_attempt_count = 0, op_max_attempts = rq_max_attempts q,
       op_timeout_seconds = rq_timeout_seconds q, op_not_before_epoch = rq_not_before_epoch q,
       op_lease_owner = None, op_lease_token_sha256 = None, op_lease_expires_epoch = None,
       op_attempt_deadline_epoch = None, op_cancellation_requested = False, op_terminal_outcome = None,
       op_terminal_detail = None, op_created_utc = created, op_updated_utc = created,
       op_operation_sha256 = []\<rparr>
     in row\<lparr>op_operation_sha256 := operation_digest (br_sha256 b) row\<rparr>)"

definition insert_operation :: "op_row \<Rightarrow> ('a queue_db_scheme, unit) op" where
  "insert_operation row =
     tx_bind (tx_query (\<lambda>d. list_ex (\<lambda>r. op_scope r = op_scope row \<and> op_operation_id r = op_operation_id row)
       (governance_operations d))) (\<lambda>clash.
     tx_then (tx_require (\<not> clash) IntegrityError)
     (tx_execute (\<lambda>d. d\<lparr>governance_operations := governance_operations d @ [row]\<rparr>)))"

definition is_integrity_error :: "exn \<Rightarrow> bool" where
  "is_integrity_error e = (e = IntegrityError)"

text \<open>\<open>given or uuid.uuid4().hex\<close>.\<close>

definition name_or_uuid :: "string option \<Rightarrow> ('d, string) op" where
  "name_or_uuid given = (case truthy given of Some i \<Rightarrow> tx_return i | None \<Rightarrow> uuid4_hex)"

definition enqueue_locked :: "bridge \<Rightarrow> op_request \<Rightarrow> ('a queue_db_scheme, op_row) op" where
  "enqueue_locked b request =
     tx_bind (tx_lift (validate_request request)) (\<lambda>q.
     tx_bind (name_or_uuid (rq_operation_id q)) (\<lambda>named.
     tx_bind (tx_lift (op_identifier named ''operation id'')) (\<lambda>operation_id.
     tx_bind utc_now (\<lambda>created.
     tx_then (tx_catch (insert_operation (new_operation b q operation_id created)) is_integrity_error
       (tx_raise (OperationQueueError ''operation id already exists'')))
    (tx_bind (row_locked b operation_id) (\<lambda>row.
     tx_then (event_op b ''workflow.operation.queued''
       [(''operation_id'', JStr operation_id), (''workflow_id'', JStr (rq_workflow_id q)),
        (''resource_key'', JStr (rq_resource_key q)),
        (''operation_sha256'', JStr (op_operation_sha256 row))] None)
     (tx_return row)))))))"

definition epoch_or_now :: "int option \<Rightarrow> ('d, int) op" where
  "epoch_or_now t = (case t of None \<Rightarrow> time_time | Some e \<Rightarrow> tx_return e)"

definition enqueue :: "bridge \<Rightarrow> op_request \<Rightarrow> int option \<Rightarrow> ('a queue_db_scheme, op_row) op" where
  "enqueue b request not_before =
     tx_then (tx_require (br_agent_id b = HUMAN_OPERATOR_ID \<and> rq_requested_by request = HUMAN_OPERATOR_ID)
       (OperationQueueError ''only human-operator may enqueue local workflows''))
     (with_connection (tx_bind (epoch_or_now not_before) (\<lambda>t.
        enqueue_locked b (request\<lparr>rq_not_before_epoch := t\<rparr>))))"

section \<open>Ensuring one exact operation\<close>

definition requester_of :: "bridge \<Rightarrow> string option \<Rightarrow> string" where
  "requester_of b requested_by = (case truthy requested_by of Some r \<Rightarrow> r | None \<Rightarrow> br_agent_id b)"

definition check_capacity_request :: "string \<Rightarrow> int option \<Rightarrow> exn + unit" where
  "check_capacity_request requester max_open = (case max_open of None \<Rightarrow> Inr ()
     | Some n \<Rightarrow> res_require (requester = CONTROL_ROOM_WORKFLOW_ID)
         (OperationQueueError ''atomic operation capacity is reserved for control-room-workflow'')
        (res_require (1 \<le> n \<and> n \<le> 10000)
           (OperationQueueError ''automatic operation capacity is invalid'') (Inr ())))"

text \<open>The validation of \<open>ensure\<close>: the operation id first, the capacity last.\<close>

definition validate_ensure :: "bridge \<Rightarrow> op_request \<Rightarrow> string \<Rightarrow> int option \<Rightarrow> exn + op_request" where
  "validate_ensure b q requester max_open =
     res_require (requester \<in> {HUMAN_OPERATOR_ID, CONTROL_ROOM_WORKFLOW_ID})
       (OperationQueueError ''operation requester is not authorized'')
    (res_require (br_agent_id b = requester)
       (OperationQueueError ''operation requester does not match bridge identity'')
    (res_bind (op_identifier (text_or_empty (rq_operation_id q)) ''operation id'') (\<lambda>operation_id.
     res_bind (op_identifier (rq_workflow_id q) ''workflow id'') (\<lambda>workflow_id.
     res_require (known_workflow workflow_id) (OperationQueueError ''workflow template is not registered'')
    (res_bind (safe_text (rq_task_text q) ''task text'' MAX_TASK_CHARS) (\<lambda>task_text.
     res_bind (safe_text (rq_working_directory q) ''working directory'' 2000) (\<lambda>working_directory.
     res_bind (op_identifier (rq_resource_key q) ''resource key'') (\<lambda>resource_key.
     res_bind (optional_id (rq_permission_decision_id q) ''permission decision id'') (\<lambda>permission_decision_id.
     res_bind (check_limits (rq_max_attempts q) (rq_timeout_seconds q)) (\<lambda>_.
     res_bind (check_capacity_request requester max_open) (\<lambda>_.
     Inr (q\<lparr>rq_workflow_id := workflow_id, rq_task_text := task_text, rq_working_directory := working_directory,
            rq_resource_key := resource_key, rq_requested_by := requester,
            rq_permission_decision_id := permission_decision_id,
            rq_operation_id := Some operation_id\<rparr>))))))))))))"

definition same_source_request :: "op_request \<Rightarrow> op_row \<Rightarrow> bool" where
  "same_source_request q row =
     (op_workflow_id row = rq_workflow_id q \<and> op_requested_by row = rq_requested_by q
      \<and> op_task_text row = rq_task_text q \<and> op_working_directory row = rq_working_directory q
      \<and> op_resource_key row = rq_resource_key q
      \<and> op_permission_decision_id row = rq_permission_decision_id q
      \<and> op_max_attempts row = rq_max_attempts q \<and> op_timeout_seconds row = rq_timeout_seconds q
      \<and> op_not_before_epoch row = rq_not_before_epoch q)"

definition open_count :: "bridge \<Rightarrow> string \<Rightarrow> 'a queue_db_scheme \<Rightarrow> int" where
  "open_count b requester d = int (length (filter (\<lambda>r. op_scope r = br_scope b \<and> op_requested_by r = requester
     \<and> \<not> terminal (op_status r)) (governance_operations d)))"

definition ensure :: "bridge \<Rightarrow> op_request \<Rightarrow> string option \<Rightarrow> int option
    \<Rightarrow> ('a queue_db_scheme, op_row \<times> bool) op" where
  "ensure b request requested_by max_open =
    (let requester = requester_of b requested_by in
     tx_bind (tx_lift (validate_ensure b request requester max_open)) (\<lambda>q.
     let operation_id = text_or_empty (rq_operation_id q) in
     with_connection (
       tx_bind (tx_query (\<lambda>d. fetch_one (op_is b operation_id) (governance_operations d))) (\<lambda>existing.
       if existing \<noteq> None then
         tx_bind (row_locked b operation_id) (\<lambda>row.
         tx_then (tx_require (same_source_request q row)
           (OperationQueueError ''operation id already exists with a different source request''))
         (tx_return (row, False)))
       else
         tx_bind (tx_query (open_count b requester)) (\<lambda>count.
         tx_then (tx_require (case max_open of None \<Rightarrow> True | Some n \<Rightarrow> count < n) OperationCapacityError)
        (tx_bind (enqueue_locked b q) (\<lambda>row.
         tx_return (row, True))))))))"

section \<open>Ending an operation\<close>

definition set_terminal_locked :: "bridge \<Rightarrow> op_row \<Rightarrow> op_status \<Rightarrow> string \<Rightarrow> string \<Rightarrow> ('a queue_db_scheme, op_row) op" where
  "set_terminal_locked b row status outcome detail =
     tx_then (tx_require (\<not> terminal (op_status row))
       (OperationQueueError ''operation already has a terminal outcome''))
    (tx_bind utc_now (\<lambda>updated.
     tx_then (update_operations b (op_operation_id row) (\<lambda>r. r\<lparr>op_status := status,
        op_terminal_outcome := Some outcome, op_terminal_detail := Some detail, op_lease_owner := None,
        op_lease_token_sha256 := None, op_lease_expires_epoch := None, op_attempt_deadline_epoch := None,
        op_updated_utc := updated\<rparr>))
    (tx_bind (rehash b (op_operation_id row)) (\<lambda>ended.
     tx_then (event_op b (''workflow.operation.'' @ status_text status)
       [(''operation_id'', JStr (op_operation_id ended)), (''workflow_id'', JStr (op_workflow_id ended)),
        (''outcome'', JStr outcome), (''operation_sha256'', JStr (op_operation_sha256 ended))] None)
     (tx_return ended)))))"

section \<open>Reading operations\<close>

definition get_operation :: "bridge \<Rightarrow> string \<Rightarrow> ('a queue_db_scheme, op_row) op" where
  "get_operation b operation_id =
     tx_bind (tx_lift (op_identifier operation_id ''operation id'')) (\<lambda>i. with_connection (row_locked b i))"

definition clamp :: "int \<Rightarrow> int \<Rightarrow> int \<Rightarrow> nat" where
  "clamp lo hi n = nat (max lo (min n hi))"

definition list_operations :: "bridge \<Rightarrow> op_status option \<Rightarrow> int \<Rightarrow> ('a queue_db_scheme, op_row list) op" where
  "list_operations b status limit = with_connection (
     tx_bind (tx_query (\<lambda>d. take (clamp 1 500 limit) (rev (sort_key (\<lambda>r. (op_created_utc r, op_operation_id r))
       (filter (\<lambda>r. op_scope r = br_scope b \<and> (case status of None \<Rightarrow> True | Some st \<Rightarrow> op_status r = st))
         (governance_operations d)))))) (\<lambda>rows.
     tx_for (\<lambda>r. row_locked b (op_operation_id r)) rows))"

end
