(* ===== verification/GuidedBinding.thy ===== *)
theory GuidedBinding
  imports OperationQueue
begin

text \<open>
  \<open>operation_queue.py\<close>, second part: guided room operations and the discussion each is bound to.
  \<open>_guided_room_binding\<close> reads the binding from the operation's own text;
  \<open>bind_guided_discussion\<close> and \<open>_recover_unbound_guided_locked\<close> bind an operation to the one
  discussion with that exact prompt and route snapshot, or fail it and stop the open discussions;
  \<open>_stop_terminal_guided_discussion_locked\<close> ends the bound discussion of an ended operation.
\<close>

definition GUIDED_DISCUSSION_BINDING_GRACE_SECONDS :: int where
  "GUIDED_DISCUSSION_BINDING_GRACE_SECONDS = 30"

record guided_binding =
  gb_room_id :: string
  gb_task_id :: string
  gb_prompt_sha256 :: string
  gb_participants :: "json list"

definition expected_guided_id :: "(string \<Rightarrow> string) \<Rightarrow> string \<Rightarrow> string \<Rightarrow> string" where
  "expected_guided_id H room_id task_id = ''guided-room:'' @ take 40 (sha256_text H (room_id @ [CHR 0x00] @ task_id))"

fun participants_ok :: "string set \<Rightarrow> json list \<Rightarrow> bool" where
  "participants_ok seen [] = True"
| "participants_ok seen (p # ps) = (is_mapping p \<and> participant_ok seen (participant_of p)
     \<and> participants_ok (insert (fst (participant_of p)) seen) ps)"

definition guided_fields_ok :: "(string \<Rightarrow> string) \<Rightarrow> op_row \<Rightarrow> string \<Rightarrow> guided_binding \<Rightarrow> bool" where
  "guided_fields_ok H row source_sha256 g =
     (safe_id (gb_room_id g) \<and> safe_id (gb_task_id g) \<and> is_sha256_hex source_sha256
      \<and> is_sha256_hex (gb_prompt_sha256 g) \<and> gb_participants g \<noteq> []
      \<and> op_resource_key row = ROOM_DISCUSSION_RESOURCE_PREFIX @ source_sha256
      \<and> op_operation_id row = expected_guided_id H (gb_room_id g) (gb_task_id g)
      \<and> op_workflow_id row = ''investigate-debate'')"

definition guided_payload :: "(string \<Rightarrow> string) \<Rightarrow> op_row \<Rightarrow> json \<Rightarrow> guided_binding option" where
  "guided_payload H row payload =
     (if \<not> is_mapping payload \<or> json_get payload ''schema'' \<noteq> Some (JStr ''peerbridge.guided-room-operation.v1'')
      then None
      else case json_get payload ''participants'' of
        Some (JList participants) \<Rightarrow>
          (let g = \<lparr>gb_room_id = json_str_or_empty (json_get payload ''room_id''),
                    gb_task_id = json_str_or_empty (json_get payload ''task_id''),
                    gb_prompt_sha256 = json_str_or_empty (json_get payload ''prompt_sha256''),
                    gb_participants = participants\<rparr> in
           if guided_fields_ok H row (json_str_or_empty (json_get payload ''source_binding_sha256'')) g
             \<and> participants_ok {} participants then Some g else None)
      | _ \<Rightarrow> None)"

definition guided_room_binding :: "(string \<Rightarrow> string) \<Rightarrow> op_row \<Rightarrow> guided_binding option" where
  "guided_room_binding H row =
     (if \<not> starts_with (op_resource_key row) ROOM_DISCUSSION_RESOURCE_PREFIX then None
      else case json_loads (op_task_text row) of None \<Rightarrow> None | Some payload \<Rightarrow> guided_payload H row payload)"

section \<open>Stopping discussions\<close>

definition open_guided_task_rows :: "bridge \<Rightarrow> guided_binding \<Rightarrow> 'a queue_db_scheme \<Rightarrow> disc_row list" where
  "open_guided_task_rows b g d =
     filter open_discussion (discussions_of_task (br_scope b) (gb_room_id g) (gb_task_id g) d)"

definition stop_guided_row :: "bridge \<Rightarrow> op_row \<Rightarrow> string \<Rightarrow> string \<Rightarrow> string \<Rightarrow> disc_row
    \<Rightarrow> ('a queue_db_scheme, int) op" where
  "stop_guided_row b row stop_reason error_code event_type discussion =
     (if \<not> open_discussion discussion then tx_return 0
      else
        tx_bind utc_now (\<lambda>now.
        tx_bind (cancel_discussion_dispatches b (di_discussion_id discussion) error_code now) (\<lambda>cancelled.
        tx_bind (store_discussion_state b discussion now (stop_changes stop_reason)) (\<lambda>(_, discussion_sha256).
        tx_then (event_op b event_type
          [(''discussion_id'', JStr (di_discussion_id discussion)), (''operation_id'', JStr (op_operation_id row)),
           (''cancelled_dispatch_count'', JInt cancelled), (''discussion_sha256'', JStr discussion_sha256)]
          (Some (di_task_id discussion)))
        (tx_return 1)))))"

definition stop_guided_rows :: "bridge \<Rightarrow> op_row \<Rightarrow> disc_row list \<Rightarrow> string \<Rightarrow> string \<Rightarrow> string
    \<Rightarrow> ('a queue_db_scheme, int) op" where
  "stop_guided_rows b row discussions stop_reason error_code event_type =
     tx_bind (tx_for (stop_guided_row b row stop_reason error_code event_type) discussions) (\<lambda>counts.
     tx_return (sum_list counts))"

section \<open>Binding\<close>

text \<open>The partial unique index on (scope, bound discussion).\<close>

definition binding_conflict :: "bridge \<Rightarrow> string \<Rightarrow> string \<Rightarrow> 'a queue_db_scheme \<Rightarrow> bool" where
  "binding_conflict b operation_id discussion_id d =
     (list_ex (\<lambda>r. op_is b operation_id r \<and> op_bound_discussion_id r = None) (governance_operations d)
      \<and> list_ex (\<lambda>r. op_scope r = br_scope b \<and> op_operation_id r \<noteq> operation_id
            \<and> op_bound_discussion_id r = Some discussion_id) (governance_operations d))"

definition bind_guided_locked :: "bridge \<Rightarrow> op_row \<Rightarrow> guided_binding \<Rightarrow> disc_row \<Rightarrow> bool
    \<Rightarrow> ('a queue_db_scheme, op_row) op" where
  "bind_guided_locked b row g discussion recovery =
    (let discussion_id = di_discussion_id discussion in
     tx_bind utc_now (\<lambda>now.
     tx_bind (tx_query (binding_conflict b (op_operation_id row) discussion_id)) (\<lambda>conflict.
     tx_then (tx_require (\<not> conflict)
       (OperationQueueError ''guided discussion is already bound to another operation''))
    (tx_then (tx_execute (\<lambda>d. d\<lparr>governance_operations :=
        update_where (\<lambda>r. op_is b (op_operation_id row) r \<and> op_bound_discussion_id r = None)
          (\<lambda>r. r\<lparr>op_bound_discussion_id := Some discussion_id, op_updated_utc := now\<rparr>)
          (governance_operations d)\<rparr>))
    (tx_bind (rehash b (op_operation_id row)) (\<lambda>updated.
     tx_then (event_op b
       (if recovery then ''workflow.operation.discussion_recovered'' else ''workflow.operation.discussion_bound'')
       [(''operation_id'', JStr (op_operation_id updated)), (''discussion_id'', JStr discussion_id),
        (''room_id'', JStr (gb_room_id g)), (''task_id'', JStr (gb_task_id g)),
        (''operation_sha256'', JStr (op_operation_sha256 updated))] (Some (gb_task_id g)))
     (tx_return updated)))))))"

definition fail_unbound_guided :: "bridge \<Rightarrow> op_row \<Rightarrow> string \<Rightarrow> disc_row list \<Rightarrow> ('a queue_db_scheme, op_row) op" where
  "fail_unbound_guided b row detail open_rows =
     tx_bind (stop_guided_rows b row open_rows ''workflow_source_binding_failed''
       ''discussion_source_binding_failed'' ''discussion.source_binding_failed'') (\<lambda>stopped.
     set_terminal_locked b row Failed ''source-binding''
       (detail @ (if stopped = 0 then []
          else '' Stopped '' @ show_int stopped @ '' open discussion(s) atomically.'')))"

definition no_discussion :: "exn + 'a \<Rightarrow> 'a \<Rightarrow> exn + 'a" where
  "no_discussion r dflt = (case r of Inl e \<Rightarrow> (if is_bridge_error e then Inr dflt else Inl e) | Inr a \<Rightarrow> Inr a)"

text \<open>
  \<open>bind_guided_discussion\<close>. A failure is committed first and raised after the transaction, so the
  transaction returns the row together with the message to raise.
\<close>

definition bind_guided_tx :: "bridge \<Rightarrow> string \<Rightarrow> string \<Rightarrow> ('a queue_db_scheme, op_row \<times> string option) op" where
  "bind_guided_tx b operation_id discussion_id =
     tx_bind (row_locked b operation_id) (\<lambda>row.
     let existing_id = text_or_empty (op_bound_discussion_id row) in
     if existing_id \<noteq> [] then
       tx_then (tx_require (existing_id = discussion_id)
         (OperationQueueError ''operation is already bound to another discussion''))
       (tx_return (row, None))
     else
       tx_then (tx_require (op_status row \<in> {Queued, Retry})
         (OperationQueueError ''guided operation cannot be bound in its current state''))
      (case guided_room_binding (br_sha256 b) row of
         None \<Rightarrow>
           tx_bind (fail_unbound_guided b row ''Guided operation binding is malformed.'' []) (\<lambda>result.
           tx_return (result, Some ''guided operation binding is malformed''))
       | Some g \<Rightarrow>
           tx_bind (tx_query (open_guided_task_rows b g)) (\<lambda>open_rows.
           tx_bind (tx_query (\<lambda>d. bound_discussion_for_operation b d discussion_id (gb_room_id g) (gb_task_id g)
             (gb_prompt_sha256 g) (gb_participants g))) (\<lambda>found.
           tx_bind (tx_lift (no_discussion found None)) (\<lambda>discussion.
           if discussion = None \<or> list_ex (\<lambda>c. di_discussion_id c \<noteq> discussion_id) open_rows then
             tx_bind (fail_unbound_guided b row
               ''Guided discussion did not match the exact operation prompt, participants, routes, or unique open state.''
               open_rows) (\<lambda>result.
             tx_return (result, Some ''guided discussion binding did not match''))
           else
             tx_bind (bind_guided_locked b row g (the discussion) False) (\<lambda>result.
             tx_return (result, None)))))))"

definition bind_guided_discussion :: "bridge \<Rightarrow> string \<Rightarrow> string \<Rightarrow> ('a queue_db_scheme, op_row) op" where
  "bind_guided_discussion b operation_id discussion_id =
     tx_then (tx_require (br_agent_id b = HUMAN_OPERATOR_ID)
       (OperationQueueError ''only human-operator may bind a guided discussion''))
    (tx_bind (tx_lift (op_identifier operation_id ''operation id'')) (\<lambda>operation_id.
     tx_bind (tx_lift (op_identifier discussion_id ''discussion id'')) (\<lambda>discussion_id.
     tx_bind (with_connection (bind_guided_tx b operation_id discussion_id)) (\<lambda>(result, failure).
     case failure of Some msg \<Rightarrow> tx_raise (OperationQueueError msg) | None \<Rightarrow> tx_return result))))"

section \<open>Crash recovery of unbound operations\<close>

definition by_creation :: "op_row list \<Rightarrow> op_row list" where
  "by_creation rows = sort_key (\<lambda>r. (op_created_utc r, op_operation_id r)) rows"

definition unbound_guided :: "bridge \<Rightarrow> 'a queue_db_scheme \<Rightarrow> op_row list" where
  "unbound_guided b d = by_creation (filter (\<lambda>r. op_scope r = br_scope b \<and> op_bound_discussion_id r = None
     \<and> sql_like_prefix (op_resource_key r) ROOM_DISCUSSION_RESOURCE_PREFIX \<and> op_status r \<in> {Queued, Retry})
     (governance_operations d))"

text \<open>One unbound operation whose binding is well formed: bind it, fail it, or leave it its grace period.\<close>

definition recover_bound :: "bridge \<Rightarrow> int \<Rightarrow> op_row \<Rightarrow> guided_binding \<Rightarrow> ('a queue_db_scheme, op_row list) op" where
  "recover_bound b now_epoch row g =
     tx_bind (tx_query (open_guided_task_rows b g)) (\<lambda>open_rows.
     tx_bind (tx_query (\<lambda>d. matching_discussions_for_operation b d (gb_room_id g) (gb_task_id g)
       (gb_prompt_sha256 g) (gb_participants g))) (\<lambda>found.
     tx_bind (tx_lift (no_discussion found [])) (\<lambda>matching.
     let matching_ids = set (map di_discussion_id matching);
         open_matching = filter (\<lambda>r. di_discussion_id r \<in> matching_ids) open_rows;
         mismatched_open = filter (\<lambda>r. di_discussion_id r \<notin> matching_ids) open_rows in
     if mismatched_open \<noteq> [] \<or> 1 < length open_matching then
       tx_bind (fail_unbound_guided b row
         ''Guided crash recovery found an ambiguous or mismatched open discussion.'' open_rows) (\<lambda>r. tx_return [r])
     else if length open_matching = 1 then
       tx_then (bind_guided_locked b row g (hd open_matching) True) (tx_return [])
     else if length matching = 1 then
       tx_then (bind_guided_locked b row g (hd matching) True) (tx_return [])
     else if 1 < length matching then
       tx_bind (fail_unbound_guided b row
         ''Guided crash recovery found multiple terminal discussions and refused to guess by timestamp or identifier.''
         []) (\<lambda>r. tx_return [r])
     else if op_not_before_epoch row + GUIDED_DISCUSSION_BINDING_GRACE_SECONDS \<le> now_epoch then
       tx_bind (fail_unbound_guided b row
         ''Guided operation was never bound to a complete discussion before its startup grace period expired.''
         []) (\<lambda>r. tx_return [r])
     else tx_return [])))"

definition recover_one :: "bridge \<Rightarrow> int \<Rightarrow> op_row \<Rightarrow> ('a queue_db_scheme, op_row list) op" where
  "recover_one b now_epoch original =
     tx_bind (row_locked b (op_operation_id original)) (\<lambda>row.
     case guided_room_binding (br_sha256 b) row of
       None \<Rightarrow> tx_bind (fail_unbound_guided b row ''Guided operation binding is malformed.'' []) (\<lambda>r. tx_return [r])
     | Some g \<Rightarrow> recover_bound b now_epoch row g)"

definition recover_unbound_guided_locked :: "bridge \<Rightarrow> int \<Rightarrow> ('a queue_db_scheme, op_row list) op" where
  "recover_unbound_guided_locked b now_epoch =
     tx_bind (tx_query (unbound_guided b)) (\<lambda>rows.
     tx_bind (tx_for (recover_one b now_epoch) rows) (\<lambda>results.
     tx_return (concat results)))"

section \<open>Ending the bound discussion\<close>

definition stop_bound_discussion :: "bridge \<Rightarrow> op_row \<Rightarrow> string \<Rightarrow> string \<Rightarrow> string \<Rightarrow> string \<Rightarrow> disc_row \<Rightarrow> bool
    \<Rightarrow> ('a queue_db_scheme, string) op" where
  "stop_bound_discussion b row terminal_detail stop_reason error_code event_type discussion revalidated =
     tx_bind utc_now (\<lambda>now.
     tx_bind (cancel_discussion_dispatches b (di_discussion_id discussion) error_code now) (\<lambda>cancelled.
     tx_bind (store_discussion_state b discussion now (stop_changes stop_reason)) (\<lambda>(_, discussion_sha256).
     tx_then (event_op b event_type
       [(''discussion_id'', JStr (di_discussion_id discussion)), (''operation_id'', JStr (op_operation_id row)),
        (''cancelled_dispatch_count'', JInt cancelled), (''discussion_sha256'', JStr discussion_sha256),
        (''cleanup_authority'', JStr ''persisted-bound-discussion-id''),
        (''source_binding_revalidated'', JBool revalidated)] (Some (di_task_id discussion)))
     (tx_return (terminal_detail @ '' '' @
        (if revalidated then ''The bound discussion was stopped atomically.''
         else ''The exact persisted discussion was fenced and stopped atomically after full source revalidation failed.''))))))"

definition revalidate :: "bridge \<Rightarrow> op_row \<Rightarrow> string \<Rightarrow> 'a queue_db_scheme \<Rightarrow> exn + disc_row option" where
  "revalidate b row discussion_id d = (case guided_room_binding (br_sha256 b) row of None \<Rightarrow> Inr None
     | Some g \<Rightarrow> no_discussion (bound_discussion_for_operation b d discussion_id (gb_room_id g) (gb_task_id g)
         (gb_prompt_sha256 g) (gb_participants g)) None)"

definition stop_terminal_guided_discussion :: "bridge \<Rightarrow> op_row \<Rightarrow> string \<Rightarrow> string \<Rightarrow> string \<Rightarrow> string
    \<Rightarrow> ('a queue_db_scheme, string) op" where
  "stop_terminal_guided_discussion b row terminal_detail stop_reason error_code event_type =
    (let discussion_id = text_or_empty (op_bound_discussion_id row) in
     if \<not> safe_id discussion_id then
       tx_return (terminal_detail @ '' No persisted guided discussion ID was available for cleanup.'')
     else
       tx_bind (tx_query (\<lambda>d. fetch_one (\<lambda>r. di_scope r = br_scope b \<and> di_discussion_id r = discussion_id)
         (room_discussions d))) (\<lambda>found.
       case found of
         None \<Rightarrow> tx_return (terminal_detail @ '' No persisted bound discussion was present.'')
       | Some stored \<Rightarrow>
           tx_bind (tx_query (revalidate b row discussion_id)) (\<lambda>checked.
           tx_bind (tx_lift checked) (\<lambda>verified.
           let discussion = (case verified of None \<Rightarrow> stored | Some v \<Rightarrow> v) in
           if \<not> open_discussion discussion then
             tx_return (terminal_detail @ '' The bound discussion'' @ [CHR 0x27] @ ''s preserved state was already ''
               @ di_status discussion @ ''.'')
           else stop_bound_discussion b row terminal_detail stop_reason error_code event_type discussion
                  (verified \<noteq> None)))))"

end
