(* ===== verification/QueueWorkers.thy ===== *)
theory QueueWorkers
  imports GuidedBinding
begin

text \<open>
  \<open>operation_queue.py\<close>, third part: the worker protocol. \<open>_reconcile_locked\<close> ends or re-queues what an
  expired lease or deadline left, \<open>claim\<close> leases one operation to one worker, and \<open>heartbeat\<close>,
  \<open>complete\<close>, \<open>fail\<close>, \<open>request_cancel\<close> and \<open>acknowledge_cancel\<close> move a leased operation.
\<close>

definition RETRY_CLASSES :: "string set" where
  "RETRY_CLASSES = {''transient'', ''resource'', ''provider'', ''timeout''}"

definition RELEASE_GATE_RECEIPT_SCHEMA :: string where
  "RELEASE_GATE_RECEIPT_SCHEMA = ''peerbridge.release-gate-verdict-receipt.v1''"

definition RELEASE_GATE_TERMINAL_OUTCOME :: string where
  "RELEASE_GATE_TERMINAL_OUTCOME = ''release_gate_verified''"

section \<open>Reconciliation\<close>

text \<open>\<open>WORKFLOW_TEMPLATES[workflow_id]["automatic_retry"]\<close>, a KeyError for an unknown workflow.\<close>

definition automatic_retry :: "string \<Rightarrow> exn + bool" where
  "automatic_retry workflow_id = (case map_of WORKFLOW_TEMPLATES workflow_id of
     None \<Rightarrow> Inl KeyError | Some t \<Rightarrow> Inr (wt_automatic_retry t))"

definition refuse_persisted_retry :: "bridge \<Rightarrow> op_row \<Rightarrow> ('a queue_db_scheme, op_row list) op" where
  "refuse_persisted_retry b original =
     tx_bind (tx_lift (automatic_retry (op_workflow_id original))) (\<lambda>auto.
     if auto then tx_return []
     else
       tx_bind (row_locked b (op_operation_id original)) (\<lambda>row.
       tx_bind (set_terminal_locked b row Failed ''retry_disallowed''
         ''A persisted retry was not started because the workflow may write to its source. Create a new operator-approved operation after inspecting the previous attempt.'')
         (\<lambda>r. tx_return [r])))"

definition expired :: "int \<Rightarrow> op_row \<Rightarrow> bool" where
  "expired now_epoch r = ((case op_lease_expires_epoch r of None \<Rightarrow> False | Some t \<Rightarrow> t \<le> now_epoch)
     \<or> (case op_attempt_deadline_epoch r of None \<Rightarrow> False | Some t \<Rightarrow> t \<le> now_epoch))"

definition expired_rows :: "bridge \<Rightarrow> int \<Rightarrow> 'a queue_db_scheme \<Rightarrow> op_row list" where
  "expired_rows b now_epoch d = by_creation (filter (\<lambda>r. op_scope r = br_scope b \<and> leased (op_status r)
     \<and> expired now_epoch r) (governance_operations d))"

definition epoch_or_zero :: "int option \<Rightarrow> int" where
  "epoch_or_zero t = (case t of None \<Rightarrow> 0 | Some e \<Rightarrow> e)"

definition is_guided :: "op_row \<Rightarrow> bool" where
  "is_guided r = starts_with (op_resource_key r) ROOM_DISCUSSION_RESOURCE_PREFIX"

definition cancel_after_loss :: "bridge \<Rightarrow> op_row \<Rightarrow> ('a queue_db_scheme, op_row) op" where
  "cancel_after_loss b row =
    (let detail = ''Worker lease expired after cancellation was requested.'' in
     tx_bind (if is_guided row
       then stop_terminal_guided_discussion b row detail ''workflow_cancelled'' ''discussion_cancelled''
              ''discussion.cancelled_after_worker_loss''
       else tx_return detail) (\<lambda>detail.
     set_terminal_locked b row Cancelled ''cancelled_after_worker_loss'' detail))"

definition time_out_guided :: "bridge \<Rightarrow> op_row \<Rightarrow> ('a queue_db_scheme, op_row) op" where
  "time_out_guided b row =
     tx_bind (stop_terminal_guided_discussion b row ''Guided discussion exceeded its hard timeout.''
       ''workflow_timeout'' ''discussion_timed_out'' ''discussion.timed_out'') (\<lambda>detail.
     set_terminal_locked b row Failed ''timeout'' detail)"

definition retry_lost :: "bridge \<Rightarrow> int \<Rightarrow> op_row \<Rightarrow> bool \<Rightarrow> ('a queue_db_scheme, op_row) op" where
  "retry_lost b now_epoch row timed_out =
     tx_bind utc_now (\<lambda>now.
     tx_then (update_operations b (op_operation_id row) (\<lambda>r. r\<lparr>op_status := Retry,
        op_not_before_epoch := now_epoch, op_lease_owner := None, op_lease_token_sha256 := None,
        op_lease_expires_epoch := None, op_attempt_deadline_epoch := None,
        op_terminal_detail := Some (if timed_out then ''Operation attempt timed out; retry is eligible.''
          else ''Worker lease expired; retry is eligible.''),
        op_updated_utc := now\<rparr>))
    (tx_bind (rehash b (op_operation_id row)) (\<lambda>retry.
     tx_then (event_op b (if timed_out then ''workflow.operation.timeout_retry'' else ''workflow.operation.reconciled_retry'')
       [(''operation_id'', JStr (op_operation_id retry)), (''attempt_count'', JInt (op_attempt_count retry)),
        (''operation_sha256'', JStr (op_operation_sha256 retry))] None)
     (tx_return retry))))"

definition lost_detail :: "op_row \<Rightarrow> bool \<Rightarrow> bool \<Rightarrow> string" where
  "lost_detail row auto timed_out =
     (if \<not> auto \<and> op_attempt_count row < op_max_attempts row then
        (if timed_out
         then ''Operation attempt timed out and was not automatically retried because the workflow may write to its source.''
         else ''Worker lease expired and the operation was not automatically retried because the workflow may write to its source.'')
      else if timed_out then ''Operation attempt timed out and the attempt limit was reached.''
      else ''Worker lease expired and the attempt limit was reached.'')"

definition fail_lost :: "bridge \<Rightarrow> op_row \<Rightarrow> bool \<Rightarrow> bool \<Rightarrow> ('a queue_db_scheme, op_row) op" where
  "fail_lost b row auto timed_out =
     tx_bind (if is_guided row
       then stop_terminal_guided_discussion b row (lost_detail row auto timed_out)
              (if timed_out then ''workflow_timeout'' else ''workflow_worker_lost'')
              (if timed_out then ''discussion_timed_out'' else ''discussion_worker_lost'')
              (if timed_out then ''discussion.timed_out'' else ''discussion.worker_lost'')
       else tx_return (lost_detail row auto timed_out)) (\<lambda>detail.
     set_terminal_locked b row Failed (if timed_out then ''timeout'' else ''worker_lost'') detail)"

definition reconcile_one :: "bridge \<Rightarrow> int \<Rightarrow> op_row \<Rightarrow> ('a queue_db_scheme, op_row) op" where
  "reconcile_one b now_epoch original =
     tx_bind (row_locked b (op_operation_id original)) (\<lambda>row.
     if op_status row = Cancelling \<or> op_cancellation_requested row then cancel_after_loss b row
     else
       let timed_out = (epoch_or_zero (op_attempt_deadline_epoch row) \<le> now_epoch) in
       if timed_out \<and> is_guided row then time_out_guided b row
       else
         tx_bind (tx_lift (automatic_retry (op_workflow_id row))) (\<lambda>auto.
         if auto \<and> op_attempt_count row < op_max_attempts row then retry_lost b now_epoch row timed_out
         else fail_lost b row auto timed_out))"

definition persisted_retries :: "bridge \<Rightarrow> 'a queue_db_scheme \<Rightarrow> op_row list" where
  "persisted_retries b d = by_creation (filter (\<lambda>r. op_scope r = br_scope b \<and> op_status r = Retry)
     (governance_operations d))"

definition reconcile_locked :: "bridge \<Rightarrow> int \<Rightarrow> ('a queue_db_scheme, op_row list) op" where
  "reconcile_locked b now_epoch =
     tx_bind (tx_query (persisted_retries b)) (\<lambda>retries.
     tx_bind (tx_for (refuse_persisted_retry b) retries) (\<lambda>refused.
     tx_bind (tx_query (expired_rows b now_epoch)) (\<lambda>rows.
     tx_bind (tx_for (reconcile_one b now_epoch) rows) (\<lambda>ended.
     tx_return (concat refused @ ended)))))"

definition reconcile :: "bridge \<Rightarrow> int option \<Rightarrow> ('a queue_db_scheme, op_row list) op" where
  "reconcile b now_epoch =
     tx_then (require_service_transition b ''reconcile workflows'')
     (with_connection (
       tx_bind (epoch_or_now now_epoch) (\<lambda>now.
       tx_bind (recover_unbound_guided_locked b now) (\<lambda>recovered.
       tx_bind (reconcile_locked b now) (\<lambda>rows.
       tx_return (recovered @ rows))))))"

section \<open>Claiming\<close>

datatype operation_class = Any_Class | Managed_Class | Room_Discussion_Class

definition parse_class :: "string \<Rightarrow> exn + operation_class" where
  "parse_class text = (if text = ''any'' then Inr Any_Class else if text = ''managed'' then Inr Managed_Class
     else if text = ''room-discussion'' then Inr Room_Discussion_Class
     else Inl (OperationQueueError ''operation claim class is invalid''))"

text \<open>
  The candidate query. LIKE compares ASCII letters without case, unlike Python's \<open>startswith\<close>; the
  prefix of the constant pattern ends in a colon and the percent sign matches the rest.
\<close>

definition like_guided :: "op_row \<Rightarrow> bool" where
  "like_guided r = sql_like_prefix (op_resource_key r) ROOM_DISCUSSION_RESOURCE_PREFIX"

fun class_allows :: "operation_class \<Rightarrow> op_row \<Rightarrow> bool" where
  "class_allows Any_Class r = True"
| "class_allows Managed_Class r = (\<not> like_guided r)"
| "class_allows Room_Discussion_Class r = like_guided r"

definition resource_busy :: "op_row \<Rightarrow> op_row list \<Rightarrow> bool" where
  "resource_busy r rows = list_ex (\<lambda>a. op_scope a = op_scope r \<and> op_resource_key a = op_resource_key r
     \<and> leased (op_status a)) rows"

definition claimable :: "bridge \<Rightarrow> int \<Rightarrow> operation_class \<Rightarrow> op_row list \<Rightarrow> op_row \<Rightarrow> bool" where
  "claimable b now cls rows r =
     (op_scope r = br_scope b \<and> op_status r \<in> {Queued, Retry} \<and> op_not_before_epoch r \<le> now
      \<and> \<not> op_cancellation_requested r
      \<and> (br_agent_id b = CONTROL_ROOM_WORKFLOW_ID \<or> op_workflow_id r \<noteq> ''release-gate'')
      \<and> class_allows cls r
      \<and> (\<not> like_guided r \<or> op_bound_discussion_id r \<noteq> None)
      \<and> \<not> resource_busy r rows)"

definition candidates :: "bridge \<Rightarrow> int \<Rightarrow> operation_class \<Rightarrow> 'a queue_db_scheme \<Rightarrow> op_row list" where
  "candidates b now cls d =
     sort_key (\<lambda>r. (op_not_before_epoch r, op_created_utc r, op_operation_id r))
       (filter (claimable b now cls (governance_operations d)) (governance_operations d))"

record operation_claim =
  oc_operation :: op_row
  oc_lease_token :: string

definition token_sha :: "bridge \<Rightarrow> string \<Rightarrow> string" where
  "token_sha b token = sha256_text (br_sha256 b) token"

definition lease_to :: "bridge \<Rightarrow> string \<Rightarrow> int \<Rightarrow> int \<Rightarrow> op_row \<Rightarrow> ('a queue_db_scheme, operation_claim) op" where
  "lease_to b worker_id now lease_seconds candidate =
     tx_bind (row_locked b (op_operation_id candidate)) (\<lambda>row.
     tx_bind token_urlsafe (\<lambda>token.
     tx_bind utc_now (\<lambda>updated.
     tx_then (update_operations b (op_operation_id row) (\<lambda>r. r\<lparr>op_status := Running,
        op_attempt_count := op_attempt_count r + 1, op_lease_owner := Some worker_id,
        op_lease_token_sha256 := Some (token_sha b token), op_lease_expires_epoch := Some (now + lease_seconds),
        op_attempt_deadline_epoch := Some (now + op_timeout_seconds row), op_terminal_detail := None,
        op_updated_utc := updated\<rparr>))
    (tx_bind (rehash b (op_operation_id row)) (\<lambda>claimed.
     tx_then (event_op b ''workflow.operation.claimed''
       [(''operation_id'', JStr (op_operation_id claimed)), (''worker_id'', JStr worker_id),
        (''attempt_count'', JInt (op_attempt_count claimed)),
        (''operation_sha256'', JStr (op_operation_sha256 claimed))] None)
     (tx_return \<lparr>oc_operation = claimed, oc_lease_token = token\<rparr>))))))"

definition claim_tx :: "bridge \<Rightarrow> string \<Rightarrow> int \<Rightarrow> int \<Rightarrow> operation_class
    \<Rightarrow> ('a queue_db_scheme, operation_claim option) op" where
  "claim_tx b worker_id now lease_seconds cls =
     tx_then (recover_unbound_guided_locked b now)
    (tx_then (reconcile_locked b now)
    (tx_bind (tx_query (candidates b now cls)) (\<lambda>found.
     case found of
       [] \<Rightarrow> tx_return None
     | c # _ \<Rightarrow> tx_bind (lease_to b worker_id now lease_seconds c) (\<lambda>k. tx_return (Some k)))))"

definition check_lease_seconds :: "int \<Rightarrow> exn + unit" where
  "check_lease_seconds n = res_require (1 \<le> n \<and> n \<le> MAX_OPERATION_LEASE_SECONDS)
     (OperationQueueError ''operation lease is invalid'') (Inr ())"

definition claim :: "bridge \<Rightarrow> string \<Rightarrow> int option \<Rightarrow> int \<Rightarrow> string
    \<Rightarrow> ('a queue_db_scheme, operation_claim option) op" where
  "claim b worker_id now_epoch lease_seconds class_text =
     tx_bind (tx_lift (op_identifier worker_id ''worker id'')) (\<lambda>worker_id.
     tx_then (tx_lift (check_lease_seconds lease_seconds))
    (tx_bind (tx_lift (parse_class class_text)) (\<lambda>cls.
     tx_bind (epoch_or_now now_epoch) (\<lambda>now.
     with_connection (claim_tx b worker_id now lease_seconds cls)))))"

section \<open>Holding a lease\<close>

definition require_worker :: "bridge \<Rightarrow> op_row \<Rightarrow> string \<Rightarrow> string \<Rightarrow> exn + unit" where
  "require_worker b row worker_id lease_token =
     res_require (leased (op_status row)) (OperationQueueError ''operation is not owned by a running worker'')
    (res_bind (op_identifier worker_id ''worker id'') (\<lambda>worker_id.
     res_require (op_lease_owner row = Some worker_id) (OperationQueueError ''operation worker identity does not match'')
    (res_require (text_or_empty (op_lease_token_sha256 row) = token_sha b lease_token)
       (OperationQueueError ''operation lease token does not match'') (Inr ()))))"

definition require_live_worker :: "bridge \<Rightarrow> op_row \<Rightarrow> string \<Rightarrow> string \<Rightarrow> int \<Rightarrow> exn + unit" where
  "require_live_worker b row worker_id lease_token now_epoch =
     res_bind (require_worker b row worker_id lease_token) (\<lambda>_.
     res_require (\<not> epoch_or_zero (op_lease_expires_epoch row) \<le> now_epoch)
       (OperationQueueError ''operation lease already expired'')
    (res_require (\<not> epoch_or_zero (op_attempt_deadline_epoch row) \<le> now_epoch)
       (OperationQueueError ''operation attempt already timed out'') (Inr ())))"

text \<open>The common start of the four worker calls: the row, and its live lease.\<close>

definition live_row :: "bridge \<Rightarrow> string \<Rightarrow> string \<Rightarrow> string \<Rightarrow> int \<Rightarrow> ('a queue_db_scheme, op_row) op" where
  "live_row b operation_id worker_id lease_token now =
     tx_bind (row_locked b operation_id) (\<lambda>row.
     tx_then (tx_lift (require_live_worker b row worker_id lease_token now)) (tx_return row))"

definition heartbeat :: "bridge \<Rightarrow> string \<Rightarrow> string \<Rightarrow> string \<Rightarrow> int option \<Rightarrow> int \<Rightarrow> ('a queue_db_scheme, op_row) op" where
  "heartbeat b operation_id worker_id lease_token now_epoch lease_seconds =
     tx_bind (tx_lift (op_identifier operation_id ''operation id'')) (\<lambda>operation_id.
     tx_then (tx_lift (check_lease_seconds lease_seconds))
    (tx_bind (epoch_or_now now_epoch) (\<lambda>now.
     with_connection (
       tx_bind (live_row b operation_id worker_id lease_token now) (\<lambda>row.
       tx_bind utc_now (\<lambda>updated.
       tx_then (update_operations b operation_id (\<lambda>r. r\<lparr>
          op_lease_expires_epoch := Some (min (now + lease_seconds) (epoch_or_zero (op_attempt_deadline_epoch row))),
          op_updated_utc := updated\<rparr>))
       (rehash b operation_id)))))))"

section \<open>Release gate receipts\<close>

definition json_items :: "json option \<Rightarrow> json list option" where
  "json_items v = (case v of Some (JList xs) \<Rightarrow> Some xs | _ \<Rightarrow> None)"

definition review_ok :: "json \<Rightarrow> bool" where
  "review_ok review = (is_mapping review \<and> json_get review ''decision'' = Some (JStr ''approve'')
     \<and> is_sha256_hex (json_str_or_empty (json_get review ''answer_sha256''))
     \<and> json_str_or_empty (json_get review ''session_id'') \<noteq> []
     \<and> json_str_or_empty (json_get review ''agent_id'') \<noteq> [])"

definition reviews_ok :: "json list \<Rightarrow> bool" where
  "reviews_ok reviews = (length reviews = 2
     \<and> set (map (\<lambda>r. json_str_or_empty (json_get r ''role'')) (filter is_mapping reviews)) = {''auditor'', ''reviewer''}
     \<and> list_all review_ok reviews
     \<and> distinct (map (\<lambda>r. json_str_or_empty (json_get r ''session_id'')) reviews)
     \<and> distinct (map (\<lambda>r. json_str_or_empty (json_get r ''agent_id'')) reviews))"

definition release_receipt_ok :: "op_row \<Rightarrow> string \<Rightarrow> json \<Rightarrow> bool" where
  "release_receipt_ok row operation_id receipt =
    (let fingerprint = json_str_or_empty (json_get receipt ''source_fingerprint'') in
     is_mapping receipt \<and> json_get receipt ''schema'' = Some (JStr RELEASE_GATE_RECEIPT_SCHEMA)
     \<and> json_get receipt ''operation_id'' = Some (JStr operation_id) \<and> is_sha256_hex fingerprint
     \<and> op_resource_key row = ''release:'' @ fingerprint
     \<and> (case json_items (json_get receipt ''reviews'') of None \<Rightarrow> False | Some reviews \<Rightarrow> reviews_ok reviews))"

definition check_release_gate :: "bridge \<Rightarrow> op_row \<Rightarrow> string \<Rightarrow> string \<Rightarrow> string \<Rightarrow> exn + unit" where
  "check_release_gate b row operation_id outcome detail =
     (if op_workflow_id row \<noteq> ''release-gate'' then Inr ()
      else
        res_require (br_agent_id b = CONTROL_ROOM_WORKFLOW_ID)
          (OperationQueueError ''only control-room-workflow may complete a release gate'')
       (res_require (outcome = RELEASE_GATE_TERMINAL_OUTCOME)
          (OperationQueueError ''release gate completion outcome is invalid'')
       (res_require (case json_loads detail of None \<Rightarrow> False | Some receipt \<Rightarrow> release_receipt_ok row operation_id receipt)
          (OperationQueueError ''release gate completion receipt is invalid'') (Inr ()))))"

section \<open>Ending a leased operation\<close>

definition complete :: "bridge \<Rightarrow> string \<Rightarrow> string \<Rightarrow> string \<Rightarrow> string \<Rightarrow> string \<Rightarrow> int option
    \<Rightarrow> ('a queue_db_scheme, op_row) op" where
  "complete b operation_id worker_id lease_token outcome detail now_epoch =
     tx_bind (tx_lift (op_identifier operation_id ''operation id'')) (\<lambda>operation_id.
     tx_bind (tx_lift (op_identifier outcome ''terminal outcome'')) (\<lambda>outcome.
     tx_bind (tx_lift (safe_text detail ''terminal detail'' 4000)) (\<lambda>detail.
     tx_bind (epoch_or_now now_epoch) (\<lambda>now.
     with_connection (
       tx_bind (live_row b operation_id worker_id lease_token now) (\<lambda>row.
       tx_then (tx_lift (check_release_gate b row operation_id outcome detail))
      (tx_then (tx_require (\<not> op_cancellation_requested row)
         (OperationQueueError ''operation cancellation must be acknowledged''))
       (set_terminal_locked b row Succeeded outcome detail))))))))"

definition schedule_retry :: "bridge \<Rightarrow> string \<Rightarrow> string \<Rightarrow> string \<Rightarrow> int \<Rightarrow> ('a queue_db_scheme, op_row) op" where
  "schedule_retry b operation_id error_class detail not_before =
     tx_bind utc_now (\<lambda>updated.
     tx_then (update_operations b operation_id (\<lambda>r. r\<lparr>op_status := Retry, op_not_before_epoch := not_before,
        op_lease_owner := None, op_lease_token_sha256 := None, op_lease_expires_epoch := None,
        op_attempt_deadline_epoch := None, op_terminal_detail := Some detail, op_updated_utc := updated\<rparr>))
    (tx_bind (rehash b operation_id) (\<lambda>retry.
     tx_then (event_op b ''workflow.operation.retry_scheduled''
       [(''operation_id'', JStr operation_id), (''error_class'', JStr error_class),
        (''not_before_epoch'', json_epoch (op_not_before_epoch retry)),
        (''operation_sha256'', JStr (op_operation_sha256 retry))] None)
     (tx_return retry))))"

text \<open>The three outcomes of a failure report on a live row.\<close>

definition fail_row :: "bridge \<Rightarrow> op_row \<Rightarrow> string \<Rightarrow> string \<Rightarrow> int \<Rightarrow> bool \<Rightarrow> int \<Rightarrow> ('a queue_db_scheme, op_row) op" where
  "fail_row b row error_class detail retry_after allow_retry now =
     (if op_cancellation_requested row then
        set_terminal_locked b row Cancelled ''cancelled''
          ''Worker acknowledged cancellation while handling a failure.''
      else if error_class \<in> RETRY_CLASSES \<and> allow_retry then
        tx_bind (tx_lift (automatic_retry (op_workflow_id row))) (\<lambda>auto.
        if auto \<and> op_attempt_count row < op_max_attempts row
        then schedule_retry b (op_operation_id row) error_class detail (now + int (clamp 0 86400 retry_after))
        else set_terminal_locked b row Failed error_class detail)
      else set_terminal_locked b row Failed error_class detail)"

definition fail_op :: "bridge \<Rightarrow> string \<Rightarrow> string \<Rightarrow> string \<Rightarrow> string \<Rightarrow> string \<Rightarrow> int \<Rightarrow> bool \<Rightarrow> int option
    \<Rightarrow> ('a queue_db_scheme, op_row) op" where
  "fail_op b operation_id worker_id lease_token error_class detail retry_after allow_retry now_epoch =
     tx_bind (tx_lift (op_identifier operation_id ''operation id'')) (\<lambda>operation_id.
     tx_bind (tx_lift (op_identifier error_class ''error class'')) (\<lambda>error_class.
     tx_bind (tx_lift (safe_text detail ''failure detail'' 4000)) (\<lambda>detail.
     tx_bind (epoch_or_now now_epoch) (\<lambda>now.
     with_connection (
       tx_bind (live_row b operation_id worker_id lease_token now) (\<lambda>row.
       fail_row b row error_class detail retry_after allow_retry now))))))"

definition request_cancel_running :: "bridge \<Rightarrow> string \<Rightarrow> string \<Rightarrow> ('a queue_db_scheme, op_row) op" where
  "request_cancel_running b operation_id reason =
     tx_bind utc_now (\<lambda>now.
     tx_then (update_operations b operation_id (\<lambda>r. r\<lparr>op_status := Cancelling,
        op_cancellation_requested := True, op_terminal_detail := Some reason, op_updated_utc := now\<rparr>))
    (tx_bind (rehash b operation_id) (\<lambda>updated.
     tx_then (event_op b ''workflow.operation.cancellation_requested''
       [(''operation_id'', JStr operation_id), (''operation_sha256'', JStr (op_operation_sha256 updated))] None)
     (tx_return updated))))"

definition request_cancel :: "bridge \<Rightarrow> string \<Rightarrow> string \<Rightarrow> string \<Rightarrow> ('a queue_db_scheme, op_row) op" where
  "request_cancel b operation_id requested_by reason =
     tx_bind (tx_lift (op_identifier operation_id ''operation id'')) (\<lambda>operation_id.
     tx_then (tx_lift (res_require (br_agent_id b = HUMAN_OPERATOR_ID)
       (OperationQueueError ''only human-operator may cancel workflows'')
      (res_bind (op_identifier requested_by ''requester'') (\<lambda>r.
       res_require (r = HUMAN_OPERATOR_ID) (OperationQueueError ''only human-operator may cancel workflows'') (Inr ())))))
    (tx_bind (tx_lift (safe_text reason ''cancellation reason'' 2000)) (\<lambda>reason.
     with_connection (
       tx_bind (row_locked b operation_id) (\<lambda>row.
       tx_then (tx_require (\<not> terminal (op_status row))
         (OperationQueueError ''operation already has a terminal outcome''))
      (if op_status row \<in> {Queued, Retry}
       then set_terminal_locked b row Cancelled ''cancelled_before_start'' reason
       else request_cancel_running b operation_id reason))))))"

definition acknowledge_cancel :: "bridge \<Rightarrow> string \<Rightarrow> string \<Rightarrow> string \<Rightarrow> int option \<Rightarrow> ('a queue_db_scheme, op_row) op" where
  "acknowledge_cancel b operation_id worker_id lease_token now_epoch =
     tx_bind (tx_lift (op_identifier operation_id ''operation id'')) (\<lambda>operation_id.
     tx_bind (epoch_or_now now_epoch) (\<lambda>now.
     with_connection (
       tx_bind (live_row b operation_id worker_id lease_token now) (\<lambda>row.
       tx_then (tx_require (op_cancellation_requested row)
         (OperationQueueError ''operation cancellation was not requested''))
       (set_terminal_locked b row Cancelled ''cancelled''
          (case truthy (op_terminal_detail row) of Some t \<Rightarrow> t | None \<Rightarrow> ''Cancellation acknowledged.''))))))"

end
