(* ===== verification/Schedules.thy ===== *)
theory Schedules
  imports QueueWorkers
begin

text \<open>
  \<open>operation_queue.py\<close>, fourth part: recurring workflows. \<open>save_schedule\<close>, \<open>list_schedules\<close>,
  \<open>set_schedule_enabled\<close> and \<open>materialize_due_schedules\<close>, which turns every due schedule into one
  queued operation and moves its next run.
\<close>

definition MIN_SCHEDULE_INTERVAL_SECONDS :: int where "MIN_SCHEDULE_INTERVAL_SECONDS = 60"
definition MAX_SCHEDULE_INTERVAL_SECONDS :: int where "MAX_SCHEDULE_INTERVAL_SECONDS = 31 * 86400"

definition schedule_payload :: "sched_row \<Rightarrow> json" where
  "schedule_payload r = JObj
     [(''scope'', JStr (sc_scope r)), (''schedule_id'', JStr (sc_schedule_id r)),
      (''workflow_id'', JStr (sc_workflow_id r)), (''requested_by'', JStr (sc_requested_by r)),
      (''task_text'', JStr (sc_task_text r)), (''working_directory'', JStr (sc_working_directory r)),
      (''resource_key'', JStr (sc_resource_key r)),
      (''permission_decision_id'', json_opt JStr (sc_permission_decision_id r)),
      (''interval_seconds'', JInt (sc_interval_seconds r)), (''next_run_epoch'', json_epoch (sc_next_run_epoch r)),
      (''enabled'', json_flag (sc_enabled r)),
      (''last_materialized_epoch'', json_opt json_epoch (sc_last_materialized_epoch r)),
      (''created_utc'', JStr (sc_created_utc r)), (''updated_utc'', JStr (sc_updated_utc r))]"

definition schedule_digest :: "(string \<Rightarrow> string) \<Rightarrow> sched_row \<Rightarrow> string" where
  "schedule_digest H r = stable_sha256 H (schedule_payload r)"

record schedule_request =
  sq_workflow_id :: string
  sq_task_text :: string
  sq_working_directory :: string
  sq_resource_key :: string
  sq_interval_seconds :: int
  sq_next_run_epoch :: int
  sq_enabled :: bool
  sq_requested_by :: string
  sq_permission_decision_id :: "string option"
  sq_schedule_id :: "string option"

definition validate_schedule :: "bridge \<Rightarrow> schedule_request \<Rightarrow> exn + schedule_request" where
  "validate_schedule b q =
     res_require (br_agent_id b = HUMAN_OPERATOR_ID \<and> sq_requested_by q = HUMAN_OPERATOR_ID)
       (OperationQueueError ''only human-operator may save workflow schedules'')
    (res_require (MIN_SCHEDULE_INTERVAL_SECONDS \<le> sq_interval_seconds q
         \<and> sq_interval_seconds q \<le> MAX_SCHEDULE_INTERVAL_SECONDS)
       (OperationQueueError ''schedule interval is outside the bounded range'')
    (res_bind (op_identifier (sq_workflow_id q) ''workflow id'') (\<lambda>workflow_id.
     res_require (known_workflow workflow_id) (OperationQueueError ''workflow template is not registered'')
    (res_bind (safe_text (sq_task_text q) ''task text'' MAX_TASK_CHARS) (\<lambda>task_text.
     res_bind (safe_text (sq_working_directory q) ''working directory'' 2000) (\<lambda>working_directory.
     res_bind (op_identifier (sq_resource_key q) ''resource key'') (\<lambda>resource_key.
     res_bind (optional_id (sq_permission_decision_id q) ''permission decision id'') (\<lambda>permission_decision_id.
     Inr (q\<lparr>sq_workflow_id := workflow_id, sq_task_text := task_text, sq_working_directory := working_directory,
            sq_resource_key := resource_key, sq_permission_decision_id := permission_decision_id\<rparr>)))))))))"

definition new_schedule :: "bridge \<Rightarrow> schedule_request \<Rightarrow> string \<Rightarrow> string \<Rightarrow> sched_row" where
  "new_schedule b q schedule_id created =
    (let row = \<lparr>sc_scope = br_scope b, sc_schedule_id = schedule_id, sc_workflow_id = sq_workflow_id q,
       sc_requested_by = sq_requested_by q, sc_task_text = sq_task_text q,
       sc_working_directory = sq_working_directory q, sc_resource_key = sq_resource_key q,
       sc_permission_decision_id = sq_permission_decision_id q, sc_interval_seconds = sq_interval_seconds q,
       sc_next_run_epoch = sq_next_run_epoch q, sc_enabled = sq_enabled q, sc_last_materialized_epoch = None,
       sc_created_utc = created, sc_updated_utc = created, sc_schedule_sha256 = []\<rparr>
     in row\<lparr>sc_schedule_sha256 := schedule_digest (br_sha256 b) row\<rparr>)"

definition sched_is :: "bridge \<Rightarrow> string \<Rightarrow> sched_row \<Rightarrow> bool" where
  "sched_is b schedule_id r = (sc_scope r = br_scope b \<and> sc_schedule_id r = schedule_id)"

definition insert_schedule :: "bridge \<Rightarrow> sched_row \<Rightarrow> ('a queue_db_scheme, unit) op" where
  "insert_schedule b row =
     tx_bind (tx_query (\<lambda>d. list_ex (sched_is b (sc_schedule_id row)) (workflow_schedules d))) (\<lambda>clash.
     tx_then (tx_require (\<not> clash) IntegrityError)
     (tx_execute (\<lambda>d. d\<lparr>workflow_schedules := workflow_schedules d @ [row]\<rparr>)))"

definition save_schedule :: "bridge \<Rightarrow> schedule_request \<Rightarrow> ('a queue_db_scheme, sched_row) op" where
  "save_schedule b request =
     tx_bind (tx_lift (validate_schedule b request)) (\<lambda>q.
     tx_bind (name_or_uuid (sq_schedule_id q)) (\<lambda>named.
     tx_bind (tx_lift (op_identifier named ''schedule id'')) (\<lambda>schedule_id.
     tx_bind utc_now (\<lambda>created.
     let row = new_schedule b q schedule_id created in
     with_connection (
       tx_then (tx_catch (insert_schedule b row) is_integrity_error
         (tx_raise (OperationQueueError ''schedule id already exists'')))
      (tx_then (event_op b ''workflow.schedule.saved''
         [(''schedule_id'', JStr schedule_id), (''workflow_id'', JStr (sq_workflow_id q)),
          (''enabled'', JBool (sq_enabled q)), (''schedule_sha256'', JStr (sc_schedule_sha256 row))] None)
       (tx_return row)))))))"

definition schedule_intact :: "bridge \<Rightarrow> sched_row \<Rightarrow> ('d, unit) op" where
  "schedule_intact b row = tx_require (schedule_digest (br_sha256 b) row = sc_schedule_sha256 row)
     (OperationQueueError ''schedule SHA-256 does not match its state'')"

definition by_next_run :: "sched_row list \<Rightarrow> sched_row list" where
  "by_next_run rows = sort_key (\<lambda>r. (sc_next_run_epoch r, sc_schedule_id r)) rows"

definition list_schedules :: "bridge \<Rightarrow> bool option \<Rightarrow> int \<Rightarrow> ('a queue_db_scheme, sched_row list) op" where
  "list_schedules b enabled limit =
     tx_bind (with_connection (tx_query (\<lambda>d. take (clamp 1 500 limit) (by_next_run
       (filter (\<lambda>r. sc_scope r = br_scope b \<and> (case enabled of None \<Rightarrow> True | Some e \<Rightarrow> sc_enabled r = e))
         (workflow_schedules d)))))) (\<lambda>rows.
     tx_for (\<lambda>r. tx_then (schedule_intact b r) (tx_return r)) rows)"

definition update_schedules :: "bridge \<Rightarrow> string \<Rightarrow> (sched_row \<Rightarrow> sched_row) \<Rightarrow> ('a queue_db_scheme, unit) op" where
  "update_schedules b schedule_id f = tx_execute (\<lambda>d. d\<lparr>workflow_schedules :=
     update_where (sched_is b schedule_id) f (workflow_schedules d)\<rparr>)"

text \<open>The second SELECT and the UPDATE of the digest; the row as selected and its new digest.\<close>

definition rehash_schedule :: "bridge \<Rightarrow> string \<Rightarrow> ('a queue_db_scheme, sched_row \<times> string) op" where
  "rehash_schedule b schedule_id =
     tx_bind (tx_query (\<lambda>d. fetch_one (sched_is b schedule_id) (workflow_schedules d))) (\<lambda>found.
     tx_bind (assert_found found) (\<lambda>changed.
     let digest = schedule_digest (br_sha256 b) changed in
     tx_then (update_schedules b schedule_id (\<lambda>r. r\<lparr>sc_schedule_sha256 := digest\<rparr>))
     (tx_return (changed, digest))))"

definition set_schedule_enabled :: "bridge \<Rightarrow> string \<Rightarrow> bool \<Rightarrow> string \<Rightarrow> ('a queue_db_scheme, sched_row) op" where
  "set_schedule_enabled b schedule_id enabled requested_by =
     tx_then (tx_require (br_agent_id b = HUMAN_OPERATOR_ID \<and> requested_by = HUMAN_OPERATOR_ID)
       (OperationQueueError ''only human-operator may change workflow schedules''))
    (tx_bind (tx_lift (op_identifier schedule_id ''schedule id'')) (\<lambda>schedule_id.
     with_connection (
       tx_bind (tx_query (\<lambda>d. fetch_one (sched_is b schedule_id) (workflow_schedules d))) (\<lambda>found.
       case found of
         None \<Rightarrow> tx_raise (OperationQueueError ''schedule does not exist'')
       | Some row \<Rightarrow>
           tx_then (schedule_intact b row)
          (tx_bind utc_now (\<lambda>now.
           tx_then (update_schedules b schedule_id (\<lambda>r. r\<lparr>sc_enabled := enabled, sc_updated_utc := now\<rparr>))
          (tx_bind (rehash_schedule b schedule_id) (\<lambda>(changed, digest).
           tx_then (event_op b (if enabled then ''workflow.schedule.enabled'' else ''workflow.schedule.disabled'')
             [(''schedule_id'', JStr schedule_id), (''enabled'', JBool enabled),
              (''schedule_sha256'', JStr digest)] None)
           (tx_return (changed\<lparr>sc_enabled := enabled, sc_schedule_sha256 := digest\<rparr>))))))))))"

section \<open>Materialisation\<close>

definition due_schedules :: "bridge \<Rightarrow> int \<Rightarrow> int \<Rightarrow> 'a queue_db_scheme \<Rightarrow> sched_row list" where
  "due_schedules b now limit d = take (clamp 1 100 limit) (by_next_run (filter (\<lambda>r. sc_scope r = br_scope b
     \<and> sc_enabled r \<and> sc_next_run_epoch r \<le> now) (workflow_schedules d)))"

definition scheduled_operation_id :: "sched_row \<Rightarrow> string" where
  "scheduled_operation_id r = ''schedule:'' @ sc_schedule_id r @ '':'' @ show_int (sc_next_run_epoch r)"

definition scheduled_request :: "sched_row \<Rightarrow> int \<Rightarrow> bool \<Rightarrow> op_request" where
  "scheduled_request r now auto = \<lparr>rq_workflow_id = sc_workflow_id r, rq_task_text = sc_task_text r,
     rq_working_directory = sc_working_directory r, rq_resource_key = sc_resource_key r,
     rq_requested_by = sc_requested_by r, rq_permission_decision_id = truthy (sc_permission_decision_id r),
     rq_max_attempts = (if auto then 3 else 1), rq_timeout_seconds = 1800, rq_not_before_epoch = now,
     rq_operation_id = Some (scheduled_operation_id r)\<rparr>"

definition materialize_one :: "bridge \<Rightarrow> int \<Rightarrow> sched_row \<Rightarrow> ('a queue_db_scheme, op_row) op" where
  "materialize_one b now r =
     tx_then (schedule_intact b r)
    (tx_bind (tx_lift (automatic_retry (sc_workflow_id r))) (\<lambda>auto.
     tx_bind (enqueue_locked b (scheduled_request r now auto)) (\<lambda>row.
     tx_bind utc_now (\<lambda>updated.
     tx_then (update_schedules b (sc_schedule_id r) (\<lambda>q. q\<lparr>sc_last_materialized_epoch := Some now,
        sc_next_run_epoch := now + sc_interval_seconds r, sc_updated_utc := updated\<rparr>))
    (tx_then (rehash_schedule b (sc_schedule_id r))
     (tx_return row))))))"

definition materialize_due_schedules :: "bridge \<Rightarrow> int option \<Rightarrow> int \<Rightarrow> ('a queue_db_scheme, op_row list) op" where
  "materialize_due_schedules b now_epoch limit =
     tx_then (require_service_transition b ''materialize workflow schedules'')
    (tx_bind (epoch_or_now now_epoch) (\<lambda>now.
     with_connection (
       tx_bind (tx_query (due_schedules b now limit)) (\<lambda>schedules.
       tx_for (materialize_one b now) schedules))))"

end
