(* ===== verification/QueueSpec.thy ===== *)
theory QueueSpec
  imports Schedules
begin

text \<open>
  What the operation queue promises, without transactions, events or discussions: one row moves
  along its life cycle (\<open>lifecycle\<close>), and the table changes by a fresh row or by one such move
  (\<open>table_step\<close>). The invariant \<open>table_ok\<close> and the facts about whole histories are proved here once;
  \<open>QueueRefinement\<close> shows that every operation of the detailed model is a sequence of table steps.
\<close>

definition seal_operation :: "(string \<Rightarrow> string) \<Rightarrow> op_row \<Rightarrow> op_row" where
  "seal_operation H r = r\<lparr>op_operation_sha256 := operation_digest H r\<rparr>"

interpretation ops: sealed_row "operation_digest H" op_operation_sha256 "seal_operation H" for H
  by unfold_locales (simp_all add: seal_operation_def operation_digest_def governance_operation_payload_def)

definition op_key :: "op_row \<Rightarrow> string \<times> string" where
  "op_key r = (op_scope r, op_operation_id r)"

text \<open>The columns no operation changes after the row was inserted.\<close>

definition op_identity where
  "op_identity r = (op_scope r, op_operation_id r, op_workflow_id r, op_requested_by r, op_task_text r,
     op_working_directory r, op_resource_key r, op_permission_decision_id r, op_max_attempts r,
     op_timeout_seconds r, op_created_utc r)"

definition retryable :: "string \<Rightarrow> bool" where
  "retryable w \<longleftrightarrow> automatic_retry w = Inr True"

section \<open>The life cycle of one operation\<close>

definition claimed_row :: "string \<Rightarrow> string \<Rightarrow> int \<Rightarrow> int \<Rightarrow> string \<Rightarrow> op_row \<Rightarrow> op_row" where
  "claimed_row w tok e dl u r = r\<lparr>op_status := Running, op_attempt_count := op_attempt_count r + 1,
     op_lease_owner := Some w, op_lease_token_sha256 := Some tok, op_lease_expires_epoch := Some e,
     op_attempt_deadline_epoch := Some dl, op_terminal_detail := None, op_updated_utc := u\<rparr>"

definition beaten_row :: "int \<Rightarrow> string \<Rightarrow> op_row \<Rightarrow> op_row" where
  "beaten_row e u r = r\<lparr>op_lease_expires_epoch := Some e, op_updated_utc := u\<rparr>"

definition retried_row :: "int \<Rightarrow> string \<Rightarrow> string \<Rightarrow> op_row \<Rightarrow> op_row" where
  "retried_row n detail u r = r\<lparr>op_status := Retry, op_not_before_epoch := n, op_lease_owner := None,
     op_lease_token_sha256 := None, op_lease_expires_epoch := None, op_attempt_deadline_epoch := None,
     op_terminal_detail := Some detail, op_updated_utc := u\<rparr>"

definition cancelling_row :: "string \<Rightarrow> string \<Rightarrow> op_row \<Rightarrow> op_row" where
  "cancelling_row reason u r = r\<lparr>op_status := Cancelling, op_cancellation_requested := True,
     op_terminal_detail := Some reason, op_updated_utc := u\<rparr>"

definition ended_row :: "op_status \<Rightarrow> string \<Rightarrow> string \<Rightarrow> string \<Rightarrow> op_row \<Rightarrow> op_row" where
  "ended_row st outcome detail u r = r\<lparr>op_status := st, op_terminal_outcome := Some outcome,
     op_terminal_detail := Some detail, op_lease_owner := None, op_lease_token_sha256 := None,
     op_lease_expires_epoch := None, op_attempt_deadline_epoch := None, op_updated_utc := u\<rparr>"

definition bound_row :: "string \<Rightarrow> string \<Rightarrow> op_row \<Rightarrow> op_row" where
  "bound_row d u r = r\<lparr>op_bound_discussion_id := Some d, op_updated_utc := u\<rparr>"

lemmas row_moves = claimed_row_def beaten_row_def retried_row_def cancelling_row_def ended_row_def bound_row_def

inductive lifecycle :: "(string \<Rightarrow> string) \<Rightarrow> op_row \<Rightarrow> op_row \<Rightarrow> bool" for H where
  lc_claim: "op_status r \<in> {Queued, Retry} \<Longrightarrow> \<not> op_cancellation_requested r \<Longrightarrow>
    lifecycle H r (seal_operation H (claimed_row w tok e dl u r))"
| lc_beat: "leased (op_status r) \<Longrightarrow> lifecycle H r (seal_operation H (beaten_row e u r))"
| lc_retry: "leased (op_status r) \<Longrightarrow> \<not> op_cancellation_requested r \<Longrightarrow> retryable (op_workflow_id r) \<Longrightarrow>
    op_attempt_count r < op_max_attempts r \<Longrightarrow> lifecycle H r (seal_operation H (retried_row n detail u r))"
| lc_cancel: "leased (op_status r) \<Longrightarrow> lifecycle H r (seal_operation H (cancelling_row reason u r))"
| lc_end: "\<not> terminal (op_status r) \<Longrightarrow> terminal st \<Longrightarrow> (op_cancellation_requested r \<longrightarrow> st = Cancelled) \<Longrightarrow>
    (st = Succeeded \<longrightarrow> leased (op_status r)) \<Longrightarrow>
    lifecycle H r (seal_operation H (ended_row st outcome detail u r))"
| lc_bind: "op_status r \<in> {Queued, Retry} \<Longrightarrow> op_bound_discussion_id r = None \<Longrightarrow>
    lifecycle H r (seal_operation H (bound_row d u r))"

inductive_cases lifecycleE: "lifecycle H r q"

section \<open>The well-formed row\<close>

definition lease_fields_absent :: "op_row \<Rightarrow> bool" where
  "lease_fields_absent r \<longleftrightarrow> op_lease_owner r = None \<and> op_lease_token_sha256 r = None
     \<and> op_lease_expires_epoch r = None \<and> op_attempt_deadline_epoch r = None"

definition lease_fields_present :: "op_row \<Rightarrow> bool" where
  "lease_fields_present r \<longleftrightarrow> op_lease_owner r \<noteq> None \<and> op_lease_token_sha256 r \<noteq> None
     \<and> op_lease_expires_epoch r \<noteq> None \<and> op_attempt_deadline_epoch r \<noteq> None"

definition limits_ok :: "op_row \<Rightarrow> bool" where
  "limits_ok r \<longleftrightarrow> known_workflow (op_workflow_id r) \<and> 1 \<le> op_max_attempts r
     \<and> op_max_attempts r \<le> MAX_OPERATION_ATTEMPTS \<and> 1 \<le> op_timeout_seconds r
     \<and> op_timeout_seconds r \<le> MAX_OPERATION_TIMEOUT_SECONDS"

definition attempts_ok :: "op_row \<Rightarrow> bool" where
  "attempts_ok r \<longleftrightarrow> 0 \<le> op_attempt_count r \<and> op_attempt_count r \<le> op_max_attempts r
     \<and> (op_status r = Queued \<longrightarrow> op_attempt_count r = 0)
     \<and> (leased (op_status r) \<or> op_status r = Succeeded \<longrightarrow> 1 \<le> op_attempt_count r)
     \<and> (op_status r = Retry \<longrightarrow> retryable (op_workflow_id r) \<and> op_attempt_count r < op_max_attempts r)
     \<and> (\<not> retryable (op_workflow_id r) \<longrightarrow> op_attempt_count r \<le> 1)"

definition status_ok :: "op_row \<Rightarrow> bool" where
  "status_ok r \<longleftrightarrow> (if leased (op_status r) then lease_fields_present r else lease_fields_absent r)
     \<and> (op_cancellation_requested r \<longrightarrow> op_status r \<in> {Cancelling, Cancelled})
     \<and> (op_status r = Cancelling \<longrightarrow> op_cancellation_requested r)
     \<and> (terminal (op_status r) \<longleftrightarrow> op_terminal_outcome r \<noteq> None)"

definition op_ok :: "op_row \<Rightarrow> bool" where
  "op_ok r \<longleftrightarrow> limits_ok r \<and> attempts_ok r \<and> status_ok r"

lemmas op_ok_defs = op_ok_def limits_ok_def attempts_ok_def status_ok_def lease_fields_absent_def
  lease_fields_present_def TERMINAL_OPERATION_STATUSES_def

lemma lifecycle_identity: "lifecycle H r q \<Longrightarrow> op_identity q = op_identity r"
  by (erule lifecycleE) (simp_all add: op_identity_def seal_operation_def row_moves)

lemma lifecycle_key: "lifecycle H r q \<Longrightarrow> op_key q = op_key r"
  using lifecycle_identity [of H r q] by (simp add: op_key_def op_identity_def)

lemma limits_ok_identity: "op_identity q = op_identity r \<Longrightarrow> limits_ok q = limits_ok r"
  by (simp add: op_identity_def limits_ok_def)

lemma lifecycle_attempts_ok:
  assumes "lifecycle H r q" and "limits_ok r" and "attempts_ok r"
  shows "attempts_ok q"
  using assms(1)
proof cases
  case (lc_claim w tok e dl u)
  have "1 \<le> op_max_attempts r" using assms(2) by (simp add: limits_ok_def)
  then show ?thesis using lc_claim assms(3)
    by (cases "op_status r") (simp_all add: attempts_ok_def seal_operation_def claimed_row_def)
next
  case (lc_end st outcome detail u)
  then show ?thesis using assms(3)
    by (cases st) (simp_all add: attempts_ok_def seal_operation_def ended_row_def TERMINAL_OPERATION_STATUSES_def)
next
  case (lc_cancel reason u)
  then show ?thesis using assms(3)
    by (cases "op_status r") (simp_all add: attempts_ok_def seal_operation_def cancelling_row_def)
qed (use assms(3) in \<open>simp_all add: attempts_ok_def seal_operation_def beaten_row_def retried_row_def bound_row_def\<close>)

lemma lifecycle_status_ok: "lifecycle H r q \<Longrightarrow> status_ok r \<Longrightarrow> status_ok q"
  by (erule lifecycleE)
     (auto simp: status_ok_def seal_operation_def row_moves TERMINAL_OPERATION_STATUSES_def
        lease_fields_absent_def lease_fields_present_def split: if_splits)

lemma lifecycle_ok: "lifecycle H r q \<Longrightarrow> op_ok r \<Longrightarrow> op_ok q"
  using limits_ok_identity [OF lifecycle_identity] lifecycle_attempts_ok lifecycle_status_ok
  unfolding op_ok_def by blast

lemma lifecycle_sealed: "lifecycle H r q \<Longrightarrow> ops.sealed H q"
  by (erule lifecycleE) simp_all

lemma lifecycle_open: "lifecycle H r q \<Longrightarrow> \<not> terminal (op_status r)"
  by (erule lifecycleE) (auto simp: TERMINAL_OPERATION_STATUSES_def)

lemma lifecycle_attempts: "lifecycle H r q \<Longrightarrow> op_attempt_count r \<le> op_attempt_count q"
  by (erule lifecycleE) (simp_all add: seal_operation_def row_moves)

lemma lifecycle_new_lease:
  "lifecycle H r q \<Longrightarrow> leased (op_status q) \<Longrightarrow> \<not> leased (op_status r) \<Longrightarrow> op_status r \<in> {Queued, Retry}"
  by (erule lifecycleE) (auto simp: seal_operation_def row_moves TERMINAL_OPERATION_STATUSES_def)

lemma lifecycle_bound: "lifecycle H r q \<Longrightarrow> op_bound_discussion_id r = Some d \<Longrightarrow> op_bound_discussion_id q = Some d"
  by (erule lifecycleE) (auto simp: seal_operation_def row_moves)

section \<open>The table\<close>

definition fresh_op :: "op_row \<Rightarrow> bool" where
  "fresh_op r \<longleftrightarrow> limits_ok r \<and> op_status r = Queued \<and> op_attempt_count r = 0 \<and> lease_fields_absent r
     \<and> \<not> op_cancellation_requested r \<and> op_terminal_outcome r = None \<and> op_bound_discussion_id r = None"

definition bound_elsewhere :: "op_row \<Rightarrow> string \<Rightarrow> op_row list \<Rightarrow> bool" where
  "bound_elsewhere r d rows \<longleftrightarrow> (\<exists>q \<in> set rows. op_scope q = op_scope r \<and> op_key q \<noteq> op_key r
     \<and> op_bound_discussion_id q = Some d)"

definition put_row :: "op_row \<Rightarrow> op_row list \<Rightarrow> op_row list" where
  "put_row q rows = update_where (\<lambda>x. op_key x = op_key q) (\<lambda>_. q) rows"

inductive table_step :: "(string \<Rightarrow> string) \<Rightarrow> op_row list \<Rightarrow> op_row list \<Rightarrow> bool" for H where
  ts_new: "op_key r \<notin> op_key ` set rows \<Longrightarrow> fresh_op r \<Longrightarrow> ops.sealed H r \<Longrightarrow> table_step H rows (rows @ [r])"
| ts_move: "r \<in> set rows \<Longrightarrow> lifecycle H r q \<Longrightarrow>
    (leased (op_status q) \<and> \<not> leased (op_status r) \<longrightarrow> \<not> resource_busy r rows) \<Longrightarrow>
    (\<forall>d. op_bound_discussion_id q = Some d \<and> op_bound_discussion_id r = None \<longrightarrow> \<not> bound_elsewhere r d rows) \<Longrightarrow>
    table_step H rows (put_row q rows)"

definition unique_for :: "(op_row \<Rightarrow> op_row \<Rightarrow> bool) \<Rightarrow> op_row list \<Rightarrow> bool" where
  "unique_for C rows \<longleftrightarrow> (\<forall>r \<in> set rows. \<forall>q \<in> set rows. C r q \<longrightarrow> op_key r = op_key q)"

definition share_resource :: "op_row \<Rightarrow> op_row \<Rightarrow> bool" where
  "share_resource r q \<longleftrightarrow> leased (op_status r) \<and> leased (op_status q) \<and> op_scope r = op_scope q
     \<and> op_resource_key r = op_resource_key q"

definition share_discussion :: "op_row \<Rightarrow> op_row \<Rightarrow> bool" where
  "share_discussion r q \<longleftrightarrow> op_scope r = op_scope q
     \<and> (\<exists>d. op_bound_discussion_id r = Some d \<and> op_bound_discussion_id q = Some d)"

text \<open>At most one leased operation per resource, and at most one operation per bound discussion.\<close>

definition exclusive :: "op_row list \<Rightarrow> bool" where
  "exclusive rows \<longleftrightarrow> unique_for share_resource rows"

definition bound_once :: "op_row list \<Rightarrow> bool" where
  "bound_once rows \<longleftrightarrow> unique_for share_discussion rows"

definition table_ok :: "(string \<Rightarrow> string) \<Rightarrow> op_row list \<Rightarrow> bool" where
  "table_ok H rows \<longleftrightarrow> distinct (map op_key rows) \<and> (\<forall>r \<in> set rows. ops.sealed H r) \<and> (\<forall>r \<in> set rows. op_ok r)
     \<and> exclusive rows \<and> bound_once rows"

lemma fresh_op_ok: "fresh_op r \<Longrightarrow> op_ok r"
  by (auto simp: fresh_op_def op_ok_defs MAX_OPERATION_ATTEMPTS_def)

lemma map_key_put_row [simp]: "map op_key (put_row q rows) = map op_key rows"
  by (simp add: put_row_def map_update_where)

lemma set_put_row: "x \<in> set (put_row q rows) \<Longrightarrow> x = q \<or> (x \<in> set rows \<and> op_key x \<noteq> op_key q)"
  by (auto simp: put_row_def set_update_where split: if_splits)

lemma put_row_other: "x \<in> set rows \<Longrightarrow> op_key x \<noteq> op_key q \<Longrightarrow> x \<in> set (put_row q rows)"
  by (force simp: put_row_def set_update_where)

lemma put_row_self: "x \<in> set rows \<Longrightarrow> op_key x = op_key q \<Longrightarrow> q \<in> set (put_row q rows)"
  by (force simp: put_row_def set_update_where)

lemma unique_put:
  assumes "unique_for C rows" and sym: "\<And>x y. C x y \<Longrightarrow> C y x"
    and new: "\<And>x. x \<in> set rows \<Longrightarrow> C x q \<Longrightarrow> op_key x = op_key q"
  shows "unique_for C (put_row q rows)"
  unfolding unique_for_def
proof (intro ballI impI)
  fix x y
  assume x: "x \<in> set (put_row q rows)" and y: "y \<in> set (put_row q rows)" and c: "C x y"
  consider "x = q" "y = q" | "x = q" "y \<in> set rows" | "x \<in> set rows" "y = q" | "x \<in> set rows" "y \<in> set rows"
    using set_put_row [OF x] set_put_row [OF y] by blast
  then show "op_key x = op_key y"
  proof cases
    case 2
    then have "op_key y = op_key q" using new c sym by blast
    then show ?thesis using 2 by simp
  next
    case 3
    then show ?thesis using new c by blast
  next
    case 4
    then show ?thesis using assms(1) c unfolding unique_for_def by blast
  qed simp
qed

lemma unique_append:
  assumes "unique_for C rows" and "\<And>x. C x q \<Longrightarrow> x = q" and "\<And>x. C q x \<Longrightarrow> x = q"
  shows "unique_for C (rows @ [q])"
  using assms unfolding unique_for_def by auto

lemma share_sym: "share_resource x y \<Longrightarrow> share_resource y x" "share_discussion x y \<Longrightarrow> share_discussion y x"
  by (auto simp: share_resource_def share_discussion_def)

lemma exclusive_put:
  assumes "exclusive rows" and "r \<in> set rows" and "op_identity q = op_identity r"
    and "leased (op_status q) \<and> \<not> leased (op_status r) \<longrightarrow> \<not> resource_busy r rows"
  shows "exclusive (put_row q rows)"
  unfolding exclusive_def
proof (rule unique_put [OF assms(1) [unfolded exclusive_def] share_sym(1)])
  have id: "op_key q = op_key r" "op_scope q = op_scope r" "op_resource_key q = op_resource_key r"
    using assms(3) by (simp_all add: op_identity_def op_key_def)
  fix x
  assume x: "x \<in> set rows" and c: "share_resource x q"
  show "op_key x = op_key q"
  proof (cases "leased (op_status r)")
    case True
    then have "share_resource x r" using c id by (simp add: share_resource_def)
    then show ?thesis using assms(1,2) x id unfolding exclusive_def unique_for_def by simp
  next
    case False
    then have "\<not> resource_busy r rows" using assms(4) c unfolding share_resource_def by blast
    then show ?thesis using x c id by (auto simp: resource_busy_def list_ex_iff share_resource_def)
  qed
qed

lemma bound_once_put:
  assumes "bound_once rows" and "r \<in> set rows" and "op_identity q = op_identity r"
    and "\<forall>d. op_bound_discussion_id q = Some d \<and> op_bound_discussion_id r = None \<longrightarrow> \<not> bound_elsewhere r d rows"
    and "\<forall>d. op_bound_discussion_id r = Some d \<longrightarrow> op_bound_discussion_id q = Some d"
  shows "bound_once (put_row q rows)"
  unfolding bound_once_def
proof (rule unique_put [OF assms(1) [unfolded bound_once_def] share_sym(2)])
  have id: "op_key q = op_key r" "op_scope q = op_scope r"
    using assms(3) by (simp_all add: op_identity_def op_key_def)
  fix x
  assume x: "x \<in> set rows" and c: "share_discussion x q"
  show "op_key x = op_key q"
  proof (cases "op_bound_discussion_id r")
    case None
    obtain d where d: "op_bound_discussion_id q = Some d" "op_bound_discussion_id x = Some d"
      using c by (auto simp: share_discussion_def)
    then have "\<not> bound_elsewhere r d rows" using assms(4) None by blast
    then show ?thesis using x c d id unfolding bound_elsewhere_def share_discussion_def by auto
  next
    case (Some d)
    then have "share_discussion x r" using c id assms(5) by (auto simp: share_discussion_def)
    then show ?thesis using assms(1,2) x id unfolding bound_once_def unique_for_def by simp
  qed
qed

lemma table_ok_append:
  assumes "table_ok H rows" and "op_key r \<notin> op_key ` set rows" and "fresh_op r" and "ops.sealed H r"
  shows "table_ok H (rows @ [r])"
proof -
  have none: "\<not> leased (op_status r)" "op_bound_discussion_id r = None" using assms(3) by (auto simp: fresh_op_def)
  have "exclusive (rows @ [r])"
    using assms(1) none unfolding table_ok_def exclusive_def by (intro unique_append) (auto simp: share_resource_def)
  moreover have "bound_once (rows @ [r])"
    using assms(1) none unfolding table_ok_def bound_once_def by (intro unique_append) (auto simp: share_discussion_def)
  ultimately show ?thesis
    using assms fresh_op_ok [OF assms(3)] unfolding table_ok_def by simp
qed

lemma table_ok_put:
  assumes "table_ok H rows" and "r \<in> set rows" and "lifecycle H r q"
    and "leased (op_status q) \<and> \<not> leased (op_status r) \<longrightarrow> \<not> resource_busy r rows"
    and "\<forall>d. op_bound_discussion_id q = Some d \<and> op_bound_discussion_id r = None \<longrightarrow> \<not> bound_elsewhere r d rows"
  shows "table_ok H (put_row q rows)"
proof -
  have id: "op_identity q = op_identity r" by (rule lifecycle_identity [OF assms(3)])
  have "exclusive (put_row q rows)"
    using assms(1,2,4) id by (intro exclusive_put) (simp_all add: table_ok_def)
  moreover have "bound_once (put_row q rows)"
    using assms(1,2,5) id lifecycle_bound [OF assms(3)] by (intro bound_once_put) (auto simp: table_ok_def)
  moreover have "ops.sealed H q" "op_ok q"
    using lifecycle_sealed [OF assms(3)] lifecycle_ok [OF assms(3)] assms(1,2) by (simp_all add: table_ok_def)
  ultimately show ?thesis
    using assms(1) set_put_row [of _ q rows] unfolding table_ok_def by auto
qed

lemma table_step_ok: "table_step H rows rows' \<Longrightarrow> table_ok H rows \<Longrightarrow> table_ok H rows'"
  by (induction rule: table_step.induct) (blast intro: table_ok_append table_ok_put)+

lemma table_steps_ok: "(table_step H)\<^sup>*\<^sup>* rows rows' \<Longrightarrow> table_ok H rows \<Longrightarrow> table_ok H rows'"
  by (induction rule: rtranclp_induct) (auto intro: table_step_ok)

section \<open>Histories\<close>

text \<open>What every row of the past has become: the same request, no fewer attempts, and nothing new once it ended.\<close>

definition succeeded_by :: "op_row \<Rightarrow> op_row \<Rightarrow> bool" where
  "succeeded_by r q \<longleftrightarrow> op_identity q = op_identity r \<and> op_attempt_count r \<le> op_attempt_count q
     \<and> (terminal (op_status r) \<longrightarrow> q = r)
     \<and> (\<forall>d. op_bound_discussion_id r = Some d \<longrightarrow> op_bound_discussion_id q = Some d)"

lemma succeeded_by_refl [simp]: "succeeded_by r r"
  by (simp add: succeeded_by_def)

lemma succeeded_by_trans: "succeeded_by r q \<Longrightarrow> succeeded_by q p \<Longrightarrow> succeeded_by r p"
  by (auto simp: succeeded_by_def)

lemma table_step_history:
  assumes "table_step H rows rows'" and "distinct (map op_key rows)" and "r \<in> set rows"
  shows "\<exists>q \<in> set rows'. succeeded_by r q"
  using assms(1)
proof cases
  case (ts_new x)
  then show ?thesis using assms(3) by (auto intro: succeeded_by_refl)
next
  case (ts_move x q)
  show ?thesis
  proof (cases "op_key r = op_key x")
    case True
    then have "r = x" using distinct_key_eq assms(2,3) ts_move(2) by metis
    then have "succeeded_by r q"
      using lifecycle_identity lifecycle_attempts lifecycle_open lifecycle_bound ts_move(3)
      unfolding succeeded_by_def by blast
    moreover have "q \<in> set rows'"
      using put_row_self [OF assms(3), of q] True lifecycle_key [OF ts_move(3)] ts_move(1) by simp
    ultimately show ?thesis by blast
  next
    case False
    then have "r \<in> set rows'"
      using put_row_other [OF assms(3), of q] lifecycle_key [OF ts_move(3)] ts_move(1) by simp
    then show ?thesis using succeeded_by_refl by blast
  qed
qed

lemma table_steps_history:
  assumes "(table_step H)\<^sup>*\<^sup>* rows rows'" and "table_ok H rows" and "r \<in> set rows"
  shows "\<exists>q \<in> set rows'. succeeded_by r q"
  using assms
proof (induction rule: rtranclp_induct)
  case base
  then show ?case by (auto intro: succeeded_by_refl)
next
  case (step mid last)
  then obtain q where q: "q \<in> set mid" "succeeded_by r q" by blast
  have "distinct (map op_key mid)"
    using table_steps_ok [OF step.hyps(1) assms(2)] by (simp add: table_ok_def)
  then obtain p where "p \<in> set last" "succeeded_by q p"
    using table_step_history [OF step.hyps(2) _ q(1)] by blast
  then show ?case using q(2) succeeded_by_trans by blast
qed

end
