(* ===== verification/QueueRefinement.thy ===== *)
theory QueueRefinement
  imports QueueSpec
begin

text \<open>
  The detailed queue refines \<open>table_step\<close>: every operation of \<open>DurableOperationQueue\<close> that returns
  changed \<open>governance_operations\<close> by a sequence of table steps, and kept the audit chain, the
  discussions and the schedules well formed. The lemmas follow the call graph: events and
  discussion stops leave the queue's tables alone, one row change is one life-cycle move, a loop
  over a snapshot is one move per row.
\<close>

definition core_inv :: "(string \<Rightarrow> string) \<Rightarrow> 'a disc_db_scheme \<Rightarrow> bool" where
  "core_inv H d \<longleftrightarrow> audit_inv H d \<and> disc_inv H d"

definition seal_schedule :: "(string \<Rightarrow> string) \<Rightarrow> sched_row \<Rightarrow> sched_row" where
  "seal_schedule H r = r\<lparr>sc_schedule_sha256 := schedule_digest H r\<rparr>"

interpretation sched: sealed_row "schedule_digest H" sc_schedule_sha256 "seal_schedule H" for H
  by unfold_locales (simp_all add: seal_schedule_def schedule_digest_def schedule_payload_def)

definition sched_key :: "sched_row \<Rightarrow> string \<times> string" where
  "sched_key r = (sc_scope r, sc_schedule_id r)"

definition sched_row_ok :: "sched_row \<Rightarrow> bool" where
  "sched_row_ok r \<longleftrightarrow> known_workflow (sc_workflow_id r) \<and> safe_id (sc_schedule_id r)
     \<and> MIN_SCHEDULE_INTERVAL_SECONDS \<le> sc_interval_seconds r \<and> sc_interval_seconds r \<le> MAX_SCHEDULE_INTERVAL_SECONDS"

definition sched_ok :: "(string \<Rightarrow> string) \<Rightarrow> sched_row list \<Rightarrow> bool" where
  "sched_ok H rows \<longleftrightarrow> distinct (map sched_key rows) \<and> (\<forall>r \<in> set rows. sched.sealed H r \<and> sched_row_ok r)"

definition queue_inv :: "(string \<Rightarrow> string) \<Rightarrow> 'a queue_db_scheme \<Rightarrow> bool" where
  "queue_inv H d \<longleftrightarrow> core_inv H d \<and> table_ok H (governance_operations d) \<and> sched_ok H (workflow_schedules d)"

definition same_queue :: "'a queue_db_scheme \<Rightarrow> 'a queue_db_scheme \<Rightarrow> bool" where
  "same_queue d d' \<longleftrightarrow> governance_operations d' = governance_operations d \<and> workflow_schedules d' = workflow_schedules d"

lemma same_queue_refl [simp]: "same_queue d d"
  by (simp add: same_queue_def)

lemma same_queue_trans: "same_queue a b \<Longrightarrow> same_queue b c \<Longrightarrow> same_queue a c"
  by (simp add: same_queue_def)

section \<open>Events and discussion stops\<close>

lemma event_op_frame:
  fixes s :: "'a queue_db_scheme pstate"
  assumes "event_op b ty p tid s = (Inr x, t)"
  shows "same_queue (st_db s) (st_db t) \<and> room_discussions (st_db t) = room_discussions (st_db s)
    \<and> message_dispatches (st_db t) = message_dispatches (st_db s) \<and> messages (st_db t) = messages (st_db s)"
proof -
  obtain e now where "appends b ty p tid e now (st_db s) (st_db t)"
    using event_op_ok [OF assms] by blast
  then show ?thesis by (auto simp: appends_def same_queue_def)
qed

lemma event_op_core:
  fixes s :: "'a queue_db_scheme pstate"
  assumes "event_op b ty p tid s = (Inr x, t)" and "core_inv (br_sha256 b) (st_db s)"
  shows "core_inv (br_sha256 b) (st_db t)"
proof -
  have "audit_inv (br_sha256 b) (st_db t)"
    using keepsD [OF event_op_keeps assms(1)] assms(2) by (simp add: core_inv_def)
  then show ?thesis using event_op_frame [OF assms(1)] assms(2) by (simp add: core_inv_def disc_inv_def)
qed

lemma fence_db_core: "core_inv H d \<Longrightarrow> core_inv H (fence_db H sc did e now d)"
  by (simp add: core_inv_def fence_db_inv audit_inv_def)

lemma store_db_core: "core_inv H d \<Longrightarrow> (\<And>r. disc_identity (ch r) = disc_identity r) \<Longrightarrow>
    core_inv H (store_db H row now ch d)"
  by (simp add: core_inv_def store_db_inv audit_inv_def)

lemma db_frame [simp]:
  "same_queue d (fence_db H sc did e now d)" "same_queue d (store_db H row now ch d)"
  by (simp_all add: same_queue_def fence_db_def store_db_def)

text \<open>Fence the prompts, store the stopped state, append the event: shared by both ways of stopping.\<close>

definition stop_row_tx :: "bridge \<Rightarrow> string \<Rightarrow> string \<Rightarrow> disc_row \<Rightarrow> (int \<Rightarrow> string \<Rightarrow> ('a queue_db_scheme, 'r) op)
    \<Rightarrow> ('a queue_db_scheme, 'r) op" where
  "stop_row_tx b reason error_code discussion k =
     tx_bind utc_now (\<lambda>now.
     tx_bind (cancel_discussion_dispatches b (di_discussion_id discussion) error_code now) (\<lambda>cancelled.
     tx_bind (store_discussion_state b discussion now (stop_changes reason)) (\<lambda>(_, discussion_sha256).
     k cancelled discussion_sha256)))"

definition stopped_db :: "bridge \<Rightarrow> string \<Rightarrow> string \<Rightarrow> disc_row \<Rightarrow> string \<Rightarrow> 'a disc_db_scheme \<Rightarrow> 'a disc_db_scheme" where
  "stopped_db b reason error_code discussion now d =
     store_db (br_sha256 b) discussion now (stop_changes reason)
       (fence_db (br_sha256 b) (br_scope b) (di_discussion_id discussion) error_code now d)"

lemma stop_row_tx_run:
  assumes "stop_row_tx b reason error_code discussion k s = (Inr x, t)"
    and "core_inv (br_sha256 b) (st_db s)"
    and "discussion \<in> set (room_discussions (st_db s))" and "di_scope discussion = br_scope b"
  shows "\<exists>n sha u. k n sha u = (Inr x, t)
    \<and> st_db u = stopped_db b reason error_code discussion (utc_at s) (st_db s)"
proof -
  let ?u = "(tick s)\<lparr>st_db := fence_db (br_sha256 b) (br_scope b) (di_discussion_id discussion) error_code
    (utc_at s) (st_db s)\<rparr>"
  have keys: "distinct (map disp_key (message_dispatches (st_db (tick s))))"
    "distinct (map disc_key (room_discussions (st_db ?u)))"
    using assms(2) by (simp_all add: core_inv_def disc_inv_def)
  have "store_discussion_state b discussion (utc_at s) (stop_changes reason) ?u =
    (Inr (stop_changes reason discussion, discussion_digest (br_sha256 b) (stop_changes reason discussion)),
     ?u\<lparr>st_db := store_db (br_sha256 b) discussion (utc_at s) (stop_changes reason) (st_db ?u)\<rparr>)"
    using keys(2) assms(3,4) by (intro store_discussion_state_run) simp_all
  then show ?thesis
    using assms(1) cancel_discussion_dispatches_run [OF keys(1), of b "di_discussion_id discussion" error_code "utc_at s"]
    unfolding stop_row_tx_def stopped_db_def
    by (auto simp: tx_simps) (intro exI conjI, assumption, simp)
qed

lemma stopped_db_core: "core_inv (br_sha256 b) d \<Longrightarrow> core_inv (br_sha256 b) (stopped_db b reason e r now d)"
  by (simp add: stopped_db_def store_db_core fence_db_core)

lemma stopped_db_frame: "same_queue d (stopped_db b reason e r now d)"
  by (simp add: stopped_db_def same_queue_def store_db_def fence_db_def)

lemma stopped_db_other:
  "x \<in> set (room_discussions d) \<Longrightarrow> disc_key x \<noteq> disc_key r \<Longrightarrow>
     x \<in> set (room_discussions (stopped_db b reason e r now d))"
  by (force simp: stopped_db_def store_db_def set_update_where)

lemma stop_guided_row_frame:
  assumes "stop_guided_row b row reason e ty discussion s = (Inr n, t)"
    and "core_inv (br_sha256 b) (st_db s)"
    and "open_discussion discussion \<Longrightarrow>
      discussion \<in> set (room_discussions (st_db s)) \<and> di_scope discussion = br_scope b"
  shows "core_inv (br_sha256 b) (st_db t) \<and> same_queue (st_db s) (st_db t)
    \<and> (\<forall>x \<in> set (room_discussions (st_db s)). disc_key x \<noteq> disc_key discussion \<longrightarrow> x \<in> set (room_discussions (st_db t)))"
proof (cases "open_discussion discussion")
  case False
  then have "t = s" using assms(1) by (simp add: stop_guided_row_def tx_simps)
  then show ?thesis using assms(2) by simp
next
  case True
  have "stop_row_tx b reason e discussion (\<lambda>cancelled sha. tx_then (event_op b ty
      [(''discussion_id'', JStr (di_discussion_id discussion)), (''operation_id'', JStr (op_operation_id row)),
       (''cancelled_dispatch_count'', JInt cancelled), (''discussion_sha256'', JStr sha)]
      (Some (di_task_id discussion))) (tx_return 1)) s = (Inr n, t)"
    using assms(1) True by (simp add: stop_guided_row_def stop_row_tx_def)
  from stop_row_tx_run [OF this assms(2)] assms(3) [OF True]
  obtain u p x where ev: "event_op b ty p (Some (di_task_id discussion)) u = (Inr x, t)"
    and u: "st_db u = stopped_db b reason e discussion (utc_at s) (st_db s)"
    by (auto simp: tx_simps)
  have "core_inv (br_sha256 b) (st_db u)" using stopped_db_core [OF assms(2)] u by simp
  moreover have "same_queue (st_db s) (st_db u)" using stopped_db_frame u by simp
  ultimately show ?thesis
    using event_op_core [OF ev] event_op_frame [OF ev] same_queue_trans stopped_db_other u by metis
qed

definition rows_present :: "bridge \<Rightarrow> disc_row list \<Rightarrow> 'a disc_db_scheme \<Rightarrow> bool" where
  "rows_present b rows d \<longleftrightarrow> distinct (map disc_key rows)
     \<and> (\<forall>r \<in> set rows. r \<in> set (room_discussions d) \<and> di_scope r = br_scope b)"

lemma stop_guided_rows_frame:
  assumes "stop_guided_rows b row rows reason e ty s = (Inr n, t)"
    and "core_inv (br_sha256 b) (st_db s)" and "rows_present b rows (st_db s)"
  shows "core_inv (br_sha256 b) (st_db t) \<and> same_queue (st_db s) (st_db t)"
proof -
  let ?J = "\<lambda>rest d. core_inv (br_sha256 b) d \<and> same_queue (st_db s) d \<and> rows_present b rest d"
  obtain ns where "tx_for (stop_guided_row b row reason e ty) rows s = (Inr ns, t)"
    using assms(1) by (auto simp: stop_guided_rows_def tx_simps)
  then have "?J [] (st_db t)"
  proof (rule tx_for_rule [where J = ?J])
    show "?J rows (st_db s)" using assms(2,3) by simp
    fix x xs u a v
    assume J: "?J (x # xs) (st_db u)" and run: "stop_guided_row b row reason e ty x u = (Inr a, v)"
    then have "x \<in> set (room_discussions (st_db u)) \<and> di_scope x = br_scope b"
      by (simp add: rows_present_def)
    then have v: "core_inv (br_sha256 b) (st_db v)" "same_queue (st_db u) (st_db v)"
      "\<forall>y \<in> set (room_discussions (st_db u)). disc_key y \<noteq> disc_key x \<longrightarrow> y \<in> set (room_discussions (st_db v))"
      using stop_guided_row_frame [OF run] J by blast+
    have "rows_present b xs (st_db v)"
      using J v(3) by (auto simp: rows_present_def image_iff)
    then show "?J xs (st_db v)" using J v same_queue_trans by blast
  qed
  then show ?thesis by simp
qed

lemma stop_bound_discussion_frame:
  assumes "stop_bound_discussion b row detail reason e ty discussion rv s = (Inr x, t)"
    and "core_inv (br_sha256 b) (st_db s)"
    and "discussion \<in> set (room_discussions (st_db s))" and "di_scope discussion = br_scope b"
  shows "core_inv (br_sha256 b) (st_db t) \<and> same_queue (st_db s) (st_db t)"
proof -
  note run = assms(1) [unfolded stop_bound_discussion_def, folded stop_row_tx_def]
  from stop_row_tx_run [OF run assms(2-4)]
  obtain u p y where ev: "event_op b ty p (Some (di_task_id discussion)) u = (Inr y, t)"
    and u: "st_db u = stopped_db b reason e discussion (utc_at s) (st_db s)"
    by (auto simp: tx_simps)
  have "core_inv (br_sha256 b) (st_db u)" using stopped_db_core [OF assms(2)] u by simp
  moreover have "same_queue (st_db s) (st_db u)" using stopped_db_frame u by simp
  ultimately show ?thesis
    using event_op_core [OF ev] event_op_frame [OF ev] same_queue_trans by metis
qed

lemma bound_discussion_row:
  assumes "bound_discussion_for_operation b d did room task psha ps = Inr (Some r)"
  shows "r \<in> set (room_discussions d) \<and> di_scope r = br_scope b \<and> di_discussion_id r = py_strip did"
  using assms unfolding bound_discussion_for_operation_def
  by (auto simp: tx_simps require_identifier_Inr split: option.splits dest: fetch_one_SomeD)

lemma revalidate_row:
  assumes "revalidate b row did d = Inr (Some r)"
  shows "r \<in> set (room_discussions d) \<and> di_scope r = br_scope b"
  using assms bound_discussion_row unfolding revalidate_def no_discussion_def
  by (fastforce split: option.splits sum.splits if_splits)

lemma stop_terminal_frame:
  assumes "stop_terminal_guided_discussion b row detail reason e ty s = (Inr x, t)"
    and "core_inv (br_sha256 b) (st_db s)"
  shows "core_inv (br_sha256 b) (st_db t) \<and> same_queue (st_db s) (st_db t)"
proof -
  let ?did = "text_or_empty (op_bound_discussion_id row)"
  let ?found = "fetch_one (\<lambda>r. di_scope r = br_scope b \<and> di_discussion_id r = ?did) (room_discussions (st_db s))"
  consider (quiet) "t = s"
    | (stop) discussion rv where "stop_bound_discussion b row detail reason e ty discussion rv s = (Inr x, t)"
        "discussion \<in> set (room_discussions (st_db s))" "di_scope discussion = br_scope b"
    using assms(1) revalidate_row [of b row ?did "st_db s"]
    unfolding stop_terminal_guided_discussion_def Let_def
    by (auto simp: tx_simps split: if_splits option.splits dest: fetch_one_SomeD)
  then show ?thesis
  proof cases
    case quiet
    then show ?thesis using assms(2) by simp
  next
    case stop
    then show ?thesis using stop_bound_discussion_frame [OF stop(1) assms(2)] by blast
  qed
qed

section \<open>One row\<close>

lemma op_is_key: "op_is b i r \<longleftrightarrow> op_key r = (br_scope b, i)"
  by (auto simp: op_is_def op_key_def)

lemma row_locked_ok [tx_simps]:
  "row_locked b i s = (Inr r, t) \<longleftrightarrow> t = s \<and> fetch_one (op_is b i) (governance_operations (st_db s)) = Some r
     \<and> ops.sealed (br_sha256 b) r"
  by (auto simp: row_locked_def tx_simps ops.sealed_def split: option.splits)

lemma fetch_op:
  assumes "fetch_one (op_is b i) rows = Some r"
  shows "r \<in> set rows \<and> op_key r = (br_scope b, i) \<and> op_operation_id r = i \<and> op_scope r = br_scope b"
  using fetch_one_SomeD [OF assms] by (auto simp: op_is_def op_key_def)

lemma fetch_op_unique:
  assumes "distinct (map op_key rows)" and "r \<in> set rows" and "op_scope r = br_scope b"
  shows "fetch_one (op_is b (op_operation_id r)) rows = Some r"
proof -
  have "op_is b (op_operation_id r) = (\<lambda>x. op_key x = op_key r)"
    using assms(3) by (auto simp: op_is_def op_key_def fun_eq_iff)
  then show ?thesis using fetch_one_unique [OF assms(1,2)] by simp
qed

text \<open>An UPDATE of one row followed by \<open>_rehash\<close> puts the sealed new row in its place.\<close>

definition put_db :: "op_row \<Rightarrow> 'a queue_db_scheme \<Rightarrow> 'a queue_db_scheme" where
  "put_db q d = d\<lparr>governance_operations := put_row q (governance_operations d)\<rparr>"

lemma update_rehash:
  assumes "distinct (map op_key (governance_operations (st_db s)))"
    and "r \<in> set (governance_operations (st_db s))" and "op_scope r = br_scope b" and "op_operation_id r = i"
    and "op_key (f r) = op_key r" and "P r" and "\<And>x. P x \<Longrightarrow> op_is b i x"
    and "st_db u = (st_db s)\<lparr>governance_operations := update_where P f (governance_operations (st_db s))\<rparr>"
    and "rehash b i u = (Inr q, t)"
  shows "q = seal_operation (br_sha256 b) (f r) \<and> st_db t = put_db q (st_db s)"
proof -
  let ?rows = "governance_operations (st_db s)"
  let ?H = "br_sha256 b"
  let ?f = "\<lambda>x. if P x then f x else x"
  have key: "op_key r = (br_scope b, i)" using assms(3,4) by (simp add: op_key_def)
  have only: "x = r" if "x \<in> set ?rows" "op_is b i x" for x
    using distinct_key_eq [OF assms(1) that(1) assms(2)] that(2) key by (simp add: op_is_key)
  have onlyP: "P x \<longleftrightarrow> x = r" if "x \<in> set ?rows" for x
    using only assms(6,7) that by blast
  have fr: "op_is b i (f r)" using assms(5) key by (simp add: op_is_key)
  define mid where "mid = update_where P f ?rows"
  have mid: "mid = update_where (op_is b i) f ?rows"
    unfolding mid_def using onlyP only assms(6,7) by (intro update_where_cong) blast+
  have dm: "distinct (map op_key mid)"
  proof -
    have "map op_key mid = map op_key ?rows"
      unfolding mid_def update_where_def using onlyP assms(5) by simp
    then show ?thesis using assms(1) by simp
  qed
  have "f r \<in> set mid" using assms(2,6) by (force simp: mid_def set_update_where)
  then have fetch: "fetch_one (op_is b i) mid = Some (f r)"
    using fetch_op_unique [OF dm, of "f r" b] fr by (simp add: op_is_def)
  define last where "last = update_where (op_is b i) (\<lambda>x. x\<lparr>op_operation_sha256 := operation_digest ?H (f r)\<rparr>) mid"
  have last_eq: "last = put_row (seal_operation ?H (f r)) ?rows"
    unfolding last_def mid put_row_def update_where_def map_map
  proof (rule map_cong [OF refl], unfold comp_def)
    fix x
    assume x: "x \<in> set ?rows"
    have "op_key (seal_operation ?H (f r)) = (br_scope b, i)"
      using assms(5) key by (simp add: seal_operation_def op_key_def)
    then show "(if op_is b i (if op_is b i x then f x else x)
          then (if op_is b i x then f x else x)\<lparr>op_operation_sha256 := operation_digest ?H (f r)\<rparr>
          else if op_is b i x then f x else x)
        = (if op_key x = op_key (seal_operation ?H (f r)) then seal_operation ?H (f r) else x)"
      using only [OF x] fr by (auto simp: op_is_key seal_operation_def)
  qed
  have "fetch_one (op_is b i) last = Some (seal_operation ?H (f r))"
  proof -
    have "distinct (map op_key last)" using assms(1) last_eq by simp
    moreover have "seal_operation ?H (f r) \<in> set last"
      unfolding last_eq using assms(2,5) by (intro put_row_self [of r]) (simp_all add: seal_operation_def op_key_def)
    ultimately show ?thesis
      using fetch_op_unique [of last "seal_operation ?H (f r)" b] fr by (simp add: op_is_def seal_operation_def)
  qed
  then show ?thesis
    using assms(8,9) fetch last_eq unfolding rehash_def update_operations_def put_db_def
    by (auto simp: tx_simps Let_def assert_found_def mid_def [symmetric] last_def [symmetric])
qed

section \<open>One life-cycle move per call\<close>

text \<open>
  \<open>moves b r d d'\<close>: the one change to the queue is a life-cycle move of the stored row \<open>r\<close>, and
  the rest of the database stays well formed.
\<close>

definition moves :: "bridge \<Rightarrow> op_row \<Rightarrow> 'a queue_db_scheme \<Rightarrow> 'a queue_db_scheme \<Rightarrow> bool" where
  "moves b r d d' \<longleftrightarrow> core_inv (br_sha256 b) d'
     \<and> (\<exists>q. lifecycle (br_sha256 b) r q \<and> governance_operations d' = put_row q (governance_operations d)
          \<and> (leased (op_status q) \<and> \<not> leased (op_status r) \<longrightarrow> \<not> resource_busy r (governance_operations d))
          \<and> (\<forall>x. op_bound_discussion_id q = Some x \<and> op_bound_discussion_id r = None \<longrightarrow>
               \<not> bound_elsewhere r x (governance_operations d)))
     \<and> workflow_schedules d' = workflow_schedules d"

text \<open>The row a transaction works on: stored, in the bridge's scope, in a database with unique keys.\<close>

definition stored :: "bridge \<Rightarrow> op_row \<Rightarrow> 'a queue_db_scheme \<Rightarrow> bool" where
  "stored b r d \<longleftrightarrow> distinct (map op_key (governance_operations d)) \<and> r \<in> set (governance_operations d)
     \<and> op_scope r = br_scope b"

lemma moves_step: "moves b r d d' \<Longrightarrow> stored b r d \<Longrightarrow>
    table_step (br_sha256 b) (governance_operations d) (governance_operations d')"
  unfolding moves_def stored_def by (auto intro: ts_move)

lemma moves_same: "same_queue c d \<Longrightarrow> moves b r d d' \<Longrightarrow> moves b r c d'"
  by (simp add: moves_def same_queue_def)

lemma stored_same: "same_queue c d \<Longrightarrow> stored b r c \<Longrightarrow> stored b r d"
  by (simp add: stored_def same_queue_def)

lemma put_db_core: "core_inv H d \<Longrightarrow> core_inv H (put_db q d)"
  by (simp add: core_inv_def audit_inv_def disc_inv_def put_db_def)

text \<open>What may follow the row change: nothing, or the event.\<close>

definition quiet_after :: "bridge \<Rightarrow> 'a queue_db_scheme pstate \<Rightarrow> 'a queue_db_scheme pstate \<Rightarrow> bool" where
  "quiet_after b u t \<longleftrightarrow> (core_inv (br_sha256 b) (st_db u) \<longrightarrow> core_inv (br_sha256 b) (st_db t))
     \<and> same_queue (st_db u) (st_db t)"

lemma quiet_after_refl [simp]: "st_db t = st_db u \<Longrightarrow> quiet_after b u t"
  by (simp add: quiet_after_def)

lemma quiet_after_event: "event_op b ty p tid u = (Inr e, t) \<Longrightarrow> quiet_after b u t"
  unfolding quiet_after_def using event_op_core event_op_frame by blast

lemma move_then_quiet:
  assumes "core_inv (br_sha256 b) (st_db s)" and "st_db u = put_db q (st_db s)" and "lifecycle (br_sha256 b) r q"
    and "leased (op_status q) \<and> \<not> leased (op_status r) \<longrightarrow> \<not> resource_busy r (governance_operations (st_db s))"
    and "\<forall>x. op_bound_discussion_id q = Some x \<and> op_bound_discussion_id r = None \<longrightarrow>
               \<not> bound_elsewhere r x (governance_operations (st_db s))"
    and "quiet_after b u t"
  shows "moves b r (st_db s) (st_db t)"
proof -
  have "core_inv (br_sha256 b) (st_db u)" using put_db_core assms(1,2) by simp
  then have "core_inv (br_sha256 b) (st_db t)" "same_queue (st_db u) (st_db t)"
    using assms(6) by (simp_all add: quiet_after_def)
  then show ?thesis using assms(2-5) by (auto simp: moves_def same_queue_def put_db_def)
qed

lemma update_operations_ok [tx_simps]:
  "update_operations b i f s = (Inr x, t) \<longleftrightarrow> t = s\<lparr>st_db := (st_db s)\<lparr>governance_operations :=
     update_where (op_is b i) f (governance_operations (st_db s))\<rparr>\<rparr>"
  by (simp add: update_operations_def tx_simps)

text \<open>UPDATE by key and rehash: the common shape of every transition.\<close>

lemma key_move:
  assumes "core_inv (br_sha256 b) (st_db s)" and "stored b r (st_db s)" and "op_operation_id r = i"
    and "op_key (f r) = op_key r"
    and "update_operations b i f v = (Inr x, w)" and "st_db v = st_db s" and "rehash b i w = (Inr q, y)"
    and "quiet_after b y t"
    and "lifecycle (br_sha256 b) r (seal_operation (br_sha256 b) (f r))"
    and "leased (op_status (f r)) \<and> \<not> leased (op_status r) \<longrightarrow> \<not> resource_busy r (governance_operations (st_db s))"
    and "op_bound_discussion_id (f r) = op_bound_discussion_id r"
  shows "moves b r (st_db s) (st_db t) \<and> q = seal_operation (br_sha256 b) (f r)"
proof -
  have is_r: "op_is b i r" using assms(2,3) by (simp add: stored_def op_is_def)
  have q: "q = seal_operation (br_sha256 b) (f r) \<and> st_db y = put_db q (st_db s)"
    using assms(2,3,4,5,6,7) is_r unfolding stored_def update_operations_ok
    by (intro update_rehash [where u = w and P = "op_is b i"]) auto
  have "moves b r (st_db s) (st_db t)"
  proof (rule move_then_quiet [OF assms(1) _ assms(9) _ _ assms(8)])
    show "st_db y = put_db (seal_operation (br_sha256 b) (f r)) (st_db s)" using q by blast
  qed (use assms(10,11) in \<open>auto simp: seal_operation_def\<close>)
  then show ?thesis using q by blast
qed

lemma set_terminal_moves:
  assumes "set_terminal_locked b r st outcome detail s = (Inr q, t)"
    and "core_inv (br_sha256 b) (st_db s)" and "stored b r (st_db s)"
    and "terminal st" and "op_cancellation_requested r \<longrightarrow> st = Cancelled" and "st = Succeeded \<longrightarrow> leased (op_status r)"
  shows "moves b r (st_db s) (st_db t) \<and> (\<exists>u. q = seal_operation (br_sha256 b) (ended_row st outcome detail u r))"
proof -
  let ?f = "ended_row st outcome detail (utc_at s)"
  from assms(1) obtain w y p e where nt: "\<not> terminal (op_status r)"
    and up: "update_operations b (op_operation_id r) ?f (tick s) = (Inr (), w)"
    and re: "rehash b (op_operation_id r) w = (Inr q, y)"
    and ev: "event_op b (''workflow.operation.'' @ status_text st) p None y = (Inr e, t)"
    unfolding set_terminal_locked_def ended_row_def [abs_def] by (auto simp: tx_simps)
  have lc: "lifecycle (br_sha256 b) r (seal_operation (br_sha256 b) (?f r))"
    using nt assms(4-6) by (intro lc_end)
  have "moves b r (st_db s) (st_db t) \<and> q = seal_operation (br_sha256 b) (?f r)"
    using assms(4)
    by (intro key_move [OF assms(2,3) refl _ up _ re quiet_after_event [OF ev] lc])
       (auto simp: op_key_def ended_row_def TERMINAL_OPERATION_STATUSES_def)
  then show ?thesis by blast
qed

lemma bind_guided_moves:
  assumes "bind_guided_locked b r g di rec s = (Inr q, t)"
    and "core_inv (br_sha256 b) (st_db s)" and "stored b r (st_db s)"
    and "op_status r \<in> {Queued, Retry}" and "op_bound_discussion_id r = None"
  shows "moves b r (st_db s) (st_db t) \<and> (\<exists>u. q = seal_operation (br_sha256 b) (bound_row (di_discussion_id di) u r))"
proof -
  let ?i = "op_operation_id r" and ?d = "di_discussion_id di" and ?rows = "governance_operations (st_db s)"
  let ?f = "bound_row ?d (utc_at s)"
  let ?P = "\<lambda>x. op_is b ?i x \<and> op_bound_discussion_id x = None"
  let ?w = "(tick s)\<lparr>st_db := (st_db s)\<lparr>governance_operations := update_where ?P ?f ?rows\<rparr>\<rparr>"
  have w: "st_db ?w = (st_db s)\<lparr>governance_operations := update_where ?P ?f ?rows\<rparr>" by simp
  from assms(1) obtain y ty p tid e where nc: "\<not> binding_conflict b ?i ?d (st_db s)"
    and re: "rehash b ?i ?w = (Inr q, y)"
    and ev: "event_op b ty p tid y = (Inr e, t)"
    unfolding bind_guided_locked_def bound_row_def [abs_def] by (auto simp: tx_simps Let_def)
  have st: "distinct (map op_key ?rows)" "r \<in> set ?rows" "op_scope r = br_scope b"
    using assms(3) by (auto simp: stored_def)
  have y: "q = seal_operation (br_sha256 b) (?f r) \<and> st_db y = put_db q (st_db s)"
    using st assms(5) by (intro update_rehash [OF _ _ _ refl _ _ _ w re]) (auto simp: op_key_def bound_row_def op_is_def)
  have free: "\<not> bound_elsewhere r ?d ?rows"
  proof
    assume "bound_elsewhere r ?d ?rows"
    then obtain x where "x \<in> set ?rows" "op_scope x = br_scope b" "op_operation_id x \<noteq> ?i"
      "op_bound_discussion_id x = Some ?d"
      using st(3) by (auto simp: bound_elsewhere_def op_key_def)
    moreover have "list_ex ?P ?rows" using st assms(5) by (auto simp: list_ex_iff op_is_def)
    ultimately show False using nc by (auto simp: binding_conflict_def list_ex_iff)
  qed
  have lc: "lifecycle (br_sha256 b) r q"
    using y assms(4,5) lc_bind by auto
  have "moves b r (st_db s) (st_db t)"
    using free assms(4) y
    by (intro move_then_quiet [OF assms(2) _ lc _ _ quiet_after_event [OF ev]])
       (auto simp: seal_operation_def bound_row_def)
  then show ?thesis using y by blast
qed

lemma moves_after_quiet:
  assumes "core_inv (br_sha256 b) (st_db u) \<and> same_queue (st_db s) (st_db u)" and "stored b r (st_db s)"
    and "core_inv (br_sha256 b) (st_db u) \<Longrightarrow> stored b r (st_db u) \<Longrightarrow> moves b r (st_db u) (st_db t)"
  shows "moves b r (st_db s) (st_db t)"
  using assms moves_same stored_same by blast

lemma fail_unbound_moves:
  assumes "fail_unbound_guided b r detail rows s = (Inr q, t)"
    and "core_inv (br_sha256 b) (st_db s)" and "stored b r (st_db s)" and "rows_present b rows (st_db s)"
    and "\<not> op_cancellation_requested r"
  shows "moves b r (st_db s) (st_db t) \<and> (\<exists>dt u. q = seal_operation (br_sha256 b) (ended_row Failed ''source-binding'' dt u r))"
proof -
  from assms(1) obtain n u dt where stop: "stop_guided_rows b r rows ''workflow_source_binding_failed''
      ''discussion_source_binding_failed'' ''discussion.source_binding_failed'' s = (Inr n, u)"
    and run: "set_terminal_locked b r Failed ''source-binding'' dt u = (Inr q, t)"
    unfolding fail_unbound_guided_def by (auto simp: tx_simps)
  have u: "core_inv (br_sha256 b) (st_db u) \<and> same_queue (st_db s) (st_db u)"
    by (rule stop_guided_rows_frame [OF stop assms(2,4)])
  have su: "stored b r (st_db u)" using u assms(3) stored_same by blast
  have m: "moves b r (st_db u) (st_db t) \<and> (\<exists>v. q = seal_operation (br_sha256 b) (ended_row Failed ''source-binding'' dt v r))"
    using u su assms(5) by (intro set_terminal_moves [OF run]) (auto simp: TERMINAL_OPERATION_STATUSES_def)
  then show ?thesis using u moves_same by blast
qed

section \<open>Loops over rows\<close>

definition evolves :: "bridge \<Rightarrow> 'a queue_db_scheme \<Rightarrow> 'a queue_db_scheme \<Rightarrow> bool" where
  "evolves b d d' \<longleftrightarrow> core_inv (br_sha256 b) d'
     \<and> (table_step (br_sha256 b))\<^sup>*\<^sup>* (governance_operations d) (governance_operations d')
     \<and> workflow_schedules d' = workflow_schedules d"

definition queue_ok :: "bridge \<Rightarrow> 'a queue_db_scheme \<Rightarrow> bool" where
  "queue_ok b d \<longleftrightarrow> core_inv (br_sha256 b) d \<and> table_ok (br_sha256 b) (governance_operations d)"

lemma evolves_refl: "queue_ok b d \<Longrightarrow> evolves b d d"
  by (simp add: evolves_def queue_ok_def)

lemma evolves_trans: "evolves b c d \<Longrightarrow> evolves b d e \<Longrightarrow> evolves b c e"
  by (auto simp: evolves_def)

lemma evolves_ok: "evolves b c d \<Longrightarrow> queue_ok b c \<Longrightarrow> queue_ok b d"
  using table_steps_ok by (auto simp: evolves_def queue_ok_def)

lemma moves_evolves:
  assumes "moves b r d d'" and "stored b r d"
  shows "evolves b d d'"
proof -
  have "table_step (br_sha256 b) (governance_operations d) (governance_operations d')"
    by (rule moves_step [OF assms])
  moreover have "core_inv (br_sha256 b) d'" "workflow_schedules d' = workflow_schedules d"
    using assms(1) unfolding moves_def by blast+
  ultimately show ?thesis by (simp add: evolves_def)
qed

lemma quiet_evolves: "core_inv (br_sha256 b) d' \<Longrightarrow> same_queue d d' \<Longrightarrow> evolves b d d'"
  by (simp add: evolves_def same_queue_def)

lemma moves_other:
  assumes "moves b r d d'" and "x \<in> set (governance_operations d)" and "op_key x \<noteq> op_key r"
  shows "x \<in> set (governance_operations d')"
  using assms lifecycle_key put_row_other unfolding moves_def by metis

text \<open>The effect of a loop body on its row: one move, or nothing on the queue's tables.\<close>

definition row_effect :: "bridge \<Rightarrow> op_row \<Rightarrow> 'a queue_db_scheme \<Rightarrow> 'a queue_db_scheme \<Rightarrow> bool" where
  "row_effect b r d d' \<longleftrightarrow> moves b r d d' \<or> core_inv (br_sha256 b) d' \<and> same_queue d d'"

lemma row_effect_evolves: "row_effect b r d d' \<Longrightarrow> stored b r d \<Longrightarrow> evolves b d d'"
  using moves_evolves quiet_evolves by (auto simp: row_effect_def)

lemma loop_evolves:
  assumes run: "tx_for f rows s = (Inr ys, t)" and ok: "queue_ok b (st_db s)"
    and rows: "distinct (map op_key rows)" "\<forall>r \<in> set rows. r \<in> set (governance_operations (st_db s)) \<and> op_scope r = br_scope b \<and> Q r"
    and body: "\<And>r u a v. f r u = (Inr a, v) \<Longrightarrow> queue_ok b (st_db u) \<Longrightarrow> stored b r (st_db u) \<Longrightarrow> Q r \<Longrightarrow>
      row_effect b r (st_db u) (st_db v)"
  shows "evolves b (st_db s) (st_db t)"
proof -
  let ?J = "\<lambda>rest d. evolves b (st_db s) d \<and> distinct (map op_key rest)
    \<and> (\<forall>r \<in> set rest. r \<in> set (governance_operations d) \<and> op_scope r = br_scope b \<and> Q r)"
  have "?J [] (st_db t)"
  proof (rule tx_for_rule [where J = ?J, OF run])
    show "?J rows (st_db s)" using ok rows evolves_refl by blast
    fix r rest u a v
    assume J: "?J (r # rest) (st_db u)" and f: "f r u = (Inr a, v)"
    have oku: "queue_ok b (st_db u)" using J ok evolves_ok by blast
    have st: "stored b r (st_db u)" using J oku by (auto simp: stored_def queue_ok_def table_ok_def)
    have eff: "row_effect b r (st_db u) (st_db v)" using body [OF f oku st] J by simp
    have "evolves b (st_db s) (st_db v)"
      using J row_effect_evolves [OF eff st] evolves_trans by blast
    moreover have "x \<in> set (governance_operations (st_db v))" if "x \<in> set rest" for x
    proof -
      have x: "x \<in> set (governance_operations (st_db u))" "op_key x \<noteq> op_key r"
        using J that by (auto simp: image_iff)
      then show ?thesis using eff moves_other unfolding row_effect_def same_queue_def by metis
    qed
    ultimately show "?J rest (st_db v)" using J by simp
  qed
  then show ?thesis by blast
qed

lemma by_creation_rows:
  assumes "table_ok H rows"
  shows "distinct (map op_key (by_creation (filter P rows)))" "set (by_creation (filter P rows)) = {r \<in> set rows. P r}"
  using assms by (auto simp: by_creation_def table_ok_def distinct_map inj_on_def)

lemma locked_row:
  assumes "queue_ok b (st_db u)" and "stored b r (st_db u)"
  shows "row_locked b (op_operation_id r) u = (Inr q, v) \<longleftrightarrow> q = r \<and> v = u"
proof -
  have "fetch_one (op_is b (op_operation_id r)) (governance_operations (st_db u)) = Some r"
    using assms(2) fetch_op_unique by (simp add: stored_def)
  moreover have "ops.sealed (br_sha256 b) r"
    using assms by (simp add: queue_ok_def table_ok_def stored_def)
  ultimately show ?thesis by (auto simp: tx_simps)
qed

end
