(* ===== verification/QueueSteps.thy ===== *)
theory QueueSteps
  imports QueueRefinement
begin

text \<open>
  Every transaction of the queue, from its code to the table: what it inserts or which rows it
  moves. \<open>evolves b d d'\<close> is the refinement statement; the invariant and the history facts of
  \<open>QueueSpec\<close> follow from it for each operation.
\<close>

section \<open>Enqueueing\<close>

lemma op_identifier_Inr: "op_identifier v l = Inr x \<longleftrightarrow> x = py_strip v \<and> safe_id x"
  by (auto simp: op_identifier_def Let_def)

lemma safe_text_Inr: "safe_text v l n = Inr x \<longleftrightarrow> x = py_strip v \<and> x \<noteq> [] \<and> int (length x) \<le> n \<and> \<not> contains_secret x"
  by (auto simp: safe_text_def Let_def)

lemma check_limits_Inr: "check_limits m t = Inr u \<longleftrightarrow> 1 \<le> m \<and> m \<le> MAX_OPERATION_ATTEMPTS
    \<and> 1 \<le> t \<and> t \<le> MAX_OPERATION_TIMEOUT_SECONDS"
  by (auto simp: check_limits_def tx_simps)

lemma validate_request_Inr:
  assumes "validate_request r = Inr q"
  shows "known_workflow (rq_workflow_id q) \<and> 1 \<le> rq_max_attempts q \<and> rq_max_attempts q \<le> MAX_OPERATION_ATTEMPTS
    \<and> 1 \<le> rq_timeout_seconds q \<and> rq_timeout_seconds q \<le> MAX_OPERATION_TIMEOUT_SECONDS
    \<and> rq_requested_by q \<in> {HUMAN_OPERATOR_ID, CONTROL_ROOM_WORKFLOW_ID}"
  using assms unfolding validate_request_def by (auto simp: tx_simps check_limits_Inr)

lemma new_operation_fresh:
  assumes "validate_request r = Inr q"
  shows "fresh_op (new_operation b q i created)"
  using validate_request_Inr [OF assms]
  by (simp add: fresh_op_def new_operation_def Let_def limits_ok_def lease_fields_absent_def)

lemma new_operation_sealed: "ops.sealed (br_sha256 b) (new_operation b q i created)"
  by (simp add: ops.sealed_def new_operation_def Let_def operation_digest_def governance_operation_payload_def)

lemma new_operation_key [simp]: "op_key (new_operation b q i created) = (br_scope b, i)"
  by (simp add: op_key_def new_operation_def Let_def)

lemma insert_operation_ok:
  "insert_operation row s = (Inr u, t) \<longleftrightarrow> op_key row \<notin> op_key ` set (governance_operations (st_db s))
     \<and> t = s\<lparr>st_db := (st_db s)\<lparr>governance_operations := governance_operations (st_db s) @ [row]\<rparr>\<rparr>"
  by (auto simp: insert_operation_def tx_simps list_ex_iff op_key_def image_iff)

lemma insert_operation_err:
  "insert_operation row s = (Inl e, t) \<Longrightarrow> e = IntegrityError"
  by (auto simp: insert_operation_def tx_errs tx_simps)

text \<open>What a successful \<open>_enqueue_locked\<close> leaves: one new row at the end, and its event.\<close>

lemma enqueue_locked_run:
  assumes "enqueue_locked b request s = (Inr row, t)" and "queue_ok b (st_db s)"
  shows "core_inv (br_sha256 b) (st_db t) \<and> workflow_schedules (st_db t) = workflow_schedules (st_db s)
    \<and> governance_operations (st_db t) = governance_operations (st_db s) @ [row]
    \<and> op_key row \<notin> op_key ` set (governance_operations (st_db s))
    \<and> fresh_op row \<and> ops.sealed (br_sha256 b) row \<and> op_scope row = br_scope b
    \<and> (\<exists>q i c. validate_request request = Inr q \<and> safe_id i \<and> row = new_operation b q i c
        \<and> (\<forall>n. truthy (rq_operation_id q) = Some n \<longrightarrow> i = py_strip n))"
proof -
  from assms(1) obtain q n i s1 s2 e where q: "validate_request request = Inr q"
    and n: "name_or_uuid (rq_operation_id q) s = (Inr n, s1)"
    and i: "op_identifier n ''operation id'' = Inr i"
    and ins: "insert_operation (new_operation b q i (utc_at s1)) (tick s1) = (Inr (), s2)"
    and row: "fetch_one (op_is b i) (governance_operations (st_db s2)) = Some row"
    and ev: "event_op b ''workflow.operation.queued''
       [(''operation_id'', JStr i), (''workflow_id'', JStr (rq_workflow_id q)),
        (''resource_key'', JStr (rq_resource_key q)),
        (''operation_sha256'', JStr (op_operation_sha256 row))] None s2 = (Inr e, t)"
    unfolding enqueue_locked_def by (auto simp: tx_simps)
  have s1: "st_db s1 = st_db s" and named: "\<forall>m. truthy (rq_operation_id q) = Some m \<longrightarrow> n = m"
    using n by (auto simp: name_or_uuid_def tx_simps split: option.splits)
  let ?r = "new_operation b q i (utc_at s1)" and ?rows = "governance_operations (st_db s)"
  have new: "op_key ?r \<notin> op_key ` set ?rows"
    and s2: "st_db s2 = (st_db s)\<lparr>governance_operations := ?rows @ [?r]\<rparr>"
    using ins s1 by (auto simp: insert_operation_ok)
  have "distinct (map op_key (?rows @ [?r]))"
    using assms(2) new by (simp add: queue_ok_def table_ok_def)
  then have "fetch_one (op_is b (op_operation_id ?r)) (?rows @ [?r]) = Some ?r"
    by (rule fetch_op_unique) (simp_all add: new_operation_def Let_def)
  then have r: "row = ?r" using row s2 by (simp add: new_operation_def Let_def)
  have c2: "core_inv (br_sha256 b) (st_db s2)"
    using assms(2) s2 by (simp add: queue_ok_def core_inv_def audit_inv_def disc_inv_def)
  have "core_inv (br_sha256 b) (st_db t)" "same_queue (st_db s2) (st_db t)"
    using event_op_core [OF ev c2] event_op_frame [OF ev] by blast+
  then have "governance_operations (st_db t) = ?rows @ [?r]"
    "workflow_schedules (st_db t) = workflow_schedules (st_db s)" "core_inv (br_sha256 b) (st_db t)"
    using s2 by (simp_all add: same_queue_def)
  moreover have "op_scope ?r = br_scope b" by (simp add: new_operation_def Let_def)
  moreover have "safe_id i" "i = py_strip n" using i by (auto simp: op_identifier_Inr)
  ultimately show ?thesis
    using r new new_operation_fresh [OF q] new_operation_sealed q named by blast
qed

lemma enqueue_locked_evolves:
  assumes "enqueue_locked b request s = (Inr row, t)" and "queue_ok b (st_db s)"
  shows "evolves b (st_db s) (st_db t)"
  using enqueue_locked_run [OF assms] by (auto simp: evolves_def intro!: ts_new)

lemma epoch_or_now_ok: "epoch_or_now n s = (Inr x, t) \<Longrightarrow> st_db t = st_db s"
  by (auto simp: epoch_or_now_def tx_simps split: option.splits)

lemma enqueue_evolves:
  assumes "enqueue b request n s = (Inr row, t)" and "queue_ok b (st_db s)"
  shows "evolves b (st_db s) (st_db t)"
proof -
  from assms(1) obtain r u where "epoch_or_now n s = (Inr r, u)"
    and "enqueue_locked b (request\<lparr>rq_not_before_epoch := r\<rparr>) u = (Inr row, t)"
    unfolding enqueue_def by (auto simp: tx_simps)
  then show ?thesis using assms(2) enqueue_locked_evolves epoch_or_now_ok by metis
qed

lemma ensure_evolves:
  assumes "ensure b request rb mo s = (Inr (row, new), t)" and "queue_ok b (st_db s)"
  shows "evolves b (st_db s) (st_db t)"
proof -
  from assms(1) consider "t = s" | q where "enqueue_locked b q s = (Inr row, t)"
    unfolding ensure_def by (auto simp: tx_simps Let_def split: if_splits)
  then show ?thesis using assms(2) enqueue_locked_evolves evolves_refl by cases auto
qed

section \<open>Guided operations\<close>

lemma open_rows_present:
  assumes "queue_ok b d"
  shows "rows_present b (open_guided_task_rows b g d) d"
proof -
  have "distinct (map disc_key (room_discussions d))"
    using assms by (simp add: queue_ok_def core_inv_def disc_inv_def)
  then have "distinct (map disc_key (discussions_of_task (br_scope b) (gb_room_id g) (gb_task_id g) d))"
    by (auto simp: discussions_of_task_def distinct_map inj_on_def)
  then show ?thesis
    by (auto simp: rows_present_def open_guided_task_rows_def discussions_of_task_def distinct_map inj_on_def)
qed

lemma not_cancelled:
  assumes "queue_ok b d" and "stored b r d" and "op_status r \<noteq> Cancelling" and "op_status r \<noteq> Cancelled"
  shows "\<not> op_cancellation_requested r"
  using assms by (auto simp: queue_ok_def table_ok_def stored_def op_ok_def status_ok_def)

lemma fail_unbound_row:
  assumes "fail_unbound_guided b r detail rows s = (Inr q, t)" and "queue_ok b (st_db s)" and "stored b r (st_db s)"
    and "rows = [] \<or> rows = open_guided_task_rows b g (st_db s)" and "op_status r \<in> {Queued, Retry}"
  shows "moves b r (st_db s) (st_db t)"
proof -
  have "rows_present b rows (st_db s)"
    using assms(2,4) open_rows_present by (auto simp: rows_present_def)
  moreover have "\<not> op_cancellation_requested r" using not_cancelled [OF assms(2,3)] assms(5) by auto
  ultimately show ?thesis using fail_unbound_moves [OF assms(1) _ assms(3)] assms(2) by (simp add: queue_ok_def)
qed

definition unbound_open :: "op_row \<Rightarrow> bool" where
  "unbound_open r \<longleftrightarrow> op_bound_discussion_id r = None \<and> op_status r \<in> {Queued, Retry}"

lemma recover_bound_effect:
  assumes "recover_bound b now r g s = (Inr rs, t)" and "queue_ok b (st_db s)" and "stored b r (st_db s)" and "unbound_open r"
  shows "row_effect b r (st_db s) (st_db t)"
proof -
  have st: "op_status r \<in> {Queued, Retry}" "op_bound_discussion_id r = None"
    using assms(4) by (auto simp: unbound_open_def)
  have core: "core_inv (br_sha256 b) (st_db s)" using assms(2) by (simp add: queue_ok_def)
  consider (fail) dt q where "fail_unbound_guided b r dt (open_guided_task_rows b g (st_db s)) s = (Inr q, t)"
    | (fail') dt q where "fail_unbound_guided b r dt [] s = (Inr q, t)"
    | (bind) di q where "bind_guided_locked b r g di True s = (Inr q, t)"
    | (none) "t = s"
    using assms(1) unfolding recover_bound_def Let_def
    by (auto simp: tx_simps split: if_splits)
  then show ?thesis
  proof cases
    case fail
    then show ?thesis using fail_unbound_row [OF fail assms(2,3)] st(1) by (auto simp: row_effect_def)
  next
    case fail'
    then show ?thesis using fail_unbound_row [OF fail' assms(2,3)] st(1) by (auto simp: row_effect_def)
  next
    case bind
    then show ?thesis using bind_guided_moves [OF bind core assms(3) st] by (simp add: row_effect_def)
  next
    case none
    then show ?thesis using core by (simp add: row_effect_def)
  qed
qed

lemma recover_one_effect:
  assumes "recover_one b now r s = (Inr rs, t)" and "queue_ok b (st_db s)" and "stored b r (st_db s)" and "unbound_open r"
  shows "row_effect b r (st_db s) (st_db t)"
proof -
  consider (fail) dt q where "fail_unbound_guided b r dt [] s = (Inr q, t)"
    | (bound) g where "recover_bound b now r g s = (Inr rs, t)"
    using assms(1) locked_row [OF assms(2,3)] unfolding recover_one_def
    by (auto simp: tx_bind_ok tx_return_ok split: option.splits)
  then show ?thesis
  proof cases
    case fail
    then show ?thesis
      using fail_unbound_row [OF fail assms(2,3)] assms(4) by (auto simp: row_effect_def unbound_open_def)
  next
    case bound
    then show ?thesis using recover_bound_effect assms(2-4) by blast
  qed
qed

lemma recover_unbound_evolves:
  assumes "recover_unbound_guided_locked b now s = (Inr rs, t)" and "queue_ok b (st_db s)"
  shows "evolves b (st_db s) (st_db t)"
proof -
  obtain xs where run: "tx_for (recover_one b now) (unbound_guided b (st_db s)) s = (Inr xs, t)"
    using assms(1) unfolding recover_unbound_guided_locked_def by (auto simp: tx_simps)
  have tab: "table_ok (br_sha256 b) (governance_operations (st_db s))" using assms(2) by (simp add: queue_ok_def)
  show ?thesis
  proof (rule loop_evolves [OF run assms(2), where Q = unbound_open])
    show "distinct (map op_key (unbound_guided b (st_db s)))"
      using by_creation_rows(1) [OF tab] by (simp add: unbound_guided_def)
    show "\<forall>r \<in> set (unbound_guided b (st_db s)).
        r \<in> set (governance_operations (st_db s)) \<and> op_scope r = br_scope b \<and> unbound_open r"
      using by_creation_rows(2) [OF tab] by (auto simp: unbound_guided_def unbound_open_def)
  qed (rule recover_one_effect)
qed

section \<open>Binding a discussion\<close>

lemma put_same: "distinct (map op_key rows) \<Longrightarrow> r \<in> set rows \<Longrightarrow> put_row r rows = rows"
  unfolding put_row_def update_where_def by (rule map_idI) (auto dest: distinct_key_eq)

text \<open>A rehash of a sealed row changes nothing.\<close>

lemma rehash_idle:
  assumes "rehash b (op_operation_id r) s = (Inr q, t)" and "queue_ok b (st_db s)" and "stored b r (st_db s)"
  shows "st_db t = st_db s"
proof -
  have st: "distinct (map op_key (governance_operations (st_db s)))" "r \<in> set (governance_operations (st_db s))"
    "op_scope r = br_scope b" using assms(3) by (auto simp: stored_def)
  have same: "st_db s = (st_db s)\<lparr>governance_operations :=
      update_where (op_is b (op_operation_id r)) (\<lambda>x. x) (governance_operations (st_db s))\<rparr>"
    by (simp add: update_where_def)
  have "q = seal_operation (br_sha256 b) r \<and> st_db t = put_db q (st_db s)"
    by (rule update_rehash [OF st refl _ _ _ same assms(1)]) (use st(3) in \<open>simp_all add: op_is_def\<close>)
  moreover have "seal_operation (br_sha256 b) r = r"
    using assms(2) st(2) by (simp add: queue_ok_def table_ok_def ops.sealed_def seal_operation_def)
  ultimately show ?thesis using put_same st by (simp add: put_db_def)
qed

lemma bind_guided_idle:
  assumes "bind_guided_locked b r g di rec s = (Inr q, t)" and "queue_ok b (st_db s)" and "stored b r (st_db s)"
    and "op_bound_discussion_id r = Some x"
  shows "core_inv (br_sha256 b) (st_db t) \<and> same_queue (st_db s) (st_db t)"
proof -
  let ?i = "op_operation_id r" and ?rows = "governance_operations (st_db s)"
  let ?P = "\<lambda>x. op_is b ?i x \<and> op_bound_discussion_id x = None"
  let ?w = "(tick s)\<lparr>st_db := (st_db s)\<lparr>governance_operations :=
    update_where ?P (bound_row (di_discussion_id di) (utc_at s)) ?rows\<rparr>\<rparr>"
  from assms(1) obtain y ty p tid e where re: "rehash b ?i ?w = (Inr q, y)"
    and ev: "event_op b ty p tid y = (Inr e, t)"
    unfolding bind_guided_locked_def bound_row_def [abs_def] by (auto simp: tx_simps Let_def)
  have "\<not> ?P z" if "z \<in> set ?rows" for z
  proof
    assume z: "?P z"
    then have "op_key z = op_key r" using assms(3) by (simp add: op_is_def op_key_def stored_def)
    then have "z = r" using distinct_key_eq assms(3) that unfolding stored_def by metis
    then show False using z assms(4) by simp
  qed
  then have "update_where ?P (bound_row (di_discussion_id di) (utc_at s)) ?rows = ?rows"
    by (rule update_where_none)
  then have w: "st_db ?w = st_db s" by simp
  have "st_db y = st_db ?w"
    using assms(2,3) by (intro rehash_idle [OF re]) (simp_all only: w)
  then show ?thesis
    using w event_op_core [OF ev] event_op_frame [OF ev] assms(2) by (simp add: queue_ok_def)
qed

lemma bind_guided_tx_evolves:
  assumes "bind_guided_tx b i did s = (Inr (q, failure), t)" and "queue_ok b (st_db s)"
  shows "evolves b (st_db s) (st_db t)"
proof -
  from assms(1) obtain r where r: "fetch_one (op_is b i) (governance_operations (st_db s)) = Some r"
    unfolding bind_guided_tx_def by (auto simp: tx_bind_ok row_locked_ok)
  have st: "stored b r (st_db s)"
    using fetch_op [OF r] assms(2) by (auto simp: stored_def queue_ok_def table_ok_def)
  have core: "core_inv (br_sha256 b) (st_db s)" using assms(2) by (simp add: queue_ok_def)
  consider (old) "t = s"
    | (fail) dt rows g where "fail_unbound_guided b r dt rows s = (Inr q, t)" "op_status r \<in> {Queued, Retry}"
        "rows = [] \<or> rows = open_guided_task_rows b g (st_db s)"
    | (bind) g di where "bind_guided_locked b r g di False s = (Inr q, t)" "op_status r \<in> {Queued, Retry}"
    using assms(1) r unfolding bind_guided_tx_def Let_def
    by (auto simp: tx_simps split: if_splits option.splits)
  then show ?thesis
  proof cases
    case old
    then show ?thesis using evolves_refl assms(2) by simp
  next
    case fail
    then show ?thesis using fail_unbound_row [OF fail(1) assms(2) st fail(3,2)] moves_evolves st by blast
  next
    case bind
    show ?thesis
    proof (cases "op_bound_discussion_id r")
      case None
      then show ?thesis using bind_guided_moves [OF bind(1) core st bind(2)] moves_evolves st by blast
    next
      case (Some x)
      then show ?thesis using bind_guided_idle [OF bind(1) assms(2) st] quiet_evolves by blast
    qed
  qed
qed

text \<open>The call as a whole, its late failure included: a failure is raised after the commit.\<close>

lemma bind_guided_discussion_evolves:
  assumes "bind_guided_discussion b i did s = (r, t)" and "queue_ok b (st_db s)"
  shows "evolves b (st_db s) (st_db t)"
proof (cases r)
  case (Inl e)
  then consider "st_db t = st_db s" | i did q msg u where
      "bind_guided_tx b i did s = (Inr (q, Some msg), u)" "st_db t = st_db u"
    using assms(1) unfolding bind_guided_discussion_def
    by (auto simp: tx_errs tx_simps split: option.splits)
  then show ?thesis using assms(2) bind_guided_tx_evolves evolves_refl by cases auto
next
  case (Inr a)
  then obtain i did q where "bind_guided_tx b i did s = (Inr (q, None), t)"
    using assms(1) unfolding bind_guided_discussion_def
    by (auto simp: tx_errs tx_simps split: option.splits)
  then show ?thesis using assms(2) bind_guided_tx_evolves by blast
qed

section \<open>Reconciliation\<close>

lemma refuse_persisted_retry_effect:
  assumes "refuse_persisted_retry b r s = (Inr rs, t)" and "queue_ok b (st_db s)" and "stored b r (st_db s)"
    and "op_status r = Retry"
  shows "row_effect b r (st_db s) (st_db t)"
proof -
  have core: "core_inv (br_sha256 b) (st_db s)" using assms(2) by (simp add: queue_ok_def)
  have nc: "\<not> op_cancellation_requested r" using not_cancelled [OF assms(2,3)] assms(4) by simp
  consider (none) "t = s" | (fail) out dt q where "set_terminal_locked b r Failed out dt s = (Inr q, t)"
    using assms(1) locked_row [OF assms(2,3)] unfolding refuse_persisted_retry_def
    by (auto simp: tx_bind_ok tx_return_ok tx_lift_ok split: if_splits)
  then show ?thesis
  proof cases
    case none
    then show ?thesis using core by (simp add: row_effect_def)
  next
    case fail
    then show ?thesis using set_terminal_moves [OF fail core assms(3)] nc
      by (simp add: row_effect_def TERMINAL_OPERATION_STATUSES_def)
  qed
qed

text \<open>A discussion stop, if any, and then the terminal state.\<close>

lemma stop_then_terminal:
  assumes "stop_terminal_guided_discussion b r d reason e ty s = (Inr dt, u)"
    and "set_terminal_locked b r st out dt u = (Inr q, t)"
    and "core_inv (br_sha256 b) (st_db s)" and "stored b r (st_db s)"
    and "terminal st" and "op_cancellation_requested r \<longrightarrow> st = Cancelled" and "st = Succeeded \<longrightarrow> leased (op_status r)"
  shows "moves b r (st_db s) (st_db t)"
proof -
  have u: "core_inv (br_sha256 b) (st_db u) \<and> same_queue (st_db s) (st_db u)"
    by (rule stop_terminal_frame [OF assms(1,3)])
  then show ?thesis
    using moves_after_quiet [OF u assms(4)] set_terminal_moves [OF assms(2) _ _ assms(5-7)] by blast
qed

lemma optional_stop_terminal:
  assumes "(if c then stop_terminal_guided_discussion b r d reason e ty else tx_return d) s = (Inr dt, u)"
    and "set_terminal_locked b r st out dt u = (Inr q, t)"
    and "core_inv (br_sha256 b) (st_db s)" and "stored b r (st_db s)"
    and "terminal st" and "op_cancellation_requested r \<longrightarrow> st = Cancelled" and "st = Succeeded \<longrightarrow> leased (op_status r)"
  shows "moves b r (st_db s) (st_db t)"
proof (cases c)
  case True
  then show ?thesis using stop_then_terminal [OF _ assms(2-7)] assms(1) by simp
next
  case False
  then have "u = s" "dt = d" using assms(1) by (auto simp: tx_simps)
  then show ?thesis using set_terminal_moves [OF assms(2) _ _ assms(5-7)] assms(3,4) by simp
qed

lemma retry_lost_moves:
  assumes "retry_lost b now r timed_out s = (Inr q, t)" and "core_inv (br_sha256 b) (st_db s)" and "stored b r (st_db s)"
    and "leased (op_status r)" and "\<not> op_cancellation_requested r" and "retryable (op_workflow_id r)"
    and "op_attempt_count r < op_max_attempts r"
  shows "moves b r (st_db s) (st_db t)"
proof -
  let ?f = "retried_row now (if timed_out then ''Operation attempt timed out; retry is eligible.''
      else ''Worker lease expired; retry is eligible.'') (utc_at s)"
  from assms(1) obtain w y ty p e where
    up: "update_operations b (op_operation_id r) ?f (tick s) = (Inr (), w)"
    and re: "rehash b (op_operation_id r) w = (Inr q, y)"
    and ev: "event_op b ty p None y = (Inr e, t)"
    unfolding retry_lost_def retried_row_def [abs_def] by (auto simp: tx_simps)
  have lc: "lifecycle (br_sha256 b) r (seal_operation (br_sha256 b) (?f r))"
    using assms(4-7) by (rule lc_retry)
  have "moves b r (st_db s) (st_db t) \<and> q = seal_operation (br_sha256 b) (?f r)"
    by (rule key_move [OF assms(2,3) refl _ up _ re quiet_after_event [OF ev] lc])
       (simp_all add: op_key_def retried_row_def)
  then show ?thesis by blast
qed

lemma automatic_retry_retryable: "automatic_retry w = Inr True \<longleftrightarrow> retryable w"
  by (simp add: retryable_def)

lemma reconcile_one_effect:
  assumes "reconcile_one b now r s = (Inr q, t)" and "queue_ok b (st_db s)" and "stored b r (st_db s)"
    and "leased (op_status r)"
  shows "row_effect b r (st_db s) (st_db t)"
proof -
  have core: "core_inv (br_sha256 b) (st_db s)" using assms(2) by (simp add: queue_ok_def)
  note run = assms(1) [unfolded reconcile_one_def tx_bind_ok locked_row [OF assms(2,3)]]
  have "moves b r (st_db s) (st_db t)"
  proof (cases "op_status r = Cancelling \<or> op_cancellation_requested r")
    case True
    then have "cancel_after_loss b r s = (Inr q, t)" using run by auto
    then obtain dt u out where
      "(if is_guided r then stop_terminal_guided_discussion b r ''Worker lease expired after cancellation was requested.''
          ''workflow_cancelled'' ''discussion_cancelled'' ''discussion.cancelled_after_worker_loss''
        else tx_return ''Worker lease expired after cancellation was requested.'') s = (Inr dt, u)"
      and "set_terminal_locked b r Cancelled out dt u = (Inr q, t)"
      unfolding cancel_after_loss_def by (auto simp: tx_bind_ok Let_def)
    then show ?thesis
      using optional_stop_terminal core assms(3) by (fastforce simp: TERMINAL_OPERATION_STATUSES_def)
  next
    case False
    then have nc: "\<not> op_cancellation_requested r" by blast
    define timed_out where "timed_out = (epoch_or_zero (op_attempt_deadline_epoch r) \<le> now)"
    from run False consider (guided) "time_out_guided b r s = (Inr q, t)"
      | (retry) "retry_lost b now r timed_out s = (Inr q, t)" "retryable (op_workflow_id r)"
          "op_attempt_count r < op_max_attempts r"
      | (fail) auto where "fail_lost b r auto timed_out s = (Inr q, t)"
      unfolding timed_out_def Let_def
      by (auto simp: tx_bind_ok tx_lift_ok automatic_retry_retryable split: if_splits)
    then show ?thesis
    proof cases
      case guided
      then obtain dt u out d reason e ty where "stop_terminal_guided_discussion b r d reason e ty s = (Inr dt, u)"
        "set_terminal_locked b r Failed out dt u = (Inr q, t)"
        unfolding time_out_guided_def by (auto simp: tx_bind_ok)
      then show ?thesis using stop_then_terminal [OF _ _ core assms(3)] nc
        by (auto simp: TERMINAL_OPERATION_STATUSES_def)
    next
      case retry
      then show ?thesis using retry_lost_moves core assms(3,4) nc by blast
    next
      case fail
      then obtain dt u out d reason e ty where
        "(if is_guided r then stop_terminal_guided_discussion b r d reason e ty else tx_return d) s = (Inr dt, u)"
        "set_terminal_locked b r Failed out dt u = (Inr q, t)"
        unfolding fail_lost_def tx_bind_ok by blast
      then show ?thesis using optional_stop_terminal [OF _ _ core assms(3)] nc
        by (fastforce simp: TERMINAL_OPERATION_STATUSES_def)
    qed
  qed
  then show ?thesis by (simp add: row_effect_def)
qed

lemma refuse_retries_evolves:
  assumes "tx_for (refuse_persisted_retry b) (persisted_retries b (st_db s)) s = (Inr xs, u)" and "queue_ok b (st_db s)"
  shows "evolves b (st_db s) (st_db u)"
proof (rule loop_evolves [OF assms, where Q = "\<lambda>r. op_status r = Retry"])
  have tab: "table_ok (br_sha256 b) (governance_operations (st_db s))" using assms(2) by (simp add: queue_ok_def)
  show "distinct (map op_key (persisted_retries b (st_db s)))"
    using by_creation_rows(1) [OF tab] by (simp add: persisted_retries_def)
  show "\<forall>r \<in> set (persisted_retries b (st_db s)).
      r \<in> set (governance_operations (st_db s)) \<and> op_scope r = br_scope b \<and> op_status r = Retry"
    using by_creation_rows(2) [OF tab] by (auto simp: persisted_retries_def)
qed (rule refuse_persisted_retry_effect)

lemma reconcile_locked_evolves:
  assumes "reconcile_locked b now s = (Inr rs, t)" and "queue_ok b (st_db s)"
  shows "evolves b (st_db s) (st_db t)"
proof -
  obtain xs ys u where retries: "tx_for (refuse_persisted_retry b) (persisted_retries b (st_db s)) s = (Inr xs, u)"
    and lost: "tx_for (reconcile_one b now) (expired_rows b now (st_db u)) u = (Inr ys, t)"
    using assms(1) unfolding reconcile_locked_def by (auto simp: tx_simps)
  have su: "evolves b (st_db s) (st_db u)" by (rule refuse_retries_evolves [OF retries assms(2)])
  have oku: "queue_ok b (st_db u)" by (rule evolves_ok [OF su assms(2)])
  then have tabu: "table_ok (br_sha256 b) (governance_operations (st_db u))" by (simp add: queue_ok_def)
  have "evolves b (st_db u) (st_db t)"
  proof (rule loop_evolves [OF lost oku, where Q = "\<lambda>r. leased (op_status r)"])
    show "distinct (map op_key (expired_rows b now (st_db u)))"
      using by_creation_rows(1) [OF tabu] by (simp add: expired_rows_def)
    show "\<forall>r \<in> set (expired_rows b now (st_db u)).
        r \<in> set (governance_operations (st_db u)) \<and> op_scope r = br_scope b \<and> leased (op_status r)"
      using by_creation_rows(2) [OF tabu] by (auto simp: expired_rows_def)
  qed (rule reconcile_one_effect)
  then show ?thesis using su evolves_trans by blast
qed

lemma reconcile_evolves:
  assumes "reconcile b n s = (Inr rs, t)" and "queue_ok b (st_db s)"
  shows "evolves b (st_db s) (st_db t)"
proof -
  from assms(1) obtain now u xs v ys where "epoch_or_now n s = (Inr now, u)"
    and "recover_unbound_guided_locked b now u = (Inr xs, v)" and "reconcile_locked b now v = (Inr ys, t)"
    unfolding reconcile_def require_service_transition_def by (auto simp: tx_simps)
  then show ?thesis
    using assms(2) epoch_or_now_ok recover_unbound_evolves reconcile_locked_evolves evolves_ok evolves_trans by metis
qed

section \<open>Claiming\<close>

lemma lease_to_moves:
  assumes "lease_to b w now ls r s = (Inr k, t)" and "queue_ok b (st_db s)" and "stored b r (st_db s)"
    and "claimable b now cls (governance_operations (st_db s)) r"
  shows "moves b r (st_db s) (st_db t)
    \<and> (\<exists>u. oc_operation k = seal_operation (br_sha256 b) (claimed_row w (token_sha b (oc_lease_token k)) (now + ls)
          (now + op_timeout_seconds r) u r))"
proof -
  have core: "core_inv (br_sha256 b) (st_db s)" using assms(2) by (simp add: queue_ok_def)
  let ?f = "claimed_row w (token_sha b (token_at s)) (now + ls) (now + op_timeout_seconds r) (utc_at (tick s))"
  from assms(1) obtain v y q ty p e where k: "k = \<lparr>oc_operation = q, oc_lease_token = token_at s\<rparr>"
    and up: "update_operations b (op_operation_id r) ?f (tick (tick s)) = (Inr (), v)"
    and re: "rehash b (op_operation_id r) v = (Inr q, y)"
    and ev: "event_op b ty p None y = (Inr e, t)"
    unfolding lease_to_def tx_bind_ok locked_row [OF assms(2,3)] claimed_row_def [abs_def] by (auto simp: tx_simps)
  have free: "op_status r \<in> {Queued, Retry}" "\<not> op_cancellation_requested r"
    "\<not> resource_busy r (governance_operations (st_db s))"
    using assms(4) by (auto simp: claimable_def)
  have lc: "lifecycle (br_sha256 b) r (seal_operation (br_sha256 b) (?f r))"
    using free by (intro lc_claim)
  have "moves b r (st_db s) (st_db t) \<and> q = seal_operation (br_sha256 b) (?f r)"
    using free(3) by (intro key_move [OF core assms(3) refl _ up _ re quiet_after_event [OF ev] lc])
      (simp_all add: op_key_def claimed_row_def)
  then show ?thesis using k by auto
qed

lemma candidate_row:
  assumes "candidates b now cls d = c # cs"
  shows "c \<in> set (governance_operations d) \<and> claimable b now cls (governance_operations d) c"
proof -
  have "c \<in> set (candidates b now cls d)" using assms by simp
  then show ?thesis by (simp add: candidates_def)
qed

text \<open>A claim: recovery and reconciliation first, then at most one lease on a claimable row.\<close>

lemma claim_tx_run:
  assumes "claim_tx b w now ls cls s = (Inr k, t)" and "queue_ok b (st_db s)"
  shows "\<exists>u. evolves b (st_db s) (st_db u) \<and> (case k of None \<Rightarrow> t = u \<and> candidates b now cls (st_db u) = []
    | Some c \<Rightarrow> (\<exists>r cs. candidates b now cls (st_db u) = r # cs \<and> stored b r (st_db u) \<and> lease_to b w now ls r u = (Inr c, t)))"
proof -
  from assms(1) obtain xs v ys u where rec: "recover_unbound_guided_locked b now s = (Inr xs, v)"
    and con: "reconcile_locked b now v = (Inr ys, u)"
    and rest: "(case candidates b now cls (st_db u) of [] \<Rightarrow> tx_return None
       | c # _ \<Rightarrow> tx_bind (lease_to b w now ls c) (\<lambda>k. tx_return (Some k))) u = (Inr k, t)"
    unfolding claim_tx_def by (auto simp: tx_bind_ok tx_then_ok tx_query_ok)
  have sv: "evolves b (st_db s) (st_db v)" by (rule recover_unbound_evolves [OF rec assms(2)])
  have okv: "queue_ok b (st_db v)" by (rule evolves_ok [OF sv assms(2)])
  have vu: "evolves b (st_db v) (st_db u)" by (rule reconcile_locked_evolves [OF con okv])
  have oku: "queue_ok b (st_db u)" by (rule evolves_ok [OF vu okv])
  have "stored b r (st_db u)" if "candidates b now cls (st_db u) = r # cs" for r cs
    using candidate_row [OF that] oku by (auto simp: stored_def queue_ok_def table_ok_def claimable_def)
  then show ?thesis
    using rest evolves_trans [OF sv vu] by (auto simp: tx_simps split: list.splits option.splits)
qed

lemma claim_tx_evolves:
  assumes "claim_tx b w now ls cls s = (Inr k, t)" and "queue_ok b (st_db s)"
  shows "evolves b (st_db s) (st_db t)"
proof -
  from claim_tx_run [OF assms] obtain u where su: "evolves b (st_db s) (st_db u)"
    and rest: "case k of None \<Rightarrow> t = u \<and> candidates b now cls (st_db u) = []
      | Some c \<Rightarrow> (\<exists>r cs. candidates b now cls (st_db u) = r # cs \<and> stored b r (st_db u) \<and> lease_to b w now ls r u = (Inr c, t))"
    by blast
  have oku: "queue_ok b (st_db u)" by (rule evolves_ok [OF su assms(2)])
  show ?thesis
  proof (cases k)
    case None
    then show ?thesis using rest su by simp
  next
    case (Some c)
    then obtain r cs where "candidates b now cls (st_db u) = r # cs" "stored b r (st_db u)" "lease_to b w now ls r u = (Inr c, t)"
      using rest by auto
    then have "evolves b (st_db u) (st_db t)"
      using lease_to_moves oku candidate_row moves_evolves by metis
    then show ?thesis using su evolves_trans by blast
  qed
qed

lemma claim_evolves:
  assumes "claim b w n ls cl s = (Inr k, t)" and "queue_ok b (st_db s)"
  shows "evolves b (st_db s) (st_db t)"
proof -
  from assms(1) obtain w' cls now u where "epoch_or_now n s = (Inr now, u)" "claim_tx b w' now ls cls u = (Inr k, t)"
    unfolding claim_def by (auto simp: tx_simps)
  then show ?thesis using assms(2) epoch_or_now_ok claim_tx_evolves by metis
qed

section \<open>Worker calls\<close>

text \<open>What a live worker has proved: the stored row is leased to it, and the lease has not run out.\<close>

lemma live_row_run:
  assumes "live_row b i w tok now s = (Inr r, t)" and "queue_ok b (st_db s)"
  shows "t = s \<and> stored b r (st_db s) \<and> op_operation_id r = i \<and> leased (op_status r)
    \<and> op_lease_owner r = Some (py_strip w) \<and> text_or_empty (op_lease_token_sha256 r) = token_sha b tok
    \<and> now < epoch_or_zero (op_lease_expires_epoch r) \<and> now < epoch_or_zero (op_attempt_deadline_epoch r)"
proof -
  from assms(1) have t: "t = s" and r: "fetch_one (op_is b i) (governance_operations (st_db s)) = Some r"
    and live: "require_live_worker b r w tok now = Inr ()"
    unfolding live_row_def by (auto simp: tx_simps)
  have "leased (op_status r) \<and> op_lease_owner r = Some (py_strip w)
      \<and> text_or_empty (op_lease_token_sha256 r) = token_sha b tok
      \<and> now < epoch_or_zero (op_lease_expires_epoch r) \<and> now < epoch_or_zero (op_attempt_deadline_epoch r)"
    using live unfolding require_live_worker_def require_worker_def
    by (auto simp: tx_simps op_identifier_Inr)
  then show ?thesis
    using t fetch_op [OF r] assms(2) by (auto simp: stored_def queue_ok_def table_ok_def)
qed

lemma heartbeat_evolves:
  assumes "heartbeat b i w tok n ls s = (Inr q, t)" and "queue_ok b (st_db s)"
  shows "evolves b (st_db s) (st_db t)"
proof -
  from assms(1) obtain i' now u r v where now: "epoch_or_now n s = (Inr now, u)"
    and live: "live_row b i' w tok now u = (Inr r, u)"
    and up: "update_operations b i' (beaten_row (min (now + ls) (epoch_or_zero (op_attempt_deadline_epoch r))) (utc_at u)) (tick u) = (Inr (), v)"
    and re: "rehash b i' v = (Inr q, t)"
    unfolding heartbeat_def beaten_row_def [abs_def] live_row_def by (auto simp: tx_simps)
  have oku: "queue_ok b (st_db u)" using epoch_or_now_ok [OF now] assms(2) by simp
  note lr = live_row_run [OF live oku]
  have core: "core_inv (br_sha256 b) (st_db u)" using oku by (simp add: queue_ok_def)
  have st: "stored b r (st_db u)" and i: "op_operation_id r = i'" and le: "leased (op_status r)" using lr by blast+
  have "moves b r (st_db u) (st_db t) \<and> q = seal_operation (br_sha256 b)
      (beaten_row (min (now + ls) (epoch_or_zero (op_attempt_deadline_epoch r))) (utc_at u) r)"
    by (rule key_move [OF core st i _ up _ re quiet_after_refl lc_beat [OF le]])
       (use le in \<open>auto simp: op_key_def beaten_row_def\<close>)
  then show ?thesis using moves_evolves [OF _ st] epoch_or_now_ok [OF now] by simp
qed

lemma complete_evolves:
  assumes "complete b i w tok out dt n s = (Inr q, t)" and "queue_ok b (st_db s)"
  shows "evolves b (st_db s) (st_db t)"
proof -
  from assms(1) obtain i' out' dt' now u r where now: "epoch_or_now n s = (Inr now, u)"
    and live: "live_row b i' w tok now u = (Inr r, u)" and nc: "\<not> op_cancellation_requested r"
    and run: "set_terminal_locked b r Succeeded out' dt' u = (Inr q, t)"
    unfolding complete_def live_row_def by (auto simp: tx_simps)
  have oku: "queue_ok b (st_db u)" using epoch_or_now_ok [OF now] assms(2) by simp
  note lr = live_row_run [OF live oku]
  have "moves b r (st_db u) (st_db t)"
    using set_terminal_moves [OF run] lr nc oku by (auto simp: queue_ok_def TERMINAL_OPERATION_STATUSES_def)
  then show ?thesis using moves_evolves lr epoch_or_now_ok [OF now] by metis
qed

lemma schedule_retry_moves:
  assumes "schedule_retry b i cls dt nb s = (Inr q, t)" and "core_inv (br_sha256 b) (st_db s)" and "stored b r (st_db s)"
    and "op_operation_id r = i" and "leased (op_status r)" and "\<not> op_cancellation_requested r"
    and "retryable (op_workflow_id r)" and "op_attempt_count r < op_max_attempts r"
  shows "moves b r (st_db s) (st_db t) \<and> q = seal_operation (br_sha256 b) (retried_row nb dt (utc_at s) r)"
proof -
  let ?f = "retried_row nb dt (utc_at s)"
  from assms(1) obtain w y ty p e where up: "update_operations b i ?f (tick s) = (Inr (), w)"
    and re: "rehash b i w = (Inr q, y)" and ev: "event_op b ty p None y = (Inr e, t)"
    unfolding schedule_retry_def retried_row_def [abs_def] by (auto simp: tx_simps)
  have lc: "lifecycle (br_sha256 b) r (seal_operation (br_sha256 b) (?f r))"
    using assms(5-8) by (rule lc_retry)
  show ?thesis
    by (rule key_move [OF assms(2,3,4) _ up _ re quiet_after_event [OF ev] lc])
       (simp_all add: op_key_def retried_row_def)
qed

lemma request_cancel_running_moves:
  assumes "request_cancel_running b i reason s = (Inr q, t)" and "core_inv (br_sha256 b) (st_db s)"
    and "stored b r (st_db s)" and "op_operation_id r = i" and "leased (op_status r)"
  shows "moves b r (st_db s) (st_db t) \<and> q = seal_operation (br_sha256 b) (cancelling_row reason (utc_at s) r)"
proof -
  let ?f = "cancelling_row reason (utc_at s)"
  from assms(1) obtain w y ty p e where up: "update_operations b i ?f (tick s) = (Inr (), w)"
    and re: "rehash b i w = (Inr q, y)" and ev: "event_op b ty p None y = (Inr e, t)"
    unfolding request_cancel_running_def cancelling_row_def [abs_def] by (auto simp: tx_simps)
  have lc: "lifecycle (br_sha256 b) r (seal_operation (br_sha256 b) (?f r))"
    using assms(5) by (rule lc_cancel)
  show ?thesis
    by (rule key_move [OF assms(2,3,4) _ up _ re quiet_after_event [OF ev] lc])
       (use assms(5) in \<open>auto simp: op_key_def cancelling_row_def\<close>)
qed

definition fail_status :: "op_row \<Rightarrow> string \<Rightarrow> bool \<Rightarrow> op_status" where
  "fail_status r cls allow = (if op_cancellation_requested r then Cancelled
     else if cls \<in> RETRY_CLASSES \<and> allow \<and> retryable (op_workflow_id r) \<and> op_attempt_count r < op_max_attempts r
     then Retry else Failed)"

lemma fail_row_moves:
  assumes "fail_row b r cls dt ra allow now s = (Inr q, t)" and "core_inv (br_sha256 b) (st_db s)" and "stored b r (st_db s)"
    and "leased (op_status r)"
  shows "moves b r (st_db s) (st_db t) \<and> op_status q = fail_status r cls allow"
proof -
  have T: "terminal Failed" "terminal Cancelled" by (simp_all add: TERMINAL_OPERATION_STATUSES_def)
  consider (cancel) out d where "op_cancellation_requested r" "set_terminal_locked b r Cancelled out d s = (Inr q, t)"
    | (retry) nb where "\<not> op_cancellation_requested r" "cls \<in> RETRY_CLASSES" "allow" "retryable (op_workflow_id r)"
        "op_attempt_count r < op_max_attempts r" "schedule_retry b (op_operation_id r) cls dt nb s = (Inr q, t)"
    | (fail) out d where "\<not> op_cancellation_requested r" "\<not> (cls \<in> RETRY_CLASSES \<and> allow \<and> retryable (op_workflow_id r)
        \<and> op_attempt_count r < op_max_attempts r)" "set_terminal_locked b r Failed out d s = (Inr q, t)"
    using assms(1) unfolding fail_row_def by (auto simp: tx_bind_ok tx_lift_ok retryable_def split: if_splits)
  then show ?thesis
  proof cases
    case cancel
    then show ?thesis using set_terminal_moves [OF cancel(2) assms(2,3) T(2)]
      by (auto simp: seal_operation_def ended_row_def fail_status_def)
  next
    case retry
    then show ?thesis using schedule_retry_moves [OF retry(6) assms(2,3) refl assms(4) retry(1,4,5)]
      by (auto simp: seal_operation_def retried_row_def fail_status_def)
  next
    case fail
    then have "moves b r (st_db s) (st_db t) \<and> op_status q = Failed"
      using set_terminal_moves [OF fail(3) assms(2,3) T(1)] by (auto simp: seal_operation_def ended_row_def)
    then show ?thesis using fail(1,2) unfolding fail_status_def by simp
  qed
qed

lemma fail_op_run:
  assumes "fail_op b i w tok cls dt ra allow n s = (Inr q, t)" and "queue_ok b (st_db s)"
  shows "\<exists>r. stored b r (st_db s) \<and> leased (op_status r) \<and> op_operation_id r = py_strip i
    \<and> op_lease_owner r = Some (py_strip w) \<and> text_or_empty (op_lease_token_sha256 r) = token_sha b tok
    \<and> moves b r (st_db s) (st_db t) \<and> op_status q = fail_status r (py_strip cls) allow"
proof -
  from assms(1) obtain now u r where now: "epoch_or_now n s = (Inr now, u)"
    and live: "live_row b (py_strip i) w tok now u = (Inr r, u)"
    and run: "fail_row b r (py_strip cls) (py_strip dt) ra allow now u = (Inr q, t)"
    unfolding fail_op_def live_row_def by (auto simp: tx_simps op_identifier_Inr safe_text_Inr)
  have su: "st_db u = st_db s" by (rule epoch_or_now_ok [OF now])
  have oku: "queue_ok b (st_db u)" using su assms(2) by simp
  note lr = live_row_run [OF live oku]
  have "moves b r (st_db u) (st_db t) \<and> op_status q = fail_status r (py_strip cls) allow"
    using fail_row_moves [OF run] lr oku by (simp add: queue_ok_def)
  then show ?thesis using lr su by (intro exI [of _ r]) simp
qed

lemma fail_op_evolves:
  assumes "fail_op b i w tok cls dt ra allow n s = (Inr q, t)" and "queue_ok b (st_db s)"
  shows "evolves b (st_db s) (st_db t)"
  using fail_op_run [OF assms] moves_evolves by blast

lemma request_cancel_evolves:
  assumes "request_cancel b i rb reason s = (Inr q, t)" and "queue_ok b (st_db s)"
  shows "evolves b (st_db s) (st_db t)"
proof -
  from assms(1) obtain i' reason' r where r: "fetch_one (op_is b i') (governance_operations (st_db s)) = Some r"
    and run: "(if op_status r \<in> {Queued, Retry} then set_terminal_locked b r Cancelled ''cancelled_before_start'' reason'
       else request_cancel_running b i' reason') s = (Inr q, t)" and nt: "\<not> terminal (op_status r)"
    unfolding request_cancel_def by (auto simp: tx_simps)
  have st: "stored b r (st_db s)" "op_operation_id r = i'"
    using fetch_op [OF r] assms(2) by (auto simp: stored_def queue_ok_def table_ok_def)
  have core: "core_inv (br_sha256 b) (st_db s)" using assms(2) by (simp add: queue_ok_def)
  have "moves b r (st_db s) (st_db t)"
  proof (cases "op_status r \<in> {Queued, Retry}")
    case True
    then show ?thesis using run set_terminal_moves [of b r Cancelled _ _ s q t] core st
      by (simp add: TERMINAL_OPERATION_STATUSES_def)
  next
    case False
    then have "leased (op_status r)" using nt by (cases "op_status r") (simp_all add: TERMINAL_OPERATION_STATUSES_def)
    then show ?thesis using request_cancel_running_moves [OF _ core st] run False by simp
  qed
  then show ?thesis using moves_evolves st by blast
qed

lemma acknowledge_cancel_evolves:
  assumes "acknowledge_cancel b i w tok n s = (Inr q, t)" and "queue_ok b (st_db s)"
  shows "evolves b (st_db s) (st_db t)"
proof -
  from assms(1) obtain i' dt now u r where now: "epoch_or_now n s = (Inr now, u)"
    and live: "live_row b i' w tok now u = (Inr r, u)"
    and run: "set_terminal_locked b r Cancelled ''cancelled'' dt u = (Inr q, t)"
    unfolding acknowledge_cancel_def live_row_def by (auto simp: tx_simps)
  have oku: "queue_ok b (st_db u)" using epoch_or_now_ok [OF now] assms(2) by simp
  note lr = live_row_run [OF live oku]
  have "moves b r (st_db u) (st_db t)"
    using set_terminal_moves [OF run] lr oku by (auto simp: queue_ok_def TERMINAL_OPERATION_STATUSES_def)
  then show ?thesis using moves_evolves lr epoch_or_now_ok [OF now] by metis
qed

end
