(* ===== verification/Histories.thy ===== *)
theory Histories
  imports Main
begin

text \<open>
  What the stores have in common: their calls are atomic steps of one shared state. The contract of a
  store is that every call keeps its invariant and leads from a state to one of its possible futures;
  the clients prove once what then holds of whole histories, and each store interprets the locale on
  its own calls.
\<close>

locale call_history =
  fixes step :: "'s \<Rightarrow> 's \<Rightarrow> bool"
    and inv :: "'s \<Rightarrow> bool"
    and leads :: "'s \<Rightarrow> 's \<Rightarrow> bool"
  assumes step_inv: "inv s \<Longrightarrow> step s t \<Longrightarrow> inv t"
    and step_leads: "inv s \<Longrightarrow> step s t \<Longrightarrow> leads s t"
    and leads_refl: "leads s s"
    and leads_trans: "leads s t \<Longrightarrow> leads t u \<Longrightarrow> leads s u"
begin

lemma history: "step\<^sup>*\<^sup>* s t \<Longrightarrow> inv s \<Longrightarrow> inv t \<and> leads s t"
  by (induction rule: rtranclp_induct) (blast intro: step_inv step_leads leads_refl leads_trans)+

lemma history_split:
  assumes "step\<^sup>*\<^sup>* s t" and "step\<^sup>*\<^sup>* t u" and "inv s"
  shows "inv t \<and> inv u \<and> leads s t \<and> leads t u"
  using assms history by blast

end

end
