(* ===== verification/QueueSystem.thy ===== *)
theory QueueSystem
  imports QueueSteps Histories
begin

text \<open>
  The queue as a system: the schedules, all public calls of \<open>DurableOperationQueue\<close> as one step
  relation over the database (any bridge, any caller, any clock), and reachability from the empty
  database. Other writers of the shared database appear as steps that leave the queue's own
  tables alone and keep the audit chain and the discussions well formed.
\<close>

section \<open>Schedules\<close>

lemma sched_is_key: "sched_is b i r \<longleftrightarrow> sched_key r = (br_scope b, i)"
  by (auto simp: sched_is_def sched_key_def)

lemma sched_update_ok:
  assumes "sched_ok H rows" and "\<And>r. sched_key (f r) = sched_key r" and "\<And>r. sched_row_ok r \<Longrightarrow> sched_row_ok (f r)"
  shows "sched_ok H (update_where (sched_is b i) (\<lambda>r. seal_schedule H (f r)) rows)"
proof -
  have "map sched_key (update_where (sched_is b i) (\<lambda>r. seal_schedule H (f r)) rows) = map sched_key rows"
    using assms(2) by (intro map_update_where) (simp add: seal_schedule_def sched_key_def)
  moreover have "\<forall>r \<in> set (update_where (sched_is b i) (\<lambda>r. seal_schedule H (f r)) rows). sched.sealed H r"
    using assms(1) by (intro sched.sealed_update) (simp add: sched_ok_def)
  moreover have "sched_row_ok (seal_schedule H (f r))" if "sched_row_ok r" for r
    using assms(3) [OF that] by (simp add: seal_schedule_def sched_row_ok_def)
  ultimately show ?thesis using assms(1) by (auto simp: sched_ok_def set_update_where)
qed

text \<open>UPDATE of one schedule and its rehash.\<close>

lemma sched_update_rehash:
  assumes "update_schedules b i f s = (Inr x, u)" and "rehash_schedule b i u = (Inr y, t)"
    and "distinct (map sched_key (workflow_schedules (st_db s)))" and "\<And>r. sched_key (f r) = sched_key r"
  shows "st_db t = (st_db s)\<lparr>workflow_schedules :=
    update_where (sched_is b i) (\<lambda>r. seal_schedule (br_sha256 b) (f r)) (workflow_schedules (st_db s))\<rparr>"
proof -
  let ?rows = "workflow_schedules (st_db s)"
  let ?mid = "update_where (sched_is b i) f ?rows"
  have u: "st_db u = (st_db s)\<lparr>workflow_schedules := ?mid\<rparr>"
    using assms(1) by (simp add: update_schedules_def tx_simps)
  obtain c where c: "fetch_one (sched_is b i) ?mid = Some c"
    and t: "st_db t = (st_db s)\<lparr>workflow_schedules := update_where (sched_is b i)
        (\<lambda>r. r\<lparr>sc_schedule_sha256 := schedule_digest (br_sha256 b) c\<rparr>) ?mid\<rparr>"
    using assms(2) u by (auto simp: rehash_schedule_def update_schedules_def assert_found_def Let_def tx_simps split: option.splits)
  have keys: "distinct (map sched_key ?mid)" using assms(3,4) by (simp add: map_update_where)
  have only: "r = c" if "r \<in> set ?mid" "sched_is b i r" for r
    using that fetch_one_SomeD [OF c] distinct_key_eq [OF keys] by (simp add: sched_is_key)
  have is_f: "sched_is b i (f r) = sched_is b i r" for r using assms(4) [of r] by (simp add: sched_is_key)
  have "update_where (sched_is b i) (\<lambda>r. r\<lparr>sc_schedule_sha256 := schedule_digest (br_sha256 b) c\<rparr>) ?mid
      = update_where (sched_is b i) (seal_schedule (br_sha256 b)) ?mid"
    using only by (intro update_where_cong) (auto simp: seal_schedule_def)
  also have "\<dots> = update_where (sched_is b i) (\<lambda>r. seal_schedule (br_sha256 b) (f r)) ?rows"
    using is_f by (simp add: update_where_def)
  finally show ?thesis using t by simp
qed

lemma validate_schedule_Inr:
  "validate_schedule b r = Inr q \<Longrightarrow> known_workflow (sq_workflow_id q)
     \<and> MIN_SCHEDULE_INTERVAL_SECONDS \<le> sq_interval_seconds q \<and> sq_interval_seconds q \<le> MAX_SCHEDULE_INTERVAL_SECONDS"
  by (auto simp: validate_schedule_def tx_simps)

lemma queue_inv_ok: "queue_inv (br_sha256 b) d \<longleftrightarrow> queue_ok b d \<and> sched_ok (br_sha256 b) (workflow_schedules d)"
  by (auto simp: queue_inv_def queue_ok_def)

lemma core_same: "core_inv H (d\<lparr>workflow_schedules := ws\<rparr>) = core_inv H d"
  by (simp add: core_inv_def audit_inv_def disc_inv_def)

lemma save_schedule_inv:
  assumes "save_schedule b request s = (Inr row, t)" and "queue_inv (br_sha256 b) (st_db s)"
  shows "queue_inv (br_sha256 b) (st_db t) \<and> governance_operations (st_db t) = governance_operations (st_db s)
    \<and> workflow_schedules (st_db t) = workflow_schedules (st_db s) @ [row]"
proof -
  let ?H = "br_sha256 b"
  from assms(1) obtain q n i s1 u ty p tid e where q: "validate_schedule b request = Inr q"
    and n: "name_or_uuid (sq_schedule_id q) s = (Inr n, s1)" and i: "op_identifier n ''schedule id'' = Inr i"
    and row: "row = new_schedule b q i (utc_at s1)"
    and ins: "insert_schedule b (new_schedule b q i (utc_at s1)) (tick s1) = (Inr (), u)"
    and ev: "event_op b ty p tid u = (Inr e, t)"
    unfolding save_schedule_def by (auto simp: tx_simps Let_def)
  have s1: "st_db s1 = st_db s" using n by (auto simp: name_or_uuid_def tx_simps split: option.splits)
  have fresh: "sched_key row \<notin> sched_key ` set (workflow_schedules (st_db s))"
    and u: "st_db u = (st_db s)\<lparr>workflow_schedules := workflow_schedules (st_db s) @ [row]\<rparr>"
    using ins s1 row
    by (auto simp: insert_schedule_def tx_simps list_ex_iff sched_is_key new_schedule_def Let_def sched_key_def)
  have "sched.sealed ?H row" "sched_row_ok row"
    using row validate_schedule_Inr [OF q] i
    by (auto simp: sched.sealed_def new_schedule_def Let_def schedule_digest_def schedule_payload_def sched_row_ok_def op_identifier_Inr)
  then have "sched_ok ?H (workflow_schedules (st_db s) @ [row])"
    using assms(2) fresh by (auto simp: queue_inv_def sched_ok_def)
  moreover have "core_inv ?H (st_db u)" using assms(2) u by (simp add: queue_inv_def core_same)
  ultimately show ?thesis
    using event_op_core [OF ev] event_op_frame [OF ev] assms(2) u by (simp add: queue_inv_def same_queue_def)
qed

lemma set_schedule_enabled_inv:
  assumes "set_schedule_enabled b i e rb s = (Inr row, t)" and "queue_inv (br_sha256 b) (st_db s)"
  shows "queue_inv (br_sha256 b) (st_db t) \<and> governance_operations (st_db t) = governance_operations (st_db s)"
proof -
  let ?H = "br_sha256 b"
  let ?f = "\<lambda>r. r\<lparr>sc_enabled := e, sc_updated_utc := utc_at s\<rparr>"
  from assms(1) obtain i' v u y ty p tid ev where up: "update_schedules b i' ?f (tick s) = (Inr (), v)"
    and re: "rehash_schedule b i' v = (Inr y, u)" and ev: "event_op b ty p tid u = (Inr ev, t)"
    unfolding set_schedule_enabled_def schedule_intact_def
    by (auto simp: tx_simps split: option.splits prod.splits)
  have "st_db u = (st_db (tick s))\<lparr>workflow_schedules := update_where (sched_is b i') (\<lambda>r. seal_schedule ?H (?f r))
      (workflow_schedules (st_db (tick s)))\<rparr>"
    using assms(2) by (intro sched_update_rehash [OF up re]) (simp_all add: queue_inv_def sched_ok_def sched_key_def)
  moreover have "sched_ok ?H (update_where (sched_is b i') (\<lambda>r. seal_schedule ?H (?f r)) (workflow_schedules (st_db s)))"
    using assms(2) by (intro sched_update_ok) (simp_all add: queue_inv_def sched_key_def sched_row_ok_def)
  ultimately have u: "queue_inv ?H (st_db u)" "governance_operations (st_db u) = governance_operations (st_db s)"
    using assms(2) by (simp_all add: queue_inv_def core_same)
  then show ?thesis
    using event_op_core [OF ev] event_op_frame [OF ev] by (simp add: queue_inv_def same_queue_def)
qed

section \<open>Materialising schedules\<close>

lemma materialize_one_run:
  assumes "materialize_one b now r s = (Inr row, t)" and "queue_inv (br_sha256 b) (st_db s)"
  shows "queue_inv (br_sha256 b) (st_db t)
    \<and> governance_operations (st_db t) = governance_operations (st_db s) @ [row]
    \<and> table_step (br_sha256 b) (governance_operations (st_db s)) (governance_operations (st_db t))
    \<and> op_operation_id row = py_strip (scheduled_operation_id r) \<and> op_status row = Queued
    \<and> op_workflow_id row = py_strip (sc_workflow_id r)
    \<and> (\<exists>u. workflow_schedules (st_db t) = update_where (sched_is b (sc_schedule_id r))
        (\<lambda>q. seal_schedule (br_sha256 b) (q\<lparr>sc_last_materialized_epoch := Some now,
           sc_next_run_epoch := now + sc_interval_seconds r, sc_updated_utc := u\<rparr>)) (workflow_schedules (st_db s)))"
proof -
  let ?H = "br_sha256 b"
  from assms(1) obtain auto u v y where
    enq: "enqueue_locked b (scheduled_request r now auto) s = (Inr row, u)"
    and up: "update_schedules b (sc_schedule_id r) (\<lambda>q. q\<lparr>sc_last_materialized_epoch := Some now,
        sc_next_run_epoch := now + sc_interval_seconds r, sc_updated_utc := utc_at u\<rparr>) (tick u) = (Inr (), v)"
    and re: "rehash_schedule b (sc_schedule_id r) v = (Inr y, t)"
    unfolding materialize_one_def schedule_intact_def by (auto simp: tx_simps)
  let ?f = "\<lambda>q. q\<lparr>sc_last_materialized_epoch := Some now,
        sc_next_run_epoch := now + sc_interval_seconds r, sc_updated_utc := utc_at u\<rparr>"
  have oks: "queue_ok b (st_db s)" "sched_ok ?H (workflow_schedules (st_db s))"
    using assms(2) by (simp_all add: queue_inv_ok)
  note run = enqueue_locked_run [OF enq oks(1)]
  have ws: "workflow_schedules (st_db u) = workflow_schedules (st_db s)" using run by blast
  have t: "st_db t = (st_db (tick u))\<lparr>workflow_schedules := update_where (sched_is b (sc_schedule_id r))
      (\<lambda>q. seal_schedule ?H (?f q)) (workflow_schedules (st_db (tick u)))\<rparr>"
    using oks(2) ws by (intro sched_update_rehash [OF up re]) (simp_all add: sched_ok_def sched_key_def)
  have "sched_ok ?H (update_where (sched_is b (sc_schedule_id r)) (\<lambda>q. seal_schedule ?H (?f q)) (workflow_schedules (st_db s)))"
    using oks(2) by (intro sched_update_ok) (simp_all add: sched_key_def sched_row_ok_def)
  moreover have step: "table_step ?H (governance_operations (st_db s)) (governance_operations (st_db s) @ [row])"
    using run by (auto intro!: ts_new)
  moreover have "table_ok ?H (governance_operations (st_db s) @ [row])"
    using table_step_ok [OF step] oks(1) by (simp add: queue_ok_def)
  ultimately have inv: "queue_inv ?H (st_db t)"
    using run t ws by (simp add: queue_inv_def core_same)
  have row: "op_operation_id row = py_strip (scheduled_operation_id r)" "op_status row = Queued"
    "op_workflow_id row = py_strip (sc_workflow_id r)"
  proof -
    obtain q i c where q: "validate_request (scheduled_request r now auto) = Inr q" "row = new_operation b q i c"
      "\<forall>n. truthy (rq_operation_id q) = Some n \<longrightarrow> i = py_strip n" using run by blast
    have "rq_operation_id q = Some (scheduled_operation_id r)" "rq_workflow_id q = py_strip (sc_workflow_id r)"
      using q(1) unfolding validate_request_def by (auto simp: tx_simps scheduled_request_def op_identifier_Inr)
    moreover have "scheduled_operation_id r \<noteq> []" by (simp add: scheduled_operation_id_def)
    ultimately show "op_operation_id row = py_strip (scheduled_operation_id r)" "op_status row = Queued"
      "op_workflow_id row = py_strip (sc_workflow_id r)"
      using q(2,3) by (simp_all add: new_operation_def Let_def truthy_def)
  qed
  show ?thesis using inv row step run t ws by (auto intro: exI [of _ "utc_at u"])
qed

definition system_ok :: "bridge \<Rightarrow> 'a queue_db_scheme \<Rightarrow> 'a queue_db_scheme \<Rightarrow> bool" where
  "system_ok b d d' \<longleftrightarrow> queue_inv (br_sha256 b) d'
     \<and> (table_step (br_sha256 b))\<^sup>*\<^sup>* (governance_operations d) (governance_operations d')"

lemma evolves_system: "evolves b d d' \<Longrightarrow> queue_inv (br_sha256 b) d \<Longrightarrow> system_ok b d d'"
  using evolves_ok by (auto simp: system_ok_def queue_inv_ok evolves_def)

lemma system_refl: "queue_inv (br_sha256 b) d \<Longrightarrow> system_ok b d d"
  by (simp add: system_ok_def)

lemma materialize_system:
  assumes "materialize_due_schedules b n limit s = (Inr rows, t)" and "queue_inv (br_sha256 b) (st_db s)"
  shows "system_ok b (st_db s) (st_db t)"
proof -
  from assms(1) obtain now u where now: "epoch_or_now n s = (Inr now, u)"
    and run: "tx_for (materialize_one b now) (due_schedules b now limit (st_db u)) u = (Inr rows, t)"
    unfolding materialize_due_schedules_def require_service_transition_def by (auto simp: tx_simps)
  have su: "st_db u = st_db s" by (rule epoch_or_now_ok [OF now])
  have "system_ok b (st_db u) (st_db t)"
  proof (rule tx_for_rule [where J = "\<lambda>_ d. system_ok b (st_db u) d", OF run])
    show "system_ok b (st_db u) (st_db u)" using assms(2) su system_refl by simp
    fix r rest v a w
    assume "system_ok b (st_db u) (st_db v)" and "materialize_one b now r v = (Inr a, w)"
    then show "system_ok b (st_db u) (st_db w)"
      using materialize_one_run unfolding system_ok_def by (metis rtranclp.rtrancl_into_rtrancl)
  qed
  then show ?thesis using su by simp
qed

section \<open>Atomicity\<close>

lemma readonly_epoch [atomic_intros]: "readonly (epoch_or_now n)"
  by (cases n) (simp_all add: epoch_or_now_def atomic_intros)

lemma readonly_name [atomic_intros]: "readonly (name_or_uuid n)"
  by (cases "truthy n") (simp_all add: name_or_uuid_def atomic_intros)

lemma readonly_service [atomic_intros]: "readonly (require_service_transition b a)"
  by (simp add: require_service_transition_def atomic_intros)

lemma atomic_calls:
  "atomic (enqueue b request n)" "atomic (ensure b request who mo)" "atomic (reconcile b n)"
  "atomic (claim b w n ls cl)" "atomic (heartbeat b i w tok n ls)" "atomic (complete b i w tok out dt n)"
  "atomic (fail_op b i w tok cls dt ra allow n)" "atomic (request_cancel b i rb reason)"
  "atomic (acknowledge_cancel b i w tok n)" "atomic (save_schedule b sq)"
  "atomic (set_schedule_enabled b i e rb)" "atomic (materialize_due_schedules b n limit)"
  unfolding enqueue_def ensure_def reconcile_def claim_def heartbeat_def complete_def fail_op_def
    request_cancel_def acknowledge_cancel_def save_schedule_def set_schedule_enabled_def
    materialize_due_schedules_def Let_def
  by (intro atomic_intros)+

section \<open>The system\<close>

inductive queue_step :: "(string \<Rightarrow> string) \<Rightarrow> 'a queue_db_scheme \<Rightarrow> 'a queue_db_scheme \<Rightarrow> bool" for H where
  qs_enqueue: "br_sha256 b = H \<Longrightarrow> enqueue b request n s = (r, t) \<Longrightarrow> queue_step H (st_db s) (st_db t)"
| qs_ensure: "br_sha256 b = H \<Longrightarrow> ensure b request who mo s = (r', t) \<Longrightarrow> queue_step H (st_db s) (st_db t)"
| qs_bind: "br_sha256 b = H \<Longrightarrow> bind_guided_discussion b i did s = (r, t) \<Longrightarrow> queue_step H (st_db s) (st_db t)"
| qs_reconcile: "br_sha256 b = H \<Longrightarrow> reconcile b n s = (rs, t) \<Longrightarrow> queue_step H (st_db s) (st_db t)"
| qs_claim: "br_sha256 b = H \<Longrightarrow> claim b w n ls cl s = (k, t) \<Longrightarrow> queue_step H (st_db s) (st_db t)"
| qs_heartbeat: "br_sha256 b = H \<Longrightarrow> heartbeat b i w tok n ls s = (r, t) \<Longrightarrow> queue_step H (st_db s) (st_db t)"
| qs_complete: "br_sha256 b = H \<Longrightarrow> complete b i w tok out dt n s = (r, t) \<Longrightarrow> queue_step H (st_db s) (st_db t)"
| qs_fail: "br_sha256 b = H \<Longrightarrow> fail_op b i w tok cls dt ra allow n s = (r, t) \<Longrightarrow> queue_step H (st_db s) (st_db t)"
| qs_request_cancel: "br_sha256 b = H \<Longrightarrow> request_cancel b i rb reason s = (r, t) \<Longrightarrow> queue_step H (st_db s) (st_db t)"
| qs_acknowledge: "br_sha256 b = H \<Longrightarrow> acknowledge_cancel b i w tok n s = (r, t) \<Longrightarrow> queue_step H (st_db s) (st_db t)"
| qs_save: "br_sha256 b = H \<Longrightarrow> save_schedule b sq s = (x, t) \<Longrightarrow> queue_step H (st_db s) (st_db t)"
| qs_set_enabled: "br_sha256 b = H \<Longrightarrow> set_schedule_enabled b i e rb s = (x, t) \<Longrightarrow> queue_step H (st_db s) (st_db t)"
| qs_materialize: "br_sha256 b = H \<Longrightarrow> materialize_due_schedules b n limit s = (rs, t) \<Longrightarrow> queue_step H (st_db s) (st_db t)"
| qs_other: "core_inv H d' \<Longrightarrow> same_queue d d' \<Longrightarrow> queue_step H d d'"

definition preserves :: "bridge \<Rightarrow> ('a queue_db_scheme, 'r) op \<Rightarrow> bool" where
  "preserves b m \<longleftrightarrow> (\<forall>s r t. m s = (r, t) \<longrightarrow> queue_inv (br_sha256 b) (st_db s) \<longrightarrow> system_ok b (st_db s) (st_db t))"

lemma preservesI:
  assumes "atomic m" and "\<And>s a t. m s = (Inr a, t) \<Longrightarrow> queue_inv (br_sha256 b) (st_db s) \<Longrightarrow> system_ok b (st_db s) (st_db t)"
  shows "preserves b m"
  unfolding preserves_def
proof (intro allI impI)
  fix s r t
  assume m: "m s = (r, t)" and inv: "queue_inv (br_sha256 b) (st_db s)"
  show "system_ok b (st_db s) (st_db t)"
    using m inv assms(2) atomicD [OF assms(1)] system_refl by (cases r) auto
qed

lemma preserves_evolves:
  assumes "atomic m" and "\<And>s a t. m s = (Inr a, t) \<Longrightarrow> queue_ok b (st_db s) \<Longrightarrow> evolves b (st_db s) (st_db t)"
  shows "preserves b m"
  using assms by (intro preservesI) (auto simp: queue_inv_ok intro!: evolves_system)

lemma preserves_calls:
  "preserves b (enqueue b request n)" "preserves b (reconcile b n)"
  "preserves b (claim b w n ls cl)" "preserves b (heartbeat b i w tok n ls)" "preserves b (complete b i w tok out dt n)"
  "preserves b (fail_op b i w tok cls dt ra allow n)" "preserves b (request_cancel b i rb reason)"
  "preserves b (acknowledge_cancel b i w tok n)"
  by (intro preserves_evolves atomic_calls; erule (1) enqueue_evolves reconcile_evolves claim_evolves heartbeat_evolves
      complete_evolves fail_op_evolves request_cancel_evolves acknowledge_cancel_evolves)+

lemma preserves_ensure: "preserves b (ensure b request who mo)"
  by (intro preserves_evolves atomic_calls) (auto dest: ensure_evolves)

lemma preserves_bind: "preserves b (bind_guided_discussion b i did)"
  unfolding preserves_def
  by (auto simp: queue_inv_ok intro: evolves_system [OF bind_guided_discussion_evolves])

lemma preserves_schedules:
  "preserves b (save_schedule b sq)" "preserves b (set_schedule_enabled b i e rb)"
  "preserves b (materialize_due_schedules b n limit)"
  using save_schedule_inv set_schedule_enabled_inv materialize_system
  by (intro preservesI atomic_calls; fastforce simp: system_ok_def)+

lemma preservesD: "preserves b m \<Longrightarrow> m s = (r, t) \<Longrightarrow> br_sha256 b = H \<Longrightarrow> queue_inv H (st_db s) \<Longrightarrow>
    queue_inv H (st_db t) \<and> (table_step H)\<^sup>*\<^sup>* (governance_operations (st_db s)) (governance_operations (st_db t))"
  by (auto simp: preserves_def system_ok_def)

lemma queue_step_system:
  assumes "queue_step H d d'" and "queue_inv H d"
  shows "queue_inv H d' \<and> (table_step H)\<^sup>*\<^sup>* (governance_operations d) (governance_operations d')"
  using assms
proof (induction rule: queue_step.induct)
  case (qs_other d' d)
  then show ?case by (simp add: queue_inv_def same_queue_def)
qed (erule (2) preservesD [rotated], rule preserves_calls preserves_ensure preserves_bind preserves_schedules)+

section \<open>Histories of the system\<close>

text \<open>The database a fresh installation starts from, and the databases reached by calls from a well-formed one.\<close>

definition queue_init :: queue_db where
  "queue_init = \<lparr>events = [], event_seq = 0, scope_storage_usage = [], messages = [], message_dispatches = [],
     room_discussions = [], governance_operations = [], workflow_schedules = []\<rparr>"

definition queue_history :: "(string \<Rightarrow> string) \<Rightarrow> 'a queue_db_scheme \<Rightarrow> 'a queue_db_scheme \<Rightarrow> bool" where
  "queue_history H d d' \<longleftrightarrow> queue_inv H d \<and> (queue_step H)\<^sup>*\<^sup>* d d'"

lemma empty_audit: "audit_valid H []" "sequence_ok [] 0" "usage_ok [] []"
  by (simp_all add: audit_valid_def sequence_ok_def usage_ok_def scope_events_def)

lemma queue_init_inv: "queue_inv H queue_init"
  by (simp add: empty_audit queue_init_def queue_inv_def core_inv_def audit_inv_def disc_inv_def table_ok_def sched_ok_def
      exclusive_def bound_once_def unique_for_def)

interpretation queue: call_history "queue_step H" "queue_inv H"
    "\<lambda>d d'. (table_step H)\<^sup>*\<^sup>* (governance_operations d) (governance_operations d')" for H
  by unfold_locales (blast dest: queue_step_system intro: rtranclp_trans)+

lemma queue_history_system:
  assumes "queue_history H d d'"
  shows "queue_inv H d' \<and> (table_step H)\<^sup>*\<^sup>* (governance_operations d) (governance_operations d')"
  using assms queue.history [of H d d'] by (simp add: queue_history_def)

lemma queue_history_row:
  assumes "queue_history H d d'" and "r \<in> set (governance_operations d')"
  shows "op_ok r \<and> ops.sealed H r"
  using queue_history_system [OF assms(1)] assms(2) by (simp add: queue_inv_def table_ok_def)

lemma queue_history_past:
  assumes "queue_history H d d'" and "r \<in> set (governance_operations d)"
  shows "\<exists>q \<in> set (governance_operations d'). succeeded_by r q"
  using queue_history_system [OF assms(1)] assms table_steps_history
  by (metis queue_history_def queue_inv_def)

end
