(* ===== verification/Examples.thy ===== *)
theory Examples
  imports QueueSystem
begin

text \<open>
  Small concrete data for the instances of the properties: two bridges of one team, an empty
  database, one queued and one leased operation, a due schedule. The toy digest is the length of
  the text, so the stored digests below are numbers.
\<close>

definition demo_human :: bridge where
  "demo_human = \<lparr>br_agent_id = HUMAN_OPERATOR_ID, br_scope = ''t'', br_session_id = ''s'', br_client_name = None,
     br_provider_id = None, br_model_id = None, br_reasoning_mode = None, br_route_class = None,
     br_workspace_root_key = ''/w'', br_sha256 = demo_sha\<rparr>"

definition demo_room :: bridge where
  "demo_room = demo_human\<lparr>br_agent_id := CONTROL_ROOM_WORKFLOW_ID\<rparr>"

definition in_world :: "queue_db \<Rightarrow> queue_db pstate" where
  "in_world d = \<lparr>st_db = d, st_world = demo_world\<rparr>"

definition demo_request :: op_request where
  "demo_request = \<lparr>rq_workflow_id = ''read-only-audit'', rq_task_text = ''t'', rq_working_directory = ''w'',
     rq_resource_key = ''r'', rq_requested_by = HUMAN_OPERATOR_ID, rq_permission_decision_id = None,
     rq_max_attempts = 2, rq_timeout_seconds = 60, rq_not_before_epoch = 5, rq_operation_id = Some ''o''\<rparr>"

definition demo_queued :: op_row where
  "demo_queued = \<lparr>op_scope = ''t'', op_operation_id = ''o'', op_workflow_id = ''read-only-audit'',
     op_requested_by = HUMAN_OPERATOR_ID, op_task_text = ''t'', op_working_directory = ''w'', op_resource_key = ''r'',
     op_permission_decision_id = None, op_bound_discussion_id = None, op_status = Queued, op_attempt_count = 0,
     op_max_attempts = 2, op_timeout_seconds = 60, op_not_before_epoch = 5, op_lease_owner = None,
     op_lease_token_sha256 = None, op_lease_expires_epoch = None, op_attempt_deadline_epoch = None,
     op_cancellation_requested = False, op_terminal_outcome = None, op_terminal_detail = None,
     op_created_utc = ''u'', op_updated_utc = ''u'', op_operation_sha256 = ''521''\<rparr>"

text \<open>The same operation, bound to the discussion \<open>d\<close> and leased by worker \<open>w\<close> with the token \<open>tok\<close> until 130.\<close>

definition demo_leased :: op_row where
  "demo_leased = demo_queued\<lparr>op_bound_discussion_id := Some ''d'', op_status := Running, op_attempt_count := 1, op_lease_owner := Some ''w'',
     op_lease_token_sha256 := Some ''3'', op_lease_expires_epoch := Some 130, op_attempt_deadline_epoch := Some 160,
     op_operation_sha256 := ''521''\<rparr>"

text \<open>And cancelled before it started.\<close>

definition demo_ended :: op_row where
  "demo_ended = seal_operation demo_sha (demo_queued\<lparr>op_status := Cancelled,
     op_terminal_outcome := Some ''cancelled_before_start'', op_terminal_detail := Some ''stop''\<rparr>)"

definition with_ops :: "op_row list \<Rightarrow> queue_db" where
  "with_ops rows = queue_init\<lparr>governance_operations := rows\<rparr>"

section \<open>They are well formed\<close>

lemma demo_digests: "operation_digest demo_sha demo_queued = ''521''" "operation_digest demo_sha demo_leased = ''521''"
  by code_simp+

lemma demo_sealed: "ops.sealed demo_sha demo_queued" "ops.sealed demo_sha demo_leased"
  using demo_digests by (simp_all add: ops.sealed_def demo_leased_def) (simp_all add: demo_queued_def)

lemma demo_retryable: "retryable ''read-only-audit''" "known_workflow ''read-only-audit''"
  unfolding retryable_def by code_simp+

lemma demo_ok: "op_ok demo_queued" "op_ok demo_leased"
  using demo_retryable
  by (simp_all add: op_ok_defs demo_queued_def demo_leased_def MAX_OPERATION_ATTEMPTS_def MAX_OPERATION_TIMEOUT_SECONDS_def)

lemma with_ops_inv: "queue_inv H (with_ops rows) \<longleftrightarrow> table_ok H rows"
  by (simp add: empty_audit with_ops_def queue_init_def queue_inv_def core_inv_def audit_inv_def disc_inv_def sched_ok_def)

lemma demo_inv: "queue_inv demo_sha (with_ops [demo_queued])" "queue_inv demo_sha (with_ops [demo_leased])"
  using demo_sealed demo_ok by (simp_all add: with_ops_inv table_ok_def exclusive_def bound_once_def unique_for_def)

lemma demo_ended_inv: "queue_inv demo_sha (with_ops [demo_ended])"
proof -
  have "op_ok demo_ended" "ops.sealed demo_sha demo_ended"
    using demo_ok(1) by (simp_all add: demo_ended_def seal_operation_def [symmetric] ops.sealed_seal)
       (simp add: op_ok_defs demo_queued_def demo_ended_def seal_operation_def)
  then show ?thesis
    by (simp add: with_ops_inv table_ok_def exclusive_def bound_once_def unique_for_def)
qed

lemma br_sha_demo [simp]: "br_sha256 demo_human = demo_sha" "br_sha256 demo_room = demo_sha"
  by (simp_all add: demo_human_def demo_room_def)

end
