(* ===== verification/QueueProperties.thy ===== *)
theory QueueProperties
  imports Examples
begin

text \<open>
  The properties of the operation queue, each over the calls of \<open>DurableOperationQueue\<close> as they are
  written, with an instance on concrete data. The proofs rest on \<open>queue_step_system\<close> (every call
  refines the life cycle and keeps the invariant) and on the run lemmas of the single calls.
\<close>

section \<open>The queue as a whole\<close>

text \<open>C29: every call of the queue, returning or raising, refines the abstract table (rows are appended
  fresh or moved along the life cycle) and keeps the whole database well formed.\<close>

theorem queue_refines_table:
  assumes "queue_step H d d'" and "queue_inv H d"
  shows "queue_inv H d' \<and> (table_step H)\<^sup>*\<^sup>* (governance_operations d) (governance_operations d')"
  by (rule queue_step_system [OF assms])

definition demo_start :: "queue_db pstate" where
  "demo_start = after (enqueue demo_human demo_request (Some 5)) (in_world queue_init)"

lemma demo_start_step: "queue_step demo_sha queue_init (st_db demo_start)"
proof -
  have "enqueue demo_human demo_request (Some 5) (in_world queue_init)
      = (fst (enqueue demo_human demo_request (Some 5) (in_world queue_init)), demo_start)"
    by (simp add: demo_start_def after_def)
  from qs_enqueue [OF br_sha_demo(1) this] show ?thesis by (simp add: in_world_def)
qed

lemma demo_start_rows: "map op_operation_id (governance_operations (st_db demo_start)) = [''o'']"
  by code_simp

theorem queue_refines_table_witness:
  "(table_step demo_sha)\<^sup>*\<^sup>* [] (governance_operations (st_db demo_start))
     \<and> map op_operation_id (governance_operations (st_db demo_start)) = [''o'']"
  using queue_refines_table [OF demo_start_step queue_init_inv] demo_start_rows by (simp add: queue_init_def)

text \<open>in every database the calls can reach from an empty one, operation ids are unique in their
  scope, every row carries the digest of its state, and every row is well formed.\<close>

theorem queue_reachable_rows:
  assumes "(queue_step H)\<^sup>*\<^sup>* queue_init d"
  shows "distinct (map op_key (governance_operations d))
    \<and> (\<forall>r \<in> set (governance_operations d). op_ok r \<and> operation_digest H r = op_operation_sha256 r)"
proof -
  have "queue_history H queue_init d" using assms queue_init_inv by (simp add: queue_history_def)
  then show ?thesis
    using queue_history_system by (auto simp: queue_inv_def table_ok_def ops.sealed_def)
qed

theorem queue_reachable_rows_witness: "op_ok (hd (governance_operations (st_db demo_start)))"
proof -
  have "hd (governance_operations (st_db demo_start)) \<in> set (governance_operations (st_db demo_start))"
    using demo_start_rows by (cases "governance_operations (st_db demo_start)") simp_all
  then show ?thesis using queue_reachable_rows [OF r_into_rtranclp, OF demo_start_step] by blast
qed

text \<open>C1: mutual exclusion. Whatever calls were made, at most one operation of a scope holds a lease on
  a resource.\<close>

theorem resource_exclusion:
  assumes "queue_history H d d'" and "r \<in> set (governance_operations d')" and "q \<in> set (governance_operations d')"
    and "op_scope r = op_scope q" and "op_resource_key r = op_resource_key q"
    and "op_status r \<in> {Running, Cancelling}" and "op_status q \<in> {Running, Cancelling}"
  shows "r = q"
proof -
  have ok: "table_ok H (governance_operations d')"
    using queue_history_system [OF assms(1)] by (simp add: queue_inv_def)
  then have "op_key r = op_key q"
    using assms(2-7) unfolding table_ok_def exclusive_def unique_for_def share_resource_def by blast
  then show ?thesis using ok assms(2,3) distinct_key_eq by (metis table_ok_def)
qed

definition demo_beat :: "queue_db pstate" where
  "demo_beat = after (heartbeat demo_room ''o'' ''w'' ''tok'' (Some 20) 50) (in_world (with_ops [demo_leased]))"

lemma demo_beat_history: "queue_history demo_sha (with_ops [demo_leased]) (st_db demo_beat)"
proof -
  let ?m = "heartbeat demo_room ''o'' ''w'' ''tok'' (Some 20) 50" and ?s = "in_world (with_ops [demo_leased])"
  have "?m ?s = (fst (?m ?s), demo_beat)" by (simp add: demo_beat_def after_def)
  from qs_heartbeat [OF br_sha_demo(2) this] have "queue_step demo_sha (with_ops [demo_leased]) (st_db demo_beat)"
    by (simp add: in_world_def)
  then show ?thesis using demo_inv by (simp add: queue_history_def r_into_rtranclp)
qed

definition demo_beaten :: op_row where
  "demo_beaten = demo_leased\<lparr>op_lease_expires_epoch := Some 70, op_updated_utc := ''2026-01-01T00:00:00Z'',
     op_operation_sha256 := ''539''\<rparr>"

lemma demo_beat_rows: "governance_operations (st_db demo_beat) = [demo_beaten]"
  by code_simp

theorem resource_exclusion_witness:
  "hd (governance_operations (st_db demo_beat)) = last (governance_operations (st_db demo_beat))"
  by (rule resource_exclusion [OF demo_beat_history]) (simp_all add: demo_beat_rows demo_beaten_def demo_leased_def)

text \<open>C26: a finished operation is final. A row with a terminal status is never changed again, neither its
  status nor any other column.\<close>

theorem terminal_is_final:
  assumes "queue_history H d d'" and "r \<in> set (governance_operations d)"
    and "op_status r \<in> {Succeeded, Failed, Cancelled}"
  shows "r \<in> set (governance_operations d')"
  using queue_history_past [OF assms(1,2)] assms(3) by (auto simp: succeeded_by_def TERMINAL_OPERATION_STATUSES_def)

lemma demo_enqueue_history:
  assumes "queue_inv demo_sha d"
  shows "queue_history demo_sha d (st_db (after (enqueue demo_human demo_request (Some 5)) (in_world d)))"
proof -
  let ?m = "enqueue demo_human demo_request (Some 5)"
  have "?m (in_world d) = (fst (?m (in_world d)), after ?m (in_world d))" by (simp add: after_def)
  from qs_enqueue [OF br_sha_demo(1) this] show ?thesis
    using assms by (simp add: queue_history_def in_world_def r_into_rtranclp)
qed

theorem terminal_is_final_witness:
  "demo_ended \<in> set (governance_operations (st_db
     (after (enqueue demo_human demo_request (Some 5)) (in_world (with_ops [demo_ended])))))"
  by (rule terminal_is_final [OF demo_enqueue_history [OF demo_ended_inv]])
     (simp_all add: demo_ended_def with_ops_def seal_operation_def)

text \<open>C32: no operation is lost. Every row of the past is still there under its id, with the request it
  was enqueued with, no fewer attempts, and its bound discussion.\<close>

theorem operations_never_lost:
  assumes "queue_history H d d'" and "r \<in> set (governance_operations d)"
  shows "\<exists>q \<in> set (governance_operations d'). op_identity q = op_identity r
    \<and> op_attempt_count r \<le> op_attempt_count q
    \<and> (\<forall>x. op_bound_discussion_id r = Some x \<longrightarrow> op_bound_discussion_id q = Some x)"
  using queue_history_past [OF assms] by (auto simp: succeeded_by_def)

theorem operations_never_lost_witness:
  "\<exists>q \<in> set (governance_operations (st_db demo_beat)). op_identity q = op_identity demo_leased"
  using operations_never_lost [OF demo_beat_history, of demo_leased] by (auto simp: with_ops_def)

text \<open>attempts are bounded by the limit of the request, which is at most ten; a workflow that is not
  retried automatically (\<open>implement-review\<close>) is attempted at most once.\<close>

theorem attempts_bounded:
  assumes "queue_history H d d'" and "r \<in> set (governance_operations d')"
  shows "0 \<le> op_attempt_count r \<and> op_attempt_count r \<le> op_max_attempts r \<and> op_max_attempts r \<le> 10
    \<and> (op_workflow_id r = ''implement-review'' \<longrightarrow> op_attempt_count r \<le> 1)"
proof -
  have "\<not> retryable ''implement-review''" unfolding retryable_def by code_simp
  then show ?thesis
    using queue_history_row [OF assms]
    by (auto simp: op_ok_def attempts_ok_def limits_ok_def MAX_OPERATION_ATTEMPTS_def)
qed

theorem attempts_bounded_witness: "op_attempt_count demo_beaten \<le> op_max_attempts demo_beaten"
  using attempts_bounded [OF demo_beat_history, of demo_beaten] by (simp add: demo_beat_rows)

text \<open>the lease columns and the status agree: an operation has an owner, a token hash, an expiry and
  a deadline exactly while it is running or cancelling, an outcome exactly when it is terminal, and one
  whose cancellation was requested is cancelling or cancelled.\<close>

theorem lease_matches_status:
  assumes "queue_history H d d'" and "r \<in> set (governance_operations d')"
  shows "(op_status r \<in> {Running, Cancelling} \<longleftrightarrow> op_lease_owner r \<noteq> None)
    \<and> (op_status r \<in> {Running, Cancelling} \<longleftrightarrow> op_lease_token_sha256 r \<noteq> None)
    \<and> (op_status r \<in> {Running, Cancelling} \<longleftrightarrow> op_lease_expires_epoch r \<noteq> None)
    \<and> (op_status r \<in> {Running, Cancelling} \<longleftrightarrow> op_attempt_deadline_epoch r \<noteq> None)
    \<and> (op_status r \<in> {Succeeded, Failed, Cancelled} \<longleftrightarrow> op_terminal_outcome r \<noteq> None)
    \<and> (op_cancellation_requested r \<longrightarrow> op_status r \<in> {Cancelling, Cancelled})"
  using queue_history_row [OF assms]
  by (auto simp: op_ok_def status_ok_def lease_fields_absent_def lease_fields_present_def
      TERMINAL_OPERATION_STATUSES_def split: if_splits)

theorem lease_matches_status_witness: "op_lease_owner demo_beaten \<noteq> None"
  using lease_matches_status [OF demo_beat_history, of demo_beaten]
  by (simp add: demo_beat_rows) (simp add: demo_beaten_def demo_leased_def)

text \<open>a room discussion is bound to at most one operation of its scope, and the binding is never
  taken away.\<close>

theorem discussion_bound_once:
  assumes "queue_history H d d'" and "r \<in> set (governance_operations d')" and "q \<in> set (governance_operations d')"
    and "op_scope r = op_scope q" and "op_bound_discussion_id r = Some x" and "op_bound_discussion_id q = Some x"
  shows "r = q"
proof -
  have ok: "table_ok H (governance_operations d')"
    using queue_history_system [OF assms(1)] by (simp add: queue_inv_def)
  then have "op_key r = op_key q"
    using assms(2-6) unfolding table_ok_def bound_once_def unique_for_def share_discussion_def by blast
  then show ?thesis using ok assms(2,3) distinct_key_eq by (metis table_ok_def)
qed

theorem discussion_bound_once_witness:
  "last (governance_operations (st_db demo_beat)) = hd (governance_operations (st_db demo_beat))"
  by (rule discussion_bound_once [OF demo_beat_history, where x = "''d''"])
     (simp_all add: demo_beat_rows demo_beaten_def demo_leased_def)

end
