(* ===== verification/WorkerProperties.thy ===== *)
theory WorkerProperties
  imports QueueProperties
begin

text \<open>
  What the single calls of the worker protocol return and store: a claim leases the first claimable
  operation or finds none, the four worker calls need the live lease and its token, and each of
  them puts exactly one new row in the place of the old one.
\<close>

section \<open>The row that is put back\<close>

lemma key_put:
  assumes "stored b r (st_db s)" and "op_operation_id r = i" and "op_key (f r) = op_key r"
    and "update_operations b i f v = (Inr x, w)" and "st_db v = st_db s" and "rehash b i w = (Inr q, y)"
    and "same_queue (st_db y) (st_db t)"
  shows "q = seal_operation (br_sha256 b) (f r)
    \<and> governance_operations (st_db t) = put_row q (governance_operations (st_db s))"
proof -
  have is_r: "op_is b i r" using assms(1,2) by (simp add: stored_def op_is_def)
  have "q = seal_operation (br_sha256 b) (f r) \<and> st_db y = put_db q (st_db s)"
    using assms(1-6) is_r unfolding stored_def update_operations_ok
    by (intro update_rehash [where u = w and P = "op_is b i"]) auto
  then show ?thesis using assms(7) by (simp add: same_queue_def put_db_def)
qed

lemma event_same_queue: "event_op b ty p tid u = (Inr e, t) \<Longrightarrow> same_queue (st_db u) (st_db t)"
  using event_op_frame by blast

lemma set_terminal_put:
  assumes "set_terminal_locked b r st outcome detail s = (Inr q, t)" and "stored b r (st_db s)"
  shows "q = seal_operation (br_sha256 b) (ended_row st outcome detail (utc_at s) r)
    \<and> governance_operations (st_db t) = put_row q (governance_operations (st_db s))
    \<and> \<not> terminal (op_status r)"
proof -
  let ?f = "ended_row st outcome detail (utc_at s)"
  from assms(1) obtain w y p e where nt: "\<not> terminal (op_status r)"
    and up: "update_operations b (op_operation_id r) ?f (tick s) = (Inr (), w)"
    and re: "rehash b (op_operation_id r) w = (Inr q, y)"
    and ev: "event_op b (''workflow.operation.'' @ status_text st) p None y = (Inr e, t)"
    unfolding set_terminal_locked_def ended_row_def [abs_def] by (auto simp: tx_simps)
  have "op_key (?f r) = op_key r" by (simp add: op_key_def ended_row_def)
  from key_put [OF assms(2) refl this up _ re event_same_queue [OF ev]] nt show ?thesis by simp
qed

section \<open>The clock of a call\<close>

text \<open>
  Every queue method takes an optional \<open>now_epoch\<close>; without it the call reads \<open>time.time()\<close>, once and
  before any other reading. A call that returns is therefore the call with its clock given, made right
  after that reading, which carries the lemmas about an explicit clock over to the default one.
\<close>

definition call_time :: "int option \<Rightarrow> 'd pstate \<Rightarrow> int" where
  "call_time n s = (case n of None \<Rightarrow> time_at s | Some e \<Rightarrow> e)"

definition clocked :: "int option \<Rightarrow> 'd pstate \<Rightarrow> 'd pstate" where
  "clocked n s = (case n of None \<Rightarrow> tick s | Some e \<Rightarrow> s)"

lemma call_time_simps [simp]: "call_time None s = time_at s" "call_time (Some e) s = e"
  by (simp_all add: call_time_def)

lemma clocked_simps [simp]: "clocked None s = tick s" "clocked (Some e) s = s" "st_db (clocked n s) = st_db s"
  by (simp_all add: clocked_def split: option.splits)

lemma epoch_or_now_reads: "epoch_or_now n s = (Inr e, u) \<longleftrightarrow> e = call_time n s \<and> u = clocked n s"
  by (cases n) (auto simp: epoch_or_now_def tx_simps)

lemma clock_given:
  "claim b w n ls cl s = (Inr k, t) \<longleftrightarrow> claim b w (Some (call_time n s)) ls cl (clocked n s) = (Inr k, t)"
  "heartbeat b i w tok n ls s = (Inr q, t)
    \<longleftrightarrow> heartbeat b i w tok (Some (call_time n s)) ls (clocked n s) = (Inr q, t)"
  "complete b i w tok out dt n s = (Inr q, t)
    \<longleftrightarrow> complete b i w tok out dt (Some (call_time n s)) (clocked n s) = (Inr q, t)"
  "fail_op b i w tok cls dt ra allow n s = (Inr q, t)
    \<longleftrightarrow> fail_op b i w tok cls dt ra allow (Some (call_time n s)) (clocked n s) = (Inr q, t)"
  "acknowledge_cancel b i w tok n s = (Inr q, t)
    \<longleftrightarrow> acknowledge_cancel b i w tok (Some (call_time n s)) (clocked n s) = (Inr q, t)"
  "reconcile b n s = (Inr rs, t) \<longleftrightarrow> reconcile b (Some (call_time n s)) (clocked n s) = (Inr rs, t)"
  by (simp_all add: claim_def heartbeat_def complete_def fail_op_def acknowledge_cancel_def reconcile_def
      require_service_transition_def with_connection_ok tx_bind_ok tx_then_ok tx_lift_ok tx_require_ok epoch_or_now_reads)

section \<open>Claims\<close>

definition claim_order :: "op_row \<Rightarrow> int \<times> string \<times> string" where
  "claim_order r = (op_not_before_epoch r, op_created_utc r, op_operation_id r)"

lemma candidates_first:
  assumes "candidates b now cls d = r # cs" and "q \<in> set (governance_operations d)"
    and "claimable b now cls (governance_operations d) q"
  shows "claim_order r \<le> claim_order q"
proof -
  let ?key = "\<lambda>r. (op_not_before_epoch r, op_created_utc r, op_operation_id r)"
  have "sorted (map ?key (candidates b now cls d))"
    unfolding candidates_def by (rule sorted_sort_key)
  moreover have "q \<in> set (candidates b now cls d)" using assms(2,3) by (simp add: candidates_def)
  ultimately show ?thesis using assms(1) by (auto simp: claim_order_def)
qed

lemma claim_run:
  assumes "claim b w n ls cl s = (Inr k, t)"
  shows "\<exists>now u cls. epoch_or_now n s = (Inr now, u) \<and> parse_class cl = Inr cls \<and> st_db u = st_db s
    \<and> 1 \<le> ls \<and> ls \<le> MAX_OPERATION_LEASE_SECONDS \<and> claim_tx b (py_strip w) now ls cls u = (Inr k, t)"
proof -
  from assms obtain cls now u where "parse_class cl = Inr cls" "epoch_or_now n s = (Inr now, u)"
    "check_lease_seconds ls = Inr ()" "claim_tx b (py_strip w) now ls cls u = (Inr k, t)"
    unfolding claim_def by (auto simp: tx_simps op_identifier_Inr)
  then show ?thesis using epoch_or_now_ok by (auto simp: check_lease_seconds_def tx_simps)
qed

lemma lease_to_put:
  assumes "lease_to b w now ls r s = (Inr k, t)" and "queue_ok b (st_db s)" and "stored b r (st_db s)"
  shows "oc_operation k = seal_operation (br_sha256 b) (claimed_row w (token_sha b (oc_lease_token k)) (now + ls)
      (now + op_timeout_seconds r) (utc_at (tick s)) r)
    \<and> governance_operations (st_db t) = put_row (oc_operation k) (governance_operations (st_db s))"
proof -
  let ?f = "claimed_row w (token_sha b (token_at s)) (now + ls) (now + op_timeout_seconds r) (utc_at (tick s))"
  from assms(1) obtain v y q ty p e where k: "k = \<lparr>oc_operation = q, oc_lease_token = token_at s\<rparr>"
    and up: "update_operations b (op_operation_id r) ?f (tick (tick s)) = (Inr (), v)"
    and re: "rehash b (op_operation_id r) v = (Inr q, y)"
    and ev: "event_op b ty p None y = (Inr e, t)"
    unfolding lease_to_def tx_bind_ok locked_row [OF assms(2,3)] claimed_row_def [abs_def] by (auto simp: tx_simps)
  have "op_key (?f r) = op_key r" by (simp add: op_key_def claimed_row_def)
  from key_put [OF assms(3) refl this up _ re event_same_queue [OF ev]] k show ?thesis by simp
qed

lemma claim_leases_at:
  assumes "claim b w (Some now) ls cl s = (Inr (Some k), t)" and "queue_inv (br_sha256 b) (st_db s)"
  shows "\<exists>rows r u cls. parse_class cl = Inr cls
    \<and> (table_step (br_sha256 b))\<^sup>*\<^sup>* (governance_operations (st_db s)) rows
    \<and> r \<in> set rows \<and> claimable b now cls rows r
    \<and> (\<forall>q \<in> set rows. claimable b now cls rows q \<longrightarrow> claim_order r \<le> claim_order q)
    \<and> oc_operation k = seal_operation (br_sha256 b) (claimed_row (py_strip w) (token_sha b (oc_lease_token k))
        (now + ls) (now + op_timeout_seconds r) u r)
    \<and> governance_operations (st_db t) = put_row (oc_operation k) rows"
proof -
  obtain u cls where u: "st_db u = st_db s" and cls: "parse_class cl = Inr cls"
    and run: "claim_tx b (py_strip w) now ls cls u = (Inr (Some k), t)"
    using claim_run [OF assms(1)] by (auto simp: epoch_or_now_def tx_simps)
  have oku: "queue_ok b (st_db u)" using assms(2) u by (simp add: queue_inv_ok)
  from claim_tx_run [OF run oku] obtain v r cs where uv: "evolves b (st_db u) (st_db v)"
    and c: "candidates b now cls (st_db v) = r # cs" and st: "stored b r (st_db v)"
    and lease: "lease_to b (py_strip w) now ls r v = (Inr k, t)" by auto
  note put = lease_to_put [OF lease evolves_ok [OF uv oku] st]
  have steps: "(table_step (br_sha256 b))\<^sup>*\<^sup>* (governance_operations (st_db s)) (governance_operations (st_db v))"
    using uv u by (simp add: evolves_def)
  show ?thesis
    by (rule exI [of _ "governance_operations (st_db v)"], rule exI [of _ r], rule exI [of _ "utc_at (tick v)"], rule exI [of _ cls])
       (use cls steps put candidate_row [OF c] candidates_first [OF c] in blast)
qed

text \<open>C27: a claim leases the least claimable operation of its class in the order (not before, created, id),
  chosen after recovery and reconciliation at the instant of the call: the one given, or the clock read
  when none is given. The stored row is that operation, running, with one more attempt, owned by the
  worker, bound to the returned token, expiring with the lease and limited by its timeout, and no other
  operation of that resource was leased.\<close>

theorem claim_leases_first:
  assumes "claim b w n ls cl s = (Inr (Some k), t)" and "queue_inv (br_sha256 b) (st_db s)"
    and "now = (case n of None \<Rightarrow> time_at s | Some e \<Rightarrow> e)"
  shows "\<exists>rows r u cls. parse_class cl = Inr cls
    \<and> (table_step (br_sha256 b))\<^sup>*\<^sup>* (governance_operations (st_db s)) rows
    \<and> r \<in> set rows \<and> claimable b now cls rows r
    \<and> (\<forall>q \<in> set rows. claimable b now cls rows q \<longrightarrow> claim_order r \<le> claim_order q)
    \<and> oc_operation k = seal_operation (br_sha256 b) (claimed_row (py_strip w) (token_sha b (oc_lease_token k))
        (now + ls) (now + op_timeout_seconds r) u r)
    \<and> governance_operations (st_db t) = put_row (oc_operation k) rows"
  using claim_leases_at [OF iffD1 [OF clock_given(1), OF assms(1)]] assms(2)
  by (simp only: assms(3) call_time_def [symmetric] clocked_simps)

definition demo_claim :: "(queue_db, exn, operation_claim option) tx" where
  "demo_claim = claim demo_room ''w'' (Some 6) 30 ''any''"

definition claim_summary :: "exn + operation_claim option \<Rightarrow> (string \<times> op_status \<times> int) option" where
  "claim_summary x = (case x of Inr (Some k) \<Rightarrow> Some (oc_lease_token k, op_status (oc_operation k), op_attempt_count (oc_operation k))
     | _ \<Rightarrow> None)"

lemma demo_claim_run: "claim_summary (fst (demo_claim (in_world (with_ops [demo_queued])))) = Some (''tok-0'', Running, 1)"
  by code_simp

theorem claim_leases_first_witness:
  "\<exists>k r. fst (demo_claim (in_world (with_ops [demo_queued]))) = Inr (Some k) \<and> oc_lease_token k = ''tok-0''
     \<and> claimable demo_room 6 Any_Class [r] r"
proof -
  obtain k where k: "fst (demo_claim (in_world (with_ops [demo_queued]))) = Inr (Some k)" "oc_lease_token k = ''tok-0''"
    using demo_claim_run by (auto simp: claim_summary_def split: sum.splits option.splits)
  then have "claim demo_room ''w'' (Some 6) 30 ''any'' (in_world (with_ops [demo_queued]))
      = (Inr (Some k), snd (demo_claim (in_world (with_ops [demo_queued]))))"
    by (simp add: demo_claim_def prod_eq_iff)
  from claim_leases_first [OF this _ refl] demo_inv(1) obtain rows r where
    "r \<in> set rows" "claimable demo_room 6 Any_Class rows r"
    by (auto simp: in_world_def parse_class_def)
  then have "claimable demo_room 6 Any_Class [r] r"
    by (auto simp: claimable_def resource_busy_def)
  then show ?thesis using k by blast
qed

text \<open>a claim returns nothing only when, after recovery and reconciliation, no operation of its class is
  claimable; then it leased nothing.\<close>

theorem claim_none_means_idle:
  assumes "claim b w (Some now) ls cl s = (Inr None, t)" and "queue_inv (br_sha256 b) (st_db s)"
    and "parse_class cl = Inr cls" and "r \<in> set (governance_operations (st_db t))"
  shows "\<not> claimable b now cls (governance_operations (st_db t)) r"
proof -
  obtain u cl' where u: "st_db u = st_db s" and cls: "parse_class cl = Inr cl'"
    and run: "claim_tx b (py_strip w) now ls cl' u = (Inr None, t)"
    using claim_run [OF assms(1)] by (auto simp: epoch_or_now_def tx_simps)
  then have run: "claim_tx b (py_strip w) now ls cls u = (Inr None, t)" using assms(3) by simp
  have "candidates b now cls (st_db t) = []"
    using claim_tx_run [OF run] assms(2) u cls by (auto simp: queue_inv_ok)
  then have "r \<notin> set (candidates b now cls (st_db t))" by simp
  then show ?thesis using assms(4) by (simp add: candidates_def)
qed

definition demo_idle :: "queue_db pstate" where
  "demo_idle = after (claim demo_room ''v'' (Some 20) 30 ''any'') (in_world (with_ops [demo_leased]))"

lemma demo_idle_claim:
  "(case fst (claim demo_room ''v'' (Some 20) 30 ''any'' (in_world (with_ops [demo_leased]))) of
      Inr None \<Rightarrow> True | _ \<Rightarrow> False) \<and> governance_operations (st_db demo_idle) = [demo_leased]"
  by code_simp

theorem claim_none_means_idle_witness:
  "\<not> claimable demo_room 20 Any_Class (governance_operations (st_db demo_idle)) demo_leased"
proof (rule claim_none_means_idle)
  show "claim demo_room ''v'' (Some 20) 30 ''any'' (in_world (with_ops [demo_leased])) = (Inr None, demo_idle)"
    using demo_idle_claim by (auto simp: demo_idle_def after_def prod_eq_iff split: sum.splits option.splits)
qed (use demo_inv demo_idle_claim in \<open>simp_all add: in_world_def parse_class_def\<close>)

section \<open>Worker calls\<close>

text \<open>The live lease a worker call needs: owner, token and both time limits of the stored row.\<close>

definition lease_held :: "bridge \<Rightarrow> string \<Rightarrow> string \<Rightarrow> string \<Rightarrow> int \<Rightarrow> op_row \<Rightarrow> bool" where
  "lease_held b i w tok now r \<longleftrightarrow> op_scope r = br_scope b \<and> op_operation_id r = i \<and> op_status r \<in> {Running, Cancelling}
     \<and> op_lease_owner r = Some w \<and> op_lease_token_sha256 r = Some (token_sha b tok)
     \<and> (\<exists>e dl. op_lease_expires_epoch r = Some e \<and> op_attempt_deadline_epoch r = Some dl \<and> now < e \<and> now < dl)"

lemma live_row_held:
  assumes "live_row b i w tok now s = (Inr r, t)" and "queue_ok b (st_db s)"
  shows "t = s \<and> stored b r (st_db s) \<and> lease_held b i (py_strip w) tok now r"
proof -
  note lr = live_row_run [OF assms]
  have "op_ok r" using lr assms(2) by (auto simp: stored_def queue_ok_def table_ok_def)
  then have "lease_fields_present r" using lr by (auto simp: op_ok_def status_ok_def)
  then show ?thesis
    using lr by (auto simp: lease_held_def stored_def lease_fields_present_def epoch_or_zero_def text_or_empty_def)
qed

lemma complete_run:
  assumes "complete b i w tok out dt (Some now) s = (Inr q, t)" and "queue_ok b (st_db s)"
  shows "\<exists>r. stored b r (st_db s) \<and> lease_held b (py_strip i) (py_strip w) tok now r
    \<and> \<not> op_cancellation_requested r \<and> check_release_gate b r (py_strip i) (py_strip out) (py_strip dt) = Inr ()
    \<and> q = seal_operation (br_sha256 b) (ended_row Succeeded (py_strip out) (py_strip dt) (utc_at s) r)
    \<and> governance_operations (st_db t) = put_row q (governance_operations (st_db s))"
proof -
  from assms(1) obtain r where live: "live_row b (py_strip i) w tok now s = (Inr r, s)"
    and gate: "check_release_gate b r (py_strip i) (py_strip out) (py_strip dt) = Inr ()"
    and nc: "\<not> op_cancellation_requested r"
    and run: "set_terminal_locked b r Succeeded (py_strip out) (py_strip dt) s = (Inr q, t)"
    unfolding complete_def live_row_def by (auto simp: tx_simps op_identifier_Inr safe_text_Inr epoch_or_now_def)
  have st: "stored b r (st_db s)" and held: "lease_held b (py_strip i) (py_strip w) tok now r"
    using live_row_held [OF live assms(2)] by blast+
  show ?thesis using st held nc gate set_terminal_put [OF run st] by blast
qed

lemma heartbeat_run:
  assumes "heartbeat b i w tok (Some now) ls s = (Inr q, t)" and "queue_ok b (st_db s)"
  shows "\<exists>r dl. stored b r (st_db s) \<and> lease_held b (py_strip i) (py_strip w) tok now r
    \<and> op_attempt_deadline_epoch r = Some dl
    \<and> q = seal_operation (br_sha256 b) (beaten_row (min (now + ls) dl) (utc_at s) r)
    \<and> governance_operations (st_db t) = put_row q (governance_operations (st_db s))"
proof -
  from assms(1) obtain r v where live: "live_row b (py_strip i) w tok now s = (Inr r, s)"
    and up: "update_operations b (py_strip i) (beaten_row (min (now + ls) (epoch_or_zero (op_attempt_deadline_epoch r))) (utc_at s)) (tick s) = (Inr (), v)"
    and re: "rehash b (py_strip i) v = (Inr q, t)"
    unfolding heartbeat_def beaten_row_def [abs_def] live_row_def
    by (auto simp: tx_simps op_identifier_Inr epoch_or_now_def)
  have st: "stored b r (st_db s)" and held: "lease_held b (py_strip i) (py_strip w) tok now r"
    using live_row_held [OF live assms(2)] by blast+
  obtain dl where dl: "op_attempt_deadline_epoch r = Some dl" and i: "op_operation_id r = py_strip i"
    using held by (auto simp: lease_held_def)
  have up': "update_operations b (py_strip i) (beaten_row (min (now + ls) dl) (utc_at s)) (tick s) = (Inr (), v)"
    using up dl by (simp add: epoch_or_zero_def)
  have "q = seal_operation (br_sha256 b) (beaten_row (min (now + ls) dl) (utc_at s) r)
      \<and> governance_operations (st_db t) = put_row q (governance_operations (st_db s))"
    by (rule key_put [OF st i _ up' _ re same_queue_refl]) (simp_all add: op_key_def beaten_row_def)
  then show ?thesis using dl st held by blast
qed

lemma acknowledge_run:
  assumes "acknowledge_cancel b i w tok (Some now) s = (Inr q, t)" and "queue_ok b (st_db s)"
  shows "\<exists>r dt. stored b r (st_db s) \<and> lease_held b (py_strip i) (py_strip w) tok now r
    \<and> op_cancellation_requested r
    \<and> q = seal_operation (br_sha256 b) (ended_row Cancelled ''cancelled'' dt (utc_at s) r)
    \<and> governance_operations (st_db t) = put_row q (governance_operations (st_db s))"
proof -
  from assms(1) obtain r dt where live: "live_row b (py_strip i) w tok now s = (Inr r, s)"
    and rc: "op_cancellation_requested r" and run: "set_terminal_locked b r Cancelled ''cancelled'' dt s = (Inr q, t)"
    unfolding acknowledge_cancel_def live_row_def by (auto simp: tx_simps op_identifier_Inr epoch_or_now_def)
  have st: "stored b r (st_db s)" and held: "lease_held b (py_strip i) (py_strip w) tok now r"
    using live_row_held [OF live assms(2)] by blast+
  show ?thesis using st held rc set_terminal_put [OF run st] by blast
qed

lemma fenced_at:
  assumes "queue_inv (br_sha256 b) (st_db s)"
    and "complete b i w tok out dt (Some now) s = (Inr q, t) \<or> heartbeat b i w tok (Some now) ls s = (Inr q, t)
      \<or> fail_op b i w tok cls dt ra allow (Some now) s = (Inr q, t)
      \<or> acknowledge_cancel b i w tok (Some now) s = (Inr q, t)"
  shows "\<exists>r \<in> set (governance_operations (st_db s)). lease_held b (py_strip i) (py_strip w) tok now r"
proof -
  have ok: "queue_ok b (st_db s)" using assms(1) by (simp add: queue_inv_ok)
  have "\<exists>r. stored b r (st_db s) \<and> lease_held b (py_strip i) (py_strip w) tok now r"
    if f: "fail_op b i w tok cls dt ra allow (Some now) s = (Inr q, t)"
  proof -
    from f obtain r where "live_row b (py_strip i) w tok now s = (Inr r, s)"
      unfolding fail_op_def live_row_def by (auto simp: tx_simps op_identifier_Inr epoch_or_now_def)
    then show ?thesis using live_row_held [OF _ ok] by blast
  qed
  then show ?thesis
    using assms(2) complete_run [OF _ ok] heartbeat_run [OF _ ok] acknowledge_run [OF _ ok]
    by (fastforce simp: stored_def)
qed

text \<open>C2: fencing. A worker call that returns was made by the current holder of a live lease: the stored
  operation is running or cancelling, owned by that worker, carries the digest of exactly that token, and
  neither the lease nor the attempt deadline has passed at the instant of the call, which is the one given
  or, by default, the clock the call reads. A worker whose lease was lost can change nothing.\<close>

theorem worker_calls_are_fenced:
  assumes "queue_inv (br_sha256 b) (st_db s)"
    and "complete b i w tok out dt n s = (Inr q, t) \<or> heartbeat b i w tok n ls s = (Inr q, t)
      \<or> fail_op b i w tok cls dt ra allow n s = (Inr q, t)
      \<or> acknowledge_cancel b i w tok n s = (Inr q, t)"
    and "now = (case n of None \<Rightarrow> time_at s | Some e \<Rightarrow> e)"
  shows "\<exists>r \<in> set (governance_operations (st_db s)). lease_held b (py_strip i) (py_strip w) tok now r"
proof -
  note at = assms(2) [unfolded clock_given(2) [where n = n] clock_given(3) [where n = n]
    clock_given(4) [where n = n] clock_given(5) [where n = n]]
  show ?thesis using fenced_at [OF _ at] assms(1) by (simp add: assms(3) call_time_def)
qed

lemma demo_beat_succeeds:
  "succeeds (heartbeat demo_room ''o'' ''w'' ''tok'' (Some 20) 50) (in_world (with_ops [demo_leased]))"
  by code_simp

theorem worker_calls_are_fenced_witness: "lease_held demo_room (py_strip ''o'') (py_strip ''w'') ''tok'' 20 demo_leased"
proof -
  have inv: "queue_inv (br_sha256 demo_room) (st_db (in_world (with_ops [demo_leased])))"
    using demo_inv by (simp add: in_world_def)
  show ?thesis
    using worker_calls_are_fenced [OF inv disjI2, OF disjI1, OF succeeds_run [OF demo_beat_succeeds] refl]
    by (simp add: in_world_def with_ops_def)
qed

text \<open>Completing puts one row, succeeded with the given outcome, in the place of the leased one; an
  operation whose cancellation was requested cannot be completed; a release gate is completed only by the
  control room, with the fixed outcome and a receipt that matches the operation and its two reviews.\<close>

theorem complete_stores_success:
  assumes "complete b i w tok out dt (Some now) s = (Inr q, t)" and "queue_inv (br_sha256 b) (st_db s)"
  shows "\<exists>r \<in> set (governance_operations (st_db s)). \<not> op_cancellation_requested r
    \<and> q = seal_operation (br_sha256 b) (ended_row Succeeded (py_strip out) (py_strip dt) (utc_at s) r)
    \<and> governance_operations (st_db t) = put_row q (governance_operations (st_db s))
    \<and> (op_workflow_id r = ''release-gate'' \<longrightarrow> br_agent_id b = CONTROL_ROOM_WORKFLOW_ID
        \<and> py_strip out = RELEASE_GATE_TERMINAL_OUTCOME
        \<and> (\<exists>receipt. json_loads (py_strip dt) = Some receipt \<and> release_receipt_ok r (py_strip i) receipt))"
proof -
  have ok: "queue_ok b (st_db s)" using assms(2) by (simp add: queue_inv_ok)
  from complete_run [OF assms(1) ok] obtain r where r: "stored b r (st_db s)" "\<not> op_cancellation_requested r"
    "check_release_gate b r (py_strip i) (py_strip out) (py_strip dt) = Inr ()"
    "q = seal_operation (br_sha256 b) (ended_row Succeeded (py_strip out) (py_strip dt) (utc_at s) r)"
    "governance_operations (st_db t) = put_row q (governance_operations (st_db s))" by blast
  have "op_workflow_id r = ''release-gate'' \<longrightarrow> br_agent_id b = CONTROL_ROOM_WORKFLOW_ID
        \<and> py_strip out = RELEASE_GATE_TERMINAL_OUTCOME
        \<and> (\<exists>receipt. json_loads (py_strip dt) = Some receipt \<and> release_receipt_ok r (py_strip i) receipt)"
    using r(3) unfolding check_release_gate_def by (auto simp: tx_simps split: option.splits)
  then show ?thesis using r by (auto simp: stored_def)
qed

lemma demo_complete:
  "succeeds (complete demo_room ''o'' ''w'' ''tok'' ''done'' ''x'' (Some 20)) (in_world (with_ops [demo_leased]))"
  by code_simp

theorem complete_stores_success_witness:
  "op_status (value_of (complete demo_room ''o'' ''w'' ''tok'' ''done'' ''x'' (Some 20)) (in_world (with_ops [demo_leased])))
     = Succeeded"
proof -
  have inv: "queue_inv (br_sha256 demo_room) (st_db (in_world (with_ops [demo_leased])))"
    using demo_inv by (simp add: in_world_def)
  show ?thesis
    using complete_stores_success [OF succeeds_run [OF demo_complete] inv]
    by (auto simp: seal_operation_def ended_row_def)
qed

text \<open>a heartbeat never extends a lease past the deadline of the attempt, and changes nothing but the
  expiry and the update time.\<close>

theorem heartbeat_bounded:
  assumes "heartbeat b i w tok (Some now) ls s = (Inr q, t)" and "queue_inv (br_sha256 b) (st_db s)"
  shows "\<exists>r \<in> set (governance_operations (st_db s)). \<exists>e dl. op_attempt_deadline_epoch r = Some dl \<and> e \<le> dl \<and> e \<le> now + ls
    \<and> q = seal_operation (br_sha256 b) (r\<lparr>op_lease_expires_epoch := Some e, op_updated_utc := utc_at s\<rparr>)
    \<and> governance_operations (st_db t) = put_row q (governance_operations (st_db s))"
proof -
  have ok: "queue_ok b (st_db s)" using assms(2) by (simp add: queue_inv_ok)
  from heartbeat_run [OF assms(1) ok] obtain r dl where r: "stored b r (st_db s)" "op_attempt_deadline_epoch r = Some dl"
    "q = seal_operation (br_sha256 b) (beaten_row (min (now + ls) dl) (utc_at s) r)"
    "governance_operations (st_db t) = put_row q (governance_operations (st_db s))" by blast
  have "min (now + ls) dl \<le> dl \<and> min (now + ls) dl \<le> now + ls" by simp
  then show ?thesis using r unfolding stored_def beaten_row_def by blast
qed

theorem heartbeat_bounded_witness:
  "\<exists>e \<le> 160. governance_operations (st_db demo_beat) = put_row (seal_operation demo_sha
     (demo_leased\<lparr>op_lease_expires_epoch := Some e, op_updated_utc := ''2026-01-01T00:00:00Z''\<rparr>)) [demo_leased]"
proof -
  have inv: "queue_inv (br_sha256 demo_room) (st_db (in_world (with_ops [demo_leased])))"
    using demo_inv by (simp add: in_world_def)
  have "op_attempt_deadline_epoch demo_leased = Some 160" by (simp add: demo_leased_def)
  then show ?thesis
    using heartbeat_bounded [OF succeeds_run [OF demo_beat_succeeds] inv]
    by (auto simp: in_world_def with_ops_def demo_world_def demo_beat_def)
qed

section \<open>Failures and cancellation\<close>

text \<open>a failure report ends a requested cancellation as cancelled, schedules a retry exactly when the
  error class is retryable, the caller allows it, the workflow is retried automatically and attempts are
  left, and fails the operation otherwise.\<close>

theorem fail_outcome:
  assumes "fail_op b i w tok cls dt ra allow (Some now) s = (Inr q, t)" and "queue_inv (br_sha256 b) (st_db s)"
  shows "\<exists>r \<in> set (governance_operations (st_db s)). op_operation_id r = py_strip i
    \<and> op_status q = (if op_cancellation_requested r then Cancelled
        else if py_strip cls \<in> {''transient'', ''resource'', ''provider'', ''timeout''} \<and> allow
          \<and> automatic_retry (op_workflow_id r) = Inr True \<and> op_attempt_count r < op_max_attempts r then Retry
        else Failed)"
proof -
  have ok: "queue_ok b (st_db s)" using assms(2) by (simp add: queue_inv_ok)
  from fail_op_run [OF assms(1) ok] obtain r where "stored b r (st_db s)" "op_operation_id r = py_strip i"
    "op_status q = fail_status r (py_strip cls) allow" by blast
  then show ?thesis unfolding fail_status_def RETRY_CLASSES_def retryable_def stored_def by blast
qed

lemma demo_fail:
  "succeeds (fail_op demo_room ''o'' ''w'' ''tok'' ''transient'' ''x'' 10 True (Some 20)) (in_world (with_ops [demo_leased]))"
  by code_simp

theorem fail_outcome_witness:
  "op_status (value_of (fail_op demo_room ''o'' ''w'' ''tok'' ''transient'' ''x'' 10 True (Some 20))
     (in_world (with_ops [demo_leased]))) = Retry"
proof -
  have inv: "queue_inv (br_sha256 demo_room) (st_db (in_world (with_ops [demo_leased])))"
    using demo_inv by (simp add: in_world_def)
  let ?q = "value_of (fail_op demo_room ''o'' ''w'' ''tok'' ''transient'' ''x'' 10 True (Some 20)) (in_world (with_ops [demo_leased]))"
  obtain r where r: "r \<in> set (governance_operations (st_db (in_world (with_ops [demo_leased]))))"
    and q: "op_status ?q = (if op_cancellation_requested r then Cancelled
        else if py_strip ''transient'' \<in> {''transient'', ''resource'', ''provider'', ''timeout''} \<and> True
          \<and> automatic_retry (op_workflow_id r) = Inr True \<and> op_attempt_count r < op_max_attempts r then Retry
        else Failed)"
    using fail_outcome [OF succeeds_run [OF demo_fail] inv] by blast
  have "py_strip ''transient'' = ''transient''" by code_simp
  moreover have "r = demo_leased" using r by (simp add: in_world_def with_ops_def)
  moreover have "automatic_retry (op_workflow_id demo_leased) = Inr True" "op_attempt_count demo_leased < op_max_attempts demo_leased"
    "\<not> op_cancellation_requested demo_leased"
    using demo_retryable by (simp_all add: retryable_def demo_leased_def demo_queued_def)
  ultimately show ?thesis using q by simp
qed

lemma request_cancel_run:
  assumes "request_cancel b i rb reason s = (Inr q, t)" and "queue_ok b (st_db s)"
  shows "br_agent_id b = HUMAN_OPERATOR_ID \<and> py_strip rb = HUMAN_OPERATOR_ID
    \<and> (\<exists>r. stored b r (st_db s) \<and> op_operation_id r = py_strip i \<and> \<not> terminal (op_status r)
      \<and> q = seal_operation (br_sha256 b) (if op_status r \<in> {Queued, Retry}
          then ended_row Cancelled ''cancelled_before_start'' (py_strip reason) (utc_at s) r
          else cancelling_row (py_strip reason) (utc_at s) r)
      \<and> governance_operations (st_db t) = put_row q (governance_operations (st_db s)))"
proof -
  from assms(1) obtain r where who: "br_agent_id b = HUMAN_OPERATOR_ID" "py_strip rb = HUMAN_OPERATOR_ID"
    and r: "fetch_one (op_is b (py_strip i)) (governance_operations (st_db s)) = Some r"
    and run: "(if op_status r \<in> {Queued, Retry}
       then set_terminal_locked b r Cancelled ''cancelled_before_start'' (py_strip reason)
       else request_cancel_running b (py_strip i) (py_strip reason)) s = (Inr q, t)" and nt: "\<not> terminal (op_status r)"
    unfolding request_cancel_def by (auto simp: tx_simps op_identifier_Inr safe_text_Inr)
  have st: "stored b r (st_db s)" "op_operation_id r = py_strip i"
    using fetch_op [OF r] assms(2) by (auto simp: stored_def queue_ok_def table_ok_def)
  have "q = seal_operation (br_sha256 b) (if op_status r \<in> {Queued, Retry}
          then ended_row Cancelled ''cancelled_before_start'' (py_strip reason) (utc_at s) r
          else cancelling_row (py_strip reason) (utc_at s) r)
      \<and> governance_operations (st_db t) = put_row q (governance_operations (st_db s))"
  proof (cases "op_status r \<in> {Queued, Retry}")
    case True
    then show ?thesis using run set_terminal_put [OF _ st(1)] by auto
  next
    case False
    let ?f = "cancelling_row (py_strip reason) (utc_at s)"
    from run False obtain w y ty p e where up: "update_operations b (py_strip i) ?f (tick s) = (Inr (), w)"
      and re: "rehash b (py_strip i) w = (Inr q, y)" and ev: "event_op b ty p None y = (Inr e, t)"
      unfolding request_cancel_running_def cancelling_row_def [abs_def] by (auto simp: tx_simps)
    have "op_key (?f r) = op_key r" by (simp add: op_key_def cancelling_row_def)
    from key_put [OF st this up _ re event_same_queue [OF ev]] False show ?thesis by simp
  qed
  then show ?thesis using who st nt by blast
qed

text \<open>only the human operator cancels. An operation that has not started ends at once; a leased one
  keeps its lease, is marked as cancelling and records the request, so that only an acknowledgement, a
  failure report or the loss of its worker can end it, as cancelled.\<close>

theorem cancel_outcome:
  assumes "request_cancel b i rb reason s = (Inr q, t)" and "queue_inv (br_sha256 b) (st_db s)"
  shows "br_agent_id b = HUMAN_OPERATOR_ID \<and> q \<in> set (governance_operations (st_db t))
    \<and> (\<exists>r \<in> set (governance_operations (st_db s)). op_operation_id r = py_strip i
        \<and> (op_status r \<in> {Queued, Retry} \<longrightarrow> op_status q = Cancelled \<and> op_terminal_outcome q = Some ''cancelled_before_start'')
        \<and> (op_status r \<in> {Running, Cancelling} \<longrightarrow> op_status q = Cancelling \<and> op_cancellation_requested q
            \<and> op_lease_owner q = op_lease_owner r \<and> op_lease_token_sha256 q = op_lease_token_sha256 r))"
proof -
  have ok: "queue_ok b (st_db s)" using assms(2) by (simp add: queue_inv_ok)
  from request_cancel_run [OF assms(1) ok] obtain r where who: "br_agent_id b = HUMAN_OPERATOR_ID"
    and r: "stored b r (st_db s)" "op_operation_id r = py_strip i"
    and q: "q = seal_operation (br_sha256 b) (if op_status r \<in> {Queued, Retry}
          then ended_row Cancelled ''cancelled_before_start'' (py_strip reason) (utc_at s) r
          else cancelling_row (py_strip reason) (utc_at s) r)"
    and put: "governance_operations (st_db t) = put_row q (governance_operations (st_db s))" by blast
  have "op_key r = op_key q" by (simp add: q op_key_def seal_operation_def ended_row_def cancelling_row_def)
  then have "q \<in> set (governance_operations (st_db t))"
    using put r(1) put_row_self [of r "governance_operations (st_db s)" q] by (simp add: stored_def)
  then show ?thesis using who r q
    by (intro conjI bexI [of _ r]) (auto simp: stored_def seal_operation_def ended_row_def cancelling_row_def)
qed

lemma demo_cancel:
  "succeeds (request_cancel demo_human ''o'' HUMAN_OPERATOR_ID ''x'') (in_world (with_ops [demo_leased]))"
  by code_simp

theorem cancel_outcome_witness:
  "op_status (value_of (request_cancel demo_human ''o'' HUMAN_OPERATOR_ID ''x'') (in_world (with_ops [demo_leased]))) = Cancelling"
proof -
  have inv: "queue_inv (br_sha256 demo_human) (st_db (in_world (with_ops [demo_leased])))"
    using demo_inv by (simp add: in_world_def)
  show ?thesis
    using cancel_outcome [OF succeeds_run [OF demo_cancel] inv]
    by (auto simp: in_world_def with_ops_def demo_leased_def)
qed

end
