(* ===== verification/QueueRecovery.thy ===== *)
theory QueueRecovery
  imports WorkerProperties
begin

text \<open>
  Lost workers: a lease that has expired, or whose attempt is past its deadline, does not survive the
  next reconciliation or claim, so a crashed worker cannot hold a resource for ever.
\<close>

section \<open>One lost operation\<close>

definition frees :: "op_row \<Rightarrow> op_row list \<Rightarrow> op_row list \<Rightarrow> bool" where
  "frees r rows rows' \<longleftrightarrow> (\<exists>q. op_key q = op_key r \<and> \<not> leased (op_status q) \<and> rows' = put_row q rows)"

lemma set_terminal_frees:
  assumes "set_terminal_locked b r st out dt u = (Inr q, t)" and "stored b r (st_db u)" and "terminal st"
  shows "frees r (governance_operations (st_db u)) (governance_operations (st_db t))"
  using set_terminal_put [OF assms(1,2)] assms(3) unfolding frees_def
  by (intro exI [of _ q]) (auto simp: seal_operation_def ended_row_def op_key_def TERMINAL_OPERATION_STATUSES_def)

lemma optional_stop_frees:
  assumes "(if c then stop_terminal_guided_discussion b r d reason e ty else tx_return d) s = (Inr dt, u)"
    and "set_terminal_locked b r st out dt u = (Inr q, t)"
    and "core_inv (br_sha256 b) (st_db s)" and "stored b r (st_db s)" and "terminal st"
  shows "frees r (governance_operations (st_db s)) (governance_operations (st_db t))"
proof -
  have same: "same_queue (st_db s) (st_db u)"
  proof (cases c)
    case True
    then show ?thesis using stop_terminal_frame [OF _ assms(3)] assms(1) by simp
  qed (use assms(1) in \<open>simp add: tx_simps\<close>)
  then show ?thesis
    using set_terminal_frees [OF assms(2) stored_same [OF same assms(4)] assms(5)] by (simp add: same_queue_def)
qed

lemma retry_lost_frees:
  assumes "retry_lost b now r timed_out s = (Inr q, t)" and "stored b r (st_db s)"
  shows "frees r (governance_operations (st_db s)) (governance_operations (st_db t))"
proof -
  let ?f = "retried_row now (if timed_out then ''Operation attempt timed out; retry is eligible.''
      else ''Worker lease expired; retry is eligible.'') (utc_at s)"
  from assms(1) obtain w y ty p e where
    up: "update_operations b (op_operation_id r) ?f (tick s) = (Inr (), w)"
    and re: "rehash b (op_operation_id r) w = (Inr q, y)"
    and ev: "event_op b ty p None y = (Inr e, t)"
    unfolding retry_lost_def retried_row_def [abs_def] by (auto simp: tx_simps)
  have key: "op_key (?f r) = op_key r" by (simp add: op_key_def retried_row_def)
  from key_put [OF assms(2) refl key up _ re event_same_queue [OF ev]] show ?thesis
    unfolding frees_def by (intro exI [of _ q]) (simp add: seal_operation_def retried_row_def op_key_def)
qed

lemma reconcile_one_frees:
  assumes "reconcile_one b now r s = (Inr q, t)" and "queue_ok b (st_db s)" and "stored b r (st_db s)"
  shows "frees r (governance_operations (st_db s)) (governance_operations (st_db t))"
proof -
  have core: "core_inv (br_sha256 b) (st_db s)" using assms(2) by (simp add: queue_ok_def)
  note run = assms(1) [unfolded reconcile_one_def tx_bind_ok locked_row [OF assms(2,3)]]
  define timed_out where "timed_out = (epoch_or_zero (op_attempt_deadline_epoch r) \<le> now)"
  from run consider (cancel) "cancel_after_loss b r s = (Inr q, t)" | (guided) "time_out_guided b r s = (Inr q, t)"
    | (retry) "retry_lost b now r timed_out s = (Inr q, t)" | (fail) auto where "fail_lost b r auto timed_out s = (Inr q, t)"
    unfolding timed_out_def Let_def by (auto simp: tx_bind_ok tx_lift_ok split: if_splits)
  then obtain c d reason e ty dt u st out where "retry_lost b now r timed_out s = (Inr q, t)
    \<or> (if c then stop_terminal_guided_discussion b r d reason e ty else tx_return d) s = (Inr dt, u)
      \<and> set_terminal_locked b r st out dt u = (Inr q, t) \<and> terminal st"
  proof cases
    case cancel
    then show ?thesis using that unfolding cancel_after_loss_def Let_def tx_bind_ok TERMINAL_OPERATION_STATUSES_def by fastforce
  next
    case guided
    then obtain u dt reason' e' ty' d' out' where "(if True then stop_terminal_guided_discussion b r d' reason' e' ty' else tx_return d') s = (Inr dt, u)"
      "set_terminal_locked b r Failed out' dt u = (Inr q, t)"
      unfolding time_out_guided_def tx_bind_ok by auto
    moreover have "terminal Failed" by (simp add: TERMINAL_OPERATION_STATUSES_def)
    ultimately show ?thesis using that by blast
  next
    case fail
    then show ?thesis using that unfolding fail_lost_def tx_bind_ok TERMINAL_OPERATION_STATUSES_def by fastforce
  qed blast
  then show ?thesis
    using retry_lost_frees [OF _ assms(3)] optional_stop_frees [OF _ _ core assms(3)] by blast
qed

section \<open>All of them\<close>

definition lost :: "bridge \<Rightarrow> int \<Rightarrow> op_row \<Rightarrow> bool" where
  "lost b now r \<longleftrightarrow> op_scope r = br_scope b \<and> leased (op_status r) \<and> expired now r"

lemma frees_lost:
  assumes "frees r rows rows'" and "{x \<in> set rows. lost b now x} \<subseteq> insert r X" and "distinct (map op_key rows)"
  shows "{x \<in> set rows'. lost b now x} \<subseteq> X"
proof -
  obtain q where q: "op_key q = op_key r" "\<not> leased (op_status q)" "rows' = put_row q rows" using assms(1) by (auto simp: frees_def)
  have "x \<in> set rows \<and> op_key x \<noteq> op_key r \<or> x = q" if "x \<in> set rows'" for x
    using that q(1) by (auto simp: q(3) put_row_def set_update_where split: if_splits)
  then show ?thesis using assms(2) q(2) by (fastforce simp: lost_def)
qed

lemma reconcile_locked_frees:
  assumes "reconcile_locked b now s = (Inr rs, t)" and "queue_ok b (st_db s)"
  shows "{x \<in> set (governance_operations (st_db t)). lost b now x} = {}"
proof -
  obtain xs ys u where retries: "tx_for (refuse_persisted_retry b) (persisted_retries b (st_db s)) s = (Inr xs, u)"
    and run: "tx_for (reconcile_one b now) (expired_rows b now (st_db u)) u = (Inr ys, t)"
    using assms(1) unfolding reconcile_locked_def by (auto simp: tx_simps)
  have oku: "queue_ok b (st_db u)" using refuse_retries_evolves [OF retries assms(2)] evolves_ok assms(2) by blast
  then have tab: "table_ok (br_sha256 b) (governance_operations (st_db u))" by (simp add: queue_ok_def)
  let ?J = "\<lambda>rest d. queue_ok b d \<and> distinct (map op_key rest)
    \<and> (\<forall>r \<in> set rest. r \<in> set (governance_operations d) \<and> lost b now r)
    \<and> {x \<in> set (governance_operations d). lost b now x} \<subseteq> set rest"
  have "?J [] (st_db t)"
  proof (rule tx_for_rule [where J = ?J, OF run])
    show "?J (expired_rows b now (st_db u)) (st_db u)"
      using by_creation_rows [OF tab] oku by (auto simp: expired_rows_def lost_def)
    fix r rest v a w
    assume J: "?J (r # rest) (st_db v)" and f: "reconcile_one b now r v = (Inr a, w)"
    have okv: "queue_ok b (st_db v)" and dist: "distinct (map op_key (governance_operations (st_db v)))"
      using J by (auto simp: queue_ok_def table_ok_def)
    have st: "stored b r (st_db v)" "leased (op_status r)" using J dist by (auto simp: stored_def lost_def)
    have free: "frees r (governance_operations (st_db v)) (governance_operations (st_db w))"
      by (rule reconcile_one_frees [OF f okv st(1)])
    have okw: "queue_ok b (st_db w)"
      using row_effect_evolves [OF reconcile_one_effect [OF f okv st] st(1)] evolves_ok okv by blast
    have rest: "x \<in> set (governance_operations (st_db w))" if m: "x \<in> set rest" for x
    proof -
      have "x \<in> set (governance_operations (st_db v))" "op_key x \<noteq> op_key r" using J m by (auto simp: image_iff)
      then show ?thesis using free by (auto simp: frees_def put_row_def set_update_where)
    qed
    show "?J rest (st_db w)"
      using J okw rest frees_lost [OF free, of b now "set rest"] dist by auto
  qed
  then show ?thesis by simp
qed

text \<open>The lease of a claim is not lost at the instant of the claim.\<close>

lemma lease_not_lost:
  assumes "lease_to b w now ls r s = (Inr k, t)" and "queue_ok b (st_db s)" and "stored b r (st_db s)" and "1 \<le> ls"
    and "{x \<in> set (governance_operations (st_db s)). lost b now x} = {}"
  shows "{x \<in> set (governance_operations (st_db t)). lost b now x} = {}"
proof -
  have "op_ok r" using assms(2,3) by (auto simp: queue_ok_def table_ok_def stored_def)
  then have "\<not> expired now (oc_operation k)"
    using lease_to_put [OF assms(1-3)] assms(4)
    by (simp add: expired_def seal_operation_def claimed_row_def op_ok_def limits_ok_def)
  then show ?thesis
    using lease_to_put [OF assms(1-3)] assms(5) by (auto simp: put_row_def set_update_where lost_def)
qed

lemma claim_tx_frees:
  assumes "claim_tx b w now ls cls s = (Inr k, t)" and "queue_ok b (st_db s)" and "1 \<le> ls"
  shows "{x \<in> set (governance_operations (st_db t)). lost b now x} = {}"
proof -
  from assms(1) obtain xs v ys u where rec: "recover_unbound_guided_locked b now s = (Inr xs, v)"
    and con: "reconcile_locked b now v = (Inr ys, u)"
    and rest: "(case candidates b now cls (st_db u) of [] \<Rightarrow> tx_return None
       | c # _ \<Rightarrow> tx_bind (lease_to b w now ls c) (\<lambda>k. tx_return (Some k))) u = (Inr k, t)"
    unfolding claim_tx_def by (auto simp: tx_bind_ok tx_then_ok tx_query_ok)
  have okv: "queue_ok b (st_db v)" using evolves_ok [OF recover_unbound_evolves [OF rec assms(2)] assms(2)] .
  have oku: "queue_ok b (st_db u)" using evolves_ok [OF reconcile_locked_evolves [OF con okv] okv] .
  have free: "{x \<in> set (governance_operations (st_db u)). lost b now x} = {}" by (rule reconcile_locked_frees [OF con okv])
  show ?thesis
  proof (cases "candidates b now cls (st_db u)")
    case Nil
    then show ?thesis using rest free by (simp add: tx_simps)
  next
    case (Cons r cs)
    then obtain g where g: "lease_to b w now ls r u = (Inr g, t)" using rest by (auto simp: tx_simps)
    have "stored b r (st_db u)"
      using candidate_row [OF Cons] oku by (auto simp: stored_def queue_ok_def table_ok_def claimable_def)
    then show ?thesis using lease_not_lost [OF g oku _ assms(3) free] by blast
  qed
qed

lemma recovered_at:
  fixes s t :: "'a queue_db_scheme pstate"
  assumes "queue_inv (br_sha256 b) (st_db s)"
    and "reconcile b (Some now) s = (Inr rs, t) \<or> claim b w (Some now) ls cl s = (Inr k, t)"
  shows "{x \<in> set (governance_operations (st_db t)). op_scope x = br_scope b \<and> leased (op_status x) \<and> expired now x} = {}"
proof -
  have ok: "queue_ok b (st_db s)" using assms(1) by (simp add: queue_inv_ok)
  have "{x \<in> set (governance_operations (st_db t)). lost b now x} = {}"
    using assms(2)
  proof
    assume "reconcile b (Some now) s = (Inr rs, t)"
    then obtain xs ys and u v :: "'a queue_db_scheme pstate" where "epoch_or_now (Some now) s = (Inr now, u)" and rec: "recover_unbound_guided_locked b now u = (Inr xs, v)"
      and con: "reconcile_locked b now v = (Inr ys, t)" and u: "st_db u = st_db s"
      unfolding reconcile_def require_service_transition_def by (auto simp: tx_simps epoch_or_now_def)
    have "queue_ok b (st_db v)" using evolves_ok [OF recover_unbound_evolves [OF rec]] ok u by simp
    then show ?thesis by (rule reconcile_locked_frees [OF con])
  next
    assume run: "claim b w (Some now) ls cl s = (Inr k, t)"
    then obtain cls and u :: "'a queue_db_scheme pstate" where u: "st_db u = st_db s" "claim_tx b (py_strip w) now ls cls u = (Inr k, t)"
      using claim_run by (fastforce simp: epoch_or_now_def tx_simps)
    have "1 \<le> ls" using run by (auto simp: claim_def tx_simps check_lease_seconds_def)
    then show ?thesis using claim_tx_frees [OF u(2)] u(1) ok by simp
  qed
  then show ?thesis by (simp add: lost_def)
qed

text \<open>C16: lost workers are recovered. After a reconciliation, and after every successful claim, no operation
  of the scope is running or cancelling under a lease that has expired, or past the deadline of its attempt,
  at the instant \<open>now\<close> of the call: the one given or, by default, the clock the call reads. Each such
  operation was ended, or queued for a retry.\<close>

theorem lost_workers_are_recovered:
  fixes s t :: "'a queue_db_scheme pstate"
  assumes "queue_inv (br_sha256 b) (st_db s)"
    and "reconcile b n s = (Inr rs, t) \<or> claim b w n ls cl s = (Inr k, t)"
    and "now = (case n of None \<Rightarrow> time_at s | Some e \<Rightarrow> e)"
  shows "{x \<in> set (governance_operations (st_db t)). op_scope x = br_scope b \<and> leased (op_status x) \<and> expired now x} = {}"
proof -
  note at = assms(2) [unfolded clock_given(1) [where n = n] clock_given(6) [where n = n]]
  show ?thesis using recovered_at [OF _ at] assms(1) by (simp add: assms(3) call_time_def)
qed

lemma demo_recovery: "succeeds (reconcile demo_room (Some 200)) (in_world (with_ops [demo_leased]))"
  by code_simp

theorem lost_workers_are_recovered_witness:
  "{x \<in> set (governance_operations (st_db (after (reconcile demo_room (Some 200)) (in_world (with_ops [demo_leased]))))).
     op_scope x = br_scope demo_room \<and> leased (op_status x) \<and> expired 200 x} = {}"
proof -
  have "queue_inv (br_sha256 demo_room) (st_db (in_world (with_ops [demo_leased])))" using demo_inv by (simp add: in_world_def)
  from lost_workers_are_recovered [OF this disjI1 [OF succeeds_run [OF demo_recovery]] refl] show ?thesis by simp
qed

section \<open>Calls that raise\<close>

text \<open>
  \<open>bind_guided_discussion\<close> is the one call that commits before it raises: an operation that cannot be bound is
  failed in the transaction, and the error follows.
\<close>

lemma bind_failure_run:
  assumes "bind_guided_tx b i did s = (Inr (q, Some msg), t)" and "queue_ok b (st_db s)"
  shows "\<exists>r dt u. stored b r (st_db s) \<and> op_operation_id r = i \<and> op_status r \<in> {Queued, Retry}
    \<and> q = seal_operation (br_sha256 b) (ended_row Failed ''source-binding'' dt u r)
    \<and> governance_operations (st_db t) = put_row q (governance_operations (st_db s))"
proof -
  from assms(1) obtain r where r: "fetch_one (op_is b i) (governance_operations (st_db s)) = Some r"
    unfolding bind_guided_tx_def by (auto simp: tx_bind_ok row_locked_ok)
  have st: "stored b r (st_db s)" "op_operation_id r = i"
    using fetch_op [OF r] assms(2) by (auto simp: stored_def queue_ok_def table_ok_def)
  obtain dt rows g where fail: "fail_unbound_guided b r dt rows s = (Inr q, t)" "op_status r \<in> {Queued, Retry}"
      "rows = [] \<or> rows = open_guided_task_rows b g (st_db s)"
    using assms(1) r unfolding bind_guided_tx_def Let_def
    by (auto simp: tx_simps split: if_splits option.splits)
  obtain n u dt' where stop: "stop_guided_rows b r rows ''workflow_source_binding_failed''
      ''discussion_source_binding_failed'' ''discussion.source_binding_failed'' s = (Inr n, u)"
    and run: "set_terminal_locked b r Failed ''source-binding'' dt' u = (Inr q, t)"
    using fail(1) unfolding fail_unbound_guided_def by (auto simp: tx_simps)
  have "core_inv (br_sha256 b) (st_db s)" "rows_present b rows (st_db s)"
    using assms(2) fail(3) open_rows_present by (auto simp: queue_ok_def rows_present_def)
  then have same: "same_queue (st_db s) (st_db u)" using stop_guided_rows_frame [OF stop] by blast
  have "q = seal_operation (br_sha256 b) (ended_row Failed ''source-binding'' dt' (utc_at u) r)
      \<and> governance_operations (st_db t) = put_row q (governance_operations (st_db u))"
    using set_terminal_put [OF run stored_same [OF same st(1)]] by blast
  then show ?thesis using st fail(2) same by (auto simp: same_queue_def)
qed

text \<open>A call that raises leaves the database as it was, whatever it had written before the error. The only
  exception is the late failure of \<open>bind_guided_discussion\<close>: when it raises, either nothing changed, or the
  operation it names was queued or waiting for a retry, is now failed with the outcome \<open>source-binding\<close>, and
  no other operation changed.\<close>

theorem failed_calls_change_nothing:
  "(enqueue b request n s = (Inl e, t) \<longrightarrow> st_db t = st_db s)
    \<and> (ensure b request who mo s = (Inl e, t) \<longrightarrow> st_db t = st_db s)
    \<and> (reconcile b n s = (Inl e, t) \<longrightarrow> st_db t = st_db s)
    \<and> (claim b w n ls cl s = (Inl e, t) \<longrightarrow> st_db t = st_db s)
    \<and> (heartbeat b i w tok n ls s = (Inl e, t) \<longrightarrow> st_db t = st_db s)
    \<and> (complete b i w tok out dt n s = (Inl e, t) \<longrightarrow> st_db t = st_db s)
    \<and> (fail_op b i w tok cls dt ra allow n s = (Inl e, t) \<longrightarrow> st_db t = st_db s)
    \<and> (request_cancel b i rb reason s = (Inl e, t) \<longrightarrow> st_db t = st_db s)
    \<and> (acknowledge_cancel b i w tok n s = (Inl e, t) \<longrightarrow> st_db t = st_db s)
    \<and> (save_schedule b sq s = (Inl e, t) \<longrightarrow> st_db t = st_db s)
    \<and> (set_schedule_enabled b i on rb s = (Inl e, t) \<longrightarrow> st_db t = st_db s)
    \<and> (materialize_due_schedules b n limit s = (Inl e, t) \<longrightarrow> st_db t = st_db s)
    \<and> (bind_guided_discussion b i did s = (Inl e, t) \<longrightarrow> queue_inv (br_sha256 b) (st_db s) \<longrightarrow> st_db t = st_db s
       \<or> (\<exists>r \<in> set (governance_operations (st_db s)). \<exists>q. op_scope r = br_scope b \<and> op_operation_id r = py_strip i
           \<and> op_status r \<in> {Queued, Retry} \<and> op_status q = Failed \<and> op_terminal_outcome q = Some ''source-binding''
           \<and> op_key q = op_key r \<and> governance_operations (st_db t) = put_row q (governance_operations (st_db s))))"
proof (intro conjI impI)
  assume run: "bind_guided_discussion b i did s = (Inl e, t)" and inv: "queue_inv (br_sha256 b) (st_db s)"
  consider "st_db t = st_db s" | did' q msg u where
      "bind_guided_tx b (py_strip i) did' s = (Inr (q, Some msg), u)" "st_db t = st_db u"
    using run unfolding bind_guided_discussion_def
    by (auto simp: tx_errs tx_simps op_identifier_Inr split: option.splits)
  then show "st_db t = st_db s
       \<or> (\<exists>r \<in> set (governance_operations (st_db s)). \<exists>q. op_scope r = br_scope b \<and> op_operation_id r = py_strip i
           \<and> op_status r \<in> {Queued, Retry} \<and> op_status q = Failed \<and> op_terminal_outcome q = Some ''source-binding''
           \<and> op_key q = op_key r \<and> governance_operations (st_db t) = put_row q (governance_operations (st_db s)))"
  proof cases
    case 2
    obtain r dt v where r: "stored b r (st_db s)" "op_operation_id r = py_strip i" "op_status r \<in> {Queued, Retry}"
      "q = seal_operation (br_sha256 b) (ended_row Failed ''source-binding'' dt v r)"
      "governance_operations (st_db u) = put_row q (governance_operations (st_db s))"
      using bind_failure_run [OF 2(1)] inv by (auto simp: queue_inv_ok)
    have "op_status q = Failed" "op_terminal_outcome q = Some ''source-binding''" "op_key q = op_key r"
      by (simp_all add: r(4) seal_operation_def ended_row_def op_key_def)
    then show ?thesis using r 2(2) by (auto simp: stored_def)
  qed simp
qed (erule atomicD [OF atomic_calls(1)] atomicD [OF atomic_calls(2)] atomicD [OF atomic_calls(3)]
      atomicD [OF atomic_calls(4)] atomicD [OF atomic_calls(5)] atomicD [OF atomic_calls(6)] atomicD [OF atomic_calls(7)]
      atomicD [OF atomic_calls(8)] atomicD [OF atomic_calls(9)] atomicD [OF atomic_calls(10)]
      atomicD [OF atomic_calls(11)] atomicD [OF atomic_calls(12)])+

lemma stale_complete:
  "raises (complete demo_room ''o'' ''w'' ''old-token'' ''done'' ''x'' (Some 20)) (in_world (with_ops [demo_leased]))
     (OperationQueueError ''operation lease token does not match'')"
  by code_simp

theorem failed_calls_change_nothing_witness:
  "st_db (after (complete demo_room ''o'' ''w'' ''old-token'' ''done'' ''x'' (Some 20)) (in_world (with_ops [demo_leased])))
     = with_ops [demo_leased]"
  using failed_calls_change_nothing [THEN conjunct2, THEN conjunct2, THEN conjunct2, THEN conjunct2, THEN conjunct2,
      THEN conjunct1, rule_format, OF raises_run [OF stale_complete]]
  by (simp add: in_world_def)

end
