(* ===== verification/TaskPaths.thy ===== *)
theory TaskPaths
  imports AuditChain
begin

text \<open>
  The paths a task leases, from \<open>bridge.py\<close>: normalisation, the protected paths, and when two scopes
  overlap. A normalised path is project-relative POSIX text, \<open>.\<close> for the project root. Resolving
  symbolic links is the operating system's: \<open>ws_resolve\<close> maps the cleaned text to the project-relative
  form of \<open>(root / candidate).resolve()\<close>, or None when that is outside the root, and nothing is assumed
  of it. \<open>ws_file\<close> gives the bytes of a regular file of the project, as one call sees it. The POSIX
  branches are modelled (on Windows the comparison keys are case-folded first).
\<close>

record workspace =
  ws_resolve :: "string \<Rightarrow> string option"
  ws_protected :: "string list"
  ws_file :: "string \<Rightarrow> string option"

section \<open>Text of paths\<close>

text \<open>\<open>text.split(c)\<close>, never empty.\<close>

fun split_on :: "char \<Rightarrow> string \<Rightarrow> string list" where
  "split_on c [] = [[]]"
| "split_on c (x # xs) = (if x = c then [] # split_on c xs else (case split_on c xs of
     [] \<Rightarrow> [[x]] | p # ps \<Rightarrow> (x # p) # ps))"

text \<open>\<open>Path(text).parts\<close> of a relative POSIX path.\<close>

definition path_parts :: "string \<Rightarrow> string list" where
  "path_parts text = filter (\<lambda>p. p \<noteq> [] \<and> p \<noteq> ''.'') (split_on (CHR ''/'') text)"

definition replace_backslashes :: "string \<Rightarrow> string" where
  "replace_backslashes text = map (\<lambda>c. if c = CHR 0x5C then CHR ''/'' else c) text"

definition rstrip_chars :: "char set \<Rightarrow> string \<Rightarrow> string" where
  "rstrip_chars cs text = rev (dropWhile (\<lambda>c. c \<in> cs) (rev text))"

definition normalize_path :: "workspace \<Rightarrow> string \<Rightarrow> exn + string" where
  "normalize_path ws value =
    (let text = replace_backslashes (py_strip value) in
     if text = [] then Inl (BridgeError ''path must be a non-empty project-relative path'')
     else if hd text = CHR ''/'' \<or> ''..'' \<in> set (path_parts text)
       then Inl (BridgeError ''path must remain inside the project root'')
     else case ws_resolve ws text of
       None \<Rightarrow> Inl (BridgeError ''path escapes the project root'')
     | Some normalized \<Rightarrow> Inr (if normalized = [] \<or> normalized = ''.'' then ''.''
         else rstrip_chars {CHR ''/''} normalized))"

section \<open>Sensitive names\<close>

definition SENSITIVE_PARTS :: "string list" where
  "SENSITIVE_PARTS = [''.env'', ''.aws'', ''.ssh'', ''.azure'', ''.docker'', ''.git-credentials'', ''.netrc'', ''.npmrc'',
     ''.pypirc'', ''.terraform.d'', ''credentials'', ''credentials.json'', ''id_dsa'', ''id_ecdsa'', ''id_ed25519'', ''id_rsa'',
     ''secrets'', ''secret'', ''private_key'']"

definition SENSITIVE_PATH_PREFIXES :: "string list list" where
  "SENSITIVE_PATH_PREFIXES = [[''.config'', ''gcloud'']]"

definition SENSITIVE_SUFFIXES :: "string list" where
  "SENSITIVE_SUFFIXES = [''.der'', ''.jks'', ''.kdbx'', ''.key'', ''.mobileconfig'', ''.ovpn'', ''.p12'', ''.pem'', ''.pfx'']"

definition WINDOWS_RESERVED_NAMES :: "string list" where
  "WINDOWS_RESERVED_NAMES = [''aux'', ''clock$'', ''con'', ''nul'', ''prn'']
     @ map (\<lambda>n. ''com'' @ show_nat n) [1..<10] @ map (\<lambda>n. ''lpt'' @ show_nat n) [1..<10]"

text \<open>\<open>text.split(c, 1)[0]\<close>.\<close>

definition before_char :: "char \<Rightarrow> string \<Rightarrow> string" where
  "before_char c text = takeWhile (\<lambda>x. x \<noteq> c) text"

text \<open>\<open>PurePath.suffix\<close> of a name: from its last dot, unless that is the first or the last character.\<close>

definition path_suffix :: "string \<Rightarrow> string" where
  "path_suffix name =
    (let tail = rev (takeWhile (\<lambda>c. c \<noteq> CHR ''.'') (rev name));
         i = int (length name) - int (length tail) - 1 in
     if 0 < i \<and> tail \<noteq> [] then CHR ''.'' # tail else [])"

definition part_sensitive :: "string \<Rightarrow> bool" where
  "part_sensitive part =
    (let lowered = py_lower part;
         basename = rstrip_chars {CHR '' '', CHR ''.''} (before_char (CHR '':'') lowered);
         stem = before_char (CHR ''.'') basename in
     CHR '':'' \<in> set lowered \<or> starts_with basename ''.env.'' \<or> basename \<in> set SENSITIVE_PARTS
     \<or> stem \<in> set WINDOWS_RESERVED_NAMES \<or> path_suffix basename \<in> set SENSITIVE_SUFFIXES)"

fun suffixes_of :: "'a list \<Rightarrow> 'a list list" where
  "suffixes_of [] = [[]]"
| "suffixes_of (x # xs) = (x # xs) # suffixes_of xs"

definition path_parts_are_sensitive :: "string \<Rightarrow> bool" where
  "path_parts_are_sensitive path =
    (let parts = path_parts path;
         lowered_parts = map (\<lambda>p. rstrip_chars {CHR '' '', CHR ''.''} (py_lower p)) parts in
     list_ex (\<lambda>prefix. list_ex (\<lambda>rest. take (length prefix) rest = prefix) (suffixes_of lowered_parts))
       SENSITIVE_PATH_PREFIXES
     \<or> list_ex part_sensitive parts)"

section \<open>Overlapping scopes\<close>

definition path_overlaps :: "string \<Rightarrow> string \<Rightarrow> bool" where
  "path_overlaps left right =
    (if left = ''.'' \<or> right = ''.'' then True
     else left = right \<or> starts_with left (right @ ''/'') \<or> starts_with right (left @ ''/''))"

definition path_within :: "string \<Rightarrow> string \<Rightarrow> bool" where
  "path_within path prefix = (prefix = ''.'' \<or> path = prefix \<or> starts_with path (prefix @ ''/''))"

definition is_protected :: "workspace \<Rightarrow> string \<Rightarrow> bool" where
  "is_protected ws normalized =
     (path_parts_are_sensitive normalized \<or> list_ex (path_overlaps normalized) (ws_protected ws))"

definition MAX_TASK_PATHS :: nat where "MAX_TASK_PATHS = 100"

text \<open>A comprehension that calls a raising function: the first raise ends it.\<close>

fun res_map :: "('x \<Rightarrow> 'e + 'a) \<Rightarrow> 'x list \<Rightarrow> 'e + 'a list" where
  "res_map f [] = Inr []"
| "res_map f (x # xs) = res_bind (f x) (\<lambda>a. res_bind (res_map f xs) (\<lambda>as. Inr (a # as)))"

lemma res_map_Inr: "res_map f xs = Inr ys \<longleftrightarrow> list_all2 (\<lambda>x y. f x = Inr y) xs ys"
proof (induction xs arbitrary: ys)
  case (Cons x xs)
  then show ?case by (cases ys) (auto simp: tx_simps)
qed (auto simp: tx_simps)

definition clean_task_path :: "workspace \<Rightarrow> bool \<Rightarrow> string \<Rightarrow> exn + string" where
  "clean_task_path ws write value = res_bind (normalize_path ws value) (\<lambda>normalized.
     res_require (\<not> (write \<and> is_protected ws normalized))
       (BridgeError (''write scope is protected or sensitive: '' @ normalized)) (Inr normalized))"

definition clean_task_paths :: "workspace \<Rightarrow> bool \<Rightarrow> string list \<Rightarrow> exn + string list" where
  "clean_task_paths ws write values =
     res_require (length values \<le> MAX_TASK_PATHS)
       (BridgeError ((if write then ''write'' else ''read'') @ ''_paths exceeds the task path limit''))
    (res_bind (res_map (clean_task_path ws write) values) (\<lambda>clean. Inr (sort (remdups clean))))"

section \<open>Artifacts\<close>

definition CHAT_ATTACHMENT_ROOT :: string where
  "CHAT_ATTACHMENT_ROOT = ''.peerbridge-artifacts/chat''"

definition RELEASE_GATE_ARTIFACT_ROOT :: string where
  "RELEASE_GATE_ARTIFACT_ROOT = ''.peerbridge-artifacts/release-gates''"

definition MAX_CHAT_ATTACHMENT_BYTES :: int where
  "MAX_CHAT_ATTACHMENT_BYTES = 8 * 1024 * 1024"

definition CHAT_ATTACHMENT_SUFFIXES :: "string list" where
  "CHAT_ATTACHMENT_SUFFIXES = [''.csv'', ''.flac'', ''.gif'', ''.jpeg'', ''.jpg'', ''.json'', ''.log'', ''.m4a'', ''.md'',
     ''.mp3'', ''.ogg'', ''.png'', ''.txt'', ''.wav'', ''.webp'']"

definition path_name :: "string \<Rightarrow> string" where
  "path_name path = (case path_parts path of [] \<Rightarrow> [] | p # ps \<Rightarrow> last (p # ps))"

definition path_stem :: "string \<Rightarrow> string" where
  "path_stem path = (let name = path_name path in take (length name - length (path_suffix name)) name)"

text \<open>\<open>Path(path).parent.as_posix() == root\<close> for a root of two components.\<close>

definition parent_is :: "string \<Rightarrow> string \<Rightarrow> bool" where
  "parent_is path root = (path_parts path \<noteq> [] \<and> butlast (path_parts path) = path_parts root)"

definition release_gate_manifest :: "string \<Rightarrow> bool" where
  "release_gate_manifest path = (case path_parts path of
     [a, b, c, d] \<Rightarrow> [a, b] = path_parts RELEASE_GATE_ARTIFACT_ROOT \<and> is_sha256_hex c \<and> d = ''source.json''
   | _ \<Rightarrow> False)"

definition staged_attachment_ok :: "(string \<Rightarrow> string) \<Rightarrow> string \<Rightarrow> string \<Rightarrow> bool" where
  "staged_attachment_ok H path content =
    (let digest = py_lower (path_stem path) in
     parent_is path CHAT_ATTACHMENT_ROOT \<and> py_lower (path_suffix (path_name path)) \<in> set CHAT_ATTACHMENT_SUFFIXES
     \<and> is_sha256_hex digest \<and> int (length content) \<le> MAX_CHAT_ATTACHMENT_BYTES \<and> sha256_bytes H content = digest)"

text \<open>One attached path that was not seen before: it is a readable file, and exposed.\<close>

definition clean_artifact :: "(string \<Rightarrow> string) \<Rightarrow> workspace \<Rightarrow> string \<Rightarrow> exn + string" where
  "clean_artifact H ws normalized =
    (let staged = starts_with normalized (CHAT_ATTACHMENT_ROOT @ ''/'');
         manifest = release_gate_manifest normalized in
     res_require (\<not> (is_protected ws normalized \<and> \<not> staged \<and> \<not> manifest))
       (BridgeError (''protected or sensitive artifact is not exposed: '' @ normalized))
    (res_bind (normalize_path ws normalized) (\<lambda>resolved.
     case (if resolved = ''.'' then None else ws_file ws resolved) of
       None \<Rightarrow> Inl (BridgeError (''artifact does not exist as a file: '' @ resolved))
     | Some content \<Rightarrow>
         res_require (staged \<longrightarrow> staged_attachment_ok H normalized content)
           (BridgeError ''staged chat attachment is not a valid content-addressed file'')
        (res_require (manifest \<longrightarrow> int (length content) \<le> 64 * 1024)
           (BridgeError ''release gate manifest exceeds the bounded size'')
        (Inr resolved)))))"

fun clean_artifacts_loop :: "(string \<Rightarrow> string) \<Rightarrow> workspace \<Rightarrow> bool \<Rightarrow> string set \<Rightarrow> string list \<Rightarrow> exn + string list" where
  "clean_artifacts_loop H ws reject seen [] = Inr []"
| "clean_artifacts_loop H ws reject seen (value # values) =
     res_bind (normalize_path ws value) (\<lambda>normalized.
     if normalized \<in> seen then
       res_require (\<not> reject) (BridgeError ''artifact_paths contains duplicate normalized paths'')
         (clean_artifacts_loop H ws reject seen values)
     else
       res_bind (clean_artifact H ws normalized) (\<lambda>path.
       res_bind (clean_artifacts_loop H ws reject (insert normalized seen) values) (\<lambda>rest.
       Inr (path # rest))))"

definition clean_artifacts :: "(string \<Rightarrow> string) \<Rightarrow> workspace \<Rightarrow> string list \<Rightarrow> int option \<Rightarrow> bool \<Rightarrow> exn + string list" where
  "clean_artifacts H ws values max_count reject =
     res_require (case max_count of None \<Rightarrow> True | Some n \<Rightarrow> int (length values) \<le> n)
       (BridgeError ''artifact_paths exceeds the attachment count limit'')
       (clean_artifacts_loop H ws reject {} values)"

section \<open>Scopes as directories\<close>

text \<open>A path as the list of its components; the root is the empty list.\<close>

definition components :: "string \<Rightarrow> string list" where
  "components path = (if path = ''.'' then [] else split_on (CHR ''/'') path)"

definition is_ancestor :: "'a list \<Rightarrow> 'a list \<Rightarrow> bool" where
  "is_ancestor p q \<longleftrightarrow> take (length p) q = p"

lemma split_on_nonempty [simp]: "split_on c s \<noteq> []"
  by (cases s) (auto split: list.splits)

lemma split_on_no_char: "c \<notin> set s \<Longrightarrow> split_on c s = [s]"
  by (induction s) auto

fun join_on :: "char \<Rightarrow> string list \<Rightarrow> string" where
  "join_on c [] = []"
| "join_on c [p] = p"
| "join_on c (p # q # ps) = p @ c # join_on c (q # ps)"

lemma join_cons: "ps \<noteq> [] \<Longrightarrow> join_on c (p # ps) = p @ c # join_on c ps"
  by (cases ps) auto

lemma split_append_sep: "split_on c (s @ c # t) = split_on c s @ split_on c t"
  by (induction s) (auto split: list.splits)

lemma split_on_no_sep: "p \<in> set (split_on c s) \<Longrightarrow> c \<notin> set p"
proof (induction s arbitrary: p)
  case (Cons x xs)
  show ?case
  proof (cases "split_on c xs")
    case (Cons q qs)
    then show ?thesis using Cons.prems Cons.IH by (auto split: if_splits)
  qed simp
qed simp

lemma join_split: "join_on c (split_on c s) = s"
proof (induction s)
  case (Cons x xs)
  show ?case
  proof (cases "x = c")
    case True
    then show ?thesis using Cons by (simp add: join_cons)
  next
    case False
    obtain p ps where "split_on c xs = p # ps" by (cases "split_on c xs") auto
    then show ?thesis using Cons False by (cases ps) auto
  qed
qed simp

lemma split_on_inj: "split_on c s = split_on c t \<Longrightarrow> s = t"
  using join_split by metis

lemma starts_with_iff: "starts_with s p \<longleftrightarrow> (\<exists>r. s = p @ r)"
  by (metis append_eq_conv_conj append_take_drop_id starts_with_def)

lemma ancestor_iff: "is_ancestor p q \<longleftrightarrow> (\<exists>r. q = p @ r)"
  by (metis append_eq_conv_conj append_take_drop_id is_ancestor_def)

lemma join_append: "ps \<noteq> [] \<Longrightarrow> qs \<noteq> [] \<Longrightarrow> join_on c (ps @ qs) = join_on c ps @ c # join_on c qs"
  by (induction ps rule: join_on.induct) (auto simp: join_cons)

lemma split_prefix: "is_ancestor (split_on c p) (split_on c q) \<longleftrightarrow> q = p \<or> starts_with q (p @ [c])"
proof
  assume "is_ancestor (split_on c p) (split_on c q)"
  then obtain r where r: "split_on c q = split_on c p @ r" by (auto simp: ancestor_iff)
  show "q = p \<or> starts_with q (p @ [c])"
  proof (cases "r = []")
    case True
    then show ?thesis using r split_on_inj by auto
  next
    case False
    then have "join_on c (split_on c q) = join_on c (split_on c p) @ c # join_on c r"
      using r join_append by (metis split_on_nonempty)
    then show ?thesis by (simp add: join_split starts_with_iff)
  qed
next
  assume "q = p \<or> starts_with q (p @ [c])"
  then show "is_ancestor (split_on c p) (split_on c q)"
    by (auto simp: ancestor_iff starts_with_iff split_append_sep)
qed

lemma path_within_components: "path_within path prefix \<longleftrightarrow> is_ancestor (components prefix) (components path)"
proof -
  have dot: "split_on (CHR ''/'') ''.'' = [''.'']" by simp
  consider "prefix = ''.''" | "prefix \<noteq> ''.''" "path = ''.''" | "prefix \<noteq> ''.''" "path \<noteq> ''.''" by blast
  then show ?thesis
  proof cases
    case 2
    have "\<not> starts_with ''.'' (prefix @ ''/'')" by (cases prefix) (auto simp: starts_with_iff)
    then show ?thesis using 2 split_on_nonempty [THEN not_sym]
      by (simp add: path_within_def components_def is_ancestor_def)
  next
    case 3
    then show ?thesis using split_prefix [of "CHR ''/''" prefix path]
      by (simp add: path_within_def components_def)
  qed (simp add: path_within_def components_def is_ancestor_def)
qed

lemma path_overlaps_within: "path_overlaps left right \<longleftrightarrow> path_within left right \<or> path_within right left"
  by (auto simp: path_overlaps_def path_within_def)

lemma path_overlaps_sym: "path_overlaps left right = path_overlaps right left"
  by (auto simp: path_overlaps_def)

text \<open>C36: two scopes overlap exactly when one is an ancestor directory of the other (or both are equal),
  component by component: \<open>src/a\<close> and \<open>src/ab\<close> do not overlap, and the root overlaps everything.\<close>

theorem path_overlaps_ancestors:
  "path_overlaps left right \<longleftrightarrow> is_ancestor (components left) (components right)
     \<or> is_ancestor (components right) (components left)"
  using path_overlaps_within path_within_components by blast

end
