(* ===== verification/Tasks.thy ===== *)
theory Tasks
  imports TaskPaths
begin

text \<open>
  \<open>bridge.py\<close>, tasks: \<open>claim_task\<close> leases a set of read and write paths of the project to one agent
  session, \<open>renew_task\<close>, \<open>release_task\<close>, \<open>announce_work\<close> and \<open>request_review\<close> need that lease, the
  addressed peers answer with \<open>submit_review\<close>, and \<open>review_summary\<close> decides whether the task may be
  completed. Arguments arrive with the types of the tool schema; a missing argument is None.
\<close>

datatype task_status = Task_Open | Task_Claimed | Task_Blocked | Task_Complete

datatype approval_mode = Solo_Allowed | Two_Party_Required | Presence_Aware | Quorum_Required

fun approval_text :: "approval_mode \<Rightarrow> string" where
  "approval_text Solo_Allowed = ''solo_allowed''"
| "approval_text Two_Party_Required = ''two_party_required''"
| "approval_text Presence_Aware = ''presence_aware''"
| "approval_text Quorum_Required = ''quorum_required''"

definition DEFAULT_LEASE_SECONDS :: int where "DEFAULT_LEASE_SECONDS = 900"
definition MAX_LEASE_SECONDS :: int where "MAX_LEASE_SECONDS = 86400"
definition MAX_REQUIRED_PEERS :: nat where "MAX_REQUIRED_PEERS = 32"
definition MAX_ACTIVE_TASK_PATH_ROWS :: int where "MAX_ACTIVE_TASK_PATH_ROWS = 10000"

section \<open>Tables\<close>

record task_row =
  tk_scope :: string
  tk_task_id :: string
  tk_workspace_root_key :: string
  tk_summary :: string
  tk_owner :: "string option"
  tk_status :: task_status
  tk_claimed_by :: "string option"
  tk_claimed_session_id :: "string option"
  tk_lease_token_sha256 :: "string option"
  tk_lease_expires_epoch :: "int option"
  tk_claimed_utc :: "string option"
  tk_created_utc :: string
  tk_updated_utc :: string
  tk_task_sha256 :: string
  tk_task_revision :: int
  tk_approval_mode :: approval_mode
  tk_required_peer :: "string option"
  tk_review_quorum :: int

record peer_row =
  tp_scope :: string
  tp_task_id :: string
  tp_peer_id :: string

record path_row =
  pa_scope :: string
  pa_task_id :: string
  pa_write :: bool
  pa_path_prefix :: string
  pa_created_utc :: string

record work_row =
  wu_update_id :: string
  wu_scope :: string
  wu_task_id :: string
  wu_agent_id :: string
  wu_status :: string
  wu_summary :: string
  wu_artifact_paths_json :: string
  wu_created_utc :: string
  wu_update_sha256 :: string

record call_row =
  pc_sequence :: nat
  pc_request_id :: string
  pc_scope :: string
  pc_task_id :: string
  pc_requester :: string
  pc_recipient :: string
  pc_question :: string
  pc_artifact_paths_json :: string
  pc_request_utc :: string
  pc_request_sha256 :: string
  pc_task_revision :: int
  pc_task_sha256 :: string
  pc_status :: string
  pc_approval_mode :: approval_mode
  pc_response :: "string option"
  pc_response_artifact_paths_json :: "string option"
  pc_response_utc :: "string option"
  pc_response_sha256 :: "string option"

datatype verdict = Approved | Changes_Requested | Blocked_Verdict

fun verdict_text :: "verdict \<Rightarrow> string" where
  "verdict_text Approved = ''approved''"
| "verdict_text Changes_Requested = ''changes_requested''"
| "verdict_text Blocked_Verdict = ''blocked''"

record review_row =
  rv_review_id :: string
  rv_scope :: string
  rv_request_id :: string
  rv_task_id :: string
  rv_reviewer :: string
  rv_verdict :: verdict
  rv_score :: int
  rv_findings :: string
  rv_artifact_paths_json :: string
  rv_review_utc :: string
  rv_review_sha256 :: string
  rv_task_revision :: int
  rv_task_sha256 :: string

record presence_row =
  pr_scope :: string
  pr_agent_id :: string
  pr_session_id :: string
  pr_transport :: string
  pr_client_name :: "string option"
  pr_provider_id :: "string option"
  pr_model_id :: "string option"
  pr_reasoning_mode :: "string option"
  pr_route_class :: "string option"
  pr_last_seen_utc :: string
  pr_last_seen_epoch :: int

record task_db = audit_db +
  tasks :: "task_row list"
  task_required_peers :: "peer_row list"
  task_paths :: "path_row list"
  work_updates :: "work_row list"
  peer_calls :: "call_row list"
  peer_call_seq :: nat
  peer_reviews :: "review_row list"
  agent_presence :: "presence_row list"

definition task_is :: "bridge \<Rightarrow> string \<Rightarrow> task_row \<Rightarrow> bool" where
  "task_is b task_id r = (tk_scope r = br_scope b \<and> tk_task_id r = task_id)"

definition update_tasks :: "bridge \<Rightarrow> string \<Rightarrow> (task_row \<Rightarrow> task_row) \<Rightarrow> ('a task_db_scheme, unit) op" where
  "update_tasks b task_id f = tx_execute (\<lambda>d. d\<lparr>tasks := update_where (task_is b task_id) f (tasks d)\<rparr>)"

text \<open>\<open>json.dumps(value, ensure_ascii=False)\<close> of a list of paths: default separators.\<close>

definition json_path_list :: "string list \<Rightarrow> string" where
  "json_path_list paths = CHR ''['' # sep_join '', '' (map json_quote paths) @ '']''"

section \<open>Leases\<close>

text \<open>The columns a released lease clears.\<close>

definition unclaimed :: "task_status \<Rightarrow> string \<Rightarrow> task_row \<Rightarrow> task_row" where
  "unclaimed st now r = r\<lparr>tk_status := st, tk_claimed_by := None, tk_claimed_session_id := None,
     tk_lease_token_sha256 := None, tk_lease_expires_epoch := None, tk_claimed_utc := None, tk_updated_utc := now\<rparr>"

definition expired_task :: "bridge \<Rightarrow> int \<Rightarrow> task_row \<Rightarrow> bool" where
  "expired_task b now_epoch r = (tk_scope r = br_scope b \<and> tk_status r = Task_Claimed
     \<and> (case tk_lease_expires_epoch r of None \<Rightarrow> False | Some e \<Rightarrow> e \<le> now_epoch))"

definition expire_lease :: "bridge \<Rightarrow> task_row \<Rightarrow> ('a task_db_scheme, unit) op" where
  "expire_lease b row =
     tx_bind utc_now (\<lambda>now.
     tx_then (update_tasks b (tk_task_id row) (unclaimed Task_Open now))
    (tx_then (event_op b ''task.lease_expired'' [(''previous_holder'', json_opt JStr (tk_claimed_by row))]
       (Some (tk_task_id row)))
     (tx_return ())))"

definition expire_leases :: "bridge \<Rightarrow> ('a task_db_scheme, unit) op" where
  "expire_leases b =
     tx_bind time_time (\<lambda>now_epoch.
     tx_bind (tx_query (\<lambda>d. filter (expired_task b now_epoch) (tasks d))) (\<lambda>rows.
     tx_then (tx_for (expire_lease b) rows) (tx_return ())))"

definition token_or_empty :: "string option \<Rightarrow> string" where
  "token_or_empty t = (case t of None \<Rightarrow> [] | Some x \<Rightarrow> x)"

text \<open>The checks of \<open>_require_lease\<close> on the stored row; the token is compared by its digest.\<close>

definition check_lease :: "bridge \<Rightarrow> string \<Rightarrow> int \<Rightarrow> int \<Rightarrow> task_row \<Rightarrow> exn + unit" where
  "check_lease b token expires now_epoch row =
     res_require (expires > now_epoch) (BridgeError ''task lease has expired'')
    (res_require (tk_claimed_by row = Some (br_agent_id b))
       (BridgeError (''task is leased by '' @ token_or_empty (tk_claimed_by row)))
    (res_require (tk_claimed_session_id row = Some (br_session_id b))
       (BridgeError ''task lease belongs to another agent session'')
    (res_require (tk_lease_token_sha256 row = Some (sha256_text (br_sha256 b) token))
       (BridgeError ''lease token does not match'') (Inr ()))))"

definition require_lease :: "bridge \<Rightarrow> string \<Rightarrow> string option \<Rightarrow> ('a task_db_scheme, task_row) op" where
  "require_lease b task_id lease_token =
    (let token = token_or_empty lease_token in
     tx_then (tx_require (token \<noteq> []) (BridgeError ''lease_token is required''))
    (tx_bind (tx_query (\<lambda>d. fetch_one (task_is b task_id) (tasks d))) (\<lambda>found.
     case found of
       None \<Rightarrow> tx_raise (BridgeError ''task not found'')
     | Some row \<Rightarrow>
         (case (if tk_status row = Task_Claimed then tk_lease_expires_epoch row else None) of
            None \<Rightarrow> tx_raise (BridgeError ''task has no active lease'')
          | Some expires \<Rightarrow>
              tx_bind time_time (\<lambda>now_epoch.
              tx_then (tx_lift (check_lease b token expires now_epoch row)) (tx_return row))))))"

section \<open>Claiming a task\<close>

record claim_args =
  ca_task_id :: string
  ca_summary :: string
  ca_read_paths :: "string list"
  ca_write_paths :: "string list"
  ca_lease_seconds :: "int option"
  ca_approval_mode :: "string option"
  ca_required_peer :: "string option"
  ca_required_peers :: "string list"
  ca_review_quorum :: "int option"
  ca_owner :: "string option"

definition default_to :: "'a \<Rightarrow> 'a option \<Rightarrow> 'a" where
  "default_to x v = (case v of None \<Rightarrow> x | Some y \<Rightarrow> y)"

text \<open>\<open>str(value or "").strip() or None\<close>.\<close>

definition strip_or_none :: "string option \<Rightarrow> string option" where
  "strip_or_none v = (let t = py_strip (default_to [] v) in if t = [] then None else Some t)"

definition bounded_lease :: "int option \<Rightarrow> int" where
  "bounded_lease v = max 30 (min (default_to DEFAULT_LEASE_SECONDS v) MAX_LEASE_SECONDS)"

definition parse_approval_mode :: "string option \<Rightarrow> exn + approval_mode" where
  "parse_approval_mode v = (let m = py_lower (default_to ''presence_aware'' v) in
     if m = ''solo_allowed'' then Inr Solo_Allowed else if m = ''two_party_required'' then Inr Two_Party_Required
     else if m = ''presence_aware'' then Inr Presence_Aware else if m = ''quorum_required'' then Inr Quorum_Required
     else Inl (BridgeError
       ''approval_mode must be solo_allowed, two_party_required, presence_aware or quorum_required''))"

definition parse_required_peer :: "bridge \<Rightarrow> string option \<Rightarrow> exn + string option" where
  "parse_required_peer b v = (case strip_or_none v of None \<Rightarrow> Inr None
     | Some p \<Rightarrow> res_bind (require_identifier p ''required_peer'') (\<lambda>peer.
         res_require (peer \<noteq> br_agent_id b) (BridgeError ''required_peer must be another agent'') (Inr (Some peer))))"

fun collect_peers :: "bridge \<Rightarrow> string list \<Rightarrow> string list \<Rightarrow> exn + string list" where
  "collect_peers b found [] = Inr found"
| "collect_peers b found (x # xs) =
     res_bind (require_identifier x ''required_peers item'') (\<lambda>peer.
     res_require (peer \<noteq> br_agent_id b) (BridgeError ''required_peers must contain only other agents'')
       (collect_peers b (if peer \<in> set found then found else found @ [peer]) xs))"

definition parse_required_peers :: "bridge \<Rightarrow> string option \<Rightarrow> string list \<Rightarrow> exn + string list" where
  "parse_required_peers b required_peer raw =
     res_require (length raw \<le> MAX_REQUIRED_PEERS) (BridgeError ''required_peers exceeds the peer limit'')
    (res_bind (collect_peers b [] raw) (\<lambda>peers.
     Inr (sort (case required_peer of None \<Rightarrow> peers | Some p \<Rightarrow> if p \<in> set peers then peers else peers @ [p]))))"

text \<open>What the validation of the arguments leaves.\<close>

record claim_spec =
  cs_task_id :: string
  cs_summary :: string
  cs_read_paths :: "string list"
  cs_write_paths :: "string list"
  cs_lease_seconds :: int
  cs_approval_mode :: approval_mode
  cs_required_peer :: "string option"
  cs_required_peers :: "string list"
  cs_review_quorum :: int
  cs_owner :: "string option"

definition validate_claim :: "bridge \<Rightarrow> workspace \<Rightarrow> claim_args \<Rightarrow> exn + claim_spec" where
  "validate_claim b ws args =
     res_bind (require_identifier (ca_task_id args) ''task_id'') (\<lambda>task_id.
     res_bind (require_text (ca_summary args) ''summary'' 10000) (\<lambda>summary.
     res_bind (clean_task_paths ws False (ca_read_paths args)) (\<lambda>read_paths.
     res_bind (clean_task_paths ws True (ca_write_paths args)) (\<lambda>write_paths.
     res_bind (parse_approval_mode (ca_approval_mode args)) (\<lambda>mode.
     res_bind (parse_required_peer b (ca_required_peer args)) (\<lambda>required_peer.
     res_bind (parse_required_peers b required_peer (ca_required_peers args)) (\<lambda>required_peers.
     let review_quorum = default_to 1 (ca_review_quorum args) in
     res_require (1 \<le> review_quorum) (BridgeError ''review_quorum must be a positive integer'')
    (res_require (\<not> (required_peers \<noteq> [] \<and> int (length required_peers) < review_quorum))
       (BridgeError ''review_quorum cannot exceed required_peers count'')
    (res_require (\<not> (mode = Quorum_Required \<and> required_peers = []))
       (BridgeError ''quorum_required needs at least one required_peers entry'')
    (Inr \<lparr>cs_task_id = task_id, cs_summary = summary, cs_read_paths = read_paths, cs_write_paths = write_paths,
       cs_lease_seconds = bounded_lease (ca_lease_seconds args), cs_approval_mode = mode,
       cs_required_peer = required_peer, cs_required_peers = required_peers, cs_review_quorum = review_quorum,
       cs_owner = strip_or_none (ca_owner args)\<rparr>))))))))))"

definition json_texts :: "string list \<Rightarrow> json" where
  "json_texts xs = JList (map JStr xs)"

definition task_content :: "bridge \<Rightarrow> claim_spec \<Rightarrow> json" where
  "task_content b c = JObj
     [(''scope'', JStr (br_scope b)), (''task_id'', JStr (cs_task_id c)),
      (''workspace_root_key'', JStr (br_workspace_root_key b)), (''summary'', JStr (cs_summary c)),
      (''owner'', json_opt JStr (cs_owner c)), (''read_paths'', json_texts (cs_read_paths c)),
      (''write_paths'', json_texts (cs_write_paths c)),
      (''approval_mode'', JStr (approval_text (cs_approval_mode c))),
      (''required_peer'', json_opt JStr (cs_required_peer c)),
      (''required_peers'', json_texts (cs_required_peers c)), (''review_quorum'', JInt (cs_review_quorum c))]"

text \<open>The requested scopes: reads first, then writes.\<close>

definition requested_paths :: "claim_spec \<Rightarrow> (bool \<times> string) list" where
  "requested_paths c = map (Pair False) (cs_read_paths c) @ map (Pair True) (cs_write_paths c)"

text \<open>The join of live leases of this workspace, of every scope, with their paths.\<close>

definition live_task :: "string \<Rightarrow> int \<Rightarrow> task_row \<Rightarrow> bool" where
  "live_task root now_epoch t = (tk_workspace_root_key t = root \<and> tk_status t = Task_Claimed
     \<and> (case tk_lease_expires_epoch t of None \<Rightarrow> False | Some e \<Rightarrow> e > now_epoch))"

definition paths_of :: "task_row \<Rightarrow> path_row list \<Rightarrow> path_row list" where
  "paths_of t paths = filter (\<lambda>p. pa_scope p = tk_scope t \<and> pa_task_id p = tk_task_id t) paths"

definition active_paths :: "string \<Rightarrow> int \<Rightarrow> 'a task_db_scheme \<Rightarrow> (task_row \<times> path_row) list" where
  "active_paths root now_epoch d =
     concat (map (\<lambda>t. map (Pair t) (paths_of t (task_paths d))) (filter (live_task root now_epoch) (tasks d)))"

definition conflicts_with :: "bridge \<Rightarrow> string \<Rightarrow> bool \<times> string \<Rightarrow> task_row \<times> path_row \<Rightarrow> bool" where
  "conflicts_with b task_id req row = (case (req, row) of ((new_write, new_path), (t, p)) \<Rightarrow>
     \<not> (tk_scope t = br_scope b \<and> tk_task_id t = task_id) \<and> \<not> (\<not> new_write \<and> \<not> pa_write p)
     \<and> path_overlaps new_path (pa_path_prefix p))"

definition path_conflicts :: "bridge \<Rightarrow> string \<Rightarrow> (bool \<times> string) list \<Rightarrow> (task_row \<times> path_row) list
    \<Rightarrow> ((bool \<times> string) \<times> (task_row \<times> path_row)) list" where
  "path_conflicts b task_id requested active =
     concat (map (\<lambda>req. map (Pair req) (filter (conflicts_with b task_id req) active)) requested)"

definition access_text :: "bool \<Rightarrow> string" where
  "access_text write = (if write then ''write'' else ''read'')"

text \<open>\<open>json.dumps(conflicts, ensure_ascii=False, sort_keys=True)\<close>, the keys written in their sorted order.\<close>

definition conflict_text :: "(bool \<times> string) \<times> (task_row \<times> path_row) \<Rightarrow> string" where
  "conflict_text c = (case c of ((new_write, new_path), (t, p)) \<Rightarrow>
     (let field = (\<lambda>k v. json_quote k @ '': '' @ v) in
      CHR ''{'' # sep_join '', ''
       [field ''claimed_by'' (json_dumps (json_opt JStr (tk_claimed_by t))),
        field ''existing_access'' (json_quote (access_text (pa_write p))),
        field ''existing_path'' (json_quote (pa_path_prefix p)),
        field ''requested_access'' (json_quote (access_text new_write)),
        field ''requested_path'' (json_quote new_path),
        field ''scope'' (json_quote (tk_scope t)), field ''task_id'' (json_quote (tk_task_id t))] @ ''}''))"

definition conflicts_text :: "((bool \<times> string) \<times> (task_row \<times> path_row)) list \<Rightarrow> string" where
  "conflicts_text cs = CHR ''['' # sep_join '', '' (map conflict_text cs) @ '']''"

text \<open>The lease the caller asks for: its clock reading and token are taken before the transaction.\<close>

record new_lease =
  nl_now :: string
  nl_token :: string
  nl_expires :: int
  nl_task_sha256 :: string

definition claimed_task :: "bridge \<Rightarrow> claim_spec \<Rightarrow> new_lease \<Rightarrow> int \<Rightarrow> string \<Rightarrow> task_row" where
  "claimed_task b c l revision created =
     \<lparr>tk_scope = br_scope b, tk_task_id = cs_task_id c, tk_workspace_root_key = br_workspace_root_key b,
      tk_summary = cs_summary c, tk_owner = cs_owner c, tk_status = Task_Claimed,
      tk_claimed_by = Some (br_agent_id b), tk_claimed_session_id = Some (br_session_id b),
      tk_lease_token_sha256 = Some (sha256_text (br_sha256 b) (nl_token l)),
      tk_lease_expires_epoch = Some (nl_expires l), tk_claimed_utc = Some (nl_now l), tk_created_utc = created,
      tk_updated_utc = nl_now l, tk_task_sha256 = nl_task_sha256 l, tk_task_revision = revision,
      tk_approval_mode = cs_approval_mode c, tk_required_peer = cs_required_peer c,
      tk_review_quorum = cs_review_quorum c\<rparr>"

definition next_revision :: "task_row option \<Rightarrow> string \<Rightarrow> int" where
  "next_revision existing task_sha = (case existing of None \<Rightarrow> 1
     | Some t \<Rightarrow> (if tk_task_revision t = 0 then 1 else tk_task_revision t)
         + (if tk_task_sha256 t = task_sha then 0 else 1))"

text \<open>The upsert of the task: an existing row keeps its creation time, its paths are deleted.\<close>

definition store_task :: "bridge \<Rightarrow> claim_spec \<Rightarrow> new_lease \<Rightarrow> task_row option \<Rightarrow> int \<Rightarrow> 'a task_db_scheme \<Rightarrow> 'a task_db_scheme" where
  "store_task b c l existing revision d = (case existing of
     Some t \<Rightarrow> d\<lparr>tasks := update_where (task_is b (cs_task_id c))
         (\<lambda>r. claimed_task b c l revision (tk_created_utc r)) (tasks d),
       task_paths := filter (\<lambda>p. \<not> (pa_scope p = br_scope b \<and> pa_task_id p = cs_task_id c)) (task_paths d)\<rparr>
   | None \<Rightarrow> d\<lparr>tasks := tasks d @ [claimed_task b c l revision (nl_now l)]\<rparr>)"

definition store_paths :: "bridge \<Rightarrow> claim_spec \<Rightarrow> string \<Rightarrow> 'a task_db_scheme \<Rightarrow> 'a task_db_scheme" where
  "store_paths b c now d = d\<lparr>task_paths := task_paths d @ map (\<lambda>(write, path).
     \<lparr>pa_scope = br_scope b, pa_task_id = cs_task_id c, pa_write = write, pa_path_prefix = path, pa_created_utc = now\<rparr>)
     (requested_paths c)\<rparr>"

definition store_peers :: "bridge \<Rightarrow> claim_spec \<Rightarrow> 'a task_db_scheme \<Rightarrow> 'a task_db_scheme" where
  "store_peers b c d = d\<lparr>task_required_peers :=
     filter (\<lambda>p. \<not> (tp_scope p = br_scope b \<and> tp_task_id p = cs_task_id c)) (task_required_peers d)
     @ map (\<lambda>peer. \<lparr>tp_scope = br_scope b, tp_task_id = cs_task_id c, tp_peer_id = peer\<rparr>) (cs_required_peers c)\<rparr>"

record claim_grant =
  cg_task_id :: string
  cg_claimed_by :: string
  cg_lease_token :: string
  cg_lease_expires_epoch :: int
  cg_spec :: claim_spec
  cg_task_sha256 :: string
  cg_task_revision :: int

definition claim_event :: "claim_spec \<Rightarrow> new_lease \<Rightarrow> int \<Rightarrow> (string \<times> json) list" where
  "claim_event c l revision =
       [(''task_sha256'', JStr (nl_task_sha256 l)), (''task_revision'', JInt revision),
        (''lease_seconds'', JInt (cs_lease_seconds c)), (''read_paths'', json_texts (cs_read_paths c)),
        (''write_paths'', json_texts (cs_write_paths c)),
        (''approval_mode'', JStr (approval_text (cs_approval_mode c))),
        (''required_peer'', json_opt JStr (cs_required_peer c)),
        (''required_peers'', json_texts (cs_required_peers c)), (''review_quorum'', JInt (cs_review_quorum c))]"

definition claim_task_tx :: "bridge \<Rightarrow> claim_spec \<Rightarrow> int \<Rightarrow> new_lease \<Rightarrow> ('a task_db_scheme, int) op" where
  "claim_task_tx b c now_epoch l =
     tx_then (expire_leases b)
    (tx_bind (tx_query (\<lambda>d. fetch_one (task_is b (cs_task_id c)) (tasks d))) (\<lambda>existing.
     tx_then (tx_require (case existing of Some t \<Rightarrow> tk_status t \<noteq> Task_Complete | None \<Rightarrow> True)
       (BridgeError ''task is already complete''))
    (tx_then (tx_require (case existing of Some t \<Rightarrow> tk_status t \<noteq> Task_Claimed | None \<Rightarrow> True)
       (BridgeError (''task already has an active lease held by ''
         @ (case existing of Some t \<Rightarrow> token_or_empty (tk_claimed_by t) | None \<Rightarrow> []))))
    (tx_bind (tx_query (active_paths (br_workspace_root_key b) now_epoch)) (\<lambda>active.
     tx_then (tx_require (int (length active) \<le> MAX_ACTIVE_TASK_PATH_ROWS)
       (BridgeError ''active task path conflict set exceeds the bounded limit''))
    (let conflicts = path_conflicts b (cs_task_id c) (requested_paths c) active in
     tx_then (tx_require (conflicts = [])
       (BridgeError (''task path scope conflicts with an active lease: '' @ conflicts_text conflicts)))
    (let revision = next_revision existing (nl_task_sha256 l) in
     tx_then (tx_execute (store_task b c l existing revision))
    (tx_then (tx_execute (store_paths b c (nl_now l)))
    (tx_then (tx_execute (store_peers b c))
    (tx_then (event_op b ''task.claimed'' (claim_event c l revision)
       (Some (cs_task_id c)))
     (tx_return revision)))))))))))"

definition claim_task :: "bridge \<Rightarrow> workspace \<Rightarrow> claim_args \<Rightarrow> ('a task_db_scheme, claim_grant) op" where
  "claim_task b ws args =
     tx_bind (tx_lift (validate_claim b ws args)) (\<lambda>c.
     tx_bind utc_now (\<lambda>now.
     tx_bind time_time (\<lambda>now_epoch.
     tx_bind token_urlsafe (\<lambda>token.
     let l = \<lparr>nl_now = now, nl_token = token, nl_expires = now_epoch + cs_lease_seconds c,
              nl_task_sha256 = stable_sha256 (br_sha256 b) (task_content b c)\<rparr> in
     tx_bind (with_connection (claim_task_tx b c now_epoch l)) (\<lambda>revision.
     tx_return \<lparr>cg_task_id = cs_task_id c, cg_claimed_by = br_agent_id b, cg_lease_token = token,
       cg_lease_expires_epoch = nl_expires l, cg_spec = c, cg_task_sha256 = nl_task_sha256 l,
       cg_task_revision = revision\<rparr>)))))"

section \<open>Keeping and releasing the lease\<close>

definition renew_task :: "bridge \<Rightarrow> string \<Rightarrow> string option \<Rightarrow> int option \<Rightarrow> ('a task_db_scheme, int) op" where
  "renew_task b task_id lease_token lease_seconds =
     tx_bind (tx_lift (require_identifier task_id ''task_id'')) (\<lambda>task_id.
     with_connection (
       tx_then (require_lease b task_id lease_token)
      (tx_bind time_time (\<lambda>now_epoch.
       let expires = now_epoch + bounded_lease lease_seconds in
       tx_bind utc_now (\<lambda>now.
       tx_then (update_tasks b task_id (\<lambda>r. r\<lparr>tk_lease_expires_epoch := Some expires, tk_updated_utc := now\<rparr>))
      (tx_then (event_op b ''task.lease_renewed''
         [(''lease_seconds'', JInt (bounded_lease lease_seconds)), (''lease_expires_epoch'', json_epoch expires)]
         (Some task_id))
       (tx_return expires)))))))"

definition parse_release_status :: "string option \<Rightarrow> exn + task_status" where
  "parse_release_status v = (let st = py_lower (default_to ''open'' v) in
     if st = ''open'' then Inr Task_Open else if st = ''blocked'' then Inr Task_Blocked
     else Inl (BridgeError ''release status must be open or blocked''))"

fun task_status_text :: "task_status \<Rightarrow> string" where
  "task_status_text Task_Open = ''open''"
| "task_status_text Task_Claimed = ''claimed''"
| "task_status_text Task_Blocked = ''blocked''"
| "task_status_text Task_Complete = ''complete''"

definition release_task :: "bridge \<Rightarrow> string \<Rightarrow> string option \<Rightarrow> string option \<Rightarrow> string option
    \<Rightarrow> ('a task_db_scheme, task_status) op" where
  "release_task b task_id lease_token status reason =
     tx_bind (tx_lift (require_identifier task_id ''task_id'')) (\<lambda>task_id.
     tx_bind (tx_lift (parse_release_status status)) (\<lambda>st.
     let text = py_strip (default_to [] reason) in
     tx_then (tx_require (\<not> (text \<noteq> [] \<and> contains_secret text)) (BridgeError ''reason appears to contain a credential''))
     (with_connection (
       tx_then (require_lease b task_id lease_token)
      (tx_bind utc_now (\<lambda>now.
       tx_then (update_tasks b task_id (unclaimed st now))
      (tx_then (event_op b ''task.released''
         [(''status'', JStr (task_status_text st)), (''reason_sha256'', JStr (stable_sha256 (br_sha256 b) (JStr text)))]
         (Some task_id))
       (tx_return st))))))))"

definition parse_work_status :: "string option \<Rightarrow> exn + string" where
  "parse_work_status v = (let st = py_lower (default_to ''working'' v) in
     if st = ''working'' \<or> st = ''waiting'' \<or> st = ''review'' then Inr st
     else Inl (BridgeError ''status must be working, waiting or review''))"

definition work_content :: "bridge \<Rightarrow> string \<Rightarrow> string \<Rightarrow> string \<Rightarrow> string \<Rightarrow> string list \<Rightarrow> string \<Rightarrow> json" where
  "work_content b update_id task_id status summary artifacts created = JObj
     [(''update_id'', JStr update_id), (''scope'', JStr (br_scope b)), (''task_id'', JStr task_id),
      (''agent_id'', JStr (br_agent_id b)), (''status'', JStr status), (''summary'', JStr summary),
      (''artifact_paths'', json_texts artifacts), (''created_utc'', JStr created)]"

definition insert_work :: "work_row \<Rightarrow> ('a task_db_scheme, unit) op" where
  "insert_work row =
     tx_bind (tx_query (\<lambda>d. list_ex (\<lambda>r. wu_update_id r = wu_update_id row) (work_updates d))) (\<lambda>clash.
     tx_then (tx_require (\<not> clash) IntegrityError)
     (tx_execute (\<lambda>d. d\<lparr>work_updates := work_updates d @ [row]\<rparr>)))"

definition announce_work :: "bridge \<Rightarrow> workspace \<Rightarrow> string \<Rightarrow> string \<Rightarrow> string option \<Rightarrow> string list \<Rightarrow> string option
    \<Rightarrow> ('a task_db_scheme, string \<times> string) op" where
  "announce_work b ws task_id summary status artifact_paths lease_token =
     tx_bind (tx_lift (require_identifier task_id ''task_id'')) (\<lambda>task_id.
     tx_bind (tx_lift (require_text summary ''summary'' 10000)) (\<lambda>summary.
     tx_bind (tx_lift (parse_work_status status)) (\<lambda>st.
     tx_bind (tx_lift (clean_artifacts (br_sha256 b) ws artifact_paths None False)) (\<lambda>artifacts.
     tx_bind uuid4_hex (\<lambda>update_id.
     tx_bind utc_now (\<lambda>created.
     let update_sha = stable_sha256 (br_sha256 b) (work_content b update_id task_id st summary artifacts created) in
     with_connection (
       tx_then (require_lease b task_id lease_token)
      (tx_then (insert_work
         \<lparr>wu_update_id = update_id, wu_scope = br_scope b, wu_task_id = task_id, wu_agent_id = br_agent_id b,
           wu_status = st, wu_summary = summary, wu_artifact_paths_json = json_path_list artifacts,
           wu_created_utc = created, wu_update_sha256 = update_sha\<rparr>)
      (tx_then (update_tasks b task_id (\<lambda>r. r\<lparr>tk_summary := summary, tk_updated_utc := created\<rparr>))
      (tx_then (event_op b ''work.announced''
         [(''update_id'', JStr update_id), (''status'', JStr st), (''update_sha256'', JStr update_sha)] (Some task_id))
       (tx_return (update_id, update_sha))))))))))))"

section \<open>Presence\<close>

definition touch_presence :: "bridge \<Rightarrow> string \<Rightarrow> ('a task_db_scheme, unit) op" where
  "touch_presence b transport =
     tx_bind utc_now (\<lambda>now_utc.
     tx_bind time_time (\<lambda>now_epoch.
     let row = \<lparr>pr_scope = br_scope b, pr_agent_id = br_agent_id b, pr_session_id = br_session_id b,
           pr_transport = transport, pr_client_name = br_client_name b, pr_provider_id = br_provider_id b,
           pr_model_id = br_model_id b, pr_reasoning_mode = br_reasoning_mode b, pr_route_class = br_route_class b,
           pr_last_seen_utc = now_utc, pr_last_seen_epoch = now_epoch\<rparr>;
         mine = (\<lambda>r. pr_scope r = br_scope b \<and> pr_agent_id r = br_agent_id b \<and> pr_session_id r = br_session_id b) in
     with_connection (tx_execute (\<lambda>d. d\<lparr>agent_presence :=
       (if list_ex mine (agent_presence d) then update_where mine (\<lambda>_. row) (agent_presence d)
        else agent_presence d @ [row])\<rparr>))))"

definition clear_presence :: "bridge \<Rightarrow> ('a task_db_scheme, unit) op" where
  "clear_presence b = with_connection (tx_execute (\<lambda>d. d\<lparr>agent_presence :=
     filter (\<lambda>r. \<not> (pr_scope r = br_scope b \<and> pr_agent_id r = br_agent_id b \<and> pr_session_id r = br_session_id b))
       (agent_presence d)\<rparr>))"

text \<open>\<open>online_agents\<close> of \<open>presence_snapshot\<close>, for a bridge with the given \<open>presence_ttl_seconds\<close>.\<close>

definition online_agents :: "bridge \<Rightarrow> int \<Rightarrow> ('a task_db_scheme, string list) op" where
  "online_agents b ttl =
     tx_bind time_time (\<lambda>now.
     tx_bind (with_connection (tx_query (\<lambda>d. filter (\<lambda>r. pr_scope r = br_scope b \<and> now - ttl \<le> pr_last_seen_epoch r)
       (agent_presence d)))) (\<lambda>rows.
     tx_then utc_now (tx_return (sort (remdups (map pr_agent_id rows))))))"

section \<open>Reviews\<close>

definition request_content :: "bridge \<Rightarrow> task_row \<Rightarrow> string \<Rightarrow> string \<Rightarrow> string \<Rightarrow> string \<Rightarrow> string list \<Rightarrow> string \<Rightarrow> json" where
  "request_content b task request_id task_id recipient question artifacts created = JObj
     [(''request_id'', JStr request_id), (''scope'', JStr (br_scope b)), (''task_id'', JStr task_id),
      (''requester'', JStr (br_agent_id b)), (''recipient'', JStr recipient), (''question'', JStr question),
      (''artifact_paths'', json_texts artifacts), (''request_utc'', JStr created),
      (''approval_mode'', JStr (approval_text (tk_approval_mode task))),
      (''task_revision'', JInt (tk_task_revision task)), (''task_sha256'', JStr (tk_task_sha256 task))]"

definition new_call :: "bridge \<Rightarrow> task_row \<Rightarrow> string \<Rightarrow> string \<Rightarrow> string \<Rightarrow> string \<Rightarrow> string list \<Rightarrow> string \<Rightarrow> nat \<Rightarrow> call_row" where
  "new_call b task request_id task_id recipient question artifacts created seq =
     \<lparr>pc_sequence = seq, pc_request_id = request_id, pc_scope = br_scope b, pc_task_id = task_id,
      pc_requester = br_agent_id b, pc_recipient = recipient, pc_question = question,
      pc_artifact_paths_json = json_path_list artifacts, pc_request_utc = created,
      pc_request_sha256 = stable_sha256 (br_sha256 b)
        (request_content b task request_id task_id recipient question artifacts created),
      pc_task_revision = tk_task_revision task, pc_task_sha256 = tk_task_sha256 task, pc_status = ''open'',
      pc_approval_mode = tk_approval_mode task, pc_response = None, pc_response_artifact_paths_json = None,
      pc_response_utc = None, pc_response_sha256 = None\<rparr>"

definition insert_call :: "call_row \<Rightarrow> ('a task_db_scheme, unit) op" where
  "insert_call row =
     tx_bind (tx_query (\<lambda>d. list_ex (\<lambda>r. pc_request_id r = pc_request_id row) (peer_calls d))) (\<lambda>clash.
     tx_then (tx_require (\<not> clash) IntegrityError)
     (tx_execute (\<lambda>d. d\<lparr>peer_calls := peer_calls d @ [row], peer_call_seq := pc_sequence row\<rparr>)))"

definition request_review :: "bridge \<Rightarrow> workspace \<Rightarrow> string \<Rightarrow> string \<Rightarrow> string \<Rightarrow> string list \<Rightarrow> string option
    \<Rightarrow> ('a task_db_scheme, call_row) op" where
  "request_review b ws task_id recipient question artifact_paths lease_token =
     tx_bind (tx_lift (require_identifier task_id ''task_id'')) (\<lambda>task_id.
     tx_bind (tx_lift (require_identifier recipient ''recipient'')) (\<lambda>recipient.
     tx_then (tx_require (recipient \<noteq> br_agent_id b) (BridgeError ''review recipient must be another agent''))
    (tx_bind (tx_lift (require_text question ''question'' 20000)) (\<lambda>question.
     tx_bind (tx_lift (clean_artifacts (br_sha256 b) ws artifact_paths None False)) (\<lambda>artifacts.
     with_connection (
       tx_bind (require_lease b task_id lease_token) (\<lambda>task.
       tx_bind uuid4_hex (\<lambda>request_id.
       tx_bind utc_now (\<lambda>created.
       tx_bind (tx_query (\<lambda>d. new_call b task request_id task_id recipient question artifacts created
         (Suc (peer_call_seq d)))) (\<lambda>row.
       tx_then (insert_call row)
      (tx_then (event_op b ''peer.requested''
         [(''request_id'', JStr request_id), (''sequence'', JInt (int (pc_sequence row))),
          (''request_sha256'', JStr (pc_request_sha256 row)), (''recipient'', JStr recipient)] (Some task_id))
       (tx_return row))))))))))))"

end
