(* ===== verification/Reviews.thy ===== *)
theory Reviews
  imports Tasks
begin

text \<open>
  \<open>bridge.py\<close>, the review gate: \<open>submit_review\<close> stores the verdict of the addressed peer for the
  revision the request was made for, \<open>review_summary\<close> reads the verdicts of the current revision and
  applies the approval policy of the task, \<open>poll_reviews\<close> lists the calls of one agent.
\<close>

definition parse_verdict :: "string option \<Rightarrow> exn + verdict" where
  "parse_verdict v = (let t = py_lower (default_to [] v) in
     if t = ''approved'' then Inr Approved else if t = ''changes_requested'' then Inr Changes_Requested
     else if t = ''blocked'' then Inr Blocked_Verdict
     else Inl (BridgeError ''verdict must be approved, changes_requested or blocked''))"

definition parse_score :: "int option \<Rightarrow> exn + int" where
  "parse_score v = (case v of None \<Rightarrow> Inl (BridgeError ''score must be an integer from 0 to 100'')
     | Some n \<Rightarrow> res_require (0 \<le> n \<and> n \<le> 100) (BridgeError ''score must be an integer from 0 to 100'') (Inr n))"

record review_args =
  ra_request_id :: string
  ra_verdict :: "string option"
  ra_score :: "int option"
  ra_findings :: string
  ra_response :: "string option"
  ra_artifact_paths :: "string list"

record review_spec =
  rs_request_id :: string
  rs_verdict :: verdict
  rs_score :: int
  rs_findings :: string
  rs_response :: string
  rs_artifacts :: "string list"

definition validate_review :: "bridge \<Rightarrow> workspace \<Rightarrow> review_args \<Rightarrow> exn + review_spec" where
  "validate_review b ws args =
     res_bind (require_identifier (ra_request_id args) ''request_id'') (\<lambda>request_id.
     res_bind (parse_verdict (ra_verdict args)) (\<lambda>v.
     res_bind (parse_score (ra_score args)) (\<lambda>score.
     res_bind (require_text (ra_findings args) ''findings'' 50000) (\<lambda>findings.
     let response = py_strip (default_to [] (ra_response args)) in
     res_require (\<not> (response \<noteq> [] \<and> contains_secret response))
       (BridgeError ''response appears to contain a credential'')
    (res_bind (clean_artifacts (br_sha256 b) ws (ra_artifact_paths args) None False) (\<lambda>artifacts.
     Inr \<lparr>rs_request_id = request_id, rs_verdict = v, rs_score = score, rs_findings = findings,
       rs_response = response, rs_artifacts = artifacts\<rparr>))))))"

definition review_content :: "bridge \<Rightarrow> review_spec \<Rightarrow> call_row \<Rightarrow> string \<Rightarrow> string \<Rightarrow> json" where
  "review_content b r call review_id reviewed = JObj
     [(''review_id'', JStr review_id), (''scope'', JStr (br_scope b)), (''request_id'', JStr (rs_request_id r)),
      (''task_id'', JStr (pc_task_id call)), (''reviewer'', JStr (br_agent_id b)),
      (''verdict'', JStr (verdict_text (rs_verdict r))), (''score'', JInt (rs_score r)),
      (''findings'', JStr (rs_findings r)), (''artifact_paths'', json_texts (rs_artifacts r)),
      (''review_utc'', JStr reviewed), (''task_revision'', JInt (pc_task_revision call)),
      (''task_sha256'', JStr (pc_task_sha256 call))]"

definition new_review :: "bridge \<Rightarrow> review_spec \<Rightarrow> call_row \<Rightarrow> string \<Rightarrow> string \<Rightarrow> review_row" where
  "new_review b r call review_id reviewed =
     \<lparr>rv_review_id = review_id, rv_scope = br_scope b, rv_request_id = rs_request_id r, rv_task_id = pc_task_id call,
      rv_reviewer = br_agent_id b, rv_verdict = rs_verdict r, rv_score = rs_score r, rv_findings = rs_findings r,
      rv_artifact_paths_json = json_path_list (rs_artifacts r), rv_review_utc = reviewed,
      rv_review_sha256 = stable_sha256 (br_sha256 b) (review_content b r call review_id reviewed),
      rv_task_revision = pc_task_revision call, rv_task_sha256 = pc_task_sha256 call\<rparr>"

text \<open>The primary key and the UNIQUE constraint on (scope, request, reviewer).\<close>

definition review_clash :: "review_row \<Rightarrow> review_row \<Rightarrow> bool" where
  "review_clash row r = (rv_review_id r = rv_review_id row
     \<or> rv_scope r = rv_scope row \<and> rv_request_id r = rv_request_id row \<and> rv_reviewer r = rv_reviewer row)"

definition insert_review :: "review_row \<Rightarrow> ('a task_db_scheme, unit) op" where
  "insert_review row =
     tx_bind (tx_query (\<lambda>d. list_ex (review_clash row) (peer_reviews d))) (\<lambda>clash.
     tx_then (tx_require (\<not> clash) IntegrityError)
     (tx_execute (\<lambda>d. d\<lparr>peer_reviews := peer_reviews d @ [row]\<rparr>)))"

definition response_content :: "review_spec \<Rightarrow> json" where
  "response_content r = JObj [(''request_id'', JStr (rs_request_id r)), (''response'', JStr (rs_response r)),
     (''artifact_paths'', json_texts (rs_artifacts r))]"

definition respond_call :: "bridge \<Rightarrow> review_spec \<Rightarrow> string \<Rightarrow> call_row \<Rightarrow> call_row" where
  "respond_call b r reviewed call =
     (if rs_response r \<noteq> [] then
        call\<lparr>pc_status := ''responded'', pc_response := Some (rs_response r),
          pc_response_artifact_paths_json := Some (json_path_list (rs_artifacts r)), pc_response_utc := Some reviewed,
          pc_response_sha256 := Some (stable_sha256 (br_sha256 b) (response_content r))\<rparr>
      else call\<lparr>pc_status := ''responded'', pc_response_utc := Some reviewed\<rparr>)"

definition call_is :: "bridge \<Rightarrow> string \<Rightarrow> call_row \<Rightarrow> bool" where
  "call_is b request_id r = (pc_scope r = br_scope b \<and> pc_request_id r = request_id)"

definition same_revision :: "task_row \<Rightarrow> int \<Rightarrow> string \<Rightarrow> bool" where
  "same_revision task revision sha = (revision = tk_task_revision task \<and> sha = tk_task_sha256 task)"

definition submit_review_tx :: "bridge \<Rightarrow> review_spec \<Rightarrow> ('a task_db_scheme, review_row) op" where
  "submit_review_tx b r =
     tx_bind (tx_query (\<lambda>d. fetch_one (call_is b (rs_request_id r)) (peer_calls d))) (\<lambda>found.
     case found of
       None \<Rightarrow> tx_raise (BridgeError ''review request not found'')
     | Some call \<Rightarrow>
         tx_then (tx_require (pc_recipient call = br_agent_id b)
           (BridgeError ''only the addressed peer may submit this review''))
        (tx_bind (tx_query (\<lambda>d. fetch_one (task_is b (pc_task_id call)) (tasks d))) (\<lambda>task.
         case task of
           None \<Rightarrow> tx_raise (BridgeError ''review task not found'')
         | Some task \<Rightarrow>
             tx_then (tx_require (same_revision task (pc_task_revision call) (pc_task_sha256 call))
               (BridgeError ''review request is bound to a superseded task revision''))
            (tx_bind uuid4_hex (\<lambda>review_id.
             tx_bind utc_now (\<lambda>reviewed.
             let row = new_review b r call review_id reviewed in
             tx_then (tx_catch (insert_review row) (\<lambda>e. e = IntegrityError)
               (tx_raise (BridgeError ''this peer already reviewed the request'')))
            (tx_then (tx_execute (\<lambda>d. d\<lparr>peer_calls :=
               update_where (call_is b (rs_request_id r)) (respond_call b r reviewed) (peer_calls d)\<rparr>))
            (tx_then (event_op b ''peer.reviewed''
               [(''request_id'', JStr (rs_request_id r)), (''review_id'', JStr review_id),
                (''review_sha256'', JStr (rv_review_sha256 row)), (''verdict'', JStr (verdict_text (rs_verdict r)))]
               (Some (pc_task_id call)))
             (tx_return row)))))))))"

definition submit_review :: "bridge \<Rightarrow> workspace \<Rightarrow> review_args \<Rightarrow> ('a task_db_scheme, review_row) op" where
  "submit_review b ws args =
     tx_bind (tx_lift (validate_review b ws args)) (\<lambda>r. with_connection (submit_review_tx b r))"

section \<open>The review gate\<close>

text \<open>The approval policy: whether the task may be completed, and the reason it reports.\<close>

record gate =
  gt_mode :: approval_mode
  gt_required_peer :: "string option"
  gt_required_peers :: "string list"
  gt_quorum :: int
  gt_approved :: "string list"
  gt_online :: "string list"

definition common :: "string list \<Rightarrow> string list \<Rightarrow> string list" where
  "common xs ys = filter (\<lambda>x. x \<in> set ys) xs"

definition online_quorum :: "gate \<Rightarrow> string list \<Rightarrow> bool" where
  "online_quorum g eligible =
     (min (gt_quorum g) (int (length eligible)) \<le> int (length (common eligible (gt_approved g))))"

definition review_policy :: "gate \<Rightarrow> bool \<times> string" where
  "review_policy g = (case gt_mode g of
     Solo_Allowed \<Rightarrow> (True, ''solo_allowed'')
   | Two_Party_Required \<Rightarrow>
       (let ready = (case gt_required_peer g of Some p \<Rightarrow> p \<in> set (gt_approved g) | None \<Rightarrow> gt_approved g \<noteq> []) in
        (ready, if ready then ''required_peer_approved'' else ''peer_approval_required''))
   | Quorum_Required \<Rightarrow>
       (let eligible = (if gt_required_peers g \<noteq> [] then gt_required_peers g else gt_approved g);
            ready = (gt_quorum g \<le> int (length (common eligible (gt_approved g)))) in
        (ready, if ready then ''review_quorum_met'' else ''review_quorum_pending''))
   | Presence_Aware \<Rightarrow>
       (if common (gt_required_peers g) (gt_online g) \<noteq> [] then
          (let ready = online_quorum g (common (gt_required_peers g) (gt_online g)) in
           (ready, if ready then ''online_review_quorum_met'' else ''online_review_quorum_pending''))
        else if gt_online g \<noteq> [] then
          (let ready = online_quorum g (gt_online g) in
           (ready, if ready then ''online_peer_quorum_met'' else ''online_peer_quorum_pending''))
        else (True, ''peer_offline_solo_fallback'')))"

text \<open>The join of the reviews of the task's current revision with their requests.\<close>

definition counted_review :: "bridge \<Rightarrow> task_row \<Rightarrow> call_row list \<Rightarrow> review_row \<Rightarrow> bool" where
  "counted_review b task calls r = (rv_scope r = br_scope b \<and> rv_task_id r = tk_task_id task
     \<and> same_revision task (rv_task_revision r) (rv_task_sha256 r)
     \<and> list_ex (\<lambda>c. pc_request_id c = rv_request_id r \<and> same_revision task (pc_task_revision c) (pc_task_sha256 c)) calls)"

definition stale_review :: "bridge \<Rightarrow> task_row \<Rightarrow> review_row \<Rightarrow> bool" where
  "stale_review b task r = (rv_scope r = br_scope b \<and> rv_task_id r = tk_task_id task
     \<and> \<not> same_revision task (rv_task_revision r) (rv_task_sha256 r))"

definition approved_reviewers :: "review_row list \<Rightarrow> string list" where
  "approved_reviewers rows = sort (remdups (map rv_reviewer (filter (\<lambda>r. rv_verdict r = Approved) rows)))"

definition required_peers_of :: "bridge \<Rightarrow> task_row \<Rightarrow> 'a task_db_scheme \<Rightarrow> string list" where
  "required_peers_of b task d = sort (remdups ((case tk_required_peer task of None \<Rightarrow> [] | Some p \<Rightarrow> [p])
     @ map tp_peer_id (filter (\<lambda>p. tp_scope p = br_scope b \<and> tp_task_id p = tk_task_id task) (task_required_peers d))))"

record review_report =
  rr_task :: task_row
  rr_required_peers :: "string list"
  rr_review_quorum :: int
  rr_reviews :: "review_row list"
  rr_stale_review_count :: nat
  rr_approved_reviewers :: "string list"
  rr_online_peer_agents :: "string list"
  rr_ready_for_completion :: bool
  rr_policy_reason :: string

definition review_gate :: "task_row \<Rightarrow> string list \<Rightarrow> string list \<Rightarrow> string list \<Rightarrow> gate" where
  "review_gate task peers approved online = \<lparr>gt_mode = tk_approval_mode task, gt_required_peer = tk_required_peer task,
     gt_required_peers = peers, gt_quorum = max 1 (tk_review_quorum task), gt_approved = approved, gt_online = online\<rparr>"

definition review_summary :: "bridge \<Rightarrow> int \<Rightarrow> string \<Rightarrow> ('a task_db_scheme, review_report) op" where
  "review_summary b ttl task_id =
     tx_bind (tx_lift (require_identifier task_id ''task_id'')) (\<lambda>task_id.
     tx_bind (with_connection (
       tx_bind (tx_query (\<lambda>d. fetch_one (task_is b task_id) (tasks d))) (\<lambda>found.
       case found of
         None \<Rightarrow> tx_raise (BridgeError ''task not found'')
       | Some task \<Rightarrow> tx_query (\<lambda>d. (task,
           sort_key rv_review_utc (filter (counted_review b task (peer_calls d)) (peer_reviews d)),
           length (filter (stale_review b task) (peer_reviews d)), required_peers_of b task d)))))
     (\<lambda>(task, rows, stale, peers).
     tx_bind (online_agents b ttl) (\<lambda>present.
     let online = filter (\<lambda>a. Some a \<noteq> tk_claimed_by task \<and> a \<noteq> HUMAN_OPERATOR_ID) present;
         approved = approved_reviewers rows;
         decision = review_policy (review_gate task peers approved online) in
     tx_return \<lparr>rr_task = task, rr_required_peers = peers, rr_review_quorum = max 1 (tk_review_quorum task),
       rr_reviews = rows, rr_stale_review_count = stale, rr_approved_reviewers = approved,
       rr_online_peer_agents = online, rr_ready_for_completion = fst decision, rr_policy_reason = snd decision\<rparr>)))"

section \<open>Reading calls\<close>

definition poll_reviews :: "bridge \<Rightarrow> string option \<Rightarrow> int option \<Rightarrow> int option \<Rightarrow> bool \<Rightarrow> ('a task_db_scheme, call_row list \<times> int) op" where
  "poll_reviews b agent after_cursor limit include_closed =
     tx_bind (tx_lift (bound_consumer b agent)) (\<lambda>agent.
     let after = max 0 (default_to 0 after_cursor); limit = nat (max 1 (min (default_to 50 limit) 500)) in
     tx_bind (with_connection (tx_query (\<lambda>d. take limit (sort_key pc_sequence (filter (\<lambda>c. pc_scope c = br_scope b
       \<and> after < int (pc_sequence c) \<and> (pc_recipient c = agent \<or> pc_requester c = agent)
       \<and> (include_closed \<or> pc_status c = ''open'' \<or> pc_status c = ''responded'')) (peer_calls d)))))) (\<lambda>calls.
     tx_return (calls, if calls = [] then after else int (pc_sequence (last calls)))))"

end
