(* ===== verification/Disk.thy ===== *)
theory Disk
  imports TaskPaths
begin

text \<open>
  Hashing project files, from \<open>bridge.py\<close>. The files change under the program: each \<open>stat\<close> and each
  opened handle of a run is one call to the operating system, so \<open>dk_stat\<close> and \<open>dk_chunks\<close> give the
  answers of a disk by the number of the call, like the clocks of the world. Nothing is assumed of
  them; \<open>dk_stat\<close> is None where there is no regular file.
\<close>

record file_state =
  fs_size :: int
  fs_mtime_ns :: int

record disk =
  dk_stat :: "nat \<Rightarrow> string \<Rightarrow> file_state option"
  dk_chunks :: "nat \<Rightarrow> string \<Rightarrow> string list"

definition stat_file :: "disk \<Rightarrow> string \<Rightarrow> ('d, file_state option) op" where
  "stat_file dk path = world_call (\<lambda>w n. dk_stat dk n path)"

text \<open>\<open>path.stat()\<close>, which raises when the file is gone.\<close>

definition require_stat :: "disk \<Rightarrow> string \<Rightarrow> exn \<Rightarrow> ('d, file_state) op" where
  "require_stat dk path e = tx_bind (stat_file dk path) (\<lambda>st. case st of None \<Rightarrow> tx_raise e | Some x \<Rightarrow> tx_return x)"

text \<open>\<open>resolved.is_file()\<close>; the project root is not a file.\<close>

definition is_file :: "disk \<Rightarrow> string \<Rightarrow> ('d, bool) op" where
  "is_file dk path = tx_bind (stat_file dk path) (\<lambda>st. tx_return (path \<noteq> ''.'' \<and> st \<noteq> None))"

definition resolve_path :: "disk \<Rightarrow> workspace \<Rightarrow> string \<Rightarrow> bool \<Rightarrow> ('d, string) op" where
  "resolve_path dk ws value must_exist =
     tx_bind (tx_lift (normalize_path ws value)) (\<lambda>normalized.
     if must_exist then
       tx_bind (is_file dk normalized) (\<lambda>there.
       tx_then (tx_require there (BridgeError (''artifact does not exist as a file: '' @ normalized)))
       (tx_return normalized))
     else tx_return normalized)"

section \<open>One file\<close>

definition MAX_MCP_HASH_BYTES :: int where "MAX_MCP_HASH_BYTES = 256 * 1024 * 1024"
definition MAX_PROOF_FILES :: nat where "MAX_PROOF_FILES = 100"
definition MAX_PROOF_TOTAL_BYTES :: int where "MAX_PROOF_TOTAL_BYTES = 256 * 1024 * 1024"
definition MAX_PROOF_HASH_SECONDS :: int where "MAX_PROOF_HASH_SECONDS = 15"

definition file_identity :: "file_state \<Rightarrow> int \<times> int" where
  "file_identity st = (fs_size st, fs_mtime_ns st)"

record file_hash =
  fh_bytes :: int
  fh_sha256 :: string
  fh_prefix :: string
  fh_identity :: "int \<times> int"

definition hash_result :: "(string \<Rightarrow> string) \<Rightarrow> string \<Rightarrow> string \<Rightarrow> file_state \<Rightarrow> file_hash" where
  "hash_result H data prefix st = \<lparr>fh_bytes = int (length data), fh_sha256 = sha256_bytes H data, fh_prefix = prefix,
     fh_identity = file_identity st\<rparr>"

definition hash_in_time :: "int option \<Rightarrow> ('d, unit) op" where
  "hash_in_time deadline = (case deadline of None \<Rightarrow> tx_return ()
     | Some d \<Rightarrow> tx_bind time_monotonic (\<lambda>now.
         tx_require (now \<le> d) (BridgeError ''artifact hashing exceeded the interactive time budget'')))"

text \<open>The read loop: what was hashed so far, and the prefix kept of it.\<close>

fun hash_chunks :: "int option \<Rightarrow> nat \<Rightarrow> string \<Rightarrow> string \<Rightarrow> string list \<Rightarrow> ('d, string \<times> string) op" where
  "hash_chunks deadline prefix_bytes data prefix [] =
     tx_then (hash_in_time deadline) (tx_return (data, prefix))"
| "hash_chunks deadline prefix_bytes data prefix (chunk # chunks) =
     tx_then (hash_in_time deadline)
    (if chunk = [] then tx_return (data, prefix)
     else hash_chunks deadline prefix_bytes (data @ chunk)
       (if length prefix < prefix_bytes then prefix @ take (prefix_bytes - length prefix) chunk else prefix) chunks)"

definition hash_file_streaming :: "(string \<Rightarrow> string) \<Rightarrow> disk \<Rightarrow> string \<Rightarrow> nat \<Rightarrow> int option \<Rightarrow> int option \<Rightarrow> ('d, file_hash) op" where
  "hash_file_streaming H dk path prefix_bytes max_bytes max_seconds =
     tx_bind (require_stat dk path OSError) (\<lambda>before.
     tx_then (tx_require (case max_bytes of None \<Rightarrow> True | Some m \<Rightarrow> fs_size before \<le> m)
       (BridgeError ''artifact exceeds the interactive hash byte budget''))
    (tx_bind (case max_seconds of None \<Rightarrow> tx_return None
        | Some m \<Rightarrow> tx_bind time_monotonic (\<lambda>now. tx_return (Some (now + m)))) (\<lambda>deadline.
     tx_bind (world_call (\<lambda>w n. dk_chunks dk n path)) (\<lambda>chunks.
     tx_bind (hash_chunks deadline prefix_bytes [] [] chunks) (\<lambda>(data, prefix).
     tx_bind (require_stat dk path OSError) (\<lambda>after.
     tx_then (tx_require (file_identity before = file_identity after \<and> int (length data) = fs_size after)
       (BridgeError ''artifact changed while it was being hashed''))
     (tx_return (hash_result H data prefix after))))))))"

section \<open>The files of a proof\<close>

text \<open>\<open>list(dict.fromkeys(xs))\<close>: the first occurrence stays.\<close>

definition dict_fromkeys :: "'a list \<Rightarrow> 'a list" where
  "dict_fromkeys xs = rev (remdups (rev xs))"

fun hash_proof_loop :: "(string \<Rightarrow> string) \<Rightarrow> disk \<Rightarrow> workspace \<Rightarrow> int \<Rightarrow> int \<Rightarrow> string list
    \<Rightarrow> ('d, (string \<times> file_hash) list) op" where
  "hash_proof_loop H dk ws deadline used [] = tx_return []"
| "hash_proof_loop H dk ws deadline used (path # paths) =
     tx_bind (resolve_path dk ws path True) (\<lambda>resolved.
     tx_bind (require_stat dk resolved (BridgeError (''proof artifact cannot be inspected: '' @ path))) (\<lambda>st.
     tx_then (tx_require (used + fs_size st \<le> MAX_PROOF_TOTAL_BYTES)
       (BridgeError ''proof artifacts exceed the cumulative byte budget''))
    (tx_bind time_monotonic (\<lambda>now.
     tx_then (tx_require (0 < deadline - now) (BridgeError ''proof hashing exceeded the cumulative time budget''))
    (tx_bind (hash_file_streaming H dk resolved 0 (Some MAX_MCP_HASH_BYTES) (Some (deadline - now))) (\<lambda>h.
     tx_bind (hash_proof_loop H dk ws deadline (used + fs_size st) paths) (\<lambda>rest.
     tx_return ((path, h) # rest))))))))"

definition hash_proof_files :: "(string \<Rightarrow> string) \<Rightarrow> disk \<Rightarrow> workspace \<Rightarrow> string list \<Rightarrow> ('d, (string \<times> file_hash) list) op" where
  "hash_proof_files H dk ws paths =
    (let ordered = dict_fromkeys paths in
     tx_then (tx_require (ordered \<noteq> [] \<and> length ordered \<le> MAX_PROOF_FILES)
       (BridgeError ''proof file count exceeds the bounded proof budget''))
    (tx_bind time_monotonic (\<lambda>now.
     hash_proof_loop H dk ws (now + MAX_PROOF_HASH_SECONDS) 0 ordered)))"

text \<open>\<open>require_sha256\<close>.\<close>

definition require_sha256 :: "string option \<Rightarrow> string \<Rightarrow> exn + string" where
  "require_sha256 value label =
    (let text = py_lower (py_strip (case value of None \<Rightarrow> [] | Some v \<Rightarrow> v)) in
     res_require (is_sha256_hex text) (BridgeError (label @ '' must be a lowercase SHA-256 digest'')) (Inr text))"

section \<open>What a returned digest is the digest of\<close>

lemma dict_fromkeys_set [simp]: "set (dict_fromkeys xs) = set xs" "distinct (dict_fromkeys xs)"
  by (simp_all add: dict_fromkeys_def)

lemma readonly_bind [atomic_intros]: "readonly m \<Longrightarrow> (\<And>a. readonly (f a)) \<Longrightarrow> readonly (tx_bind m f)"
  by (auto simp: readonly_def tx_bind_def split: sum.split prod.splits) (metis snd_conv)+

lemma readonly_then [atomic_intros]: "readonly m \<Longrightarrow> readonly n \<Longrightarrow> readonly (tx_then m n)"
  by (simp add: tx_then_def readonly_bind)

lemma readonly_world_call [atomic_intros]: "readonly (world_call g)"
  by (rule readonlyI) (simp add: world_call_def)

lemma readonly_option [atomic_intros]:
  "readonly m \<Longrightarrow> (\<And>x. readonly (f x)) \<Longrightarrow> readonly (case v of None \<Rightarrow> m | Some x \<Rightarrow> f x)"
  by (cases v) simp_all

lemma readonly_pair [atomic_intros]: "(\<And>x y. readonly (f x y)) \<Longrightarrow> readonly (case p of (x, y) \<Rightarrow> f x y)"
  by (cases p) simp

lemma readonly_if [atomic_intros]: "readonly m \<Longrightarrow> readonly n \<Longrightarrow> readonly (if c then m else n)"
  by simp

lemma readonly_stat [atomic_intros]:
  "readonly (stat_file dk path)" "readonly (require_stat dk path e)" "readonly (is_file dk path)"
  "readonly (resolve_path dk ws value must)" "readonly (hash_in_time deadline)"
  unfolding stat_file_def require_stat_def is_file_def resolve_path_def hash_in_time_def
  by (auto intro!: atomic_intros)

lemma readonly_chunks [atomic_intros]: "readonly (hash_chunks deadline k data prefix chunks)"
  by (induction deadline k data prefix chunks rule: hash_chunks.induct) (auto intro!: atomic_intros)

lemma readonly_hash [atomic_intros]: "readonly (hash_file_streaming H dk path k max_bytes max_seconds)"
  unfolding hash_file_streaming_def by (auto intro!: atomic_intros)

lemma readonly_loop [atomic_intros]: "readonly (hash_proof_loop H dk ws deadline used paths)"
  by (induction paths arbitrary: used) (auto intro!: atomic_intros)

lemma readonly_proof_files [atomic_intros]: "readonly (hash_proof_files H dk ws paths)"
  unfolding hash_proof_files_def Let_def by (auto intro!: atomic_intros)

text \<open>What the loop hashes is the text read: the chunks up to the first empty one.\<close>

definition read_data :: "string list \<Rightarrow> string" where
  "read_data chunks = concat (takeWhile (\<lambda>c. c \<noteq> []) chunks)"

lemma hash_chunks_data:
  "hash_chunks deadline k data prefix chunks s = (Inr (data', prefix'), t) \<Longrightarrow> prefix = take k data
     \<Longrightarrow> data' = data @ read_data chunks \<and> prefix' = take k data'"
proof (induction deadline k data prefix chunks arbitrary: s rule: hash_chunks.induct)
  case (2 deadline k data prefix chunk chunks)
  show ?case
  proof (cases "chunk = []")
    case False
    have "(if length prefix < k then prefix @ take (k - length prefix) chunk else prefix) = take k (data @ chunk)"
      using 2(3) by auto
    then show ?thesis using 2 False by (auto simp: tx_simps read_data_def)
  qed (use 2 in \<open>auto simp: tx_simps read_data_def\<close>)
qed (auto simp: tx_simps read_data_def)

lemma readonlyD: "readonly m \<Longrightarrow> m s = (r, t) \<Longrightarrow> st_db t = st_db s"
  by (metis readonly_def snd_conv)

lemma require_stat_ok:
  "require_stat dk path e s = (Inr st, t) \<longleftrightarrow> dk_stat dk (w_calls (st_world s)) path = Some st \<and> t = tick s"
  by (auto simp: require_stat_def stat_file_def tx_bind_ok world_call_ok tx_return_ok tx_raise_ok split: option.splits)

lemma is_file_ok:
  "is_file dk path s = (Inr there, t) \<longleftrightarrow> t = tick s \<and> (there \<longleftrightarrow> path \<noteq> ''.'' \<and> dk_stat dk (w_calls (st_world s)) path \<noteq> None)"
  by (auto simp: is_file_def stat_file_def tx_bind_ok world_call_ok tx_return_ok)

end
