(* ===== verification/Proofs.thy ===== *)
theory Proofs
  imports Reviews Disk
begin

text \<open>
  \<open>bridge.py\<close>, proof and completion: \<open>record_proof\<close> stores the hashes of the changed files and of the
  evidence, \<open>complete_task\<close> hashes them again, asks the review gate and closes the task; \<open>change_log\<close> and
  \<open>workboard\<close> read.
\<close>

record proof_row =
  ir_record_id :: string
  ir_scope :: string
  ir_task_id :: string
  ir_actor :: string
  ir_change_summary :: string
  ir_changed_paths_json :: string
  ir_before_hashes_json :: string
  ir_after_hashes_json :: string
  ir_tests :: string
  ir_evidence_paths_json :: string
  ir_approval_mode :: approval_mode
  ir_review_ids_json :: string
  ir_recorded_utc :: string
  ir_record_sha256 :: string

record proof_db = task_db +
  integration_records :: "proof_row list"

section \<open>Recording a proof\<close>

record proof_args =
  pa_arg_task_id :: string
  pa_arg_change_summary :: string
  pa_arg_tests :: string
  pa_arg_changed_paths :: "string list"
  pa_arg_evidence_paths :: "string list"
  pa_arg_before_hashes :: "(string \<times> string option) list"
  pa_arg_review_ids :: "string list"
  pa_arg_lease_token :: "string option"

record proof_spec =
  ps_task_id :: string
  ps_summary :: string
  ps_tests :: string
  ps_changed :: "string list"
  ps_evidence :: "string list"
  ps_before :: "(string \<times> string option) list"
  ps_review_ids :: "string list"

fun before_hashes_loop :: "workspace \<Rightarrow> string list \<Rightarrow> (string \<times> string option) list \<Rightarrow> (string \<times> string option) list
    \<Rightarrow> exn + (string \<times> string option) list" where
  "before_hashes_loop ws changed acc [] = Inr acc"
| "before_hashes_loop ws changed acc ((raw_path, raw_hash) # rest) =
     res_bind (normalize_path ws raw_path) (\<lambda>path.
     res_require (path \<in> set changed) (BridgeError ''before_hashes keys must identify entries in changed_paths'')
    (res_require (path \<notin> fst ` set acc) (BridgeError ''before_hashes contains duplicate normalized paths'')
    (res_bind (case raw_hash of None \<Rightarrow> Inr None
        | Some h \<Rightarrow> res_bind (require_sha256 (Some h) (''before_hashes['' @ path @ '']'')) (\<lambda>x. Inr (Some x))) (\<lambda>digest.
     before_hashes_loop ws changed (acc @ [(path, digest)]) rest))))"

definition validate_proof :: "bridge \<Rightarrow> workspace \<Rightarrow> proof_args \<Rightarrow> exn + proof_spec" where
  "validate_proof b ws args =
     res_bind (require_identifier (pa_arg_task_id args) ''task_id'') (\<lambda>task_id.
     res_bind (require_text (pa_arg_change_summary args) ''change_summary'' 20000) (\<lambda>summary.
     res_bind (require_text (pa_arg_tests args) ''tests'' 20000) (\<lambda>tests.
     res_bind (res_map (normalize_path ws) (pa_arg_changed_paths args)) (\<lambda>changed.
     res_require (\<not> list_ex (is_protected ws) changed)
       (BridgeError ''changed_paths contains a protected or sensitive target'')
    (res_bind (clean_artifacts (br_sha256 b) ws (pa_arg_evidence_paths args) None False) (\<lambda>evidence.
     res_require (\<not> (changed = [] \<and> evidence = []))
       (BridgeError ''proof needs at least one changed path or evidence artifact'')
    (res_bind (before_hashes_loop ws changed [] (pa_arg_before_hashes args)) (\<lambda>before.
     res_require (fst ` set before = set changed)
       (BridgeError ''before_hashes must contain exactly one entry for every changed path'')
    (res_bind (res_map (\<lambda>x. require_identifier x ''review_id'') (pa_arg_review_ids args)) (\<lambda>review_ids.
     Inr \<lparr>ps_task_id = task_id, ps_summary = summary, ps_tests = tests, ps_changed = changed, ps_evidence = evidence,
       ps_before = before, ps_review_ids = review_ids\<rparr>))))))))))"

definition write_scopes :: "bridge \<Rightarrow> string \<Rightarrow> 'a task_db_scheme \<Rightarrow> string list" where
  "write_scopes b task_id d = map pa_path_prefix
     (filter (\<lambda>p. pa_scope p = br_scope b \<and> pa_task_id p = task_id \<and> pa_write p) (task_paths d))"

definition inside_scope :: "string list \<Rightarrow> string \<Rightarrow> ('d, unit) op" where
  "inside_scope scopes path = tx_require (list_ex (path_within path) scopes)
     (BridgeError (''changed path is outside the task write scope: '' @ path))"

text \<open>A dictionary of digests: of every listed path, the digest that was computed.\<close>

definition hashes_of :: "(string \<times> file_hash) list \<Rightarrow> string list \<Rightarrow> (string \<times> json) list" where
  "hashes_of hashed paths = map (\<lambda>p. (p, json_opt (\<lambda>h. JStr (fh_sha256 h)) (map_of hashed p))) (dict_fromkeys paths)"

definition unchanged_since :: "disk \<Rightarrow> workspace \<Rightarrow> string \<times> file_hash \<Rightarrow> ('d, unit) op" where
  "unchanged_since dk ws ph = tx_bind (resolve_path dk ws (fst ph) True) (\<lambda>resolved.
     tx_bind (require_stat dk resolved OSError) (\<lambda>current.
     tx_require (file_identity current = fh_identity (snd ph))
       (BridgeError (''artifact changed before proof recording: '' @ fst ph))))"

definition proof_content :: "bridge \<Rightarrow> proof_spec \<Rightarrow> (string \<times> file_hash) list \<Rightarrow> task_row \<Rightarrow> string \<Rightarrow> string \<Rightarrow> json" where
  "proof_content b p hashed task record_id recorded = JObj
     [(''record_id'', JStr record_id), (''scope'', JStr (br_scope b)), (''task_id'', JStr (ps_task_id p)),
      (''actor'', JStr (br_agent_id b)), (''change_summary'', JStr (ps_summary p)),
      (''changed_paths'', json_texts (ps_changed p)),
      (''before_hashes'', JObj (map (\<lambda>(path, h). (path, json_opt JStr h)) (ps_before p))),
      (''after_hashes'', JObj (hashes_of hashed (ps_changed p))), (''tests'', JStr (ps_tests p)),
      (''evidence_paths'', json_texts (ps_evidence p)),
      (''evidence_hashes'', JObj (hashes_of hashed (ps_evidence p))),
      (''approval_mode'', JStr (approval_text (tk_approval_mode task))),
      (''review_ids'', json_texts (ps_review_ids p)), (''recorded_utc'', JStr recorded)]"

definition new_proof :: "bridge \<Rightarrow> proof_spec \<Rightarrow> (string \<times> file_hash) list \<Rightarrow> task_row \<Rightarrow> string \<Rightarrow> string \<Rightarrow> proof_row" where
  "new_proof b p hashed task record_id recorded =
     \<lparr>ir_record_id = record_id, ir_scope = br_scope b, ir_task_id = ps_task_id p, ir_actor = br_agent_id b,
      ir_change_summary = ps_summary p, ir_changed_paths_json = json_path_list (ps_changed p),
      ir_before_hashes_json = json_spaced (JObj (map (\<lambda>(path, h). (path, json_opt JStr h)) (ps_before p))),
      ir_after_hashes_json = json_spaced (JObj (hashes_of hashed (ps_changed p))), ir_tests = ps_tests p,
      ir_evidence_paths_json = json_spaced (JObj [(''paths'', json_texts (ps_evidence p)),
        (''hashes'', JObj (hashes_of hashed (ps_evidence p)))]),
      ir_approval_mode = tk_approval_mode task, ir_review_ids_json = json_path_list (ps_review_ids p),
      ir_recorded_utc = recorded,
      ir_record_sha256 = stable_sha256 (br_sha256 b) (proof_content b p hashed task record_id recorded)\<rparr>"

definition insert_proof :: "proof_row \<Rightarrow> ('a proof_db_scheme, unit) op" where
  "insert_proof row =
     tx_bind (tx_query (\<lambda>d. list_ex (\<lambda>r. ir_record_id r = ir_record_id row) (integration_records d))) (\<lambda>clash.
     tx_then (tx_require (\<not> clash) IntegrityError)
     (tx_execute (\<lambda>d. d\<lparr>integration_records := integration_records d @ [row]\<rparr>)))"

definition record_proof_tx :: "bridge \<Rightarrow> disk \<Rightarrow> workspace \<Rightarrow> proof_spec \<Rightarrow> string option \<Rightarrow> (string \<times> file_hash) list
    \<Rightarrow> ('a proof_db_scheme, proof_row) op" where
  "record_proof_tx b dk ws p lease_token hashed =
     tx_bind (require_lease b (ps_task_id p) lease_token) (\<lambda>task.
     tx_bind (tx_query (write_scopes b (ps_task_id p))) (\<lambda>scopes.
     tx_then (tx_for (inside_scope scopes) (ps_changed p))
    (tx_then (tx_for (unchanged_since dk ws) hashed)
    (tx_bind uuid4_hex (\<lambda>record_id.
     tx_bind utc_now (\<lambda>recorded.
     let row = new_proof b p hashed task record_id recorded in
     tx_then (insert_proof row)
    (tx_then (event_op b ''proof.recorded''
       [(''record_id'', JStr record_id), (''record_sha256'', JStr (ir_record_sha256 row))] (Some (ps_task_id p)))
     (tx_return row))))))))"

definition record_proof :: "bridge \<Rightarrow> disk \<Rightarrow> workspace \<Rightarrow> proof_args \<Rightarrow> ('a proof_db_scheme, proof_row) op" where
  "record_proof b dk ws args =
     tx_bind (tx_lift (validate_proof b ws args)) (\<lambda>p.
     tx_bind (with_connection (tx_then (require_lease b (ps_task_id p) (pa_arg_lease_token args))
       (tx_query (write_scopes b (ps_task_id p))))) (\<lambda>scopes.
     tx_then (tx_for (inside_scope scopes) (ps_changed p))
    (tx_bind (hash_proof_files (br_sha256 b) dk ws (ps_changed p @ ps_evidence p)) (\<lambda>hashed.
     with_connection (record_proof_tx b dk ws p (pa_arg_lease_token args) hashed)))))"

definition change_log :: "bridge \<Rightarrow> string option \<Rightarrow> int option \<Rightarrow> ('a proof_db_scheme, proof_row list) op" where
  "change_log b task_id limit =
    (let task_id = py_strip (default_to [] task_id) in
     tx_bind (tx_lift (if task_id = [] then Inr [] else require_identifier task_id ''task_id'')) (\<lambda>task_id.
     let limit = nat (max 1 (min (default_to 50 limit) 500)) in
     with_connection (tx_query (\<lambda>d. take limit (rev (sort_key ir_recorded_utc (filter (\<lambda>r. ir_scope r = br_scope b
       \<and> (task_id = [] \<or> ir_task_id r = task_id)) (integration_records d))))))))"

section \<open>Completing a task\<close>

definition task_proofs :: "bridge \<Rightarrow> string \<Rightarrow> 'a proof_db_scheme \<Rightarrow> proof_row list" where
  "task_proofs b task_id d =
     sort_key ir_recorded_utc (filter (\<lambda>r. ir_scope r = br_scope b \<and> ir_task_id r = task_id) (integration_records d))"

text \<open>
  The digests a stored proof expects. The two columns are written by \<open>record_proof\<close> only; other text is
  an error of \<open>json.loads\<close> or of the dictionary operations.
\<close>

definition expected_hashes :: "proof_row \<Rightarrow> exn + (string \<times> json) list" where
  "expected_hashes row = (case (json_loads (ir_after_hashes_json row), json_loads (ir_evidence_paths_json row)) of
     (Some (JObj after_hashes), Some (JObj evidence)) \<Rightarrow>
       (case map_of evidence ''hashes'' of
          None \<Rightarrow> Inr after_hashes
        | Some (JObj hashes) \<Rightarrow> Inr (obj_update after_hashes hashes)
        | Some other \<Rightarrow> Inl (ValueError ''proof record''))
   | other \<Rightarrow> Inl (ValueError ''proof record''))"

record proof_check =
  pk_record_id :: string
  pk_record_sha256 :: string
  pk_tests :: string
  pk_drift :: "(string \<times> json \<times> string option) list"

definition live_sha :: "(string \<times> file_hash) list \<Rightarrow> string \<Rightarrow> string option" where
  "live_sha hashed path = map_option fh_sha256 (map_of hashed path)"

definition proof_check_of :: "(string \<times> file_hash) list \<Rightarrow> proof_row \<times> (string \<times> json) list \<Rightarrow> proof_check" where
  "proof_check_of hashed re = \<lparr>pk_record_id = ir_record_id (fst re), pk_record_sha256 = ir_record_sha256 (fst re),
     pk_tests = ir_tests (fst re),
     pk_drift = map (\<lambda>(path, expected). (path, expected, live_sha hashed path))
       (filter (\<lambda>(path, expected). json_opt JStr (live_sha hashed path) \<noteq> expected) (snd re))\<rparr>"

fun existing_files :: "disk \<Rightarrow> workspace \<Rightarrow> string list \<Rightarrow> ('d, string list) op" where
  "existing_files dk ws [] = tx_return []"
| "existing_files dk ws (path # paths) =
     tx_bind (resolve_path dk ws path False) (\<lambda>resolved.
     tx_bind (is_file dk resolved) (\<lambda>there.
     tx_bind (existing_files dk ws paths) (\<lambda>rest. tx_return (if there then path # rest else rest))))"

definition proofs_are_live :: "bridge \<Rightarrow> disk \<Rightarrow> workspace \<Rightarrow> string
    \<Rightarrow> ('a proof_db_scheme, bool \<times> proof_check list \<times> (string \<times> (int \<times> int)) list) op" where
  "proofs_are_live b dk ws task_id =
     tx_bind (tx_query (task_proofs b task_id)) (\<lambda>rows.
     tx_bind (tx_lift (res_map expected_hashes rows)) (\<lambda>expected.
     tx_bind (existing_files dk ws (dict_fromkeys (concat (map (map fst) expected)))) (\<lambda>existing.
     tx_bind (if existing = [] then tx_return [] else hash_proof_files (br_sha256 b) dk ws existing) (\<lambda>hashed.
     let checks = map (proof_check_of hashed) (zip rows expected) in
     tx_return (rows \<noteq> [] \<and> list_all (\<lambda>c. pk_drift c = [] \<and> pk_tests c \<noteq> []) checks, checks,
       map (\<lambda>(path, h). (path, fh_identity h)) hashed)))))"

definition check_json :: "proof_check \<Rightarrow> json" where
  "check_json c = JObj [(''record_id'', JStr (pk_record_id c)), (''record_sha256'', JStr (pk_record_sha256 c)),
     (''tests'', JStr (pk_tests c)), (''drift'', JList (map (\<lambda>(path, expected, live). JObj [(''path'', JStr path),
       (''expected'', expected), (''live'', json_opt JStr live)]) (pk_drift c)))]"

definition still_identical :: "disk \<Rightarrow> workspace \<Rightarrow> string \<times> (int \<times> int) \<Rightarrow> ('d, unit) op" where
  "still_identical dk ws pi = tx_bind (resolve_path dk ws (fst pi) False) (\<lambda>resolved.
     tx_bind (is_file dk resolved) (\<lambda>there.
     tx_then (tx_require there (BridgeError ''proof changed while completing the task''))
    (tx_bind (require_stat dk resolved OSError) (\<lambda>current.
     tx_require (file_identity current = snd pi) (BridgeError ''proof changed while completing the task'')))))"

record completion =
  cm_task_id :: string
  cm_completed_utc :: string
  cm_proof_checks :: "proof_check list"
  cm_review :: review_report
  cm_chain_sha256 :: string

definition close_task_tx :: "bridge \<Rightarrow> disk \<Rightarrow> workspace \<Rightarrow> string \<Rightarrow> string option \<Rightarrow> proof_check list
    \<Rightarrow> (string \<times> (int \<times> int)) list \<Rightarrow> review_report \<Rightarrow> ('a proof_db_scheme, completion) op" where
  "close_task_tx b dk ws task_id lease_token checks identities review =
     tx_then (require_lease b task_id lease_token)
    (tx_bind (tx_query (\<lambda>d. map (\<lambda>r. (ir_record_id r, ir_record_sha256 r)) (task_proofs b task_id d))) (\<lambda>live.
     tx_then (tx_require (live = map (\<lambda>c. (pk_record_id c, pk_record_sha256 c)) checks)
       (BridgeError ''proof records changed while completing the task''))
    (tx_then (tx_for (still_identical dk ws) identities)
    (tx_bind utc_now (\<lambda>completed.
     tx_then (update_tasks b task_id (unclaimed Task_Complete completed))
    (tx_bind (event_op b ''task.completed''
       [(''proof_records'', json_texts (map pk_record_sha256 checks)),
        (''review_policy_reason'', JStr (rr_policy_reason review)),
        (''approved_reviewers'', json_texts (rr_approved_reviewers review))] (Some task_id)) (\<lambda>event.
     tx_return \<lparr>cm_task_id = task_id, cm_completed_utc = completed, cm_proof_checks = checks, cm_review = review,
       cm_chain_sha256 = snd event\<rparr>)))))))"

definition complete_task :: "bridge \<Rightarrow> disk \<Rightarrow> workspace \<Rightarrow> int \<Rightarrow> string \<Rightarrow> string option \<Rightarrow> ('a proof_db_scheme, completion) op" where
  "complete_task b dk ws ttl task_id lease_token =
     tx_bind (tx_lift (require_identifier task_id ''task_id'')) (\<lambda>task_id.
     tx_bind (with_connection (
       tx_then (require_lease b task_id lease_token)
      (tx_bind (proofs_are_live b dk ws task_id) (\<lambda>(ready, checks, identities).
       tx_then (tx_require ready (BridgeError (''task proof is missing or has live hash drift: ''
         @ json_spaced (JList (map check_json checks)))))
       (tx_return (checks, identities)))))) (\<lambda>(checks, identities).
     tx_bind (review_summary b ttl task_id) (\<lambda>review.
     tx_then (tx_require (rr_ready_for_completion review)
       (BridgeError (''review gate is not ready: '' @ rr_policy_reason review)))
     (with_connection (close_task_tx b dk ws task_id lease_token checks identities review)))))"

section \<open>The workboard\<close>

record board_item =
  bi_task :: task_row
  bi_paths :: "path_row list"
  bi_latest_update :: "work_row option"

text \<open>The token digest is left out of the item.\<close>

definition board_item_of :: "bridge \<Rightarrow> 'a task_db_scheme \<Rightarrow> task_row \<Rightarrow> board_item" where
  "board_item_of b d row =
    (let updates = sort_key wu_created_utc (filter (\<lambda>u. wu_scope u = br_scope b \<and> wu_task_id u = tk_task_id row) (work_updates d)) in
     \<lparr>bi_task = row\<lparr>tk_lease_token_sha256 := None\<rparr>,
      bi_paths = sort_key pa_write (sort_key pa_path_prefix
        (filter (\<lambda>p. pa_scope p = br_scope b \<and> pa_task_id p = tk_task_id row) (task_paths d))),
      bi_latest_update = (if updates = [] then None else Some (last updates))\<rparr>)"

definition workboard :: "bridge \<Rightarrow> int \<Rightarrow> bool \<Rightarrow> int option \<Rightarrow> ('a task_db_scheme, board_item list \<times> string list) op" where
  "workboard b ttl include_completed limit =
    (let limit = nat (max 1 (min (default_to 100 limit) 500)) in
     tx_bind (with_connection (tx_then (expire_leases b) (tx_query (\<lambda>d. map (board_item_of b d)
       (take limit (rev (sort_key tk_updated_utc (rev (sort_key tk_task_id
         (filter (\<lambda>r. tk_scope r = br_scope b \<and> (include_completed \<or> tk_status r \<noteq> Task_Complete)) (tasks d)))))))))))
     (\<lambda>items. tx_bind (online_agents b ttl) (\<lambda>online. tx_return (items, online))))"

end
