(* ===== verification/TaskSystem.thy ===== *)
theory TaskSystem
  imports Reviews
begin

text \<open>
  The task component as a system shared by all bridges of a database: the clock only moves on, the
  audit chain and the task table stay well formed, a task only progresses, and live leases never
  overlap. Every call is a sequence of the few database changes named here.
\<close>

section \<open>The clock\<close>

text \<open>A run only moves on in the streams of the world.\<close>

definition later :: "'d pstate \<Rightarrow> 'd pstate \<Rightarrow> bool" where
  "later s t \<longleftrightarrow> (\<exists>n. st_world t = (st_world s)\<lparr>w_calls := w_calls (st_world s) + n\<rparr>)"

definition forward :: "('d, 'e, 'a) tx \<Rightarrow> bool" where
  "forward m \<longleftrightarrow> (\<forall>s. later s (snd (m s)))"

named_theorems forward_intros \<open>syntax-directed rules for forward\<close>

lemma later_refl [simp]: "later s s"
  unfolding later_def by (rule exI [of _ 0]) simp

lemma later_trans: "later s t \<Longrightarrow> later t u \<Longrightarrow> later s u"
proof -
  assume "later s t" "later t u"
  then obtain m n where "st_world t = (st_world s)\<lparr>w_calls := w_calls (st_world s) + m\<rparr>"
    "st_world u = (st_world t)\<lparr>w_calls := w_calls (st_world t) + n\<rparr>" by (auto simp: later_def)
  then show ?thesis unfolding later_def by (intro exI [of _ "m + n"]) (simp add: add.assoc)
qed

lemma later_db [simp]: "later s (t\<lparr>st_db := d\<rparr>) = later s t" "later (s\<lparr>st_db := d\<rparr>) t = later s t"
  by (simp_all add: later_def)

lemma later_tick: "later s (tick s)"
  unfolding later_def by (rule exI [of _ 1]) (simp add: tick_def)

lemma forwardI: "(\<And>s. later s (snd (m s))) \<Longrightarrow> forward m"
  by (simp add: forward_def)

lemma forwardD: "forward m \<Longrightarrow> m s = (r, t) \<Longrightarrow> later s t"
  by (auto simp: forward_def) (metis snd_conv)

lemma forward_basic [forward_intros]:
  "forward (tx_return a)" "forward (tx_raise e)" "forward (tx_require c e)" "forward (tx_lift r)" "forward (tx_query g)"
  "forward (tx_execute f)" "forward time_time" "forward time_monotonic" "forward utc_now" "forward uuid4_hex"
  "forward token_urlsafe"
  by (rule forwardI; simp add: tx_return_def tx_raise_def tx_require_def tx_lift_def tx_query_def tx_execute_def
      time_time_def time_monotonic_def utc_now_def uuid4_hex_def token_urlsafe_def world_call_def later_tick)+

lemma forward_bind [forward_intros]:
  assumes "forward m" and "\<And>a. forward (f a)"
  shows "forward (tx_bind m f)"
proof (rule forwardI)
  fix s
  show "later s (snd (tx_bind m f s))"
  proof (cases "m s")
    case (Pair r u)
    have su: "later s u" by (rule forwardD [OF assms(1) Pair])
    show ?thesis
    proof (cases r)
      case (Inr a)
      have "later u (snd (f a u))" using assms(2) [of a] by (simp add: forward_def)
      then show ?thesis using su later_trans Pair Inr by (auto simp: tx_bind_def)
    qed (use su Pair in \<open>simp add: tx_bind_def\<close>)
  qed
qed

lemma forward_then [forward_intros]: "forward m \<Longrightarrow> forward n \<Longrightarrow> forward (tx_then m n)"
  by (simp add: tx_then_def forward_bind)

lemma forward_catch [forward_intros]:
  assumes "forward m" and "forward h"
  shows "forward (tx_catch m P h)"
proof (rule forwardI)
  fix s
  show "later s (snd (tx_catch m P h s))"
  proof (cases "m s")
    case (Pair r u)
    have "later s u" "later u (snd (h u))" using forwardD [OF assms(1) Pair] assms(2) by (simp_all add: forward_def)
    then show ?thesis using Pair later_trans by (cases r) (auto simp: tx_catch_def)
  qed
qed

lemma forward_connection [forward_intros]:
  assumes "forward m"
  shows "forward (with_connection m)"
proof (rule forwardI)
  fix s
  obtain r u where m: "m s = (r, u)" by (cases "m s")
  then have "later s u" using forwardD assms by blast
  then show "later s (snd (with_connection m s))" using m by (cases r) (simp_all add: with_connection_def)
qed

lemma forward_for [forward_intros]: "(\<And>x. forward (f x)) \<Longrightarrow> forward (tx_for f xs)"
  by (induction xs) (auto intro!: forward_intros)

lemma forward_let [forward_intros]: "forward (f x) \<Longrightarrow> forward (Let x f)"
  by simp

lemma forward_if [forward_intros]: "forward m \<Longrightarrow> forward n \<Longrightarrow> forward (if c then m else n)"
  by simp

lemma forward_option [forward_intros]:
  "forward m \<Longrightarrow> (\<And>x. forward (f x)) \<Longrightarrow> forward (case v of None \<Rightarrow> m | Some x \<Rightarrow> f x)"
  by (cases v) simp_all

lemma forward_pair [forward_intros]: "(\<And>x y. forward (f x y)) \<Longrightarrow> forward (case p of (x, y) \<Rightarrow> f x y)"
  by (cases p) simp

lemma forward_event [forward_intros]: "forward (event_op b ty p tid)"
  unfolding event_op_def reserve_event_storage_def Let_def by (intro forward_intros)

text \<open>\<open>time.time()\<close> is assumed not to run backwards where a property depends on it.\<close>

definition clock_monotone :: "world \<Rightarrow> bool" where
  "clock_monotone w \<longleftrightarrow> mono (w_time w)"

lemma later_clock: "later s t \<Longrightarrow> clock_monotone (st_world s) \<Longrightarrow>
    clock_monotone (st_world t) \<and> time_at s \<le> time_at t"
  by (auto simp: later_def clock_monotone_def mono_def)

section \<open>Frames\<close>

definition same_tasks :: "'a task_db_scheme \<Rightarrow> 'a task_db_scheme \<Rightarrow> bool" where
  "same_tasks d d' \<longleftrightarrow> tasks d' = tasks d \<and> task_paths d' = task_paths d
     \<and> task_required_peers d' = task_required_peers d \<and> peer_calls d' = peer_calls d
     \<and> peer_reviews d' = peer_reviews d \<and> agent_presence d' = agent_presence d"

lemma same_tasks_refl [simp]: "same_tasks d d"
  by (simp add: same_tasks_def)

lemma same_tasks_trans: "same_tasks a b \<Longrightarrow> same_tasks b c \<Longrightarrow> same_tasks a c"
  by (simp add: same_tasks_def)

lemma event_same_tasks:
  fixes s :: "'a task_db_scheme pstate"
  assumes "event_op b ty p tid s = (Inr x, t)"
  shows "same_tasks (st_db s) (st_db t)"
  using event_op_ok [OF assms] by (auto simp: appends_def same_tasks_def)

lemma update_tasks_ok [tx_simps]:
  "update_tasks b i f s = (Inr x, t) \<longleftrightarrow> t = s\<lparr>st_db := (st_db s)\<lparr>tasks := update_where (task_is b i) f (tasks (st_db s))\<rparr>\<rparr>"
  by (simp add: update_tasks_def tx_simps)

section \<open>Well-formed tasks\<close>

definition task_key :: "task_row \<Rightarrow> string \<times> string" where
  "task_key t = (tk_scope t, tk_task_id t)"

text \<open>The five lease columns are present together, exactly while the task is claimed.\<close>

definition task_row_ok :: "task_row \<Rightarrow> bool" where
  "task_row_ok t \<longleftrightarrow> (tk_status t = Task_Claimed \<longleftrightarrow> tk_claimed_by t \<noteq> None)
     \<and> (tk_claimed_by t \<noteq> None \<longleftrightarrow> tk_claimed_session_id t \<noteq> None)
     \<and> (tk_claimed_by t \<noteq> None \<longleftrightarrow> tk_lease_token_sha256 t \<noteq> None)
     \<and> (tk_claimed_by t \<noteq> None \<longleftrightarrow> tk_lease_expires_epoch t \<noteq> None)
     \<and> (tk_claimed_by t \<noteq> None \<longleftrightarrow> tk_claimed_utc t \<noteq> None)
     \<and> 1 \<le> tk_task_revision t"

definition path_key :: "path_row \<Rightarrow> string \<times> string" where
  "path_key p = (pa_scope p, pa_task_id p)"

text \<open>The primary key of the tasks and the foreign key of their paths.\<close>

definition tasks_ok :: "'a task_db_scheme \<Rightarrow> bool" where
  "tasks_ok d \<longleftrightarrow> distinct (map task_key (tasks d)) \<and> (\<forall>t \<in> set (tasks d). task_row_ok t)
     \<and> path_key ` set (task_paths d) \<subseteq> task_key ` set (tasks d)"

text \<open>What a task may become: its revision rises with its content, and a complete task stays as it is.\<close>

definition task_progress :: "task_row \<Rightarrow> task_row \<Rightarrow> bool" where
  "task_progress t t' \<longleftrightarrow> task_key t' = task_key t \<and> tk_task_revision t \<le> tk_task_revision t'
     \<and> (tk_task_revision t = tk_task_revision t' \<longrightarrow> tk_task_sha256 t = tk_task_sha256 t')
     \<and> (tk_status t = Task_Complete \<longrightarrow> t' = t)"

definition progresses :: "'a task_db_scheme \<Rightarrow> 'a task_db_scheme \<Rightarrow> bool" where
  "progresses d d' \<longleftrightarrow> (\<forall>t \<in> set (tasks d). \<exists>t' \<in> set (tasks d'). task_progress t t')"

lemma task_progress_refl [simp]: "task_progress t t"
  by (simp add: task_progress_def)

lemma task_progress_trans: "task_progress t u \<Longrightarrow> task_progress u v \<Longrightarrow> task_progress t v"
  unfolding task_progress_def by (metis dual_order.antisym order_trans)

lemma progresses_same: "tasks d' = tasks d \<Longrightarrow> progresses d d'"
  by (auto simp: progresses_def intro: task_progress_refl)

lemma progresses_trans: "progresses a b \<Longrightarrow> progresses b c \<Longrightarrow> progresses a c"
  unfolding progresses_def by (meson task_progress_trans)

section \<open>Live leases do not overlap\<close>

definition live_at :: "int \<Rightarrow> task_row \<Rightarrow> bool" where
  "live_at now t \<longleftrightarrow> tk_status t = Task_Claimed \<and> (\<exists>e. tk_lease_expires_epoch t = Some e \<and> now < e)"

text \<open>Two tasks compete: some path of one overlaps some path of the other, and one of the two is written.\<close>

definition compete :: "path_row list \<Rightarrow> task_row \<Rightarrow> task_row \<Rightarrow> bool" where
  "compete paths t u \<longleftrightarrow> (\<exists>p \<in> set (paths_of t paths). \<exists>q \<in> set (paths_of u paths).
     (pa_write p \<or> pa_write q) \<and> path_overlaps (pa_path_prefix p) (pa_path_prefix q))"

definition exclusive_paths :: "int \<Rightarrow> 'a task_db_scheme \<Rightarrow> bool" where
  "exclusive_paths now d \<longleftrightarrow> (\<forall>t \<in> set (tasks d). \<forall>u \<in> set (tasks d).
     task_key t \<noteq> task_key u \<longrightarrow> tk_workspace_root_key t = tk_workspace_root_key u \<longrightarrow> live_at now t \<longrightarrow> live_at now u
       \<longrightarrow> \<not> compete (task_paths d) t u)"

lemma live_at_mono: "live_at n t \<Longrightarrow> m \<le> n \<Longrightarrow> live_at m t"
  unfolding live_at_def by auto

lemma paths_of_key: "task_key t = task_key u \<Longrightarrow> paths_of t ps = paths_of u ps"
  by (simp add: paths_of_def task_key_def)

lemma compete_sym: "compete ps t u = compete ps u t"
  unfolding compete_def using path_overlaps_sym by blast

lemma compete_key: "task_key t = task_key t' \<Longrightarrow> task_key u = task_key u' \<Longrightarrow> compete ps t u = compete ps t' u'"
  by (simp add: compete_def paths_of_key [of t t'] paths_of_key [of u u'])

text \<open>A change after which every live lease was live before leaves the leases apart.\<close>

definition from_live :: "int \<Rightarrow> int \<Rightarrow> 'a task_db_scheme \<Rightarrow> 'a task_db_scheme \<Rightarrow> bool" where
  "from_live m n d d' \<longleftrightarrow> task_paths d' = task_paths d \<and> (\<forall>t' \<in> set (tasks d'). live_at n t' \<longrightarrow>
     (\<exists>t \<in> set (tasks d). task_key t = task_key t' \<and> tk_workspace_root_key t = tk_workspace_root_key t' \<and> live_at m t))"

lemma from_live_exclusive:
  assumes "from_live m n d d'" and "exclusive_paths m d"
  shows "exclusive_paths n d'"
  unfolding exclusive_paths_def
proof (intro ballI impI)
  fix t' u'
  assume tu: "t' \<in> set (tasks d')" "u' \<in> set (tasks d')" "task_key t' \<noteq> task_key u'"
    "tk_workspace_root_key t' = tk_workspace_root_key u'" "live_at n t'" "live_at n u'"
  obtain t where t: "t \<in> set (tasks d)" "task_key t = task_key t'" "tk_workspace_root_key t = tk_workspace_root_key t'" "live_at m t"
    using assms(1) tu(1,5) unfolding from_live_def by blast
  obtain u where u: "u \<in> set (tasks d)" "task_key u = task_key u'" "tk_workspace_root_key u = tk_workspace_root_key u'" "live_at m u"
    using assms(1) tu(2,6) unfolding from_live_def by blast
  have "\<not> compete (task_paths d) t u"
    using assms(2) t u tu(3,4) unfolding exclusive_paths_def by simp
  then show "\<not> compete (task_paths d') t' u'"
    using compete_key [OF t(2) u(2)] assms(1) by (simp add: from_live_def)
qed

lemma from_live_same: "m \<le> n \<Longrightarrow> tasks d' = tasks d \<Longrightarrow> task_paths d' = task_paths d \<Longrightarrow> from_live m n d d'"
  unfolding from_live_def using live_at_mono by auto

lemma exclusive_later: "exclusive_paths m d \<Longrightarrow> m \<le> n \<Longrightarrow> exclusive_paths n d"
  using from_live_exclusive from_live_same by blast

section \<open>Advances\<close>

text \<open>
  What a piece of a call does to the tasks between two instants: it keeps them well formed, the
  tasks progress, and live leases that were apart at the first instant are apart at the second.
\<close>

definition advance :: "int \<Rightarrow> int \<Rightarrow> 'a task_db_scheme \<Rightarrow> 'a task_db_scheme \<Rightarrow> bool" where
  "advance m n d d' \<longleftrightarrow> (tasks_ok d \<longrightarrow> tasks_ok d' \<and> progresses d d' \<and> (exclusive_paths m d \<longrightarrow> exclusive_paths n d'))"

lemma advance_trans: "advance k m a b \<Longrightarrow> advance m n b c \<Longrightarrow> advance k n a c"
  unfolding advance_def using progresses_trans by blast

lemma exclusive_same: "same_tasks d d' \<Longrightarrow> exclusive_paths m d' = exclusive_paths m d"
  by (simp add: exclusive_paths_def same_tasks_def)

lemma advance_same:
  assumes "same_tasks d d'" and "m \<le> n"
  shows "advance m n d d'"
proof -
  have "exclusive_paths m d \<Longrightarrow> exclusive_paths n d'"
    using exclusive_same [OF assms(1)] exclusive_later assms(2) by blast
  then show ?thesis
    using assms(1) by (simp add: advance_def same_tasks_def tasks_ok_def progresses_same)
qed

lemma advance_later: "advance k m a b \<Longrightarrow> m \<le> n \<Longrightarrow> advance k n a b"
  using advance_trans advance_same same_tasks_refl by blast

lemma task_is_key: "task_is b i r \<longleftrightarrow> task_key r = (br_scope b, i)"
  by (auto simp: task_is_def task_key_def)

lemma fetch_task:
  assumes "fetch_one (task_is b i) (tasks d) = Some t"
  shows "t \<in> set (tasks d)" and "task_is b i t"
  using fetch_one_SomeD [OF assms] by simp_all

lemma fetch_task_unique:
  assumes "tasks_ok d" and "fetch_one (task_is b i) (tasks d) = Some t" and "r \<in> set (tasks d)" and "task_is b i r"
  shows "r = t"
  using assms fetch_task [OF assms(2)] distinct_key_eq [of task_key "tasks d" r t] by (simp add: tasks_ok_def task_is_key)

text \<open>A change of one task that keeps its identity, and whose lease, if live after, was live before.\<close>

definition keeps_lease :: "int \<Rightarrow> int \<Rightarrow> task_row \<Rightarrow> task_row \<Rightarrow> bool" where
  "keeps_lease m n r r' \<longleftrightarrow> task_key r' = task_key r \<and> tk_workspace_root_key r' = tk_workspace_root_key r
     \<and> task_row_ok r' \<and> task_progress r r' \<and> (live_at n r' \<longrightarrow> live_at m r)"

lemma tasks_ok_update:
  assumes "tasks_ok d" and "\<And>r. r \<in> set (tasks d) \<Longrightarrow> task_is b i r \<Longrightarrow> task_key (f r) = task_key r \<and> task_row_ok (f r)"
  shows "tasks_ok (d\<lparr>tasks := update_where (task_is b i) f (tasks d)\<rparr>)"
proof -
  have keys: "map task_key (update_where (task_is b i) f (tasks d)) = map task_key (tasks d)"
    using assms(2) by (auto simp: update_where_def)
  have "\<forall>t \<in> set (update_where (task_is b i) f (tasks d)). task_row_ok t"
    using assms by (auto simp: set_update_where tasks_ok_def)
  moreover have "task_key ` set (update_where (task_is b i) f (tasks d)) = task_key ` set (tasks d)"
    using arg_cong [OF keys, of set] by (simp only: list.set_map)
  ultimately show ?thesis using assms(1) keys by (simp add: tasks_ok_def)
qed

lemma advance_update:
  assumes "\<And>r. tasks_ok d \<Longrightarrow> r \<in> set (tasks d) \<Longrightarrow> task_is b i r \<Longrightarrow> keeps_lease m n r (f r)" and "m \<le> n"
  shows "advance m n d (d\<lparr>tasks := update_where (task_is b i) f (tasks d)\<rparr>)"
  unfolding advance_def
proof (intro impI conjI)
  assume ok: "tasks_ok d"
  have one: "keeps_lease m n r (f r)" if "r \<in> set (tasks d)" "task_is b i r" for r
    using assms(1) ok that by blast
  show "tasks_ok (d\<lparr>tasks := update_where (task_is b i) f (tasks d)\<rparr>)"
    using one by (intro tasks_ok_update ok) (auto simp: keeps_lease_def)
  show "progresses d (d\<lparr>tasks := update_where (task_is b i) f (tasks d)\<rparr>)"
    unfolding progresses_def
  proof
    fix r
    assume r: "r \<in> set (tasks d)"
    have "task_progress r (if task_is b i r then f r else r)"
      using one [OF r] by (simp add: keeps_lease_def)
    then show "\<exists>r' \<in> set (tasks (d\<lparr>tasks := update_where (task_is b i) f (tasks d)\<rparr>)). task_progress r r'"
      using r by (intro bexI [of _ "if task_is b i r then f r else r"]) (simp_all add: set_update_where)
  qed
  have "from_live m n d (d\<lparr>tasks := update_where (task_is b i) f (tasks d)\<rparr>)"
    unfolding from_live_def
  proof (intro conjI ballI impI)
    fix t
    assume t: "t \<in> set (tasks (d\<lparr>tasks := update_where (task_is b i) f (tasks d)\<rparr>))" and live: "live_at n t"
    from t obtain r where r: "r \<in> set (tasks d)" "t = (if task_is b i r then f r else r)"
      by (auto simp: set_update_where)
    show "\<exists>r \<in> set (tasks d). task_key r = task_key t \<and> tk_workspace_root_key r = tk_workspace_root_key t \<and> live_at m r"
    proof (rule bexI [OF _ r(1)], cases "task_is b i r")
      case True
      then show "task_key r = task_key t \<and> tk_workspace_root_key r = tk_workspace_root_key t \<and> live_at m r"
        using one [OF r(1) True] r(2) live by (simp add: keeps_lease_def)
    next
      case False
      then show "task_key r = task_key t \<and> tk_workspace_root_key r = tk_workspace_root_key t \<and> live_at m r"
        using r(2) live live_at_mono assms(2) by auto
    qed
  qed simp
  then show "exclusive_paths m d \<Longrightarrow> exclusive_paths n (d\<lparr>tasks := update_where (task_is b i) f (tasks d)\<rparr>)"
    by (rule from_live_exclusive)
qed

lemma unclaimed_keeps_lease:
  assumes "tk_status r \<noteq> Task_Complete" and "task_row_ok r" and "st = Task_Open \<or> st = Task_Blocked"
  shows "keeps_lease m n r (unclaimed st now r)"
  using assms by (auto simp: keeps_lease_def unclaimed_def task_key_def task_row_ok_def task_progress_def live_at_def)

section \<open>Expiry\<close>

lemma expire_lease_run:
  fixes s :: "'a task_db_scheme pstate"
  assumes "expire_lease b row s = (Inr x, t)"
  obtains now and u :: "'a task_db_scheme pstate" where "st_db u = (st_db s)\<lparr>tasks := update_where (task_is b (tk_task_id row)) (unclaimed Task_Open now)
      (tasks (st_db s))\<rparr>" and "same_tasks (st_db u) (st_db t)"
proof -
  obtain y and u :: "'a task_db_scheme pstate" where "u = (tick s)\<lparr>st_db := (st_db (tick s))\<lparr>tasks := update_where (task_is b (tk_task_id row))
      (unclaimed Task_Open (utc_at s)) (tasks (st_db (tick s)))\<rparr>\<rparr>"
    "event_op b ''task.lease_expired'' [(''previous_holder'', json_opt JStr (tk_claimed_by row))] (Some (tk_task_id row)) u = (Inr y, t)"
    using assms by (auto simp: expire_lease_def tx_simps)
  then show ?thesis using that [of u "utc_at s"] event_same_tasks by fastforce
qed

definition may_expire :: "bridge \<Rightarrow> task_row list \<Rightarrow> 'a task_db_scheme \<Rightarrow> bool" where
  "may_expire b rows d \<longleftrightarrow>
     (\<forall>x \<in> set rows. \<forall>r \<in> set (tasks d). task_is b (tk_task_id x) r \<longrightarrow> tk_status r \<noteq> Task_Complete)"

lemma expire_lease_advance:
  fixes s :: "'a task_db_scheme pstate"
  assumes run: "expire_lease b row s = (Inr x, t)" and may: "may_expire b (row # rows) (st_db s)"
  shows "advance n n (st_db s) (st_db t) \<and> may_expire b rows (st_db t)"
proof -
  obtain now and u :: "'a task_db_scheme pstate" where u: "st_db u = (st_db s)\<lparr>tasks := update_where (task_is b (tk_task_id row)) (unclaimed Task_Open now)
      (tasks (st_db s))\<rparr>" and t: "same_tasks (st_db u) (st_db t)"
    using expire_lease_run [OF run] by blast
  have "advance n n (st_db s) (st_db u)"
    unfolding u
  proof (rule advance_update)
    fix r
    assume "tasks_ok (st_db s)" "r \<in> set (tasks (st_db s))" "task_is b (tk_task_id row) r"
    then show "keeps_lease n n r (unclaimed Task_Open now r)"
      using may unclaimed_keeps_lease by (auto simp: tasks_ok_def may_expire_def)
  qed simp
  then have "advance n n (st_db s) (st_db t)"
    using advance_trans advance_same [OF t] by blast
  moreover have "may_expire b rows (st_db t)"
    using may t by (auto simp: u same_tasks_def may_expire_def set_update_where unclaimed_def task_is_def)
  ultimately show ?thesis ..
qed

lemma expire_leases_advance:
  fixes s :: "'a task_db_scheme pstate"
  assumes "expire_leases b s = (Inr x, t)"
  shows "advance n n (st_db s) (st_db t)"
proof (cases "tasks_ok (st_db s)")
  case True
  let ?rows = "filter (expired_task b (time_at s)) (tasks (st_db s))"
  obtain ys where run: "tx_for (expire_lease b) ?rows (tick s) = (Inr ys, t)"
    using assms by (auto simp: expire_leases_def tx_simps)
  have start: "may_expire b ?rows (st_db (tick s))"
  proof (unfold may_expire_def, intro ballI impI)
    fix x r
    assume x: "x \<in> set ?rows" and r: "r \<in> set (tasks (st_db (tick s)))" "task_is b (tk_task_id x) r"
    then have "r = x"
      using True distinct_key_eq [of task_key "tasks (st_db s)" r x]
      by (auto simp: tasks_ok_def expired_task_def task_key_def task_is_def)
    then show "tk_status r \<noteq> Task_Complete" using x by (simp add: expired_task_def)
  qed
  have "advance n n (st_db s) (st_db t) \<and> may_expire b [] (st_db t)"
    using run
  proof (rule tx_for_rule [where J = "\<lambda>xs d. advance n n (st_db s) d \<and> may_expire b xs d"])
    show "advance n n (st_db s) (st_db (tick s)) \<and> may_expire b ?rows (st_db (tick s))"
      using start by (simp add: advance_same)
  qed (use expire_lease_advance advance_trans in blast)
  then show ?thesis by blast
qed (simp add: advance_def)

end
