(* ===== verification/TaskCalls.thy ===== *)
theory TaskCalls
  imports TaskSystem
begin

text \<open>
  What each call of the task component does: the facts a returning run gives, and that the run is
  an advance from the instant it started to the instant it ended.
\<close>

section \<open>The lease a call needs\<close>

definition holds_lease :: "bridge \<Rightarrow> string option \<Rightarrow> int \<Rightarrow> task_row \<Rightarrow> bool" where
  "holds_lease b lease_token now t \<longleftrightarrow> tk_status t = Task_Claimed \<and> token_or_empty lease_token \<noteq> []
     \<and> tk_claimed_by t = Some (br_agent_id b) \<and> tk_claimed_session_id t = Some (br_session_id b)
     \<and> tk_lease_token_sha256 t = Some (sha256_text (br_sha256 b) (token_or_empty lease_token))
     \<and> (\<exists>e. tk_lease_expires_epoch t = Some e \<and> now < e)"

lemma check_lease_Inr:
  "check_lease b token expires now row = Inr u \<longleftrightarrow> now < expires \<and> tk_claimed_by row = Some (br_agent_id b)
     \<and> tk_claimed_session_id row = Some (br_session_id b)
     \<and> tk_lease_token_sha256 row = Some (sha256_text (br_sha256 b) token)"
  by (auto simp: check_lease_def res_require_Inr)

lemma require_lease_run:
  assumes "require_lease b i lease_token s = (Inr row, t)"
  shows "t = tick s \<and> fetch_one (task_is b i) (tasks (st_db s)) = Some row \<and> holds_lease b lease_token (time_at s) row"
  using assms
  by (auto simp: require_lease_def Let_def tx_simps check_lease_Inr holds_lease_def split: option.splits if_splits)

lemma advance_held:
  assumes "fetch_one (task_is b i) (tasks d) = Some row" and "m \<le> n"
    and "tasks_ok d \<Longrightarrow> row \<in> set (tasks d) \<Longrightarrow> keeps_lease m n row (f row)"
  shows "advance m n d (d\<lparr>tasks := update_where (task_is b i) f (tasks d)\<rparr>)"
  using advance_update [of d b i m n f] assms fetch_task_unique fetch_task by blast

lemma held_live: "holds_lease b tok now t \<Longrightarrow> live_at now t"
  by (auto simp: holds_lease_def live_at_def)

lemma held_relet:
  assumes "holds_lease b tok m r" and "task_row_ok r"
  shows "keeps_lease m n r (r\<lparr>tk_lease_expires_epoch := Some e, tk_updated_utc := now\<rparr>)"
    and "keeps_lease m n r (r\<lparr>tk_summary := summary, tk_updated_utc := now\<rparr>)"
proof -
  show "keeps_lease m n r (r\<lparr>tk_lease_expires_epoch := Some e, tk_updated_utc := now\<rparr>)"
    using assms held_live [OF assms(1)]
    by (auto simp: keeps_lease_def task_key_def task_row_ok_def task_progress_def holds_lease_def)
  show "keeps_lease m n r (r\<lparr>tk_summary := summary, tk_updated_utc := now\<rparr>)"
    using assms held_live [OF assms(1)]
    by (auto simp: keeps_lease_def task_key_def task_row_ok_def task_progress_def holds_lease_def)
qed

text \<open>A call made of a lease check, one change of the leased task and an event.\<close>

definition lease_change :: "bridge \<Rightarrow> string \<Rightarrow> string option \<Rightarrow> (task_row \<Rightarrow> task_row) \<Rightarrow> int
    \<Rightarrow> 'a task_db_scheme \<Rightarrow> 'a task_db_scheme \<Rightarrow> bool" where
  "lease_change b i tok f now d d' \<longleftrightarrow> (\<exists>row. fetch_one (task_is b i) (tasks d) = Some row \<and> holds_lease b tok now row
     \<and> same_tasks (d\<lparr>tasks := update_where (task_is b i) f (tasks d)\<rparr>) d')"

lemma lease_change_advance:
  assumes "lease_change b i tok f m d d'" and "m \<le> n"
    and "\<And>row. holds_lease b tok m row \<Longrightarrow> task_row_ok row \<Longrightarrow> keeps_lease m n row (f row)"
  shows "advance m n d d'"
proof -
  obtain row where row: "fetch_one (task_is b i) (tasks d) = Some row" "holds_lease b tok m row"
    "same_tasks (d\<lparr>tasks := update_where (task_is b i) f (tasks d)\<rparr>) d'"
    using assms(1) by (auto simp: lease_change_def)
  have "advance m n d (d\<lparr>tasks := update_where (task_is b i) f (tasks d)\<rparr>)"
    using assms(3) row(2) by (intro advance_held [OF row(1) assms(2)]) (auto simp: tasks_ok_def)
  then show ?thesis
    using advance_trans advance_same [OF row(3), of n n] by blast
qed

lemma lease_change_earlier: "lease_change b i tok f n d d' \<Longrightarrow> m \<le> n \<Longrightarrow> lease_change b i tok f m d d'"
  unfolding lease_change_def holds_lease_def by (meson le_less_trans)

lemma renew_task_run:
  fixes s :: "'a task_db_scheme pstate"
  assumes "renew_task b i tok ls s = (Inr e, t)"
  shows "e = time_at (tick s) + bounded_lease ls \<and> safe_id (py_strip i)
    \<and> (\<exists>now. lease_change b (py_strip i) tok (\<lambda>r. r\<lparr>tk_lease_expires_epoch := Some e, tk_updated_utc := now\<rparr>)
          (time_at s) (st_db s) (st_db t))"
proof -
  obtain row u v x where c: "require_lease b (py_strip i) tok s = (Inr row, u)" "safe_id (py_strip i)"
    "e = time_at u + bounded_lease ls"
    "v = (st_db u)\<lparr>tasks := update_where (task_is b (py_strip i))
       (\<lambda>r. r\<lparr>tk_lease_expires_epoch := Some e, tk_updated_utc := utc_at (tick u)\<rparr>) (tasks (st_db u))\<rparr>"
    "event_op b ''task.lease_renewed'' [(''lease_seconds'', JInt (bounded_lease ls)), (''lease_expires_epoch'', json_epoch e)]
       (Some (py_strip i)) ((tick (tick u))\<lparr>st_db := v\<rparr>) = (Inr x, t)"
    using assms by (auto simp: renew_task_def Let_def tx_simps require_identifier_Inr)
  show ?thesis
    using require_lease_run [OF c(1)] c(2-4) event_same_tasks [OF c(5)] by (auto simp: lease_change_def)
qed

lemma release_task_run:
  fixes s :: "'a task_db_scheme pstate"
  assumes "release_task b i tok status reason s = (Inr st, t)"
  shows "(st = Task_Open \<or> st = Task_Blocked) \<and> parse_release_status status = Inr st \<and> safe_id (py_strip i)
    \<and> (\<exists>now. lease_change b (py_strip i) tok (unclaimed st now) (time_at s) (st_db s) (st_db t))"
proof -
  obtain row u v x p where c: "require_lease b (py_strip i) tok s = (Inr row, u)" "safe_id (py_strip i)"
    "parse_release_status status = Inr st"
    "v = (st_db u)\<lparr>tasks := update_where (task_is b (py_strip i)) (unclaimed st (utc_at u)) (tasks (st_db u))\<rparr>"
    "event_op b ''task.released'' p (Some (py_strip i)) ((tick u)\<lparr>st_db := v\<rparr>) = (Inr x, t)"
    using assms by (auto simp: release_task_def Let_def tx_simps require_identifier_Inr)
  show ?thesis
    using require_lease_run [OF c(1)] c(2-4) event_same_tasks [OF c(5)]
    by (auto simp: lease_change_def parse_release_status_def Let_def split: if_splits)
qed

lemma insert_work_ok:
  "insert_work row s = (Inr x, t) \<longleftrightarrow> (\<forall>r \<in> set (work_updates (st_db s)). wu_update_id r \<noteq> wu_update_id row)
     \<and> t = s\<lparr>st_db := (st_db s)\<lparr>work_updates := work_updates (st_db s) @ [row]\<rparr>\<rparr>"
  by (auto simp: insert_work_def tx_simps list_ex_iff)

lemma announce_work_run:
  fixes s :: "'a task_db_scheme pstate"
  assumes "announce_work b ws i summary status paths tok s = (Inr x, t)"
  shows "\<exists>now d. lease_change b (py_strip i) tok (\<lambda>r. r\<lparr>tk_summary := py_strip summary, tk_updated_utc := now\<rparr>)
      (time_at (tick (tick s))) d (st_db t) \<and> same_tasks (st_db s) d \<and> tasks d = tasks (st_db s)"
proof -
  define u where "u = tick (tick s)"
  obtain row v wus p y where c: "require_lease b (py_strip i) tok u = (Inr row, v)"
    "event_op b ''work.announced'' p (Some (py_strip i)) (v\<lparr>st_db := (st_db v)\<lparr>work_updates := wus,
       tasks := update_where (task_is b (py_strip i))
         (\<lambda>r. r\<lparr>tk_summary := py_strip summary, tk_updated_utc := utc_at (tick s)\<rparr>) (tasks (st_db v))\<rparr>\<rparr>) = (Inr y, t)"
    using assms unfolding u_def
    by (auto simp: announce_work_def insert_work_ok Let_def tx_simps require_identifier_Inr require_text_Inr)
  show ?thesis
    using require_lease_run [OF c(1)] event_same_tasks [OF c(2)]
    by (intro exI [of _ "utc_at (tick s)"] exI [of _ "(st_db v)\<lparr>work_updates := wus\<rparr>"])
      (auto simp: lease_change_def u_def same_tasks_def)
qed

section \<open>Calls that leave the leases alone\<close>

lemma forward_calls [forward_intros]:
  "forward (expire_lease b row)" "forward (expire_leases b)" "forward (require_lease b i tok)" "forward (update_tasks b i f)"
  "forward (insert_work work)" "forward (insert_call call)" "forward (insert_review rv)" "forward (claim_task_tx b c now l)"
  unfolding claim_task_tx_def expire_lease_def expire_leases_def require_lease_def update_tasks_def insert_work_def insert_call_def insert_review_def Let_def
  by (auto intro!: forward_intros)

lemma forward_task_calls:
  "forward (claim_task b ws args)" "forward (renew_task b i tok ls)" "forward (release_task b i tok status reason)"
  "forward (announce_work b ws i summary status paths tok)" "forward (request_review b ws i recipient question paths tok)"
  "forward (submit_review b ws rargs)" "forward (touch_presence b transport)" "forward (clear_presence b)"
  unfolding claim_task_def renew_task_def release_task_def announce_work_def request_review_def
    submit_review_def submit_review_tx_def touch_presence_def clear_presence_def Let_def
  by (auto intro!: forward_intros)

lemma insert_call_ok:
  "insert_call call s = (Inr x, t) \<longleftrightarrow> (\<forall>r \<in> set (peer_calls (st_db s)). pc_request_id r \<noteq> pc_request_id call)
     \<and> t = s\<lparr>st_db := (st_db s)\<lparr>peer_calls := peer_calls (st_db s) @ [call], peer_call_seq := pc_sequence call\<rparr>\<rparr>"
  by (auto simp: insert_call_def tx_simps list_ex_iff)

lemma insert_review_ok:
  "insert_review row s = (Inr x, t) \<longleftrightarrow> (\<forall>r \<in> set (peer_reviews (st_db s)). \<not> review_clash row r)
     \<and> t = s\<lparr>st_db := (st_db s)\<lparr>peer_reviews := peer_reviews (st_db s) @ [row]\<rparr>\<rparr>"
  by (auto simp: insert_review_def tx_simps list_ex_iff)

lemma request_review_run:
  fixes s :: "'a task_db_scheme pstate"
  assumes "request_review b ws i recipient question paths tok s = (Inr call, t)"
  shows "\<exists>row. fetch_one (task_is b (py_strip i)) (tasks (st_db s)) = Some row \<and> holds_lease b tok (time_at s) row
    \<and> pc_scope call = br_scope b \<and> pc_task_id call = py_strip i \<and> pc_requester call = br_agent_id b
    \<and> pc_recipient call = py_strip recipient \<and> py_strip recipient \<noteq> br_agent_id b
    \<and> same_revision row (pc_task_revision call) (pc_task_sha256 call) \<and> pc_status call = ''open''
    \<and> pc_sequence call = Suc (peer_call_seq (st_db s))
    \<and> (\<forall>r \<in> set (peer_calls (st_db s)). pc_request_id r \<noteq> pc_request_id call)
    \<and> same_tasks ((st_db s)\<lparr>peer_calls := peer_calls (st_db s) @ [call], peer_call_seq := pc_sequence call\<rparr>) (st_db t)
    \<and> peer_call_seq (st_db t) = pc_sequence call"
proof -
  obtain row u p y arts where c: "require_lease b (py_strip i) tok s = (Inr row, u)"
    "call = new_call b row (uuid_at u) (py_strip i) (py_strip recipient) (py_strip question) arts (utc_at (tick u))
       (Suc (peer_call_seq (st_db u)))"
    "py_strip recipient \<noteq> br_agent_id b" "\<forall>r \<in> set (peer_calls (st_db u)). pc_request_id r \<noteq> pc_request_id call"
    "event_op b ''peer.requested'' p (Some (py_strip i)) ((tick (tick u))\<lparr>st_db := (st_db u)\<lparr>
       peer_calls := peer_calls (st_db u) @ [call], peer_call_seq := pc_sequence call\<rparr>\<rparr>) = (Inr y, t)"
    using assms by (auto simp: request_review_def Let_def tx_simps require_identifier_Inr require_text_Inr insert_call_ok)
  have u: "st_db u = st_db s" using require_lease_run [OF c(1)] by simp
  obtain e now where "appends b ''peer.requested'' p (Some (py_strip i)) e now ((st_db u)\<lparr>
       peer_calls := peer_calls (st_db u) @ [call], peer_call_seq := pc_sequence call\<rparr>) (st_db t)"
    using event_op_ok [OF c(5)] by auto
  then have "same_tasks ((st_db s)\<lparr>peer_calls := peer_calls (st_db s) @ [call], peer_call_seq := pc_sequence call\<rparr>) (st_db t)
      \<and> peer_call_seq (st_db t) = pc_sequence call"
    by (auto simp: appends_def same_tasks_def u)
  then show ?thesis
    using require_lease_run [OF c(1)] c(2-4) by (auto simp: u new_call_def same_revision_def)
qed

lemma tx_found_ok [tx_simps]:
  "(case v of None \<Rightarrow> tx_raise e | Some x \<Rightarrow> f x) s = (Inr r, t) \<longleftrightarrow> (\<exists>x. v = Some x \<and> f x s = (Inr r, t))"
  by (cases v) (auto simp: tx_raise_ok)

lemma submit_review_run:
  fixes s :: "'a task_db_scheme pstate"
  assumes "submit_review b ws args s = (Inr row, t)"
  shows "\<exists>r call task. validate_review b ws args = Inr r
    \<and> fetch_one (call_is b (rs_request_id r)) (peer_calls (st_db s)) = Some call \<and> pc_recipient call = br_agent_id b
    \<and> fetch_one (task_is b (pc_task_id call)) (tasks (st_db s)) = Some task
    \<and> same_revision task (pc_task_revision call) (pc_task_sha256 call)
    \<and> row = new_review b r call (uuid_at s) (utc_at (tick s))
    \<and> (\<forall>q \<in> set (peer_reviews (st_db s)). \<not> review_clash row q)
    \<and> same_tasks ((st_db s)\<lparr>peer_reviews := peer_reviews (st_db s) @ [row],
        peer_calls := update_where (call_is b (rs_request_id r)) (respond_call b r (utc_at (tick s))) (peer_calls (st_db s))\<rparr>) (st_db t)"
proof -
  obtain r call task p y where c: "validate_review b ws args = Inr r"
    "fetch_one (call_is b (rs_request_id r)) (peer_calls (st_db s)) = Some call" "pc_recipient call = br_agent_id b"
    "fetch_one (task_is b (pc_task_id call)) (tasks (st_db s)) = Some task"
    "same_revision task (pc_task_revision call) (pc_task_sha256 call)"
    "row = new_review b r call (uuid_at s) (utc_at (tick s))"
    "\<forall>q \<in> set (peer_reviews (st_db s)). \<not> review_clash row q"
    "event_op b ''peer.reviewed'' p (Some (pc_task_id call)) ((tick (tick s))\<lparr>st_db :=
       (st_db s)\<lparr>peer_reviews := peer_reviews (st_db s) @ [row],
        peer_calls := update_where (call_is b (rs_request_id r)) (respond_call b r (utc_at (tick s))) (peer_calls (st_db s))\<rparr>\<rparr>)
     = (Inr y, t)"
    using assms
    by (auto simp: submit_review_def submit_review_tx_def Let_def tx_simps insert_review_ok)
  then show ?thesis using event_same_tasks [OF c(8)] by auto
qed

section \<open>Claiming\<close>

definition claim_db :: "bridge \<Rightarrow> claim_spec \<Rightarrow> new_lease \<Rightarrow> task_row option \<Rightarrow> 'a task_db_scheme \<Rightarrow> 'a task_db_scheme" where
  "claim_db b c l existing d =
     store_peers b c (store_paths b c (nl_now l) (store_task b c l existing (next_revision existing (nl_task_sha256 l)) d))"

text \<open>What the checks of \<open>claim_task\<close> leave: the task is neither complete nor leased, and nothing conflicts.\<close>

definition claim_allowed :: "bridge \<Rightarrow> claim_spec \<Rightarrow> int \<Rightarrow> task_row option \<Rightarrow> 'a task_db_scheme \<Rightarrow> bool" where
  "claim_allowed b c now existing d \<longleftrightarrow> existing = fetch_one (task_is b (cs_task_id c)) (tasks d)
     \<and> (case existing of Some t \<Rightarrow> tk_status t \<noteq> Task_Complete | None \<Rightarrow> True)
     \<and> (case existing of Some t \<Rightarrow> tk_status t \<noteq> Task_Claimed | None \<Rightarrow> True)
     \<and> path_conflicts b (cs_task_id c) (requested_paths c) (active_paths (br_workspace_root_key b) now d) = []"

definition claim_lease :: "bridge \<Rightarrow> claim_spec \<Rightarrow> string \<Rightarrow> int \<Rightarrow> string \<Rightarrow> new_lease" where
  "claim_lease b c now now_epoch token = \<lparr>nl_now = now, nl_token = token, nl_expires = now_epoch + cs_lease_seconds c,
     nl_task_sha256 = stable_sha256 (br_sha256 b) (task_content b c)\<rparr>"

lemma claim_task_run:
  fixes s :: "'a task_db_scheme pstate"
  assumes "claim_task b ws args s = (Inr g, t)"
  obtains c l existing and u :: "'a task_db_scheme pstate" where "validate_claim b ws args = Inr c"
    "l = claim_lease b c (utc_at s) (time_at (tick s)) (token_at (tick (tick s)))"
    "expire_leases b (tick (tick (tick s))) = (Inr (), u)"
    "claim_allowed b c (time_at (tick s)) existing (st_db u)"
    "same_tasks (claim_db b c l existing (st_db u)) (st_db t)"
    "cg_task_id g = cs_task_id c" "cg_lease_token g = nl_token l" "cg_lease_expires_epoch g = nl_expires l"
    "cg_spec g = c" "cg_task_sha256 g = nl_task_sha256 l" "cg_task_revision g = next_revision existing (nl_task_sha256 l)"
    "later (tick s) t"
proof -
  obtain c where c: "validate_claim b ws args = Inr c"
    using assms by (auto simp: claim_task_def tx_simps)
  define l where "l = claim_lease b c (utc_at s) (time_at (tick s)) (token_at (tick (tick s)))"
  obtain revision where tx: "claim_task_tx b c (time_at (tick s)) l (tick (tick (tick s))) = (Inr revision, t)"
    and g: "cg_task_id g = cs_task_id c" "cg_lease_token g = nl_token l" "cg_lease_expires_epoch g = nl_expires l"
      "cg_spec g = c" "cg_task_sha256 g = nl_task_sha256 l" "cg_task_revision g = revision"
    using assms c by (auto simp: claim_task_def tx_simps Let_def l_def claim_lease_def)
  obtain existing and u :: "'a task_db_scheme pstate" and p y where x: "expire_leases b (tick (tick (tick s))) = (Inr (), u)"
    "claim_allowed b c (time_at (tick s)) existing (st_db u)" "revision = next_revision existing (nl_task_sha256 l)"
    "event_op b ''task.claimed'' p (Some (cs_task_id c)) (u\<lparr>st_db := claim_db b c l existing (st_db u)\<rparr>) = (Inr y, t)"
    using tx by (auto simp: claim_task_tx_def tx_simps Let_def claim_allowed_def claim_db_def)
  have "later (tick s) t"
    using forwardD [OF forward_calls(8) tx] later_tick later_trans by blast
  then show ?thesis
    using that [OF c l_def x(1,2)] event_same_tasks [OF x(4)] g x(3) by simp
qed

text \<open>The other direction: a claim that passes every check is granted.\<close>

lemma claim_task_granted:
  assumes "validate_claim b ws args = Inr c" and "l = claim_lease b c (utc_at s) (time_at (tick s)) (token_at (tick (tick s)))"
    and "expire_leases b (tick (tick (tick s))) = (Inr (), u)" and "claim_allowed b c (time_at (tick s)) existing (st_db u)"
    and "int (length (active_paths (br_workspace_root_key b) (time_at (tick s)) (st_db u))) \<le> MAX_ACTIVE_TASK_PATH_ROWS"
    and "event_op b ''task.claimed'' (claim_event c l (next_revision existing (nl_task_sha256 l))) (Some (cs_task_id c))
      (u\<lparr>st_db := claim_db b c l existing (st_db u)\<rparr>) = (Inr y, t)"
  shows "claim_task b ws args s = (Inr \<lparr>cg_task_id = cs_task_id c, cg_claimed_by = br_agent_id b, cg_lease_token = nl_token l,
      cg_lease_expires_epoch = nl_expires l, cg_spec = c, cg_task_sha256 = nl_task_sha256 l,
      cg_task_revision = next_revision existing (nl_task_sha256 l)\<rparr>, t)"
proof -
  have e: "fetch_one (task_is b (cs_task_id c)) (tasks (st_db u)) = existing" using assms(4) by (simp add: claim_allowed_def)
  have "claim_task_tx b c (time_at (tick s)) l (tick (tick (tick s))) = (Inr (next_revision existing (nl_task_sha256 l)), t)"
    using assms(3-6) e
    by (simp add: claim_task_tx_def tx_then_ok tx_bind_ok tx_require_ok tx_query_ok tx_execute_ok tx_return_ok Let_def
        claim_allowed_def claim_db_def)
  then show ?thesis
    using assms(1,2)
    by (simp add: claim_task_def tx_bind_ok tx_lift_ok world_ok with_connection_ok tx_return_ok Let_def claim_lease_def)
qed

lemma claim_db_simps:
  "tasks (claim_db b c l existing d) = (case existing of
     Some t \<Rightarrow> update_where (task_is b (cs_task_id c)) (\<lambda>r. claimed_task b c l (next_revision existing (nl_task_sha256 l)) (tk_created_utc r)) (tasks d)
   | None \<Rightarrow> tasks d @ [claimed_task b c l (next_revision existing (nl_task_sha256 l)) (nl_now l)])"
  "task_paths (claim_db b c l existing d) =
     (if existing = None then task_paths d else filter (\<lambda>p. \<not> (pa_scope p = br_scope b \<and> pa_task_id p = cs_task_id c)) (task_paths d))
     @ map (\<lambda>(write, path). \<lparr>pa_scope = br_scope b, pa_task_id = cs_task_id c, pa_write = write, pa_path_prefix = path,
         pa_created_utc = nl_now l\<rparr>) (requested_paths c)"
  by (simp_all add: claim_db_def store_peers_def store_paths_def store_task_def split: option.splits)

lemma claim_db_row:
  assumes "t' \<in> set (tasks (claim_db b c l existing d))" and "existing = fetch_one (task_is b (cs_task_id c)) (tasks d)"
  shows "t' \<in> set (tasks d) \<and> task_key t' \<noteq> (br_scope b, cs_task_id c)
    \<or> (\<exists>created. t' = claimed_task b c l (next_revision existing (nl_task_sha256 l)) created)"
proof (cases existing)
  case None
  then have "\<forall>r \<in> set (tasks d). task_key r \<noteq> (br_scope b, cs_task_id c)"
    using assms(2) fetch_one_NoneD [of "task_is b (cs_task_id c)" "tasks d"] by (simp add: task_is_key)
  then show ?thesis using assms(1) None by (auto simp: claim_db_simps)
next
  case (Some t)
  show ?thesis using assms(1) unfolding Some by (auto simp: claim_db_simps set_update_where task_is_key)
qed

lemma claim_db_other_paths:
  assumes "task_key u \<noteq> (br_scope b, cs_task_id c)"
  shows "paths_of u (task_paths (claim_db b c l existing d)) = paths_of u (task_paths d)"
proof -
  have "filter (\<lambda>p. pa_scope p = tk_scope u \<and> pa_task_id p = tk_task_id u) (map (\<lambda>(write, path). \<lparr>pa_scope = br_scope b,
      pa_task_id = cs_task_id c, pa_write = write, pa_path_prefix = path, pa_created_utc = nl_now l\<rparr>) (requested_paths c)) = []"
    using assms by (auto simp: filter_empty_conv task_key_def)
  moreover have "filter (\<lambda>p. pa_scope p = tk_scope u \<and> pa_task_id p = tk_task_id u)
      (filter (\<lambda>p. \<not> (pa_scope p = br_scope b \<and> pa_task_id p = cs_task_id c)) (task_paths d))
      = filter (\<lambda>p. pa_scope p = tk_scope u \<and> pa_task_id p = tk_task_id u) (task_paths d)"
    using assms by (auto simp: task_key_def intro: filter_cong)
  ultimately show ?thesis by (simp add: paths_of_def claim_db_simps)
qed

lemma claim_db_own_path:
  assumes "p \<in> set (paths_of t (task_paths (claim_db b c l existing d)))" and "task_key t = (br_scope b, cs_task_id c)"
    and "tasks_ok d" and "existing = fetch_one (task_is b (cs_task_id c)) (tasks d)"
  shows "(pa_write p, pa_path_prefix p) \<in> set (requested_paths c)"
proof -
  have key: "path_key p = (br_scope b, cs_task_id c)" and p: "p \<in> set (task_paths (claim_db b c l existing d))"
    using assms(1,2) by (auto simp: paths_of_def task_key_def path_key_def)
  have "existing = None \<Longrightarrow> p \<notin> set (task_paths d)"
  proof
    assume none: "existing = None" and "p \<in> set (task_paths d)"
    then have "(br_scope b, cs_task_id c) \<in> task_key ` set (tasks d)"
      using key assms(3) unfolding tasks_ok_def by (metis (no_types, lifting) image_eqI subsetD)
    then show False
      using none assms(4) fetch_one_NoneD [of "task_is b (cs_task_id c)" "tasks d"] by (auto simp: task_is_key)
  qed
  then show ?thesis
    using p key by (cases "existing = None") (auto simp: claim_db_simps path_key_def)
qed

lemma live_task_iff: "live_task root now t \<longleftrightarrow> tk_workspace_root_key t = root \<and> live_at now t"
  by (auto simp: live_task_def live_at_def split: option.splits)

lemma claimed_task_simps:
  "task_key (claimed_task b c l revision created) = (br_scope b, cs_task_id c)"
  "tk_workspace_root_key (claimed_task b c l revision created) = br_workspace_root_key b"
  "1 \<le> revision \<Longrightarrow> task_row_ok (claimed_task b c l revision created)"
  by (simp_all add: claimed_task_def task_key_def task_row_ok_def)

text \<open>No live lease of the workspace competes with a claim that passed the conflict check.\<close>

lemma claim_no_competitor:
  assumes ok: "tasks_ok d" and allowed: "claim_allowed b c now existing d"
    and t: "task_key t = (br_scope b, cs_task_id c)"
    and u: "u \<in> set (tasks d)" "task_key u \<noteq> (br_scope b, cs_task_id c)"
      "tk_workspace_root_key u = br_workspace_root_key b" "live_at now u"
  shows "\<not> compete (task_paths (claim_db b c l existing d)) t u"
proof
  assume "compete (task_paths (claim_db b c l existing d)) t u"
  then obtain p q where p: "p \<in> set (paths_of t (task_paths (claim_db b c l existing d)))"
    and q: "q \<in> set (paths_of u (task_paths d))" and w: "pa_write p \<or> pa_write q"
    and o: "path_overlaps (pa_path_prefix p) (pa_path_prefix q)"
    by (auto simp: compete_def claim_db_other_paths [OF u(2)])
  have existing: "existing = fetch_one (task_is b (cs_task_id c)) (tasks d)"
    using allowed by (simp add: claim_allowed_def)
  have req: "(pa_write p, pa_path_prefix p) \<in> set (requested_paths c)"
    by (rule claim_db_own_path [OF p t ok existing])
  have "(u, q) \<in> set (active_paths (br_workspace_root_key b) now d)"
    using u q by (auto simp: active_paths_def live_task_iff)
  moreover have "conflicts_with b (cs_task_id c) (pa_write p, pa_path_prefix p) (u, q)"
    using u(2) w o by (auto simp: conflicts_with_def task_key_def)
  ultimately have "((pa_write p, pa_path_prefix p), (u, q))
      \<in> set (path_conflicts b (cs_task_id c) (requested_paths c) (active_paths (br_workspace_root_key b) now d))"
    using req by (fastforce simp: path_conflicts_def)
  then show False using allowed by (simp add: claim_allowed_def)
qed

lemma next_revision_ok:
  assumes "tasks_ok d" and "existing = fetch_one (task_is b i) (tasks d)"
  shows "1 \<le> next_revision existing sha"
    and "existing = Some t \<Longrightarrow> tk_task_revision t \<le> next_revision existing sha
      \<and> (tk_task_revision t = next_revision existing sha \<longrightarrow> tk_task_sha256 t = sha)"
proof -
  have one: "1 \<le> tk_task_revision u" if "existing = Some u" for u
    using assms(1) fetch_task(1) [of b i d u] that assms(2) by (simp add: tasks_ok_def task_row_ok_def)
  show "1 \<le> next_revision existing sha"
    using one by (cases existing) (simp_all add: next_revision_def)
  show "existing = Some t \<Longrightarrow> tk_task_revision t \<le> next_revision existing sha
      \<and> (tk_task_revision t = next_revision existing sha \<longrightarrow> tk_task_sha256 t = sha)"
    using one [of t] by (auto simp: next_revision_def)
qed

lemma claim_db_ok:
  assumes "tasks_ok d" and "claim_allowed b c now existing d"
  shows "tasks_ok (claim_db b c l existing d)"
proof -
  have existing: "existing = fetch_one (task_is b (cs_task_id c)) (tasks d)" using assms(2) by (simp add: claim_allowed_def)
  let ?rev = "next_revision existing (nl_task_sha256 l)"
  have rows: "\<forall>t \<in> set (tasks (claim_db b c l existing d)). task_row_ok t"
    using claim_db_row [OF _ existing] assms(1) claimed_task_simps(3) [OF next_revision_ok(1) [OF assms(1) existing]]
    by (fastforce simp: tasks_ok_def)
  have keys: "map task_key (tasks (claim_db b c l existing d)) =
      map task_key (tasks d) @ (if existing = None then [(br_scope b, cs_task_id c)] else [])"
    by (auto simp: claim_db_simps claimed_task_simps update_where_def task_is_key split: option.splits)
  have fresh: "existing = None \<Longrightarrow> (br_scope b, cs_task_id c) \<notin> task_key ` set (tasks d)"
    using existing fetch_one_NoneD [of "task_is b (cs_task_id c)" "tasks d"] by (auto simp: task_is_key)
  have mine: "existing \<noteq> None \<Longrightarrow> (br_scope b, cs_task_id c) \<in> task_key ` set (tasks d)"
    using existing fetch_task [of b "cs_task_id c" d] by (force simp: task_is_key)
  have "path_key ` set (task_paths (claim_db b c l existing d)) \<subseteq> insert (br_scope b, cs_task_id c) (path_key ` set (task_paths d))"
    by (auto simp: claim_db_simps path_key_def)
  also have "\<dots> \<subseteq> insert (br_scope b, cs_task_id c) (task_key ` set (tasks d))"
    using assms(1) unfolding tasks_ok_def by (intro insert_mono) blast
  also have "\<dots> = task_key ` set (tasks (claim_db b c l existing d))"
  proof -
    have "task_key ` set (tasks (claim_db b c l existing d)) =
        task_key ` set (tasks d) \<union> (if existing = None then {(br_scope b, cs_task_id c)} else {})"
      using arg_cong [OF keys, of set] by (simp only: list.set_map set_append if_distrib [of set] list.set)
    then show ?thesis using mine by (cases "existing = None") (simp_all add: insert_absorb)
  qed
  finally show ?thesis
    using assms(1) rows keys fresh by (cases "existing = None") (simp_all add: tasks_ok_def)
qed

lemma claim_db_progresses:
  assumes "tasks_ok d" and allowed: "claim_allowed b c now existing d"
  shows "progresses d (claim_db b c l existing d)"
  unfolding progresses_def
proof
  fix t
  assume t: "t \<in> set (tasks d)"
  have existing: "existing = fetch_one (task_is b (cs_task_id c)) (tasks d)" using allowed by (simp add: claim_allowed_def)
  let ?new = "claimed_task b c l (next_revision existing (nl_task_sha256 l)) (tk_created_utc t)"
  show "\<exists>t' \<in> set (tasks (claim_db b c l existing d)). task_progress t t'"
  proof (cases "task_is b (cs_task_id c) t")
    case True
    obtain u where e: "existing = Some u"
      using existing True t fetch_one_NoneD [of "task_is b (cs_task_id c)" "tasks d"] by (cases existing) auto
    have u: "u = t" using fetch_task_unique [OF assms(1) existing [unfolded e, symmetric] t True] by simp
    have "?new \<in> set (tasks (claim_db b c l existing d))"
      using t True e by (auto simp: claim_db_simps set_update_where)
    moreover have "task_progress t ?new"
      using next_revision_ok(2) [OF assms(1) existing e, of "nl_task_sha256 l"] allowed e u True
      by (auto simp: task_progress_def claimed_task_simps task_is_key claim_allowed_def) (auto simp: claimed_task_def)
    ultimately show ?thesis by blast
  next
    case False
    then have "t \<in> set (tasks (claim_db b c l existing d))"
      using t by (force simp: claim_db_simps set_update_where split: option.splits)
    then show ?thesis using task_progress_refl by blast
  qed
qed

lemma claim_db_exclusive:
  assumes ok: "tasks_ok d" and allowed: "claim_allowed b c now existing d" and ex: "exclusive_paths now d"
  shows "exclusive_paths now (claim_db b c l existing d)"
  unfolding exclusive_paths_def
proof (intro ballI impI)
  let ?k = "(br_scope b, cs_task_id c)" and ?d = "claim_db b c l existing d"
  have existing: "existing = fetch_one (task_is b (cs_task_id c)) (tasks d)" using allowed by (simp add: claim_allowed_def)
  fix t u
  assume tu: "t \<in> set (tasks ?d)" "u \<in> set (tasks ?d)" "task_key t \<noteq> task_key u"
    "tk_workspace_root_key t = tk_workspace_root_key u" "live_at now t" "live_at now u"
  have old: "x \<in> set (tasks d)" if "x \<in> set (tasks ?d)" "task_key x \<noteq> ?k" for x
    using claim_db_row [OF that(1) existing] that(2) by (auto simp: claimed_task_simps)
  have new: "tk_workspace_root_key x = br_workspace_root_key b" if "x \<in> set (tasks ?d)" "task_key x = ?k" for x
    using claim_db_row [OF that(1) existing] that(2) by (auto simp: claimed_task_simps)
  consider "task_key t = ?k" | "task_key u = ?k" | "task_key t \<noteq> ?k" "task_key u \<noteq> ?k" by blast
  then show "\<not> compete (task_paths ?d) t u"
  proof cases
    case 1
    then show ?thesis using claim_no_competitor [OF ok allowed 1, of u l] old new tu by auto
  next
    case 2
    then show ?thesis using claim_no_competitor [OF ok allowed 2, of t l] old new tu compete_sym by auto
  next
    case 3
    have "\<not> compete (task_paths d) t u"
      using ex old [OF tu(1) 3(1)] old [OF tu(2) 3(2)] tu(3-6) by (simp add: exclusive_paths_def)
    then show ?thesis
      by (simp add: compete_def claim_db_other_paths [OF 3(1)] claim_db_other_paths [OF 3(2)])
  qed
qed

lemma claim_db_advance: "claim_allowed b c now existing d \<Longrightarrow> advance now now d (claim_db b c l existing d)"
  unfolding advance_def using claim_db_ok claim_db_progresses claim_db_exclusive by blast

section \<open>Every call is an advance\<close>

definition advances :: "('a task_db_scheme, 'b) op \<Rightarrow> bool" where
  "advances m \<longleftrightarrow> (\<forall>s x t. m s = (Inr x, t) \<longrightarrow> clock_monotone (st_world s)
     \<longrightarrow> advance (time_at s) (time_at t) (st_db s) (st_db t))"

lemma advancesI:
  assumes "forward m"
    and "\<And>s x t. m s = (Inr x, t) \<Longrightarrow> time_at s \<le> time_at t \<Longrightarrow> clock_monotone (st_world s)
      \<Longrightarrow> advance (time_at s) (time_at t) (st_db s) (st_db t)"
  shows "advances m"
  unfolding advances_def using assms later_clock forwardD by blast

lemma tick_clock: "clock_monotone (st_world s) \<Longrightarrow> time_at s \<le> time_at (tick s) \<and> clock_monotone (st_world (tick s))"
  using later_clock later_tick by blast

lemma advances_renew: "advances (renew_task b i tok ls)"
  by (rule advancesI [OF forward_task_calls(2)]) (auto dest!: renew_task_run intro: lease_change_advance held_relet)

lemma advances_release: "advances (release_task b i tok status reason)"
proof (rule advancesI [OF forward_task_calls(3)])
  fix s :: "'a task_db_scheme pstate" and st t
  assume "release_task b i tok status reason s = (Inr st, t)" and st: "time_at s \<le> time_at t"
  then obtain now where st': "st = Task_Open \<or> st = Task_Blocked"
    and change: "lease_change b (py_strip i) tok (unclaimed st now) (time_at s) (st_db s) (st_db t)"
    using release_task_run by blast
  have "keeps_lease (time_at s) (time_at t) row (unclaimed st now row)"
    if "holds_lease b tok (time_at s) row" "task_row_ok row" for row
    using that st' unclaimed_keeps_lease by (simp add: holds_lease_def)
  then show "advance (time_at s) (time_at t) (st_db s) (st_db t)"
    by (rule lease_change_advance [OF change st])
qed

lemma advances_announce: "advances (announce_work b ws i summary status paths tok)"
proof (rule advancesI [OF forward_task_calls(4)])
  fix s :: "'a task_db_scheme pstate" and x t
  assume run: "announce_work b ws i summary status paths tok s = (Inr x, t)" and st: "time_at s \<le> time_at t"
    and clock: "clock_monotone (st_world s)"
  have "time_at s \<le> time_at (tick (tick s))"
    using tick_clock [OF clock] tick_clock [of "tick s"] by auto
  then obtain now d where d: "lease_change b (py_strip i) tok (\<lambda>r. r\<lparr>tk_summary := py_strip summary, tk_updated_utc := now\<rparr>)
      (time_at s) d (st_db t)" "same_tasks (st_db s) d"
    using announce_work_run [OF run] lease_change_earlier by blast
  have "advance (time_at s) (time_at t) d (st_db t)"
    by (rule lease_change_advance [OF d(1) st]) (rule held_relet)
  then show "advance (time_at s) (time_at t) (st_db s) (st_db t)"
    using advance_same [OF d(2), of "time_at s" "time_at s"] advance_trans by blast
qed

lemma advances_quiet:
  assumes "forward m" and "\<And>s x t. m s = (Inr x, t) \<Longrightarrow> tasks (st_db t) = tasks (st_db s) \<and> task_paths (st_db t) = task_paths (st_db s)"
  shows "advances m"
proof (rule advancesI [OF assms(1)])
  fix s x t
  assume "m s = (Inr x, t)" and st: "time_at s \<le> time_at t"
  then have "tasks (st_db t) = tasks (st_db s)" "task_paths (st_db t) = task_paths (st_db s)" using assms(2) by blast+
  moreover from this have "exclusive_paths (time_at s) (st_db t) = exclusive_paths (time_at s) (st_db s)"
    by (simp add: exclusive_paths_def)
  ultimately show "advance (time_at s) (time_at t) (st_db s) (st_db t)"
    using exclusive_later [OF _ st] progresses_same by (auto simp: advance_def tasks_ok_def)
qed

lemma advances_others:
  "advances (request_review b ws i recipient question paths tok)" "advances (submit_review b ws args)"
  "advances (touch_presence b transport)" "advances (clear_presence b)"
proof -
  show "advances (request_review b ws i recipient question paths tok)"
    by (rule advances_quiet [OF forward_task_calls(5)]) (auto dest!: request_review_run simp: same_tasks_def)
  show "advances (submit_review b ws args)"
    by (rule advances_quiet [OF forward_task_calls(6)]) (auto dest!: submit_review_run simp: same_tasks_def)
  show "advances (touch_presence b transport)"
    by (rule advances_quiet [OF forward_task_calls(7)]) (auto simp: touch_presence_def tx_simps Let_def)
  show "advances (clear_presence b)"
    by (rule advances_quiet [OF forward_task_calls(8)]) (auto simp: clear_presence_def tx_simps)
qed

lemma advances_claim: "advances (claim_task b ws args)"
proof (rule advancesI [OF forward_task_calls(1)])
  fix s :: "'a task_db_scheme pstate" and g t
  assume run: "claim_task b ws args s = (Inr g, t)" and st: "time_at s \<le> time_at t" and clock: "clock_monotone (st_world s)"
  obtain c l existing and u :: "'a task_db_scheme pstate" where u: "expire_leases b (tick (tick (tick s))) = (Inr (), u)"
    "claim_allowed b c (time_at (tick s)) existing (st_db u)" "same_tasks (claim_db b c l existing (st_db u)) (st_db t)"
    "later (tick s) t"
    using claim_task_run [OF run] by metis
  let ?n = "time_at (tick s)"
  have "advance ?n ?n (st_db s) (st_db u)" using expire_leases_advance [OF u(1)] by simp
  then have "advance ?n ?n (st_db s) (st_db t)"
    using claim_db_advance [OF u(2)] advance_same [OF u(3), of ?n ?n] advance_trans by blast
  moreover have "time_at s \<le> ?n" using tick_clock [OF clock] by blast
  moreover have "?n \<le> time_at t" using later_clock [OF u(4)] tick_clock [OF clock] by blast
  ultimately show "advance (time_at s) (time_at t) (st_db s) (st_db t)"
    using advance_later advance_trans advance_same [OF same_tasks_refl] by blast
qed

end
