(* ===== verification/Readings.thy ===== *)
theory Readings
  imports Proofs TaskCalls
begin

text \<open>
  When the files of a proof are read. The disk of the model answers the n-th outside call by its number n,
  so the position of a reading is its number: the digests of a proof come from readings before the
  transaction that uses them, and the last look at each file lies inside that transaction.
\<close>

section \<open>Loops of checks\<close>

lemma tx_for_checks:
  assumes "tx_for f xs s = (Inr ys, t)" and "\<And>x. readonly (f x)" and "x \<in> set xs"
  shows "\<exists>u a v. f x u = (Inr a, v)"
  using assms(1,3) by (induction xs arbitrary: s ys) (fastforce simp: tx_simps)+

lemma readonly_for [atomic_intros]: "(\<And>x. readonly (f x)) \<Longrightarrow> readonly (tx_for f xs)"
  by (induction xs) (auto intro!: atomic_intros)

lemma readonly_checks [atomic_intros]:
  "readonly (inside_scope scopes path)" "readonly (unchanged_since dk ws ph)" "readonly (still_identical dk ws pi)"
  "readonly (require_lease b i tok)" "readonly (existing_files dk ws paths)"
proof -
  show "readonly (existing_files dk ws paths)"
    by (induction paths) (auto intro!: atomic_intros)
qed (auto simp: inside_scope_def unchanged_since_def still_identical_def require_lease_def Let_def
      intro!: atomic_intros)

lemma readonly_live_proofs [atomic_intros]: "readonly (proofs_are_live b dk ws i)"
  unfolding proofs_are_live_def Let_def by (auto intro!: atomic_intros)

lemma readonly_connection [atomic_intros]: "readonly m \<Longrightarrow> readonly (with_connection m)"
  by (auto simp: readonly_def with_connection_def split: prod.splits sum.splits) (metis snd_conv)

lemma readonly_review_summary [atomic_intros]: "readonly (review_summary b ttl i)"
  unfolding review_summary_def online_agents_def Let_def by (auto intro!: atomic_intros)

section \<open>The clock\<close>

lemma forward_world_call [forward_intros]: "forward (world_call g)"
  by (rule forwardI) (simp add: world_call_def later_tick)

lemma forward_disk [forward_intros]:
  "forward (stat_file dk path)" "forward (require_stat dk path e)" "forward (is_file dk path)"
  "forward (resolve_path dk ws value must)" "forward (hash_in_time deadline)"
  unfolding stat_file_def require_stat_def is_file_def resolve_path_def hash_in_time_def
  by (auto intro!: forward_intros)

lemma forward_chunks [forward_intros]: "forward (hash_chunks deadline k data prefix chunks)"
  by (induction deadline k data prefix chunks rule: hash_chunks.induct) (auto intro!: forward_intros)

lemma forward_hash [forward_intros]: "forward (hash_file_streaming H dk path k max_bytes max_seconds)"
  unfolding hash_file_streaming_def by (auto intro!: forward_intros)

lemma forward_hash_loop [forward_intros]: "forward (hash_proof_loop H dk ws deadline used paths)"
  by (induction paths arbitrary: used) (auto intro!: forward_intros)

lemma forward_existing [forward_intros]: "forward (existing_files dk ws paths)"
  by (induction paths) (auto intro!: forward_intros)

lemma forward_checks [forward_intros]:
  "forward (hash_proof_files H dk ws paths)" "forward (inside_scope scopes path)" "forward (unchanged_since dk ws ph)"
  "forward (still_identical dk ws pi)" "forward (insert_proof row)" "forward (review_summary b ttl i)"
  unfolding hash_proof_files_def inside_scope_def unchanged_since_def still_identical_def insert_proof_def
    review_summary_def online_agents_def Let_def
  by (auto intro!: forward_intros)

lemma forward_live_proofs [forward_intros]: "forward (proofs_are_live b dk ws i)"
  unfolding proofs_are_live_def Let_def by (auto intro!: forward_intros)

lemma forward_proof_calls [forward_intros]:
  "forward (record_proof b dk ws args)" "forward (complete_task b dk ws ttl i tok)"
  "forward (workboard b ttl all limit)" "forward (close_task_tx b dk ws i tok checks ids review)"
  unfolding record_proof_def record_proof_tx_def complete_task_def close_task_tx_def workboard_def online_agents_def Let_def
  by (auto intro!: forward_intros)

section \<open>Positions of readings\<close>

abbreviation calls :: "'d pstate \<Rightarrow> nat" where
  "calls s \<equiv> w_calls (st_world s)"

lemma later_calls: "later s t \<Longrightarrow> calls s \<le> calls t"
  by (auto simp: later_def)

lemma later_time: "later s t \<Longrightarrow> w_time (st_world t) = w_time (st_world s)"
  by (auto simp: later_def)

lemma tick_calls: "calls (tick s) = Suc (calls s)"
  by (simp add: tick_def)

lemma forward_calls_le: "forward m \<Longrightarrow> m s = (r, t) \<Longrightarrow> calls s \<le> calls t"
  by (rule later_calls [OF forwardD])

lemma tx_for_window:
  assumes "tx_for f xs s = (Inr ys, t)" and "\<And>x. forward (f x)" and "x \<in> set xs"
  shows "\<exists>u a v. f x u = (Inr a, v) \<and> calls s \<le> calls u \<and> calls v \<le> calls t"
  using assms(1,3)
proof (induction xs arbitrary: s ys)
  case (Cons y ys')
  obtain a zs u where run: "f y s = (Inr a, u)" "tx_for f ys' u = (Inr zs, t)" using Cons.prems(1) by (auto simp: tx_simps)
  have le: "calls s \<le> calls u" "calls u \<le> calls t"
    using forward_calls_le [OF assms(2) run(1)] forward_calls_le [OF forward_for [OF assms(2)] run(2)] by simp_all
  show ?case
  proof (cases "x = y")
    case True
    then show ?thesis using run(1) le(2) by blast
  next
    case False
    then show ?thesis using Cons.IH [OF run(2)] Cons.prems(2) le(1) by (auto intro: order_trans)
  qed
qed simp

text \<open>
  A digest of one reading of the file, with the same size and time of change before and after it, all three
  readings among the calls from \<open>lo\<close> to before \<open>hi\<close>; and a file that was found with that identity there.
\<close>

definition read_digest :: "(string \<Rightarrow> string) \<Rightarrow> disk \<Rightarrow> nat \<Rightarrow> nat \<Rightarrow> string \<Rightarrow> file_hash \<Rightarrow> bool" where
  "read_digest H dk lo hi path h \<longleftrightarrow> (\<exists>i j k st. lo \<le> i \<and> i < j \<and> j < k \<and> k < hi
     \<and> dk_stat dk i path \<noteq> None \<and> dk_stat dk k path = Some st
     \<and> map_option file_identity (dk_stat dk i path) = Some (file_identity st)
     \<and> fh_sha256 h = sha256_bytes H (read_data (dk_chunks dk j path))
     \<and> fs_size st = int (length (read_data (dk_chunks dk j path)))
     \<and> fh_bytes h = fs_size st \<and> fh_identity h = file_identity st)"

definition hashed_between :: "(string \<Rightarrow> string) \<Rightarrow> disk \<Rightarrow> workspace \<Rightarrow> nat \<Rightarrow> nat \<Rightarrow> string \<times> file_hash \<Rightarrow> bool" where
  "hashed_between H dk ws lo hi ph \<longleftrightarrow> (\<exists>r. normalize_path ws (fst ph) = Inr r \<and> read_digest H dk lo hi r (snd ph)
     \<and> fh_bytes (snd ph) \<le> MAX_MCP_HASH_BYTES)"

definition identical_between :: "disk \<Rightarrow> workspace \<Rightarrow> nat \<Rightarrow> nat \<Rightarrow> string \<Rightarrow> int \<times> int \<Rightarrow> bool" where
  "identical_between dk ws lo hi path ident \<longleftrightarrow> (\<exists>r n st. lo \<le> n \<and> n < hi \<and> normalize_path ws path = Inr r
     \<and> dk_stat dk n r = Some st \<and> file_identity st = ident)"

lemma read_digest_mono: "read_digest H dk lo hi path h \<Longrightarrow> lo' \<le> lo \<Longrightarrow> hi \<le> hi' \<Longrightarrow> read_digest H dk lo' hi' path h"
  unfolding read_digest_def by (meson le_trans less_le_trans)

lemma hashed_between_mono:
  "hashed_between H dk ws lo hi ph \<Longrightarrow> lo' \<le> lo \<Longrightarrow> hi \<le> hi' \<Longrightarrow> hashed_between H dk ws lo' hi' ph"
  unfolding hashed_between_def using read_digest_mono by blast

lemma identical_between_mono:
  assumes "identical_between dk ws lo hi path ident" and "lo' \<le> lo" and "hi \<le> hi'"
  shows "identical_between dk ws lo' hi' path ident"
proof -
  obtain r n st where "lo \<le> n" "n < hi" "normalize_path ws path = Inr r" "dk_stat dk n r = Some st" "file_identity st = ident"
    using assms(1) by (auto simp: identical_between_def)
  then show ?thesis
    unfolding identical_between_def using assms(2,3) by (intro exI [of _ r] exI [of _ n] exI [of _ st]) simp
qed

lemma hash_file_run:
  fixes s :: "'d pstate"
  assumes "hash_file_streaming H dk path k max_bytes max_seconds s = (Inr h, t)"
  shows "read_digest H dk (calls s) (calls t) path h \<and> (\<forall>m. max_bytes = Some m \<longrightarrow> fh_bytes h \<le> m)"
proof -
  let ?deadline = "(case max_seconds of None \<Rightarrow> tx_return None
     | Some m \<Rightarrow> tx_bind time_monotonic (\<lambda>now. tx_return (Some (now + m)))) :: ('d, int option) op"
  obtain before after data prefix deadline and u v :: "'d pstate" where c: "dk_stat dk (calls s) path = Some before"
    "case max_bytes of None \<Rightarrow> True | Some m \<Rightarrow> fs_size before \<le> m" "?deadline (tick s) = (Inr deadline, u)"
    "hash_chunks deadline k [] [] (dk_chunks dk (calls u) path) (tick u) = (Inr (data, prefix), v)"
    "dk_stat dk (calls v) path = Some after" "file_identity before = file_identity after"
    "int (length data) = fs_size after" "h = hash_result H data prefix after" "t = tick v"
    using assms by (auto simp: hash_file_streaming_def tx_simps require_stat_ok world_call_ok)
  have data: "data = read_data (dk_chunks dk (calls u) path)"
    using hash_chunks_data [OF c(4)] by simp
  have "calls (tick s) \<le> calls u" using c(3) by (cases max_seconds) (auto simp: tx_simps tick_calls)
  moreover have "calls (tick u) \<le> calls v" by (rule forward_calls_le [OF forward_chunks c(4)])
  ultimately have order: "calls s < calls u" "calls u < calls v" "calls v < calls t" by (simp_all add: c(9) tick_calls)
  have "read_digest H dk (calls s) (calls t) path h"
    unfolding read_digest_def
    by (rule exI [of _ "calls s"], rule exI [of _ "calls u"], rule exI [of _ "calls v"], rule exI [of _ after])
      (use c(1,5-8) data order in \<open>simp add: hash_result_def\<close>)
  moreover have "fs_size before = fs_size after" using c(6) by (simp add: file_identity_def)
  ultimately show ?thesis using c(2,7,8) by (auto simp: hash_result_def)
qed

lemma hash_proof_loop_run:
  fixes s :: "'d pstate"
  shows "hash_proof_loop H dk ws deadline used paths s = (Inr hashed, t) \<Longrightarrow>
     map fst hashed = paths \<and> (\<forall>ph \<in> set hashed. hashed_between H dk ws (calls s) (calls t) ph)"
proof (induction paths arbitrary: used s hashed)
  case (Cons path paths)
  obtain r h rest dl used' and v :: "'d pstate" where c: "normalize_path ws path = Inr r"
    "hash_file_streaming H dk r 0 (Some MAX_MCP_HASH_BYTES) (Some dl) (tick (tick (tick s))) = (Inr h, v)"
    "hash_proof_loop H dk ws deadline used' paths v = (Inr rest, t)" "hashed = (path, h) # rest"
    using Cons.prems by (auto simp: tx_simps resolve_path_def require_stat_ok is_file_ok)
  have le: "calls s \<le> calls (tick (tick (tick s)))" "calls (tick (tick (tick s))) \<le> calls v" "calls v \<le> calls t"
    using forward_calls_le [OF forward_hash c(2)] forward_calls_le [OF forward_hash_loop c(3)] by (simp_all add: tick_calls)
  have "hashed_between H dk ws (calls s) (calls t) (path, h)"
    using hash_file_run [OF c(2)] c(1) read_digest_mono [OF _ le(1,3)] by (auto simp: hashed_between_def)
  moreover have "hashed_between H dk ws (calls s) (calls t) ph" if "ph \<in> set rest" for ph
    using Cons.IH [OF c(3)] that hashed_between_mono [OF _ order_trans [OF le(1,2)] order_refl] by blast
  ultimately show ?case
    using Cons.IH [OF c(3)] c(4) by simp
qed (simp add: tx_simps)

lemma hash_proof_run:
  assumes "hash_proof_files H dk ws paths s = (Inr hashed, t)"
  shows "map fst hashed = dict_fromkeys paths \<and> (\<forall>ph \<in> set hashed. hashed_between H dk ws (calls s) (calls t) ph)
    \<and> length hashed \<le> MAX_PROOF_FILES"
proof -
  obtain deadline where run: "hash_proof_loop H dk ws deadline 0 (dict_fromkeys paths) (tick s) = (Inr hashed, t)"
    "length (dict_fromkeys paths) \<le> MAX_PROOF_FILES"
    using assms by (auto simp: hash_proof_files_def Let_def tx_simps)
  have "map fst hashed = dict_fromkeys paths" "\<forall>ph \<in> set hashed. hashed_between H dk ws (calls (tick s)) (calls t) ph"
    using hash_proof_loop_run [OF run(1)] by simp_all
  moreover have "length hashed = length (dict_fromkeys paths)" using calculation(1) length_map by metis
  moreover have "\<forall>ph \<in> set hashed. hashed_between H dk ws (calls s) (calls t) ph"
    using calculation(2) hashed_between_mono [of H dk ws "calls (tick s)" "calls t"] by (simp add: tick_calls)
  ultimately show ?thesis using run(2) by simp
qed

lemma unchanged_since_ok:
  assumes "unchanged_since dk ws ph s = (Inr x, t)"
  shows "identical_between dk ws (calls s) (calls t) (fst ph) (fh_identity (snd ph))"
proof -
  obtain r st where "normalize_path ws (fst ph) = Inr r" "dk_stat dk (calls (tick s)) r = Some st"
    "file_identity st = fh_identity (snd ph)" "t = tick (tick s)"
    using assms by (auto simp: unchanged_since_def resolve_path_def tx_simps require_stat_ok is_file_ok)
  then show ?thesis
    unfolding identical_between_def by (intro exI [of _ r] exI [of _ "calls (tick s)"] exI [of _ st]) (simp add: tick_calls)
qed

lemma still_identical_ok:
  assumes "still_identical dk ws pi s = (Inr x, t)"
  shows "identical_between dk ws (calls s) (calls t) (fst pi) (snd pi)"
proof -
  obtain r st where "normalize_path ws (fst pi) = Inr r" "dk_stat dk (calls (tick s)) r = Some st"
    "file_identity st = snd pi" "t = tick (tick s)"
    using assms by (auto simp: still_identical_def resolve_path_def tx_simps require_stat_ok is_file_ok)
  then show ?thesis
    unfolding identical_between_def by (intro exI [of _ r] exI [of _ "calls (tick s)"] exI [of _ st]) (simp add: tick_calls)
qed

end
