(* ===== verification/Completion.thy ===== *)
theory Completion
  imports Readings
begin

text \<open>
  Proof recording, completion and the workboard as calls of the task system: the facts a returning
  run gives, that each run is an advance, and what the review gate lets through.
\<close>

section \<open>Recording\<close>

lemma insert_proof_ok:
  "insert_proof row s = (Inr x, t) \<longleftrightarrow> (\<forall>r \<in> set (integration_records (st_db s)). ir_record_id r \<noteq> ir_record_id row)
     \<and> t = s\<lparr>st_db := (st_db s)\<lparr>integration_records := integration_records (st_db s) @ [row]\<rparr>\<rparr>"
  by (auto simp: insert_proof_def tx_simps list_ex_iff)

lemma event_same_records:
  fixes s :: "'a proof_db_scheme pstate"
  assumes "event_op b ty p tid s = (Inr x, t)"
  shows "integration_records (st_db t) = integration_records (st_db s)"
  using event_op_ok [OF assms] by (auto simp: appends_def)

lemma inside_scope_ok:
  "inside_scope scopes path s = (Inr x, t) \<longleftrightarrow> (\<exists>q \<in> set scopes. path_within path q) \<and> t = s"
  by (auto simp: inside_scope_def tx_simps list_ex_iff)

lemma record_proof_tx_run:
  fixes s :: "'a proof_db_scheme pstate"
  assumes "record_proof_tx b dk ws p tok hashed s = (Inr row, t)"
  shows "\<exists>task record_id recorded. fetch_one (task_is b (ps_task_id p)) (tasks (st_db s)) = Some task
    \<and> holds_lease b tok (time_at s) task
    \<and> (\<forall>path \<in> set (ps_changed p). \<exists>q \<in> set (write_scopes b (ps_task_id p) (st_db s)). path_within path q)
    \<and> (\<forall>ph \<in> set hashed. identical_between dk ws (Suc (calls s)) (calls t) (fst ph) (fh_identity (snd ph)))
    \<and> row = new_proof b p hashed task record_id recorded
    \<and> same_tasks (st_db s) (st_db t) \<and> integration_records (st_db t) = integration_records (st_db s) @ [row]"
proof -
  obtain task ys zs record_id recorded and u v w :: "'a proof_db_scheme pstate" and e q where c:
    "require_lease b (ps_task_id p) tok s = (Inr task, u)"
    "tx_for (inside_scope (write_scopes b (ps_task_id p) (st_db u))) (ps_changed p) u = (Inr ys, v)"
    "tx_for (unchanged_since dk ws) hashed v = (Inr zs, w)"
    "row = new_proof b p hashed task record_id recorded"
    "event_op b ''proof.recorded'' e (Some (ps_task_id p)) ((tick (tick w))\<lparr>st_db :=
       (st_db w)\<lparr>integration_records := integration_records (st_db w) @ [row]\<rparr>\<rparr>) = (Inr q, t)"
    using assms by (auto simp: record_proof_tx_def Let_def tx_simps insert_proof_ok)
  have db: "st_db u = st_db s" "st_db v = st_db s" "st_db w = st_db s"
    using readonlyD [OF readonly_checks(4) c(1)] readonlyD [OF readonly_for [OF readonly_checks(1)] c(2)]
      readonlyD [OF readonly_for [OF readonly_checks(2)] c(3)] by simp_all
  have "\<exists>q \<in> set (write_scopes b (ps_task_id p) (st_db s)). path_within path q" if "path \<in> set (ps_changed p)" for path
    using tx_for_checks [OF c(2) _ that] db(1) by (auto simp: inside_scope_ok intro!: atomic_intros)
  moreover have "identical_between dk ws (Suc (calls s)) (calls t) (fst ph) (fh_identity (snd ph))" if ph: "ph \<in> set hashed" for ph
  proof -
    have "calls u \<le> calls v" "calls w \<le> calls t"
      using forward_calls_le [OF forward_for [OF forward_checks(2)] c(2)] forward_calls_le [OF forward_event c(5)] by (simp_all add: tick_calls)
    moreover have "calls u = Suc (calls s)" using require_lease_run [OF c(1)] by (simp add: tick_calls)
    moreover obtain y and x z :: "'a proof_db_scheme pstate" where
      run: "unchanged_since dk ws ph x = (Inr y, z)" "calls v \<le> calls x" "calls z \<le> calls w"
      using tx_for_window [OF c(3) forward_checks(3) ph] by blast
    ultimately show ?thesis by (intro identical_between_mono [OF unchanged_since_ok [OF run(1)]]) simp_all
  qed
  moreover have "same_tasks (st_db s) (st_db t)" "integration_records (st_db t) = integration_records (st_db s) @ [row]"
    using event_same_tasks [OF c(5)] event_same_records [OF c(5)] db by (auto simp: same_tasks_def)
  ultimately show ?thesis
    using require_lease_run [OF c(1)] c(4) by blast
qed

lemma record_proof_run:
  fixes s :: "'a proof_db_scheme pstate"
  assumes "record_proof b dk ws args s = (Inr row, t)"
  obtains p hashed and u v :: "'a proof_db_scheme pstate" where "validate_proof b ws args = Inr p"
    "hash_proof_files (br_sha256 b) dk ws (ps_changed p @ ps_evidence p) u = (Inr hashed, v)"
    "st_db u = st_db s" "st_db v = st_db s" "later s u" "later s v"
    "record_proof_tx b dk ws p (pa_arg_lease_token args) hashed v = (Inr row, t)"
proof -
  obtain p hashed ys row' and u v w x :: "'a proof_db_scheme pstate" where c: "validate_proof b ws args = Inr p"
    "require_lease b (ps_task_id p) (pa_arg_lease_token args) s = (Inr row', w)"
    "tx_for (inside_scope (write_scopes b (ps_task_id p) (st_db w))) (ps_changed p) w = (Inr ys, u)"
    "hash_proof_files (br_sha256 b) dk ws (ps_changed p @ ps_evidence p) u = (Inr hashed, v)"
    "record_proof_tx b dk ws p (pa_arg_lease_token args) hashed v = (Inr row, t)"
    using assms by (auto simp: record_proof_def tx_simps)
  have "st_db w = st_db s" "st_db u = st_db w" "st_db v = st_db u"
    using readonlyD [OF readonly_checks(4) c(2)] readonlyD [OF readonly_for [OF readonly_checks(1)] c(3)]
      readonlyD [OF readonly_proof_files c(4)] by simp_all
  moreover have "later s w" "later w u" "later u v"
    using forwardD [OF forward_calls(3) c(2)] forwardD [OF forward_for [OF forward_checks(2)] c(3)]
      forwardD [OF forward_checks(1) c(4)] by simp_all
  ultimately show ?thesis using that c later_trans by metis
qed

section \<open>Completing\<close>

lemma map_fst_lookup: "path \<in> set (map fst hashed) \<Longrightarrow> \<exists>h. map_of hashed path = Some h \<and> (path, h) \<in> set hashed"
  by (induction hashed) auto

text \<open>What a ready answer of \<open>_proofs_are_live\<close> means.\<close>

definition live_proof :: "(string \<times> file_hash) list \<Rightarrow> proof_row \<Rightarrow> bool" where
  "live_proof hashed row \<longleftrightarrow> ir_tests row \<noteq> [] \<and> (\<exists>expected. expected_hashes row = Inr expected
     \<and> (\<forall>(path, v) \<in> set expected. v = json_opt JStr (live_sha hashed path)))"

lemma proofs_are_live_run:
  fixes s :: "'a proof_db_scheme pstate"
  assumes "proofs_are_live b dk ws i s = (Inr (True, checks, ids), t)"
  obtains hashed where "task_proofs b i (st_db s) \<noteq> []"
    "\<forall>row \<in> set (task_proofs b i (st_db s)). live_proof hashed row"
    "\<forall>ph \<in> set hashed. hashed_between (br_sha256 b) dk ws (calls s) (calls t) ph"
    "map (\<lambda>c. (pk_record_id c, pk_record_sha256 c)) checks = map (\<lambda>r. (ir_record_id r, ir_record_sha256 r)) (task_proofs b i (st_db s))"
    "ids = map (\<lambda>(path, h). (path, fh_identity h)) hashed"
proof -
  let ?rows = "task_proofs b i (st_db s)"
  obtain expected existing hashed and u :: "'a proof_db_scheme pstate" where c: "?rows \<noteq> []" "res_map expected_hashes ?rows = Inr expected"
    "list_all (\<lambda>c. pk_drift c = [] \<and> pk_tests c \<noteq> []) checks" "checks = map (proof_check_of hashed) (zip ?rows expected)"
    "(if existing = [] then tx_return [] else hash_proof_files (br_sha256 b) dk ws existing) u = (Inr hashed, t)"
    "existing_files dk ws (dict_fromkeys (concat (map (map fst) expected))) s = (Inr existing, u)"
    "ids = map (\<lambda>(path, h). (path, fh_identity h)) hashed"
    using assms by (auto simp: proofs_are_live_def Let_def tx_simps)
  have all2: "list_all2 (\<lambda>row e. expected_hashes row = Inr e) ?rows expected"
    using c(2) by (simp add: res_map_Inr)
  have one: "live_proof hashed row" if m: "row \<in> set ?rows" for row
  proof -
    obtain k where k: "k < length ?rows" "row = ?rows ! k" using m in_set_conv_nth by metis
    define e where "e = expected ! k"
    have e: "(row, e) \<in> set (zip ?rows expected)" "expected_hashes row = Inr e"
      using k list_all2_lengthD [OF all2] list_all2_nthD [OF all2 k(1)] by (auto simp: in_set_zip e_def)
    have "proof_check_of hashed (row, e) \<in> set checks" using c(4) e(1) by simp
    then have "pk_drift (proof_check_of hashed (row, e)) = []" "ir_tests row \<noteq> []"
      using c(3) by (auto simp: list_all_iff proof_check_of_def)
    then show ?thesis using e(2) by (auto simp: live_proof_def proof_check_of_def filter_empty_conv)
  qed
  have "\<forall>ph \<in> set hashed. hashed_between (br_sha256 b) dk ws (calls u) (calls t) ph"
    using c(5) hash_proof_run [of "br_sha256 b" dk ws existing u hashed t] by (cases "existing = []") (simp_all add: tx_simps)
  then have "\<forall>ph \<in> set hashed. hashed_between (br_sha256 b) dk ws (calls s) (calls t) ph"
    using hashed_between_mono forward_calls_le [OF forward_existing c(6)] by blast
  moreover have "map (\<lambda>c. (pk_record_id c, pk_record_sha256 c)) checks = map (\<lambda>r. (ir_record_id r, ir_record_sha256 r)) ?rows"
  proof -
    have "map (\<lambda>c. (pk_record_id c, pk_record_sha256 c)) checks
        = map (\<lambda>r. (ir_record_id r, ir_record_sha256 r)) (map fst (zip ?rows expected))"
      by (simp add: c(4) proof_check_of_def comp_def)
    then show ?thesis using list_all2_lengthD [OF all2] by simp
  qed
  ultimately show ?thesis using that [of hashed] c(1,7) one by blast
qed

lemma complete_task_run:
  fixes s :: "'a proof_db_scheme pstate"
  assumes "complete_task b dk ws ttl i tok s = (Inr cm, t)"
  obtains task checks ids review stamp and u v :: "'a proof_db_scheme pstate" where
    "fetch_one (task_is b (py_strip i)) (tasks (st_db s)) = Some task" "holds_lease b tok (time_at s) task"
    "proofs_are_live b dk ws (py_strip i) (tick s) = (Inr (True, checks, ids), u)" "st_db u = st_db s"
    "review_summary b ttl (py_strip i) u = (Inr review, v)" "rr_ready_for_completion review" "st_db v = st_db s" "later s v"
    "calls u \<le> calls v" "holds_lease b tok (time_at v) task"
    "\<forall>pi \<in> set ids. identical_between dk ws (Suc (calls v)) (calls t) (fst pi) (snd pi)"
    "lease_change b (py_strip i) tok (unclaimed Task_Complete stamp) (time_at v) (st_db s) (st_db t)"
    "integration_records (st_db t) = integration_records (st_db s)"
    "cm_task_id cm = py_strip i" "cm_proof_checks cm = checks" "cm_review cm = review"
proof -
  obtain task task' checks ids review stamp zs e q and t0 u v t1 w :: "'a proof_db_scheme pstate" where c:
    "require_lease b (py_strip i) tok s = (Inr task, t0)"
    "proofs_are_live b dk ws (py_strip i) t0 = (Inr (True, checks, ids), u)"
    "review_summary b ttl (py_strip i) u = (Inr review, v)" "rr_ready_for_completion review"
    "require_lease b (py_strip i) tok v = (Inr task', t1)"
    "tx_for (still_identical dk ws) ids t1 = (Inr zs, w)"
    "event_op b ''task.completed'' e (Some (py_strip i)) ((tick w)\<lparr>st_db := (st_db w)\<lparr>tasks :=
       update_where (task_is b (py_strip i)) (unclaimed Task_Complete stamp) (tasks (st_db w))\<rparr>\<rparr>) = (Inr q, t)"
    "cm = \<lparr>cm_task_id = py_strip i, cm_completed_utc = stamp, cm_proof_checks = checks, cm_review = review, cm_chain_sha256 = snd q\<rparr>"
    using assms by (auto simp: complete_task_def close_task_tx_def tx_simps require_identifier_Inr)
  have t0: "t0 = tick s" "st_db t0 = st_db s" and t1: "t1 = tick v" "holds_lease b tok (time_at v) task'"
    "fetch_one (task_is b (py_strip i)) (tasks (st_db v)) = Some task'"
    using require_lease_run [OF c(1)] require_lease_run [OF c(5)] by simp_all
  have db: "st_db u = st_db s" "st_db v = st_db s" "st_db w = st_db s"
    using readonlyD [OF readonly_live_proofs c(2)] readonlyD [OF readonly_review_summary c(3)]
      readonlyD [OF readonly_for [OF readonly_checks(3)] c(6)] t0 t1 by simp_all
  have "later s v"
    using forwardD [OF forward_live_proofs c(2)] forwardD [OF forward_checks(6) c(3)] later_tick later_trans t0 by blast
  moreover have "identical_between dk ws (Suc (calls v)) (calls t) (fst pi) (snd pi)" if pi: "pi \<in> set ids" for pi
  proof -
    obtain y and x z :: "'a proof_db_scheme pstate" where
      run: "still_identical dk ws pi x = (Inr y, z)" "calls t1 \<le> calls x" "calls z \<le> calls w"
      using tx_for_window [OF c(6) forward_checks(4) pi] by blast
    moreover have "calls w \<le> calls t" using forward_calls_le [OF forward_event c(7)] by (simp add: tick_calls)
    moreover have "calls t1 = Suc (calls v)" by (simp add: t1(1) tick_calls)
    ultimately show ?thesis by (intro identical_between_mono [OF still_identical_ok [OF run(1)]]) simp_all
  qed
  moreover have "calls u \<le> calls v" by (rule forward_calls_le [OF forward_checks(6) c(3)])
  moreover have "task' = task" using require_lease_run [OF c(1)] t1(3) db(2) by simp
  moreover have "lease_change b (py_strip i) tok (unclaimed Task_Complete stamp) (time_at v) (st_db s) (st_db t)"
    using t1 event_same_tasks [OF c(7)] db by (auto simp: lease_change_def)
  moreover have "integration_records (st_db t) = integration_records (st_db s)"
    using event_same_records [OF c(7)] db by simp
  ultimately show ?thesis
    using that [of task checks ids u review v stamp] require_lease_run [OF c(1)] c(2-4,8) t0 t1(2) db by simp
qed

section \<open>Every call is an advance\<close>

lemma complete_keeps_lease:
  assumes "holds_lease b tok m r" and "task_row_ok r"
  shows "keeps_lease m n r (unclaimed Task_Complete now r)"
  using assms by (auto simp: keeps_lease_def unclaimed_def task_key_def task_row_ok_def task_progress_def live_at_def holds_lease_def)

lemma advances_record_proof: "advances (record_proof b dk ws args :: ('a proof_db_scheme, proof_row) op)"
proof (rule advances_quiet [OF forward_proof_calls(1)])
  fix s :: "'a proof_db_scheme pstate" and row t
  assume run: "record_proof b dk ws args s = (Inr row, t)"
  obtain p hashed and u v :: "'a proof_db_scheme pstate" where "st_db v = st_db s"
    "record_proof_tx b dk ws p (pa_arg_lease_token args) hashed v = (Inr row, t)"
    using record_proof_run [OF run] by metis
  then show "tasks (st_db t) = tasks (st_db s) \<and> task_paths (st_db t) = task_paths (st_db s)"
    using record_proof_tx_run by (metis same_tasks_def)
qed

lemma advances_complete: "advances (complete_task b dk ws ttl i tok :: ('a proof_db_scheme, completion) op)"
proof (rule advancesI [OF forward_proof_calls(2)])
  fix s :: "'a proof_db_scheme pstate" and cm t
  assume run: "complete_task b dk ws ttl i tok s = (Inr cm, t)" and st: "time_at s \<le> time_at t"
    and clock: "clock_monotone (st_world s)"
  obtain stamp and v :: "'a proof_db_scheme pstate" where v: "later s v"
    "lease_change b (py_strip i) tok (unclaimed Task_Complete stamp) (time_at v) (st_db s) (st_db t)"
    using complete_task_run [OF run] by metis
  have "lease_change b (py_strip i) tok (unclaimed Task_Complete stamp) (time_at s) (st_db s) (st_db t)"
    using lease_change_earlier [OF v(2)] later_clock [OF v(1) clock] by blast
  then show "advance (time_at s) (time_at t) (st_db s) (st_db t)"
    by (rule lease_change_advance [OF _ st]) (rule complete_keeps_lease)
qed

lemma advances_workboard: "advances (workboard b ttl all limit)"
proof (rule advancesI [OF forward_proof_calls(3)])
  fix s :: "'a task_db_scheme pstate" and x t
  assume run: "workboard b ttl all limit s = (Inr x, t)" and st: "time_at s \<le> time_at t"
  obtain y and u :: "'a task_db_scheme pstate" where "expire_leases b s = (Inr y, u)" "st_db t = st_db u"
    using run by (auto simp: workboard_def online_agents_def Let_def tx_simps)
  then show "advance (time_at s) (time_at t) (st_db s) (st_db t)"
    using expire_leases_advance [of b s y u "time_at s"] advance_later [OF _ st] by simp
qed

section \<open>The review gate\<close>

text \<open>An approval of the stored revision of the task.\<close>

definition approval_of :: "bridge \<Rightarrow> task_row \<Rightarrow> string \<Rightarrow> review_row \<Rightarrow> bool" where
  "approval_of b task p r \<longleftrightarrow> rv_scope r = br_scope b \<and> rv_task_id r = tk_task_id task \<and> rv_reviewer r = p
     \<and> rv_verdict r = Approved \<and> same_revision task (rv_task_revision r) (rv_task_sha256 r)"

definition counted :: "bridge \<Rightarrow> task_row \<Rightarrow> 'a task_db_scheme \<Rightarrow> review_row list" where
  "counted b task d = sort_key rv_review_utc (filter (counted_review b task (peer_calls d)) (peer_reviews d))"

lemma approved_is_approval:
  assumes "p \<in> set (approved_reviewers (counted b task d))"
  shows "\<exists>r \<in> set (peer_reviews d). approval_of b task p r"
  using assms by (auto simp: approved_reviewers_def counted_def counted_review_def approval_of_def)

lemma review_summary_run:
  assumes "review_summary b ttl i s = (Inr rep, t)"
  shows "\<exists>online. fetch_one (task_is b (py_strip i)) (tasks (st_db s)) = Some (rr_task rep)
    \<and> rr_ready_for_completion rep = fst (review_policy (review_gate (rr_task rep) (required_peers_of b (rr_task rep) (st_db s))
        (approved_reviewers (counted b (rr_task rep) (st_db s))) online))"
  using assms
  by (auto simp: review_summary_def tx_simps require_identifier_Inr Let_def counted_def split: prod.splits)

lemma safe_id_strip: "safe_id x \<Longrightarrow> py_strip x = x"
proof -
  assume "safe_id x"
  then have nospace: "\<not> py_space c" if "c \<in> set x" for c
    using that by (auto simp: safe_id_def list_all_iff safe_id_char_def is_ascii_alnum_def py_space_def Let_def)
  have "dropWhile py_space xs = xs" if "set xs \<subseteq> set x" for xs
    using that nospace by (cases xs) auto
  then show ?thesis by (simp add: py_strip_def)
qed

text \<open>What a returning \<open>complete_task\<close> read: the held task, a ready proof and a ready gate.\<close>

lemma complete_task_gate:
  fixes s :: "'a proof_db_scheme pstate"
  assumes "complete_task b dk ws ttl i tok s = (Inr cm, t)"
  obtains task online where "fetch_one (task_is b (py_strip i)) (tasks (st_db s)) = Some task" "holds_lease b tok (time_at s) task"
    "fst (review_policy (review_gate task (required_peers_of b task (st_db s))
       (approved_reviewers (counted b task (st_db s))) online))"
proof -
  have id: "safe_id (py_strip i)" using assms by (auto simp: complete_task_def tx_simps require_identifier_Inr)
  obtain task review and u v :: "'a proof_db_scheme pstate" where
    c: "fetch_one (task_is b (py_strip i)) (tasks (st_db s)) = Some task" "holds_lease b tok (time_at s) task" "st_db u = st_db s"
      "review_summary b ttl (py_strip i) u = (Inr review, v)" "rr_ready_for_completion review"
    using complete_task_run [OF assms] by metis
  show ?thesis
    using review_summary_run [OF c(4)] c that safe_id_strip [OF id] by auto
qed

end
