(* ===== verification/TaskHistory.thy ===== *)
theory TaskHistory
  imports Completion Histories
begin

text \<open>
  The histories of the task store: any calls of any bridges, returning or raising, while the clock
  moves on. Every call keeps the invariant: the tasks are well formed, live leases are apart, the
  holder of a task is none of its required peers, and every stored review answers a request that was
  addressed to its reviewer by another agent for the revision it is filed under.
\<close>

section \<open>Who may review\<close>

definition peer_of :: "task_row \<Rightarrow> peer_row \<Rightarrow> bool" where
  "peer_of t p \<longleftrightarrow> tp_scope p = tk_scope t \<and> tp_task_id p = tk_task_id t"

definition peers_ok :: "'a task_db_scheme \<Rightarrow> bool" where
  "peers_ok d \<longleftrightarrow> (\<forall>t \<in> set (tasks d). \<forall>a. tk_claimed_by t = Some a \<longrightarrow> tk_required_peer t \<noteq> Some a
     \<and> (\<forall>p \<in> set (task_required_peers d). peer_of t p \<longrightarrow> tp_peer_id p \<noteq> a))"

text \<open>The columns of a request that no call changes.\<close>

definition call_core :: "call_row \<Rightarrow> string \<times> string \<times> string \<times> string \<times> string \<times> int \<times> string" where
  "call_core c = (pc_scope c, pc_request_id c, pc_task_id c, pc_requester c, pc_recipient c, pc_task_revision c, pc_task_sha256 c)"

definition answers :: "review_row \<Rightarrow> call_row \<Rightarrow> bool" where
  "answers r c \<longleftrightarrow> pc_scope c = rv_scope r \<and> pc_request_id c = rv_request_id r \<and> pc_task_id c = rv_task_id r
     \<and> pc_recipient c = rv_reviewer r \<and> pc_task_revision c = rv_task_revision r \<and> pc_task_sha256 c = rv_task_sha256 r"

definition reviews_sound :: "'a task_db_scheme \<Rightarrow> bool" where
  "reviews_sound d \<longleftrightarrow> distinct (map pc_request_id (peer_calls d)) \<and> (\<forall>c \<in> set (peer_calls d). pc_requester c \<noteq> pc_recipient c)
     \<and> distinct (map (\<lambda>r. (rv_scope r, rv_request_id r, rv_reviewer r)) (peer_reviews d))
     \<and> (\<forall>r \<in> set (peer_reviews d). \<exists>c \<in> set (peer_calls d). answers r c)"

lemma answers_core: "call_core c = call_core c' \<Longrightarrow> answers r c = answers r c'"
  by (auto simp: call_core_def answers_def)

section \<open>What the calls do to peers and reviews\<close>

text \<open>The tasks keep their required peer, and their holder or none.\<close>

definition relets :: "'a task_db_scheme \<Rightarrow> 'a task_db_scheme \<Rightarrow> bool" where
  "relets d d' \<longleftrightarrow> task_required_peers d' = task_required_peers d \<and> peer_calls d' = peer_calls d
     \<and> peer_reviews d' = peer_reviews d
     \<and> (\<forall>t' \<in> set (tasks d'). \<exists>t \<in> set (tasks d). task_key t' = task_key t \<and> tk_required_peer t' = tk_required_peer t
          \<and> (tk_claimed_by t' = None \<or> tk_claimed_by t' = tk_claimed_by t))"

lemma relets_same: "same_tasks d d' \<Longrightarrow> relets d d'"
  by (auto simp: relets_def same_tasks_def)

lemma relets_trans:
  assumes "relets a b" and "relets b c"
  shows "relets a c"
proof -
  have "\<exists>t \<in> set (tasks a). task_key v = task_key t \<and> tk_required_peer v = tk_required_peer t
      \<and> (tk_claimed_by v = None \<or> tk_claimed_by v = tk_claimed_by t)" if v: "v \<in> set (tasks c)" for v
  proof -
    obtain u where u: "u \<in> set (tasks b)" "task_key v = task_key u" "tk_required_peer v = tk_required_peer u"
      "tk_claimed_by v = None \<or> tk_claimed_by v = tk_claimed_by u"
      using assms(2) v by (auto simp: relets_def)
    obtain t where t: "t \<in> set (tasks a)" "task_key u = task_key t" "tk_required_peer u = tk_required_peer t"
      "tk_claimed_by u = None \<or> tk_claimed_by u = tk_claimed_by t"
      using assms(1) u(1) by (auto simp: relets_def)
    show ?thesis by (rule bexI [OF _ t(1)]) (use t u in auto)
  qed
  then show ?thesis using assms by (simp add: relets_def)
qed

lemma relets_update:
  assumes "\<And>r. task_key (f r) = task_key r \<and> tk_required_peer (f r) = tk_required_peer r
      \<and> (tk_claimed_by (f r) = None \<or> tk_claimed_by (f r) = tk_claimed_by r)"
  shows "relets d (d\<lparr>tasks := update_where P f (tasks d)\<rparr>)"
  using assms by (fastforce simp: relets_def set_update_where)

lemma relets_lease_change:
  assumes "lease_change b i tok f now d d'"
    and "\<And>r. task_key (f r) = task_key r \<and> tk_required_peer (f r) = tk_required_peer r
      \<and> (tk_claimed_by (f r) = None \<or> tk_claimed_by (f r) = tk_claimed_by r)"
  shows "relets d d'"
proof -
  have "relets (d\<lparr>tasks := update_where (task_is b i) f (tasks d)\<rparr>) d'"
    using assms(1) relets_same by (auto simp: lease_change_def)
  then show ?thesis using relets_update [OF assms(2)] relets_trans by blast
qed

lemma unclaimed_relet: "task_key (unclaimed st now r) = task_key r \<and> tk_required_peer (unclaimed st now r) = tk_required_peer r
    \<and> (tk_claimed_by (unclaimed st now r) = None \<or> tk_claimed_by (unclaimed st now r) = tk_claimed_by r)"
  by (simp add: unclaimed_def task_key_def)

lemma relets_expire:
  fixes s :: "'a task_db_scheme pstate"
  assumes "expire_leases b s = (Inr x, t)"
  shows "relets (st_db s) (st_db t)"
proof -
  obtain rows ys where run: "tx_for (expire_lease b) rows (tick s) = (Inr ys, t)"
    using assms by (auto simp: expire_leases_def tx_simps)
  show ?thesis
    using run
  proof (rule tx_for_rule [where J = "\<lambda>xs d. relets (st_db s) d"])
    fix x xs and u :: "'a task_db_scheme pstate" and a v
    assume J: "relets (st_db s) (st_db u)" and x: "expire_lease b x u = (Inr a, v)"
    obtain now and w :: "'a task_db_scheme pstate" where "st_db w = (st_db u)\<lparr>tasks := update_where (task_is b (tk_task_id x))
        (unclaimed Task_Open now) (tasks (st_db u))\<rparr>" "same_tasks (st_db w) (st_db v)"
      using expire_lease_run [OF x] by blast
    then have "relets (st_db u) (st_db w)" "relets (st_db w) (st_db v)"
      using relets_update [OF unclaimed_relet, of "st_db u" "task_is b (tk_task_id x)"] relets_same by simp_all
    then show "relets (st_db s) (st_db v)" using J relets_trans by blast
  qed (simp add: relets_same)
qed

lemma relets_peers: "relets d d' \<Longrightarrow> peers_ok d \<Longrightarrow> peers_ok d'"
  unfolding relets_def peers_ok_def peer_of_def task_key_def by (metis option.distinct(1) prod.inject)

lemma relets_reviews: "relets d d' \<Longrightarrow> reviews_sound d' = reviews_sound d"
  by (simp add: relets_def reviews_sound_def)

text \<open>A call keeps \<open>I\<close> when every returning run does.\<close>

definition store_ok :: "'a task_db_scheme \<Rightarrow> bool" where
  "store_ok d \<longleftrightarrow> tasks_ok d \<and> peers_ok d \<and> reviews_sound d"

definition review_history :: "'a task_db_scheme \<Rightarrow> 'a task_db_scheme \<Rightarrow> bool" where
  "review_history d d' \<longleftrightarrow> (\<exists>new. peer_reviews d' = peer_reviews d @ new)
     \<and> (\<forall>c \<in> set (peer_calls d). \<exists>c' \<in> set (peer_calls d'). call_core c' = call_core c)"

lemma review_history_same: "peer_reviews d' = peer_reviews d \<Longrightarrow> peer_calls d' = peer_calls d \<Longrightarrow> review_history d d'"
  by (auto simp: review_history_def)

lemma review_history_trans: "review_history a b \<Longrightarrow> review_history b c \<Longrightarrow> review_history a c"
  unfolding review_history_def by (metis append.assoc)

definition keeps_peers :: "('a task_db_scheme, 'b) op \<Rightarrow> bool" where
  "keeps_peers m \<longleftrightarrow> (\<forall>s x t. m s = (Inr x, t) \<longrightarrow> tasks_ok (st_db s) \<longrightarrow> peers_ok (st_db s) \<longrightarrow> reviews_sound (st_db s)
     \<longrightarrow> peers_ok (st_db t) \<and> reviews_sound (st_db t) \<and> review_history (st_db s) (st_db t))"

lemma keeps_peers_relets: "(\<And>s x t. m s = (Inr x, t) \<Longrightarrow> relets (st_db s) (st_db t)) \<Longrightarrow> keeps_peers m"
  unfolding keeps_peers_def using relets_peers relets_reviews review_history_same by (metis relets_def)

lemma keeps_peers_leased:
  "keeps_peers (renew_task b i tok ls)" "keeps_peers (release_task b i tok status reason)"
proof -
  show "keeps_peers (renew_task b i tok ls)"
    by (rule keeps_peers_relets) (auto dest!: renew_task_run intro: relets_lease_change simp: task_key_def)
  show "keeps_peers (release_task b i tok status reason)"
    by (rule keeps_peers_relets) (auto dest!: release_task_run intro: relets_lease_change [OF _ unclaimed_relet])
qed

lemma keeps_peers_announce: "keeps_peers (announce_work b ws i summary status paths tok)"
proof (rule keeps_peers_relets)
  fix s :: "'a task_db_scheme pstate" and x t
  assume run: "announce_work b ws i summary status paths tok s = (Inr x, t)"
  obtain now d where d: "lease_change b (py_strip i) tok (\<lambda>r. r\<lparr>tk_summary := py_strip summary, tk_updated_utc := now\<rparr>)
      (time_at (tick (tick s))) d (st_db t)" "same_tasks (st_db s) d"
    using announce_work_run [OF run] by blast
  have "relets d (st_db t)" by (rule relets_lease_change [OF d(1)]) (simp add: task_key_def)
  then show "relets (st_db s) (st_db t)" using relets_same [OF d(2)] relets_trans by blast
qed

lemma keeps_peers_presence: "keeps_peers (touch_presence b transport)" "keeps_peers (clear_presence b)"
  by (rule keeps_peers_relets; auto simp: touch_presence_def clear_presence_def tx_simps Let_def relets_def)+

lemma keeps_peers_workboard: "keeps_peers (workboard b ttl all limit)"
proof (rule keeps_peers_relets)
  fix s :: "'a task_db_scheme pstate" and x t
  assume run: "workboard b ttl all limit s = (Inr x, t)"
  obtain y and u :: "'a task_db_scheme pstate" where "expire_leases b s = (Inr y, u)" "st_db t = st_db u"
    using run by (auto simp: workboard_def online_agents_def Let_def tx_simps)
  then show "relets (st_db s) (st_db t)" using relets_expire by metis
qed

lemma keeps_peers_proofs:
  "keeps_peers (record_proof b dk ws args :: ('a proof_db_scheme, proof_row) op)"
  "keeps_peers (complete_task b dk ws ttl i tok :: ('a proof_db_scheme, completion) op)"
proof -
  show "keeps_peers (record_proof b dk ws args :: ('a proof_db_scheme, proof_row) op)"
  proof (rule keeps_peers_relets)
    fix s :: "'a proof_db_scheme pstate" and row t
    assume "record_proof b dk ws args s = (Inr row, t)"
    then obtain p hashed and v :: "'a proof_db_scheme pstate" where "st_db v = st_db s"
      "record_proof_tx b dk ws p (pa_arg_lease_token args) hashed v = (Inr row, t)"
      using record_proof_run by metis
    then show "relets (st_db s) (st_db t)" using record_proof_tx_run relets_same by metis
  qed
  show "keeps_peers (complete_task b dk ws ttl i tok :: ('a proof_db_scheme, completion) op)"
  proof (rule keeps_peers_relets)
    fix s :: "'a proof_db_scheme pstate" and cm t
    assume run: "complete_task b dk ws ttl i tok s = (Inr cm, t)"
    obtain stamp now where "lease_change b (py_strip i) tok (unclaimed Task_Complete stamp) now (st_db s) (st_db t)"
      using complete_task_run [OF run] by metis
    then show "relets (st_db s) (st_db t)" by (rule relets_lease_change) (rule unclaimed_relet)
  qed
qed

section \<open>Claims, requests and reviews\<close>

lemma collect_peers_Inr: "collect_peers b found xs = Inr ys \<Longrightarrow> br_agent_id b \<notin> set found \<Longrightarrow> br_agent_id b \<notin> set ys"
proof (induction xs arbitrary: found)
  case (Cons x xs)
  obtain peer where "peer \<noteq> br_agent_id b" "collect_peers b (if peer \<in> set found then found else found @ [peer]) xs = Inr ys"
    using Cons.prems(1) by (auto simp: tx_simps)
  then show ?case using Cons.IH [of "if peer \<in> set found then found else found @ [peer]"] Cons.prems(2)
    by (auto split: if_splits)
qed simp

lemma validate_claim_peers:
  assumes "validate_claim b ws args = Inr c"
  shows "cs_required_peer c \<noteq> Some (br_agent_id b) \<and> br_agent_id b \<notin> set (cs_required_peers c)
    \<and> (cs_approval_mode c = Quorum_Required \<longrightarrow> cs_required_peers c \<noteq> []) \<and> 1 \<le> cs_review_quorum c"
proof -
  obtain p ps where p: "parse_required_peer b (ca_required_peer args) = Inr p"
    "parse_required_peers b p (ca_required_peers args) = Inr ps"
    "cs_required_peer c = p" "cs_required_peers c = ps"
    "cs_approval_mode c = Quorum_Required \<longrightarrow> cs_required_peers c \<noteq> []" "1 \<le> cs_review_quorum c"
    using assms by (auto simp: validate_claim_def tx_simps Let_def)
  have "p \<noteq> Some (br_agent_id b)"
    using p(1) by (auto simp: parse_required_peer_def tx_simps split: option.splits)
  moreover obtain qs where "collect_peers b [] (ca_required_peers args) = Inr qs"
    "ps = sort (case p of None \<Rightarrow> qs | Some q \<Rightarrow> if q \<in> set qs then qs else qs @ [q])"
    using p(2) by (auto simp: parse_required_peers_def tx_simps)
  ultimately have "br_agent_id b \<notin> set ps"
    using collect_peers_Inr [of b "[]"] by (auto split: option.splits if_splits)
  then show ?thesis using p \<open>p \<noteq> Some (br_agent_id b)\<close> by simp
qed

lemma claim_db_peers:
  "task_required_peers (claim_db b c l existing d) =
     filter (\<lambda>p. \<not> (tp_scope p = br_scope b \<and> tp_task_id p = cs_task_id c)) (task_required_peers d)
     @ map (\<lambda>peer. \<lparr>tp_scope = br_scope b, tp_task_id = cs_task_id c, tp_peer_id = peer\<rparr>) (cs_required_peers c)"
  "peer_calls (claim_db b c l existing d) = peer_calls d" "peer_reviews (claim_db b c l existing d) = peer_reviews d"
  by (simp_all add: claim_db_def store_peers_def store_paths_def store_task_def split: option.splits)

lemma claim_db_peers_ok:
  assumes "peers_ok d" and "validate_claim b ws args = Inr c" and "claim_allowed b c now existing d"
  shows "peers_ok (claim_db b c l existing d)"
  unfolding peers_ok_def
proof (intro ballI allI impI)
  fix t a
  assume t: "t \<in> set (tasks (claim_db b c l existing d))" and a: "tk_claimed_by t = Some a"
  have existing: "existing = fetch_one (task_is b (cs_task_id c)) (tasks d)" using assms(3) by (simp add: claim_allowed_def)
  consider (old) "t \<in> set (tasks d)" "task_key t \<noteq> (br_scope b, cs_task_id c)"
    | (new) created where "t = claimed_task b c l (next_revision existing (nl_task_sha256 l)) created"
    using claim_db_row [OF t existing] by blast
  then show "tk_required_peer t \<noteq> Some a \<and> (\<forall>p \<in> set (task_required_peers (claim_db b c l existing d)). peer_of t p \<longrightarrow> tp_peer_id p \<noteq> a)"
  proof cases
    case old
    have "tk_required_peer t \<noteq> Some a" "\<forall>p \<in> set (task_required_peers d). peer_of t p \<longrightarrow> tp_peer_id p \<noteq> a"
      using assms(1) old(1) a by (auto simp: peers_ok_def)
    then show ?thesis using old(2) by (auto simp: claim_db_peers peer_of_def task_key_def)
  next
    case new
    then show ?thesis
      using validate_claim_peers [OF assms(2)] a by (auto simp: claim_db_peers peer_of_def claimed_task_def)
  qed
qed

lemma keeps_peers_claim: "keeps_peers (claim_task b ws args)"
  unfolding keeps_peers_def
proof (intro allI impI)
  fix s :: "'a task_db_scheme pstate" and g t
  assume run: "claim_task b ws args s = (Inr g, t)" and ok: "peers_ok (st_db s)" "reviews_sound (st_db s)"
  obtain c l existing and u :: "'a task_db_scheme pstate" where u: "validate_claim b ws args = Inr c"
    "expire_leases b (tick (tick (tick s))) = (Inr (), u)"
    "claim_allowed b c (time_at (tick s)) existing (st_db u)" "same_tasks (claim_db b c l existing (st_db u)) (st_db t)"
    using claim_task_run [OF run] by metis
  have ex: "relets (st_db s) (st_db u)" using relets_expire [OF u(2)] by simp
  have "peers_ok (claim_db b c l existing (st_db u))"
    by (rule claim_db_peers_ok [OF relets_peers [OF ex ok(1)] u(1,3)])
  then have "peers_ok (st_db t)" using u(4) relets_peers relets_same by blast
  moreover have "reviews_sound (st_db t)" "review_history (st_db s) (st_db t)"
    using ok(2) ex u(4) by (auto simp: relets_def same_tasks_def claim_db_peers reviews_sound_def intro: review_history_same)
  ultimately show "peers_ok (st_db t) \<and> reviews_sound (st_db t) \<and> review_history (st_db s) (st_db t)" by blast
qed

lemma keeps_peers_request: "keeps_peers (request_review b ws i recipient question paths tok)"
  unfolding keeps_peers_def
proof (intro allI impI)
  fix s :: "'a task_db_scheme pstate" and call t
  assume run: "request_review b ws i recipient question paths tok s = (Inr call, t)"
    and ok: "peers_ok (st_db s)" "reviews_sound (st_db s)"
  have r: "pc_requester call \<noteq> pc_recipient call" "\<forall>r \<in> set (peer_calls (st_db s)). pc_request_id r \<noteq> pc_request_id call"
    "same_tasks ((st_db s)\<lparr>peer_calls := peer_calls (st_db s) @ [call], peer_call_seq := pc_sequence call\<rparr>) (st_db t)"
    using request_review_run [OF run] by auto
  have t: "tasks (st_db t) = tasks (st_db s)" "task_required_peers (st_db t) = task_required_peers (st_db s)"
    "peer_calls (st_db t) = peer_calls (st_db s) @ [call]" "peer_reviews (st_db t) = peer_reviews (st_db s)"
    using r(3) by (simp_all add: same_tasks_def)
  show "peers_ok (st_db t) \<and> reviews_sound (st_db t) \<and> review_history (st_db s) (st_db t)"
    using ok r(1,2) t by (auto simp: peers_ok_def reviews_sound_def review_history_def)
qed

lemma map_eq_member:
  assumes "map f xs = map f ys" and "x \<in> set xs"
  shows "\<exists>y \<in> set ys. f y = f x"
proof -
  have "f x \<in> set (map f xs)" using assms(2) by simp
  then show ?thesis unfolding assms(1) by auto
qed

lemma respond_call_core: "call_core (respond_call b r reviewed c) = call_core c"
  by (simp add: call_core_def respond_call_def)

lemma keeps_peers_submit: "keeps_peers (submit_review b ws args)"
  unfolding keeps_peers_def
proof (intro allI impI)
  fix s :: "'a task_db_scheme pstate" and row t
  assume run: "submit_review b ws args s = (Inr row, t)" and ok: "peers_ok (st_db s)" "reviews_sound (st_db s)"
  obtain r call where r: "fetch_one (call_is b (rs_request_id r)) (peer_calls (st_db s)) = Some call"
    "pc_recipient call = br_agent_id b" "row = new_review b r call (uuid_at s) (utc_at (tick s))"
    "\<forall>q \<in> set (peer_reviews (st_db s)). \<not> review_clash row q"
    "same_tasks ((st_db s)\<lparr>peer_reviews := peer_reviews (st_db s) @ [row],
        peer_calls := update_where (call_is b (rs_request_id r)) (respond_call b r (utc_at (tick s))) (peer_calls (st_db s))\<rparr>) (st_db t)"
    using submit_review_run [OF run] by blast
  let ?calls = "update_where (call_is b (rs_request_id r)) (respond_call b r (utc_at (tick s))) (peer_calls (st_db s))"
  have t: "tasks (st_db t) = tasks (st_db s)" "task_required_peers (st_db t) = task_required_peers (st_db s)"
    "peer_calls (st_db t) = ?calls" "peer_reviews (st_db t) = peer_reviews (st_db s) @ [row]"
    using r(5) by (simp_all add: same_tasks_def)
  have cores: "map call_core ?calls = map call_core (peer_calls (st_db s))"
    by (rule map_update_where) (simp add: respond_call_core)
  have "map pc_request_id ?calls = map (fst \<circ> snd \<circ> call_core) ?calls"
    "map pc_request_id (peer_calls (st_db s)) = map (fst \<circ> snd \<circ> call_core) (peer_calls (st_db s))"
    by (simp_all add: call_core_def)
  then have ids: "map pc_request_id ?calls = map pc_request_id (peer_calls (st_db s))"
    using cores by (simp only: map_map [symmetric])
  have still: "\<exists>c' \<in> set ?calls. call_core c' = call_core c" if "c \<in> set (peer_calls (st_db s))" for c
    by (rule map_eq_member [OF cores [symmetric] that])
  have was: "\<exists>c \<in> set (peer_calls (st_db s)). call_core c = call_core c'" if "c' \<in> set ?calls" for c'
    by (rule map_eq_member [OF cores that])
  have "answers row call" "call \<in> set (peer_calls (st_db s))"
    using fetch_one_SomeD [OF r(1)] r(2,3) by (auto simp: answers_def new_review_def call_is_def)
  then have old: "\<exists>c \<in> set (peer_calls (st_db s)). answers q c" if "q \<in> set (peer_reviews (st_db s) @ [row])" for q
    using ok(2) that by (auto simp: reviews_sound_def)
  have "\<forall>q \<in> set (peer_reviews (st_db s) @ [row]). \<exists>c \<in> set ?calls. answers q c"
    using old still answers_core by meson
  moreover have "\<forall>c \<in> set ?calls. pc_requester c \<noteq> pc_recipient c"
  proof
    fix c'
    assume "c' \<in> set ?calls"
    then obtain c where "c \<in> set (peer_calls (st_db s))" "call_core c = call_core c'" using was by blast
    then show "pc_requester c' \<noteq> pc_recipient c'" using ok(2) by (auto simp: reviews_sound_def call_core_def)
  qed
  moreover have "distinct (map (\<lambda>r. (rv_scope r, rv_request_id r, rv_reviewer r)) (peer_reviews (st_db s) @ [row]))"
    using ok(2) r(4) by (auto simp: reviews_sound_def review_clash_def)
  ultimately show "peers_ok (st_db t) \<and> reviews_sound (st_db t) \<and> review_history (st_db s) (st_db t)"
    using ok t ids still by (simp add: peers_ok_def reviews_sound_def review_history_def)
qed

section \<open>Steps\<close>

text \<open>One call of one bridge, whatever its outcome, or the clock moving on.\<close>

inductive task_step :: "'a proof_db_scheme pstate \<Rightarrow> 'a proof_db_scheme pstate \<Rightarrow> bool" where
  ts_claim: "task_step s (snd (claim_task b ws args s))"
| ts_renew: "task_step s (snd (renew_task b i tok ls s))"
| ts_release: "task_step s (snd (release_task b i tok status reason s))"
| ts_announce: "task_step s (snd (announce_work b ws i summary status paths tok s))"
| ts_request: "task_step s (snd (request_review b ws i recipient question paths tok s))"
| ts_submit: "task_step s (snd (submit_review b ws rargs s))"
| ts_record: "task_step s (snd (record_proof b dk ws pargs s))"
| ts_complete: "task_step s (snd (complete_task b dk ws ttl i tok s))"
| ts_workboard: "task_step s (snd (workboard b ttl all limit s))"
| ts_touch: "task_step s (snd (touch_presence b transport s))"
| ts_clear: "task_step s (snd (clear_presence b s))"
| ts_time: "later s t \<Longrightarrow> st_db t = st_db s \<Longrightarrow> task_step s t"

definition task_inv :: "'a proof_db_scheme pstate \<Rightarrow> bool" where
  "task_inv s \<longleftrightarrow> clock_monotone (st_world s) \<and> tasks_ok (st_db s) \<and> peers_ok (st_db s) \<and> reviews_sound (st_db s)
     \<and> exclusive_paths (time_at s) (st_db s)"

definition task_leads :: "'a proof_db_scheme pstate \<Rightarrow> 'a proof_db_scheme pstate \<Rightarrow> bool" where
  "task_leads s t \<longleftrightarrow> progresses (st_db s) (st_db t) \<and> review_history (st_db s) (st_db t)"

text \<open>What makes a call a good step.\<close>

definition good_call :: "('a proof_db_scheme, 'b) op \<Rightarrow> bool" where
  "good_call m \<longleftrightarrow> advances m \<and> keeps_peers m \<and> forward m \<and> atomic m"

lemma good_call_step:
  assumes "good_call m" and "task_inv s"
  shows "task_inv (snd (m s)) \<and> task_leads s (snd (m s))"
proof (cases "m s")
  case (Pair r t)
  have "forward m" using assms(1) by (simp add: good_call_def)
  then have "later s t" using Pair by (rule forwardD)
  then have clock: "clock_monotone (st_world t)" "time_at s \<le> time_at t"
    using assms(2) later_clock [of s t] by (auto simp: task_inv_def)
  show ?thesis
  proof (cases r)
    case (Inl e)
    then have "st_db t = st_db s" using assms(1) Pair atomicD by (auto simp: good_call_def)
    then show ?thesis
      using assms(2) clock exclusive_later Pair by (auto simp: task_inv_def task_leads_def progresses_same review_history_same)
  next
    case (Inr x)
    have "advance (time_at s) (time_at t) (st_db s) (st_db t)"
      using assms Pair Inr by (auto simp: good_call_def advances_def task_inv_def)
    moreover have "peers_ok (st_db t) \<and> reviews_sound (st_db t) \<and> review_history (st_db s) (st_db t)"
      using assms Pair Inr by (auto simp: good_call_def keeps_peers_def task_inv_def)
    ultimately show ?thesis
      using assms(2) clock Pair by (simp add: advance_def task_inv_def task_leads_def)
  qed
qed

lemma atomic_task_calls:
  "atomic (claim_task b ws args)" "atomic (renew_task b i tok ls)" "atomic (release_task b i tok status reason)"
  "atomic (announce_work b ws i summary status paths tok)" "atomic (request_review b ws i recipient question paths tok)"
  "atomic (submit_review b ws rargs)" "atomic (record_proof b dk ws pargs)" "atomic (complete_task b dk ws ttl i tok)"
  "atomic (workboard b ttl all limit)" "atomic (touch_presence b transport)" "atomic (clear_presence b)"
proof -
  show "atomic (claim_task b ws args)"
    by (auto simp: atomic_def claim_task_def Let_def tx_errs tx_simps)
  show "atomic (workboard b ttl all limit)"
  proof (unfold atomic_def, intro allI impI)
    fix s :: "'t task_db_scheme pstate" and e t
    assume "workboard b ttl all limit s = (Inl e, t)"
    then show "st_db t = st_db s"
      by (auto simp: workboard_def online_agents_def Let_def tx_errs tx_simps)
  qed
qed (auto simp: claim_task_def renew_task_def release_task_def announce_work_def request_review_def submit_review_def
      record_proof_def complete_task_def touch_presence_def clear_presence_def Let_def intro!: atomic_intros split: prod.splits)

lemma good_calls:
  "good_call (claim_task b ws args)" "good_call (renew_task b i tok ls)" "good_call (release_task b i tok status reason)"
  "good_call (announce_work b ws i summary status paths tok)" "good_call (request_review b ws i recipient question paths tok)"
  "good_call (submit_review b ws rargs)" "good_call (record_proof b dk ws pargs)" "good_call (complete_task b dk ws ttl i tok)"
  "good_call (workboard b ttl all limit)" "good_call (touch_presence b transport)" "good_call (clear_presence b)"
  unfolding good_call_def
  by (simp_all add: advances_claim advances_renew advances_release advances_announce advances_others advances_record_proof
      advances_complete advances_workboard keeps_peers_claim keeps_peers_leased keeps_peers_announce keeps_peers_request
      keeps_peers_submit keeps_peers_proofs keeps_peers_workboard keeps_peers_presence forward_task_calls forward_proof_calls
      atomic_task_calls)

lemma task_step_good:
  assumes "task_step s t" and "task_inv s"
  shows "task_inv t \<and> task_leads s t"
  using assms
proof (induction rule: task_step.induct)
  case (ts_time s t)
  then show ?case
    using later_clock [of s t] exclusive_later
    by (auto simp: task_inv_def task_leads_def progresses_same review_history_same)
qed (rule good_call_step [OF good_calls(1)] good_call_step [OF good_calls(2)] good_call_step [OF good_calls(3)]
    good_call_step [OF good_calls(4)] good_call_step [OF good_calls(5)] good_call_step [OF good_calls(6)]
    good_call_step [OF good_calls(7)] good_call_step [OF good_calls(8)] good_call_step [OF good_calls(9)]
    good_call_step [OF good_calls(10)] good_call_step [OF good_calls(11)]; assumption)+

interpretation board: call_history task_step task_inv task_leads
proof
  show "task_leads s t \<Longrightarrow> task_leads t u \<Longrightarrow> task_leads s u" for s t u :: "'a proof_db_scheme pstate"
    unfolding task_leads_def using progresses_trans review_history_trans by blast
qed (auto dest: task_step_good simp: task_leads_def progresses_same review_history_same)

definition task_history :: "'a proof_db_scheme pstate \<Rightarrow> 'a proof_db_scheme pstate \<Rightarrow> bool" where
  "task_history s t \<longleftrightarrow> task_inv s \<and> task_step\<^sup>*\<^sup>* s t"

lemma task_history_inv: "task_history s t \<Longrightarrow> task_inv t \<and> task_leads s t"
  using board.history by (auto simp: task_history_def)

lemma task_history_same_row:
  assumes "task_history s t" and "r \<in> set (tasks (st_db s))"
  shows "\<exists>q \<in> set (tasks (st_db t)). task_progress r q"
  using task_history_inv [OF assms(1)] assms(2) by (auto simp: task_leads_def progresses_def)

text \<open>The store before the first call.\<close>

definition task_init :: proof_db where
  "task_init = \<lparr>events = [], event_seq = 0, scope_storage_usage = [], tasks = [], task_required_peers = [], task_paths = [],
     work_updates = [], peer_calls = [], peer_call_seq = 0, peer_reviews = [], agent_presence = [], integration_records = []\<rparr>"

lemma task_init_inv: "clock_monotone w \<Longrightarrow> st_world s = w \<Longrightarrow> st_db s = task_init \<Longrightarrow> task_inv s"
  by (simp add: task_inv_def task_init_def tasks_ok_def peers_ok_def reviews_sound_def exclusive_paths_def)

end
