(* ===== verification/TaskProperties.thy ===== *)
theory TaskProperties
  imports TaskHistory
begin

text \<open>
  The properties of tasks, reviews and proofs, over the calls of \<open>bridge.py\<close> as they are written, with
  instances on concrete data.
\<close>

section \<open>Example data\<close>

text \<open>A writer and a reviewer of one scope, a third agent in another scope of the same project.\<close>

definition demo_peer :: bridge where
  "demo_peer = demo_bridge\<lparr>br_agent_id := ''peer'', br_session_id := ''s2''\<rparr>"

definition demo_space :: workspace where
  "demo_space = \<lparr>ws_resolve = (\<lambda>p. Some p), ws_protected = [''.git''], ws_file = (\<lambda>p. Some ''text'')\<rparr>"

definition demo_task :: task_row where
  "demo_task = \<lparr>tk_scope = ''team'', tk_task_id = ''T1'', tk_workspace_root_key = ''/w'', tk_summary = ''fix'', tk_owner = None,
     tk_status = Task_Claimed, tk_claimed_by = Some ''lead'', tk_claimed_session_id = Some ''s1'',
     tk_lease_token_sha256 = Some ''3'', tk_lease_expires_epoch = Some 900, tk_claimed_utc = Some ''u'', tk_created_utc = ''u'',
     tk_updated_utc = ''u'', tk_task_sha256 = ''77'', tk_task_revision = 2, tk_approval_mode = Two_Party_Required,
     tk_required_peer = Some ''peer'', tk_review_quorum = 1\<rparr>"

definition demo_other :: task_row where
  "demo_other = demo_task\<lparr>tk_scope := ''crew'', tk_claimed_by := Some ''third'', tk_approval_mode := Solo_Allowed,
     tk_required_peer := None, tk_task_sha256 := ''78''\<rparr>"

definition demo_path :: "string \<Rightarrow> string \<Rightarrow> path_row" where
  "demo_path sc p = \<lparr>pa_scope = sc, pa_task_id = ''T1'', pa_write = True, pa_path_prefix = p, pa_created_utc = ''u''\<rparr>"

definition demo_call :: call_row where
  "demo_call = \<lparr>pc_sequence = 1, pc_request_id = ''r1'', pc_scope = ''team'', pc_task_id = ''T1'', pc_requester = ''lead'',
     pc_recipient = ''peer'', pc_question = ''ok?'', pc_artifact_paths_json = ''[]'', pc_request_utc = ''u'',
     pc_request_sha256 = ''9'', pc_task_revision = 2, pc_task_sha256 = ''77'', pc_status = ''open'',
     pc_approval_mode = Two_Party_Required, pc_response = None, pc_response_artifact_paths_json = None,
     pc_response_utc = None, pc_response_sha256 = None\<rparr>"

definition demo_review :: review_row where
  "demo_review = \<lparr>rv_review_id = ''v1'', rv_scope = ''team'', rv_request_id = ''r1'', rv_task_id = ''T1'', rv_reviewer = ''peer'',
     rv_verdict = Approved, rv_score = 90, rv_findings = ''none'', rv_artifact_paths_json = ''[]'', rv_review_utc = ''u'',
     rv_review_sha256 = ''9'', rv_task_revision = 2, rv_task_sha256 = ''77''\<rparr>"

definition demo_proof :: proof_row where
  "demo_proof = \<lparr>ir_record_id = ''p1'', ir_scope = ''team'', ir_task_id = ''T1'', ir_actor = ''lead'', ir_change_summary = ''fix'',
     ir_changed_paths_json = ''['' @ json_quote ''src/a'' @ '']'',
     ir_before_hashes_json = json_spaced (JObj [(''src/a'', JNull)]),
     ir_after_hashes_json = json_spaced (JObj [(''src/a'', JStr ''4'')]), ir_tests = ''ran'',
     ir_evidence_paths_json = json_spaced (JObj [(''paths'', JList []), (''hashes'', JObj [])]),
     ir_approval_mode = Two_Party_Required, ir_review_ids_json = ''[]'', ir_recorded_utc = ''u'', ir_record_sha256 = ''9''\<rparr>"

definition demo_store :: proof_db where
  "demo_store = task_init\<lparr>tasks := [demo_task, demo_other],
     task_required_peers := [\<lparr>tp_scope = ''team'', tp_task_id = ''T1'', tp_peer_id = ''peer''\<rparr>],
     task_paths := [demo_path ''team'' ''src/a'', demo_path ''crew'' ''src/ab''],
     peer_calls := [demo_call], peer_call_seq := 1, peer_reviews := [demo_review], integration_records := [demo_proof]\<rparr>"

definition demo_board :: "proof_db pstate" where
  "demo_board = \<lparr>st_db = demo_store, st_world = demo_world\<rparr>"

definition demo_disk :: disk where
  "demo_disk = \<lparr>dk_stat = (\<lambda>n p. Some \<lparr>fs_size = 4, fs_mtime_ns = 7\<rparr>), dk_chunks = (\<lambda>n p. [''te'', ''xt''])\<rparr>"

lemma demo_clock: "clock_monotone demo_world"
  by (simp add: clock_monotone_def demo_world_def mono_def)

lemma demo_rows:
  "task_row_ok demo_task" "task_row_ok demo_other" "task_key demo_task = (''team'', ''T1'')" "task_key demo_other = (''crew'', ''T1'')"
  by (simp_all add: task_row_ok_def task_key_def demo_task_def demo_other_def)

lemma demo_apart: "\<not> compete (task_paths demo_store) demo_task demo_other" "\<not> compete (task_paths demo_store) demo_other demo_task"
proof -
  have "\<not> path_overlaps ''src/a'' ''src/ab''" by code_simp
  then show "\<not> compete (task_paths demo_store) demo_task demo_other"
    by (simp add: compete_def paths_of_def demo_store_def demo_path_def demo_task_def demo_other_def)
  then show "\<not> compete (task_paths demo_store) demo_other demo_task" using compete_sym by blast
qed

lemma demo_board_inv: "task_inv demo_board"
proof -
  have "tasks_ok demo_store"
    using demo_rows by (auto simp: tasks_ok_def demo_store_def path_key_def demo_path_def)
  moreover have "peers_ok demo_store"
    by (simp add: peers_ok_def demo_store_def peer_of_def demo_task_def demo_other_def)
  moreover have "reviews_sound demo_store"
    by (simp add: reviews_sound_def demo_store_def demo_call_def demo_review_def answers_def)
  moreover have "exclusive_paths n demo_store" for n
    using demo_apart by (auto simp: exclusive_paths_def) (auto simp: demo_store_def)
  ultimately show ?thesis by (simp add: task_inv_def demo_board_def demo_clock)
qed

lemma demo_history: "task_history demo_board demo_board"
  by (simp add: task_history_def demo_board_inv)

section \<open>Leases\<close>

text \<open>C3: path exclusion. However the calls of all agents interleave, while the clock does not run
  backwards, two tasks of one project that hold live leases have no overlapping paths, unless both
  paths are only read; scopes do not matter.\<close>

theorem path_leases_exclusive:
  assumes "task_history s t" and "r \<in> set (tasks (st_db t))" and "q \<in> set (tasks (st_db t))" and "task_key r \<noteq> task_key q"
    and "tk_workspace_root_key r = tk_workspace_root_key q" and "live_at (time_at t) r" and "live_at (time_at t) q"
    and "x \<in> set (paths_of r (task_paths (st_db t)))" and "y \<in> set (paths_of q (task_paths (st_db t)))"
    and "pa_write x \<or> pa_write y"
  shows "\<not> path_overlaps (pa_path_prefix x) (pa_path_prefix y)"
proof -
  have "exclusive_paths (time_at t) (st_db t)" using task_history_inv [OF assms(1)] by (simp add: task_inv_def)
  then show ?thesis using assms(2-) unfolding exclusive_paths_def compete_def by blast
qed

theorem path_leases_exclusive_witness: "\<not> path_overlaps ''src/a'' ''src/ab''"
proof -
  have "demo_path ''team'' ''src/a'' \<in> set (paths_of demo_task (task_paths demo_store))"
    "demo_path ''crew'' ''src/ab'' \<in> set (paths_of demo_other (task_paths demo_store))"
    "live_at 100 demo_task" "live_at 100 demo_other"
    by (simp_all add: demo_store_def paths_of_def demo_path_def demo_task_def demo_other_def live_at_def)
  then show ?thesis
    using path_leases_exclusive [OF demo_history, of demo_task demo_other "demo_path ''team'' ''src/a''" "demo_path ''crew'' ''src/ab''"]
      demo_rows(3,4)
    by (simp add: demo_board_def demo_world_def demo_store_def) (simp add: demo_path_def demo_task_def demo_other_def)
qed

lemma claim_db_new_row:
  assumes "existing = fetch_one (task_is b (cs_task_id c)) (tasks d)"
  shows "\<exists>created. claimed_task b c l (next_revision existing (nl_task_sha256 l)) created \<in> set (tasks (claim_db b c l existing d))"
proof (cases existing)
  case (Some r)
  then have "r \<in> set (tasks d)" "task_is b (cs_task_id c) r" using fetch_task assms by metis+
  then show ?thesis by (auto simp: claim_db_simps Some set_update_where)
qed (auto simp: claim_db_simps)

lemma claim_db_new_paths:
  assumes "tasks_ok d" and "existing = fetch_one (task_is b (cs_task_id c)) (tasks d)" and "task_key r = (br_scope b, cs_task_id c)"
  shows "(\<lambda>p. (pa_write p, pa_path_prefix p)) ` set (paths_of r (task_paths (claim_db b c l existing d))) = set (requested_paths c)"
proof
  show "(\<lambda>p. (pa_write p, pa_path_prefix p)) ` set (paths_of r (task_paths (claim_db b c l existing d))) \<subseteq> set (requested_paths c)"
    using claim_db_own_path [OF _ assms(3,1,2)] by blast
  show "set (requested_paths c) \<subseteq> (\<lambda>p. (pa_write p, pa_path_prefix p)) ` set (paths_of r (task_paths (claim_db b c l existing d)))"
  proof
    fix x
    assume x: "x \<in> set (requested_paths c)"
    let ?p = "\<lparr>pa_scope = br_scope b, pa_task_id = cs_task_id c, pa_write = fst x, pa_path_prefix = snd x, pa_created_utc = nl_now l\<rparr>"
    have "?p \<in> set (paths_of r (task_paths (claim_db b c l existing d)))"
      using x assms(3) by (force simp: paths_of_def claim_db_simps task_key_def)
    then show "x \<in> (\<lambda>p. (pa_write p, pa_path_prefix p)) ` set (paths_of r (task_paths (claim_db b c l existing d)))"
      by (rule rev_image_eqI) simp
  qed
qed

text \<open>a granted claim stores exactly the validated request: the task is claimed by the caller's session
  until the granted instant, only the digest of the returned token is stored, the content is bound to
  the task by its digest, and the paths of the task are those of the request, no others.\<close>

theorem claim_grants_lease:
  assumes "claim_task b ws args s = (Inr g, t)" and "tasks_ok (st_db s)"
  shows "\<exists>r \<in> set (tasks (st_db t)). validate_claim b ws args = Inr (cg_spec g)
    \<and> task_key r = (br_scope b, cs_task_id (cg_spec g)) \<and> tk_status r = Task_Claimed
    \<and> tk_claimed_by r = Some (br_agent_id b) \<and> tk_claimed_session_id r = Some (br_session_id b)
    \<and> tk_lease_token_sha256 r = Some (sha256_text (br_sha256 b) (cg_lease_token g))
    \<and> tk_lease_expires_epoch r = Some (time_at (tick s) + cs_lease_seconds (cg_spec g))
    \<and> tk_task_sha256 r = stable_sha256 (br_sha256 b) (task_content b (cg_spec g)) \<and> tk_task_revision r = cg_task_revision g
    \<and> (\<lambda>p. (pa_write p, pa_path_prefix p)) ` set (paths_of r (task_paths (st_db t))) = set (requested_paths (cg_spec g))"
proof -
  obtain c l existing and u :: "'a task_db_scheme pstate" where c: "validate_claim b ws args = Inr c"
    "l = claim_lease b c (utc_at s) (time_at (tick s)) (token_at (tick (tick s)))"
    "expire_leases b (tick (tick (tick s))) = (Inr (), u)" "claim_allowed b c (time_at (tick s)) existing (st_db u)"
    "same_tasks (claim_db b c l existing (st_db u)) (st_db t)" "cg_lease_token g = nl_token l" "cg_spec g = c"
    "cg_task_revision g = next_revision existing (nl_task_sha256 l)"
    using claim_task_run [OF assms(1)] by metis
  have existing: "existing = fetch_one (task_is b (cs_task_id c)) (tasks (st_db u))" using c(4) by (simp add: claim_allowed_def)
  have ok: "tasks_ok (st_db u)" using expire_leases_advance [OF c(3)] assms(2) by (simp add: advance_def)
  obtain created where r: "claimed_task b c l (next_revision existing (nl_task_sha256 l)) created
      \<in> set (tasks (claim_db b c l existing (st_db u)))" (is "?r \<in> _")
    using claim_db_new_row [OF existing] by blast
  have t: "tasks (st_db t) = tasks (claim_db b c l existing (st_db u))"
    "task_paths (st_db t) = task_paths (claim_db b c l existing (st_db u))"
    using c(5) by (simp_all add: same_tasks_def)
  have key: "task_key ?r = (br_scope b, cs_task_id c)" by (rule claimed_task_simps)
  have row: "tk_status ?r = Task_Claimed" "tk_claimed_by ?r = Some (br_agent_id b)"
    "tk_claimed_session_id ?r = Some (br_session_id b)"
    "tk_lease_token_sha256 ?r = Some (sha256_text (br_sha256 b) (cg_lease_token g))"
    "tk_lease_expires_epoch ?r = Some (time_at (tick s) + cs_lease_seconds c)"
    "tk_task_sha256 ?r = stable_sha256 (br_sha256 b) (task_content b c)" "tk_task_revision ?r = cg_task_revision g"
    by (simp_all add: claimed_task_def c(2,6,8)) (simp_all add: claim_lease_def)
  show ?thesis
    unfolding t c(7) by (rule bexI [OF _ r]) (simp only: c(1) key row claim_db_new_paths [OF ok existing key])
qed

definition demo_claim :: claim_args where
  "demo_claim = \<lparr>ca_task_id = ''T2'', ca_summary = ''more'', ca_read_paths = [''src/a''], ca_write_paths = [''doc''],
     ca_lease_seconds = Some 60, ca_approval_mode = Some ''solo_allowed'', ca_required_peer = None, ca_required_peers = [],
     ca_review_quorum = None, ca_owner = None\<rparr>"

definition demo_empty_board :: "proof_db pstate" where
  "demo_empty_board = \<lparr>st_db = task_init, st_world = demo_world\<rparr>"

definition demo_spec :: claim_spec where
  "demo_spec = \<lparr>cs_task_id = ''T2'', cs_summary = ''more'', cs_read_paths = [''src/a''], cs_write_paths = [''doc''],
     cs_lease_seconds = 60, cs_approval_mode = Solo_Allowed, cs_required_peer = None, cs_required_peers = [],
     cs_review_quorum = 1, cs_owner = None\<rparr>"

definition demo_lease :: new_lease where
  "demo_lease = \<lparr>nl_now = ''2026-01-01T00:00:00Z'', nl_token = ''tok-2'', nl_expires = 161, nl_task_sha256 = ''222''\<rparr>"

lemma demo_spec_valid: "validate_claim demo_peer demo_space demo_claim = Inr demo_spec"
  by code_simp

lemma demo_claim_lease: "claim_lease demo_peer demo_spec ''2026-01-01T00:00:00Z'' 101 ''tok-2'' = demo_lease"
  by code_simp

definition demo_claimed :: "proof_db pstate" where
  "demo_claimed = (tick (tick (tick (tick demo_empty_board))))\<lparr>st_db := claim_db demo_peer demo_spec demo_lease None task_init\<rparr>"

lemma demo_claim_event:
  "succeeds (event_op demo_peer ''task.claimed'' (claim_event demo_spec demo_lease 1) (Some ''T2'')) demo_claimed"
  by code_simp

lemma demo_claim_succeeds: "succeeds (claim_task demo_peer demo_space demo_claim) demo_empty_board"
proof -
  have world: "utc_at demo_empty_board = ''2026-01-01T00:00:00Z''" "time_at (tick demo_empty_board) = 101"
    "token_at (tick (tick demo_empty_board)) = ''tok-2''" "st_db demo_empty_board = task_init"
    by code_simp+
  have e: "expire_leases demo_peer (tick (tick (tick demo_empty_board))) = (Inr (), tick (tick (tick (tick demo_empty_board))))"
    by (simp add: expire_leases_def tx_simps world task_init_def)
  have a: "claim_allowed demo_peer demo_spec 101 None task_init"
    by (simp add: claim_allowed_def task_init_def fetch_one_def active_paths_def path_conflicts_def)
  have n: "int (length (active_paths (br_workspace_root_key demo_peer) 101 task_init)) \<le> MAX_ACTIVE_TASK_PATH_ROWS"
    by (simp add: task_init_def active_paths_def MAX_ACTIVE_TASK_PATH_ROWS_def)
  have r: "next_revision None (nl_task_sha256 demo_lease) = 1" "cs_task_id demo_spec = ''T2''"
    by (simp_all add: next_revision_def demo_spec_def)
  from claim_task_granted [OF demo_spec_valid, of demo_lease demo_empty_board, OF _ e, of None]
  show ?thesis
    using succeeds_run [OF demo_claim_event] a n r by (simp add: world demo_claim_lease demo_claimed_def succeeds_def)
qed

lemma demo_empty_ok: "tasks_ok (st_db demo_empty_board)"
  by (simp add: demo_empty_board_def task_init_def tasks_ok_def)

theorem claim_grants_lease_witness:
  "\<exists>r \<in> set (tasks (st_db (after (claim_task demo_peer demo_space demo_claim) demo_empty_board))).
     tk_claimed_by r = Some ''peer'' \<and> tk_claimed_session_id r = Some ''s2'' \<and> tk_status r = Task_Claimed"
proof -
  note run = succeeds_run [OF demo_claim_succeeds]
  from claim_grants_lease [OF run demo_empty_ok] show ?thesis
    by (auto simp: demo_peer_def)
qed

lemma expire_keeps_live:
  fixes s :: "'a task_db_scheme pstate"
  assumes run: "expire_leases b s = (Inr x, t)" and ok: "tasks_ok (st_db s)" and r: "r \<in> set (tasks (st_db s))"
    and live: "live_at (time_at s) r"
  shows "r \<in> set (tasks (st_db t)) \<and> task_paths (st_db t) = task_paths (st_db s)"
proof -
  let ?rows = "filter (expired_task b (time_at s)) (tasks (st_db s))"
  define J where "J xs d \<longleftrightarrow> r \<in> set (tasks d) \<and> task_paths d = task_paths (st_db s) \<and> (\<forall>x \<in> set xs. \<not> task_is b (tk_task_id x) r)" for xs :: "task_row list" and d :: "'a task_db_scheme"
  obtain ys where loop: "tx_for (expire_lease b) ?rows (tick s) = (Inr ys, t)"
    using run by (auto simp: expire_leases_def tx_simps)
  have start: "J ?rows (st_db (tick s))"
    unfolding J_def
  proof (intro conjI ballI)
    fix q
    assume q: "q \<in> set ?rows"
    have "r \<noteq> q" using q live by (auto simp: expired_task_def live_at_def split: option.splits)
    then have "task_key r \<noteq> task_key q"
      using ok r q distinct_key_eq [of task_key "tasks (st_db s)" r q] by (auto simp: tasks_ok_def)
    then show "\<not> task_is b (tk_task_id q) r"
      using q by (auto simp: task_is_key expired_task_def task_key_def)
  qed (use r in simp_all)
  from loop have "J [] (st_db t)"
  proof (rule tx_for_rule [where J = J])
    show "J ?rows (st_db (tick s))" by (rule start)
  next
    fix q xs and u :: "'a task_db_scheme pstate" and a v
    assume J: "J (q # xs) (st_db u)" and one: "expire_lease b q u = (Inr a, v)"
    obtain now and w :: "'a task_db_scheme pstate" where w: "st_db w = (st_db u)\<lparr>tasks := update_where (task_is b (tk_task_id q))
        (unclaimed Task_Open now) (tasks (st_db u))\<rparr>" "same_tasks (st_db w) (st_db v)"
      using expire_lease_run [OF one] by blast
    then have "tasks (st_db v) = update_where (task_is b (tk_task_id q)) (unclaimed Task_Open now) (tasks (st_db u))"
      "task_paths (st_db v) = task_paths (st_db u)"
      by (simp_all add: same_tasks_def)
    then show "J xs (st_db v)" using J by (auto simp: J_def set_update_where)
  qed
  then show ?thesis by (simp add: J_def)
qed

text \<open>a claim is refused while another live lease of the project, in whatever scope, holds an
  overlapping path that one of the two writes; the database stays as it was.\<close>

theorem claim_conflict_refused:
  assumes "tasks_ok (st_db s)" and "clock_monotone (st_world s)" and "validate_claim b ws args = Inr c"
    and "r \<in> set (tasks (st_db s))" and "live_at (time_at (tick (tick (tick s)))) r"
    and "tk_workspace_root_key r = br_workspace_root_key b" and "task_key r \<noteq> (br_scope b, cs_task_id c)"
    and "p \<in> set (paths_of r (task_paths (st_db s)))" and "(write, path) \<in> set (requested_paths c)"
    and "write \<or> pa_write p" and "path_overlaps path (pa_path_prefix p)"
  shows "\<exists>e t. claim_task b ws args s = (Inl e, t) \<and> st_db t = st_db s"
proof (cases "claim_task b ws args s")
  case (Pair res t)
  show ?thesis
  proof (cases res)
    case (Inl e)
    then show ?thesis using Pair atomicD [OF atomic_task_calls(1)] by blast
  next
    case (Inr g)
    obtain existing and u :: "'a task_db_scheme pstate" where u: "expire_leases b (tick (tick (tick s))) = (Inr (), u)"
      "claim_allowed b c (time_at (tick s)) existing (st_db u)"
      using claim_task_run [OF Pair [unfolded Inr]] assms(3) by (metis sum.inject(2))
    have kept: "r \<in> set (tasks (st_db u))" "task_paths (st_db u) = task_paths (st_db s)"
      using expire_keeps_live [OF u(1)] assms(1,4,5) by simp_all
    have "time_at (tick s) \<le> time_at (tick (tick (tick s)))"
      using tick_clock [OF assms(2)] tick_clock [of "tick s"] tick_clock [of "tick (tick s)"] by auto
    then have "live_at (time_at (tick s)) r" using assms(5) live_at_mono by blast
    then have "(r, p) \<in> set (active_paths (br_workspace_root_key b) (time_at (tick s)) (st_db u))"
      using kept assms(6,8) by (auto simp: active_paths_def live_task_iff)
    moreover have "conflicts_with b (cs_task_id c) (write, path) (r, p)"
      using assms(7,10,11) by (auto simp: conflicts_with_def task_key_def)
    ultimately have "((write, path), (r, p)) \<in> set (path_conflicts b (cs_task_id c) (requested_paths c)
        (active_paths (br_workspace_root_key b) (time_at (tick s)) (st_db u)))"
      using assms(9) by (fastforce simp: path_conflicts_def)
    then show ?thesis using u(2) by (simp add: claim_allowed_def)
  qed
qed

theorem claim_conflict_refused_witness: "\<exists>e t. claim_task demo_peer demo_space demo_claim demo_board = (Inl e, t)"
proof -
  have world: "st_db demo_board = demo_store" "st_world demo_board = demo_world" "time_at (tick (tick (tick demo_board))) = 103"
    by (simp_all add: demo_board_def tick_def demo_world_def)
  have facts: "tasks_ok demo_store" "clock_monotone demo_world" "demo_task \<in> set (tasks demo_store)" "live_at 103 demo_task"
    "tk_workspace_root_key demo_task = br_workspace_root_key demo_peer" "task_key demo_task \<noteq> (br_scope demo_peer, cs_task_id demo_spec)"
    "demo_path ''team'' ''src/a'' \<in> set (paths_of demo_task (task_paths demo_store))"
    "(False, ''src/a'') \<in> set (requested_paths demo_spec)" "pa_write (demo_path ''team'' ''src/a'')"
    using demo_board_inv demo_clock demo_rows
    by (simp_all add: task_inv_def demo_board_def demo_store_def live_at_def demo_task_def demo_peer_def demo_bridge_def
        demo_spec_def paths_of_def demo_path_def requested_paths_def)
  have "path_overlaps ''src/a'' (pa_path_prefix (demo_path ''team'' ''src/a''))" by code_simp
  then show ?thesis
    using claim_conflict_refused [OF _ _ demo_spec_valid, of demo_board demo_task "demo_path ''team'' ''src/a''" False "''src/a''"]
      facts world by auto
qed

lemma clean_paths_ok:
  assumes "clean_task_paths ws write values = Inr clean"
  shows "sorted clean \<and> distinct clean \<and> length clean \<le> 100 \<and> (write \<longrightarrow> (\<forall>p \<in> set clean. \<not> is_protected ws p))"
proof -
  obtain raw where raw: "length values \<le> 100" "res_map (clean_task_path ws write) values = Inr raw" "clean = sort (remdups raw)"
    using assms by (auto simp: clean_task_paths_def MAX_TASK_PATHS_def tx_simps)
  have all2: "list_all2 (\<lambda>v p. clean_task_path ws write v = Inr p) values raw" using raw(2) by (simp add: res_map_Inr)
  have "write \<longrightarrow> \<not> is_protected ws p" if m: "p \<in> set raw" for p
  proof -
    obtain k where "k < length raw" "p = raw ! k" using m by (auto simp: in_set_conv_nth)
    then have "clean_task_path ws write (values ! k) = Inr p"
      using list_all2_nthD2 [OF all2] by simp
    then show ?thesis by (auto simp: clean_task_path_def tx_simps)
  qed
  moreover have "length (remdups raw) \<le> 100"
    using raw(1) list_all2_lengthD [OF all2] length_remdups_leq [of raw] by linarith
  ultimately show ?thesis using raw(3) by simp
qed

text \<open>what validation lets through. The scopes of a valid claim are sorted, without duplicates and at
  most a hundred each, no write scope covers or lies in a protected or sensitive path, the lease lasts
  between thirty seconds and a day, and the claimant is none of its own required peers.\<close>

theorem valid_claim_bounds:
  assumes "validate_claim b ws args = Inr c"
  shows "sorted (cs_read_paths c) \<and> distinct (cs_read_paths c) \<and> length (cs_read_paths c) \<le> 100
    \<and> sorted (cs_write_paths c) \<and> distinct (cs_write_paths c) \<and> length (cs_write_paths c) \<le> 100
    \<and> (\<forall>p \<in> set (cs_write_paths c). \<not> is_protected ws p) \<and> 30 \<le> cs_lease_seconds c \<and> cs_lease_seconds c \<le> 86400
    \<and> cs_required_peer c \<noteq> Some (br_agent_id b) \<and> br_agent_id b \<notin> set (cs_required_peers c)
    \<and> (cs_required_peers c \<noteq> [] \<longrightarrow> cs_review_quorum c \<le> int (length (cs_required_peers c)))"
proof -
  obtain p qs where c: "clean_task_paths ws False (ca_read_paths args) = Inr (cs_read_paths c)"
    "clean_task_paths ws True (ca_write_paths args) = Inr (cs_write_paths c)" "cs_lease_seconds c = bounded_lease (ca_lease_seconds args)"
    "cs_required_peers c \<noteq> [] \<longrightarrow> cs_review_quorum c \<le> int (length (cs_required_peers c))"
    using assms by (auto simp: validate_claim_def tx_simps Let_def)
  have "30 \<le> bounded_lease v \<and> bounded_lease v \<le> 86400" for v
    by (simp add: bounded_lease_def MAX_LEASE_SECONDS_def)
  then show ?thesis
    using clean_paths_ok [OF c(1)] clean_paths_ok [OF c(2)] c(3,4) validate_claim_peers [OF assms] by simp
qed

theorem valid_claim_bounds_witness: "\<not> is_protected demo_space (hd (cs_write_paths demo_spec))"
  using valid_claim_bounds [OF demo_spec_valid] by (simp add: demo_spec_def)

section \<open>Fencing\<close>

text \<open>C4: fencing. Whatever changes a leased task is done by the session that holds its live lease and by
  presenting the lease token: renewing, releasing, announcing, asking for a review, recording a proof
  and completing all fail otherwise.\<close>

theorem task_calls_are_fenced:
  fixes s t :: "'a proof_db_scheme pstate"
  assumes "clock_monotone (st_world s)"
    and "renew_task b i tok ls s = (Inr e, t) \<or> release_task b i tok status reason s = (Inr st, t)
      \<or> announce_work b ws i summary wstatus paths tok s = (Inr w, t)
      \<or> request_review b ws i recipient question paths tok s = (Inr call, t)
      \<or> record_proof b dk ws pargs s = (Inr row, t) \<and> i = pa_arg_task_id pargs \<and> tok = pa_arg_lease_token pargs
      \<or> complete_task b dk ws ttl i tok s = (Inr cm, t)"
  shows "\<exists>r \<in> set (tasks (st_db s)). task_key r = (br_scope b, py_strip i) \<and> holds_lease b tok (time_at s) r"
proof -
  have two: "time_at s \<le> time_at (tick (tick s))" using tick_clock [OF assms(1)] tick_clock [of "tick s"] by auto
  have earlier: "holds_lease b tok n r \<Longrightarrow> time_at s \<le> n \<Longrightarrow> holds_lease b tok (time_at s) r" for n r
    by (auto simp: holds_lease_def)
  have fetched: ?thesis if "fetch_one (task_is b (py_strip i)) (tasks (st_db s)) = Some r" "holds_lease b tok n r" "time_at s \<le> n" for r n
    using fetch_task [OF that(1)] earlier [OF that(2,3)] by (auto simp: task_is_key)
  have change: ?thesis if "lease_change b (py_strip i) tok f n d d'" "tasks d = tasks (st_db s)" "time_at s \<le> n" for f n and d d' :: "'a proof_db_scheme"
    using that fetched by (auto simp: lease_change_def)
  show ?thesis
    using assms(2)
  proof (elim disjE conjE)
    assume "record_proof b dk ws pargs s = (Inr row, t)" and args: "i = pa_arg_task_id pargs" "tok = pa_arg_lease_token pargs"
    then obtain p hashed and v :: "'a proof_db_scheme pstate" where p: "validate_proof b ws pargs = Inr p" "st_db v = st_db s" "later s v"
      "record_proof_tx b dk ws p (pa_arg_lease_token pargs) hashed v = (Inr row, t)"
      using record_proof_run by metis
    have "ps_task_id p = py_strip i" using p(1) args by (auto simp: validate_proof_def tx_simps require_identifier_Inr)
    then show ?thesis
      using record_proof_tx_run [OF p(4)] p(2) args later_clock [OF p(3) assms(1)] fetched by auto
  next
    assume "announce_work b ws i summary wstatus paths tok s = (Inr w, t)"
    from announce_work_run [OF this] show ?thesis using change two by blast
  next
    assume run: "complete_task b dk ws ttl i tok s = (Inr cm, t)"
    obtain task where "fetch_one (task_is b (py_strip i)) (tasks (st_db s)) = Some task" "holds_lease b tok (time_at s) task"
      by (rule complete_task_run [OF run]) blast
    then show ?thesis using fetched by blast
  qed (use fetched change in \<open>auto dest!: renew_task_run release_task_run request_review_run\<close>)
qed

text \<open>The holder of a live lease is let through, and renewing succeeds when the event can be stored.\<close>

lemma require_lease_held:
  assumes "fetch_one (task_is b i) (tasks (st_db s)) = Some row" and "holds_lease b tok (time_at s) row"
  shows "require_lease b i tok s = (Inr row, tick s)"
  using assms by (auto simp: require_lease_def Let_def tx_simps check_lease_Inr holds_lease_def)

lemma renew_task_granted:
  assumes "require_identifier i ''task_id'' = Inr j" and "require_lease b j tok s = (Inr row, u)"
    and "e = time_at u + bounded_lease ls"
    and "event_op b ''task.lease_renewed'' [(''lease_seconds'', JInt (bounded_lease ls)), (''lease_expires_epoch'', json_epoch e)]
      (Some j) ((tick (tick u))\<lparr>st_db := (st_db u)\<lparr>tasks := update_where (task_is b j)
        (\<lambda>r. r\<lparr>tk_lease_expires_epoch := Some e, tk_updated_utc := utc_at (tick u)\<rparr>) (tasks (st_db u))\<rparr>\<rparr>) = (Inr y, t)"
  shows "renew_task b i tok ls s = (Inr e, t)"
  using assms by (simp add: renew_task_def tx_simps Let_def)

lemma demo_held: "fetch_one (task_is demo_bridge ''T1'') (tasks demo_store) = Some demo_task"
    "holds_lease demo_bridge (Some ''tok'') 100 demo_task"
proof -
  have "sha256_text demo_sha ''tok'' = ''3''" by code_simp
  then show "holds_lease demo_bridge (Some ''tok'') 100 demo_task"
    by (simp add: holds_lease_def demo_task_def demo_bridge_def token_or_empty_def)
qed (simp add: demo_store_def fetch_one_def task_is_def demo_task_def demo_bridge_def)

lemma demo_lease_passed: "require_lease demo_bridge ''T1'' (Some ''tok'') demo_board = (Inr demo_task, tick demo_board)"
  by (rule require_lease_held) (use demo_held in \<open>simp_all add: demo_board_def demo_world_def\<close>)

definition demo_renewed :: "proof_db pstate" where
  "demo_renewed = (tick (tick (tick demo_board)))\<lparr>st_db := demo_store\<lparr>tasks := update_where (task_is demo_bridge ''T1'')
     (\<lambda>r. r\<lparr>tk_lease_expires_epoch := Some 1001, tk_updated_utc := ''2026-01-01T00:00:00Z''\<rparr>) (tasks demo_store)\<rparr>\<rparr>"

lemma demo_renew_event: "succeeds (event_op demo_bridge ''task.lease_renewed''
    [(''lease_seconds'', JInt 900), (''lease_expires_epoch'', json_epoch 1001)] (Some ''T1'')) demo_renewed"
  by code_simp

lemma demo_renews: "\<exists>t. renew_task demo_bridge ''T1'' (Some ''tok'') None demo_board = (Inr 1001, t)"
proof -
  have "require_identifier ''T1'' ''task_id'' = Inr ''T1''" "bounded_lease None = 900" by code_simp+
  moreover have "time_at (tick demo_board) = 101" "utc_at (tick (tick demo_board)) = ''2026-01-01T00:00:00Z''"
    "st_db (tick demo_board) = demo_store"
    by (simp_all add: demo_board_def demo_world_def tick_def)
  ultimately show ?thesis
    using renew_task_granted [OF _ demo_lease_passed, of "''T1''" 1001 None] succeeds_run [OF demo_renew_event]
    by (fastforce simp: demo_renewed_def)
qed

theorem task_calls_are_fenced_witness:
  "\<exists>r \<in> set (tasks demo_store). task_key r = (''team'', ''T1'') \<and> holds_lease demo_bridge (Some ''tok'') 100 r"
proof -
  have world: "st_db demo_board = demo_store" "clock_monotone (st_world demo_board)" "time_at demo_board = 100"
    using demo_clock by (simp_all add: demo_board_def) (simp add: demo_world_def)
  have id: "(br_scope demo_bridge, py_strip ''T1'') = (''team'', ''T1'')" by code_simp
  obtain t where "renew_task demo_bridge ''T1'' (Some ''tok'') None demo_board = (Inr 1001, t)" using demo_renews by blast
  from task_calls_are_fenced [OF world(2) disjI1 [OF this]] show ?thesis unfolding id world .
qed

end
