(* ===== verification/CompletionProperties.thy ===== *)
theory CompletionProperties
  imports TaskProperties
begin

text \<open>
  The properties of completing a task: its proofs are live at that moment and its reviews satisfy the
  approval mode. The demonstration board of TaskProperties is completed here in two of the modes.
\<close>

section \<open>Completion\<close>

lemma complete_task_granted:
  assumes "require_identifier i ''task_id'' = Inr j" and "require_lease b j tok s = (Inr row, u0)"
    and "proofs_are_live b dk ws j u0 = (Inr (True, checks, ids), u)" and "review_summary b ttl j u = (Inr review, v)"
    and "rr_ready_for_completion review" and "close_task_tx b dk ws j tok checks ids review v = (Inr cm, t)"
  shows "complete_task b dk ws ttl i tok s = (Inr cm, t)"
  using assms by (simp add: complete_task_def tx_simps) blast

text \<open>The same board for any approval mode of the task, after so many clock readings.\<close>

definition demo_task_in :: "approval_mode \<Rightarrow> task_row" where
  "demo_task_in m = demo_task\<lparr>tk_approval_mode := m\<rparr>"

definition demo_store_in :: "approval_mode \<Rightarrow> proof_db" where
  "demo_store_in m = demo_store\<lparr>tasks := [demo_task_in m, demo_other]\<rparr>"

definition demo_at :: "approval_mode \<Rightarrow> nat \<Rightarrow> proof_db pstate" where
  "demo_at m n = \<lparr>st_db = demo_store_in m, st_world = demo_world\<lparr>w_calls := n\<rparr>\<rparr>"

definition demo_reason :: "approval_mode \<Rightarrow> string" where
  "demo_reason m = (if m = Quorum_Required then ''review_quorum_met'' else ''required_peer_approved'')"

definition demo_check :: proof_check where
  "demo_check = \<lparr>pk_record_id = ''p1'', pk_record_sha256 = ''9'', pk_tests = ''ran'', pk_drift = []\<rparr>"

lemma quiet_run:
  assumes "forward f" and "readonly f" and "f (demo_at m k) = (r, t)" and "w_calls (st_world t) = n"
  shows "t = demo_at m n"
  using forwardD [OF assms(1,3)] readonlyD [OF assms(2,3)] assms(4) by (auto simp: later_def demo_at_def)

lemma demo_live_proof: "proofs_are_live demo_bridge demo_disk demo_space ''T1'' (demo_at m 1)
    = (Inr (True, [demo_check], [(''src/a'', (4, 7))]), demo_at m 13)"
proof -
  have "case proofs_are_live demo_bridge demo_disk demo_space ''T1'' (demo_at m 1) of
      (Inr (ready, checks, ids), t) \<Rightarrow> ready \<and> checks = [demo_check] \<and> ids = [(''src/a'', (4, 7))] \<and> w_calls (st_world t) = 13
    | (Inl e, t) \<Rightarrow> False"
    by code_simp
  then show ?thesis
    using quiet_run [OF forward_live_proofs readonly_live_proofs]
    by (cases "proofs_are_live demo_bridge demo_disk demo_space ''T1'' (demo_at m 1)") (auto split: sum.splits)
qed

lemma demo_gate:
  assumes "m \<in> {Two_Party_Required, Quorum_Required}"
  shows "\<exists>r. review_summary demo_bridge 60 ''T1'' (demo_at m 13) = (Inr r, demo_at m 15)
    \<and> rr_ready_for_completion r \<and> rr_policy_reason r = demo_reason m \<and> rr_approved_reviewers r = [''peer'']"
proof -
  have two: "case review_summary demo_bridge 60 ''T1'' (demo_at Two_Party_Required 13) of
      (Inr r, t) \<Rightarrow> rr_ready_for_completion r \<and> rr_policy_reason r = demo_reason Two_Party_Required
        \<and> rr_approved_reviewers r = [''peer''] \<and> w_calls (st_world t) = 15 | (Inl e, t) \<Rightarrow> False"
    by code_simp
  have quorum: "case review_summary demo_bridge 60 ''T1'' (demo_at Quorum_Required 13) of
      (Inr r, t) \<Rightarrow> rr_ready_for_completion r \<and> rr_policy_reason r = demo_reason Quorum_Required
        \<and> rr_approved_reviewers r = [''peer''] \<and> w_calls (st_world t) = 15 | (Inl e, t) \<Rightarrow> False"
    by code_simp
  have "case review_summary demo_bridge 60 ''T1'' (demo_at m 13) of
      (Inr r, t) \<Rightarrow> rr_ready_for_completion r \<and> rr_policy_reason r = demo_reason m
        \<and> rr_approved_reviewers r = [''peer''] \<and> w_calls (st_world t) = 15 | (Inl e, t) \<Rightarrow> False"
  proof -
    consider "m = Two_Party_Required" | "m = Quorum_Required" using assms by blast
    then show ?thesis by cases (simp_all only: two quorum)
  qed
  then show ?thesis
    using quiet_run [OF forward_checks(6) readonly_review_summary]
    by (cases "review_summary demo_bridge 60 ''T1'' (demo_at m 13)") (auto split: sum.splits)
qed

lemma close_task_granted:
  assumes "require_lease b j tok s = (Inr row, u)"
    and "map (\<lambda>r. (ir_record_id r, ir_record_sha256 r)) (task_proofs b j (st_db u)) = map (\<lambda>c. (pk_record_id c, pk_record_sha256 c)) checks"
    and "tx_for (still_identical dk ws) ids u = (Inr zs, v)"
    and "event_op b ''task.completed'' [(''proof_records'', json_texts (map pk_record_sha256 checks)),
        (''review_policy_reason'', JStr (rr_policy_reason review)), (''approved_reviewers'', json_texts (rr_approved_reviewers review))]
      (Some j) ((tick v)\<lparr>st_db := (st_db v)\<lparr>tasks := update_where (task_is b j) (unclaimed Task_Complete (utc_at v)) (tasks (st_db v))\<rparr>\<rparr>)
      = (Inr y, t)"
  shows "\<exists>cm. close_task_tx b dk ws j tok checks ids review s = (Inr cm, t)"
  using assms by (auto simp: close_task_tx_def tx_simps)

definition demo_closing :: "approval_mode \<Rightarrow> proof_db pstate" where
  "demo_closing m = (demo_at m 19)\<lparr>st_db := (demo_store_in m)\<lparr>tasks := update_where (task_is demo_bridge ''T1'')
     (unclaimed Task_Complete ''2026-01-01T00:00:00Z'') (tasks (demo_store_in m))\<rparr>\<rparr>"

lemma demo_close_event:
  assumes "m \<in> {Two_Party_Required, Quorum_Required}"
  shows "succeeds (event_op demo_bridge ''task.completed'' [(''proof_records'', json_texts [''9'']),
    (''review_policy_reason'', JStr (demo_reason m)), (''approved_reviewers'', json_texts [''peer''])] (Some ''T1'')) (demo_closing m)"
proof -
  have "succeeds (event_op demo_bridge ''task.completed'' [(''proof_records'', json_texts [''9'']),
    (''review_policy_reason'', JStr (demo_reason k)), (''approved_reviewers'', json_texts [''peer''])] (Some ''T1'')) (demo_closing k)"
    if "k = Two_Party_Required" for k
    unfolding that by code_simp
  moreover have "succeeds (event_op demo_bridge ''task.completed'' [(''proof_records'', json_texts [''9'']),
    (''review_policy_reason'', JStr (demo_reason Quorum_Required)), (''approved_reviewers'', json_texts [''peer''])] (Some ''T1'')) (demo_closing Quorum_Required)"
    by code_simp
  ultimately show ?thesis using assms by auto
qed

lemma demo_unchanged: "\<exists>zs. tx_for (still_identical demo_disk demo_space) [(''src/a'', (4, 7))] (demo_at m 16) = (Inr zs, demo_at m 18)"
proof -
  have "case tx_for (still_identical demo_disk demo_space) [(''src/a'', (4, 7))] (demo_at m 16) of
      (Inr zs, t) \<Rightarrow> w_calls (st_world t) = 18 | (Inl e, t) \<Rightarrow> False"
    by code_simp
  then show ?thesis
    using quiet_run [of "tx_for (still_identical demo_disk demo_space) [(''src/a'', (4, 7))]", OF forward_for [OF forward_checks(4)]
        readonly_for [OF readonly_checks(3)]]
    by (cases "tx_for (still_identical demo_disk demo_space) [(''src/a'', (4, 7))] (demo_at m 16)")
      (auto split: sum.splits simp del: tx_for.simps)
qed

lemma demo_two_party: "demo_task_in Two_Party_Required = demo_task" "demo_store_in Two_Party_Required = demo_store"
    "demo_at Two_Party_Required 0 = demo_board"
  by (simp_all add: demo_at_def demo_store_in_def demo_board_def demo_store_def demo_task_in_def demo_task_def) (simp add: demo_world_def)

lemma demo_ticks: "tick (demo_at m n) = demo_at m (Suc n)" "st_db (demo_at m n) = demo_store_in m"
    "time_at (demo_at m n) = 100 + int n" "utc_at (demo_at m n) = ''2026-01-01T00:00:00Z''"
  by (simp_all add: demo_at_def tick_def) (simp_all add: demo_world_def)

lemma demo_held_in: "fetch_one (task_is demo_bridge ''T1'') (tasks (demo_store_in m)) = Some (demo_task_in m)"
  by (simp add: demo_store_in_def fetch_one_def task_is_def demo_task_in_def demo_task_def demo_bridge_def)

lemma demo_lease_in: "n < 700 \<Longrightarrow> holds_lease demo_bridge (Some ''tok'') (100 + int n) (demo_task_in m)"
  using demo_held(2) by (simp add: holds_lease_def demo_task_in_def) (simp add: demo_task_def)

lemma demo_lease_at: "n < 700 \<Longrightarrow> require_lease demo_bridge ''T1'' (Some ''tok'') (demo_at m n) = (Inr (demo_task_in m), demo_at m (Suc n))"
  using require_lease_held [of demo_bridge "''T1''" "demo_at m n" "demo_task_in m" "Some ''tok''"] demo_held_in demo_lease_in
  by (simp add: demo_ticks)

lemma demo_completes_in:
  assumes "m \<in> {Two_Party_Required, Quorum_Required}"
  shows "\<exists>cm t. complete_task demo_bridge demo_disk demo_space 60 ''T1'' (Some ''tok'') (demo_at m 0) = (Inr cm, t)"
proof -
  have id: "require_identifier ''T1'' ''task_id'' = Inr ''T1''" by code_simp
  obtain r where r: "review_summary demo_bridge 60 ''T1'' (demo_at m 13) = (Inr r, demo_at m 15)" "rr_ready_for_completion r"
    "rr_policy_reason r = demo_reason m" "rr_approved_reviewers r = [''peer'']"
    using demo_gate [OF assms] by blast
  obtain zs where zs: "tx_for (still_identical demo_disk demo_space) [(''src/a'', (4, 7))] (demo_at m 16) = (Inr zs, demo_at m 18)"
    using demo_unchanged by blast
  have rows: "map (\<lambda>r. (ir_record_id r, ir_record_sha256 r)) (task_proofs demo_bridge ''T1'' (demo_store_in m))
      = map (\<lambda>c. (pk_record_id c, pk_record_sha256 c)) [demo_check]"
    by (simp add: task_proofs_def demo_store_in_def demo_store_def demo_proof_def demo_bridge_def demo_check_def)
  have "\<exists>cm t. close_task_tx demo_bridge demo_disk demo_space ''T1'' (Some ''tok'') [demo_check] [(''src/a'', (4, 7))] r (demo_at m 15) = (Inr cm, t)"
    using close_task_granted [OF demo_lease_at [of 15 m], of "[demo_check]" demo_disk demo_space "[(''src/a'', (4, 7))]" zs "demo_at m 18" r]
      rows zs r(3,4) succeeds_run [OF demo_close_event [OF assms]]
    by (fastforce simp: demo_ticks demo_closing_def demo_check_def numeral_eq_Suc)
  then show ?thesis
    using complete_task_granted [OF id demo_lease_at [of 0 m] _ r(1,2)] demo_live_proof by (auto simp: demo_ticks)
qed

lemma demo_completes: "\<exists>cm t. complete_task demo_bridge demo_disk demo_space 60 ''T1'' (Some ''tok'') demo_board = (Inr cm, t)"
  using demo_completes_in [of Two_Party_Required] by (simp add: demo_two_party)

text \<open>C12: a task is completed only with live proof. The calls of a run are numbered; there is a call \<open>k\<close> of
  this run, the reading of the clock with which the closing transaction checks the lease, such that: there
  is at least one proof record, every record has tests, and every file a record names had exactly the
  recorded digest. That digest is the one of an undisturbed reading of the file between the start of the
  run and \<open>k\<close>, and after \<open>k\<close>, inside the closing transaction, the file was found again with the same size
  and time of change. The completing agent holds the lease at \<open>k\<close>; then the task is complete and holds no
  lease.\<close>

theorem completion_needs_live_proof:
  fixes s t :: "'a proof_db_scheme pstate"
  assumes "complete_task b dk ws ttl i tok s = (Inr cm, t)" and "tasks_ok (st_db s)"
  shows "\<exists>hashed k task. task_proofs b (py_strip i) (st_db s) \<noteq> []
    \<and> (\<forall>row \<in> set (task_proofs b (py_strip i) (st_db s)). live_proof hashed row)
    \<and> fetch_one (task_is b (py_strip i)) (tasks (st_db s)) = Some task
    \<and> holds_lease b tok (w_time (st_world s) k) task
    \<and> (\<forall>ph \<in> set hashed. hashed_between (br_sha256 b) dk ws (w_calls (st_world s)) k ph
        \<and> identical_between dk ws (Suc k) (w_calls (st_world t)) (fst ph) (fh_identity (snd ph)))
    \<and> (\<exists>r \<in> set (tasks (st_db t)). task_key r = (br_scope b, py_strip i) \<and> tk_status r = Task_Complete \<and> tk_claimed_by r = None)"
proof -
  obtain task checks ids stamp n and u v :: "'a proof_db_scheme pstate" where
    c: "fetch_one (task_is b (py_strip i)) (tasks (st_db s)) = Some task"
    "proofs_are_live b dk ws (py_strip i) (tick s) = (Inr (True, checks, ids), u)"
    "\<forall>pi \<in> set ids. identical_between dk ws (Suc (calls v)) (calls t) (fst pi) (snd pi)"
    "lease_change b (py_strip i) tok (unclaimed Task_Complete stamp) n (st_db s) (st_db t)"
    "later s v" "calls u \<le> calls v" "holds_lease b tok (time_at v) task"
    using complete_task_run [OF assms(1)] by metis
  obtain hashed where h: "task_proofs b (py_strip i) (st_db (tick s)) \<noteq> []"
    "\<forall>row \<in> set (task_proofs b (py_strip i) (st_db (tick s))). live_proof hashed row"
    "\<forall>ph \<in> set hashed. hashed_between (br_sha256 b) dk ws (calls (tick s)) (calls u) ph"
    "map (\<lambda>c. (pk_record_id c, pk_record_sha256 c)) checks
      = map (\<lambda>r. (ir_record_id r, ir_record_sha256 r)) (task_proofs b (py_strip i) (st_db (tick s)))"
    "ids = map (\<lambda>(path, h). (path, fh_identity h)) hashed"
    by (rule proofs_are_live_run [OF c(2)])
  have task: "task \<in> set (tasks (st_db s))" "task_is b (py_strip i) task" using fetch_task [OF c(1)] by simp_all
  have "tasks (st_db t) = update_where (task_is b (py_strip i)) (unclaimed Task_Complete stamp) (tasks (st_db s))"
    using c(4) by (auto simp: lease_change_def same_tasks_def)
  then have closed: "unclaimed Task_Complete stamp task \<in> set (tasks (st_db t))" using task by (auto simp: set_update_where)
  have row: "task_key (unclaimed Task_Complete stamp task) = (br_scope b, py_strip i)"
    "tk_status (unclaimed Task_Complete stamp task) = Task_Complete" "tk_claimed_by (unclaimed Task_Complete stamp task) = None"
    using task(2) by (simp_all add: task_is_key unclaimed_def task_key_def)
  have same: "\<forall>ph \<in> set hashed. hashed_between (br_sha256 b) dk ws (calls s) (calls v) ph
      \<and> identical_between dk ws (Suc (calls v)) (calls t) (fst ph) (fh_identity (snd ph))"
    using h(3,5) c(3,6) hashed_between_mono [of "br_sha256 b" dk ws "calls (tick s)" "calls u" _ "calls s" "calls v"]
    by (fastforce simp: tick_calls)
  have lease: "holds_lease b tok (w_time (st_world s) (calls v)) task" using c(7) later_time [OF c(5)] by simp
  show ?thesis
    using h(1,2) [unfolded tick_db] same closed row c(1) lease
    by (intro exI [of _ hashed] exI [of _ "calls v"] exI [of _ task] conjI bexI [of _ "unclaimed Task_Complete stamp task"]) simp_all
qed

theorem completion_needs_live_proof_witness: "task_proofs demo_bridge ''T1'' demo_store \<noteq> []"
proof -
  obtain cm t where run: "complete_task demo_bridge demo_disk demo_space 60 ''T1'' (Some ''tok'') demo_board = (Inr cm, t)"
    using demo_completes by blast
  have "tasks_ok (st_db demo_board)" using demo_board_inv by (simp add: task_inv_def)
  moreover have "py_strip ''T1'' = ''T1''" by code_simp
  moreover have "st_db demo_board = demo_store" by (simp add: demo_board_def)
  ultimately show ?thesis using completion_needs_live_proof [OF run] by auto
qed

text \<open>C14: a task in \<open>two_party_required\<close> mode with a configured peer is completed only when that peer, who is
  not the completing agent, has approved the stored revision and content of the task, in answer to a
  request that another agent addressed to it.\<close>

theorem completion_needs_peer:
  fixes s t u :: "'a proof_db_scheme pstate"
  assumes "task_history u s" and "complete_task b dk ws ttl i tok s = (Inr cm, t)"
    and "fetch_one (task_is b (py_strip i)) (tasks (st_db s)) = Some task"
    and "tk_approval_mode task = Two_Party_Required" and "tk_required_peer task = Some p"
  shows "p \<noteq> br_agent_id b \<and> (\<exists>r \<in> set (peer_reviews (st_db s)). approval_of b task p r
    \<and> (\<exists>c \<in> set (peer_calls (st_db s)). answers r c \<and> pc_requester c \<noteq> p))"
proof -
  have inv: "peers_ok (st_db s)" "reviews_sound (st_db s)" using task_history_inv [OF assms(1)] by (simp_all add: task_inv_def)
  obtain online where held: "holds_lease b tok (time_at s) task" and
    gate: "fst (review_policy (review_gate task (required_peers_of b task (st_db s)) (approved_reviewers (counted b task (st_db s))) online))"
    using complete_task_gate [OF assms(2)] assms(3) by (metis option.inject)
  have "p \<in> set (approved_reviewers (counted b task (st_db s)))"
    using gate assms(4,5) by (simp add: review_policy_def review_gate_def Let_def)
  then obtain r where r: "r \<in> set (peer_reviews (st_db s))" "approval_of b task p r" using approved_is_approval by blast
  obtain c where c: "c \<in> set (peer_calls (st_db s))" "answers r c" "pc_requester c \<noteq> pc_recipient c"
    using inv(2) r(1) by (auto simp: reviews_sound_def)
  have "pc_recipient c = p" using c(2) r(2) by (simp add: answers_def approval_of_def)
  moreover have "p \<noteq> br_agent_id b"
    using inv(1) fetch_task(1) [OF assms(3)] held assms(5) by (auto simp: peers_ok_def holds_lease_def)
  ultimately show ?thesis using r c by auto
qed

theorem completion_needs_peer_witness: "\<exists>r \<in> set (peer_reviews demo_store). approval_of demo_bridge demo_task ''peer'' r"
proof -
  obtain cm t where run: "complete_task demo_bridge demo_disk demo_space 60 ''T1'' (Some ''tok'') demo_board = (Inr cm, t)"
    using demo_completes by blast
  have "py_strip ''T1'' = ''T1''" by code_simp
  moreover have "st_db demo_board = demo_store" "tk_approval_mode demo_task = Two_Party_Required"
    "tk_required_peer demo_task = Some ''peer''"
    by (simp_all add: demo_board_def demo_task_def)
  ultimately show ?thesis
    using completion_needs_peer [OF demo_history run, of demo_task "''peer''"] demo_held(1) by auto
qed

section \<open>Quorum\<close>

lemma review_quorum_count:
  assumes "fst (review_policy (review_gate task peers approved online))" and "tk_approval_mode task = Quorum_Required"
    and "peers \<noteq> []"
  shows "max 1 (tk_review_quorum task) \<le> int (length (common peers approved))"
  using assms by (simp add: review_policy_def review_gate_def Let_def)

lemma held_by_no_peer:
  assumes "peers_ok d" and "task \<in> set (tasks d)" and "task_is b i task" and "holds_lease b tok n task"
  shows "br_agent_id b \<notin> set (required_peers_of b task d)"
proof -
  have "tk_claimed_by task = Some (br_agent_id b)" using assms(4) by (simp add: holds_lease_def)
  then have "tk_required_peer task \<noteq> Some (br_agent_id b)"
    "\<forall>p \<in> set (task_required_peers d). peer_of task p \<longrightarrow> tp_peer_id p \<noteq> br_agent_id b"
    using assms(1,2) unfolding peers_ok_def by blast+
  then show ?thesis
    using assms(3) by (auto simp: required_peers_of_def peer_of_def task_is_def split: option.splits)
qed

text \<open>C15: a task in \<open>quorum_required\<close> mode with configured peers is completed only when as many different
  configured peers as the quorum says have approved the stored revision; the completing agent is not
  among them, and repeated reviews of one peer do not add votes.\<close>

theorem completion_needs_quorum:
  fixes s t u :: "'a proof_db_scheme pstate"
  assumes "task_history u s" and "complete_task b dk ws ttl i tok s = (Inr cm, t)"
    and "fetch_one (task_is b (py_strip i)) (tasks (st_db s)) = Some task"
    and "tk_approval_mode task = Quorum_Required" and "required_peers_of b task (st_db s) \<noteq> []"
  shows "\<exists>ps. ps \<subseteq> set (required_peers_of b task (st_db s)) \<and> finite ps \<and> max 1 (tk_review_quorum task) \<le> int (card ps)
    \<and> br_agent_id b \<notin> ps \<and> (\<forall>p \<in> ps. \<exists>r \<in> set (peer_reviews (st_db s)). approval_of b task p r)"
proof -
  have inv: "peers_ok (st_db s)" using task_history_inv [OF assms(1)] by (simp add: task_inv_def)
  let ?peers = "required_peers_of b task (st_db s)" and ?approved = "approved_reviewers (counted b task (st_db s))"
  obtain online where held: "holds_lease b tok (time_at s) task" and
    gate: "fst (review_policy (review_gate task ?peers ?approved online))"
    using complete_task_gate [OF assms(2)] assms(3) by (metis option.inject)
  have task: "task \<in> set (tasks (st_db s))" "task_is b (py_strip i) task" using fetch_task [OF assms(3)] by simp_all
  have "distinct (common ?peers ?approved)" by (simp add: common_def required_peers_of_def)
  then have "max 1 (tk_review_quorum task) \<le> int (card (set (common ?peers ?approved)))"
    using review_quorum_count [OF gate assms(4,5)] by (simp add: distinct_card)
  moreover have "set (common ?peers ?approved) \<subseteq> set ?peers" by (auto simp: common_def)
  moreover have "br_agent_id b \<notin> set ?peers"
    using held_by_no_peer [OF inv task held] .
  moreover have "\<exists>r \<in> set (peer_reviews (st_db s)). approval_of b task p r" if "p \<in> set (common ?peers ?approved)" for p
    using that approved_is_approval by (auto simp: common_def)
  ultimately show ?thesis by (intro exI [of _ "set (common ?peers ?approved)"]) blast
qed

lemma demo_quorum_inv: "task_inv (demo_at Quorum_Required 0)"
proof -
  have row: "task_row_ok (demo_task_in Quorum_Required)" "task_key (demo_task_in Quorum_Required) = task_key demo_task"
    "tk_claimed_by (demo_task_in Quorum_Required) = tk_claimed_by demo_task"
    "tk_required_peer (demo_task_in Quorum_Required) = tk_required_peer demo_task"
    "tk_scope (demo_task_in Quorum_Required) = tk_scope demo_task" "tk_task_id (demo_task_in Quorum_Required) = tk_task_id demo_task"
    using demo_rows(1) by (auto simp: demo_task_in_def task_row_ok_def task_key_def)
  have apart: "\<not> compete (task_paths demo_store) (demo_task_in Quorum_Required) demo_other"
    "\<not> compete (task_paths demo_store) demo_other (demo_task_in Quorum_Required)"
    using demo_apart by (simp_all add: compete_def demo_task_in_def paths_of_def)
  have kept: "task_paths (demo_store_in Quorum_Required) = task_paths demo_store"
    "task_required_peers (demo_store_in Quorum_Required) = task_required_peers demo_store"
    "peer_calls (demo_store_in Quorum_Required) = peer_calls demo_store"
    "peer_reviews (demo_store_in Quorum_Required) = peer_reviews demo_store"
    by (simp_all add: demo_store_in_def)
  have tasks: "tasks (demo_store_in Quorum_Required) = [demo_task_in Quorum_Required, demo_other]" "tasks demo_store = [demo_task, demo_other]"
    by (simp_all add: demo_store_in_def demo_store_def)
  have two: "tasks_ok demo_store" "peers_ok demo_store" "reviews_sound demo_store"
    using demo_board_inv by (simp_all add: task_inv_def demo_board_def)
  have "tasks_ok (demo_store_in Quorum_Required)"
    using two(1) row by (simp add: tasks_ok_def tasks kept)
  moreover have "peers_ok (demo_store_in Quorum_Required)"
    using two(2) row by (simp add: peers_ok_def tasks kept peer_of_def)
  moreover have "reviews_sound (demo_store_in Quorum_Required)"
    using two(3) by (simp add: reviews_sound_def kept)
  moreover have "exclusive_paths n (demo_store_in Quorum_Required)" for n
    using apart by (auto simp: exclusive_paths_def tasks kept)
  ultimately show ?thesis
    using demo_clock by (simp add: task_inv_def demo_at_def clock_monotone_def)
qed

lemma demo_quorum_history: "task_history (demo_at Quorum_Required 0) (demo_at Quorum_Required 0)"
  by (simp add: task_history_def demo_quorum_inv)

theorem completion_needs_quorum_witness:
  "\<exists>r \<in> set (peer_reviews demo_store). approval_of demo_bridge (demo_task_in Quorum_Required) ''peer'' r"
proof -
  obtain cm t where run: "complete_task demo_bridge demo_disk demo_space 60 ''T1'' (Some ''tok'') (demo_at Quorum_Required 0) = (Inr cm, t)"
    using demo_completes_in by blast
  have id: "py_strip ''T1'' = ''T1''" by code_simp
  have peers: "required_peers_of demo_bridge (demo_task_in Quorum_Required) (demo_store_in Quorum_Required) = [''peer'']" by code_simp
  have db: "st_db (demo_at Quorum_Required 0) = demo_store_in Quorum_Required" "peer_reviews (demo_store_in Quorum_Required) = peer_reviews demo_store"
    by (simp_all add: demo_at_def demo_store_in_def)
  have "tk_approval_mode (demo_task_in Quorum_Required) = Quorum_Required" by (simp add: demo_task_in_def)
  from completion_needs_quorum [OF demo_quorum_history run _ this]
  obtain ps where ps: "ps \<subseteq> {''peer''}" "max 1 (tk_review_quorum (demo_task_in Quorum_Required)) \<le> int (card ps)"
    "\<forall>p \<in> ps. \<exists>r \<in> set (peer_reviews demo_store). approval_of demo_bridge (demo_task_in Quorum_Required) p r"
    using demo_held_in [of Quorum_Required] by (auto simp: id db peers)
  have "ps \<noteq> {}" using ps(2) by auto
  then show ?thesis using ps(1,3) by blast
qed

end
