(* ===== verification/ReviewProperties.thy ===== *)
theory ReviewProperties
  imports CompletionProperties
begin

text \<open>
  The properties of reviews, revisions, proofs and of the audit chain under the task calls, and what the
  review gate does not check.
\<close>

section \<open>Histories\<close>

text \<open>C33: the revision number names the content. Along any history a task keeps its key, its revision never
  falls, the same revision always has the same content digest, and a completed task is never changed.\<close>

theorem revision_names_content:
  assumes "task_history s t" and "r \<in> set (tasks (st_db s))" and "q \<in> set (tasks (st_db t))" and "task_key q = task_key r"
  shows "tk_task_revision r \<le> tk_task_revision q
    \<and> (tk_task_revision r = tk_task_revision q \<longrightarrow> tk_task_sha256 r = tk_task_sha256 q)
    \<and> (tk_status r = Task_Complete \<longrightarrow> q = r)"
proof -
  obtain p where p: "p \<in> set (tasks (st_db t))" "task_progress r p" using task_history_same_row [OF assms(1,2)] by blast
  have "tasks_ok (st_db t)" using task_history_inv [OF assms(1)] by (simp add: task_inv_def)
  then have "q = p"
    using p assms(3,4) distinct_key_eq [of task_key "tasks (st_db t)" q p] by (simp add: tasks_ok_def task_progress_def)
  then show ?thesis using p(2) by (simp add: task_progress_def)
qed

theorem revision_names_content_witness:
  "\<exists>cm t q. complete_task demo_bridge demo_disk demo_space 60 ''T1'' (Some ''tok'') demo_board = (Inr cm, t)
    \<and> q \<in> set (tasks (st_db t)) \<and> task_key q = (''team'', ''T1'') \<and> 2 \<le> tk_task_revision q"
proof -
  obtain cm t where run: "complete_task demo_bridge demo_disk demo_space 60 ''T1'' (Some ''tok'') demo_board = (Inr cm, t)"
    using demo_completes by blast
  have "task_step demo_board t"
    using ts_complete [of demo_board demo_bridge demo_disk demo_space 60 "''T1''" "Some ''tok''"] by (simp add: run)
  then have t: "task_history demo_board t" using demo_board_inv by (simp add: task_history_def r_into_rtranclp)
  have task: "demo_task \<in> set (tasks (st_db demo_board))" "tk_task_revision demo_task = 2"
    by (simp_all add: demo_board_def demo_store_def) (simp add: demo_task_def)
  obtain q where q: "q \<in> set (tasks (st_db t))" "task_progress demo_task q" using task_history_same_row [OF t task(1)] by blast
  then have key: "task_key q = task_key demo_task" by (simp add: task_progress_def)
  have "2 \<le> tk_task_revision q" using revision_names_content [OF t task(1) q(1) key] task(2) by simp
  then show ?thesis using run q(1) key demo_rows(3) by auto
qed

text \<open>C34: every stored review was submitted by the agent the request was addressed to, which is not the one
  that asked, for the revision the request was made for; a request has at most one review of a peer,
  and no review is ever removed or changed.\<close>

theorem reviews_answer_requests:
  assumes "task_history s t"
  shows "(\<forall>r \<in> set (peer_reviews (st_db t)). \<exists>c \<in> set (peer_calls (st_db t)). answers r c \<and> pc_requester c \<noteq> rv_reviewer r)
    \<and> distinct (map (\<lambda>r. (rv_scope r, rv_request_id r, rv_reviewer r)) (peer_reviews (st_db t)))
    \<and> (\<exists>new. peer_reviews (st_db t) = peer_reviews (st_db s) @ new)"
proof -
  have inv: "reviews_sound (st_db t)" "review_history (st_db s) (st_db t)"
    using task_history_inv [OF assms] by (simp_all add: task_inv_def task_leads_def)
  have "\<exists>c \<in> set (peer_calls (st_db t)). answers r c \<and> pc_requester c \<noteq> rv_reviewer r" if m: "r \<in> set (peer_reviews (st_db t))" for r
  proof -
    obtain c where c: "c \<in> set (peer_calls (st_db t))" "answers r c" "pc_requester c \<noteq> pc_recipient c"
      using inv(1) m by (auto simp: reviews_sound_def)
    then show ?thesis by (auto simp: answers_def)
  qed
  then show ?thesis using inv by (auto simp: reviews_sound_def review_history_def)
qed

theorem reviews_answer_requests_witness: "\<exists>c \<in> set (peer_calls demo_store). answers demo_review c \<and> pc_requester c \<noteq> ''peer''"
  using reviews_answer_requests [OF demo_history] by (simp add: demo_board_def demo_store_def) (simp add: demo_review_def)

text \<open>submitting needs an addressed, current request and is done once. A review is stored only by the
  recipient of the request, while the task still has the revision and content the request was made for,
  and when that reviewer has not answered the request before; it is filed under that revision.\<close>

theorem review_is_current:
  fixes s t :: "'a task_db_scheme pstate"
  assumes "submit_review b ws args s = (Inr row, t)"
  shows "\<exists>call \<in> set (peer_calls (st_db s)). \<exists>task \<in> set (tasks (st_db s)). pc_recipient call = br_agent_id b
    \<and> pc_request_id call = rv_request_id row \<and> task_key task = (br_scope b, pc_task_id call)
    \<and> pc_task_revision call = tk_task_revision task \<and> pc_task_sha256 call = tk_task_sha256 task
    \<and> rv_task_revision row = tk_task_revision task \<and> rv_task_sha256 row = tk_task_sha256 task
    \<and> rv_reviewer row = br_agent_id b \<and> 0 \<le> rv_score row \<and> rv_score row \<le> 100
    \<and> (\<forall>q \<in> set (peer_reviews (st_db s)). \<not> (rv_scope q = br_scope b \<and> rv_request_id q = rv_request_id row \<and> rv_reviewer q = br_agent_id b))
    \<and> peer_reviews (st_db t) = peer_reviews (st_db s) @ [row]"
proof -
  obtain r call task where c: "validate_review b ws args = Inr r" "fetch_one (call_is b (rs_request_id r)) (peer_calls (st_db s)) = Some call"
    "pc_recipient call = br_agent_id b" "fetch_one (task_is b (pc_task_id call)) (tasks (st_db s)) = Some task"
    "same_revision task (pc_task_revision call) (pc_task_sha256 call)" "row = new_review b r call (uuid_at s) (utc_at (tick s))"
    "\<forall>q \<in> set (peer_reviews (st_db s)). \<not> review_clash row q"
    "same_tasks ((st_db s)\<lparr>peer_reviews := peer_reviews (st_db s) @ [row],
        peer_calls := update_where (call_is b (rs_request_id r)) (respond_call b r (utc_at (tick s))) (peer_calls (st_db s))\<rparr>) (st_db t)"
    using submit_review_run [OF assms] by blast
  have score: "0 \<le> rs_score r \<and> rs_score r \<le> 100"
    using c(1) by (auto simp: validate_review_def tx_simps Let_def parse_score_def split: option.splits)
  have call: "call \<in> set (peer_calls (st_db s))" "pc_request_id call = rs_request_id r"
    using fetch_one_SomeD [OF c(2)] by (auto simp: call_is_def)
  have row: "rv_scope row = br_scope b" "rv_request_id row = rs_request_id r" "rv_reviewer row = br_agent_id b" "rv_score row = rs_score r"
    "rv_task_revision row = pc_task_revision call" "rv_task_sha256 row = pc_task_sha256 call"
    by (simp_all add: c(6) new_review_def)
  have reviews: "peer_reviews (st_db t) = peer_reviews (st_db s) @ [row]" using c(8) by (simp add: same_tasks_def)
  show ?thesis
    by (rule bexI [OF _ call(1)], rule bexI [OF _ fetch_task(1) [OF c(4)]])
      (use call(2) row score reviews c(3,5,7) fetch_task(2) [OF c(4)] in \<open>auto simp: same_revision_def review_clash_def task_is_key\<close>)
qed

text \<open>The peer of the demonstration board answers the request that is open there.\<close>

definition demo_asked :: proof_db where
  "demo_asked = demo_store\<lparr>peer_reviews := []\<rparr>"

definition demo_answer :: review_args where
  "demo_answer = \<lparr>ra_request_id = ''r1'', ra_verdict = Some ''approved'', ra_score = Some 90, ra_findings = ''none'',
     ra_response = None, ra_artifact_paths = []\<rparr>"

definition demo_spec_review :: review_spec where
  "demo_spec_review = \<lparr>rs_request_id = ''r1'', rs_verdict = Approved, rs_score = 90, rs_findings = ''none'',
     rs_response = [], rs_artifacts = []\<rparr>"

definition demo_answered :: "review_row list \<Rightarrow> call_row list \<Rightarrow> proof_db pstate" where
  "demo_answered rs cs = \<lparr>st_db = demo_asked\<lparr>peer_reviews := rs, peer_calls := cs\<rparr>, st_world = demo_world\<lparr>w_calls := 2\<rparr>\<rparr>"

lemma submit_review_granted:
  assumes "validate_review b ws args = Inr r" and "fetch_one (call_is b (rs_request_id r)) (peer_calls (st_db s)) = Some call"
    and "pc_recipient call = br_agent_id b" and "fetch_one (task_is b (pc_task_id call)) (tasks (st_db s)) = Some task"
    and "same_revision task (pc_task_revision call) (pc_task_sha256 call)"
    and "row = new_review b r call (uuid_at s) (utc_at (tick s))" and "peer_reviews (st_db s) = []"
    and "event_op b ''peer.reviewed'' [(''request_id'', JStr (rs_request_id r)), (''review_id'', JStr (uuid_at s)),
          (''review_sha256'', JStr (rv_review_sha256 row)), (''verdict'', JStr (verdict_text (rs_verdict r)))]
      (Some (pc_task_id call)) ((tick (tick s))\<lparr>st_db := (st_db s)\<lparr>peer_reviews := [row],
        peer_calls := update_where (call_is b (rs_request_id r)) (respond_call b r (utc_at (tick s))) (peer_calls (st_db s))\<rparr>\<rparr>) = (Inr y, t)"
  shows "submit_review b ws args s = (Inr row, t)"
  using assms
  by (simp add: submit_review_def submit_review_tx_def tx_simps insert_review_def Let_def)

definition demo_verdict :: review_row where
  "demo_verdict = new_review demo_peer demo_spec_review demo_call ''id-0'' ''2026-01-01T00:00:00Z''"

lemma demo_answer_event: "succeeds (event_op demo_peer ''peer.reviewed''
    [(''request_id'', JStr ''r1''), (''review_id'', JStr ''id-0''), (''review_sha256'', JStr ''229''),
     (''verdict'', JStr ''approved'')] (Some ''T1'')) (demo_answered rs cs)"
  by code_simp

lemma demo_verdict_sha: "rv_review_sha256 demo_verdict = ''229''" "w_uuid demo_world 0 = ''id-0''"
  by code_simp+

lemma demo_answer_valid: "validate_review demo_peer demo_space demo_answer = Inr demo_spec_review"
proof -
  have pieces: "require_identifier ''r1'' ''request_id'' = Inr ''r1''" "parse_verdict (Some ''approved'') = Inr Approved"
    "parse_score (Some 90) = Inr 90" "clean_artifacts demo_sha demo_space [] None False = Inr []" "py_strip [] = []"
    by code_simp+
  have "py_strip ''none'' = ''none''" "\<not> contains_secret ''none''" by code_simp+
  then have "require_text ''none'' ''findings'' 50000 = Inr ''none''" by (simp add: require_text_def)
  then show ?thesis
    using pieces by (simp add: validate_review_def demo_answer_def demo_spec_review_def demo_peer_def demo_bridge_def res_bind_def
      res_require_def default_to_def Let_def)
qed

lemma demo_submits: "\<exists>t. submit_review demo_peer demo_space demo_answer \<lparr>st_db = demo_asked, st_world = demo_world\<rparr> = (Inr demo_verdict, t)"
proof -
  let ?s = "\<lparr>st_db = demo_asked, st_world = demo_world\<rparr>"
  have rows: "fetch_one (call_is demo_peer ''r1'') (peer_calls demo_asked) = Some demo_call"
    "fetch_one (task_is demo_peer ''T1'') (tasks demo_asked) = Some demo_task"
    "pc_recipient demo_call = br_agent_id demo_peer" "pc_task_id demo_call = ''T1''"
    "same_revision demo_task (pc_task_revision demo_call) (pc_task_sha256 demo_call)" "verdict_text Approved = ''approved''"
    by code_simp+
  have spec: "rs_request_id demo_spec_review = ''r1''" "rs_verdict demo_spec_review = Approved" by (simp_all add: demo_spec_review_def)
  have world: "utc_at (tick ?s) = ''2026-01-01T00:00:00Z''" "uuid_at ?s = w_uuid demo_world 0" "peer_reviews demo_asked = []"
    "(tick (tick ?s))\<lparr>st_db := demo_asked\<lparr>peer_reviews := [demo_verdict], peer_calls := update_where (call_is demo_peer ''r1'')
       (respond_call demo_peer demo_spec_review ''2026-01-01T00:00:00Z'') (peer_calls demo_asked)\<rparr>\<rparr>
     = demo_answered [demo_verdict] (update_where (call_is demo_peer ''r1'')
       (respond_call demo_peer demo_spec_review ''2026-01-01T00:00:00Z'') (peer_calls demo_asked))"
    by (simp_all add: tick_def demo_asked_def demo_answered_def) (simp_all add: demo_world_def)
  show ?thesis
    by (rule exI, rule submit_review_granted [OF demo_answer_valid, where s = ?s and call = demo_call and task = demo_task])
      (use rows world demo_verdict_sha succeeds_run [OF demo_answer_event] in \<open>simp_all add: spec demo_verdict_def [symmetric]\<close>)
qed

theorem review_is_current_witness:
  "\<exists>t. submit_review demo_peer demo_space demo_answer \<lparr>st_db = demo_asked, st_world = demo_world\<rparr> = (Inr demo_verdict, t)
    \<and> peer_reviews (st_db t) = [demo_verdict]"
proof -
  obtain t where run: "submit_review demo_peer demo_space demo_answer \<lparr>st_db = demo_asked, st_world = demo_world\<rparr> = (Inr demo_verdict, t)"
    using demo_submits by blast
  have "peer_reviews demo_asked = []" by (simp add: demo_asked_def)
  then show ?thesis using run review_is_current [OF run] by auto
qed

end
