(* ===== verification/ProofRecords.thy ===== *)
theory ProofRecords
  imports ReviewProperties
begin

text \<open>
  Proof records: what a recorded proof stores is what the live check reads back, and what recording
  checks.
\<close>

section \<open>Reading a record back\<close>

lemma obj_set_graph:
  "\<forall>x \<in> set d. snd x = f (fst x) \<Longrightarrow> set (obj_set d k (f k)) = insert (k, f k) (set d)"
  by (induction d) (auto simp: prod_eq_iff)

lemma obj_update_graph:
  "\<forall>x \<in> set d. snd x = f (fst x) \<Longrightarrow> \<forall>x \<in> set e. snd x = f (fst x) \<Longrightarrow> set (obj_update d e) = set d \<union> set e"
proof (induction e arbitrary: d)
  case (Cons kv e)
  obtain k where kv: "kv = (k, f k)" using Cons.prems(2) by (cases kv) simp
  have "set (obj_update (obj_set d k (f k)) e) = set (obj_set d k (f k)) \<union> set e"
    using Cons.prems by (intro Cons.IH) (simp_all add: obj_set_graph)
  then show ?case using obj_set_graph [OF Cons.prems(1)] by (simp add: obj_update_def kv)
qed (simp add: obj_update_def)

definition recorded_value :: "(string \<times> file_hash) list \<Rightarrow> string \<Rightarrow> json" where
  "recorded_value hashed path = json_opt JStr (live_sha hashed path)"

lemma hashes_of_values: "hashes_of hashed ps = map (\<lambda>p. (p, recorded_value hashed p)) (dict_fromkeys ps)"
proof -
  have "json_opt (\<lambda>h. JStr (fh_sha256 h)) (map_of hashed p) = recorded_value hashed p" for p
    by (cases "map_of hashed p") (simp_all add: recorded_value_def live_sha_def)
  then show ?thesis by (simp add: hashes_of_def)
qed

lemma recorded_value_flat: "wf_json (recorded_value hashed p)" "canon (recorded_value hashed p) = recorded_value hashed p"
  by (cases "live_sha hashed p"; simp add: recorded_value_def)+

lemma wf_hashes: "wf_json (JObj (hashes_of hashed ps))"
  by (auto simp: hashes_of_values recorded_value_flat comp_def)

lemma canon_hashes: "canon (JObj (hashes_of hashed ps)) = JObj (sort_key fst (hashes_of hashed ps))"
  by (simp add: hashes_of_values recorded_value_flat comp_def)

definition evidence_json :: "string list \<Rightarrow> (string \<times> file_hash) list \<Rightarrow> json" where
  "evidence_json ps hashed = JObj [(''paths'', json_texts ps), (''hashes'', JObj (hashes_of hashed ps))]"

lemma wf_evidence: "wf_json (evidence_json ps hashed)"
  using wf_hashes [of hashed ps] by (simp add: evidence_json_def json_texts_def)

lemma recorded_evidence:
  obtains evidence where "canon (evidence_json ps hashed) = JObj evidence"
    "map_of evidence ''hashes'' = Some (JObj (sort_key fst (hashes_of hashed ps)))"
proof -
  obtain evidence where e: "canon (evidence_json ps hashed) = JObj evidence" by (simp add: evidence_json_def)
  have "json_get (canon (evidence_json ps hashed)) ''hashes'' = Some (canon (JObj (hashes_of hashed ps)))"
    using canon_get [OF wf_evidence [of ps hashed, unfolded evidence_json_def], of "''hashes''"]
    by (simp del: canon.simps add: evidence_json_def)
  then have "map_of evidence ''hashes'' = Some (JObj (sort_key fst (hashes_of hashed ps)))" unfolding e canon_hashes by simp
  then show ?thesis by (rule that [OF e])
qed

lemma obj_set_keys: "map fst (obj_set d k v) = (if k \<in> fst ` set d then map fst d else map fst d @ [k])"
  by (induction d) auto

lemma obj_update_distinct: "distinct (map fst d) \<Longrightarrow> distinct (map fst (obj_update d e))"
  by (induction e arbitrary: d) (auto simp: obj_update_def obj_set_keys)

lemma expected_of_recorded:
  obtains e where "expected_hashes (new_proof b p hashed task i now) = Inr e" "distinct (map fst e)"
    "set e = (\<lambda>q. (q, recorded_value hashed q)) ` (set (ps_changed p) \<union> set (ps_evidence p))"
proof -
  obtain evidence where ev: "canon (evidence_json (ps_evidence p) hashed) = JObj evidence"
    "map_of evidence ''hashes'' = Some (JObj (sort_key fst (hashes_of hashed (ps_evidence p))))"
    by (rule recorded_evidence)
  let ?after = "sort_key fst (hashes_of hashed (ps_changed p))" and ?hashes = "sort_key fst (hashes_of hashed (ps_evidence p))"
  have "json_loads (json_spaced (JObj (hashes_of hashed (ps_changed p)))) = Some (JObj ?after)"
    using loads_spaced [OF wf_hashes] canon_hashes by metis
  moreover have "json_loads (json_spaced (evidence_json (ps_evidence p) hashed)) = Some (JObj evidence)"
    using loads_spaced [OF wf_evidence] ev(1) by metis
  ultimately have read: "expected_hashes (new_proof b p hashed task i now) = Inr (obj_update ?after ?hashes)"
    using ev(2) by (simp add: expected_hashes_def new_proof_def evidence_json_def [symmetric] del: json_spaced.simps)
  have "set (obj_update ?after ?hashes) = set ?after \<union> set ?hashes"
    by (rule obj_update_graph [where f = "recorded_value hashed"]) (auto simp: hashes_of_values)
  moreover have "distinct (map fst ?after)"
    by (auto simp: distinct_map hashes_of_values inj_on_def)
  ultimately show ?thesis
    by (intro that [OF read]) (auto simp: hashes_of_values simp del: map_map intro!: obj_update_distinct)
qed

text \<open>C17: a proof record is read back as it was written. The live check of a record that was made from the
  digests \<open>hashed\<close> succeeds in parsing it, and reports as drift exactly the changed and evidence files whose
  live digest differs from the recorded one, each once, with the recorded and the live digest; so there is
  no drift exactly when no file differs.\<close>

theorem recorded_proof_reads_back:
  "\<exists>e. expected_hashes (new_proof b p hashed task i now) = Inr e
    \<and> set (pk_drift (proof_check_of live (new_proof b p hashed task i now, e)))
      = (\<lambda>q. (q, json_opt JStr (live_sha hashed q), live_sha live q))
        ` {q. q \<in> set (ps_changed p @ ps_evidence p) \<and> live_sha live q \<noteq> live_sha hashed q}
    \<and> distinct (map fst (pk_drift (proof_check_of live (new_proof b p hashed task i now, e))))
    \<and> (pk_drift (proof_check_of live (new_proof b p hashed task i now, e)) = []
       \<longleftrightarrow> {q. q \<in> set (ps_changed p @ ps_evidence p) \<and> live_sha live q \<noteq> live_sha hashed q} = {})"
proof -
  obtain e where e: "expected_hashes (new_proof b p hashed task i now) = Inr e" "distinct (map fst e)"
    "set e = (\<lambda>q. (q, recorded_value hashed q)) ` (set (ps_changed p) \<union> set (ps_evidence p))"
    by (rule expected_of_recorded)
  let ?drift = "pk_drift (proof_check_of live (new_proof b p hashed task i now, e))"
  have drift: "set ?drift = (\<lambda>q. (q, json_opt JStr (live_sha hashed q), live_sha live q))
      ` {q. q \<in> set (ps_changed p @ ps_evidence p) \<and> live_sha live q \<noteq> live_sha hashed q}"
    by (auto simp: proof_check_of_def e(3) recorded_value_def image_iff)
  have "map fst ?drift = map fst (filter (\<lambda>(path, expected). json_opt JStr (live_sha live path) \<noteq> expected) e)"
    by (simp add: proof_check_of_def case_prod_beta comp_def)
  then have "distinct (map fst ?drift)" using distinct_map_filter [OF e(2)] by simp
  moreover have "?drift = [] \<longleftrightarrow> set ?drift = {}" by simp
  ultimately show ?thesis using e(1) drift by (intro exI [of _ e]) simp
qed

section \<open>Recording\<close>

text \<open>What recording a proof checks. The calls of a run are numbered, and \<open>k\<close> is the one with which the
  recording transaction reads the clock. The proof is stored by the agent that holds the lease of the task at
  \<open>k\<close>, for changed files that all lie inside the write scopes of the task and outside the protected paths;
  the digests it stores are those of one undisturbed reading, before \<open>k\<close>, of each of at most a hundred files,
  and after \<open>k\<close>, inside the transaction, each file was found again with the same size and time of change.\<close>

theorem record_proof_checks:
  fixes s t :: "'a proof_db_scheme pstate"
  assumes "record_proof b dk ws args s = (Inr row, t)"
  shows "\<exists>p hashed task i now k. validate_proof b ws args = Inr p \<and> row = new_proof b p hashed task i now
    \<and> integration_records (st_db t) = integration_records (st_db s) @ [row]
    \<and> fetch_one (task_is b (ps_task_id p)) (tasks (st_db s)) = Some task
    \<and> holds_lease b (pa_arg_lease_token args) (w_time (st_world s) k) task
    \<and> map fst hashed = dict_fromkeys (ps_changed p @ ps_evidence p) \<and> length hashed \<le> MAX_PROOF_FILES
    \<and> (\<forall>path \<in> set (ps_changed p). \<not> is_protected ws path
        \<and> (\<exists>q \<in> set (write_scopes b (ps_task_id p) (st_db s)). path_within path q))
    \<and> (\<forall>ph \<in> set hashed. hashed_between (br_sha256 b) dk ws (w_calls (st_world s)) k ph
        \<and> identical_between dk ws (Suc k) (w_calls (st_world t)) (fst ph) (fh_identity (snd ph)))"
proof -
  obtain p hashed and u v :: "'a proof_db_scheme pstate" where c: "validate_proof b ws args = Inr p"
    "hash_proof_files (br_sha256 b) dk ws (ps_changed p @ ps_evidence p) u = (Inr hashed, v)" "st_db v = st_db s"
    "record_proof_tx b dk ws p (pa_arg_lease_token args) hashed v = (Inr row, t)" "later s u" "later s v"
    by (rule record_proof_run [OF assms])
  have open_paths: "\<not> is_protected ws path" if "path \<in> set (ps_changed p)" for path
    using c(1) that by (auto simp: validate_proof_def tx_simps Let_def list_ex_iff)
  note h = hash_proof_run [OF c(2)]
  have hashed: "\<forall>ph \<in> set hashed. hashed_between (br_sha256 b) dk ws (calls s) (calls v) ph"
    using h hashed_between_mono later_calls [OF c(5)] by blast
  obtain task i now where r: "fetch_one (task_is b (ps_task_id p)) (tasks (st_db s)) = Some task"
    "holds_lease b (pa_arg_lease_token args) (w_time (st_world s) (calls v)) task"
    "\<forall>path \<in> set (ps_changed p). \<exists>q \<in> set (write_scopes b (ps_task_id p) (st_db s)). path_within path q"
    "\<forall>ph \<in> set hashed. identical_between dk ws (Suc (calls v)) (calls t) (fst ph) (fh_identity (snd ph))"
    "row = new_proof b p hashed task i now" "integration_records (st_db t) = integration_records (st_db s) @ [row]"
    using record_proof_tx_run [OF c(4)] c(3) later_time [OF c(6)] by auto
  show ?thesis
    using c(1) r h hashed open_paths
    by (intro exI [of _ p] exI [of _ hashed] exI [of _ task] exI [of _ i] exI [of _ now] exI [of _ "calls v"]) simp
qed

text \<open>The holder of the demonstration task records a proof for the file it has changed.\<close>

definition demo_proof_args :: proof_args where
  "demo_proof_args = \<lparr>pa_arg_task_id = ''T1'', pa_arg_change_summary = ''fix'', pa_arg_tests = ''ran'',
     pa_arg_changed_paths = [''src/a''], pa_arg_evidence_paths = [], pa_arg_before_hashes = [(''src/a'', None)],
     pa_arg_review_ids = [], pa_arg_lease_token = Some ''tok''\<rparr>"

definition demo_proof_spec :: proof_spec where
  "demo_proof_spec = \<lparr>ps_task_id = ''T1'', ps_summary = ''fix'', ps_tests = ''ran'', ps_changed = [''src/a''], ps_evidence = [],
     ps_before = [(''src/a'', None)], ps_review_ids = []\<rparr>"

definition demo_hashed :: "string \<times> file_hash" where
  "demo_hashed = (''src/a'', \<lparr>fh_bytes = 4, fh_sha256 = ''4'', fh_prefix = [], fh_identity = (4, 7)\<rparr>)"

definition demo_record :: proof_row where
  "demo_record = new_proof demo_bridge demo_proof_spec [demo_hashed] demo_task ''id-15'' ''2026-01-01T00:00:00Z''"

abbreviation demo_in :: "nat \<Rightarrow> proof_db pstate" where
  "demo_in \<equiv> demo_at Two_Party_Required"

lemma demo_proof_valid: "validate_proof demo_bridge demo_space demo_proof_args = Inr demo_proof_spec"
proof -
  have pieces: "require_identifier ''T1'' ''task_id'' = Inr ''T1''" "normalize_path demo_space ''src/a'' = Inr ''src/a''"
    "\<not> is_protected demo_space ''src/a''" "clean_artifacts demo_sha demo_space [] None False = Inr []"
    by code_simp+
  have "py_strip ''fix'' = ''fix''" "\<not> contains_secret ''fix''" "py_strip ''ran'' = ''ran''" "\<not> contains_secret ''ran''" by code_simp+
  then have "require_text ''fix'' ''change_summary'' 20000 = Inr ''fix''" "require_text ''ran'' ''tests'' 20000 = Inr ''ran''"
    by (simp_all add: require_text_def)
  then show ?thesis
    using pieces by (simp add: validate_proof_def demo_proof_args_def demo_proof_spec_def demo_bridge_def res_bind_def res_require_def Let_def)
qed

lemma demo_file_hashed: "hash_proof_files demo_sha demo_disk demo_space [''src/a''] (demo_in 1) = (Inr [demo_hashed], demo_in 12)"
proof -
  have "case hash_proof_files demo_sha demo_disk demo_space [''src/a''] (demo_in 1) of
      (Inr h, t) \<Rightarrow> h = [demo_hashed] \<and> w_calls (st_world t) = 12 | (Inl e, t) \<Rightarrow> False"
    by code_simp
  then show ?thesis
    using quiet_run [OF forward_checks(1) readonly_proof_files]
    by (cases "hash_proof_files demo_sha demo_disk demo_space [''src/a''] (demo_in 1)") (auto split: sum.splits)
qed

lemma demo_file_unchanged: "\<exists>zs. tx_for (unchanged_since demo_disk demo_space) [demo_hashed] (demo_in 13) = (Inr zs, demo_in 15)"
proof -
  have "case tx_for (unchanged_since demo_disk demo_space) [demo_hashed] (demo_in 13) of
      (Inr zs, t) \<Rightarrow> w_calls (st_world t) = 15 | (Inl e, t) \<Rightarrow> False"
    by code_simp
  then show ?thesis
    using quiet_run [of "tx_for (unchanged_since demo_disk demo_space) [demo_hashed]", OF forward_for [OF forward_checks(3)]
        readonly_for [OF readonly_checks(2)]]
    by (cases "tx_for (unchanged_since demo_disk demo_space) [demo_hashed] (demo_in 13)") (auto split: sum.splits simp del: tx_for.simps)
qed

lemma demo_file_inside: "tx_for (inside_scope (write_scopes demo_bridge ''T1'' demo_store)) [''src/a''] (demo_in n) = (Inr [()], demo_in n)"
proof -
  have "list_ex (path_within ''src/a'') (write_scopes demo_bridge ''T1'' demo_store)" by code_simp
  then show ?thesis by (simp add: inside_scope_def tx_simps)
qed

definition demo_recording :: "proof_db pstate" where
  "demo_recording = (demo_in 17)\<lparr>st_db := demo_store\<lparr>integration_records := [demo_proof, demo_record]\<rparr>\<rparr>"

lemma demo_record_event: "succeeds (event_op demo_bridge ''proof.recorded''
    [(''record_id'', JStr ''id-15''), (''record_sha256'', JStr ''321'')] (Some ''T1'')) demo_recording"
  by code_simp

lemma demo_record_sha: "ir_record_sha256 demo_record = ''321''" "w_uuid demo_world 15 = ''id-15''" "ir_record_id demo_record = ''id-15''"
  by code_simp+

lemma record_proof_tx_granted:
  assumes "require_lease b (ps_task_id p) tok s = (Inr task, u)"
    and "tx_for (inside_scope (write_scopes b (ps_task_id p) (st_db u))) (ps_changed p) u = (Inr ys, v)"
    and "tx_for (unchanged_since dk ws) hashed v = (Inr zs, w)"
    and "row = new_proof b p hashed task (uuid_at w) (utc_at (tick w))"
    and "\<forall>r \<in> set (integration_records (st_db w)). ir_record_id r \<noteq> ir_record_id row"
    and "event_op b ''proof.recorded'' [(''record_id'', JStr (uuid_at w)), (''record_sha256'', JStr (ir_record_sha256 row))]
       (Some (ps_task_id p)) ((tick (tick w))\<lparr>st_db := (st_db w)\<lparr>integration_records := integration_records (st_db w) @ [row]\<rparr>\<rparr>)
      = (Inr q, t)"
  shows "record_proof_tx b dk ws p tok hashed s = (Inr row, t)"
  using assms by (simp add: record_proof_tx_def tx_simps insert_proof_def list_ex_iff Let_def)

lemma demo_records: "\<exists>t. record_proof demo_bridge demo_disk demo_space demo_proof_args demo_board = (Inr demo_record, t)"
proof -
  have spec: "ps_task_id demo_proof_spec = ''T1''" "ps_changed demo_proof_spec = [''src/a'']" "ps_evidence demo_proof_spec = []"
    "pa_arg_lease_token demo_proof_args = Some ''tok''" "br_sha256 demo_bridge = demo_sha"
    by (simp_all add: demo_proof_spec_def demo_proof_args_def demo_bridge_def)
  have lease: "require_lease demo_bridge ''T1'' (Some ''tok'') (demo_in n) = (Inr demo_task, demo_in (Suc n))" if "n < 700" for n
    using demo_lease_at [OF that, of Two_Party_Required] by (simp add: demo_two_party)
  obtain zs where zs: "tx_for (unchanged_since demo_disk demo_space) [demo_hashed] (demo_in 13) = (Inr zs, demo_in 15)"
    using demo_file_unchanged by blast
  have world: "uuid_at (demo_in 15) = ''id-15''" using demo_record_sha(2) by (simp add: demo_at_def)
  have rows: "integration_records demo_store = [demo_proof]" "ir_record_id demo_proof = ''p1''"
    by (simp_all add: demo_store_def demo_proof_def)
  have "\<exists>t. record_proof_tx demo_bridge demo_disk demo_space demo_proof_spec (Some ''tok'') [demo_hashed] (demo_in 12) = (Inr demo_record, t)"
    by (rule exI, rule record_proof_tx_granted [where u = "demo_in 13" and task = demo_task and v = "demo_in 13" and w = "demo_in 15"
          and ys = "[()]" and zs = zs])
      (use lease [of 12] zs world rows demo_record_sha succeeds_run [OF demo_record_event] in
        \<open>simp_all add: spec demo_file_inside demo_ticks demo_two_party demo_record_def [symmetric] demo_recording_def numeral_eq_Suc del: tx_for.simps\<close>)
  then show ?thesis
    using lease [of 0] demo_file_hashed
    by (auto simp: record_proof_def tx_simps demo_proof_valid spec demo_file_inside demo_ticks demo_two_party(2) demo_two_party(3) [symmetric]
        simp del: tx_for.simps)
qed

theorem record_proof_checks_witness:
  "\<exists>q \<in> set (write_scopes demo_bridge ''T1'' demo_store). path_within ''src/a'' q"
proof -
  obtain t where run: "record_proof demo_bridge demo_disk demo_space demo_proof_args demo_board = (Inr demo_record, t)"
    using demo_records by blast
  have "ps_task_id demo_proof_spec = ''T1''" "''src/a'' \<in> set (ps_changed demo_proof_spec)" "st_db demo_board = demo_store"
    by (simp_all add: demo_proof_spec_def demo_board_def)
  then show ?thesis using record_proof_checks [OF run] demo_proof_valid by auto
qed

end
