(* ===== verification/ReviewLimits.thy ===== *)
theory ReviewLimits
  imports ReviewProperties
begin

text \<open>
  What reviews do not promise: a request does not depend on the content of the files it names, in
  \<open>two_party_required\<close> mode without a configured peer any approval counts, and in \<open>presence_aware\<close>
  mode the absence of the configured peers is not enough to complete alone.
\<close>

section \<open>Artifacts of a request\<close>

text \<open>A path that is neither a staged attachment nor the manifest of a release gate: these two are read
  when a request names them.\<close>

definition plain_artifact :: "workspace \<Rightarrow> string \<Rightarrow> bool" where
  "plain_artifact ws value = (case normalize_path ws value of
     Inl e \<Rightarrow> True
   | Inr p \<Rightarrow> \<not> starts_with p (CHAT_ATTACHMENT_ROOT @ ''/'') \<and> \<not> release_gate_manifest p)"

lemma other_content_path [simp]:
  "normalize_path (ws\<lparr>ws_file := f\<rparr>) p = normalize_path ws p" "is_protected (ws\<lparr>ws_file := f\<rparr>) p = is_protected ws p"
  by (simp_all add: normalize_path_def is_protected_def Let_def)

lemma clean_artifact_content:
  assumes "\<not> starts_with p (CHAT_ATTACHMENT_ROOT @ ''/'')" and "\<not> release_gate_manifest p"
    and "{q. (f q = None) \<noteq> (ws_file ws q = None)} = {}"
  shows "clean_artifact H (ws\<lparr>ws_file := f\<rparr>) p = clean_artifact H ws p"
proof (cases "normalize_path ws p")
  case (Inr r)
  have "f r = None \<longleftrightarrow> ws_file ws r = None" using assms(3) by blast
  then show ?thesis
    using assms(1,2) Inr by (cases "f r"; cases "ws_file ws r") (simp_all add: clean_artifact_def res_bind_def res_require_def Let_def)
qed (simp add: clean_artifact_def res_bind_def)

lemma clean_artifacts_content:
  assumes "list_all (plain_artifact ws) vals" and "{q. (f q = None) \<noteq> (ws_file ws q = None)} = {}"
  shows "clean_artifacts_loop H (ws\<lparr>ws_file := f\<rparr>) reject seen vals = clean_artifacts_loop H ws reject seen vals"
  using assms(1)
proof (induction vals arbitrary: seen)
  case (Cons v vs)
  show ?case
  proof (cases "normalize_path ws v")
    case (Inr p)
    then have "clean_artifact H (ws\<lparr>ws_file := f\<rparr>) p = clean_artifact H ws p"
      using Cons.prems clean_artifact_content [OF _ _ assms(2)] by (simp add: plain_artifact_def)
    then show ?thesis using Cons Inr by (simp add: res_bind_def)
  qed (simp add: res_bind_def)
qed simp

text \<open>a review request binds paths, not contents. Two workspaces that resolve paths alike and have the
  same files, but with any contents, give the same request, the same stored row and the same event.\<close>

theorem request_ignores_content:
  assumes "list_all (plain_artifact ws) paths" and "{q. (f q = None) \<noteq> (ws_file ws q = None)} = {}"
  shows "request_review b (ws\<lparr>ws_file := f\<rparr>) i recipient question paths tok s
    = request_review b ws i recipient question paths tok s"
proof -
  have "clean_artifacts H (ws\<lparr>ws_file := f\<rparr>) paths None False = clean_artifacts H ws paths None False" for H
    using clean_artifacts_content [OF assms] by (simp add: clean_artifacts_def)
  then show ?thesis by (simp add: request_review_def)
qed

theorem request_ignores_content_witness:
  "request_review demo_bridge (demo_space\<lparr>ws_file := (\<lambda>p. Some ''other text'')\<rparr>) ''T1'' ''peer'' ''ok?'' [''src/a''] (Some ''tok'') demo_board
    = request_review demo_bridge demo_space ''T1'' ''peer'' ''ok?'' [''src/a''] (Some ''tok'') demo_board"
proof (rule request_ignores_content)
  show "list_all (plain_artifact demo_space) [''src/a'']" by code_simp
  show "{q. (Some ''other text'' = None) \<noteq> (ws_file demo_space q = None)} = {}" by (simp add: demo_space_def)
qed

section \<open>Policies\<close>

text \<open>C35: in \<open>two_party_required\<close> mode without a configured peer the gate is open as soon as there is any
  counted approval: the reviewer is not compared with the agent that holds the task, so an approval that
  the present holder gave while another agent held the task suffices.\<close>

theorem two_party_any_reviewer:
  fixes s t :: "'a task_db_scheme pstate"
  assumes "review_summary b ttl i s = (Inr rep, t)" and "tk_approval_mode (rr_task rep) = Two_Party_Required"
    and "tk_required_peer (rr_task rep) = None"
  shows "rr_ready_for_completion rep
    \<longleftrightarrow> (\<exists>r \<in> set (peer_reviews (st_db s)). counted_review b (rr_task rep) (peer_calls (st_db s)) r \<and> rv_verdict r = Approved)"
proof -
  obtain online where "rr_ready_for_completion rep = fst (review_policy (review_gate (rr_task rep) (required_peers_of b (rr_task rep) (st_db s))
      (approved_reviewers (counted b (rr_task rep) (st_db s))) online))"
    using review_summary_run [OF assms(1)] by blast
  then have "rr_ready_for_completion rep \<longleftrightarrow> approved_reviewers (counted b (rr_task rep) (st_db s)) \<noteq> []"
    using assms(2,3) by (simp add: review_policy_def review_gate_def Let_def)
  also have "\<dots> \<longleftrightarrow> set (approved_reviewers (counted b (rr_task rep) (st_db s))) \<noteq> {}" by (simp only: set_empty)
  also have "\<dots> \<longleftrightarrow> (\<exists>r \<in> set (peer_reviews (st_db s)). counted_review b (rr_task rep) (peer_calls (st_db s)) r \<and> rv_verdict r = Approved)"
    by (auto simp: approved_reviewers_def counted_def)
  finally show ?thesis .
qed

text \<open>The holder of the demonstration task is its only reviewer, and no peer is configured.\<close>

definition demo_alone :: proof_db where
  "demo_alone = demo_store\<lparr>tasks := [demo_task\<lparr>tk_required_peer := None\<rparr>], task_required_peers := [],
     peer_calls := [demo_call\<lparr>pc_requester := ''peer'', pc_recipient := ''lead''\<rparr>],
     peer_reviews := [demo_review\<lparr>rv_reviewer := ''lead''\<rparr>]\<rparr>"

lemma demo_alone_summary:
  "case review_summary demo_bridge 60 ''T1'' \<lparr>st_db = demo_alone, st_world = demo_world\<rparr> of
     (Inr r, t) \<Rightarrow> rr_task r = demo_task\<lparr>tk_required_peer := None\<rparr> | (Inl e, t) \<Rightarrow> False"
  by code_simp

theorem two_party_any_reviewer_witness:
  "\<exists>rep t. review_summary demo_bridge 60 ''T1'' \<lparr>st_db = demo_alone, st_world = demo_world\<rparr> = (Inr rep, t)
    \<and> rr_ready_for_completion rep \<and> tk_claimed_by (rr_task rep) = Some ''lead'' \<and> map rv_reviewer (peer_reviews demo_alone) = [''lead'']"
proof -
  obtain rep t where run: "review_summary demo_bridge 60 ''T1'' \<lparr>st_db = demo_alone, st_world = demo_world\<rparr> = (Inr rep, t)"
    and task: "rr_task rep = demo_task\<lparr>tk_required_peer := None\<rparr>"
    using demo_alone_summary
    by (cases "review_summary demo_bridge 60 ''T1'' \<lparr>st_db = demo_alone, st_world = demo_world\<rparr>") (auto split: sum.splits)
  have mode: "tk_approval_mode (rr_task rep) = Two_Party_Required" "tk_required_peer (rr_task rep) = None" "tk_claimed_by (rr_task rep) = Some ''lead''"
    by (simp_all add: task demo_task_def)
  have review: "peer_reviews demo_alone = [demo_review\<lparr>rv_reviewer := ''lead''\<rparr>]" by (simp add: demo_alone_def)
  have "counted_review demo_bridge (demo_task\<lparr>tk_required_peer := None\<rparr>) (peer_calls demo_alone) (demo_review\<lparr>rv_reviewer := ''lead''\<rparr>)"
    "rv_verdict (demo_review\<lparr>rv_reviewer := ''lead''\<rparr>) = Approved"
    by code_simp+
  then have "rr_ready_for_completion rep" using two_party_any_reviewer [OF run mode(1,2)] review task by simp
  then show ?thesis using run mode(3) review by simp
qed

text \<open>in \<open>presence_aware\<close> mode the task is completed alone only when no other agent is online. While
  the configured peers are offline but another agent is online and none of these has approved, the
  gate stays closed with the reason \<open>online_peer_quorum_pending\<close>.\<close>

theorem presence_aware_waits_for_others:
  assumes "tk_approval_mode task = Presence_Aware" and "common peers online = []" and "online \<noteq> []" and "common online approved = []"
  shows "review_policy (review_gate task peers approved online) = (False, ''online_peer_quorum_pending'')"
proof -
  have "1 \<le> min (max 1 (tk_review_quorum task)) (int (length online))" using assms(3) by (cases online) auto
  then show ?thesis
    using assms by (simp add: review_policy_def review_gate_def online_quorum_def Let_def)
qed

theorem presence_aware_waits_for_others_witness:
  "review_policy (review_gate (demo_task_in Presence_Aware) [''peer''] [] [''third'']) = (False, ''online_peer_quorum_pending'')"
proof -
  have "tk_approval_mode (demo_task_in Presence_Aware) = Presence_Aware" by (simp add: demo_task_in_def)
  then show ?thesis by (rule presence_aware_waits_for_others) (simp_all add: common_def)
qed

end
