(* ===== verification/Routes.thy ===== *)
theory Routes
  imports Discussions
begin

text \<open>
  Model routes of \<open>bridge.py\<close>: \<open>upsert_route_profile\<close> registers an immutable, digest-bound description of
  the model an agent must answer with, \<open>_resolve_route_request\<close> turns the route arguments of a message
  into the request stored with it, and \<open>_evaluate_route\<close> compares a stored request with the identity of
  the runtime that reads the message. Optional text is None or text; the code's truth test of a value
  is \<open>is_set\<close>, its \<open>x or y\<close> is \<open>or_else\<close>. The text of the timeout argument is \<open>str(value)\<close>.
\<close>

definition MAX_ROUTE_INFERENCE_TIMEOUT_SECONDS :: int where
  "MAX_ROUTE_INFERENCE_TIMEOUT_SECONDS = 300"

definition ROUTE_CLASSES :: "string list" where
  "ROUTE_CLASSES = [''official'', ''relay'', ''local'']"

definition RESERVED_INTERNAL_AGENT_IDS :: "string list" where
  "RESERVED_INTERNAL_AGENT_IDS =
     [CONTROL_ROOM_WORKFLOW_ID, ''control-room-migrator'', ''mailbox-supervisor'', ''peerbridge-orchestrator'']"

definition is_set :: "string option \<Rightarrow> bool" where
  "is_set v = (case v of None \<Rightarrow> False | Some t \<Rightarrow> t \<noteq> [])"

definition or_else :: "string option \<Rightarrow> string option \<Rightarrow> string option" where
  "or_else x y = (if is_set x then x else y)"

section \<open>Validators\<close>

text \<open>\<open>SAFE_MODEL_ID.fullmatch\<close> with \<open>[A-Za-z0-9_.:/-]{1,500}\<close>.\<close>

definition safe_model_id :: "string \<Rightarrow> bool" where
  "safe_model_id s = (1 \<le> length s \<and> length s \<le> 500 \<and> list_all (\<lambda>c. safe_id_char c \<or> c = CHR ''/'') s)"

definition optional_model_identifier :: "string option \<Rightarrow> string \<Rightarrow> exn + string option" where
  "optional_model_identifier value label =
    (let text = py_strip (text_or_empty value) in
     if text = [] then Inr None
     else if \<not> safe_model_id text then Inl (BridgeError (label
       @ '' must contain only letters, digits, dot, underscore, colon, slash or dash''))
     else Inr (Some text))"

definition optional_route_class :: "string option \<Rightarrow> string \<Rightarrow> exn + string option" where
  "optional_route_class value label =
    (let text = py_lower (py_strip (text_or_empty value)) in
     if text = [] then Inr None
     else if text \<notin> set ROUTE_CLASSES then Inl (BridgeError (label @ '' must be official, relay or local''))
     else Inr (Some text))"

text \<open>CPython refuses to convert more than 4300 digits.\<close>

definition optional_inference_timeout_seconds :: "string option \<Rightarrow> exn + int option" where
  "optional_inference_timeout_seconds value =
    (let text = py_strip (text_or_empty value) in
     if text = [] then Inr None
     else if \<not> list_all is_digit text then Inl (BridgeError ''inference_timeout_seconds must be an integer'')
     else if 4300 < length text then Inl (ValueError (''Exceeds the limit (4300 digits) for integer string conversion: value has ''
       @ show_nat (length text) @ '' digits; use sys.set_int_max_str_digits() to increase the limit''))
     else let timeout_seconds = int (digits_value text) in
       if \<not> (1 \<le> timeout_seconds \<and> timeout_seconds \<le> MAX_ROUTE_INFERENCE_TIMEOUT_SECONDS)
       then Inl (BridgeError (''inference_timeout_seconds must be between 1 and ''
         @ show_int MAX_ROUTE_INFERENCE_TIMEOUT_SECONDS))
       else Inr (Some timeout_seconds))"

section \<open>Route profiles\<close>

record route_identity =
  rp_scope :: string
  rp_route_id :: string
  rp_agent_id :: string
  rp_client_name :: "string option"
  rp_provider_id :: "string option"
  rp_model_id :: "string option"
  rp_response_model_id :: "string option"
  rp_inference_timeout_seconds :: "int option"
  rp_reasoning_mode :: "string option"
  rp_route_class :: string
  rp_enabled :: bool

record route_row = route_identity +
  rp_created_utc :: string
  rp_updated_utc :: string
  rp_profile_sha256 :: string

record route_db = disc_db +
  route_profiles :: "route_row list"

definition route_profile_identity_payload :: "'a route_identity_scheme \<Rightarrow> (string \<times> json) list" where
  "route_profile_identity_payload r =
     [(''scope'', JStr (rp_scope r)), (''route_id'', JStr (rp_route_id r)), (''agent_id'', JStr (rp_agent_id r)),
      (''client_name'', json_opt JStr (rp_client_name r)), (''provider_id'', json_opt JStr (rp_provider_id r)),
      (''model_id'', json_opt JStr (rp_model_id r)), (''response_model_id'', json_opt JStr (rp_response_model_id r)),
      (''inference_timeout_seconds'', json_opt JInt (rp_inference_timeout_seconds r)),
      (''reasoning_mode'', json_opt JStr (rp_reasoning_mode r)), (''route_class'', JStr (rp_route_class r)),
      (''enabled'', JBool (rp_enabled r))]"

definition obj_pop :: "(string \<times> json) list \<Rightarrow> string \<Rightarrow> (string \<times> json) list" where
  "obj_pop kvs key = filter (\<lambda>(k, v). k \<noteq> key) kvs"

definition B_profile_sha :: exn where
  "B_profile_sha = BridgeError ''route profile identity SHA mismatch''"

text \<open>The current digest, the digest of schema 21 (no timeout), or that of before schema 17 (no response model).\<close>

definition verified_route_profile_sha256 :: "(string \<Rightarrow> string) \<Rightarrow> route_row \<Rightarrow> exn + string" where
  "verified_route_profile_sha256 H row =
    (let stored = rp_profile_sha256 row;
         identity = route_profile_identity_payload row;
         v21_identity = obj_pop identity ''inference_timeout_seconds'';
         legacy_identity = obj_pop v21_identity ''response_model_id'' in
     if \<not> is_sha256_hex stored then Inl B_profile_sha
     else if stored = stable_sha256 H (JObj identity) then Inr stored
     else if rp_inference_timeout_seconds row \<noteq> None then Inl B_profile_sha
     else if stored = stable_sha256 H (JObj v21_identity) then Inr stored
     else if rp_response_model_id row = None \<and> stored = stable_sha256 H (JObj legacy_identity) then Inr stored
     else Inl B_profile_sha)"

record route_args =
  rt_route_id :: string
  rt_agent_id :: string
  rt_client_name :: "string option"
  rt_provider_id :: "string option"
  rt_model_id :: "string option"
  rt_response_model_id :: "string option"
  rt_inference_timeout_seconds :: "string option"
  rt_reasoning_mode :: "string option"
  rt_route_class :: "string option"
  rt_enabled :: "bool option"

text \<open>The checks before the transaction.\<close>

definition validate_route :: "bridge \<Rightarrow> route_args \<Rightarrow> exn + route_identity" where
  "validate_route b args =
     res_bind (require_identifier (rt_route_id args) ''route_id'') (\<lambda>route_id.
     res_bind (require_identifier (rt_agent_id args) ''agent_id'') (\<lambda>agent_id.
     res_require (\<not> (agent_id \<in> set RESERVED_INTERNAL_AGENT_IDS \<and> br_agent_id b \<noteq> agent_id))
       (BridgeError ''reserved internal Agent cannot be configured as a route'')
    (res_require (br_agent_id b = HUMAN_OPERATOR_ID \<or> br_agent_id b = agent_id)
       (BridgeError ''only the human operator or route owner can register a route profile'')
    (res_bind (optional_identifier (rt_client_name args) ''client_name'') (\<lambda>client_name.
     res_bind (optional_identifier (rt_provider_id args) ''provider_id'') (\<lambda>provider_id.
     res_bind (optional_model_identifier (rt_model_id args) ''model_id'') (\<lambda>model_id.
     res_bind (optional_model_identifier (rt_response_model_id args) ''response_model_id'') (\<lambda>response_model_id.
     res_bind (optional_inference_timeout_seconds (rt_inference_timeout_seconds args)) (\<lambda>timeout_seconds.
     res_bind (optional_identifier (rt_reasoning_mode args) ''reasoning_mode'') (\<lambda>reasoning_mode.
     let route_class = py_lower (py_strip (if is_set (rt_route_class args) then text_or_empty (rt_route_class args) else ''local'')) in
     res_require (route_class \<in> set ROUTE_CLASSES) (BridgeError ''route_class must be official, relay or local'')
    (res_require (is_set provider_id \<or> is_set model_id \<or> is_set reasoning_mode)
       (BridgeError ''a route profile requires provider_id, model_id or reasoning_mode'')
    (Inr \<lparr>rp_scope = br_scope b, rp_route_id = route_id, rp_agent_id = agent_id, rp_client_name = client_name,
       rp_provider_id = provider_id, rp_model_id = model_id, rp_response_model_id = response_model_id,
       rp_inference_timeout_seconds = timeout_seconds, rp_reasoning_mode = reasoning_mode,
       rp_route_class = route_class, rp_enabled = (case rt_enabled args of None \<Rightarrow> True | Some e \<Rightarrow> e)\<rparr>))))))))))))"

definition route_is :: "string \<Rightarrow> string \<Rightarrow> route_row \<Rightarrow> bool" where
  "route_is scope route_id r = (rp_scope r = scope \<and> rp_route_id r = route_id)"

definition new_route :: "bridge \<Rightarrow> route_identity \<Rightarrow> string \<Rightarrow> route_row" where
  "new_route b profile now = route_identity.extend profile
     (route_row.fields now now (stable_sha256 (br_sha256 b) (JObj (route_profile_identity_payload profile))))"

text \<open>The answer: the profile, its digest and its \<open>updated_utc\<close>.\<close>

definition upsert_route_profile :: "bridge \<Rightarrow> route_args
    \<Rightarrow> ('a route_db_scheme, route_identity \<times> string \<times> string) op" where
  "upsert_route_profile b args =
     tx_bind (tx_lift (validate_route b args)) (\<lambda>profile.
     tx_bind utc_now (\<lambda>now.
     let row = new_route b profile now in
     with_connection (
       tx_bind (tx_query (\<lambda>d. fetch_one (route_is (br_scope b) (rp_route_id profile)) (route_profiles d))) (\<lambda>existing.
       case existing of
         Some old \<Rightarrow>
           tx_bind (tx_lift (verified_route_profile_sha256 (br_sha256 b) old)) (\<lambda>profile_sha.
           tx_then (tx_require (route_profile_identity_payload old = route_profile_identity_payload profile)
             (BridgeError ''route profiles are immutable; create a new route_id''))
           (tx_return (profile, profile_sha, rp_updated_utc old)))
       | None \<Rightarrow>
           tx_then (tx_execute (\<lambda>d. d\<lparr>route_profiles := route_profiles d @ [row]\<rparr>))
          (tx_then (event_op b ''route.profile_upserted''
             [(''route_id'', JStr (rp_route_id profile)), (''agent_id'', JStr (rp_agent_id profile)),
              (''profile_sha256'', JStr (rp_profile_sha256 row)), (''enabled'', JBool (rp_enabled profile))] None)
           (tx_return (profile, rp_profile_sha256 row, now)))))))"

section \<open>Route requests of messages\<close>

record route_request_args =
  ra_route_profile_id :: "string option"
  ra_requested_provider_id :: "string option"
  ra_requested_model_id :: "string option"
  ra_requested_reasoning_mode :: "string option"
  ra_requested_route_class :: "string option"

text \<open>
  A route request: \<open>rq_profile_sha256\<close> is None when the dictionary has no key \<open>route_profile_sha256\<close>,
  \<open>Some v\<close> when it has the value \<open>v\<close>.
\<close>

record route_request =
  rq_route_profile_id :: "string option"
  rq_target_agent_id :: string
  rq_provider_id :: "string option"
  rq_model_id :: "string option"
  rq_reasoning_mode :: "string option"
  rq_route_class :: "string option"
  rq_profile_sha256 :: "string option option"
  rq_request_sha256 :: "string option"

definition request_fields :: "route_request \<Rightarrow> (string \<times> json) list" where
  "request_fields q =
     [(''route_profile_id'', json_opt JStr (rq_route_profile_id q)), (''target_agent_id'', JStr (rq_target_agent_id q)),
      (''requested_provider_id'', json_opt JStr (rq_provider_id q)), (''requested_model_id'', json_opt JStr (rq_model_id q)),
      (''requested_reasoning_mode'', json_opt JStr (rq_reasoning_mode q)),
      (''requested_route_class'', json_opt JStr (rq_route_class q))]
     @ (case rq_profile_sha256 q of None \<Rightarrow> [] | Some v \<Rightarrow> [(''route_profile_sha256'', json_opt JStr v)])"

definition request_digest :: "(string \<Rightarrow> string) \<Rightarrow> route_request \<Rightarrow> string" where
  "request_digest H q = stable_sha256 H (JObj (request_fields q))"

definition request_json :: "route_request option \<Rightarrow> json" where
  "request_json v = (case v of None \<Rightarrow> JNull
     | Some q \<Rightarrow> JObj (request_fields q @ [(''route_request_sha256'', json_opt JStr (rq_request_sha256 q))]))"

text \<open>The part of a request the message content binds: all but the profile digest.\<close>

definition route_request_content_binding :: "route_request option \<Rightarrow> json" where
  "route_request_content_binding v = (case v of None \<Rightarrow> JNull
     | Some q \<Rightarrow> JObj (obj_pop (request_fields q @ [(''route_request_sha256'', json_opt JStr (rq_request_sha256 q))])
         ''route_profile_sha256''))"

text \<open>One field of the profile that the request leaves open is taken over; a different one is refused.\<close>

definition merge_requested :: "string \<Rightarrow> string \<Rightarrow> string option \<Rightarrow> string option \<Rightarrow> exn + string option" where
  "merge_requested route_profile_id key requested profile_value =
     res_require (\<not> (is_set requested \<and> is_set profile_value \<and> requested \<noteq> profile_value))
       (BridgeError (''requested_'' @ key @ '' conflicts with route profile '' @ route_profile_id))
       (Inr (or_else requested profile_value))"

definition enabled_route :: "string \<Rightarrow> string \<Rightarrow> route_row \<Rightarrow> bool" where
  "enabled_route scope route_id r = (route_is scope route_id r \<and> rp_enabled r)"

definition merge_profile :: "bridge \<Rightarrow> route_row list \<Rightarrow> string \<Rightarrow> route_request \<Rightarrow> exn + route_request" where
  "merge_profile b profiles route_profile_id q =
    (case fetch_one (enabled_route (br_scope b) route_profile_id) profiles of
       None \<Rightarrow> Inl (BridgeError ''route profile is not found or is disabled'')
     | Some row \<Rightarrow>
         res_bind (verified_route_profile_sha256 (br_sha256 b) row) (\<lambda>profile_sha.
         res_require (rq_target_agent_id q = rp_agent_id row) (BridgeError (''route profile '' @ route_profile_id
           @ '' targets '' @ rp_agent_id row @ '', not '' @ rq_target_agent_id q))
        (res_bind (merge_requested route_profile_id ''provider_id'' (rq_provider_id q) (rp_provider_id row)) (\<lambda>provider_id.
         res_bind (merge_requested route_profile_id ''model_id'' (rq_model_id q) (rp_model_id row)) (\<lambda>model_id.
         res_bind (merge_requested route_profile_id ''reasoning_mode'' (rq_reasoning_mode q) (rp_reasoning_mode row)) (\<lambda>reasoning_mode.
         res_bind (merge_requested route_profile_id ''route_class'' (rq_route_class q) (Some (rp_route_class row))) (\<lambda>route_class.
         Inr (q\<lparr>rq_provider_id := provider_id, rq_model_id := model_id, rq_reasoning_mode := reasoning_mode,
           rq_route_class := route_class, rq_profile_sha256 := Some (Some profile_sha)\<rparr>))))))))"

definition resolve_route_request :: "bridge \<Rightarrow> route_row list \<Rightarrow> string \<Rightarrow> route_request_args \<Rightarrow> exn + route_request option" where
  "resolve_route_request b profiles recipient args =
     res_bind (optional_identifier (ra_route_profile_id args) ''route_profile_id'') (\<lambda>route_profile_id.
     res_bind (optional_identifier (ra_requested_provider_id args) ''requested_provider_id'') (\<lambda>provider_id.
     res_bind (optional_identifier (ra_requested_model_id args) ''requested_model_id'') (\<lambda>model_id.
     res_bind (optional_identifier (ra_requested_reasoning_mode args) ''requested_reasoning_mode'') (\<lambda>reasoning_mode.
     res_bind (optional_route_class (ra_requested_route_class args) ''requested_route_class'') (\<lambda>route_class.
     let q = \<lparr>rq_route_profile_id = route_profile_id, rq_target_agent_id = recipient, rq_provider_id = provider_id,
         rq_model_id = model_id, rq_reasoning_mode = reasoning_mode, rq_route_class = route_class,
         rq_profile_sha256 = None, rq_request_sha256 = None\<rparr> in
     res_bind (case route_profile_id of None \<Rightarrow> Inr q | Some p \<Rightarrow> merge_profile b profiles p q) (\<lambda>m.
     if route_profile_id = None \<and> \<not> (is_set (rq_provider_id m) \<or> is_set (rq_model_id m)
         \<or> is_set (rq_reasoning_mode m) \<or> is_set (rq_route_class m)) then Inr None
     else res_require (recipient \<noteq> ''*'') (BridgeError ''model-routed messages require one explicit recipient'')
         (res_require (rq_route_class m \<noteq> None)
            (BridgeError ''routed messages require route_profile_id or requested_route_class'')
         (Inr (Some (m\<lparr>rq_request_sha256 := Some (request_digest (br_sha256 b) m)\<rparr>))))))))))"

section \<open>Evaluating a stored request\<close>

definition route_request_from_row :: "msg_row \<Rightarrow> route_request option" where
  "route_request_from_row row =
    (let q = \<lparr>rq_route_profile_id = mg_route_profile_id row, rq_target_agent_id = mg_recipient row,
         rq_provider_id = mg_requested_provider_id row, rq_model_id = mg_requested_model_id row,
         rq_reasoning_mode = mg_requested_reasoning_mode row, rq_route_class = mg_requested_route_class row,
         rq_profile_sha256 = (if is_set (mg_route_profile_id row) \<or> mg_route_profile_sha256 row \<noteq> None
           then Some (mg_route_profile_sha256 row) else None),
         rq_request_sha256 = mg_route_request_sha256 row\<rparr> in
     if \<not> is_set (rq_request_sha256 q) \<and> \<not> (is_set (rq_route_profile_id q) \<or> is_set (rq_provider_id q)
         \<or> is_set (rq_model_id q) \<or> is_set (rq_reasoning_mode q) \<or> is_set (rq_route_class q)
         \<or> is_set (case rq_profile_sha256 q of None \<Rightarrow> None | Some v \<Rightarrow> v))
     then None else Some q)"

datatype route_status = Not_Requested | Route_Verified | Route_Mismatch

fun route_status_text :: "route_status \<Rightarrow> string" where
  "route_status_text Not_Requested = ''not_requested''"
| "route_status_text Route_Verified = ''verified''"
| "route_status_text Route_Mismatch = ''mismatch''"

text \<open>The answer without its copy \<open>observed\<close> of the bridge's own identity.\<close>

record route_evaluation =
  re_status :: route_status
  re_request :: "route_request option"
  re_mismatches :: "string list"

definition profile_identity_matches :: "bridge \<Rightarrow> route_row list \<Rightarrow> string \<Rightarrow> string option \<Rightarrow> bool" where
  "profile_identity_matches b profiles route_profile_id route_profile_sha256 =
    (case fetch_one (enabled_route (br_scope b) route_profile_id) profiles of
       None \<Rightarrow> False
     | Some current \<Rightarrow> (case verified_route_profile_sha256 (br_sha256 b) current of
         Inl e \<Rightarrow> False
       | Inr current_sha256 \<Rightarrow> (case route_profile_sha256 of None \<Rightarrow> False
           | Some sha \<Rightarrow> is_sha256_hex sha \<and> sha = current_sha256)))"

definition profile_mismatch :: "bridge \<Rightarrow> route_row list \<Rightarrow> route_request \<Rightarrow> bool" where
  "profile_mismatch b profiles q =
    (let sha = (case rq_profile_sha256 q of None \<Rightarrow> None | Some v \<Rightarrow> v) in
     if is_set (rq_route_profile_id q)
     then \<not> profile_identity_matches b profiles (text_or_empty (rq_route_profile_id q)) sha
     else sha \<noteq> None)"

definition requested_differs :: "string option \<Rightarrow> string option \<Rightarrow> bool" where
  "requested_differs expected observed = (is_set expected \<and> expected \<noteq> observed)"

definition is_route_class :: "string option \<Rightarrow> bool" where
  "is_route_class v = (case v of None \<Rightarrow> False | Some c \<Rightarrow> c \<in> set ROUTE_CLASSES)"

definition route_mismatches :: "bridge \<Rightarrow> route_row list \<Rightarrow> string \<Rightarrow> route_request \<Rightarrow> string list" where
  "route_mismatches b profiles consumer q =
     (if consumer \<noteq> br_agent_id b \<or> rq_target_agent_id q \<noteq> br_agent_id b then [''agent_id''] else [])
     @ (if rq_request_sha256 q \<noteq> Some (request_digest (br_sha256 b) q) then [''route_request_sha256''] else [])
     @ (if profile_mismatch b profiles q then [''route_profile_sha256''] else [])
     @ (if \<not> is_route_class (rq_route_class q) \<or> \<not> is_route_class (br_route_class b) \<or> rq_route_class q \<noteq> br_route_class b
        then [''route_class''] else [])
     @ (if requested_differs (rq_provider_id q) (br_provider_id b) then [''provider_id''] else [])
     @ (if requested_differs (rq_model_id q) (br_model_id b) then [''model_id''] else [])
     @ (if requested_differs (rq_reasoning_mode q) (br_reasoning_mode b) then [''reasoning_mode''] else [])"

definition evaluate_route :: "bridge \<Rightarrow> route_row list \<Rightarrow> msg_row \<Rightarrow> string \<Rightarrow> route_evaluation" where
  "evaluate_route b profiles row consumer =
    (case route_request_from_row row of
       None \<Rightarrow> \<lparr>re_status = Not_Requested, re_request = None, re_mismatches = []\<rparr>
     | Some q \<Rightarrow> let mismatches = route_mismatches b profiles consumer q in
         \<lparr>re_status = (if mismatches = [] then Route_Verified else Route_Mismatch), re_request = Some q,
          re_mismatches = mismatches\<rparr>)"

end
