(* ===== verification/Rooms.thy ===== *)
theory Rooms
  imports Routes TaskPaths
begin

text \<open>
  Rooms of \<open>bridge.py\<close>: \<open>create_room\<close>, the seats of a room with their sessions and roles (\<open>join_room\<close>,
  \<open>set_room_member_role\<close>, \<open>leave_room\<close>), who may manage them, the automation policy of a room and the
  rooms an agent sees. Every row stores the digest of its other columns. The built-in room \<open>lobby\<close>
  has implicit members: only a row with the status \<open>left\<close> excludes an agent.
\<close>

definition DEFAULT_ROOM_ID :: string where "DEFAULT_ROOM_ID = ''lobby''"
definition DEFAULT_ROOM_ROLE :: string where "DEFAULT_ROOM_ROLE = ''equal-participant''"

definition ROOM_MEMBER_ROLES :: "string list" where
  "ROOM_MEMBER_ROLES = [DEFAULT_ROOM_ROLE, ''researcher'', ''implementer'', ''reviewer'', ''custom'']"

definition ROOM_AUTOMATION_MODES :: "string list" where
  "ROOM_AUTOMATION_MODES = [''off'', ''once'', ''discussion'', ''free'', ''goal'']"

definition DEFAULT_DISCUSSION_MAX_ROUNDS :: int where "DEFAULT_DISCUSSION_MAX_ROUNDS = 4"
definition DEFAULT_DISCUSSION_MAX_MESSAGES :: int where "DEFAULT_DISCUSSION_MAX_MESSAGES = 40"
definition DEFAULT_DISCUSSION_STAGNATION_ROUNDS :: int where "DEFAULT_DISCUSSION_STAGNATION_ROUNDS = 2"
definition MAX_DISCUSSION_ROUNDS :: int where "MAX_DISCUSSION_ROUNDS = 20"
definition MAX_DISCUSSION_MESSAGES :: int where "MAX_DISCUSSION_MESSAGES = 200"

section \<open>Tables\<close>

record room_row =
  ro_scope :: string
  ro_room_id :: string
  ro_name :: string
  ro_created_by :: string
  ro_archived :: bool
  ro_created_utc :: string
  ro_updated_utc :: string
  ro_room_sha256 :: string

datatype seat_status = Seat_Active | Seat_Left

fun seat_status_text :: "seat_status \<Rightarrow> string" where
  "seat_status_text Seat_Active = ''active''"
| "seat_status_text Seat_Left = ''left''"

record member_row =
  me_scope :: string
  me_room_id :: string
  me_agent_id :: string
  me_route_profile_id :: "string option"
  me_room_session_id :: string
  me_status :: seat_status
  me_joined_utc :: string
  me_updated_utc :: string
  me_left_utc :: "string option"
  me_membership_sha256 :: string

record role_row =
  mr_scope :: string
  mr_room_id :: string
  mr_agent_id :: string
  mr_room_session_id :: string
  mr_role_id :: string
  mr_role_label :: "string option"
  mr_updated_by :: string
  mr_created_utc :: string
  mr_updated_utc :: string
  mr_role_sha256 :: string

record policy_row =
  po_scope :: string
  po_room_id :: string
  po_mode :: string
  po_max_rounds :: int
  po_max_messages :: int
  po_stagnation_rounds :: int
  po_updated_by :: string
  po_created_utc :: string
  po_updated_utc :: string
  po_policy_sha256 :: string

record room_db = route_db +
  rooms :: "room_row list"
  room_memberships :: "member_row list"
  room_member_roles :: "role_row list"
  room_automation_policies :: "policy_row list"

text \<open>\<open>INSERT ... ON CONFLICT DO UPDATE\<close>: \<open>P\<close> selects the row with the key of the new one.\<close>

definition upsert_row :: "('r \<Rightarrow> bool) \<Rightarrow> ('r \<Rightarrow> 'r) \<Rightarrow> 'r \<Rightarrow> 'r list \<Rightarrow> 'r list" where
  "upsert_row P f new rows = (if list_ex P rows then update_where P f rows else rows @ [new])"

definition room_is :: "string \<Rightarrow> string \<Rightarrow> room_row \<Rightarrow> bool" where
  "room_is scope room_id r = (ro_scope r = scope \<and> ro_room_id r = room_id)"

definition seat_is :: "string \<Rightarrow> string \<Rightarrow> string \<Rightarrow> member_row \<Rightarrow> bool" where
  "seat_is scope room_id agent_id r = (me_scope r = scope \<and> me_room_id r = room_id \<and> me_agent_id r = agent_id)"

definition role_is :: "string \<Rightarrow> string \<Rightarrow> string \<Rightarrow> role_row \<Rightarrow> bool" where
  "role_is scope room_id agent_id r = (mr_scope r = scope \<and> mr_room_id r = room_id \<and> mr_agent_id r = agent_id)"

definition policy_is :: "string \<Rightarrow> string \<Rightarrow> policy_row \<Rightarrow> bool" where
  "policy_is scope room_id r = (po_scope r = scope \<and> po_room_id r = room_id)"

section \<open>Digests\<close>

definition room_payload :: "room_row \<Rightarrow> json" where
  "room_payload r = JObj [(''scope'', JStr (ro_scope r)), (''room_id'', JStr (ro_room_id r)), (''name'', JStr (ro_name r)),
     (''created_by'', JStr (ro_created_by r)), (''archived'', JBool (ro_archived r))]"

text \<open>The dictionary of a seat that was left has the additional key \<open>left_utc\<close>.\<close>

definition membership_payload :: "member_row \<Rightarrow> json" where
  "membership_payload r = JObj ([(''scope'', JStr (me_scope r)), (''room_id'', JStr (me_room_id r)),
     (''agent_id'', JStr (me_agent_id r)), (''route_profile_id'', json_opt JStr (me_route_profile_id r)),
     (''room_session_id'', JStr (me_room_session_id r)), (''status'', JStr (seat_status_text (me_status r))),
     (''joined_utc'', JStr (me_joined_utc r))]
     @ (case me_left_utc r of None \<Rightarrow> [] | Some t \<Rightarrow> [(''left_utc'', JStr t)]))"

definition room_role_payload :: "role_row \<Rightarrow> json" where
  "room_role_payload r = JObj [(''scope'', JStr (mr_scope r)), (''room_id'', JStr (mr_room_id r)),
     (''agent_id'', JStr (mr_agent_id r)), (''room_session_id'', JStr (mr_room_session_id r)),
     (''role_id'', JStr (mr_role_id r)), (''role_label'', json_opt JStr (mr_role_label r)),
     (''updated_by'', JStr (mr_updated_by r))]"

definition policy_payload :: "policy_row \<Rightarrow> json" where
  "policy_payload r = JObj [(''scope'', JStr (po_scope r)), (''room_id'', JStr (po_room_id r)), (''mode'', JStr (po_mode r)),
     (''max_rounds'', JInt (po_max_rounds r)), (''max_messages'', JInt (po_max_messages r)),
     (''stagnation_rounds'', JInt (po_stagnation_rounds r)), (''updated_by'', JStr (po_updated_by r))]"

definition seal_room :: "(string \<Rightarrow> string) \<Rightarrow> room_row \<Rightarrow> room_row" where
  "seal_room H r = r\<lparr>ro_room_sha256 := stable_sha256 H (room_payload r)\<rparr>"

definition seal_seat :: "(string \<Rightarrow> string) \<Rightarrow> member_row \<Rightarrow> member_row" where
  "seal_seat H r = r\<lparr>me_membership_sha256 := stable_sha256 H (membership_payload r)\<rparr>"

definition seal_role :: "(string \<Rightarrow> string) \<Rightarrow> role_row \<Rightarrow> role_row" where
  "seal_role H r = r\<lparr>mr_role_sha256 := stable_sha256 H (room_role_payload r)\<rparr>"

definition seal_policy :: "(string \<Rightarrow> string) \<Rightarrow> policy_row \<Rightarrow> policy_row" where
  "seal_policy H r = r\<lparr>po_policy_sha256 := stable_sha256 H (policy_payload r)\<rparr>"

interpretation room_rows: sealed_row "\<lambda>r. stable_sha256 H (room_payload r)" ro_room_sha256 "seal_room H" for H
  by unfold_locales (simp_all add: seal_room_def room_payload_def)

interpretation seats: sealed_row "\<lambda>r. stable_sha256 H (membership_payload r)" me_membership_sha256 "seal_seat H" for H
  by unfold_locales (simp_all add: seal_seat_def membership_payload_def)

interpretation roles: sealed_row "\<lambda>r. stable_sha256 H (room_role_payload r)" mr_role_sha256 "seal_role H" for H
  by unfold_locales (simp_all add: seal_role_def room_role_payload_def)

interpretation policies: sealed_row "\<lambda>r. stable_sha256 H (policy_payload r)" po_policy_sha256 "seal_policy H" for H
  by unfold_locales (simp_all add: seal_policy_def policy_payload_def)

section \<open>Access\<close>

definition room_of :: "bridge \<Rightarrow> string \<Rightarrow> ('a room_db_scheme, room_row) op" where
  "room_of b room_id =
     tx_bind (tx_query (\<lambda>d. fetch_one (room_is (br_scope b) room_id) (rooms d))) (\<lambda>found.
     case found of
       None \<Rightarrow> tx_raise (BridgeError ''room not found'')
     | Some row \<Rightarrow> tx_then (tx_require (\<not> ro_archived row) (BridgeError ''room is archived'')) (tx_return row))"

definition active_seat :: "string \<Rightarrow> string \<Rightarrow> string \<Rightarrow> member_row \<Rightarrow> bool" where
  "active_seat scope room_id agent_id r = (seat_is scope room_id agent_id r \<and> me_status r = Seat_Active)"

definition active_room_member :: "bridge \<Rightarrow> string \<Rightarrow> string \<Rightarrow> 'a room_db_scheme \<Rightarrow> member_row option" where
  "active_room_member b room_id agent_id d = fetch_one (active_seat (br_scope b) room_id agent_id) (room_memberships d)"

definition require_room_manager :: "bridge \<Rightarrow> string \<Rightarrow> ('a room_db_scheme, room_row) op" where
  "require_room_manager b room_id =
     tx_bind (room_of b room_id) (\<lambda>room.
     if br_agent_id b = HUMAN_OPERATOR_ID then tx_return room
     else
       tx_then (tx_require (br_agent_id b = ro_created_by room)
         (BridgeError ''only the room creator or human operator may manage seats''))
      (tx_bind (tx_query (active_room_member b room_id (br_agent_id b))) (\<lambda>member.
       tx_then (tx_require (member \<noteq> None) (BridgeError ''room creator must remain an active member to manage seats''))
       (tx_return room))))"

definition B_not_member :: "string \<Rightarrow> exn" where
  "B_not_member room_id = BridgeError (''agent is not an active member of room '' @ room_id)"

definition require_room_member :: "bridge \<Rightarrow> string \<Rightarrow> string \<Rightarrow> ('a room_db_scheme, member_row option) op" where
  "require_room_member b room_id agent_id =
     tx_then (room_of b room_id)
    (if room_id = DEFAULT_ROOM_ID then
       tx_bind (tx_query (\<lambda>d. fetch_one (seat_is (br_scope b) room_id agent_id) (room_memberships d))) (\<lambda>row.
       tx_then (tx_require (case row of None \<Rightarrow> True | Some r \<Rightarrow> me_status r = Seat_Active) (B_not_member room_id))
       (tx_return row))
     else
       tx_bind (tx_query (active_room_member b room_id agent_id)) (\<lambda>row.
       tx_then (tx_require (row \<noteq> None) (B_not_member room_id)) (tx_return row)))"

section \<open>Seats and roles\<close>

definition normalize_room_role :: "string option \<Rightarrow> string option \<Rightarrow> exn + string \<times> string option" where
  "normalize_room_role role_id role_label =
    (let normalized = py_lower (py_strip (if is_set role_id then text_or_empty role_id else DEFAULT_ROOM_ROLE));
         label_text = py_strip (text_or_empty role_label) in
     if normalized \<notin> set ROOM_MEMBER_ROLES then Inl (BridgeError
       ''role_id must be equal-participant, researcher, implementer, reviewer or custom'')
     else if normalized = ''custom'' then
       res_bind (require_text label_text ''role_label'' 80) (\<lambda>label. Inr (normalized, Some label))
     else res_require (label_text = []) (BridgeError ''role_label is only valid for a custom role'')
       (Inr (normalized, None)))"

definition write_role :: "role_row \<Rightarrow> role_row \<Rightarrow> role_row" where
  "write_role new r = r\<lparr>mr_room_session_id := mr_room_session_id new, mr_role_id := mr_role_id new,
     mr_role_label := mr_role_label new, mr_updated_by := mr_updated_by new, mr_updated_utc := mr_updated_utc new,
     mr_role_sha256 := mr_role_sha256 new\<rparr>"

definition upsert_room_role :: "bridge \<Rightarrow> string \<Rightarrow> string \<Rightarrow> string \<Rightarrow> string option \<Rightarrow> string option \<Rightarrow> string
    \<Rightarrow> ('a room_db_scheme, role_row) op" where
  "upsert_room_role b room_id agent_id room_session_id role_id role_label now =
     tx_bind (tx_query (\<lambda>d. fetch_one (role_is (br_scope b) room_id agent_id) (room_member_roles d))) (\<lambda>existing.
     tx_bind (tx_lift (case (role_id, existing) of
         (None, Some e) \<Rightarrow> Inr (mr_role_id e, mr_role_label e)
       | _ \<Rightarrow> normalize_room_role role_id role_label)) (\<lambda>(normalized_role, normalized_label).
     let row = seal_role (br_sha256 b) \<lparr>mr_scope = br_scope b, mr_room_id = room_id, mr_agent_id = agent_id,
           mr_room_session_id = room_session_id, mr_role_id = normalized_role, mr_role_label = normalized_label,
           mr_updated_by = br_agent_id b,
           mr_created_utc = (case existing of None \<Rightarrow> now | Some e \<Rightarrow> mr_created_utc e),
           mr_updated_utc = now, mr_role_sha256 = []\<rparr> in
     tx_then (tx_execute (\<lambda>d. d\<lparr>room_member_roles :=
        upsert_row (role_is (br_scope b) room_id agent_id) (write_role row) row (room_member_roles d)\<rparr>))
     (tx_return row)))"

definition write_seat :: "member_row \<Rightarrow> member_row \<Rightarrow> member_row" where
  "write_seat new r = r\<lparr>me_route_profile_id := me_route_profile_id new, me_room_session_id := me_room_session_id new,
     me_status := me_status new, me_joined_utc := me_joined_utc new, me_updated_utc := me_updated_utc new,
     me_left_utc := me_left_utc new, me_membership_sha256 := me_membership_sha256 new\<rparr>"

definition store_seat :: "member_row \<Rightarrow> ('a room_db_scheme, unit) op" where
  "store_seat row = tx_execute (\<lambda>d. d\<lparr>room_memberships :=
     upsert_row (seat_is (me_scope row) (me_room_id row) (me_agent_id row)) (write_seat row) row (room_memberships d)\<rparr>)"

text \<open>A seat that is active under the same route keeps its session; any other gets a new one.\<close>

definition reuses_session :: "string option \<Rightarrow> member_row option \<Rightarrow> bool" where
  "reuses_session route_profile_id existing = (case existing of None \<Rightarrow> False
     | Some e \<Rightarrow> me_status e = Seat_Active \<and> me_route_profile_id e = route_profile_id)"

definition joined_seat :: "bridge \<Rightarrow> string \<Rightarrow> string \<Rightarrow> string option \<Rightarrow> member_row option \<Rightarrow> string \<Rightarrow> string \<Rightarrow> member_row" where
  "joined_seat b room_id agent_id route_profile_id kept room_session_id now = seal_seat (br_sha256 b) \<lparr>me_scope = br_scope b,
     me_room_id = room_id, me_agent_id = agent_id, me_route_profile_id = route_profile_id,
     me_room_session_id = room_session_id, me_status = Seat_Active,
     me_joined_utc = (case kept of Some e \<Rightarrow> me_joined_utc e | None \<Rightarrow> now),
     me_updated_utc = now, me_left_utc = None, me_membership_sha256 = []\<rparr>"

text \<open>The session of a kept row, or a new one.\<close>

definition seat_session :: "member_row option \<Rightarrow> ('d, string) op" where
  "seat_session row = (case row of Some r \<Rightarrow> tx_return (me_room_session_id r) | None \<Rightarrow> uuid4_hex)"

definition upsert_room_membership :: "bridge \<Rightarrow> string \<Rightarrow> string \<Rightarrow> string option \<Rightarrow> string \<Rightarrow> string option \<Rightarrow> string option
    \<Rightarrow> ('a room_db_scheme, member_row \<times> role_row) op" where
  "upsert_room_membership b room_id agent_id route_profile_id now role_id role_label =
     tx_bind (tx_query (\<lambda>d. fetch_one (seat_is (br_scope b) room_id agent_id) (room_memberships d))) (\<lambda>existing.
     let kept = (if reuses_session route_profile_id existing then existing else None) in
     tx_bind (seat_session kept) (\<lambda>room_session_id.
     let row = joined_seat b room_id agent_id route_profile_id kept room_session_id now in
     tx_then (store_seat row)
    (tx_bind (upsert_room_role b room_id agent_id room_session_id role_id role_label now) (\<lambda>role.
     tx_return (row, role)))))"

section \<open>Creating a room\<close>

definition once_policy :: "(string \<Rightarrow> string) \<Rightarrow> string \<Rightarrow> string \<Rightarrow> string \<Rightarrow> string \<Rightarrow> policy_row" where
  "once_policy H scope room_id updated_by now = seal_policy H \<lparr>po_scope = scope, po_room_id = room_id, po_mode = ''once'',
     po_max_rounds = DEFAULT_DISCUSSION_MAX_ROUNDS, po_max_messages = DEFAULT_DISCUSSION_MAX_MESSAGES,
     po_stagnation_rounds = DEFAULT_DISCUSSION_STAGNATION_ROUNDS, po_updated_by = updated_by, po_created_utc = now,
     po_updated_utc = now, po_policy_sha256 = []\<rparr>"

text \<open>
  What opening the database does for the scope: each row is inserted unless one with its key exists, and a
  policy of the lobby that \<open>peerbridge-system\<close> left in mode off is put in mode once, with the digest of the
  default policy, whatever the bounds of the row are.
\<close>

definition seed_lobby :: "bridge \<Rightarrow> ('a room_db_scheme, unit) op" where
  "seed_lobby b =
    (let now = ''1970-01-01T00:00:00Z'';
         room = seal_room (br_sha256 b) \<lparr>ro_scope = br_scope b, ro_room_id = DEFAULT_ROOM_ID, ro_name = ''Lobby'',
           ro_created_by = ''peerbridge-system'', ro_archived = False, ro_created_utc = now, ro_updated_utc = now,
           ro_room_sha256 = []\<rparr>;
         policy = once_policy (br_sha256 b) (br_scope b) DEFAULT_ROOM_ID ''peerbridge-system'' now in
     tx_then (tx_execute (\<lambda>d. d\<lparr>rooms := upsert_row (room_is (br_scope b) DEFAULT_ROOM_ID) id room (rooms d)\<rparr>))
    (tx_then (tx_execute (\<lambda>d. d\<lparr>room_automation_policies :=
        upsert_row (policy_is (br_scope b) DEFAULT_ROOM_ID) id policy (room_automation_policies d)\<rparr>))
     (tx_execute (\<lambda>d. d\<lparr>room_automation_policies := update_where
        (\<lambda>p. policy_is (br_scope b) DEFAULT_ROOM_ID p \<and> po_mode p = ''off'' \<and> po_updated_by p = ''peerbridge-system'')
        (\<lambda>p. p\<lparr>po_mode := ''once'', po_policy_sha256 := po_policy_sha256 policy\<rparr>) (room_automation_policies d)\<rparr>))))"

text \<open>The answer: the room, and the head of the audit chain.\<close>

definition create_room :: "bridge \<Rightarrow> string \<Rightarrow> string \<Rightarrow> ('a room_db_scheme, room_row \<times> string) op" where
  "create_room b room_arg name_arg =
     tx_bind (tx_lift (
       res_bind (require_identifier room_arg ''room_id'') (\<lambda>room_id.
       res_require (room_id \<noteq> DEFAULT_ROOM_ID) (BridgeError ''the built-in lobby room already exists'')
      (res_require (\<not> starts_with room_id ''history.'') (BridgeError ''history.* room IDs are reserved for read-only imports'')
      (res_bind (require_text name_arg ''name'' 200) (\<lambda>name. Inr (room_id, name))))))) (\<lambda>(room_id, name).
     tx_bind utc_now (\<lambda>now.
     let room = seal_room (br_sha256 b) \<lparr>ro_scope = br_scope b, ro_room_id = room_id, ro_name = name,
           ro_created_by = br_agent_id b, ro_archived = False, ro_created_utc = now, ro_updated_utc = now, ro_room_sha256 = []\<rparr>;
         policy = once_policy (br_sha256 b) (br_scope b) room_id (br_agent_id b) now in
     with_connection (
       tx_bind (tx_query (\<lambda>d. list_ex (room_is (br_scope b) room_id) (rooms d))) (\<lambda>exists.
       tx_then (tx_require (\<not> exists) (BridgeError ''room already exists''))
      (tx_then (tx_execute (\<lambda>d. d\<lparr>rooms := rooms d @ [room]\<rparr>))
      (tx_then (upsert_room_membership b room_id (br_agent_id b) None now None None)
      (tx_bind (tx_query (\<lambda>d. list_ex (policy_is (br_scope b) room_id) (room_automation_policies d))) (\<lambda>clash.
       tx_then (tx_require (\<not> clash) IntegrityError)
      (tx_then (tx_execute (\<lambda>d. d\<lparr>room_automation_policies := room_automation_policies d @ [policy]\<rparr>))
      (tx_bind (event_op b ''room.created'' [(''room_id'', JStr room_id), (''room_sha256'', JStr (ro_room_sha256 room))] None)
        (\<lambda>event. tx_return (room, snd event))))))))))))"

section \<open>Managing seats\<close>

text \<open>The flag says that a role key is among the arguments, be its value null.\<close>

record seat_args =
  sa_room_id :: string
  sa_agent_id :: "string option"
  sa_route_profile_id :: "string option"
  sa_role_id :: "string option"
  sa_role_label :: "string option"
  sa_role_given :: bool

definition seat_agent :: "bridge \<Rightarrow> seat_args \<Rightarrow> string" where
  "seat_agent b args = (case sa_agent_id args of None \<Rightarrow> br_agent_id b | Some a \<Rightarrow> a)"

definition check_seat_route :: "bridge \<Rightarrow> string \<Rightarrow> string option \<Rightarrow> route_row list \<Rightarrow> exn + unit" where
  "check_seat_route b agent_id route_profile_id profiles =
    (case route_profile_id of None \<Rightarrow> Inr ()
     | Some route_id \<Rightarrow> (case fetch_one (enabled_route (br_scope b) route_id) profiles of
         None \<Rightarrow> Inl (BridgeError ''route profile is missing or disabled'')
       | Some profile \<Rightarrow> res_require (rp_agent_id profile = agent_id)
           (BridgeError ''route profile targets a different agent'') (Inr ())))"

definition seat_event :: "member_row \<Rightarrow> role_row \<Rightarrow> (string \<times> json) list" where
  "seat_event seat role = [(''room_id'', JStr (me_room_id seat)), (''agent_id'', JStr (me_agent_id seat)),
     (''membership_sha256'', JStr (me_membership_sha256 seat)), (''role_id'', JStr (mr_role_id role)),
     (''role_sha256'', JStr (mr_role_sha256 role))]"

text \<open>The arguments of \<open>join_room\<close>: room, agent, route and, when one of the two is given, the role.\<close>

definition validate_join :: "bridge \<Rightarrow> seat_args \<Rightarrow> exn + string \<times> string \<times> string option \<times> string option \<times> string option" where
  "validate_join b args =
     res_bind (require_identifier (sa_room_id args) ''room_id'') (\<lambda>room_id.
     res_bind (require_identifier (seat_agent b args) ''agent_id'') (\<lambda>agent_id.
     res_require (\<not> (agent_id \<in> set RESERVED_INTERNAL_AGENT_IDS \<and> br_agent_id b \<noteq> agent_id))
       (BridgeError ''reserved internal Agent cannot be added as a room seat'')
    (res_bind (optional_identifier (sa_route_profile_id args) ''route_profile_id'') (\<lambda>route_profile_id.
     if sa_role_given args \<or> sa_role_id args \<noteq> None \<or> sa_role_label args \<noteq> None
     then res_bind (normalize_room_role (sa_role_id args) (sa_role_label args)) (\<lambda>(role_id, role_label).
       Inr (room_id, agent_id, route_profile_id, Some role_id, role_label))
     else Inr (room_id, agent_id, route_profile_id, None, None)))))"

definition join_room :: "bridge \<Rightarrow> seat_args \<Rightarrow> ('a room_db_scheme, member_row \<times> role_row \<times> string) op" where
  "join_room b args =
     tx_bind (tx_lift (validate_join b args)) (\<lambda>(room_id, agent_id, route_profile_id, role_id, role_label).
     tx_bind utc_now (\<lambda>now.
     with_connection (
       tx_then (require_room_manager b room_id)
      (tx_bind (tx_query route_profiles) (\<lambda>profiles.
       tx_then (tx_lift (check_seat_route b agent_id route_profile_id profiles))
      (tx_bind (upsert_room_membership b room_id agent_id route_profile_id now role_id role_label) (\<lambda>(seat, role).
       tx_bind (event_op b ''room.member_joined'' (seat_event seat role) None) (\<lambda>event.
       tx_return (seat, role, snd event)))))))))"

definition role_event :: "role_row \<Rightarrow> string \<Rightarrow> string option \<Rightarrow> bool \<Rightarrow> (string \<times> json) list" where
  "role_event role room_session_id previous materialized = [(''room_id'', JStr (mr_room_id role)),
     (''agent_id'', JStr (mr_agent_id role)), (''room_session_id'', JStr room_session_id),
     (''role_id'', JStr (mr_role_id role)), (''role_label'', json_opt JStr (mr_role_label role)),
     (''previous_role_sha256'', json_opt JStr previous), (''role_sha256'', JStr (mr_role_sha256 role)),
     (''membership_materialized'', JBool materialized), (''authority_effect'', JStr ''none'')]"

text \<open>The role of a stored seat, or of a lobby seat that becomes a row by this call.\<close>

definition set_role_tx :: "bridge \<Rightarrow> string \<Rightarrow> string \<Rightarrow> string \<Rightarrow> string option \<Rightarrow> string
    \<Rightarrow> ('a room_db_scheme, member_row \<times> role_row \<times> string option \<times> bool) op" where
  "set_role_tx b room_id agent_id role_id role_label now =
     tx_bind (tx_query (\<lambda>d. fetch_one (seat_is (br_scope b) room_id agent_id) (room_memberships d))) (\<lambda>membership.
     case membership of
       None \<Rightarrow>
         tx_then (tx_require (room_id = DEFAULT_ROOM_ID) (BridgeError ''agent is not an active room member''))
        (tx_bind (upsert_room_membership b room_id agent_id None now (Some role_id) role_label) (\<lambda>(seat, role).
         tx_return (seat, role\<lparr>mr_created_utc := now\<rparr>, None, True)))
     | Some seat \<Rightarrow>
         tx_then (tx_require (me_status seat = Seat_Active) (BridgeError ''agent is not an active room member''))
        (tx_bind (tx_query (\<lambda>d. fetch_one (role_is (br_scope b) room_id agent_id) (room_member_roles d))) (\<lambda>previous.
         tx_bind (upsert_room_role b room_id agent_id (me_room_session_id seat) (Some role_id) role_label now) (\<lambda>role.
         tx_return (seat, role, map_option mr_role_sha256 previous, False)))))"

definition set_room_member_role :: "bridge \<Rightarrow> string \<Rightarrow> string \<Rightarrow> string option \<Rightarrow> string option
    \<Rightarrow> ('a room_db_scheme, member_row \<times> role_row \<times> string) op" where
  "set_room_member_role b room_arg agent_arg role_arg label_arg =
     tx_bind (tx_lift (
       res_bind (require_identifier room_arg ''room_id'') (\<lambda>room_id.
       res_bind (require_identifier agent_arg ''agent_id'') (\<lambda>agent_id.
       res_bind (normalize_room_role role_arg label_arg) (\<lambda>(role_id, role_label).
       Inr (room_id, agent_id, role_id, role_label)))))) (\<lambda>(room_id, agent_id, role_id, role_label).
     tx_bind utc_now (\<lambda>now.
     with_connection (
       tx_then (require_room_manager b room_id)
      (tx_bind (set_role_tx b room_id agent_id role_id role_label now) (\<lambda>(seat, role, previous, materialized).
       tx_bind (event_op b ''room.member_role_updated''
         (role_event role (me_room_session_id seat) previous materialized) None) (\<lambda>event.
       tx_return (seat, role, snd event)))))))"

definition left_seat :: "bridge \<Rightarrow> string \<Rightarrow> string \<Rightarrow> member_row option \<Rightarrow> string \<Rightarrow> string \<Rightarrow> member_row" where
  "left_seat b room_id agent_id row room_session_id now = seal_seat (br_sha256 b) \<lparr>me_scope = br_scope b,
     me_room_id = room_id, me_agent_id = agent_id,
     me_route_profile_id = (case row of None \<Rightarrow> None | Some r \<Rightarrow> me_route_profile_id r),
     me_room_session_id = room_session_id, me_status = Seat_Left,
     me_joined_utc = (case row of None \<Rightarrow> now | Some r \<Rightarrow> me_joined_utc r),
     me_updated_utc = now, me_left_utc = Some now, me_membership_sha256 = []\<rparr>"

text \<open>Another agent's seat is for managers.\<close>

definition require_own_or_manager :: "bridge \<Rightarrow> string \<Rightarrow> string \<Rightarrow> ('a room_db_scheme, unit) op" where
  "require_own_or_manager b room_id agent_id =
    (if agent_id \<noteq> br_agent_id b then tx_then (require_room_manager b room_id) (tx_return ()) else tx_return ())"

text \<open>The row to be left, which for the lobby may be missing.\<close>

definition leaving_row :: "bridge \<Rightarrow> string \<Rightarrow> string \<Rightarrow> 'a room_db_scheme \<Rightarrow> member_row option" where
  "leaving_row b room_id agent_id d = (if room_id = DEFAULT_ROOM_ID
     then fetch_one (seat_is (br_scope b) room_id agent_id) (room_memberships d)
     else active_room_member b room_id agent_id d)"

definition leave_tx :: "bridge \<Rightarrow> string \<Rightarrow> string \<Rightarrow> string \<Rightarrow> ('a room_db_scheme, member_row \<times> role_row) op" where
  "leave_tx b room_id agent_id now =
     tx_bind (tx_query (leaving_row b room_id agent_id)) (\<lambda>row.
     tx_then (tx_require (case row of None \<Rightarrow> room_id = DEFAULT_ROOM_ID | Some r \<Rightarrow> me_status r = Seat_Active)
       (BridgeError ''agent is not an active room member''))
    (tx_bind (seat_session row) (\<lambda>room_session_id.
     let seat = left_seat b room_id agent_id row room_session_id now in
     tx_then (store_seat seat)
    (tx_bind (upsert_room_role b room_id agent_id room_session_id None None now) (\<lambda>role.
     tx_return (seat, role))))))"

definition leave_room :: "bridge \<Rightarrow> string \<Rightarrow> string option \<Rightarrow> ('a room_db_scheme, member_row \<times> role_row \<times> string) op" where
  "leave_room b room_arg agent_arg =
     tx_bind (tx_lift (
       res_bind (require_identifier room_arg ''room_id'') (\<lambda>room_id.
       res_bind (require_identifier (case agent_arg of None \<Rightarrow> br_agent_id b | Some a \<Rightarrow> a) ''agent_id'') (\<lambda>agent_id.
       Inr (room_id, agent_id))))) (\<lambda>(room_id, agent_id).
     tx_bind utc_now (\<lambda>now.
     with_connection (
       tx_then (room_of b room_id)
      (tx_then (require_own_or_manager b room_id agent_id)
      (tx_bind (leave_tx b room_id agent_id now) (\<lambda>(seat, role).
       tx_bind (event_op b ''room.member_left'' (seat_event seat role) None) (\<lambda>event.
       tx_return (seat, role, snd event))))))))"

section \<open>Automation policy\<close>

definition room_policy :: "bridge \<Rightarrow> string \<Rightarrow> ('a room_db_scheme, policy_row) op" where
  "room_policy b room_id =
     tx_then (room_of b room_id)
    (tx_bind (tx_query (\<lambda>d. fetch_one (policy_is (br_scope b) room_id) (room_automation_policies d))) (\<lambda>row.
     case row of None \<Rightarrow> tx_raise (BridgeError ''room automation policy is missing'') | Some r \<Rightarrow> tx_return r))"

definition bounded_integer :: "int \<Rightarrow> string \<Rightarrow> int \<Rightarrow> int \<Rightarrow> exn + int" where
  "bounded_integer result label minimum maximum =
     res_require (minimum \<le> result \<and> result \<le> maximum)
       (BridgeError (label @ '' must be between '' @ show_int minimum @ '' and '' @ show_int maximum)) (Inr result)"

record automation_args =
  aa_room_id :: string
  aa_mode :: "string option"
  aa_max_rounds :: "int option"
  aa_max_messages :: "int option"
  aa_stagnation_rounds :: "int option"

definition int_or :: "int \<Rightarrow> int option \<Rightarrow> int" where
  "int_or x v = (case v of None \<Rightarrow> x | Some i \<Rightarrow> i)"

definition validate_automation :: "automation_args \<Rightarrow> exn + string \<times> string \<times> int \<times> int \<times> int" where
  "validate_automation args =
     res_bind (require_identifier (aa_room_id args) ''room_id'') (\<lambda>room_id.
     let mode = py_lower (py_strip (text_or_empty (aa_mode args))) in
     res_require (mode \<in> set ROOM_AUTOMATION_MODES) (BridgeError ''mode must be off, once, discussion, free or goal'')
    (res_bind (if mode = ''goal'' then Inr 0
       else bounded_integer (int_or DEFAULT_DISCUSSION_MAX_ROUNDS (aa_max_rounds args)) ''max_rounds'' 1 MAX_DISCUSSION_ROUNDS)
      (\<lambda>max_rounds.
     res_bind (if mode = ''goal'' then Inr 0
       else bounded_integer (int_or DEFAULT_DISCUSSION_MAX_MESSAGES (aa_max_messages args)) ''max_messages'' 2 MAX_DISCUSSION_MESSAGES)
      (\<lambda>max_messages.
     res_bind (bounded_integer (int_or DEFAULT_DISCUSSION_STAGNATION_ROUNDS (aa_stagnation_rounds args)) ''stagnation_rounds'' 1 5)
      (\<lambda>stagnation_rounds.
     res_require (\<not> (max_rounds \<noteq> 0 \<and> stagnation_rounds > max_rounds))
       (BridgeError ''stagnation_rounds cannot exceed max_rounds'')
    (Inr (room_id, mode, max_rounds, max_messages, stagnation_rounds)))))))"

definition open_in_room :: "string \<Rightarrow> string \<Rightarrow> disc_row \<Rightarrow> bool" where
  "open_in_room scope room_id r = (di_scope r = scope \<and> di_room_id r = room_id \<and> open_discussion r)"

definition stop_discussion :: "bridge \<Rightarrow> string \<Rightarrow> string \<Rightarrow> disc_row \<Rightarrow> ('a disc_db_scheme, disc_row \<times> string) op" where
  "stop_discussion b now reason row = store_discussion_state b row now (stop_changes reason)"

definition write_policy :: "policy_row \<Rightarrow> policy_row \<Rightarrow> policy_row" where
  "write_policy new r = r\<lparr>po_mode := po_mode new, po_max_rounds := po_max_rounds new, po_max_messages := po_max_messages new,
     po_stagnation_rounds := po_stagnation_rounds new, po_updated_by := po_updated_by new,
     po_updated_utc := po_updated_utc new, po_policy_sha256 := po_policy_sha256 new\<rparr>"

definition policy_event :: "policy_row \<Rightarrow> policy_row \<Rightarrow> (string \<times> json) list" where
  "policy_event old new = [(''room_id'', JStr (po_room_id new)), (''previous_policy_sha256'', JStr (po_policy_sha256 old)),
     (''policy_sha256'', JStr (po_policy_sha256 new)), (''mode'', JStr (po_mode new)),
     (''max_rounds'', JInt (po_max_rounds new)), (''max_messages'', JInt (po_max_messages new)),
     (''stagnation_rounds'', JInt (po_stagnation_rounds new))]"

definition new_policy :: "bridge \<Rightarrow> string \<times> string \<times> int \<times> int \<times> int \<Rightarrow> string \<Rightarrow> string \<Rightarrow> policy_row" where
  "new_policy b spec created now = (case spec of (room_id, mode, max_rounds, max_messages, stagnation_rounds) \<Rightarrow>
     seal_policy (br_sha256 b) \<lparr>po_scope = br_scope b, po_room_id = room_id, po_mode = mode, po_max_rounds = max_rounds,
       po_max_messages = max_messages, po_stagnation_rounds = stagnation_rounds, po_updated_by = br_agent_id b,
       po_created_utc = created, po_updated_utc = now, po_policy_sha256 = []\<rparr>)"

text \<open>The policy row, and the end of the open discussions when the new mode has none.\<close>

definition store_policy :: "bridge \<Rightarrow> policy_row \<Rightarrow> string \<Rightarrow> ('a room_db_scheme, unit) op" where
  "store_policy b policy now =
     tx_then (tx_execute (\<lambda>d. d\<lparr>room_automation_policies :=
        update_where (policy_is (br_scope b) (po_room_id policy)) (write_policy policy) (room_automation_policies d)\<rparr>))
    (tx_bind (tx_query (\<lambda>d. if po_mode policy \<in> {''discussion'', ''free'', ''goal''} then []
        else filter (open_in_room (br_scope b) (po_room_id policy)) (room_discussions d))) (\<lambda>open_discussions.
     tx_then (tx_for (stop_discussion b now ''policy_changed'') open_discussions)
     (tx_return ())))"

definition set_room_automation :: "bridge \<Rightarrow> automation_args \<Rightarrow> ('a room_db_scheme, policy_row \<times> string) op" where
  "set_room_automation b args =
     tx_bind (tx_lift (validate_automation args)) (\<lambda>spec.
     tx_bind utc_now (\<lambda>now.
     with_connection (
       tx_then (require_room_manager b (fst spec))
      (tx_bind (room_policy b (fst spec)) (\<lambda>existing.
       let policy = new_policy b spec (po_created_utc existing) now in
       tx_then (store_policy b policy now)
      (tx_bind (event_op b ''room.automation_updated'' (policy_event existing policy) None) (\<lambda>event.
       tx_return (policy, snd event))))))))"

text \<open>\<open>ORDER BY updated_utc DESC, discussion_id DESC LIMIT 1\<close>.\<close>

definition latest_open :: "string \<Rightarrow> string \<Rightarrow> disc_row list \<Rightarrow> disc_row option" where
  "latest_open scope room_id rows =
    (case rev (sort_key (\<lambda>r. (di_updated_utc r, di_discussion_id r)) (filter (open_in_room scope room_id) rows)) of
       [] \<Rightarrow> None | r # _ \<Rightarrow> Some r)"

text \<open>The answer: the policy, whether its digest is valid, and the active discussion.\<close>

definition get_room_automation :: "bridge \<Rightarrow> string \<Rightarrow> ('a room_db_scheme, policy_row \<times> bool \<times> disc_row option) op" where
  "get_room_automation b room_arg =
     tx_bind (tx_lift (require_identifier room_arg ''room_id'')) (\<lambda>room_id.
     with_connection (
       tx_then (if br_agent_id b \<in> {HUMAN_OPERATOR_ID, CONTROL_ROOM_WORKFLOW_ID} then tx_return None
          else require_room_member b room_id (br_agent_id b))
      (tx_bind (room_policy b room_id) (\<lambda>policy.
       tx_bind (tx_query (\<lambda>d. latest_open (br_scope b) room_id (room_discussions d))) (\<lambda>active.
       tx_return (policy, stable_sha256 (br_sha256 b) (policy_payload policy) = po_policy_sha256 policy, active))))))"

section \<open>Visible rooms\<close>

definition visible_room :: "bridge \<Rightarrow> member_row list \<Rightarrow> room_row \<Rightarrow> bool" where
  "visible_room b seats r = (br_agent_id b = HUMAN_OPERATOR_ID
     \<or> (ro_room_id r = DEFAULT_ROOM_ID
        \<and> \<not> list_ex (\<lambda>m. seat_is (ro_scope r) (ro_room_id r) (br_agent_id b) m \<and> me_status m \<noteq> Seat_Active) seats)
     \<or> list_ex (active_seat (ro_scope r) (ro_room_id r) (br_agent_id b)) seats)"

text \<open>The lobby first, then the latest change first, then by id.\<close>

definition room_order :: "room_row list \<Rightarrow> room_row list" where
  "room_order rows = sort_key (\<lambda>r. if ro_room_id r = DEFAULT_ROOM_ID then 0 else (1::nat))
     (rev (sort_key ro_updated_utc (rev (sort_key ro_room_id rows))))"

record room_item =
  ri_room :: room_row
  ri_policy :: "policy_row option"
  ri_active_member_count :: nat
  ri_message_count :: nat

definition room_item_of :: "'a room_db_scheme \<Rightarrow> room_row \<Rightarrow> room_item" where
  "room_item_of d r = \<lparr>ri_room = r,
     ri_policy = fetch_one (policy_is (ro_scope r) (ro_room_id r)) (room_automation_policies d),
     ri_active_member_count = length (filter (\<lambda>m. me_scope m = ro_scope r \<and> me_room_id m = ro_room_id r
       \<and> me_status m = Seat_Active) (room_memberships d)),
     ri_message_count = length (filter (\<lambda>m. mg_scope m = ro_scope r \<and> mg_room_id m = ro_room_id r) (messages d))\<rparr>"

definition list_rooms :: "bridge \<Rightarrow> bool \<Rightarrow> ('a room_db_scheme, room_item list) op" where
  "list_rooms b include_archived = with_connection (tx_query (\<lambda>d. map (room_item_of d)
     (room_order (filter (\<lambda>r. ro_scope r = br_scope b \<and> (include_archived \<or> \<not> ro_archived r)
        \<and> visible_room b (room_memberships d) r) (rooms d)))))"

definition visible_room_ids :: "bridge \<Rightarrow> string \<Rightarrow> 'a room_db_scheme \<Rightarrow> string list" where
  "visible_room_ids b agent_id d =
    (if agent_id = HUMAN_OPERATOR_ID then map ro_room_id (filter (\<lambda>r. ro_scope r = br_scope b) (rooms d))
     else map me_room_id (filter (\<lambda>m. me_scope m = br_scope b \<and> me_agent_id m = agent_id \<and> me_status m = Seat_Active)
         (room_memberships d))
       @ (case fetch_one (seat_is (br_scope b) DEFAULT_ROOM_ID agent_id) (room_memberships d) of
            None \<Rightarrow> [DEFAULT_ROOM_ID] | Some m \<Rightarrow> if me_status m = Seat_Active then [DEFAULT_ROOM_ID] else []))"

end
