(* ===== verification/Messages.thy ===== *)
theory Messages
  imports Rooms Disk
begin

text \<open>
  Messages of \<open>bridge.py\<close>: \<open>send_message\<close>, \<open>send_room_fanout\<close> and \<open>post_room_message\<close> write one row per
  recipient inside one transaction, charge the storage quota of the scope and bind the content by a
  digest; \<open>poll_messages\<close> reads an inbox from a cursor and \<open>ack_message\<close> moves the cursor over what the
  consumer acknowledged. A tool call may carry receipt metadata, under which its answer is stored and
  replayed. Arguments arrive with the types of the tool schema; a missing argument is None. The default
  \<open>created_utc\<close> of a tool receipt is SQLite's own clock and is not read, so the column is left out.
\<close>

definition MAX_SCOPE_MESSAGE_ROWS :: int where "MAX_SCOPE_MESSAGE_ROWS = 200000"
definition MAX_SCOPE_MESSAGE_BYTES :: int where "MAX_SCOPE_MESSAGE_BYTES = 256 * 1024 * 1024"
definition MAX_CHAT_ATTACHMENT_COUNT :: int where "MAX_CHAT_ATTACHMENT_COUNT = 5"
definition MAX_ROOM_FANOUT_RECIPIENTS :: nat where "MAX_ROOM_FANOUT_RECIPIENTS = 32"
definition MAX_TEXT_CHARS :: nat where "MAX_TEXT_CHARS = 50000"

section \<open>Tables\<close>

record receipt_row =
  rc_scope :: string
  rc_message_id :: string
  rc_agent_id :: string
  rc_acknowledged_utc :: string

record route_receipt_row =
  rr_scope :: string
  rr_message_id :: string
  rr_agent_id :: string
  rr_session_id :: string
  rr_observed_provider_id :: "string option"
  rr_observed_model_id :: "string option"
  rr_observed_reasoning_mode :: "string option"
  rr_observed_route_class :: "string option"
  rr_route_status :: string
  rr_acknowledged_utc :: string
  rr_receipt_sha256 :: string

record cursor_row =
  cc_scope :: string
  cc_channel :: string
  cc_consumer :: string
  cc_position :: nat
  cc_updated_utc :: string

record tool_receipt_row =
  mc_call_sha256 :: string
  mc_scope :: string
  mc_actor :: string
  mc_session_id :: string
  mc_tool :: string
  mc_arguments_sha256 :: string
  mc_result_json :: string
  mc_result_sha256 :: string

record message_db = room_db +
  message_seq :: nat
  message_receipts :: "receipt_row list"
  message_route_receipts :: "route_receipt_row list"
  consumer_cursors :: "cursor_row list"
  mcp_mutation_receipts :: "tool_receipt_row list"

section \<open>Receipts of tool calls\<close>

record receipt_metadata =
  rm_call_sha256 :: string
  rm_arguments_sha256 :: string
  rm_session_id :: string
  rm_tool :: string

text \<open>The value of \<open>args["__mcp_receipt"]\<close>, or None.\<close>

definition mcp_receipt_metadata :: "bridge \<Rightarrow> json option \<Rightarrow> string \<Rightarrow> exn + receipt_metadata option" where
  "mcp_receipt_metadata b raw expected_tool =
    (case raw of None \<Rightarrow> Inr None | Some JNull \<Rightarrow> Inr None
     | Some (JObj kvs) \<Rightarrow>
         res_require (set (map fst kvs) = {''call_sha256'', ''arguments_sha256'', ''session_id'', ''tool''})
           (BridgeError ''invalid internal MCP mutation receipt metadata'')
        (res_bind (require_identifier (json_str_or_empty (json_get (JObj kvs) ''tool'')) ''receipt tool'') (\<lambda>tool.
         res_bind (require_identifier (json_str_or_empty (json_get (JObj kvs) ''session_id'')) ''receipt session_id'') (\<lambda>session_id.
         res_require (tool = expected_tool \<and> session_id = br_session_id b)
           (BridgeError ''MCP mutation receipt identity mismatch'')
        (res_bind (require_sha256 (Some (json_str_or_empty (json_get (JObj kvs) ''call_sha256''))) ''receipt call_sha256'') (\<lambda>call_sha.
         res_bind (require_sha256 (Some (json_str_or_empty (json_get (JObj kvs) ''arguments_sha256''))) ''receipt arguments_sha256'')
           (\<lambda>arguments_sha.
         Inr (Some \<lparr>rm_call_sha256 = call_sha, rm_arguments_sha256 = arguments_sha, rm_session_id = session_id,
           rm_tool = tool\<rparr>)))))))
     | _ \<Rightarrow> Inl (BridgeError ''invalid internal MCP mutation receipt metadata''))"

definition tool_receipt_is :: "string \<Rightarrow> string \<Rightarrow> tool_receipt_row \<Rightarrow> bool" where
  "tool_receipt_is call_sha scope r = (mc_call_sha256 r = call_sha \<and> mc_scope r = scope)"

text \<open>The answer a stored receipt replays.\<close>

definition receipt_answer :: "bridge \<Rightarrow> receipt_metadata \<Rightarrow> tool_receipt_row \<Rightarrow> exn + json" where
  "receipt_answer b meta row =
     res_require (mc_actor row = br_agent_id b \<and> mc_tool row = rm_tool meta \<and> mc_arguments_sha256 row = rm_arguments_sha256 meta)
       (BridgeError ''MCP idempotency key was reused with different arguments'')
    (case json_loads (mc_result_json row) of
       None \<Rightarrow> Inl (DatabaseError ''invalid MCP mutation receipt JSON'')
     | Some result \<Rightarrow> res_require (is_mapping result \<and> stable_sha256 (br_sha256 b) result = mc_result_sha256 row)
         (DatabaseError ''MCP mutation receipt integrity check failed'') (Inr result))"

definition load_receipt :: "bridge \<Rightarrow> receipt_metadata option \<Rightarrow> ('a message_db_scheme, json option) op" where
  "load_receipt b metadata =
    (case metadata of None \<Rightarrow> tx_return None
     | Some meta \<Rightarrow>
         tx_bind (tx_query (\<lambda>d. fetch_one (tool_receipt_is (rm_call_sha256 meta) (br_scope b)) (mcp_mutation_receipts d))) (\<lambda>found.
         case found of None \<Rightarrow> tx_return None
         | Some row \<Rightarrow> tx_bind (tx_lift (receipt_answer b meta row)) (\<lambda>result. tx_return (Some result))))"

definition new_receipt :: "bridge \<Rightarrow> receipt_metadata \<Rightarrow> json \<Rightarrow> tool_receipt_row" where
  "new_receipt b meta result = \<lparr>mc_call_sha256 = rm_call_sha256 meta, mc_scope = br_scope b, mc_actor = br_agent_id b,
     mc_session_id = rm_session_id meta, mc_tool = rm_tool meta, mc_arguments_sha256 = rm_arguments_sha256 meta,
     mc_result_json = json_dumps result, mc_result_sha256 = stable_sha256 (br_sha256 b) result\<rparr>"

definition store_receipt :: "bridge \<Rightarrow> receipt_metadata option \<Rightarrow> json \<Rightarrow> ('a message_db_scheme, unit) op" where
  "store_receipt b metadata result =
    (case metadata of None \<Rightarrow> tx_return ()
     | Some meta \<Rightarrow>
         tx_bind (tx_query (\<lambda>d. list_ex (\<lambda>r. mc_call_sha256 r = rm_call_sha256 meta) (mcp_mutation_receipts d))) (\<lambda>clash.
         tx_then (tx_require (\<not> clash) IntegrityError)
         (tx_execute (\<lambda>d. d\<lparr>mcp_mutation_receipts := mcp_mutation_receipts d @ [new_receipt b meta result]\<rparr>))))"

text \<open>A recorded call is answered from its receipt; otherwise the body runs and its answer is recorded.\<close>

definition once_per_receipt :: "bridge \<Rightarrow> receipt_metadata option \<Rightarrow> ('a message_db_scheme, json) op
    \<Rightarrow> ('a message_db_scheme, json) op" where
  "once_per_receipt b metadata body =
     tx_bind (load_receipt b metadata) (\<lambda>replay.
     case replay of Some result \<Rightarrow> tx_return result
     | None \<Rightarrow> tx_bind body (\<lambda>result. tx_then (store_receipt b metadata result) (tx_return result)))"

section \<open>Storage quota\<close>

definition message_fits :: "string \<Rightarrow> int \<Rightarrow> int \<Rightarrow> usage_row \<Rightarrow> bool" where
  "message_fits scope n bytes u = (us_scope u = scope \<and> us_message_rows u + n \<le> MAX_SCOPE_MESSAGE_ROWS
     \<and> us_message_bytes u + bytes \<le> MAX_SCOPE_MESSAGE_BYTES)"

definition add_messages :: "int \<Rightarrow> int \<Rightarrow> string \<Rightarrow> usage_row \<Rightarrow> usage_row" where
  "add_messages n bytes now u = u\<lparr>us_message_rows := us_message_rows u + n, us_message_bytes := us_message_bytes u + bytes,
     us_updated_utc := now\<rparr>"

definition reserve_message_storage :: "bridge \<Rightarrow> int \<Rightarrow> int \<Rightarrow> ('a message_db_scheme, unit) op" where
  "reserve_message_storage b n bytes =
     tx_then (tx_require (1 \<le> n \<and> 0 \<le> bytes) (BridgeError ''message storage reservation is invalid''))
    (tx_bind utc_now (\<lambda>now.
     tx_then (tx_execute (\<lambda>d. d\<lparr>scope_storage_usage := ensure_usage (br_scope b) now (scope_storage_usage d)\<rparr>))
    (tx_bind (tx_query (\<lambda>d. length (filter (message_fits (br_scope b) n bytes) (scope_storage_usage d)))) (\<lambda>rowcount.
     tx_then (tx_execute (\<lambda>d. d\<lparr>scope_storage_usage :=
        update_where (message_fits (br_scope b) n bytes) (add_messages n bytes now) (scope_storage_usage d)\<rparr>))
     (tx_require (rowcount = 1) (BridgeError ''durable message storage quota exceeded''))))))"

section \<open>Content of a message\<close>

text \<open>What an insert takes: the values of the dictionary \<open>content\<close>, the discussion and round of a prompt.\<close>

record draft =
  dr_room_id :: string
  dr_task_id :: string
  dr_sender :: string
  dr_recipient :: string
  dr_subject :: string
  dr_body :: string
  dr_priority :: string
  dr_reply_to :: "string option"
  dr_artifacts :: "string list"
  dr_route_profile_id :: "string option"
  dr_request :: "route_request option"
  dr_prompt :: "(string \<times> int) option"
  dr_visibility :: string
  dr_created :: string

definition message_content :: "string \<Rightarrow> draft \<Rightarrow> string \<Rightarrow> json" where
  "message_content scope m message_id = JObj ([(''message_id'', JStr message_id), (''scope'', JStr scope),
     (''room_id'', JStr (dr_room_id m)), (''task_id'', JStr (dr_task_id m)), (''sender'', JStr (dr_sender m)),
     (''recipient'', JStr (dr_recipient m)), (''subject'', JStr (dr_subject m)), (''body'', JStr (dr_body m)),
     (''priority'', JStr (dr_priority m)), (''reply_to'', json_opt JStr (dr_reply_to m)),
     (''artifact_paths'', JList (map JStr (dr_artifacts m))), (''route_request'', route_request_content_binding (dr_request m))]
     @ (case dr_prompt m of None \<Rightarrow> [] | Some (discussion_id, round) \<Rightarrow> [(''discussion_id'', JStr discussion_id),
          (''discussion_round'', JInt round), (''discussion_role'', JStr ''prompt'')])
     @ [(''visibility'', JStr (dr_visibility m)), (''created_utc'', JStr (dr_created m))])"

definition serialized_message_bytes :: "json \<Rightarrow> int" where
  "serialized_message_bytes content = int (length (utf8_encode (json_dumps content)))"

definition requested_of :: "(route_request \<Rightarrow> 'v option) \<Rightarrow> draft \<Rightarrow> 'v option" where
  "requested_of f m = (case dr_request m of None \<Rightarrow> None | Some q \<Rightarrow> f q)"

text \<open>\<open>route_request.get("route_profile_sha256")\<close>.\<close>

definition request_profile_sha :: "route_request \<Rightarrow> string option" where
  "request_profile_sha q = (case rq_profile_sha256 q of None \<Rightarrow> None | Some v \<Rightarrow> v)"

definition new_message :: "bridge \<Rightarrow> draft \<Rightarrow> string \<Rightarrow> nat \<Rightarrow> msg_row" where
  "new_message b m message_id sequence = \<lparr>mg_sequence = sequence, mg_message_id = message_id, mg_scope = br_scope b,
     mg_room_id = dr_room_id m, mg_task_id = dr_task_id m, mg_sender = dr_sender m, mg_recipient = dr_recipient m,
     mg_subject = dr_subject m, mg_body = dr_body m, mg_priority = dr_priority m, mg_reply_to = dr_reply_to m,
     mg_artifact_paths_json = json_spaced (JList (map JStr (dr_artifacts m))),
     mg_route_profile_id = dr_route_profile_id m, mg_route_profile_sha256 = requested_of request_profile_sha m,
     mg_requested_provider_id = requested_of rq_provider_id m, mg_requested_model_id = requested_of rq_model_id m,
     mg_requested_reasoning_mode = requested_of rq_reasoning_mode m, mg_requested_route_class = requested_of rq_route_class m,
     mg_route_request_sha256 = requested_of rq_request_sha256 m, mg_discussion_id = map_option fst (dr_prompt m),
     mg_discussion_round = map_option snd (dr_prompt m),
     mg_discussion_role = map_option (\<lambda>p. ''prompt'') (dr_prompt m), mg_visibility = dr_visibility m,
     mg_created_utc = dr_created m, mg_acknowledged_utc = None,
     mg_content_sha256 = stable_sha256 (br_sha256 b) (message_content (br_scope b) m message_id)\<rparr>"

definition insert_message :: "bridge \<Rightarrow> draft \<Rightarrow> string \<Rightarrow> ('a message_db_scheme, msg_row) op" where
  "insert_message b m message_id =
     tx_bind (tx_query (\<lambda>d. new_message b m message_id (Suc (message_seq d)))) (\<lambda>row.
     tx_bind (tx_query (\<lambda>d. list_ex (\<lambda>r. mg_message_id r = message_id) (messages d))) (\<lambda>clash.
     tx_then (tx_require (\<not> clash) IntegrityError)
    (tx_then (tx_execute (\<lambda>d. d\<lparr>message_seq := mg_sequence row, messages := messages d @ [row]\<rparr>))
     (tx_return row))))"

section \<open>Sending one message\<close>

record post_args =
  sm_receipt :: "json option"
  sm_room_id :: "string option"
  sm_task_id :: string
  sm_subject :: string
  sm_body :: string
  sm_priority :: "string option"
  sm_artifact_paths :: "string list"

record send_args = post_args +
  sm_recipient :: string
  sm_reply_to :: "string option"
  sm_route :: route_request_args

definition parse_priority :: "string option \<Rightarrow> exn + string" where
  "parse_priority v = (let p = py_lower (py_strip (case v of None \<Rightarrow> ''normal'' | Some t \<Rightarrow> t)) in
     res_require (p \<in> {''low'', ''normal'', ''high'', ''critical''})
       (BridgeError ''priority must be low, normal, high or critical'') (Inr p))"

definition parse_recipient :: "string \<Rightarrow> exn + string" where
  "parse_recipient raw = (let r = py_strip raw in if r = ''*'' then Inr ''*'' else require_identifier r ''recipient'')"

text \<open>The checks before the transaction; the draft has no request and no time yet.\<close>

definition validate_send :: "bridge \<Rightarrow> workspace \<Rightarrow> send_args \<Rightarrow> exn + receipt_metadata option \<times> draft" where
  "validate_send b ws args =
     res_bind (mcp_receipt_metadata b (sm_receipt args) ''send_message'') (\<lambda>metadata.
     res_bind (require_identifier (case sm_room_id args of None \<Rightarrow> DEFAULT_ROOM_ID | Some r \<Rightarrow> r) ''room_id'') (\<lambda>room_id.
     res_bind (parse_recipient (sm_recipient args)) (\<lambda>recipient.
     res_bind (require_identifier (sm_task_id args) ''task_id'') (\<lambda>task_id.
     res_bind (require_text (sm_subject args) ''subject'' 500) (\<lambda>subject.
     res_bind (require_text (sm_body args) ''body'' MAX_TEXT_CHARS) (\<lambda>body.
     res_bind (parse_priority (sm_priority args)) (\<lambda>priority.
     let reply_text = py_strip (text_or_empty (sm_reply_to args));
         reply_to = (if reply_text = [] then None else Some reply_text) in
     res_bind (clean_artifacts (br_sha256 b) ws (sm_artifact_paths args) (Some MAX_CHAT_ATTACHMENT_COUNT) True) (\<lambda>artifacts.
     Inr (metadata, \<lparr>dr_room_id = room_id, dr_task_id = task_id, dr_sender = br_agent_id b, dr_recipient = recipient,
       dr_subject = subject, dr_body = body, dr_priority = priority, dr_reply_to = reply_to, dr_artifacts = artifacts,
       dr_route_profile_id = None, dr_request = None, dr_prompt = None,
       dr_visibility = (if recipient = ''*'' then ''room'' else ''direct''), dr_created = []\<rparr>)))))))))"

definition check_reply :: "bridge \<Rightarrow> string \<Rightarrow> string option \<Rightarrow> msg_row list \<Rightarrow> exn + unit" where
  "check_reply b room_id reply_to rows = (case reply_to of None \<Rightarrow> Inr ()
     | Some r \<Rightarrow> (case fetch_one (\<lambda>m. mg_scope m = br_scope b \<and> mg_message_id m = r) rows of
         None \<Rightarrow> Inl (BridgeError ''reply_to must reference a message in the same room'')
       | Some parent \<Rightarrow> res_require (mg_room_id parent = room_id)
           (BridgeError ''reply_to must reference a message in the same room'') (Inr ())))"

definition send_result :: "route_request option \<Rightarrow> msg_row \<Rightarrow> (string \<times> json) list" where
  "send_result request row = [(''message_id'', JStr (mg_message_id row)), (''room_id'', JStr (mg_room_id row)),
     (''sequence'', JInt (int (mg_sequence row))), (''content_sha256'', JStr (mg_content_sha256 row)),
     (''route_request'', request_json request),
     (''route_status'', JStr (if request = None then ''not_requested'' else ''requested'')),
     (''created_utc'', JStr (mg_created_utc row))]"

definition sent_event :: "msg_row \<Rightarrow> (string \<times> json) list" where
  "sent_event row = [(''message_id'', JStr (mg_message_id row)), (''room_id'', JStr (mg_room_id row)),
     (''sequence'', JInt (int (mg_sequence row))), (''content_sha256'', JStr (mg_content_sha256 row)),
     (''route_request_sha256'', json_opt JStr (mg_route_request_sha256 row)),
     (''route_profile_sha256'', json_opt JStr (mg_route_profile_sha256 row))]"

text \<open>One charge for one message, and its row.\<close>

definition write_message :: "bridge \<Rightarrow> draft \<Rightarrow> string \<Rightarrow> ('a message_db_scheme, msg_row) op" where
  "write_message b m message_id =
     tx_then (reserve_message_storage b 1 (serialized_message_bytes (message_content (br_scope b) m message_id)))
     (insert_message b m message_id)"

definition send_tx :: "bridge \<Rightarrow> draft \<Rightarrow> route_request_args \<Rightarrow> ('a message_db_scheme, json) op" where
  "send_tx b m route =
     tx_then (require_room_member b (dr_room_id m) (br_agent_id b))
    (tx_bind (tx_query (active_room_member b (dr_room_id m) (dr_recipient m))) (\<lambda>recipient_seat.
     tx_then (tx_require (\<not> (dr_room_id m \<noteq> DEFAULT_ROOM_ID \<and> dr_recipient m \<noteq> ''*'' \<and> recipient_seat = None))
       (BridgeError ''recipient is not an active member of this room''))
    (tx_bind (tx_query messages) (\<lambda>rows.
     tx_then (tx_lift (check_reply b (dr_room_id m) (dr_reply_to m) rows))
    (tx_bind (tx_query route_profiles) (\<lambda>profiles.
     tx_bind (tx_lift (resolve_route_request b profiles (dr_recipient m) route)) (\<lambda>request.
     tx_bind uuid4_hex (\<lambda>message_id.
     tx_bind utc_now (\<lambda>created.
     let draft = m\<lparr>dr_request := request, dr_created := created,
           dr_route_profile_id := (case request of None \<Rightarrow> None | Some q \<Rightarrow> rq_route_profile_id q)\<rparr> in
     tx_bind (write_message b draft message_id) (\<lambda>row.
     tx_then (event_op b ''message.sent'' (sent_event row) (Some (dr_task_id m)))
     (tx_return (JObj (send_result request row)))))))))))))"

definition send_message :: "bridge \<Rightarrow> workspace \<Rightarrow> send_args \<Rightarrow> ('a message_db_scheme, json) op" where
  "send_message b ws args =
     tx_bind (tx_lift (validate_send b ws args)) (\<lambda>(metadata, m).
     with_connection (once_per_receipt b metadata (send_tx b m (sm_route args))))"

section \<open>One message per seat\<close>

text \<open>The active seats of a room other than the caller's and the human operator's.\<close>

definition agent_seats :: "bridge \<Rightarrow> string \<Rightarrow> member_row list \<Rightarrow> member_row list" where
  "agent_seats b room_id seats = sort_key me_agent_id (filter (\<lambda>m. me_scope m = br_scope b \<and> me_room_id m = room_id
     \<and> me_status m = Seat_Active \<and> me_agent_id m \<noteq> br_agent_id b \<and> me_agent_id m \<noteq> HUMAN_OPERATOR_ID) seats)"

definition profile_only :: "string \<Rightarrow> route_request_args" where
  "profile_only route_profile_id = \<lparr>ra_route_profile_id = Some route_profile_id, ra_requested_provider_id = None,
     ra_requested_model_id = None, ra_requested_reasoning_mode = None, ra_requested_route_class = None\<rparr>"

text \<open>The route of one seat; \<open>note\<close> is the end of the message that names the refused call.\<close>

definition seat_request :: "bridge \<Rightarrow> route_row list \<Rightarrow> string \<Rightarrow> member_row \<Rightarrow> exn + string \<times> string \<times> route_request" where
  "seat_request b profiles note seat =
    (let agent_id = me_agent_id seat; route_profile_id = text_or_empty (me_route_profile_id seat) in
     res_require (route_profile_id \<noteq> []) (BridgeError (''room seat '' @ agent_id @ '' has no route profile; '' @ note))
    (res_bind (resolve_route_request b profiles agent_id (profile_only route_profile_id)) (\<lambda>request.
     case request of None \<Rightarrow> Inl (BridgeError (''room seat '' @ agent_id @ '' has no runnable route request''))
     | Some q \<Rightarrow> Inr (agent_id, route_profile_id, q))))"

definition routed_room_seats :: "bridge \<Rightarrow> string \<Rightarrow> string \<Rightarrow> member_row list \<Rightarrow> route_row list
    \<Rightarrow> exn + (string \<times> string \<times> route_request) list" where
  "routed_room_seats b room_id note members profiles =
    (let seats = agent_seats b room_id members in
     res_require (seats \<noteq> []) (BridgeError ''room has no active Agent seats'')
    (res_require (length seats \<le> MAX_ROOM_FANOUT_RECIPIENTS) (BridgeError ''room fanout exceeds the active Agent seat limit'')
    (res_map (seat_request b profiles note) seats)))"

text \<open>The draft for one seat.\<close>

definition seat_draft :: "draft \<Rightarrow> string \<times> string \<times> route_request \<Rightarrow> draft" where
  "seat_draft m seat = (case seat of (agent_id, route_profile_id, q) \<Rightarrow> m\<lparr>dr_recipient := agent_id,
     dr_route_profile_id := Some route_profile_id, dr_request := Some q\<rparr>)"

definition recipient_item :: "msg_row \<Rightarrow> json" where
  "recipient_item r = JObj [(''agent_id'', JStr (mg_recipient r)), (''message_id'', JStr (mg_message_id r)),
     (''sequence'', JInt (int (mg_sequence r))), (''route_profile_id'', json_opt JStr (mg_route_profile_id r)),
     (''route_profile_sha256'', json_opt JStr (mg_route_profile_sha256 r)),
     (''route_request_sha256'', json_opt JStr (mg_route_request_sha256 r)), (''content_sha256'', JStr (mg_content_sha256 r))]"

definition fanout_fields :: "bridge \<Rightarrow> draft \<Rightarrow> string \<Rightarrow> msg_row list \<Rightarrow> (string \<times> json) list" where
  "fanout_fields b m fanout_id rows = [(''fanout_id'', JStr fanout_id), (''scope'', JStr (br_scope b)),
     (''room_id'', JStr (dr_room_id m)), (''task_id'', JStr (dr_task_id m)), (''sender'', JStr (br_agent_id b)),
     (''recipients'', JList (map recipient_item rows)), (''created_utc'', JStr (dr_created m))]"

definition fanout_bytes :: "bridge \<Rightarrow> draft list \<Rightarrow> int" where
  "fanout_bytes b drafts = sum_list (map (\<lambda>m. serialized_message_bytes
     (message_content (br_scope b) m (replicate 32 (CHR ''0'')))) drafts)"

text \<open>One charge for all of them, then the rows.\<close>

definition write_messages :: "bridge \<Rightarrow> draft list \<Rightarrow> ('a message_db_scheme, msg_row list) op" where
  "write_messages b drafts =
     tx_then (reserve_message_storage b (int (length drafts)) (fanout_bytes b drafts))
     (tx_for (\<lambda>draft. tx_bind uuid4_hex (insert_message b draft)) drafts)"

definition once_mode :: "policy_row \<Rightarrow> bool" where
  "once_mode policy = (po_mode policy = ''once'')"

definition fanout_tx :: "bridge \<Rightarrow> draft \<Rightarrow> bool \<Rightarrow> ('a message_db_scheme, (string \<times> json) list) op" where
  "fanout_tx b m enforce_once_policy =
     tx_then (require_room_member b (dr_room_id m) (br_agent_id b))
    (tx_then (if enforce_once_policy then tx_bind (room_policy b (dr_room_id m)) (\<lambda>policy.
         tx_require (once_mode policy) (BridgeError
           ''direct room fanout requires automation mode once; use post_room_message for off or discussion mode''))
       else tx_return ())
    (tx_bind uuid4_hex (\<lambda>fanout_id.
     tx_bind utc_now (\<lambda>created.
     tx_bind (tx_query (\<lambda>d. routed_room_seats b (dr_room_id m) ''fanout was not written'' (room_memberships d)
       (route_profiles d))) (\<lambda>seats.
     tx_bind (tx_lift seats) (\<lambda>prepared.
     let timed = m\<lparr>dr_created := created\<rparr>; drafts = map (seat_draft timed) prepared in
     tx_bind (write_messages b drafts) (\<lambda>rows.
     let fanout = fanout_fields b timed fanout_id rows; fanout_sha = stable_sha256 (br_sha256 b) (JObj fanout) in
     tx_bind (event_op b ''message.room_fanout_sent'' [(''fanout_id'', JStr fanout_id), (''fanout_sha256'', JStr fanout_sha),
        (''room_id'', JStr (dr_room_id m)), (''recipient_count'', JInt (int (length rows))),
        (''recipients'', JList (map recipient_item rows))] (Some (dr_task_id m))) (\<lambda>event.
     tx_return (fanout @ [(''fanout_count'', JInt (int (length rows))), (''fanout_sha256'', JStr fanout_sha),
       (''content_sha256'', JStr fanout_sha), (''audit_chain_sha256'', JStr (snd event))])))))))))"

text \<open>The checks \<open>send_room_fanout\<close> and \<open>post_room_message\<close> share.\<close>

definition validate_post :: "bridge \<Rightarrow> workspace \<Rightarrow> 'a post_args_scheme \<Rightarrow> string \<Rightarrow> exn + receipt_metadata option \<times> draft" where
  "validate_post b ws args tool =
     res_bind (mcp_receipt_metadata b (sm_receipt args) tool) (\<lambda>metadata.
     res_bind (require_identifier (text_or_empty (sm_room_id args)) ''room_id'') (\<lambda>room_id.
     res_bind (require_identifier (sm_task_id args) ''task_id'') (\<lambda>task_id.
     res_bind (require_text (sm_subject args) ''subject'' 500) (\<lambda>subject.
     res_bind (require_text (sm_body args) ''body'' MAX_TEXT_CHARS) (\<lambda>body.
     res_bind (parse_priority (sm_priority args)) (\<lambda>priority.
     res_bind (clean_artifacts (br_sha256 b) ws (sm_artifact_paths args) (Some MAX_CHAT_ATTACHMENT_COUNT) True) (\<lambda>artifacts.
     Inr (metadata, \<lparr>dr_room_id = room_id, dr_task_id = task_id, dr_sender = br_agent_id b, dr_recipient = br_agent_id b,
       dr_subject = subject, dr_body = body, dr_priority = priority, dr_reply_to = None, dr_artifacts = artifacts,
       dr_route_profile_id = None, dr_request = None, dr_prompt = None, dr_visibility = ''room'', dr_created = []\<rparr>))))))))"

definition send_room_fanout :: "bridge \<Rightarrow> workspace \<Rightarrow> 'a post_args_scheme \<Rightarrow> ('b message_db_scheme, json) op" where
  "send_room_fanout b ws args =
     tx_bind (tx_lift (validate_post b ws args ''send_room_fanout'')) (\<lambda>(metadata, m).
     with_connection (once_per_receipt b metadata (tx_bind (fanout_tx b m True) (\<lambda>result. tx_return (JObj result)))))"

end
