(* ===== verification/Inbox.thy ===== *)
theory Inbox
  imports Messages
begin

text \<open>
  The rest of the message calls of \<open>bridge.py\<close>: \<open>post_room_message\<close>, which acts by the automation policy of
  the room and may open a discussion that replaces the open ones, \<open>poll_messages\<close> and \<open>ack_message\<close>. A
  consumer's cursor in a room is the last sequence number up to which it acknowledged everything
  addressed to it; the join with the receipts is \<open>acknowledged_by\<close>.
\<close>

section \<open>Posting by policy\<close>

definition history_event :: "msg_row \<Rightarrow> (string \<times> json) list" where
  "history_event row = [(''message_id'', JStr (mg_message_id row)), (''room_id'', JStr (mg_room_id row)),
     (''sequence'', JInt (int (mg_sequence row))), (''content_sha256'', JStr (mg_content_sha256 row))]"

text \<open>Mode \<open>off\<close>: one message from the sender to itself, visible in the room's history.\<close>

definition post_history :: "bridge \<Rightarrow> draft \<Rightarrow> ('a message_db_scheme, json) op" where
  "post_history b m =
     tx_bind uuid4_hex (\<lambda>message_id.
     tx_bind (write_message b m message_id) (\<lambda>row.
     tx_bind (event_op b ''message.room_history_posted'' (history_event row) (Some (dr_task_id m))) (\<lambda>event.
     tx_return (JObj (send_result None row @ [(''automation_mode'', JStr ''off''), (''fanout_count'', JInt 0),
       (''audit_chain_sha256'', JStr (snd event))])))))"

definition supersede :: "bridge \<Rightarrow> string \<Rightarrow> string \<Rightarrow> disc_row \<Rightarrow> ('a message_db_scheme, unit) op" where
  "supersede b now replacement previous =
     tx_bind (cancel_discussion_dispatches b (di_discussion_id previous) ''discussion_superseded'' now) (\<lambda>cancelled.
     tx_then (stop_discussion b now ''superseded_by_new_post'' previous)
    (tx_then (event_op b ''discussion.superseded'' [(''discussion_id'', JStr (di_discussion_id previous)),
        (''replacement_discussion_id'', JStr replacement), (''cancelled_dispatch_count'', JInt cancelled)]
        (Some (di_task_id previous)))
     (tx_return ())))"

definition insert_discussion_prompt :: "bridge \<Rightarrow> draft \<Rightarrow> ('a message_db_scheme, msg_row) op" where
  "insert_discussion_prompt b m = tx_bind uuid4_hex (write_message b m)"

definition new_discussion :: "bridge \<Rightarrow> draft \<Rightarrow> string \<Rightarrow> policy_row \<Rightarrow> nat \<Rightarrow> disc_row" where
  "new_discussion b m discussion_id policy n =
    (let row = \<lparr>di_scope = br_scope b, di_discussion_id = discussion_id, di_room_id = dr_room_id m, di_task_id = dr_task_id m,
       di_subject = dr_subject m, di_starter_agent_id = br_agent_id b, di_status = ''active'', di_current_round = 1,
       di_processed_round = 0, di_max_rounds = po_max_rounds policy, di_max_messages = po_max_messages policy,
       di_stagnation_rounds = po_stagnation_rounds policy, di_message_count = int n, di_stagnation_count = 0,
       di_last_round_digest = None, di_stop_reason = None, di_created_utc = dr_created m, di_updated_utc = dr_created m,
       di_discussion_sha256 = []\<rparr> in
     row\<lparr>di_discussion_sha256 := discussion_digest (br_sha256 b) row\<rparr>)"

definition insert_discussion :: "disc_row \<Rightarrow> ('a message_db_scheme, unit) op" where
  "insert_discussion row =
     tx_bind (tx_query (\<lambda>d. list_ex (\<lambda>r. di_scope r = di_scope row \<and> di_discussion_id r = di_discussion_id row)
        (room_discussions d))) (\<lambda>clash.
     tx_then (tx_require (\<not> clash) IntegrityError)
     (tx_execute (\<lambda>d. d\<lparr>room_discussions := room_discussions d @ [row]\<rparr>)))"

definition discussion_result :: "disc_row \<Rightarrow> string \<Rightarrow> msg_row list \<Rightarrow> string \<Rightarrow> (string \<times> json) list" where
  "discussion_result row mode rows chain = [(''automation_mode'', JStr mode), (''discussion_id'', JStr (di_discussion_id row)),
     (''room_id'', JStr (di_room_id row)), (''task_id'', JStr (di_task_id row)), (''round'', JInt 1),
     (''fanout_count'', JInt (int (length rows))), (''recipients'', JList (map recipient_item rows)),
     (''discussion_sha256'', JStr (di_discussion_sha256 row)), (''content_sha256'', JStr (di_discussion_sha256 row)),
     (''created_utc'', JStr (di_created_utc row)), (''audit_chain_sha256'', JStr chain)]"

text \<open>The other modes open a discussion; every open one of the room is stopped first.\<close>

definition start_discussion :: "bridge \<Rightarrow> draft \<Rightarrow> policy_row \<Rightarrow> ('a message_db_scheme, json) op" where
  "start_discussion b m policy =
     tx_bind uuid4_hex (\<lambda>discussion_id.
     tx_bind (tx_query (\<lambda>d. routed_room_seats b (dr_room_id m) ''room post was not written'' (room_memberships d)
       (route_profiles d))) (\<lambda>seats.
     tx_bind (tx_lift seats) (\<lambda>prepared.
     tx_then (tx_require (\<not> (po_max_messages policy \<noteq> 0 \<and> po_max_messages policy < 2 * int (length prepared)))
       (BridgeError (''max_messages cannot fit one complete discussion round for all '' @ show_nat (length prepared)
         @ '' routed Agent seats; requires at least '' @ show_nat (2 * length prepared))))
    (tx_bind (tx_query (\<lambda>d. filter (open_in_room (br_scope b) (dr_room_id m)) (room_discussions d))) (\<lambda>superseded.
     tx_then (tx_for (supersede b (dr_created m) discussion_id) superseded)
    (tx_bind (tx_for (\<lambda>seat. insert_discussion_prompt b ((seat_draft m seat)\<lparr>dr_prompt := Some (discussion_id, 1)\<rparr>)) prepared) (\<lambda>rows.
     let row = new_discussion b m discussion_id policy (length rows) in
     tx_then (insert_discussion row)
    (tx_bind (event_op b ''discussion.started'' [(''discussion_id'', JStr discussion_id),
        (''discussion_sha256'', JStr (di_discussion_sha256 row)), (''room_id'', JStr (dr_room_id m)), (''round'', JInt 1),
        (''message_count'', JInt (int (length rows))), (''policy_sha256'', JStr (po_policy_sha256 policy))]
        (Some (dr_task_id m))) (\<lambda>event.
     tx_return (JObj (discussion_result row (po_mode policy) rows (snd event))))))))))))"

definition post_tx :: "bridge \<Rightarrow> draft \<Rightarrow> ('a message_db_scheme, json) op" where
  "post_tx b m =
     tx_then (require_room_member b (dr_room_id m) (br_agent_id b))
    (tx_bind (room_policy b (dr_room_id m)) (\<lambda>policy.
     if po_mode policy = ''off'' then post_history b m
     else if po_mode policy = ''once'' then
       tx_bind (fanout_tx b m False) (\<lambda>receipt. tx_return (JObj (receipt @ [(''automation_mode'', JStr (po_mode policy))])))
     else
       tx_then (tx_require (po_mode policy \<in> {''discussion'', ''free'', ''goal''}) (BridgeError ''unsupported room automation mode''))
       (start_discussion b m policy)))"

definition post_room_message :: "bridge \<Rightarrow> workspace \<Rightarrow> 'a post_args_scheme \<Rightarrow> ('b message_db_scheme, json) op" where
  "post_room_message b ws args =
     tx_bind (tx_lift (validate_post b ws args ''post_room_message'')) (\<lambda>(metadata, m).
     tx_bind utc_now (\<lambda>now.
     with_connection (once_per_receipt b metadata (post_tx b (m\<lparr>dr_created := now\<rparr>)))))"

section \<open>Cursors and receipts\<close>

definition channel_of :: "string \<Rightarrow> string" where
  "channel_of room_id = ''messages:'' @ room_id"

definition cursor_is :: "string \<Rightarrow> string \<Rightarrow> string \<Rightarrow> cursor_row \<Rightarrow> bool" where
  "cursor_is scope channel consumer r = (cc_scope r = scope \<and> cc_channel r = channel \<and> cc_consumer r = consumer)"

definition consumer_cursor :: "bridge \<Rightarrow> string \<Rightarrow> string \<Rightarrow> cursor_row list \<Rightarrow> nat" where
  "consumer_cursor b channel consumer rows =
    (case fetch_one (cursor_is (br_scope b) channel consumer) rows of None \<Rightarrow> 0 | Some r \<Rightarrow> cc_position r)"

definition acknowledged_by :: "string \<Rightarrow> receipt_row list \<Rightarrow> msg_row \<Rightarrow> bool" where
  "acknowledged_by consumer receipts m =
     list_ex (\<lambda>r. rc_scope r = mg_scope m \<and> rc_message_id r = mg_message_id m \<and> rc_agent_id r = consumer) receipts"

definition addressed_to :: "string \<Rightarrow> msg_row \<Rightarrow> bool" where
  "addressed_to consumer m = (mg_recipient m = consumer \<or> mg_recipient m = ''*'')"

section \<open>Reading an inbox\<close>

record poll_args =
  pl_room_id :: "string option"
  pl_agent_id :: "string option"
  pl_limit :: "int option"
  pl_include_sent :: bool
  pl_after_cursor :: "int option"

record poll_item =
  pi_message :: msg_row
  pi_artifact_paths :: json
  pi_acknowledged :: bool
  pi_route_request :: "route_request option"
  pi_route_evaluation :: route_evaluation

record poll_result =
  pq_messages :: "poll_item list"
  pq_room_id :: string
  pq_stored_cursor :: nat
  pq_requested_cursor :: int
  pq_next_cursor :: int

definition inbox_rows :: "bridge \<Rightarrow> string \<Rightarrow> string \<Rightarrow> bool \<Rightarrow> int \<Rightarrow> msg_row list \<Rightarrow> msg_row list" where
  "inbox_rows b room_id consumer include_sent cursor rows = sort_key mg_sequence (filter (\<lambda>m. mg_scope m = br_scope b
     \<and> mg_room_id m = room_id \<and> int (mg_sequence m) > cursor
     \<and> (addressed_to consumer m \<or> include_sent \<and> mg_sender m = consumer)) rows)"

text \<open>A column that is no JSON text would raise; the parser's message is not modelled.\<close>

definition poll_item_of :: "bridge \<Rightarrow> string \<Rightarrow> receipt_row list \<Rightarrow> route_row list \<Rightarrow> msg_row \<Rightarrow> exn + poll_item" where
  "poll_item_of b consumer receipts profiles m = (case json_loads (mg_artifact_paths_json m) of
     None \<Rightarrow> Inl (ValueError ''JSONDecodeError'')
   | Some paths \<Rightarrow> Inr \<lparr>pi_message = m, pi_artifact_paths = paths, pi_acknowledged = acknowledged_by consumer receipts m,
       pi_route_request = route_request_from_row m, pi_route_evaluation = evaluate_route b profiles m consumer\<rparr>)"

definition poll_limit :: "int option \<Rightarrow> int" where
  "poll_limit v = max 1 (min (int_or 50 v) 500)"

definition poll_messages :: "bridge \<Rightarrow> poll_args \<Rightarrow> ('a message_db_scheme, poll_result) op" where
  "poll_messages b args =
     tx_bind (tx_lift (
       res_bind (require_identifier (case pl_room_id args of None \<Rightarrow> DEFAULT_ROOM_ID | Some r \<Rightarrow> r) ''room_id'') (\<lambda>room_id.
       res_bind (bound_consumer b (pl_agent_id args)) (\<lambda>consumer. Inr (room_id, consumer))))) (\<lambda>(room_id, consumer).
     with_connection (
       tx_then (require_room_member b room_id consumer)
      (tx_bind (tx_query (\<lambda>d. consumer_cursor b (channel_of room_id) consumer (consumer_cursors d))) (\<lambda>stored_cursor.
       let cursor = int_or (int stored_cursor) (pl_after_cursor args) in
       tx_bind (tx_query (\<lambda>d. take (nat (poll_limit (pl_limit args)))
         (inbox_rows b room_id consumer (pl_include_sent args) cursor (messages d)))) (\<lambda>rows.
       tx_bind (tx_query (\<lambda>d. res_map (poll_item_of b consumer (message_receipts d) (route_profiles d)) rows)) (\<lambda>items.
       tx_bind (tx_lift items) (\<lambda>found.
       tx_return \<lparr>pq_messages = found, pq_room_id = room_id, pq_stored_cursor = stored_cursor, pq_requested_cursor = cursor,
         pq_next_cursor = (if found = [] then cursor else int (mg_sequence (pi_message (last found))))\<rparr>)))))))"

section \<open>Acknowledging\<close>

definition eligible_rows :: "bridge \<Rightarrow> string \<Rightarrow> string \<Rightarrow> nat \<Rightarrow> msg_row list \<Rightarrow> msg_row list" where
  "eligible_rows b room_id consumer current rows = filter (\<lambda>m. mg_scope m = br_scope b \<and> mg_room_id m = room_id
     \<and> mg_sequence m > current \<and> addressed_to consumer m) rows"

text \<open>\<open>MAX(sequence)\<close>, where a missing or zero maximum leaves the default.\<close>

definition max_sequence :: "nat \<Rightarrow> msg_row list \<Rightarrow> nat" where
  "max_sequence d rows = (let m = fold max (map mg_sequence rows) 0 in if m = 0 then d else m)"

definition first_unacknowledged :: "(msg_row \<Rightarrow> bool) \<Rightarrow> msg_row list \<Rightarrow> nat option" where
  "first_unacknowledged acked rows = (case map mg_sequence (filter (\<lambda>m. \<not> acked m) rows) of
     [] \<Rightarrow> None | n # ns \<Rightarrow> Some (fold min ns n))"

definition advanced_cursor :: "(msg_row \<Rightarrow> bool) \<Rightarrow> nat \<Rightarrow> msg_row list \<Rightarrow> nat" where
  "advanced_cursor acked current eligible = (case first_unacknowledged acked eligible of
     None \<Rightarrow> max_sequence current eligible
   | Some f \<Rightarrow> max_sequence current (filter (\<lambda>m. acked m \<and> mg_sequence m < f) eligible))"

definition new_route_receipt :: "bridge \<Rightarrow> string \<Rightarrow> string \<Rightarrow> string option \<Rightarrow> string \<Rightarrow> route_receipt_row" where
  "new_route_receipt b message_id consumer request_sha acknowledged = \<lparr>rr_scope = br_scope b, rr_message_id = message_id,
     rr_agent_id = consumer, rr_session_id = br_session_id b, rr_observed_provider_id = br_provider_id b,
     rr_observed_model_id = br_model_id b, rr_observed_reasoning_mode = br_reasoning_mode b,
     rr_observed_route_class = br_route_class b, rr_route_status = ''verified'', rr_acknowledged_utc = acknowledged,
     rr_receipt_sha256 = stable_sha256 (br_sha256 b) (JObj [(''scope'', JStr (br_scope b)), (''message_id'', JStr message_id),
       (''agent_id'', JStr consumer), (''session_id'', JStr (br_session_id b)),
       (''observed_provider_id'', json_opt JStr (br_provider_id b)), (''observed_model_id'', json_opt JStr (br_model_id b)),
       (''observed_reasoning_mode'', json_opt JStr (br_reasoning_mode b)),
       (''observed_route_class'', json_opt JStr (br_route_class b)), (''route_status'', JStr ''verified''),
       (''acknowledged_utc'', JStr acknowledged), (''route_request_sha256'', json_opt JStr request_sha)])\<rparr>"

definition route_receipt_is :: "string \<Rightarrow> string \<Rightarrow> string \<Rightarrow> route_receipt_row \<Rightarrow> bool" where
  "route_receipt_is scope message_id agent_id r = (rr_scope r = scope \<and> rr_message_id r = message_id \<and> rr_agent_id r = agent_id)"

definition receipt_is :: "string \<Rightarrow> string \<Rightarrow> string \<Rightarrow> receipt_row \<Rightarrow> bool" where
  "receipt_is scope message_id agent_id r = (rc_scope r = scope \<and> rc_message_id r = message_id \<and> rc_agent_id r = agent_id)"

text \<open>The receipt of a verified route: stored once per message and agent.\<close>

definition record_route_receipt :: "bridge \<Rightarrow> msg_row \<Rightarrow> string \<Rightarrow> string \<Rightarrow> route_status
    \<Rightarrow> ('a message_db_scheme, route_receipt_row option) op" where
  "record_route_receipt b row consumer acknowledged status =
    (if status = Route_Verified then
       let receipt = new_route_receipt b (mg_message_id row) consumer (mg_route_request_sha256 row) acknowledged;
           key = route_receipt_is (br_scope b) (mg_message_id row) consumer in
       tx_then (tx_execute (\<lambda>d. d\<lparr>message_route_receipts := upsert_row key id receipt (message_route_receipts d)\<rparr>))
       (tx_query (\<lambda>d. fetch_one key (message_route_receipts d)))
     else tx_return None)"

definition mark_acknowledged :: "string \<Rightarrow> msg_row \<Rightarrow> msg_row" where
  "mark_acknowledged now m = m\<lparr>mg_acknowledged_utc := (case mg_acknowledged_utc m of None \<Rightarrow> Some now | Some t \<Rightarrow> Some t)\<rparr>"

text \<open>Moving the cursor over the acknowledged prefix.\<close>

definition advance_cursor :: "bridge \<Rightarrow> string \<Rightarrow> string \<Rightarrow> ('a message_db_scheme, nat) op" where
  "advance_cursor b room_id consumer =
     tx_bind (tx_query (\<lambda>d. let current = consumer_cursor b (channel_of room_id) consumer (consumer_cursors d) in
       advanced_cursor (acknowledged_by consumer (message_receipts d)) current
         (eligible_rows b room_id consumer current (messages d)))) (\<lambda>advanced.
     tx_bind utc_now (\<lambda>now.
     let row = \<lparr>cc_scope = br_scope b, cc_channel = channel_of room_id, cc_consumer = consumer, cc_position = advanced,
           cc_updated_utc = now\<rparr> in
     tx_then (tx_execute (\<lambda>d. d\<lparr>consumer_cursors := upsert_row (cursor_is (br_scope b) (channel_of room_id) consumer)
        (\<lambda>r. r\<lparr>cc_position := advanced, cc_updated_utc := now\<rparr>) row (consumer_cursors d)\<rparr>))
     (tx_return advanced)))"

record ack_result =
  ak_message_id :: string
  ak_room_id :: string
  ak_consumer :: string
  ak_cursor :: nat
  ak_route_evaluation :: route_evaluation
  ak_route_receipt :: "route_receipt_row option"

definition ack_tx :: "bridge \<Rightarrow> string \<Rightarrow> string \<Rightarrow> ('a message_db_scheme, ack_result) op" where
  "ack_tx b message_id consumer =
     tx_bind (tx_query (\<lambda>d. fetch_one (\<lambda>m. mg_scope m = br_scope b \<and> mg_message_id m = message_id) (messages d))) (\<lambda>found.
     case (case found of None \<Rightarrow> None | Some m \<Rightarrow> if addressed_to consumer m then Some m else None) of
       None \<Rightarrow> tx_raise (BridgeError ''message is not addressed to this consumer'')
     | Some row \<Rightarrow>
     tx_bind (tx_lift (require_identifier (mg_room_id row) ''room_id'')) (\<lambda>room_id.
     tx_then (require_room_member b room_id consumer)
    (tx_bind utc_now (\<lambda>acknowledged.
     tx_bind (tx_query (\<lambda>d. evaluate_route b (route_profiles d) row consumer)) (\<lambda>evaluation.
     tx_then (tx_require (re_status evaluation \<noteq> Route_Mismatch) (BridgeError
       (''route request is not satisfied by this runtime identity: '' @ sep_join '', '' (re_mismatches evaluation))))
    (tx_then (tx_execute (\<lambda>d. d\<lparr>message_receipts := upsert_row (receipt_is (br_scope b) message_id consumer) id
        \<lparr>rc_scope = br_scope b, rc_message_id = message_id, rc_agent_id = consumer, rc_acknowledged_utc = acknowledged\<rparr>
        (message_receipts d)\<rparr>))
    (tx_bind (record_route_receipt b row consumer acknowledged (re_status evaluation)) (\<lambda>route_receipt.
     tx_then (if mg_recipient row \<noteq> ''*'' then tx_execute (\<lambda>d. d\<lparr>messages :=
          update_where (\<lambda>m. mg_message_id m = message_id) (mark_acknowledged acknowledged) (messages d)\<rparr>)
        else tx_return ())
    (tx_bind (advance_cursor b room_id consumer) (\<lambda>advanced.
     tx_then (event_op b ''message.acknowledged'' [(''message_id'', JStr message_id), (''room_id'', JStr room_id),
        (''consumer'', JStr consumer), (''cursor'', JInt (int advanced)),
        (''route_status'', JStr (route_status_text (re_status evaluation))),
        (''route_receipt_sha256'', json_opt JStr (map_option rr_receipt_sha256 route_receipt))] None)
     (tx_return \<lparr>ak_message_id = message_id, ak_room_id = room_id, ak_consumer = consumer, ak_cursor = advanced,
       ak_route_evaluation = evaluation, ak_route_receipt = route_receipt\<rparr>)))))))))))"

definition ack_message :: "bridge \<Rightarrow> string \<Rightarrow> string option \<Rightarrow> ('a message_db_scheme, ack_result) op" where
  "ack_message b message_arg agent_arg =
     tx_bind (tx_lift (
       res_bind (require_identifier message_arg ''message_id'') (\<lambda>message_id.
       res_bind (bound_consumer b agent_arg) (\<lambda>consumer. Inr (message_id, consumer))))) (\<lambda>(message_id, consumer).
     with_connection (ack_tx b message_id consumer))"

end
