(* ===== verification/Frames.thy ===== *)
theory Frames
  imports Prelude
begin

text \<open>
  What a transaction leaves alone. A frame is a reflexive and transitive relation between databases;
  code is framed when every run that returns stays within it. The rules follow the constructs, so a
  call is framed because its parts are; the stores interpret the locale on the tables they share.
\<close>

locale db_frame =
  fixes R :: "'d \<Rightarrow> 'd \<Rightarrow> bool"
  assumes frame_refl: "R d d"
    and frame_trans: "R d e \<Longrightarrow> R e f \<Longrightarrow> R d f"
begin

definition framed :: "('d, 'e, 'a) tx \<Rightarrow> bool" where
  "framed m \<longleftrightarrow> (\<forall>s x t. m s = (Inr x, t) \<longrightarrow> R (st_db s) (st_db t))"

lemma framedI: "(\<And>s x t. m s = (Inr x, t) \<Longrightarrow> R (st_db s) (st_db t)) \<Longrightarrow> framed m"
  by (simp add: framed_def)

lemma framedD: "framed m \<Longrightarrow> m s = (Inr x, t) \<Longrightarrow> R (st_db s) (st_db t)"
  by (simp add: framed_def)

lemma framed_basic:
  "framed (tx_return a)" "framed (tx_raise e)" "framed (tx_require c e)" "framed (tx_lift r)" "framed (tx_query g)"
  "framed time_time" "framed time_monotonic" "framed utc_now" "framed uuid4_hex" "framed token_urlsafe"
  by (rule framedI; simp add: tx_simps frame_refl)+

lemma framed_execute: "(\<And>d. R d (f d)) \<Longrightarrow> framed (tx_execute f)"
  by (rule framedI) (simp add: tx_simps)

lemma framed_bind: "framed m \<Longrightarrow> (\<And>a. framed (f a)) \<Longrightarrow> framed (tx_bind m f)"
  unfolding framed_def by (auto simp: tx_bind_ok) (blast intro: frame_trans)

lemma framed_then: "framed m \<Longrightarrow> framed n \<Longrightarrow> framed (tx_then m n)"
  by (simp add: tx_then_def framed_bind)

lemma framed_for: "(\<And>x. framed (f x)) \<Longrightarrow> framed (tx_for f xs)"
  by (induction xs) (auto intro!: framed_bind framed_basic)

lemma framed_with_connection: "framed m \<Longrightarrow> framed (with_connection m)"
  by (simp add: framed_def with_connection_ok)

lemma framed_if: "(c \<Longrightarrow> framed m) \<Longrightarrow> (\<not> c \<Longrightarrow> framed n) \<Longrightarrow> framed (if c then m else n)"
  by simp

lemma framed_option: "framed m \<Longrightarrow> (\<And>x. framed (f x)) \<Longrightarrow> framed (case v of None \<Rightarrow> m | Some x \<Rightarrow> f x)"
  by (cases v) simp_all

lemma framed_prod: "(\<And>x y. framed (f x y)) \<Longrightarrow> framed (case p of (x, y) \<Rightarrow> f x y)"
  by (cases p) simp

text \<open>A loop over a list whose body is framed, from any start.\<close>

lemmas framed_intros = framed_basic framed_bind framed_then framed_for framed_with_connection framed_if framed_option framed_prod

text \<open>A call that returned or raised, when raising undoes everything.\<close>

lemma framed_call: "framed m \<Longrightarrow> atomic m \<Longrightarrow> R (st_db s) (st_db (snd (m s)))"
  by (cases "m s") (metis atomicD frame_refl framedD obj_sumE snd_conv)

end

end
