(* ===== verification/RoomInvariant.thy ===== *)
theory RoomInvariant
  imports Inbox Frames Histories
begin

text \<open>
  The invariant of the room store: seats, roles and policies are unique and digest-bound, every seat
  has a role of its own session, policies are within their bounds, and a room has at most one open
  discussion, and none unless its policy asks for discussions.
\<close>

section \<open>Tables with a key\<close>

lemma upsert_row_set:
  assumes "distinct (map key rows)" and P: "\<And>r. P r \<longleftrightarrow> key r = key new"
    and f: "\<And>r. r \<in> set rows \<Longrightarrow> P r \<Longrightarrow> f r = new"
  shows "set (upsert_row P f new rows) = {r \<in> set rows. key r \<noteq> key new} \<union> {new}"
    and "distinct (map key (upsert_row P f new rows))"
proof -
  have "map key (update_where P f rows) = map key rows"
    using P f by (auto simp: update_where_def)
  then show "distinct (map key (upsert_row P f new rows))"
    using assms(1) P by (auto simp: upsert_row_def list_ex_iff)
  show "set (upsert_row P f new rows) = {r \<in> set rows. key r \<noteq> key new} \<union> {new}"
    using P f by (auto simp: upsert_row_def list_ex_iff set_update_where image_iff)
qed

lemma upsert_row_same: "r \<in> set rows \<Longrightarrow> P r \<Longrightarrow> (\<And>q. q \<in> set rows \<Longrightarrow> P q \<Longrightarrow> f q = q) \<Longrightarrow> upsert_row P f new rows = rows"
  by (auto simp: upsert_row_def list_ex_iff update_where_def intro!: map_idI)

lemma fetch_one_key:
  assumes "distinct (map key rows)" and "\<And>r. P r \<longleftrightarrow> key r = k"
  shows "fetch_one P rows = Some r \<longleftrightarrow> r \<in> set rows \<and> P r"
proof
  show "fetch_one P rows = Some r \<Longrightarrow> r \<in> set rows \<and> P r" by (rule fetch_one_SomeD)
  assume r: "r \<in> set rows \<and> P r"
  then have "P = (\<lambda>x. key x = key r)" using assms(2) by auto
  then show "fetch_one P rows = Some r" using fetch_one_unique [OF assms(1)] r by simp
qed

section \<open>The invariant\<close>

definition seat_key :: "member_row \<Rightarrow> string \<times> string \<times> string" where
  "seat_key r = (me_scope r, me_room_id r, me_agent_id r)"

definition role_key :: "role_row \<Rightarrow> string \<times> string \<times> string" where
  "role_key r = (mr_scope r, mr_room_id r, mr_agent_id r)"

definition policy_key :: "policy_row \<Rightarrow> string \<times> string" where
  "policy_key r = (po_scope r, po_room_id r)"

definition room_key :: "room_row \<Rightarrow> string \<times> string" where
  "room_key r = (ro_scope r, ro_room_id r)"

lemma key_tests:
  "seat_is sc rm ag r \<longleftrightarrow> seat_key r = (sc, rm, ag)" "role_is sc rm ag q \<longleftrightarrow> role_key q = (sc, rm, ag)"
  "policy_is sc rm p \<longleftrightarrow> policy_key p = (sc, rm)" "room_is sc rm x \<longleftrightarrow> room_key x = (sc, rm)"
  by (auto simp: seat_is_def seat_key_def role_is_def role_key_def policy_is_def policy_key_def room_is_def room_key_def)

definition seat_ok :: "(string \<Rightarrow> string) \<Rightarrow> member_row \<Rightarrow> bool" where
  "seat_ok H r \<longleftrightarrow> seats.sealed H r \<and> (me_status r = Seat_Left \<longleftrightarrow> me_left_utc r \<noteq> None)"

text \<open>The role of a seat: same key, same session.\<close>

definition role_of :: "member_row \<Rightarrow> role_row \<Rightarrow> bool" where
  "role_of m r \<longleftrightarrow> role_key r = seat_key m \<and> mr_room_session_id r = me_room_session_id m"

definition seats_ok :: "(string \<Rightarrow> string) \<Rightarrow> member_row list \<Rightarrow> role_row list \<Rightarrow> bool" where
  "seats_ok H ms rs \<longleftrightarrow> distinct (map seat_key ms) \<and> distinct (map role_key rs) \<and> (\<forall>m \<in> set ms. seat_ok H m)
     \<and> (\<forall>r \<in> set rs. roles.sealed H r \<and> mr_role_id r \<in> set ROOM_MEMBER_ROLES)
     \<and> (\<forall>m \<in> set ms. \<exists>r \<in> set rs. role_of m r) \<and> (\<forall>r \<in> set rs. \<exists>m \<in> set ms. role_of m r)"

definition discussion_mode :: "string \<Rightarrow> bool" where
  "discussion_mode mode \<longleftrightarrow> mode \<in> {''discussion'', ''free'', ''goal''}"

definition policy_bounds :: "policy_row \<Rightarrow> bool" where
  "policy_bounds p \<longleftrightarrow> po_mode p \<in> set ROOM_AUTOMATION_MODES \<and> 1 \<le> po_stagnation_rounds p \<and> po_stagnation_rounds p \<le> 5
     \<and> (if po_mode p = ''goal'' then po_max_rounds p = 0 \<and> po_max_messages p = 0
        else po_stagnation_rounds p \<le> po_max_rounds p \<and> po_max_rounds p \<le> MAX_DISCUSSION_ROUNDS
          \<and> 2 \<le> po_max_messages p \<and> po_max_messages p \<le> MAX_DISCUSSION_MESSAGES)"

text \<open>
  A policy is sealed, or it is the policy of the lobby that opening the database has put in mode once under
  the name \<open>peerbridge-system\<close>: then its digest is the one of the default policy.
\<close>

definition policy_sealed :: "(string \<Rightarrow> string) \<Rightarrow> policy_row \<Rightarrow> bool" where
  "policy_sealed H p \<longleftrightarrow> policies.sealed H p
     \<or> po_room_id p = DEFAULT_ROOM_ID \<and> po_mode p = ''once'' \<and> po_updated_by p = ''peerbridge-system''
       \<and> po_policy_sha256 p = stable_sha256 H (policy_payload (p\<lparr>po_max_rounds := DEFAULT_DISCUSSION_MAX_ROUNDS,
           po_max_messages := DEFAULT_DISCUSSION_MAX_MESSAGES, po_stagnation_rounds := DEFAULT_DISCUSSION_STAGNATION_ROUNDS\<rparr>))"

lemma sealed_policy: "policies.sealed H p \<Longrightarrow> policy_sealed H p"
  by (simp add: policy_sealed_def)

definition policies_ok :: "(string \<Rightarrow> string) \<Rightarrow> policy_row list \<Rightarrow> bool" where
  "policies_ok H ps \<longleftrightarrow> distinct (map policy_key ps) \<and> (\<forall>p \<in> set ps. policy_sealed H p \<and> policy_bounds p)"

definition disc_room :: "disc_row \<Rightarrow> string \<times> string" where
  "disc_room r = (di_scope r, di_room_id r)"

lemma open_in_room_key: "open_in_room sc rm r \<longleftrightarrow> disc_room r = (sc, rm) \<and> open_discussion r"
  by (auto simp: open_in_room_def disc_room_def)

definition discussions_ok :: "policy_row list \<Rightarrow> disc_row list \<Rightarrow> bool" where
  "discussions_ok ps ds \<longleftrightarrow>
     (\<forall>r \<in> set ds. \<exists>p \<in> set ps. policy_key p = disc_room r \<and> (open_discussion r \<longrightarrow> discussion_mode (po_mode p)))
     \<and> (\<forall>r \<in> set ds. \<forall>q \<in> set ds. open_discussion r \<longrightarrow> open_discussion q \<longrightarrow> disc_room r = disc_room q \<longrightarrow> r = q)"

definition room_inv :: "(string \<Rightarrow> string) \<Rightarrow> 'a room_db_scheme \<Rightarrow> bool" where
  "room_inv H d \<longleftrightarrow> distinct (map room_key (rooms d)) \<and> (\<forall>r \<in> set (rooms d). room_rows.sealed H r)
     \<and> seats_ok H (room_memberships d) (room_member_roles d) \<and> policies_ok H (room_automation_policies d)
     \<and> disc_inv H d \<and> discussions_ok (room_automation_policies d) (room_discussions d)"

section \<open>Frames\<close>

definition same_rooms :: "'a room_db_scheme \<Rightarrow> 'a room_db_scheme \<Rightarrow> bool" where
  "same_rooms d d' \<longleftrightarrow> rooms d' = rooms d \<and> room_memberships d' = room_memberships d
     \<and> room_member_roles d' = room_member_roles d \<and> room_automation_policies d' = room_automation_policies d
     \<and> route_profiles d' = route_profiles d \<and> room_discussions d' = room_discussions d
     \<and> message_dispatches d' = message_dispatches d"

interpretation rooms: db_frame same_rooms
  by unfold_locales (simp_all add: same_rooms_def)

lemma same_rooms_inv: "same_rooms d d' \<Longrightarrow> room_inv H d' = room_inv H d"
  by (simp add: same_rooms_def room_inv_def disc_inv_def)

lemma framed_keeps_rooms:
  assumes "rooms.framed m"
  shows "keeps (room_inv H) m"
proof (rule keepsI)
  fix s a t
  assume "room_inv H (st_db s)" and "m s = (Inr a, t)"
  then show "room_inv H (st_db t)" using same_rooms_inv [OF rooms.framedD [OF assms]] by simp
qed

lemma event_same_rooms: "rooms.framed (event_op b ty p tid)"
  by (rule rooms.framedI) (auto dest!: event_op_ok simp: appends_def same_rooms_def)

section \<open>Writing a seat and its role\<close>

definition put_seat :: "member_row \<Rightarrow> member_row list \<Rightarrow> member_row list" where
  "put_seat row = upsert_row (seat_is (me_scope row) (me_room_id row) (me_agent_id row)) (write_seat row) row"

definition put_role :: "role_row \<Rightarrow> role_row list \<Rightarrow> role_row list" where
  "put_role row = upsert_row (role_is (mr_scope row) (mr_room_id row) (mr_agent_id row)) (write_role row) row"

lemma store_seat_ok [tx_simps]:
  "store_seat row s = (Inr u, t) \<longleftrightarrow> t = s\<lparr>st_db := (st_db s)\<lparr>room_memberships := put_seat row (room_memberships (st_db s))\<rparr>\<rparr>"
  by (simp add: store_seat_def put_seat_def tx_simps)

lemma write_seat_self: "seat_key r = seat_key new \<Longrightarrow> write_seat new r = new"
  by (cases r; cases new) (simp add: write_seat_def seat_key_def)

lemma write_role_self: "role_key r = role_key new \<Longrightarrow> mr_created_utc r = mr_created_utc new \<Longrightarrow> write_role new r = new"
  by (cases r; cases new) (simp add: write_role_def role_key_def)

lemma put_seat_set:
  assumes "distinct (map seat_key ms)"
  shows "set (put_seat row ms) = {r \<in> set ms. seat_key r \<noteq> seat_key row} \<union> {row}" "distinct (map seat_key (put_seat row ms))"
  unfolding put_seat_def by (rule upsert_row_set [OF assms]; auto simp: key_tests seat_key_def [of row] intro!: write_seat_self)+

text \<open>The new role keeps the time of creation of the stored one.\<close>

definition continues_role :: "role_row \<Rightarrow> role_row list \<Rightarrow> bool" where
  "continues_role row rs \<longleftrightarrow> (\<forall>r \<in> set rs. role_key r = role_key row \<longrightarrow> mr_created_utc r = mr_created_utc row)"

lemma put_role_set:
  assumes "distinct (map role_key rs)" and "continues_role row rs"
  shows "set (put_role row rs) = {r \<in> set rs. role_key r \<noteq> role_key row} \<union> {row}" "distinct (map role_key (put_role row rs))"
  unfolding put_role_def
  by (rule upsert_row_set [OF assms(1)]; use assms(2) in \<open>auto simp: key_tests role_key_def [of row] continues_role_def intro!: write_role_self\<close>)+

lemma put_seat_stored:
  assumes "distinct (map seat_key ms)" and "row \<in> set ms"
  shows "put_seat row ms = ms"
proof -
  have "q = row" if "q \<in> set ms" "seat_key q = seat_key row" for q
    using distinct_key_eq [OF assms(1) that(1) assms(2) that(2)] .
  then show ?thesis
    unfolding put_seat_def using assms(2)
    by (intro upsert_row_same [of row]) (auto simp: key_tests seat_key_def intro!: write_seat_self)
qed

lemma seats_ok_put:
  assumes "seats_ok H ms rs" and "seat_ok H seat" and "roles.sealed H role" and "mr_role_id role \<in> set ROOM_MEMBER_ROLES"
    and "role_of seat role" and "continues_role role rs"
  shows "seats_ok H (put_seat seat ms) (put_role role rs)"
proof -
  have key: "role_key role = seat_key seat" using assms(5) by (simp add: role_of_def)
  have d: "distinct (map seat_key ms)" "distinct (map role_key rs)" using assms(1) by (simp_all add: seats_ok_def)
  note sets = put_seat_set [OF d(1), of seat] put_role_set [OF d(2) assms(6)]
  have "\<exists>r \<in> set (put_role role rs). role_of m r" if m: "m \<in> set (put_seat seat ms)" for m
  proof (cases "m = seat")
    case False
    then obtain r where "r \<in> set rs" "role_of m r" using m assms(1) unfolding sets seats_ok_def by blast
    then show ?thesis using m False key unfolding sets by (intro bexI [of _ r]) (auto simp: role_of_def)
  qed (use assms(5) sets in auto)
  moreover have "\<exists>m \<in> set (put_seat seat ms). role_of m r" if r: "r \<in> set (put_role role rs)" for r
  proof (cases "r = role")
    case False
    then obtain m where "m \<in> set ms" "role_of m r" using r assms(1) unfolding sets seats_ok_def by blast
    then show ?thesis using r False key unfolding sets by (intro bexI [of _ m]) (auto simp: role_of_def)
  qed (use assms(5) sets in auto)
  ultimately show ?thesis
    using assms(1-4) sets by (auto simp: seats_ok_def)
qed

definition bind_seat :: "member_row \<Rightarrow> role_row \<Rightarrow> 'a room_db_scheme \<Rightarrow> 'a room_db_scheme" where
  "bind_seat seat role d = d\<lparr>room_memberships := put_seat seat (room_memberships d),
     room_member_roles := put_role role (room_member_roles d)\<rparr>"

text \<open>What makes a seat and a role a good pair for the database \<open>d\<close>.\<close>

definition good_seat :: "(string \<Rightarrow> string) \<Rightarrow> member_row \<Rightarrow> role_row \<Rightarrow> 'a room_db_scheme \<Rightarrow> bool" where
  "good_seat H seat role d \<longleftrightarrow> seat_ok H seat \<and> roles.sealed H role \<and> mr_role_id role \<in> set ROOM_MEMBER_ROLES
     \<and> role_of seat role \<and> continues_role role (room_member_roles d)"

lemma bind_seat_inv: "room_inv H d \<Longrightarrow> good_seat H seat role d \<Longrightarrow> room_inv H (bind_seat seat role d)"
  by (auto simp: room_inv_def bind_seat_def good_seat_def disc_inv_def intro: seats_ok_put)

lemma normalize_room_role_Inr: "normalize_room_role i l = Inr (r, x) \<Longrightarrow> r \<in> set ROOM_MEMBER_ROLES"
  by (auto simp: normalize_room_role_def tx_simps Let_def split: if_splits)

lemma upsert_room_role_run:
  fixes s :: "'a room_db_scheme pstate"
  assumes "upsert_room_role b rm ag sess rid lab now s = (Inr row, t)"
    and "distinct (map role_key (room_member_roles (st_db s)))"
    and "\<forall>r \<in> set (room_member_roles (st_db s)). mr_role_id r \<in> set ROOM_MEMBER_ROLES"
  shows "t = s\<lparr>st_db := (st_db s)\<lparr>room_member_roles := put_role row (room_member_roles (st_db s))\<rparr>\<rparr>
    \<and> role_key row = (br_scope b, rm, ag) \<and> mr_room_session_id row = sess \<and> mr_updated_by row = br_agent_id b
    \<and> roles.sealed (br_sha256 b) row \<and> mr_role_id row \<in> set ROOM_MEMBER_ROLES
    \<and> continues_role row (room_member_roles (st_db s))"
proof -
  let ?rs = "room_member_roles (st_db s)"
  define existing where "existing = fetch_one (role_is (br_scope b) rm ag) ?rs"
  obtain r l where rl: "(case (rid, existing) of (None, Some e) \<Rightarrow> Inr (mr_role_id e, mr_role_label e)
       | _ \<Rightarrow> normalize_room_role rid lab) = Inr (r, l)"
    and row: "row = seal_role (br_sha256 b) \<lparr>mr_scope = br_scope b, mr_room_id = rm, mr_agent_id = ag,
           mr_room_session_id = sess, mr_role_id = r, mr_role_label = l, mr_updated_by = br_agent_id b,
           mr_created_utc = (case existing of None \<Rightarrow> now | Some e \<Rightarrow> mr_created_utc e),
           mr_updated_utc = now, mr_role_sha256 = []\<rparr>"
    and t: "t = s\<lparr>st_db := (st_db s)\<lparr>room_member_roles := upsert_row (role_is (br_scope b) rm ag) (write_role row) row ?rs\<rparr>\<rparr>"
    using assms(1) unfolding upsert_room_role_def existing_def by (auto simp: tx_simps Let_def split: prod.splits)
  have ex: "existing = Some e \<longleftrightarrow> e \<in> set ?rs \<and> role_key e = (br_scope b, rm, ag)" for e
    unfolding existing_def key_tests [symmetric] by (rule fetch_one_key [OF assms(2)]) (simp add: key_tests)
  have "r \<in> set ROOM_MEMBER_ROLES"
    using rl assms(3) ex normalize_room_role_Inr by (auto split: option.splits)
  moreover have "continues_role row ?rs"
    unfolding continues_role_def
  proof (intro ballI impI)
    fix e
    assume "e \<in> set ?rs" and "role_key e = role_key row"
    then have "existing = Some e" using ex row by (simp add: seal_role_def role_key_def)
    then show "mr_created_utc e = mr_created_utc row" using row by (simp add: seal_role_def)
  qed
  moreover have "mr_scope row = br_scope b" "mr_room_id row = rm" "mr_agent_id row = ag" "mr_room_session_id row = sess"
      "mr_updated_by row = br_agent_id b" "mr_role_id row = r"
    using row by (simp_all add: seal_role_def)
  moreover have "roles.sealed (br_sha256 b) row" unfolding row by (rule roles.sealed_seal)
  ultimately show ?thesis using t by (simp add: put_role_def role_key_def)
qed

section \<open>Access\<close>

definition open_room :: "bridge \<Rightarrow> string \<Rightarrow> 'a room_db_scheme \<Rightarrow> room_row \<Rightarrow> bool" where
  "open_room b rm d r \<longleftrightarrow> fetch_one (room_is (br_scope b) rm) (rooms d) = Some r \<and> \<not> ro_archived r"

text \<open>The human operator, or the creator of the room as long as it has an active seat.\<close>

definition managed :: "bridge \<Rightarrow> string \<Rightarrow> 'a room_db_scheme \<Rightarrow> room_row \<Rightarrow> bool" where
  "managed b rm d r \<longleftrightarrow> open_room b rm d r \<and> (br_agent_id b = HUMAN_OPERATOR_ID
     \<or> br_agent_id b = ro_created_by r \<and> active_room_member b rm (br_agent_id b) d \<noteq> None)"

definition manages :: "bridge \<Rightarrow> string \<Rightarrow> 'a room_db_scheme \<Rightarrow> bool" where
  "manages b rm d \<longleftrightarrow> (\<exists>r. managed b rm d r)"

definition may_speak :: "bridge \<Rightarrow> string \<Rightarrow> string \<Rightarrow> 'a room_db_scheme \<Rightarrow> bool" where
  "may_speak b rm ag d \<longleftrightarrow> (\<exists>r. open_room b rm d r) \<and> (if rm = DEFAULT_ROOM_ID
     then (\<forall>m. fetch_one (seat_is (br_scope b) rm ag) (room_memberships d) = Some m \<longrightarrow> me_status m = Seat_Active)
     else active_room_member b rm ag d \<noteq> None)"

lemma room_of_ok [tx_simps]: "room_of b rm s = (Inr r, t) \<longleftrightarrow> open_room b rm (st_db s) r \<and> t = s"
  by (auto simp: room_of_def open_room_def tx_simps split: option.splits)

lemma require_room_manager_ok [tx_simps]:
  "require_room_manager b rm s = (Inr r, t) \<longleftrightarrow> t = s \<and> managed b rm (st_db s) r"
  by (auto simp: require_room_manager_def managed_def tx_simps split: if_splits)

lemma require_room_member_ok [tx_simps]:
  "require_room_member b rm ag s = (Inr x, t) \<longleftrightarrow> t = s \<and> may_speak b rm ag (st_db s)
     \<and> x = (if rm = DEFAULT_ROOM_ID then fetch_one (seat_is (br_scope b) rm ag) (room_memberships (st_db s))
         else active_room_member b rm ag (st_db s))"
  by (auto simp: require_room_member_def may_speak_def tx_simps split: if_splits option.splits)

lemma room_policy_ok [tx_simps]:
  "room_policy b rm s = (Inr p, t) \<longleftrightarrow> t = s \<and> (\<exists>r. open_room b rm (st_db s) r)
     \<and> fetch_one (policy_is (br_scope b) rm) (room_automation_policies (st_db s)) = Some p"
  by (auto simp: room_policy_def tx_simps split: option.splits)

lemma seat_session_ok [tx_simps]:
  "seat_session row s = (Inr x, t) \<longleftrightarrow> x = (case row of Some r \<Rightarrow> me_room_session_id r | None \<Rightarrow> uuid_at s)
     \<and> t = (case row of Some r \<Rightarrow> s | None \<Rightarrow> tick s)"
  by (cases row) (auto simp: seat_session_def tx_simps)

lemma seat_session_db [simp]: "st_db (case row of Some r \<Rightarrow> s | None \<Rightarrow> tick s) = st_db s"
  by (cases row) simp_all

lemma require_own_or_manager_ok [tx_simps]:
  "require_own_or_manager b rm ag s = (Inr u, t) \<longleftrightarrow> t = s \<and> (ag = br_agent_id b \<or> manages b rm (st_db s))"
  by (auto simp: require_own_or_manager_def manages_def tx_simps)

text \<open>Both writes of \<open>_upsert_room_membership\<close>. The session is kept exactly when the seat was active under the
  same route.\<close>

lemma upsert_room_membership_run:
  fixes s :: "'a room_db_scheme pstate"
  assumes "upsert_room_membership b rm ag route now rid lab s = (Inr (seat, role), t)"
    and "room_inv (br_sha256 b) (st_db s)"
  shows "st_db t = bind_seat seat role (st_db s) \<and> good_seat (br_sha256 b) seat role (st_db s)
    \<and> seat_key seat = (br_scope b, rm, ag) \<and> me_status seat = Seat_Active \<and> me_route_profile_id seat = route
    \<and> mr_updated_by role = br_agent_id b
    \<and> me_room_session_id seat = (case fetch_one (seat_is (br_scope b) rm ag) (room_memberships (st_db s)) of
        Some e \<Rightarrow> if me_status e = Seat_Active \<and> me_route_profile_id e = route then me_room_session_id e else uuid_at s
      | None \<Rightarrow> uuid_at s)"
proof -
  let ?e = "fetch_one (seat_is (br_scope b) rm ag) (room_memberships (st_db s))"
  let ?kept = "if reuses_session route ?e then ?e else None"
  define sess where "sess = (case ?kept of Some e \<Rightarrow> me_room_session_id e | None \<Rightarrow> uuid_at s)"
  define v where "v = (case ?kept of Some e \<Rightarrow> s | None \<Rightarrow> tick s)"
  have v: "st_db v = st_db s" by (simp add: v_def)
  have seat: "seat = joined_seat b rm ag route ?kept sess now"
    and run: "upsert_room_role b rm ag sess rid lab now (v\<lparr>st_db := (st_db v)\<lparr>room_memberships :=
      put_seat seat (room_memberships (st_db v))\<rparr>\<rparr>) = (Inr role, t)"
    using assms(1) unfolding upsert_room_membership_def Let_def by (auto simp: tx_simps sess_def v_def split del: if_split)
  let ?w = "v\<lparr>st_db := (st_db v)\<lparr>room_memberships := put_seat seat (room_memberships (st_db v))\<rparr>\<rparr>"
  have rs: "distinct (map role_key (room_member_roles (st_db ?w)))"
      "\<forall>r \<in> set (room_member_roles (st_db ?w)). mr_role_id r \<in> set ROOM_MEMBER_ROLES"
    using assms(2) v(1) by (simp_all add: room_inv_def seats_ok_def)
  note role = upsert_room_role_run [OF run rs]
  have "seats.sealed (br_sha256 b) seat" unfolding seat joined_seat_def by (rule seats.sealed_seal)
  moreover have "seat_key seat = (br_scope b, rm, ag)" "me_status seat = Seat_Active" "me_left_utc seat = None"
      "me_route_profile_id seat = route" "me_room_session_id seat = sess"
    using seat by (simp_all add: joined_seat_def seal_seat_def seat_key_def)
  ultimately show ?thesis
    using role v sess_def by (auto simp: bind_seat_def good_seat_def seat_ok_def role_of_def reuses_session_def split: option.splits)
qed

section \<open>Seat calls\<close>

text \<open>The call wrote one seat with its role and its event, nothing else of the rooms.\<close>

definition seats_agent :: "bridge \<Rightarrow> string \<Rightarrow> string \<Rightarrow> seat_status \<Rightarrow> 'a room_db_scheme \<Rightarrow> 'a room_db_scheme \<Rightarrow> bool" where
  "seats_agent b rm ag st d d' \<longleftrightarrow> (\<exists>seat role. good_seat (br_sha256 b) seat role d \<and> seat_key seat = (br_scope b, rm, ag)
     \<and> me_status seat = st \<and> mr_updated_by role = br_agent_id b \<and> same_rooms (bind_seat seat role d) d')"

lemma seats_agent_inv: "seats_agent b rm ag st d d' \<Longrightarrow> room_inv (br_sha256 b) d \<Longrightarrow> room_inv (br_sha256 b) d'"
  unfolding seats_agent_def using bind_seat_inv same_rooms_inv by blast

lemma join_room_run:
  fixes s :: "'a room_db_scheme pstate"
  assumes "join_room b args s = (Inr x, t)" and "room_inv (br_sha256 b) (st_db s)"
  shows "\<exists>rm ag. manages b rm (st_db s) \<and> seats_agent b rm ag Seat_Active (st_db s) (st_db t)"
proof -
  obtain rm ag route rid lab r seat role and u :: "'a room_db_scheme pstate" and ev
    where m: "managed b rm (st_db s) r"
    and up: "upsert_room_membership b rm ag route (utc_at s) rid lab (tick s) = (Inr (seat, role), u)"
    and ev: "event_op b ''room.member_joined'' (seat_event seat role) None u = (Inr ev, t)"
    using assms(1) unfolding join_room_def by (auto simp: tx_simps split: prod.splits)
  have "room_inv (br_sha256 b) (st_db (tick s))" using assms(2) by simp
  note run = upsert_room_membership_run [OF up this]
  then have "seats_agent b rm ag Seat_Active (st_db s) (st_db t)"
    unfolding seats_agent_def using rooms.framedD [OF event_same_rooms ev] by auto
  then show ?thesis using m by (auto simp: manages_def)
qed

lemma room_inv_tables:
  assumes "room_inv H d"
  shows "distinct (map seat_key (room_memberships d))" "distinct (map role_key (room_member_roles d))"
    "\<forall>r \<in> set (room_member_roles d). mr_role_id r \<in> set ROOM_MEMBER_ROLES"
    "\<forall>m \<in> set (room_memberships d). seat_ok H m"
    "fetch_one (seat_is sc rm ag) (room_memberships d) = Some m \<longleftrightarrow> m \<in> set (room_memberships d) \<and> seat_key m = (sc, rm, ag)"
proof -
  show d: "distinct (map seat_key (room_memberships d))" using assms by (simp add: room_inv_def seats_ok_def)
  show "fetch_one (seat_is sc rm ag) (room_memberships d) = Some m \<longleftrightarrow> m \<in> set (room_memberships d) \<and> seat_key m = (sc, rm, ag)"
    using fetch_one_key [OF d, of "seat_is sc rm ag" "(sc, rm, ag)"] by (simp add: key_tests)
qed (use assms in \<open>auto simp: room_inv_def seats_ok_def\<close>)

text \<open>The role of a stored seat alone.\<close>

lemma seats_agent_role:
  fixes s :: "'a room_db_scheme pstate"
  assumes "upsert_room_role b rm ag (me_room_session_id seat) rid lab now s = (Inr role, t)" and "same_rooms (st_db t) d'"
    and "room_inv (br_sha256 b) (st_db s)" and "seat \<in> set (room_memberships (st_db s))" and "seat_key seat = (br_scope b, rm, ag)"
  shows "seats_agent b rm ag (me_status seat) (st_db s) d'"
proof -
  note tables = room_inv_tables [OF assms(3)]
  note run = upsert_room_role_run [OF assms(1) tables(2,3)]
  have "st_db t = bind_seat seat role (st_db s)"
    using run put_seat_stored [OF tables(1) assms(4)] by (simp add: bind_seat_def)
  moreover have "good_seat (br_sha256 b) seat role (st_db s)"
    using run assms(4,5) tables(4) by (simp add: good_seat_def role_of_def)
  ultimately show ?thesis using assms(2,5) run unfolding seats_agent_def by auto
qed

lemma set_role_tx_run:
  fixes s :: "'a room_db_scheme pstate"
  assumes "set_role_tx b rm ag rid lab now s = (Inr (seat, role, prev, mat), u)" and "same_rooms (st_db u) d'"
    and "room_inv (br_sha256 b) (st_db s)"
  shows "seats_agent b rm ag Seat_Active (st_db s) d'"
proof (cases "fetch_one (seat_is (br_scope b) rm ag) (room_memberships (st_db s))")
  case None
  then obtain role' where up: "upsert_room_membership b rm ag None now (Some rid) lab s = (Inr (seat, role'), u)"
    using assms(1) unfolding set_role_tx_def by (auto simp: tx_simps)
  show ?thesis
    using upsert_room_membership_run [OF up assms(3)] assms(2) unfolding seats_agent_def by auto
next
  case (Some m)
  then obtain role' where up: "upsert_room_role b rm ag (me_room_session_id m) (Some rid) lab now s = (Inr role', u)"
    and m: "me_status m = Seat_Active"
    using assms(1) unfolding set_role_tx_def by (auto simp: tx_simps)
  show ?thesis
    using seats_agent_role [OF up assms(2,3)] Some m room_inv_tables(5) [OF assms(3)] by auto
qed

lemma set_room_member_role_run:
  fixes s :: "'a room_db_scheme pstate"
  assumes "set_room_member_role b i a rarg larg s = (Inr x, t)" and "room_inv (br_sha256 b) (st_db s)"
  shows "\<exists>rm ag. manages b rm (st_db s) \<and> seats_agent b rm ag Seat_Active (st_db s) (st_db t)"
proof -
  obtain rm ag rid lab r seat role prev mat and u :: "'a room_db_scheme pstate" and ev
    where m: "managed b rm (st_db s) r"
    and up: "set_role_tx b rm ag rid lab (utc_at s) (tick s) = (Inr (seat, role, prev, mat), u)"
    and ev: "event_op b ''room.member_role_updated'' (role_event role (me_room_session_id seat) prev mat) None u = (Inr ev, t)"
    using assms(1) unfolding set_room_member_role_def by (auto simp: tx_simps split: prod.splits)
  have "seats_agent b rm ag Seat_Active (st_db (tick s)) (st_db t)"
    using set_role_tx_run [OF up rooms.framedD [OF event_same_rooms ev]] assms(2) by simp
  then show ?thesis using m by (auto simp: manages_def)
qed

lemma leave_tx_run:
  fixes s :: "'a room_db_scheme pstate"
  assumes "leave_tx b rm ag now s = (Inr (seat, role), t)" and "same_rooms (st_db t) d'"
    and "room_inv (br_sha256 b) (st_db s)"
  shows "seats_agent b rm ag Seat_Left (st_db s) d'"
proof -
  define row where "row = leaving_row b rm ag (st_db s)"
  define sess where "sess = (case row of Some e \<Rightarrow> me_room_session_id e | None \<Rightarrow> uuid_at s)"
  define v where "v = (case row of Some e \<Rightarrow> s | None \<Rightarrow> tick s)"
  have v: "st_db v = st_db s" by (simp add: v_def)
  have seat: "seat = left_seat b rm ag row sess now"
    and up: "upsert_room_role b rm ag sess None None now (v\<lparr>st_db := (st_db v)\<lparr>room_memberships :=
        put_seat seat (room_memberships (st_db v))\<rparr>\<rparr>) = (Inr role, t)"
    using assms(1) unfolding leave_tx_def Let_def by (auto simp: tx_simps sess_def v_def row_def)
  let ?w = "v\<lparr>st_db := (st_db v)\<lparr>room_memberships := put_seat seat (room_memberships (st_db v))\<rparr>\<rparr>"
  have rs: "distinct (map role_key (room_member_roles (st_db ?w)))"
      "\<forall>r \<in> set (room_member_roles (st_db ?w)). mr_role_id r \<in> set ROOM_MEMBER_ROLES"
    using room_inv_tables [OF assms(3)] v by simp_all
  note run = upsert_room_role_run [OF up rs]
  have "seats.sealed (br_sha256 b) seat" unfolding seat left_seat_def by (rule seats.sealed_seal)
  moreover have "seat_key seat = (br_scope b, rm, ag)" "me_status seat = Seat_Left" "me_left_utc seat = Some now"
      "me_room_session_id seat = sess"
    using seat by (simp_all add: left_seat_def seal_seat_def seat_key_def)
  ultimately have "good_seat (br_sha256 b) seat role (st_db s)" "st_db t = bind_seat seat role (st_db s)"
    using run v by (auto simp: bind_seat_def good_seat_def seat_ok_def role_of_def)
  then show ?thesis
    using assms(2) run \<open>seat_key seat = _\<close> \<open>me_status seat = _\<close> unfolding seats_agent_def by auto
qed

lemma leave_room_run:
  fixes s :: "'a room_db_scheme pstate"
  assumes "leave_room b i a s = (Inr x, t)" and "room_inv (br_sha256 b) (st_db s)"
  shows "\<exists>rm ag. (ag = br_agent_id b \<or> manages b rm (st_db s)) \<and> seats_agent b rm ag Seat_Left (st_db s) (st_db t)"
proof -
  obtain rm ag seat role and u :: "'a room_db_scheme pstate" and ev
    where m: "ag = br_agent_id b \<or> manages b rm (st_db s)"
    and up: "leave_tx b rm ag (utc_at s) (tick s) = (Inr (seat, role), u)"
    and ev: "event_op b ''room.member_left'' (seat_event seat role) None u = (Inr ev, t)"
    using assms(1) unfolding leave_room_def by (simp add: tx_simps split: prod.splits) blast
  have "seats_agent b rm ag Seat_Left (st_db (tick s)) (st_db t)"
    using leave_tx_run [OF up rooms.framedD [OF event_same_rooms ev]] assms(2) by simp
  then show ?thesis using m by auto
qed

section \<open>Rooms and policies\<close>

lemma once_policy_sealed [simp]: "policies.sealed H (once_policy H sc rm by now)"
  unfolding once_policy_def by (rule policies.sealed_seal)

lemma once_policy_ok [simp]:
  "policy_bounds (once_policy H sc rm by now)" "policy_key (once_policy H sc rm by now) = (sc, rm)"
  "po_mode (once_policy H sc rm by now) = ''once''"
  by (simp_all add: once_policy_def seal_policy_def policy_bounds_def policy_key_def ROOM_AUTOMATION_MODES_def
      DEFAULT_DISCUSSION_MAX_ROUNDS_def DEFAULT_DISCUSSION_MAX_MESSAGES_def DEFAULT_DISCUSSION_STAGNATION_ROUNDS_def
      MAX_DISCUSSION_ROUNDS_def MAX_DISCUSSION_MESSAGES_def)

text \<open>A new room and a new policy leave the rest valid.\<close>

lemma room_inv_new:
  assumes "room_inv H d" and "room_key room \<notin> room_key ` set (rooms d)" and "room_rows.sealed H room"
  shows "room_inv H (d\<lparr>rooms := rooms d @ [room]\<rparr>)"
  using assms by (auto simp: room_inv_def disc_inv_def)

lemma room_inv_policy:
  assumes "room_inv H d" and "policy_key p \<notin> policy_key ` set (room_automation_policies d)"
    and "policies.sealed H p" and "policy_bounds p"
  shows "room_inv H (d\<lparr>room_automation_policies := room_automation_policies d @ [p]\<rparr>)"
  using assms by (fastforce simp: room_inv_def disc_inv_def policies_ok_def discussions_ok_def sealed_policy)

lemma create_room_run:
  fixes s :: "'a room_db_scheme pstate"
  assumes "create_room b i n s = (Inr x, t)" and "room_inv (br_sha256 b) (st_db s)"
  shows "\<exists>rm room policy. fetch_one (room_is (br_scope b) rm) (rooms (st_db s)) = None \<and> room_key room = (br_scope b, rm)
    \<and> ro_created_by room = br_agent_id b \<and> rm \<noteq> DEFAULT_ROOM_ID \<and> (\<exists>d. room_inv (br_sha256 b) (st_db t)
        \<and> seats_agent b rm (br_agent_id b) Seat_Active ((st_db s)\<lparr>rooms := rooms (st_db s) @ [room]\<rparr>) d
        \<and> same_rooms (d\<lparr>room_automation_policies := room_automation_policies d @ [policy]\<rparr>) (st_db t))"
proof -
  let ?H = "br_sha256 b"
  obtain rm nm seat role room and u :: "'a room_db_scheme pstate" and ev ty p tid
    where rm: "rm \<noteq> DEFAULT_ROOM_ID" "\<not> list_ex (room_is (br_scope b) rm) (rooms (st_db s))"
    and room: "room = seal_room ?H \<lparr>ro_scope = br_scope b, ro_room_id = rm, ro_name = nm, ro_created_by = br_agent_id b,
      ro_archived = False, ro_created_utc = utc_at s, ro_updated_utc = utc_at s, ro_room_sha256 = []\<rparr>"
    and up: "upsert_room_membership b rm (br_agent_id b) None (utc_at s) None None
      ((tick s)\<lparr>st_db := (st_db (tick s))\<lparr>rooms := rooms (st_db (tick s)) @ [room]\<rparr>\<rparr>) = (Inr (seat, role), u)"
    and pol: "\<not> list_ex (policy_is (br_scope b) rm) (room_automation_policies (st_db u))"
    and ev: "event_op b ty p tid (u\<lparr>st_db := (st_db u)\<lparr>room_automation_policies := room_automation_policies (st_db u)
      @ [once_policy ?H (br_scope b) rm (br_agent_id b) (utc_at s)]\<rparr>\<rparr>) = (Inr ev, t)"
    using assms(1) unfolding create_room_def Let_def by (simp add: tx_simps split: prod.splits) blast
  let ?d1 = "(st_db s)\<lparr>rooms := rooms (st_db s) @ [room]\<rparr>"
  let ?p = "once_policy ?H (br_scope b) rm (br_agent_id b) (utc_at s)"
  have "room_rows.sealed ?H room" unfolding room by (rule room_rows.sealed_seal)
  then have key: "room_key room = (br_scope b, rm)" "ro_created_by room = br_agent_id b" "room_rows.sealed ?H room"
    using room by (simp_all add: seal_room_def room_key_def)
  have none: "fetch_one (room_is (br_scope b) rm) (rooms (st_db s)) = None"
    using rm(2) by (auto simp: fetch_one_def find_None_iff list_ex_iff)
  have d1: "room_inv ?H (st_db ((tick s)\<lparr>st_db := (st_db (tick s))\<lparr>rooms := rooms (st_db (tick s)) @ [room]\<rparr>\<rparr>))"
    using assms(2) rm(2) key by (auto simp: list_ex_iff key_tests intro!: room_inv_new)
  have seat: "seats_agent b rm (br_agent_id b) Seat_Active ?d1 (st_db u)"
    unfolding seats_agent_def
    by (rule exI [of _ seat], rule exI [of _ role]) (use upsert_room_membership_run [OF up d1] in \<open>simp add: rooms.frame_refl\<close>)
  have d2: "room_inv ?H ((st_db u)\<lparr>room_automation_policies := room_automation_policies (st_db u) @ [?p]\<rparr>)"
    using seats_agent_inv [OF seat] d1 pol by (intro room_inv_policy) (auto simp: list_ex_iff key_tests)
  have "same_rooms ((st_db u)\<lparr>room_automation_policies := room_automation_policies (st_db u) @ [?p]\<rparr>) (st_db t)"
    using rooms.framedD [OF event_same_rooms ev] by simp
  then show ?thesis using rm(1) key none seat same_rooms_inv d2 by blast
qed

section \<open>Stopping discussions\<close>

text \<open>Each discussion is as before, or stopped.\<close>

definition stopped_by :: "disc_row \<Rightarrow> disc_row \<Rightarrow> bool" where
  "stopped_by r q \<longleftrightarrow> q = r \<or> (disc_key q = disc_key r \<and> disc_room q = disc_room r \<and> di_status q = ''stopped'')"

definition only_stops :: "'a room_db_scheme \<Rightarrow> 'a room_db_scheme \<Rightarrow> bool" where
  "only_stops d d' \<longleftrightarrow> rooms d' = rooms d \<and> room_memberships d' = room_memberships d
     \<and> room_member_roles d' = room_member_roles d \<and> room_automation_policies d' = room_automation_policies d
     \<and> list_all2 stopped_by (room_discussions d) (room_discussions d')"

interpretation stops: db_frame only_stops
proof
  have "stopped_by r r" for r by (simp add: stopped_by_def)
  then show "only_stops d d" for d :: "'a room_db_scheme" by (simp add: only_stops_def list_all2_refl)
  have "stopped_by a b \<Longrightarrow> stopped_by b c \<Longrightarrow> stopped_by a c" for a b c by (auto simp: stopped_by_def)
  then show "only_stops d e \<Longrightarrow> only_stops e f \<Longrightarrow> only_stops d f" for d e f :: "'a room_db_scheme"
    unfolding only_stops_def using list_all2_trans [of stopped_by stopped_by stopped_by] by metis
qed

lemma same_rooms_stops: "same_rooms d d' \<Longrightarrow> only_stops d d'"
  by (simp add: same_rooms_def only_stops_def list_all2_refl stopped_by_def)

lemma stopped_not_open [simp]: "di_status r = ''stopped'' \<Longrightarrow> \<not> open_discussion r"
  by (simp add: open_discussion_def)

lemma discussions_ok_stops:
  assumes "list_all2 stopped_by ds ds'" and "discussions_ok ps ds"
  shows "discussions_ok ps ds'"
proof -
  have from_old: "\<exists>r \<in> set ds. disc_key q = disc_key r \<and> disc_room q = disc_room r \<and> (open_discussion q \<longrightarrow> q = r)"
    if q: "q \<in> set ds'" for q
  proof -
    obtain i where "i < length ds'" "q = ds' ! i" using q by (auto simp: in_set_conv_nth)
    then have "ds ! i \<in> set ds" "stopped_by (ds ! i) q" using assms(1) by (auto simp: list_all2_conv_all_nth)
    then show ?thesis by (intro bexI [of _ "ds ! i"]) (auto simp: stopped_by_def)
  qed
  show ?thesis using assms(2) from_old unfolding discussions_ok_def by metis
qed

lemma only_stops_inv: "only_stops d d' \<Longrightarrow> disc_inv H d' \<Longrightarrow> room_inv H d \<Longrightarrow> room_inv H d'"
  unfolding only_stops_def room_inv_def using discussions_ok_stops by auto

lemma store_db_stops:
  "list_all2 stopped_by (room_discussions d) (room_discussions (store_db H row now (stop_changes reason) d))"
  by (auto simp: store_db_def update_where_def list_all2_conv_all_nth stopped_by_def seal_discussion_def stop_changes_def
      disc_key_def disc_room_def)

text \<open>A body that stops the discussion it is given.\<close>

definition stops_row :: "bridge \<Rightarrow> disc_row \<Rightarrow> 'a room_db_scheme \<Rightarrow> 'a room_db_scheme \<Rightarrow> bool" where
  "stops_row b r d d' \<longleftrightarrow> only_stops d d' \<and> disc_inv (br_sha256 b) d'
     \<and> (\<exists>now reason. room_discussions d' = room_discussions (store_db (br_sha256 b) r now (stop_changes reason) d))"

lemma stop_loop:
  assumes "tx_for f xs s = (Inr ys, t)" and "disc_inv (br_sha256 b) (st_db s)"
    and "xs = filter (open_in_room (br_scope b) rm) (room_discussions (st_db s))"
    and body: "\<And>x u a v. f x u = (Inr a, v) \<Longrightarrow> disc_inv (br_sha256 b) (st_db u) \<Longrightarrow> x \<in> set (room_discussions (st_db u))
      \<Longrightarrow> di_scope x = br_scope b \<Longrightarrow> stops_row b x (st_db u) (st_db v)"
  shows "only_stops (st_db s) (st_db t) \<and> disc_inv (br_sha256 b) (st_db t)
    \<and> (\<forall>r \<in> set (room_discussions (st_db t)). \<not> open_in_room (br_scope b) rm r)"
proof -
  define J where "J = (\<lambda>ys d. only_stops (st_db s) d \<and> disc_inv (br_sha256 b) d \<and> distinct ys
    \<and> set ys \<subseteq> {r \<in> set (room_discussions d). di_scope r = br_scope b}
    \<and> (\<forall>r \<in> set (room_discussions d). open_in_room (br_scope b) rm r \<longrightarrow> r \<in> set ys))"
  have "J [] (st_db t)"
    using assms(1)
  proof (rule tx_for_rule [where J = J])
    have "distinct (room_discussions (st_db s))"
      using assms(2) by (simp add: disc_inv_def distinct_map)
    then show "J xs (st_db s)"
      using assms(2,3) by (auto simp: J_def stops.frame_refl open_in_room_def)
  next
    fix x rest u a v
    assume J: "J (x # rest) (st_db u)" and run: "f x u = (Inr a, v)"
    have x: "x \<in> set (room_discussions (st_db u))" "di_scope x = br_scope b" "disc_inv (br_sha256 b) (st_db u)"
      using J by (auto simp: J_def)
    have step: "stops_row b x (st_db u) (st_db v)" using body [OF run x(3,1,2)] .
    have keys: "distinct (map disc_key (room_discussions (st_db u)))" using x(3) by (simp add: disc_inv_def)
    obtain now reason where v: "set (room_discussions (st_db v)) = (\<lambda>r. if disc_key r = disc_key x
        then seal_discussion (br_sha256 b) ((stop_changes reason r)\<lparr>di_updated_utc := now\<rparr>) else r) ` set (room_discussions (st_db u))"
      using step by (auto simp: stops_row_def store_db_def set_update_where)
    have "r \<in> set (room_discussions (st_db v))" if "r \<in> set rest" for r
    proof -
      have "r \<in> set (room_discussions (st_db u))" "r \<noteq> x" using J that by (auto simp: J_def)
      then have "disc_key r \<noteq> disc_key x" using distinct_key_eq [OF keys _ x(1)] by blast
      then show ?thesis using v \<open>r \<in> set (room_discussions (st_db u))\<close> by force
    qed
    moreover have "r \<in> set rest" if "r \<in> set (room_discussions (st_db v))" "open_in_room (br_scope b) rm r" for r
      using that J v by (auto simp: J_def open_in_room_def seal_discussion_def stop_changes_def open_discussion_def split: if_splits)
    ultimately show "J rest (st_db v)"
      using J step stops.frame_trans by (auto simp: J_def stops_row_def)
  qed
  then show ?thesis by (simp add: J_def)
qed

lemma stop_discussion_row:
  assumes "stop_discussion b now reason x u = (Inr a, v)" and "disc_inv (br_sha256 b) (st_db u)"
    and "x \<in> set (room_discussions (st_db u))" and "di_scope x = br_scope b"
  shows "stops_row b x (st_db u) (st_db v)"
proof -
  have "distinct (map disc_key (room_discussions (st_db u)))" using assms(2) by (simp add: disc_inv_def)
  then have v: "st_db v = store_db (br_sha256 b) x now (stop_changes reason) (st_db u)"
    using assms(1) store_discussion_state_run [where changes = "stop_changes reason", OF _ assms(3,4) stop_changes_identity] by (auto simp: stop_discussion_def)
  moreover have "disc_inv (br_sha256 b) (st_db v)" unfolding v by (rule store_db_inv [OF assms(2)]) simp
  moreover have "only_stops (st_db u) (st_db v)"
    unfolding only_stops_def v using store_db_stops by (auto simp: store_db_def)
  ultimately show ?thesis unfolding stops_row_def by auto
qed

section \<open>The policy of a room\<close>

lemma new_policy_ok:
  assumes "validate_automation args = Inr spec"
  shows "policy_bounds (new_policy b spec c now)" "policy_key (new_policy b spec c now) = (br_scope b, fst spec)"
    "policies.sealed (br_sha256 b) (new_policy b spec c now)" "po_created_utc (new_policy b spec c now) = c"
    "po_updated_by (new_policy b spec c now) = br_agent_id b"
proof -
  show "policy_bounds (new_policy b spec c now)"
    using assms by (auto simp: validate_automation_def bounded_integer_def tx_simps Let_def policy_bounds_def new_policy_def
        seal_policy_def split: if_splits)
  show "policies.sealed (br_sha256 b) (new_policy b spec c now)"
    by (cases spec) (simp add: new_policy_def policies.sealed_seal del: seal_policy_def)
qed (cases spec; simp add: new_policy_def seal_policy_def policy_key_def)+

definition put_policy :: "policy_row \<Rightarrow> policy_row list \<Rightarrow> policy_row list" where
  "put_policy p = update_where (policy_is (po_scope p) (po_room_id p)) (write_policy p)"

lemma put_policy_set:
  assumes "distinct (map policy_key ps)" and "old \<in> set ps" and "policy_key old = policy_key p" and "po_created_utc p = po_created_utc old"
  shows "set (put_policy p ps) = {q \<in> set ps. policy_key q \<noteq> policy_key p} \<union> {p}" "map policy_key (put_policy p ps) = map policy_key ps"
proof -
  have self: "write_policy p q = p" if "q \<in> set ps" "policy_key q = policy_key p" for q
  proof -
    have "q = old" using distinct_key_eq [OF assms(1) that(1) assms(2)] that(2) assms(3) by simp
    then show ?thesis using assms(3,4) by (cases p; cases old) (simp add: write_policy_def policy_key_def)
  qed
  then show "set (put_policy p ps) = {q \<in> set ps. policy_key q \<noteq> policy_key p} \<union> {p}"
    using assms(2,3) by (auto simp: put_policy_def set_update_where key_tests policy_key_def [of p] image_iff)
  show "map policy_key (put_policy p ps) = map policy_key ps"
    unfolding put_policy_def by (rule map_update_where) (simp add: write_policy_def policy_key_def)
qed

text \<open>A room of a policy without discussions has no open one; then any policy may be stored.\<close>

lemma put_policy_inv:
  assumes "room_inv H d" and "old \<in> set (room_automation_policies d)" and "policy_key old = policy_key p"
    and "po_created_utc p = po_created_utc old" and "policies.sealed H p" and "policy_bounds p"
    and "discussion_mode (po_mode p) \<or> (\<forall>r \<in> set (room_discussions d). disc_room r = policy_key p \<longrightarrow> \<not> open_discussion r)"
  shows "room_inv H (d\<lparr>room_automation_policies := put_policy p (room_automation_policies d)\<rparr>)"
proof -
  let ?ps = "room_automation_policies d"
  have d: "distinct (map policy_key ?ps)" using assms(1) by (simp add: room_inv_def policies_ok_def)
  note sets = put_policy_set [OF d assms(2-4)]
  have "policies_ok H (put_policy p ?ps)"
    using assms(1,6) sealed_policy [OF assms(5)] sets d by (auto simp: room_inv_def policies_ok_def)
  moreover have "\<exists>q \<in> set (put_policy p ?ps). policy_key q = disc_room r \<and> (open_discussion r \<longrightarrow> discussion_mode (po_mode q))"
    if r: "r \<in> set (room_discussions d)" for r
  proof (cases "disc_room r = policy_key p")
    case True
    then show ?thesis using assms(7) r sets(1) by auto
  next
    case False
    obtain q where "q \<in> set ?ps" "policy_key q = disc_room r" "open_discussion r \<longrightarrow> discussion_mode (po_mode q)"
      using assms(1) r by (auto simp: room_inv_def discussions_ok_def)
    then show ?thesis using False sets(1) by (intro bexI [of _ q]) auto
  qed
  ultimately show ?thesis using assms(1) by (auto simp: room_inv_def disc_inv_def discussions_ok_def)
qed

lemma store_policy_run:
  fixes s :: "'a room_db_scheme pstate"
  assumes "store_policy b p now s = (Inr x, t)" and "room_inv (br_sha256 b) (st_db s)"
    and "old \<in> set (room_automation_policies (st_db s))" and "policy_key old = policy_key p" and "po_scope p = br_scope b"
    and "po_created_utc p = po_created_utc old" and "policies.sealed (br_sha256 b) p" and "policy_bounds p"
  shows "room_inv (br_sha256 b) (st_db t) \<and> p \<in> set (room_automation_policies (st_db t))
    \<and> only_stops ((st_db s)\<lparr>room_automation_policies := put_policy p (room_automation_policies (st_db s))\<rparr>) (st_db t)"
proof -
  let ?ps = "room_automation_policies (st_db s)"
  let ?d1 = "(st_db s)\<lparr>room_automation_policies := put_policy p ?ps\<rparr>"
  let ?rows = "filter (open_in_room (br_scope b) (po_room_id p)) (room_discussions (st_db (s\<lparr>st_db := ?d1\<rparr>)))"
  obtain ys where loop: "tx_for (stop_discussion b now ''policy_changed'') (if discussion_mode (po_mode p) then [] else ?rows)
      (s\<lparr>st_db := ?d1\<rparr>) = (Inr ys, t)"
    using assms(1) unfolding store_policy_def assms(5) [symmetric] put_policy_def [symmetric] discussion_mode_def [symmetric]
    by (auto simp: tx_simps)
  have disc: "disc_inv (br_sha256 b) (st_db (s\<lparr>st_db := ?d1\<rparr>))" using assms(2) by (simp add: room_inv_def disc_inv_def)
  have ends: "only_stops ?d1 (st_db t) \<and> disc_inv (br_sha256 b) (st_db t) \<and> (discussion_mode (po_mode p) \<or>
      (\<forall>r \<in> set (room_discussions (st_db t)). \<not> open_in_room (br_scope b) (po_room_id p) r))"
  proof (cases "discussion_mode (po_mode p)")
    case True
    then show ?thesis using loop disc by (simp add: tx_simps stops.frame_refl)
  next
    case False
    then have rows: "tx_for (stop_discussion b now ''policy_changed'') ?rows (s\<lparr>st_db := ?d1\<rparr>) = (Inr ys, t)"
      using loop by simp
    have "only_stops (st_db (s\<lparr>st_db := ?d1\<rparr>)) (st_db t) \<and> disc_inv (br_sha256 b) (st_db t)
        \<and> (\<forall>r \<in> set (room_discussions (st_db t)). \<not> open_in_room (br_scope b) (po_room_id p) r)"
      by (rule stop_loop [OF rows disc refl], rule stop_discussion_row)
    then show ?thesis by simp
  qed
  let ?d2 = "(st_db t)\<lparr>room_automation_policies := ?ps\<rparr>"
  have same: "put_policy p ?ps = room_automation_policies (st_db t)" using ends by (simp add: only_stops_def)
  have "only_stops (st_db s) ?d2" using ends by (simp add: only_stops_def)
  moreover have "disc_inv (br_sha256 b) ?d2" using ends by (simp add: disc_inv_def)
  ultimately have "room_inv (br_sha256 b) ?d2" using only_stops_inv assms(2) by blast
  then have "room_inv (br_sha256 b) (?d2\<lparr>room_automation_policies := put_policy p (room_automation_policies ?d2)\<rparr>)"
    using assms(3-8) ends by (intro put_policy_inv [of _ _ old]) (auto simp: open_in_room_key policy_key_def)
  moreover have "p \<in> set (put_policy p ?ps)"
    using put_policy_set [of ?ps old p] assms(2-6) by (simp add: room_inv_def policies_ok_def)
  ultimately show ?thesis using ends same by simp
qed

lemma set_room_automation_run:
  fixes s :: "'a room_db_scheme pstate"
  assumes "set_room_automation b args s = (Inr (p, c), t)" and "room_inv (br_sha256 b) (st_db s)"
  shows "manages b (po_room_id p) (st_db s) \<and> room_inv (br_sha256 b) (st_db t) \<and> policy_bounds p
    \<and> p \<in> set (room_automation_policies (st_db t)) \<and> policy_key p = (br_scope b, po_room_id p) \<and> po_updated_by p = br_agent_id b
    \<and> room_memberships (st_db t) = room_memberships (st_db s) \<and> rooms (st_db t) = rooms (st_db s)"
proof -
  obtain spec old r ev ty pl tid and u :: "'a room_db_scheme pstate"
    where v: "validate_automation args = Inr spec" and m: "managed b (fst spec) (st_db s) r"
    and old: "fetch_one (policy_is (br_scope b) (fst spec)) (room_automation_policies (st_db s)) = Some old"
    and p: "p = new_policy b spec (po_created_utc old) (utc_at s)"
    and sp: "store_policy b (new_policy b spec (po_created_utc old) (utc_at s)) (utc_at s) (tick s) = (Inr (), u)"
    and ev: "event_op b ty pl tid u = (Inr ev, t)"
    using assms(1) unfolding set_room_automation_def Let_def by (auto simp: tx_simps)
  note new = new_policy_ok [OF v, of b "po_created_utc old" "utc_at s", folded p]
  have o: "old \<in> set (room_automation_policies (st_db (tick s)))" "policy_key old = policy_key p"
    using fetch_one_SomeD [OF old] new(2) by (simp_all add: key_tests)
  have k: "po_scope p = br_scope b" "po_room_id p = fst spec" using new(2) by (simp_all add: policy_key_def)
  have "room_inv (br_sha256 b) (st_db (tick s))" using assms(2) by simp
  note run = store_policy_run [OF sp [folded p] this o k(1) new(4,3,1)]
  have t: "same_rooms (st_db u) (st_db t)" using rooms.framedD [OF event_same_rooms ev] .
  then have "room_inv (br_sha256 b) (st_db t)" using run same_rooms_inv by blast
  moreover have "manages b (fst spec) (st_db s)" using m by (auto simp: manages_def)
  ultimately show ?thesis using run t k new by (auto simp: same_rooms_def only_stops_def)
qed

end
