(* ===== verification/MailInvariant.thy ===== *)
theory MailInvariant
  imports RoomInvariant
begin

text \<open>
  The invariant of the message store and what no call ever undoes. Messages are numbered in the order
  they were written; a cursor never stands behind a message its consumer was sent and did not
  acknowledge; the storage quota counts the messages exactly; and the audit chain stays valid. A
  future of a store only appends messages, receipts, routes and rooms, and only moves cursors on.
\<close>

section \<open>What is kept\<close>

definition cursor_key :: "cursor_row \<Rightarrow> string \<times> string \<times> string" where
  "cursor_key r = (cc_scope r, cc_channel r, cc_consumer r)"

lemma cursor_test: "cursor_is sc ch co r \<longleftrightarrow> cursor_key r = (sc, ch, co)"
  by (auto simp: cursor_is_def cursor_key_def)

definition numbered :: "msg_row list \<Rightarrow> nat \<Rightarrow> bool" where
  "numbered ms n \<longleftrightarrow> sorted_wrt (<) (map mg_sequence ms) \<and> (\<forall>m \<in> set ms. 0 < mg_sequence m \<and> mg_sequence m \<le> n)
     \<and> distinct (map mg_message_id ms)"

text \<open>A message in the channel of the cursor, for its consumer.\<close>

definition on_channel :: "cursor_row \<Rightarrow> msg_row \<Rightarrow> bool" where
  "on_channel c m \<longleftrightarrow> mg_scope m = cc_scope c \<and> channel_of (mg_room_id m) = cc_channel c \<and> addressed_to (cc_consumer c) m"

definition caught_up :: "msg_row list \<Rightarrow> receipt_row list \<Rightarrow> cursor_row \<Rightarrow> bool" where
  "caught_up ms rs c \<longleftrightarrow> (\<forall>m \<in> set ms. on_channel c m \<longrightarrow> mg_sequence m \<le> cc_position c \<longrightarrow> acknowledged_by (cc_consumer c) rs m)"

definition cursors_ok :: "msg_row list \<Rightarrow> receipt_row list \<Rightarrow> nat \<Rightarrow> cursor_row list \<Rightarrow> bool" where
  "cursors_ok ms rs n cs \<longleftrightarrow> distinct (map cursor_key cs) \<and> (\<forall>c \<in> set cs. cc_position c \<le> n \<and> caught_up ms rs c)"

definition count_messages :: "string \<Rightarrow> msg_row list \<Rightarrow> int" where
  "count_messages sc ms = int (length (filter (\<lambda>m. mg_scope m = sc) ms))"

text \<open>The usage row of a scope counts its messages, \<open>n\<close> of the scope \<open>sc\<close> reserved but not yet written.\<close>

definition quota_row :: "string \<Rightarrow> int \<Rightarrow> msg_row list \<Rightarrow> usage_row \<Rightarrow> bool" where
  "quota_row sc n ms u \<longleftrightarrow> us_message_rows u = count_messages (us_scope u) ms + (if us_scope u = sc then n else 0)
     \<and> us_message_rows u \<le> MAX_SCOPE_MESSAGE_ROWS \<and> us_message_bytes u \<le> MAX_SCOPE_MESSAGE_BYTES"

definition quota_but :: "string \<Rightarrow> int \<Rightarrow> msg_row list \<Rightarrow> usage_row list \<Rightarrow> bool" where
  "quota_but sc n ms us \<longleftrightarrow> distinct (map us_scope us) \<and> (\<forall>u \<in> set us. quota_row sc n ms u)
     \<and> (\<forall>m \<in> set ms. mg_scope m \<in> us_scope ` set us) \<and> (n \<noteq> 0 \<longrightarrow> sc \<in> us_scope ` set us)"

text \<open>Nothing is reserved.\<close>

definition quota_exact :: "msg_row list \<Rightarrow> usage_row list \<Rightarrow> bool" where
  "quota_exact ms us \<longleftrightarrow> quota_but [] 0 ms us"

lemma quota_exact_but: "quota_exact ms us \<longleftrightarrow> quota_but sc 0 ms us"
  by (simp add: quota_exact_def quota_but_def quota_row_def)

definition mail_inv :: "(string \<Rightarrow> string) \<Rightarrow> 'a message_db_scheme \<Rightarrow> bool" where
  "mail_inv H d \<longleftrightarrow> audit_inv H d \<and> numbered (messages d) (message_seq d)
     \<and> cursors_ok (messages d) (message_receipts d) (message_seq d) (consumer_cursors d)
     \<and> quota_exact (messages d) (scope_storage_usage d)"

text \<open>The columns of a message that no call changes: all but \<open>acknowledged_utc\<close>.\<close>

definition msg_core :: "msg_row \<Rightarrow> msg_row" where
  "msg_core m = m\<lparr>mg_acknowledged_utc := None\<rparr>"

definition extends_list :: "'x list \<Rightarrow> 'x list \<Rightarrow> bool" where
  "extends_list xs ys \<longleftrightarrow> (\<exists>zs. ys = xs @ zs)"

definition mail_leads :: "'a message_db_scheme \<Rightarrow> 'a message_db_scheme \<Rightarrow> bool" where
  "mail_leads d d' \<longleftrightarrow> extends_list (map msg_core (messages d)) (map msg_core (messages d'))
     \<and> extends_list (message_receipts d) (message_receipts d')
     \<and> extends_list (message_route_receipts d) (message_route_receipts d')
     \<and> extends_list (mcp_mutation_receipts d) (mcp_mutation_receipts d')
     \<and> extends_list (route_profiles d) (route_profiles d') \<and> extends_list (rooms d) (rooms d')
     \<and> (\<forall>c \<in> set (consumer_cursors d). \<exists>c' \<in> set (consumer_cursors d'). cursor_key c' = cursor_key c \<and> cc_position c \<le> cc_position c')"

lemma extends_refl [simp]: "extends_list xs xs" by (simp add: extends_list_def)
lemma extends_snoc [simp]: "extends_list xs (xs @ ys)" by (auto simp: extends_list_def)
lemma extends_trans: "extends_list xs ys \<Longrightarrow> extends_list ys zs \<Longrightarrow> extends_list xs zs"
  by (auto simp: extends_list_def)
lemma extends_in: "extends_list xs ys \<Longrightarrow> x \<in> set xs \<Longrightarrow> x \<in> set ys"
  by (auto simp: extends_list_def)
lemma extends_upsert [simp]: "extends_list xs (upsert_row P id x xs)"
  by (simp add: upsert_row_def update_where_def extends_list_def cong: if_cong)

lemma mail_leads_refl: "mail_leads d d"
  by (auto simp: mail_leads_def)

lemma mail_leads_trans:
  assumes "mail_leads a b" and "mail_leads b c"
  shows "mail_leads a c"
proof -
  note ab = assms(1) [unfolded mail_leads_def] and bc = assms(2) [unfolded mail_leads_def]
  have "\<exists>z \<in> set (consumer_cursors c). cursor_key z = cursor_key x \<and> cc_position x \<le> cc_position z"
    if "x \<in> set (consumer_cursors a)" for x
    using that ab bc by (metis le_trans)
  moreover have "extends_list (map msg_core (messages a)) (map msg_core (messages c))"
      "extends_list (message_receipts a) (message_receipts c)" "extends_list (message_route_receipts a) (message_route_receipts c)"
    using ab bc extends_trans by blast+
  moreover have "extends_list (mcp_mutation_receipts a) (mcp_mutation_receipts c)"
      "extends_list (route_profiles a) (route_profiles c)" "extends_list (rooms a) (rooms c)"
    using ab bc extends_trans by blast+
  ultimately show ?thesis by (simp add: mail_leads_def)
qed

text \<open>The relation of a good call: it keeps the invariant and leads to a future.\<close>

definition mail_step :: "(string \<Rightarrow> string) \<Rightarrow> 'a message_db_scheme \<Rightarrow> 'a message_db_scheme \<Rightarrow> bool" where
  "mail_step H d d' \<longleftrightarrow> (mail_inv H d \<longrightarrow> mail_inv H d' \<and> mail_leads d d')"

interpretation mail: db_frame "mail_step H" for H
proof
  show "mail_step H d d" for d :: "'a message_db_scheme" by (simp add: mail_step_def mail_leads_refl)
  show "mail_step H d e \<Longrightarrow> mail_step H e f \<Longrightarrow> mail_step H d f" for d e f :: "'a message_db_scheme"
    unfolding mail_step_def using mail_leads_trans by blast
qed

section \<open>Parts that leave the mail alone\<close>

definition same_mail :: "'a message_db_scheme \<Rightarrow> 'a message_db_scheme \<Rightarrow> bool" where
  "same_mail d d' \<longleftrightarrow> messages d' = messages d \<and> message_seq d' = message_seq d \<and> message_receipts d' = message_receipts d
     \<and> message_route_receipts d' = message_route_receipts d \<and> consumer_cursors d' = consumer_cursors d
     \<and> mcp_mutation_receipts d' = mcp_mutation_receipts d"

lemma mail_step_same:
  assumes "same_mail d d'" and "events d' = events d" and "event_seq d' = event_seq d"
    and "scope_storage_usage d' = scope_storage_usage d"
    and "extends_list (route_profiles d) (route_profiles d')" and "extends_list (rooms d) (rooms d')"
  shows "mail_step H d d'"
  using assms by (auto simp: mail_step_def mail_inv_def mail_leads_def same_mail_def audit_inv_def)

lemma quota_ensure: "quota_but sc n ms us \<Longrightarrow> n = 0 \<or> sc' = sc \<Longrightarrow> quota_but sc n ms (ensure_usage sc' now us)"
proof (cases "list_ex (\<lambda>u. us_scope u = sc') us")
  case False
  assume q: "quota_but sc n ms us" "n = 0 \<or> sc' = sc"
  have new: "sc' \<notin> us_scope ` set us" using False by (auto simp: list_ex_iff)
  then have "filter (\<lambda>m. mg_scope m = sc') ms = []" using q by (auto simp: quota_but_def filter_empty_conv)
  then have "quota_row sc n ms \<lparr>us_scope = sc', us_message_rows = 0, us_message_bytes = 0, us_event_rows = 0,
      us_event_bytes = 0, us_updated_utc = now\<rparr>"
    using q new by (auto simp: quota_row_def quota_but_def count_messages_def MAX_SCOPE_MESSAGE_ROWS_def MAX_SCOPE_MESSAGE_BYTES_def)
  then show ?thesis using q new False by (auto simp: ensure_usage_def quota_but_def)
qed (simp add: ensure_usage_def)

lemma quota_charge: "quota_but sc 0 ms us \<Longrightarrow> quota_but sc 0 ms (charge sc' bytes now us)"
proof -
  assume "quota_but sc 0 ms us"
  then have q: "quota_but sc 0 ms (ensure_usage sc' now us)" by (rule quota_ensure) simp
  let ?rs = "ensure_usage sc' now us"
  have m: "map us_scope (charge sc' bytes now us) = map us_scope ?rs"
    by (simp add: charge_def map_update_where)
  have "quota_row sc 0 ms u" if "u \<in> set (charge sc' bytes now us)" for u
    using that q by (auto simp: charge_def set_update_where quota_but_def quota_row_def split: if_splits)
  moreover have "us_scope ` set (charge sc' bytes now us) = us_scope ` set ?rs"
    by (simp only: set_map [symmetric] m)
  ultimately show ?thesis using q unfolding quota_but_def m by simp
qed

lemma event_mail: "mail.framed (br_sha256 b) (event_op b ty p tid)"
proof (rule mail.framedI)
  fix s x and t :: "'a message_db_scheme pstate"
  assume run: "event_op b ty p tid s = (Inr x, t)"
  then obtain e now where ap: "appends b ty p tid e now (st_db s) (st_db t)" using event_op_ok by blast
  have "audit_inv (br_sha256 b) (st_db s) \<Longrightarrow> audit_inv (br_sha256 b) (st_db t)" using appends_inv [OF ap] .
  moreover have "quota_exact (messages (st_db s)) (scope_storage_usage (st_db s)) \<Longrightarrow>
      quota_exact (messages (st_db t)) (scope_storage_usage (st_db t))"
    using ap quota_charge by (auto simp: appends_def quota_exact_def)
  ultimately show "mail_step (br_sha256 b) (st_db s) (st_db t)"
    using ap by (auto simp: mail_step_def mail_inv_def appends_def mail_leads_def)
qed

section \<open>Writing messages\<close>

definition reserved_db :: "bridge \<Rightarrow> int \<Rightarrow> int \<Rightarrow> string \<Rightarrow> 'a message_db_scheme \<Rightarrow> 'a message_db_scheme" where
  "reserved_db b n bytes now d = d\<lparr>scope_storage_usage := update_where (message_fits (br_scope b) n bytes)
     (add_messages n bytes now) (ensure_usage (br_scope b) now (scope_storage_usage d))\<rparr>"

lemma reserve_message_storage_ok [tx_simps]:
  "reserve_message_storage b n bytes s = (Inr u, t) \<longleftrightarrow> 1 \<le> n \<and> 0 \<le> bytes
     \<and> t = (tick s)\<lparr>st_db := reserved_db b n bytes (utc_at s) (st_db s)\<rparr>
     \<and> length (filter (message_fits (br_scope b) n bytes) (ensure_usage (br_scope b) (utc_at s) (scope_storage_usage (st_db s)))) = 1"
  by (auto simp: reserve_message_storage_def reserved_db_def tx_simps)

lemma quota_reserve:
  assumes "quota_but sc 0 ms us" and one: "length (filter (message_fits sc n bytes) (ensure_usage sc now us)) = 1"
  shows "quota_but sc n ms (update_where (message_fits sc n bytes) (add_messages n bytes now) (ensure_usage sc now us))"
proof -
  let ?rs = "ensure_usage sc now us"
  let ?ws = "update_where (message_fits sc n bytes) (add_messages n bytes now) ?rs"
  have q: "quota_but sc 0 ms ?rs" using assms(1) by (rule quota_ensure) simp
  have "filter (message_fits sc n bytes) ?rs \<noteq> []" using one by auto
  then obtain v where v: "v \<in> set ?rs" "message_fits sc n bytes v" by (auto simp: filter_empty_conv)
  have same: "w = v" if "w \<in> set ?rs" "us_scope w = sc" for w
    using q v that by (auto simp: quota_but_def message_fits_def distinct_map inj_on_def)
  have m: "map us_scope ?ws = map us_scope ?rs" by (rule map_update_where) (simp add: add_messages_def)
  have "quota_row sc n ms u" if u: "u \<in> set ?ws" for u
  proof -
    obtain w where w: "w \<in> set ?rs" "u = (if message_fits sc n bytes w then add_messages n bytes now w else w)"
      using u unfolding set_update_where by blast
    have "quota_row sc 0 ms w" using q w(1) by (simp add: quota_but_def)
    moreover have "us_scope w = sc \<Longrightarrow> message_fits sc n bytes w" using same w(1) v by blast
    ultimately show ?thesis using w(2) by (auto simp: quota_row_def message_fits_def add_messages_def)
  qed
  moreover have "us_scope ` set ?ws = us_scope ` set ?rs" by (simp only: set_map [symmetric] m)
  moreover have "sc \<in> us_scope ` set ?rs" using v by (force simp: message_fits_def)
  ultimately show ?thesis using q unfolding quota_but_def m by auto
qed

text \<open>The invariant while \<open>n\<close> messages of the scope \<open>sc\<close> are reserved.\<close>

definition mail_but :: "string \<Rightarrow> int \<Rightarrow> (string \<Rightarrow> string) \<Rightarrow> 'a message_db_scheme \<Rightarrow> bool" where
  "mail_but sc n H d \<longleftrightarrow> audit_inv H d \<and> numbered (messages d) (message_seq d)
     \<and> cursors_ok (messages d) (message_receipts d) (message_seq d) (consumer_cursors d)
     \<and> quota_but sc n (messages d) (scope_storage_usage d)"

lemma mail_inv_but: "mail_inv H d \<longleftrightarrow> mail_but sc 0 H d"
  by (simp add: mail_inv_def mail_but_def quota_exact_but [of _ _ sc])

lemma audit_reserved:
  assumes "audit_inv H d"
  shows "audit_inv H (reserved_db b n bytes now d)"
proof -
  let ?rs = "ensure_usage (br_scope b) now (scope_storage_usage d)"
  let ?ws = "update_where (message_fits (br_scope b) n bytes) (add_messages n bytes now) ?rs"
  have ok: "usage_ok (events d) ?rs" using assms ensure_usage_ok by (auto simp: audit_inv_def)
  have m: "map us_scope ?ws = map us_scope ?rs" by (rule map_update_where) (simp add: add_messages_def)
  have "us_scope ` set ?ws = us_scope ` set ?rs" by (simp only: set_map [symmetric] m)
  moreover have "usage_row_ok (events d) u" if "u \<in> set ?ws" for u
    using that ok by (auto simp: set_update_where usage_ok_def usage_row_ok_def add_messages_def split: if_splits)
  ultimately have "usage_ok (events d) ?ws" using ok unfolding usage_ok_def m by simp
  then show ?thesis using assms by (simp add: audit_inv_def reserved_db_def)
qed

lemma reserve_step:
  assumes "reserve_message_storage b n bytes s = (Inr u, t)" and "mail_inv H (st_db s)"
  shows "mail_but (br_scope b) n H (st_db t) \<and> mail_leads (st_db s) (st_db t) \<and> same_mail (st_db s) (st_db t) \<and> 1 \<le> n"
proof -
  have t: "st_db t = reserved_db b n bytes (utc_at s) (st_db s)" "1 \<le> n"
    and one: "length (filter (message_fits (br_scope b) n bytes) (ensure_usage (br_scope b) (utc_at s) (scope_storage_usage (st_db s)))) = 1"
    using assms(1) by (auto simp: tx_simps)
  have "quota_but (br_scope b) 0 (messages (st_db s)) (scope_storage_usage (st_db s))"
    using assms(2) by (simp add: mail_inv_def quota_exact_but [symmetric])
  note quota = quota_reserve [OF this one]
  have "mail_but (br_scope b) n H (reserved_db b n bytes (utc_at s) (st_db s))"
    using assms(2) quota audit_reserved by (auto simp: mail_inv_def mail_but_def reserved_db_def)
  then show ?thesis using t by (simp add: reserved_db_def mail_leads_def same_mail_def) blast
qed

definition added_db :: "msg_row \<Rightarrow> 'a message_db_scheme \<Rightarrow> 'a message_db_scheme" where
  "added_db row d = d\<lparr>message_seq := mg_sequence row, messages := messages d @ [row]\<rparr>"

lemma insert_message_ok [tx_simps]:
  "insert_message b m i s = (Inr row, t) \<longleftrightarrow> row = new_message b m i (Suc (message_seq (st_db s)))
     \<and> (\<forall>r \<in> set (messages (st_db s)). mg_message_id r \<noteq> i) \<and> t = s\<lparr>st_db := added_db row (st_db s)\<rparr>"
  by (auto simp: insert_message_def tx_simps added_db_def list_ex_iff)

lemma new_message_simps [simp]:
  "mg_sequence (new_message b m i n) = n" "mg_message_id (new_message b m i n) = i" "mg_scope (new_message b m i n) = br_scope b"
  "mg_room_id (new_message b m i n) = dr_room_id m" "mg_sender (new_message b m i n) = dr_sender m"
  "mg_recipient (new_message b m i n) = dr_recipient m" "mg_acknowledged_utc (new_message b m i n) = None"
  by (simp_all add: new_message_def)

lemma added_step:
  assumes "mail_but sc (n + 1) H d" and "\<forall>r \<in> set (messages d). mg_message_id r \<noteq> mg_message_id row" and "0 \<le> n"
    and row: "mg_sequence row = Suc (message_seq d)" "mg_scope row = sc"
  shows "mail_but sc n H (added_db row d) \<and> mail_leads d (added_db row d)"
proof -
  have "numbered (messages d @ [row]) (Suc (message_seq d))"
    using assms(1,2) row by (fastforce simp: mail_but_def numbered_def sorted_wrt_append less_Suc_eq_le)
  moreover have "cursors_ok (messages d @ [row]) (message_receipts d) (Suc (message_seq d)) (consumer_cursors d)"
    using assms(1) row by (fastforce simp: mail_but_def cursors_ok_def caught_up_def)
  moreover have "quota_but sc n (messages d @ [row]) (scope_storage_usage d)"
    using assms(1,3) row by (auto simp: mail_but_def quota_but_def quota_row_def count_messages_def)
  ultimately show ?thesis
    using assms(1) row by (auto simp: mail_but_def added_db_def audit_inv_def mail_leads_def)
qed

lemma write_message_mail: "mail.framed H (write_message b m i)"
proof (rule mail.framedI)
  fix s x and t :: "'a message_db_scheme pstate"
  assume "write_message b m i s = (Inr x, t)"
  then obtain bytes y and u :: "'a message_db_scheme pstate" where r: "reserve_message_storage b 1 bytes s = (Inr y, u)"
    and i: "insert_message b m i u = (Inr x, t)"
    unfolding write_message_def tx_then_ok by blast
  show "mail_step H (st_db s) (st_db t)"
    unfolding mail_step_def
  proof
    assume inv: "mail_inv H (st_db s)"
    have t: "st_db t = added_db x (st_db u)" "x = new_message b m i (Suc (message_seq (st_db u)))"
        "\<forall>r \<in> set (messages (st_db u)). mg_message_id r \<noteq> i"
      using i by (auto simp: tx_simps)
    have "mail_but (br_scope b) (0 + 1) H (st_db u)" "mail_leads (st_db s) (st_db u)" using reserve_step [OF r inv] by simp_all
    then show "mail_inv H (st_db t) \<and> mail_leads (st_db s) (st_db t)"
      using added_step [of "br_scope b" 0 H "st_db u" x] t mail_leads_trans by (auto simp: mail_inv_but [of H _ "br_scope b"])
  qed
qed

lemma insert_loop:
  assumes "tx_for (\<lambda>m. tx_bind uuid4_hex (insert_message b m)) ms s = (Inr rows, t)"
    and "mail_but (br_scope b) (int (length ms)) H (st_db s)"
  shows "mail_but (br_scope b) 0 H (st_db t) \<and> mail_leads (st_db s) (st_db t)"
  using assms
proof (induction ms arbitrary: s rows)
  case Nil
  then show ?case by (simp add: tx_simps mail_leads_refl)
next
  case (Cons m ms)
  from Cons.prems(1) obtain row rest and u :: "'a message_db_scheme pstate" where u: "insert_message b m (uuid_at s) (tick s) = (Inr row, u)"
    and rest: "tx_for (\<lambda>m. tx_bind uuid4_hex (insert_message b m)) ms u = (Inr rest, t)"
    by (auto simp: tx_simps simp del: insert_message_ok)
  have u': "st_db u = added_db row (st_db s)" "row = new_message b m (uuid_at s) (Suc (message_seq (st_db s)))"
      "\<forall>r \<in> set (messages (st_db s)). mg_message_id r \<noteq> uuid_at s"
    using u by (auto simp: tx_simps)
  have "mail_but (br_scope b) (int (length ms) + 1) H (st_db s)" using Cons.prems(2) by (simp add: add.commute)
  then have "mail_but (br_scope b) (int (length ms)) H (st_db u) \<and> mail_leads (st_db s) (st_db u)"
    using added_step [of "br_scope b" "int (length ms)" H "st_db s" row] u' by simp
  then show ?case using Cons.IH [OF rest] mail_leads_trans by blast
qed

lemma write_messages_mail: "mail.framed H (write_messages b ms)"
proof (rule mail.framedI)
  fix s x and t :: "'a message_db_scheme pstate"
  assume "write_messages b ms s = (Inr x, t)"
  then obtain bytes y and u :: "'a message_db_scheme pstate" where r: "reserve_message_storage b (int (length ms)) bytes s = (Inr y, u)"
    and loop: "tx_for (\<lambda>m. tx_bind uuid4_hex (insert_message b m)) ms u = (Inr x, t)"
    unfolding write_messages_def tx_then_ok by blast
  show "mail_step H (st_db s) (st_db t)"
    unfolding mail_step_def
  proof
    assume inv: "mail_inv H (st_db s)"
    note u = reserve_step [OF r inv]
    then show "mail_inv H (st_db t) \<and> mail_leads (st_db s) (st_db t)"
      using insert_loop [OF loop, of H] mail_leads_trans mail_inv_but by blast
  qed
qed

section \<open>Acknowledging\<close>

lemma acknowledged_more: "extends_list rs rs' \<Longrightarrow> acknowledged_by co rs m \<Longrightarrow> acknowledged_by co rs' m"
  by (auto simp: acknowledged_by_def extends_list_def)

lemma receipts_step:
  assumes "extends_list (message_receipts d) rs"
  shows "mail_step H d (d\<lparr>message_receipts := rs\<rparr>)"
proof -
  have "cursors_ok (messages d) (message_receipts d) n cs \<Longrightarrow> cursors_ok (messages d) rs n cs" for n cs
    using acknowledged_more [OF assms] by (fastforce simp: cursors_ok_def caught_up_def)
  then show ?thesis using assms by (auto simp: mail_step_def mail_inv_def audit_inv_def mail_leads_def)
qed

lemma tool_receipt_mail: "mail.framed H (store_receipt b metadata result)"
  unfolding store_receipt_def
  by (auto intro!: mail.framed_intros mail.framed_execute
      simp: mail_step_def mail_inv_def mail_leads_def audit_inv_def split: option.splits)

lemma route_receipt_mail: "mail.framed H (record_route_receipt b row co t st)"
  unfolding record_route_receipt_def Let_def
  by (auto intro!: mail.framed_intros mail.framed_execute simp: mail_step_def mail_inv_def mail_leads_def audit_inv_def)

lemma mark_core [simp]: "msg_core (mark_acknowledged t m) = msg_core m" "mg_sequence (mark_acknowledged t m) = mg_sequence m"
  "mg_message_id (mark_acknowledged t m) = mg_message_id m" "mg_scope (mark_acknowledged t m) = mg_scope m"
  "on_channel c (mark_acknowledged t m) = on_channel c m" "acknowledged_by co rs (mark_acknowledged t m) = acknowledged_by co rs m"
  by (simp_all add: mark_acknowledged_def msg_core_def on_channel_def addressed_to_def acknowledged_by_def)

lemma ball_update_where:
  assumes "\<And>r. Q (f r) = Q r"
  shows "(\<forall>m \<in> set (update_where P f ms). Q m) = (\<forall>m \<in> set ms. Q m)"
proof -
  have q: "Q (if P r then f r else r) = Q r" for r by (simp add: assms)
  show ?thesis by (simp only: update_where_def set_map ball_simps q)
qed

lemma marked_step: "mail_step H d (d\<lparr>messages := update_where P (mark_acknowledged t) (messages d)\<rparr>)"
proof -
  let ?ms = "update_where P (mark_acknowledged t) (messages d)"
  have maps: "map msg_core ?ms = map msg_core (messages d)" "map mg_sequence ?ms = map mg_sequence (messages d)"
      "map mg_message_id ?ms = map mg_message_id (messages d)" "map mg_scope ?ms = map mg_scope (messages d)"
    by (simp_all add: map_update_where)
  have numbered: "numbered ?ms n = numbered (messages d) n" for n
    unfolding numbered_def maps by (simp add: ball_update_where)
  have "caught_up ?ms rs c = caught_up (messages d) rs c" for rs c
    unfolding caught_up_def by (rule ball_update_where) simp
  then have cursors: "cursors_ok ?ms rs n cs = cursors_ok (messages d) rs n cs" for rs n cs
    by (simp add: cursors_ok_def)
  have "count_messages sc ms = int (length (filter (\<lambda>x. x = sc) (map mg_scope ms)))" for sc ms
    by (simp add: count_messages_def filter_map comp_def)
  then have "count_messages sc ?ms = count_messages sc (messages d)" for sc
    using maps(4) by metis
  then have "quota_exact ?ms us = quota_exact (messages d) us" for us
    by (simp add: quota_exact_def quota_but_def quota_row_def ball_update_where)
  then show ?thesis using numbered cursors by (simp add: mail_step_def mail_inv_def audit_inv_def mail_leads_def maps) blast
qed

section \<open>Moving a cursor\<close>

lemma fold_max: "fold max ns (x :: nat) = Max (insert x (set ns))"
  using Max.set_eq_fold [of x ns] by simp

lemma fold_min: "fold min ns (x :: nat) = Min (insert x (set ns))"
  using Min.set_eq_fold [of x ns] by simp

lemma max_sequence_cases:
  "(max_sequence d rows = d \<and> (\<forall>m \<in> set rows. mg_sequence m = 0)) \<or>
     (\<exists>m \<in> set rows. max_sequence d rows = mg_sequence m \<and> (\<forall>n \<in> set rows. mg_sequence n \<le> mg_sequence m))"
proof -
  let ?X = "insert 0 (mg_sequence ` set rows)"
  have fin: "finite ?X" "?X \<noteq> {}" by auto
  have m: "fold max (map mg_sequence rows) 0 = Max ?X" using fold_max [of "map mg_sequence rows" 0] by simp
  show ?thesis
  proof (cases "Max ?X = 0")
    case True
    then have "\<forall>m \<in> set rows. mg_sequence m = 0" using Max_ge [OF fin(1)] by fastforce
    then show ?thesis using True m by (simp add: max_sequence_def)
  next
    case False
    then obtain r where "r \<in> set rows" "Max ?X = mg_sequence r" using Max_in [OF fin] by auto
    then show ?thesis using False m Max_ge [OF fin(1)] by (auto simp: max_sequence_def Let_def)
  qed
qed

lemma first_unacknowledged_None: "first_unacknowledged acked rows = None \<longleftrightarrow> (\<forall>m \<in> set rows. acked m)"
  by (auto simp: first_unacknowledged_def split: list.splits dest: filter_eq_ConsD) (auto simp: filter_empty_conv)

lemma first_unacknowledged_Some:
  assumes "first_unacknowledged acked rows = Some f"
  shows "(\<exists>m \<in> set rows. \<not> acked m \<and> mg_sequence m = f) \<and> (\<forall>m \<in> set rows. \<not> acked m \<longrightarrow> f \<le> mg_sequence m)"
proof -
  obtain n ns where n: "map mg_sequence (filter (\<lambda>m. \<not> acked m) rows) = n # ns" "f = fold min ns n"
    using assms by (auto simp: first_unacknowledged_def split: list.splits)
  let ?X = "insert n (set ns)"
  have set: "?X = mg_sequence ` {m \<in> set rows. \<not> acked m}"
    using arg_cong [OF n(1), of set] by auto
  have f: "f = Min ?X" using n(2) fold_min by simp
  have "finite ?X" "?X \<noteq> {}" by auto
  then have "f \<in> ?X" "\<forall>x \<in> ?X. f \<le> x" unfolding f using Min_in Min_le by blast+
  then show ?thesis unfolding set by auto
qed

text \<open>
  The new position over the rows after the current one: everything up to it is acknowledged, and it
  is the last such place among them.
\<close>

lemma advanced_cursor_spec:
  assumes after: "\<forall>m \<in> set rows. current < mg_sequence m"
  shows "current \<le> advanced_cursor acked current rows"
    and "m \<in> set rows \<Longrightarrow> mg_sequence m \<le> advanced_cursor acked current rows \<Longrightarrow> acked m"
    and "m \<in> set rows \<Longrightarrow> \<forall>n \<in> set rows. mg_sequence n \<le> mg_sequence m \<longrightarrow> acked n \<Longrightarrow> mg_sequence m \<le> advanced_cursor acked current rows"
    and "advanced_cursor acked current rows = current \<or> advanced_cursor acked current rows \<in> mg_sequence ` set rows"
proof -
  define a where "a = advanced_cursor acked current rows"
  have "(current \<le> a) \<and> (\<forall>m \<in> set rows. mg_sequence m \<le> a \<longrightarrow> acked m)
      \<and> (\<forall>m \<in> set rows. (\<forall>n \<in> set rows. mg_sequence n \<le> mg_sequence m \<longrightarrow> acked n) \<longrightarrow> mg_sequence m \<le> a)
      \<and> (a = current \<or> a \<in> mg_sequence ` set rows)"
  proof (cases "first_unacknowledged acked rows")
    case None
    then have "a = max_sequence current rows" by (simp add: a_def advanced_cursor_def)
    moreover have "\<forall>m \<in> set rows. acked m" using None by (simp add: first_unacknowledged_None)
    ultimately show ?thesis using max_sequence_cases [of current rows] after by fastforce
  next
    case (Some f)
    let ?rows = "filter (\<lambda>m. acked m \<and> mg_sequence m < f) rows"
    have a: "a = max_sequence current ?rows" using Some by (simp add: a_def advanced_cursor_def)
    note first = first_unacknowledged_Some [OF Some]
    obtain u where u: "u \<in> set rows" "\<not> acked u" "mg_sequence u = f" using first by blast
    have "a = current \<or> (\<exists>m \<in> set ?rows. a = mg_sequence m)" "\<forall>m \<in> set ?rows. mg_sequence m \<le> a"
      using max_sequence_cases [of current ?rows] after unfolding a by fastforce+
    then have "current \<le> a" "a < f" "a = current \<or> a \<in> mg_sequence ` set rows" "\<forall>m \<in> set ?rows. mg_sequence m \<le> a"
      using after u by fastforce+
    then show ?thesis using first u by (auto simp: not_le [symmetric])
  qed
  then show "current \<le> advanced_cursor acked current rows"
    and "m \<in> set rows \<Longrightarrow> mg_sequence m \<le> advanced_cursor acked current rows \<Longrightarrow> acked m"
    and "m \<in> set rows \<Longrightarrow> \<forall>n \<in> set rows. mg_sequence n \<le> mg_sequence m \<longrightarrow> acked n \<Longrightarrow> mg_sequence m \<le> advanced_cursor acked current rows"
    and "advanced_cursor acked current rows = current \<or> advanced_cursor acked current rows \<in> mg_sequence ` set rows"
    unfolding a_def by blast+
qed

text \<open>The cursor row after an acknowledgement.\<close>

definition moved_cursor :: "bridge \<Rightarrow> string \<Rightarrow> string \<Rightarrow> 'a message_db_scheme \<Rightarrow> nat" where
  "moved_cursor b rm co d = (let current = consumer_cursor b (channel_of rm) co (consumer_cursors d) in
     advanced_cursor (acknowledged_by co (message_receipts d)) current (eligible_rows b rm co current (messages d)))"

lemma advance_cursor_run:
  assumes "advance_cursor b rm co s = (Inr n, t)" and "distinct (map cursor_key (consumer_cursors (st_db s)))"
  shows "n = moved_cursor b rm co (st_db s) \<and> (\<exists>row cs. cursor_key row = (br_scope b, channel_of rm, co) \<and> cc_position row = n
    \<and> set cs = {c \<in> set (consumer_cursors (st_db s)). cursor_key c \<noteq> cursor_key row} \<union> {row}
    \<and> distinct (map cursor_key cs) \<and> st_db t = (st_db s)\<lparr>consumer_cursors := cs\<rparr>)"
proof -
  let ?row = "\<lparr>cc_scope = br_scope b, cc_channel = channel_of rm, cc_consumer = co, cc_position = n, cc_updated_utc = utc_at s\<rparr>"
  let ?cs = "upsert_row (cursor_is (br_scope b) (channel_of rm) co) (\<lambda>r. r\<lparr>cc_position := n, cc_updated_utc := utc_at s\<rparr>)
      ?row (consumer_cursors (st_db s))"
  have run: "n = moved_cursor b rm co (st_db s)" "st_db t = (st_db s)\<lparr>consumer_cursors := ?cs\<rparr>"
    using assms(1) by (auto simp: advance_cursor_def moved_cursor_def Let_def tx_simps)
  have key: "cursor_is (br_scope b) (channel_of rm) co r \<longleftrightarrow> cursor_key r = cursor_key ?row" for r
    by (auto simp: cursor_is_def cursor_key_def)
  have "set ?cs = {c \<in> set (consumer_cursors (st_db s)). cursor_key c \<noteq> cursor_key ?row} \<union> {?row}"
      "distinct (map cursor_key ?cs)"
    by (rule upsert_row_set [OF assms(2) key]; simp add: cursor_is_def)+
  moreover have "cursor_key ?row = (br_scope b, channel_of rm, co)" "cc_position ?row = n" by (simp_all add: cursor_key_def)
  ultimately show ?thesis using run by blast
qed

lemma channel_of_inj [simp]: "channel_of x = channel_of y \<longleftrightarrow> x = y"
  by (simp add: channel_of_def)

text \<open>The stored position of a consumer, zero without a row.\<close>

lemma consumer_cursor_cases:
  assumes "distinct (map cursor_key cs)"
  shows "(\<exists>c \<in> set cs. cursor_key c = (br_scope b, ch, co) \<and> consumer_cursor b ch co cs = cc_position c)
    \<or> (\<forall>c \<in> set cs. cursor_key c \<noteq> (br_scope b, ch, co)) \<and> consumer_cursor b ch co cs = 0"
proof (cases "fetch_one (cursor_is (br_scope b) ch co) cs")
  case None
  then show ?thesis using fetch_one_NoneD [OF None] by (simp add: consumer_cursor_def cursor_test)
next
  case (Some c)
  then show ?thesis using fetch_one_SomeD [OF Some] by (intro disjI1 bexI [of _ c]) (simp_all add: consumer_cursor_def cursor_test)
qed

lemma moved_cursor_ok:
  assumes "mail_inv H d" and "c = (br_scope b, channel_of rm, co)" and "cursor_key row = c" and "cc_position row = moved_cursor b rm co d"
  shows "caught_up (messages d) (message_receipts d) row \<and> cc_position row \<le> message_seq d
    \<and> consumer_cursor b (channel_of rm) co (consumer_cursors d) \<le> cc_position row"
proof -
  let ?current = "consumer_cursor b (channel_of rm) co (consumer_cursors d)"
  let ?rows = "eligible_rows b rm co ?current (messages d)"
  let ?acked = "acknowledged_by co (message_receipts d)"
  have pos: "cc_position row = advanced_cursor ?acked ?current ?rows" using assms(4) by (simp add: moved_cursor_def Let_def)
  have row: "cc_scope row = br_scope b" "cc_channel row = channel_of rm" "cc_consumer row = co"
    using assms(2,3) by (simp_all add: cursor_key_def)
  have cs: "distinct (map cursor_key (consumer_cursors d))" "\<forall>m \<in> set (messages d). 0 < mg_sequence m \<and> mg_sequence m \<le> message_seq d"
    using assms(1) by (simp_all add: mail_inv_def cursors_ok_def numbered_def)
  have old: "?current \<le> message_seq d"
      "m \<in> set (messages d) \<Longrightarrow> on_channel row m \<Longrightarrow> mg_sequence m \<le> ?current \<Longrightarrow> ?acked m" for m
    using consumer_cursor_cases [OF cs(1), of b "channel_of rm" co] assms(1) cs(2) row
    by (fastforce simp: mail_inv_def cursors_ok_def caught_up_def on_channel_def cursor_key_def)+
  have "\<forall>m \<in> set ?rows. ?current < mg_sequence m" by (simp add: eligible_rows_def)
  note spec = advanced_cursor_spec [OF this, where acked = ?acked]
  have "?acked m" if "m \<in> set (messages d)" "on_channel row m" "mg_sequence m \<le> cc_position row" for m
  proof (cases "mg_sequence m \<le> ?current")
    case False
    then have "m \<in> set ?rows" using that(1,2) row by (auto simp: eligible_rows_def on_channel_def)
    then show ?thesis using spec(2) that(3) pos by simp
  qed (use old(2) that in blast)
  moreover have "cc_position row \<le> message_seq d" using spec(4) old(1) cs(2) pos by (auto simp: eligible_rows_def)
  ultimately show ?thesis using spec(1) pos row by (auto simp: caught_up_def)
qed

lemma moved_step:
  assumes inv: "mail_inv H d" and row: "cursor_key row = (br_scope b, channel_of rm, co)" "cc_position row = moved_cursor b rm co d"
    and cs: "set cs = {c \<in> set (consumer_cursors d). cursor_key c \<noteq> cursor_key row} \<union> {row}" "distinct (map cursor_key cs)"
  shows "mail_inv H (d\<lparr>consumer_cursors := cs\<rparr>) \<and> mail_leads d (d\<lparr>consumer_cursors := cs\<rparr>)"
proof -
  have d: "distinct (map cursor_key (consumer_cursors d))" using inv by (simp add: mail_inv_def cursors_ok_def)
  note ok = moved_cursor_ok [OF inv refl row]
  have "cursors_ok (messages d) (message_receipts d) (message_seq d) cs"
    using inv ok cs by (auto simp: mail_inv_def cursors_ok_def)
  moreover have "\<exists>c' \<in> set cs. cursor_key c' = cursor_key c \<and> cc_position c \<le> cc_position c'"
    if c: "c \<in> set (consumer_cursors d)" for c
  proof (cases "cursor_key c = cursor_key row")
    case True
    then have "consumer_cursor b (channel_of rm) co (consumer_cursors d) = cc_position c"
      using consumer_cursor_cases [OF d, of b "channel_of rm" co] distinct_key_eq [OF d] c row(1) by metis
    then show ?thesis using ok cs True by auto
  qed (use c cs in auto)
  ultimately show ?thesis using inv by (auto simp: mail_inv_def mail_leads_def audit_inv_def)
qed

lemma advance_cursor_mail: "mail.framed H (advance_cursor b rm co)"
proof (rule mail.framedI)
  fix s n and t :: "'a message_db_scheme pstate"
  assume run: "advance_cursor b rm co s = (Inr n, t)"
  show "mail_step H (st_db s) (st_db t)"
    unfolding mail_step_def
  proof
    assume inv: "mail_inv H (st_db s)"
    have d: "distinct (map cursor_key (consumer_cursors (st_db s)))" using inv by (simp add: mail_inv_def cursors_ok_def)
    obtain row cs where "cursor_key row = (br_scope b, channel_of rm, co)" "cc_position row = moved_cursor b rm co (st_db s)"
      "set cs = {c \<in> set (consumer_cursors (st_db s)). cursor_key c \<noteq> cursor_key row} \<union> {row}"
      "distinct (map cursor_key cs)" "st_db t = (st_db s)\<lparr>consumer_cursors := cs\<rparr>"
      using advance_cursor_run [OF run d] by auto
    then show "mail_inv H (st_db t) \<and> mail_leads (st_db s) (st_db t)" using moved_step [OF inv] by simp
  qed
qed

end
