(* ===== verification/MailSystem.thy ===== *)
theory MailSystem
  imports MailInvariant
begin

text \<open>
  The calls of the rooms and messages as steps of one shared store: each is atomic, keeps the invariant
  of the rooms and of the mail, and leads to a possible future. A step is one call of any bridge,
  returning or raising, in any world.
\<close>

section \<open>Calls that leave the rooms alone\<close>

lemma readonly_rooms: "readonly m \<Longrightarrow> rooms.framed m"
  by (rule rooms.framedI) (metis readonly_def rooms.frame_refl snd_conv)

lemma room_parts:
  "rooms.framed (reserve_message_storage b n bytes)" "rooms.framed (insert_message b m i)"
  "rooms.framed (store_receipt b metadata result)" "rooms.framed (record_route_receipt b row co now st)"
  "rooms.framed (advance_cursor b rm co)"
  unfolding reserve_message_storage_def insert_message_def store_receipt_def record_route_receipt_def advance_cursor_def Let_def
  by (auto intro!: rooms.framed_intros rooms.framed_execute simp: same_rooms_def split: option.splits)

lemma room_reads:
  "rooms.framed (room_of b rm)" "rooms.framed (require_room_member b rm ag)" "rooms.framed (room_policy b rm)"
  "rooms.framed (require_room_manager b rm)" "rooms.framed (load_receipt b metadata)"
proof -
  show "rooms.framed (load_receipt b metadata)"
    unfolding load_receipt_def by (auto intro!: rooms.framed_intros split: option.splits)
qed (rule rooms.framedI; auto simp: tx_simps rooms.frame_refl)+

lemma room_writes:
  "rooms.framed (write_message b m i)" "rooms.framed (write_messages b ms)"
  unfolding write_message_def write_messages_def by (intro rooms.framed_intros room_parts)+

lemma room_once: "rooms.framed body \<Longrightarrow> rooms.framed (once_per_receipt b metadata body)"
  unfolding once_per_receipt_def by (intro rooms.framed_intros room_parts room_reads)

lemmas room_frames = room_parts room_reads room_writes room_once event_same_rooms

lemma room_send: "rooms.framed (send_message b ws args)"
  unfolding send_message_def send_tx_def Let_def by (intro rooms.framed_intros room_frames)

lemma room_fanout_tx: "rooms.framed (fanout_tx b m enforce)"
  unfolding fanout_tx_def Let_def by (intro rooms.framed_intros room_frames)

lemma room_fanout: "rooms.framed (send_room_fanout b ws args)"
  unfolding send_room_fanout_def by (intro rooms.framed_intros room_frames room_fanout_tx)

lemma room_poll: "rooms.framed (poll_messages b args)"
  unfolding poll_messages_def Let_def by (intro rooms.framed_intros room_frames)

lemma room_ack: "rooms.framed (ack_message b i a)"
  unfolding ack_message_def ack_tx_def Let_def
  by (intro rooms.framed_intros room_frames rooms.framed_execute) (simp_all add: same_rooms_def)

section \<open>Calls on the mail\<close>

lemma mail_execute_same:
  assumes "\<And>d. same_mail d (f d) \<and> events (f d) = events d \<and> event_seq (f d) = event_seq d
    \<and> scope_storage_usage (f d) = scope_storage_usage d \<and> extends_list (route_profiles d) (route_profiles (f d))
    \<and> extends_list (rooms d) (rooms (f d))"
  shows "mail.framed H (tx_execute f)"
  by (rule mail.framed_execute) (use assms in \<open>auto intro: mail_step_same\<close>)

lemma mail_reads:
  "mail.framed H (room_of b rm)" "mail.framed H (require_room_member b rm ag)" "mail.framed H (room_policy b rm)"
  "mail.framed H (require_room_manager b rm)" "mail.framed H (require_own_or_manager b rm ag)" "mail.framed H (seat_session row)"
  "mail.framed H (load_receipt b metadata)"
proof -
  show "mail.framed H (load_receipt b metadata)"
    unfolding load_receipt_def by (auto intro!: mail.framed_intros split: option.splits)
  show "mail.framed H (seat_session row)" unfolding seat_session_def by (intro mail.framed_intros)
qed (rule mail.framedI; auto simp: tx_simps mail.frame_refl)+

lemma mail_room_writes:
  "mail.framed H (store_seat row)" "mail.framed H (upsert_room_role b rm ag sess rid lab now)"
  "mail.framed H (upsert_room_membership b rm ag route now rid lab)" "mail.framed H (stop_discussion b now reason r)"
  "mail.framed H (store_policy b p now)" "mail.framed H (cancel_discussion_dispatches b i e now)"
proof -
  show seat: "mail.framed H (store_seat row)" for row
    unfolding store_seat_def by (rule mail_execute_same) (simp add: same_mail_def)
  show role: "mail.framed H (upsert_room_role b rm ag sess rid lab now)" for rm sess rid lab
    unfolding upsert_room_role_def Let_def by (intro mail.framed_intros mail_execute_same) (simp add: same_mail_def)
  show "mail.framed H (upsert_room_membership b rm ag route now rid lab)"
    unfolding upsert_room_membership_def Let_def by (intro mail.framed_intros mail_reads seat role)
  show stop: "mail.framed H (stop_discussion b now reason r)" for reason r
    unfolding stop_discussion_def store_discussion_state_def Let_def
    by (intro mail.framed_intros mail_execute_same) (simp add: same_mail_def)
  show "mail.framed H (store_policy b p now)"
    unfolding store_policy_def by (intro mail.framed_intros mail_execute_same stop) (simp add: same_mail_def)
  show "mail.framed H (cancel_discussion_dispatches b i e now)"
    unfolding cancel_discussion_dispatches_def cancel_dispatch_def Let_def
    by (intro mail.framed_intros mail_execute_same) (simp add: same_mail_def)
qed

lemma mail_once: "mail.framed H body \<Longrightarrow> mail.framed H (once_per_receipt b metadata body)"
  unfolding once_per_receipt_def by (intro mail.framed_intros mail_reads tool_receipt_mail)

lemmas mail_frames = mail_reads mail_room_writes mail_once event_mail write_message_mail write_messages_mail
  route_receipt_mail advance_cursor_mail

lemma mail_fanout_tx: "mail.framed (br_sha256 b) (fanout_tx b m enforce)"
  unfolding fanout_tx_def Let_def by (intro mail.framed_intros mail_frames)

lemma mail_start: "mail.framed (br_sha256 b) (start_discussion b m policy)"
  unfolding start_discussion_def supersede_def insert_discussion_prompt_def insert_discussion_def Let_def
  by (intro mail.framed_intros mail_frames mail_execute_same) (simp add: same_mail_def)

lemma mail_calls:
  "mail.framed (br_sha256 b) (send_message b ws args)" "mail.framed (br_sha256 b) (send_room_fanout b ws pargs)"
  "mail.framed (br_sha256 b) (post_room_message b ws pargs)" "mail.framed (br_sha256 b) (poll_messages b qargs)"
  "mail.framed (br_sha256 b) (ack_message b i a)"
proof -
  show "mail.framed (br_sha256 b) (send_message b ws args)"
    unfolding send_message_def send_tx_def Let_def by (intro mail.framed_intros mail_frames)
  show "mail.framed (br_sha256 b) (send_room_fanout b ws pargs)"
    unfolding send_room_fanout_def by (intro mail.framed_intros mail_frames mail_fanout_tx)
  show "mail.framed (br_sha256 b) (post_room_message b ws pargs)"
    unfolding post_room_message_def post_tx_def post_history_def
    by (intro mail.framed_intros mail_frames mail_fanout_tx mail_start)
  show "mail.framed (br_sha256 b) (poll_messages b qargs)"
    unfolding poll_messages_def Let_def by (intro mail.framed_intros mail_frames)
  show "mail.framed (br_sha256 b) (ack_message b i a)"
    unfolding ack_message_def ack_tx_def Let_def
    by (intro mail.framed_intros mail_frames mail.framed_execute marked_step receipts_step) simp_all
qed

lemma mail_room_calls:
  "mail.framed (br_sha256 b) (seed_lobby b)" "mail.framed (br_sha256 b) (create_room b i n)"
  "mail.framed (br_sha256 b) (join_room b sargs)" "mail.framed (br_sha256 b) (set_room_member_role b i n o1 o2)"
  "mail.framed (br_sha256 b) (leave_room b i a)" "mail.framed (br_sha256 b) (set_room_automation b aargs)"
  "mail.framed (br_sha256 b) (get_room_automation b i)" "mail.framed (br_sha256 b) (list_rooms b flag)"
  "mail.framed (br_sha256 b) (upsert_route_profile b rargs)"
proof -
  show "mail.framed (br_sha256 b) (seed_lobby b)"
    unfolding seed_lobby_def Let_def by (intro mail.framed_intros mail_execute_same) (simp_all add: same_mail_def)
  show "mail.framed (br_sha256 b) (create_room b i n)"
    unfolding create_room_def Let_def by (intro mail.framed_intros mail_frames mail_execute_same) (simp_all add: same_mail_def)
  show "mail.framed (br_sha256 b) (upsert_route_profile b rargs)"
    unfolding upsert_route_profile_def Let_def
    by (intro mail.framed_intros mail_frames mail_execute_same) (simp_all add: same_mail_def)
qed (unfold join_room_def set_room_member_role_def set_role_tx_def leave_room_def leave_tx_def set_room_automation_def
    get_room_automation_def list_rooms_def Let_def; intro mail.framed_intros mail_frames)+

section \<open>Starting a discussion\<close>

lemma supersede_row:
  fixes u v :: "'a message_db_scheme pstate"
  assumes "supersede b now rep x u = (Inr a, v)" and "disc_inv (br_sha256 b) (st_db u)"
    and "x \<in> set (room_discussions (st_db u))" and "di_scope x = br_scope b"
  shows "stops_row b x (st_db u) (st_db v)"
proof -
  let ?H = "br_sha256 b"
  obtain n y ev ty p tid and u1 u2 :: "'a message_db_scheme pstate"
    where c: "cancel_discussion_dispatches b (di_discussion_id x) ''discussion_superseded'' now u = (Inr n, u1)"
    and st: "stop_discussion b now ''superseded_by_new_post'' x u1 = (Inr y, u2)"
    and ev: "event_op b ty p tid u2 = (Inr ev, v)"
    using assms(1) unfolding supersede_def by (auto simp: tx_simps)
  have "distinct (map disp_key (message_dispatches (st_db u)))" using assms(2) by (simp add: disc_inv_def)
  then have u1: "st_db u1 = fence_db ?H (br_scope b) (di_discussion_id x) ''discussion_superseded'' now (st_db u)"
    using c by (auto simp: cancel_discussion_dispatches_run)
  have "only_stops (st_db u) (st_db u1)" unfolding u1
    by (simp add: only_stops_def list_all2_refl stopped_by_def) (simp add: fence_db_def)
  moreover have "disc_inv ?H (st_db u1)" unfolding u1 by (rule fence_db_inv [OF assms(2)])
  moreover have x: "x \<in> set (room_discussions (st_db u1))" using assms(3) u1 by simp
  ultimately have row: "stops_row b x (st_db u1) (st_db u2)" using stop_discussion_row [OF st _ _ assms(4)] by blast
  have last: "same_rooms (st_db u2) (st_db v)" by (rule rooms.framedD [OF event_same_rooms ev])
  have "only_stops (st_db u) (st_db v)"
    using \<open>only_stops (st_db u) (st_db u1)\<close> row same_rooms_stops [OF last] stops.frame_trans unfolding stops_row_def by blast
  moreover have "room_discussions (st_db v) = room_discussions (st_db u2)" "disc_inv ?H (st_db v)"
    using last row by (simp_all add: same_rooms_def stops_row_def disc_inv_def)
  ultimately show ?thesis using row u1 unfolding stops_row_def by (auto simp: store_db_def)
qed

lemma room_inv_discussion:
  assumes "room_inv H d" and "disc_key row \<notin> disc_key ` set (room_discussions d)" and "disc.sealed H row"
    and "p \<in> set (room_automation_policies d)" and "policy_key p = disc_room row" and "discussion_mode (po_mode p)"
    and "\<forall>r \<in> set (room_discussions d). disc_room r = disc_room row \<longrightarrow> \<not> open_discussion r"
  shows "room_inv H (d\<lparr>room_discussions := room_discussions d @ [row]\<rparr>)"
proof -
  have "disc_inv H (d\<lparr>room_discussions := room_discussions d @ [row]\<rparr>)"
    using assms(1-3) by (auto simp: room_inv_def disc_inv_def)
  moreover have "discussions_ok (room_automation_policies d) (room_discussions d @ [row])"
    using assms unfolding room_inv_def discussions_ok_def by (auto dest: sym)
  ultimately show ?thesis using assms(1) by (simp add: room_inv_def)
qed

lemma new_discussion_simps:
  "di_scope (new_discussion b m i p n) = br_scope b" "di_discussion_id (new_discussion b m i p n) = i"
  "di_room_id (new_discussion b m i p n) = dr_room_id m" "disc.sealed (br_sha256 b) (new_discussion b m i p n)"
  "di_max_rounds (new_discussion b m i p n) = po_max_rounds p" "di_max_messages (new_discussion b m i p n) = po_max_messages p"
  "di_message_count (new_discussion b m i p n) = int n" "di_status (new_discussion b m i p n) = ''active''"
  by (simp_all add: new_discussion_def Let_def disc.sealed_def discussion_digest_def discussion_row_payload_def)

text \<open>What a started discussion leaves: the others of its room stopped, its prompts written, its row added.\<close>

lemma start_discussion_run:
  fixes s t :: "'a message_db_scheme pstate"
  assumes "start_discussion b m p s = (Inr x, t)" and "room_inv (br_sha256 b) (st_db s)"
    and "p \<in> set (room_automation_policies (st_db s))" and "policy_key p = (br_scope b, dr_room_id m)"
    and "discussion_mode (po_mode p)"
  shows "room_inv (br_sha256 b) (st_db t)"
proof -
  let ?H = "br_sha256 b"
  let ?rows = "filter (open_in_room (br_scope b) (dr_room_id m)) (room_discussions (st_db (tick s)))"
  obtain prepared us rows ev ty pl tid i and u v w :: "'a message_db_scheme pstate"
    where loop: "tx_for (supersede b (dr_created m) i) ?rows (tick s) = (Inr us, u)"
    and prompts: "tx_for (\<lambda>seat. insert_discussion_prompt b ((seat_draft m seat)\<lparr>dr_prompt := Some (i, 1)\<rparr>)) prepared u = (Inr rows, v)"
    and ins: "insert_discussion (new_discussion b m i p (length rows)) v = (Inr (), w)"
    and ev: "event_op b ty pl tid w = (Inr ev, t)"
    using assms(1) unfolding start_discussion_def Let_def by (auto simp: tx_simps)
  have d0: "disc_inv ?H (st_db (tick s))" using assms(2) by (simp add: room_inv_def)
  have u: "only_stops (st_db (tick s)) (st_db u) \<and> disc_inv ?H (st_db u)
      \<and> (\<forall>r \<in> set (room_discussions (st_db u)). \<not> open_in_room (br_scope b) (dr_room_id m) r)"
    by (rule stop_loop [OF loop d0 refl], rule supersede_row)
  then have inv: "room_inv ?H (st_db u)" using only_stops_inv assms(2) by auto
  let ?prompts = "tx_for (\<lambda>seat. insert_discussion_prompt b ((seat_draft m seat)\<lparr>dr_prompt := Some (i, 1)\<rparr>)) prepared"
  have "rooms.framed ?prompts"
    unfolding insert_discussion_prompt_def by (intro rooms.framed_intros room_frames)
  then have uv: "same_rooms (st_db u) (st_db v)" using prompts rooms.framedD [of ?prompts u rows v] by simp
  let ?row = "new_discussion b m i p (length rows)"
  have w: "st_db w = (st_db v)\<lparr>room_discussions := room_discussions (st_db v) @ [?row]\<rparr>"
      "disc_key ?row \<notin> disc_key ` set (room_discussions (st_db v))"
    using ins by (auto simp: insert_discussion_def tx_simps list_ex_iff disc_key_def)
  have "room_inv ?H (st_db w)"
    unfolding w(1)
  proof (rule room_inv_discussion [OF _ w(2)])
    show "room_inv ?H (st_db v)" using inv uv same_rooms_inv by blast
    show "p \<in> set (room_automation_policies (st_db v))" using assms(3) u uv by (simp add: only_stops_def same_rooms_def)
    show "\<forall>r \<in> set (room_discussions (st_db v)). disc_room r = disc_room ?row \<longrightarrow> \<not> open_discussion r"
      using u uv by (auto simp: same_rooms_def open_in_room_key disc_room_def new_discussion_simps)
  qed (use assms(4,5) in \<open>simp_all add: new_discussion_simps disc_room_def\<close>)
  then show ?thesis using rooms.framedD [OF event_same_rooms ev] same_rooms_inv by blast
qed

section \<open>Every call keeps the rooms\<close>

lemma keeps_framed_bind:
  assumes "rooms.framed m" and "\<And>a. keeps (room_inv H) (f a)"
  shows "keeps (room_inv H) (tx_bind m f)"
  by (intro keeps_bind framed_keeps_rooms assms)

lemma post_tx_keeps: "keeps (room_inv (br_sha256 b)) (post_tx b m)"
proof (rule keepsI)
  fix s t :: "'a message_db_scheme pstate" and x
  assume inv: "room_inv (br_sha256 b) (st_db s)" and run: "post_tx b m s = (Inr x, t)"
  obtain p where p: "fetch_one (policy_is (br_scope b) (dr_room_id m)) (room_automation_policies (st_db s)) = Some p"
    and rest: "(if po_mode p = ''off'' then post_history b m
       else if po_mode p = ''once'' then tx_bind (fanout_tx b m False) (\<lambda>receipt. tx_return (JObj (receipt @ [(''automation_mode'', JStr (po_mode p))])))
       else tx_then (tx_require (po_mode p \<in> {''discussion'', ''free'', ''goal''}) (BridgeError ''unsupported room automation mode''))
         (start_discussion b m p)) s = (Inr x, t)"
    using run unfolding post_tx_def by (auto simp: tx_simps)
  have pol: "p \<in> set (room_automation_policies (st_db s))" "policy_key p = (br_scope b, dr_room_id m)"
    using fetch_one_SomeD [OF p] by (simp_all add: key_tests)
  have history: "rooms.framed (post_history b m)"
    unfolding post_history_def by (intro rooms.framed_intros room_frames)
  have old: "room_inv (br_sha256 b) (st_db t)" if "rooms.framed n" "n s = (Inr y, t)" for n and y :: 'c
    using keepsD [OF framed_keeps_rooms [OF that(1)] that(2)] inv by blast
  consider "post_history b m s = (Inr x, t)" | receipt where "fanout_tx b m False s = (Inr receipt, t)"
    | "discussion_mode (po_mode p)" "start_discussion b m p s = (Inr x, t)"
    using rest by (auto simp: tx_simps discussion_mode_def split: if_splits)
  then show "room_inv (br_sha256 b) (st_db t)"
  proof cases
    case 1
    then show ?thesis by (rule old [OF history])
  next
    case 2
    then show ?thesis by (rule old [OF room_fanout_tx])
  next
    case 3
    show ?thesis by (rule start_discussion_run [OF 3(2) inv pol 3(1)])
  qed
qed

section \<open>Good calls\<close>

text \<open>A call of a bridge keeps the rooms, steps the mail, and undoes itself when it raises.\<close>

definition good_mail :: "(string \<Rightarrow> string) \<Rightarrow> ('a message_db_scheme, 'b) op \<Rightarrow> bool" where
  "good_mail H m \<longleftrightarrow> keeps (room_inv H) m \<and> mail.framed H m \<and> atomic m"

lemma good_mailI: "keeps (room_inv H) m \<Longrightarrow> mail.framed H m \<Longrightarrow> atomic m \<Longrightarrow> good_mail H m"
  by (simp add: good_mail_def)

definition message_inv :: "(string \<Rightarrow> string) \<Rightarrow> 'a message_db_scheme \<Rightarrow> bool" where
  "message_inv H d \<longleftrightarrow> room_inv H d \<and> mail_inv H d"

lemma good_mail_step:
  assumes "good_mail H m" and "message_inv H (st_db s)"
  shows "message_inv H (st_db (snd (m s))) \<and> mail_leads (st_db s) (st_db (snd (m s)))"
proof (cases "m s")
  case (Pair r t)
  have "mail_step H (st_db s) (st_db t)"
    using mail.framed_call [of H m s] assms(1) Pair by (simp add: good_mail_def)
  moreover have "room_inv H (st_db t)"
  proof (cases r)
    case (Inl e)
    then show ?thesis using atomicD [of m s e t] assms Pair by (simp add: good_mail_def message_inv_def)
  next
    case (Inr x)
    then show ?thesis using keepsD [of "room_inv H" m s x t] assms Pair by (simp add: good_mail_def message_inv_def)
  qed
  ultimately show ?thesis using assms(2) Pair by (simp add: mail_step_def message_inv_def)
qed

lemma atomic_mail_calls:
  "atomic (send_message b ws args)" "atomic (send_room_fanout b ws pargs)" "atomic (post_room_message b ws pargs)"
  "atomic (poll_messages b qargs)" "atomic (ack_message b i a)" "atomic (create_room b i n)" "atomic (join_room b sargs)"
  "atomic (set_room_member_role b i n o1 o2)" "atomic (leave_room b i a)" "atomic (set_room_automation b aargs)"
  "atomic (get_room_automation b i)" "atomic (list_rooms b flag)" "atomic (upsert_route_profile b rargs)"
  unfolding send_message_def send_room_fanout_def post_room_message_def poll_messages_def ack_message_def create_room_def
    join_room_def set_room_member_role_def leave_room_def set_room_automation_def get_room_automation_def list_rooms_def
    upsert_route_profile_def Let_def
  by (auto intro!: atomic_intros split: prod.splits)

lemma keeps_room_calls:
  "keeps (room_inv (br_sha256 b)) (create_room b i n)" "keeps (room_inv (br_sha256 b)) (join_room b sargs)"
  "keeps (room_inv (br_sha256 b)) (set_room_member_role b i n o1 o2)" "keeps (room_inv (br_sha256 b)) (leave_room b i a)"
  "keeps (room_inv (br_sha256 b)) (set_room_automation b aargs)"
proof -
  show "keeps (room_inv (br_sha256 b)) (create_room b i n)"
    by (rule keepsI) (use create_room_run in blast)
  show "keeps (room_inv (br_sha256 b)) (join_room b sargs)"
    by (rule keepsI) (use join_room_run seats_agent_inv in blast)
  show "keeps (room_inv (br_sha256 b)) (set_room_member_role b i n o1 o2)"
    by (rule keepsI) (use set_room_member_role_run seats_agent_inv in blast)
  show "keeps (room_inv (br_sha256 b)) (leave_room b i a)"
    by (rule keepsI) (use leave_room_run seats_agent_inv in blast)
  show "keeps (room_inv (br_sha256 b)) (set_room_automation b aargs)"
    by (rule keepsI) (use set_room_automation_run in fast)
qed

lemma keeps_route_calls:
  "keeps (room_inv (br_sha256 b)) (get_room_automation b i)" "keeps (room_inv (br_sha256 b)) (list_rooms b flag)"
proof -
  show "keeps (room_inv (br_sha256 b)) (get_room_automation b i)"
    unfolding get_room_automation_def by (intro framed_keeps_rooms rooms.framed_intros room_frames)
  show "keeps (room_inv (br_sha256 b)) (list_rooms b flag)"
    unfolding list_rooms_def by (intro framed_keeps_rooms rooms.framed_intros)
qed

lemma keeps_upsert_route: "keeps (room_inv (br_sha256 b)) (upsert_route_profile b rargs)"
proof (rule keepsI)
  fix s t :: "'a room_db_scheme pstate" and x
  assume inv: "room_inv (br_sha256 b) (st_db s)" and run: "upsert_route_profile b rargs s = (Inr x, t)"
  have "st_db t = st_db s \<or> (\<exists>row. same_rooms ((st_db s)\<lparr>route_profiles := route_profiles (st_db s) @ [row]\<rparr>) (st_db t))"
    using run unfolding upsert_route_profile_def Let_def
    by (auto simp: tx_simps dest!: rooms.framedD [OF event_same_rooms] split: option.splits)
  moreover have "room_inv (br_sha256 b) ((st_db s)\<lparr>route_profiles := rs\<rparr>)" for rs
    using inv by (simp add: room_inv_def disc_inv_def)
  ultimately show "room_inv (br_sha256 b) (st_db t)" using inv same_rooms_inv by auto
qed

text \<open>The upgrade of the lobby policy at every opening keeps the rooms well formed.\<close>

definition upgrade_lobby :: "bridge \<Rightarrow> policy_row \<Rightarrow> policy_row list \<Rightarrow> policy_row list" where
  "upgrade_lobby b policy = update_where
     (\<lambda>p. policy_is (br_scope b) DEFAULT_ROOM_ID p \<and> po_mode p = ''off'' \<and> po_updated_by p = ''peerbridge-system'')
     (\<lambda>p. p\<lparr>po_mode := ''once'', po_policy_sha256 := po_policy_sha256 policy\<rparr>)"

lemma upgrade_lobby_inv:
  assumes "room_inv H d" and "policy = once_policy H (br_scope b) DEFAULT_ROOM_ID ''peerbridge-system'' now"
  shows "room_inv H (d\<lparr>room_automation_policies := upgrade_lobby b policy (room_automation_policies d)\<rparr>)"
proof -
  let ?ps = "room_automation_policies d" and ?up = "\<lambda>p. p\<lparr>po_mode := ''once'', po_policy_sha256 := po_policy_sha256 policy\<rparr>"
  let ?hit = "\<lambda>p. policy_is (br_scope b) DEFAULT_ROOM_ID p \<and> po_mode p = ''off'' \<and> po_updated_by p = ''peerbridge-system''"
  have elems: "set (upgrade_lobby b policy ?ps) = (\<lambda>p. if ?hit p then ?up p else p) ` set ?ps"
    unfolding upgrade_lobby_def by (auto simp: set_update_where image_iff)
  have keys: "map policy_key (upgrade_lobby b policy ?ps) = map policy_key ?ps"
    unfolding upgrade_lobby_def by (rule map_update_where) (simp add: policy_key_def)
  have ok: "policy_sealed H (?up p) \<and> policy_bounds (?up p)" if "?hit p" "policy_bounds p" for p
    using that by (simp add: policy_sealed_def policy_bounds_def assms(2) once_policy_def seal_policy_def policy_payload_def
        policy_is_def ROOM_AUTOMATION_MODES_def)
  have "policies_ok H (upgrade_lobby b policy ?ps)"
    using assms(1) ok unfolding room_inv_def policies_ok_def keys elems by auto
  moreover have "\<exists>q \<in> set (upgrade_lobby b policy ?ps). policy_key q = disc_room r \<and> (open_discussion r \<longrightarrow> discussion_mode (po_mode q))"
    if r: "r \<in> set (room_discussions d)" for r
  proof -
    obtain p where p: "p \<in> set ?ps" "policy_key p = disc_room r" "open_discussion r \<longrightarrow> discussion_mode (po_mode p)"
      using assms(1) r by (auto simp: room_inv_def discussions_ok_def)
    have "policy_key (if ?hit p then ?up p else p) = disc_room r
        \<and> (open_discussion r \<longrightarrow> discussion_mode (po_mode (if ?hit p then ?up p else p)))"
      using p(2,3) by (auto simp: policy_key_def discussion_mode_def)
    then show ?thesis using p(1) unfolding elems by blast
  qed
  ultimately show ?thesis using assms(1) by (auto simp: room_inv_def disc_inv_def discussions_ok_def)
qed

lemma keeps_seed_lobby: "keeps (room_inv (br_sha256 b)) (seed_lobby b)"
proof (rule keepsI)
  fix s t :: "'a room_db_scheme pstate" and x
  assume inv: "room_inv (br_sha256 b) (st_db s)" and run: "seed_lobby b s = (Inr x, t)"
  define room where "room = seal_room (br_sha256 b) \<lparr>ro_scope = br_scope b, ro_room_id = DEFAULT_ROOM_ID, ro_name = ''Lobby'',
     ro_created_by = ''peerbridge-system'', ro_archived = False, ro_created_utc = ''1970-01-01T00:00:00Z'',
     ro_updated_utc = ''1970-01-01T00:00:00Z'', ro_room_sha256 = []\<rparr>"
  define policy where "policy = once_policy (br_sha256 b) (br_scope b) DEFAULT_ROOM_ID ''peerbridge-system'' ''1970-01-01T00:00:00Z''"
  have room: "room_rows.sealed (br_sha256 b) room" "room_key room = (br_scope b, DEFAULT_ROOM_ID)"
    unfolding room_def by (rule room_rows.sealed_seal, simp add: seal_room_def room_key_def)
  have policy: "policies.sealed (br_sha256 b) policy" "policy_bounds policy" "policy_key policy = (br_scope b, DEFAULT_ROOM_ID)"
    by (simp_all add: policy_def)
  let ?d = "(st_db s)\<lparr>rooms := upsert_row (room_is (br_scope b) DEFAULT_ROOM_ID) id room (rooms (st_db s))\<rparr>"
  have d: "room_inv (br_sha256 b) ?d"
  proof (cases "list_ex (room_is (br_scope b) DEFAULT_ROOM_ID) (rooms (st_db s))")
    case True
    then show ?thesis using inv by (simp add: upsert_row_def update_where_def cong: if_cong)
  next
    case False
    then have "room_key room \<notin> room_key ` set (rooms (st_db s))" using room(2) by (auto simp: list_ex_iff key_tests)
    then show ?thesis using False room_inv_new [OF inv _ room(1)] by (simp add: upsert_row_def)
  qed
  let ?e = "?d\<lparr>room_automation_policies := upsert_row (policy_is (br_scope b) DEFAULT_ROOM_ID) id policy (room_automation_policies ?d)\<rparr>"
  have e: "room_inv (br_sha256 b) ?e"
  proof (cases "list_ex (policy_is (br_scope b) DEFAULT_ROOM_ID) (room_automation_policies ?d)")
    case True
    then show ?thesis using d by (simp add: upsert_row_def update_where_def cong: if_cong)
  next
    case False
    then have "policy_key policy \<notin> policy_key ` set (room_automation_policies ?d)"
      using policy(3) by (auto simp: list_ex_iff key_tests)
    then show ?thesis using False room_inv_policy [OF d _ policy(1,2)] by (simp add: upsert_row_def)
  qed
  have "st_db t = ?e\<lparr>room_automation_policies := upgrade_lobby b policy (room_automation_policies ?e)\<rparr>"
    using run by (auto simp: seed_lobby_def Let_def tx_simps room_def policy_def upgrade_lobby_def)
  then show "room_inv (br_sha256 b) (st_db t)" using upgrade_lobby_inv [OF e policy_def] by simp
qed

lemma keeps_message_calls:
  "keeps (room_inv (br_sha256 b)) (send_message b ws args)" "keeps (room_inv (br_sha256 b)) (send_room_fanout b ws pargs)"
  "keeps (room_inv (br_sha256 b)) (poll_messages b qargs)" "keeps (room_inv (br_sha256 b)) (ack_message b i a)"
  by (rule framed_keeps_rooms, rule room_send room_fanout room_poll room_ack)+

lemma keeps_post: "keeps (room_inv (br_sha256 b)) (post_room_message b ws pargs)"
proof -
  have once: "keeps (room_inv (br_sha256 b)) (once_per_receipt b metadata (post_tx b m))" for metadata m
    unfolding once_per_receipt_def
  proof (rule keeps_framed_bind [OF room_reads(5)])
    fix found
    show "keeps (room_inv (br_sha256 b)) (case found of Some result \<Rightarrow> tx_return result
        | None \<Rightarrow> tx_bind (post_tx b m) (\<lambda>result. tx_then (store_receipt b metadata result) (tx_return result)))"
    proof (cases found)
      case None
      then show ?thesis
        by simp (intro keeps_bind [OF post_tx_keeps] framed_keeps_rooms rooms.framed_intros room_parts)
    qed simp
  qed
  have "keeps (room_inv (br_sha256 b)) (tx_bind utc_now (\<lambda>now. with_connection (once_per_receipt b metadata
      (post_tx b (m\<lparr>dr_created := now\<rparr>)))))" for metadata m
    by (intro keeps_framed_bind rooms.framed_basic keeps_with_connection once)
  then show ?thesis
    unfolding post_room_message_def by (intro keeps_framed_bind rooms.framed_basic) (auto split: prod.splits)
qed

lemmas keeps_mail_calls = keeps_room_calls keeps_route_calls keeps_upsert_route keeps_message_calls keeps_post

lemma good_mail_calls:
  "good_mail (br_sha256 b) (send_message b ws args)" "good_mail (br_sha256 b) (send_room_fanout b ws pargs)"
  "good_mail (br_sha256 b) (post_room_message b ws pargs)" "good_mail (br_sha256 b) (poll_messages b qargs)"
  "good_mail (br_sha256 b) (ack_message b i a)" "good_mail (br_sha256 b) (create_room b i n)"
  "good_mail (br_sha256 b) (join_room b sargs)" "good_mail (br_sha256 b) (set_room_member_role b i n o1 o2)"
  "good_mail (br_sha256 b) (leave_room b i a)" "good_mail (br_sha256 b) (set_room_automation b aargs)"
  "good_mail (br_sha256 b) (get_room_automation b i)" "good_mail (br_sha256 b) (list_rooms b flag)"
  "good_mail (br_sha256 b) (upsert_route_profile b rargs)"
  by (intro good_mailI atomic_mail_calls keeps_mail_calls mail_calls mail_room_calls)+

section \<open>Steps of the shared store\<close>

text \<open>One call of a bridge that uses the digest \<open>H\<close>, whatever its outcome, or the world moving on.\<close>

inductive mail_call :: "(string \<Rightarrow> string) \<Rightarrow> 'a message_db_scheme pstate \<Rightarrow> 'a message_db_scheme pstate \<Rightarrow> bool" for H where
  mc_seed: "br_sha256 b = H \<Longrightarrow> seed_lobby b s = (Inr (), t) \<Longrightarrow> mail_call H s t"
| mc_create: "br_sha256 b = H \<Longrightarrow> mail_call H s (snd (create_room b i n s))"
| mc_join: "br_sha256 b = H \<Longrightarrow> mail_call H s (snd (join_room b sargs s))"
| mc_role: "br_sha256 b = H \<Longrightarrow> mail_call H s (snd (set_room_member_role b i n rarg larg s))"
| mc_leave: "br_sha256 b = H \<Longrightarrow> mail_call H s (snd (leave_room b i agent s))"
| mc_automation: "br_sha256 b = H \<Longrightarrow> mail_call H s (snd (set_room_automation b aargs s))"
| mc_get_automation: "br_sha256 b = H \<Longrightarrow> mail_call H s (snd (get_room_automation b i s))"
| mc_list: "br_sha256 b = H \<Longrightarrow> mail_call H s (snd (list_rooms b flag s))"
| mc_route: "br_sha256 b = H \<Longrightarrow> mail_call H s (snd (upsert_route_profile b rargs s))"
| mc_send: "br_sha256 b = H \<Longrightarrow> mail_call H s (snd (send_message b ws args s))"
| mc_fanout: "br_sha256 b = H \<Longrightarrow> mail_call H s (snd (send_room_fanout b ws (pargs :: post_args) s))"
| mc_post: "br_sha256 b = H \<Longrightarrow> mail_call H s (snd (post_room_message b ws (pargs :: post_args) s))"
| mc_poll: "br_sha256 b = H \<Longrightarrow> mail_call H s (snd (poll_messages b qargs s))"
| mc_ack: "br_sha256 b = H \<Longrightarrow> mail_call H s (snd (ack_message b i agent s))"
| mc_world: "st_db t = st_db s \<Longrightarrow> mail_call H s t"

lemma mail_call_step:
  assumes "mail_call H s t" and "message_inv H (st_db s)"
  shows "message_inv H (st_db t) \<and> mail_leads (st_db s) (st_db t)"
  using assms
proof (cases rule: mail_call.cases)
  case (mc_seed b)
  have "mail_step H (st_db s) (st_db t)" using mail.framedD [OF mail_room_calls(1) mc_seed(2)] mc_seed(1) by simp
  then show ?thesis
    using keepsD [OF keeps_seed_lobby mc_seed(2)] mc_seed(1) assms(2) by (simp add: mail_step_def message_inv_def)
next
  case mc_world
  then show ?thesis using assms(2) by (simp add: mail_leads_refl)
qed (hypsubst, rule good_mail_step, rule good_mail_calls, assumption)+

text \<open>The store as one system: a history of calls keeps the invariant and only moves forward.\<close>

interpretation desk: call_history "mail_call H" "\<lambda>s. message_inv H (st_db s)" "\<lambda>s t. mail_leads (st_db s) (st_db t)" for H
proof
  fix s t u :: "'a message_db_scheme pstate"
  show "message_inv H (st_db s) \<Longrightarrow> mail_call H s t \<Longrightarrow> message_inv H (st_db t)" using mail_call_step by blast
  show "message_inv H (st_db s) \<Longrightarrow> mail_call H s t \<Longrightarrow> mail_leads (st_db s) (st_db t)" using mail_call_step by blast
  show "mail_leads (st_db s) (st_db s)" by (rule mail_leads_refl)
  show "mail_leads (st_db s) (st_db t) \<Longrightarrow> mail_leads (st_db t) (st_db u) \<Longrightarrow> mail_leads (st_db s) (st_db u)"
    by (rule mail_leads_trans)
qed

end
