(* ===== verification/MailExamples.thy ===== *)
theory MailExamples
  imports MailSystem
begin

text \<open>
  Concrete data for the properties of rooms and messages: a store with the lobby under discussion, two
  seats, a route, two messages for one agent of which the first is acknowledged, and the cursor behind it.
  The example digest writes the length of the text in its last four of 64 digits.
\<close>

definition hex_sha :: "string \<Rightarrow> string" where
  "hex_sha x = (let n = length x in replicate 60 (CHR ''0'') @ map (\<lambda>k. char_of (48 + n div k mod 10)) [1000, 100, 10, 1])"

section \<open>Sizes of JSON texts\<close>

lemma length_hex_sha [simp]: "length (hex_sha x) = 64"
  by (simp add: hex_sha_def Let_def)

lemma digit_hex: "n < 10 \<Longrightarrow> is_lower_hex (char_of (48 + n))" for n :: nat
proof -
  have "\<forall>n \<in> set [0 ..< 10]. is_lower_hex (char_of (48 + n :: nat))" by code_simp
  then show "n < 10 \<Longrightarrow> is_lower_hex (char_of (48 + n))" by simp
qed

lemma hex_sha_hex [simp]: "is_sha256_hex (hex_sha x)"
proof -
  have "is_lower_hex (CHR ''0'')" by code_simp
  then show ?thesis using digit_hex by (simp add: is_sha256_hex_def hex_sha_def Let_def list_all_iff)
qed

lemma length_utf8: "length (utf8_encode s) \<le> 2 * length s"
  by (induction s) (simp_all add: utf8_encode_def utf8_char_def Let_def)

lemma length_quote: "length (json_quote s) \<le> 2 + 6 * length s"
proof -
  have "length (json_escape c) \<le> 6" for c by (simp add: json_escape_def Let_def)
  then have "length (concat (map json_escape s)) \<le> 6 * length s" by (induction s) (auto intro: add_mono)
  then show ?thesis by (simp add: json_quote_def)
qed

lemma length_sep_join: "length (sep_join sep xs) \<le> sum_list (map length xs) + length sep * length xs"
  by (induction sep xs rule: sep_join.induct) auto

lemma sum_sort_key: "sum_list (map g (sort_key k xs)) = (sum_list (map g xs) :: nat)"
proof -
  have "sum_list (map g (insort_key k x ys)) = g x + sum_list (map g ys)" for x ys by (induction ys) auto
  then show ?thesis by (induction xs) simp_all
qed

text \<open>An upper bound of the length of a text, from the lengths of the strings in it.\<close>

fun text_bound :: "json \<Rightarrow> nat" where
  "text_bound JNull = 5"
| "text_bound (JBool b) = 5"
| "text_bound (JInt i) = length (show_int i)"
| "text_bound (JFloat t) = length t"
| "text_bound (JStr s) = 2 + 6 * length s"
| "text_bound (JList xs) = 2 + sum_list (map (\<lambda>x. Suc (text_bound x)) xs)"
| "text_bound (JObj kvs) = 2 + sum_list (map (\<lambda>kv. 4 + 6 * length (fst kv) + text_bound (snd kv)) kvs)"

lemma length_dumps: "length (json_dumps j) \<le> text_bound j"
proof (induction j)
  case (JStr s)
  then show ?case using length_quote by simp
next
  case (JList xs)
  have "sum_list (map (\<lambda>x. length (json_dumps x)) xs) \<le> sum_list (map text_bound xs)"
    using JList by (intro sum_list_mono) auto
  then show ?case
    using length_sep_join [of "'',''" "map json_dumps xs"] by (simp add: comp_def sum_list_Suc)
next
  case (JObj kvs)
  let ?rows = "map (\<lambda>kv. (fst kv, json_dumps (snd kv))) kvs"
  have "length (json_member (fst kv, json_dumps (snd kv))) \<le> 3 + 6 * length (fst kv) + text_bound (snd kv)" if "kv \<in> set kvs" for kv
    using JObj [of kv "snd kv"] that length_quote [of "fst kv"] by (auto simp: json_member_def snds.simps)
  then have "sum_list (map (\<lambda>kt. length (json_member kt)) ?rows) \<le> sum_list (map (\<lambda>kv. 3 + 6 * length (fst kv) + text_bound (snd kv)) kvs)"
    by (simp add: comp_def) (intro sum_list_mono, simp)
  then have "sum_list (map length (map json_member (sort_key fst ?rows))) \<le> sum_list (map (\<lambda>kv. 3 + 6 * length (fst kv) + text_bound (snd kv)) kvs)"
    by (simp add: comp_def sum_sort_key)
  moreover have "length (sep_join '','' (map json_member (sort_key fst ?rows))) \<le>
      sum_list (map length (map json_member (sort_key fst ?rows))) + length kvs"
    using length_sep_join [of "'',''" "map json_member (sort_key fst ?rows)"] by simp
  moreover have "sum_list (map (\<lambda>kv. 4 + 6 * length (fst kv) + text_bound (snd kv)) kvs)
      = sum_list (map (\<lambda>kv. 3 + 6 * length (fst kv) + text_bound (snd kv)) kvs) + length kvs"
    by (induction kvs) auto
  ultimately show ?case by simp
qed (simp_all add: show_int_def)

lemma payload_fits:
  assumes "2 * text_bound j \<le> n"
  shows "int (length (utf8_encode (json_dumps j))) \<le> int n"
  using assms length_utf8 [of "json_dumps j"] length_dumps [of j] by linarith

section \<open>Bridges and rows\<close>

definition mail_alice :: bridge where
  "mail_alice = demo_bridge\<lparr>br_agent_id := ''alice'', br_sha256 := hex_sha\<rparr>"

definition mail_bob :: bridge where
  "mail_bob = \<lparr>br_agent_id = ''bob'', br_scope = ''team'', br_session_id = ''s2'', br_client_name = None,
     br_provider_id = Some ''p'', br_model_id = Some ''m'', br_reasoning_mode = None, br_route_class = Some ''local'',
     br_workspace_root_key = ''/w'', br_sha256 = hex_sha\<rparr>"

lemma mail_bridges [simp]:
  "br_sha256 mail_alice = hex_sha" "br_sha256 mail_bob = hex_sha" "br_scope mail_alice = ''team''" "br_scope mail_bob = ''team''"
  "br_agent_id mail_alice = ''alice''" "br_agent_id mail_bob = ''bob''"
  by (simp_all add: mail_alice_def mail_bob_def demo_bridge_def)

definition mail_draft :: "string \<Rightarrow> draft" where
  "mail_draft body = \<lparr>dr_room_id = ''lobby'', dr_task_id = ''T1'', dr_sender = ''alice'', dr_recipient = ''bob'', dr_subject = ''s'',
     dr_body = body, dr_priority = ''normal'', dr_reply_to = None, dr_artifacts = [], dr_route_profile_id = None, dr_request = None,
     dr_prompt = None, dr_visibility = ''direct'', dr_created = ''u''\<rparr>"

definition mail_first :: msg_row where "mail_first = new_message mail_alice (mail_draft ''one'') ''m1'' 1"
definition mail_second :: msg_row where "mail_second = new_message mail_alice (mail_draft ''two'') ''m2'' 2"

definition mail_room :: room_row where
  "mail_room = seal_room hex_sha \<lparr>ro_scope = ''team'', ro_room_id = ''lobby'', ro_name = ''Lobby'', ro_created_by = ''peerbridge-system'',
     ro_archived = False, ro_created_utc = ''u'', ro_updated_utc = ''u'', ro_room_sha256 = []\<rparr>"

definition mail_policy :: policy_row where
  "mail_policy = seal_policy hex_sha \<lparr>po_scope = ''team'', po_room_id = ''lobby'', po_mode = ''discussion'', po_max_rounds = 4,
     po_max_messages = 40, po_stagnation_rounds = 2, po_updated_by = ''alice'', po_created_utc = ''u'', po_updated_utc = ''u'',
     po_policy_sha256 = []\<rparr>"

definition mail_seat :: "string \<Rightarrow> string option \<Rightarrow> member_row" where
  "mail_seat agent route = seal_seat hex_sha \<lparr>me_scope = ''team'', me_room_id = ''lobby'', me_agent_id = agent, me_route_profile_id = route,
     me_room_session_id = ''rs'', me_status = Seat_Active, me_joined_utc = ''u'', me_updated_utc = ''u'', me_left_utc = None,
     me_membership_sha256 = []\<rparr>"

definition mail_role :: "string \<Rightarrow> role_row" where
  "mail_role agent = seal_role hex_sha \<lparr>mr_scope = ''team'', mr_room_id = ''lobby'', mr_agent_id = agent, mr_room_session_id = ''rs'',
     mr_role_id = ''researcher'', mr_role_label = None, mr_updated_by = agent, mr_created_utc = ''u'', mr_updated_utc = ''u'',
     mr_role_sha256 = []\<rparr>"

definition mail_disc :: disc_row where
  "mail_disc = new_discussion mail_alice (mail_draft ''go'') ''d'' mail_policy 1"

definition mail_profile :: route_row where
  "mail_profile = new_route mail_alice \<lparr>rp_scope = ''team'', rp_route_id = ''r'', rp_agent_id = ''bob'', rp_client_name = None,
     rp_provider_id = Some ''p'', rp_model_id = Some ''m'', rp_response_model_id = None, rp_inference_timeout_seconds = None,
     rp_reasoning_mode = None, rp_route_class = ''local'', rp_enabled = True\<rparr> ''u''"

definition mail_cursor :: cursor_row where
  "mail_cursor = \<lparr>cc_scope = ''team'', cc_channel = ''messages:lobby'', cc_consumer = ''bob'', cc_position = 1, cc_updated_utc = ''u''\<rparr>"

definition mail_receipt :: receipt_row where
  "mail_receipt = \<lparr>rc_scope = ''team'', rc_message_id = ''m1'', rc_agent_id = ''bob'', rc_acknowledged_utc = ''u''\<rparr>"

definition mail_usage :: usage_row where
  "mail_usage = \<lparr>us_scope = ''team'', us_message_rows = 2, us_message_bytes = 600, us_event_rows = 0, us_event_bytes = 0,
     us_updated_utc = ''u''\<rparr>"

text \<open>A room of a discussion, with the seats of both agents; and the same in mode \<open>once\<close> and without the discussion.\<close>

definition mail_store :: message_db where
  "mail_store = \<lparr>events = [], event_seq = 0, scope_storage_usage = [mail_usage], messages = [mail_first, mail_second],
     message_dispatches = [], room_discussions = [mail_disc], route_profiles = [mail_profile], rooms = [mail_room],
     room_memberships = [mail_seat ''alice'' None, mail_seat ''bob'' (Some ''r'')],
     room_member_roles = [mail_role ''alice'', mail_role ''bob''], room_automation_policies = [mail_policy], message_seq = 2,
     message_receipts = [mail_receipt], message_route_receipts = [], consumer_cursors = [mail_cursor], mcp_mutation_receipts = []\<rparr>"

definition mail_state :: "message_db pstate" where
  "mail_state = \<lparr>st_db = mail_store, st_world = demo_world\<rparr>"

lemma mail_state_db [simp]: "st_db mail_state = mail_store"
  by (simp add: mail_state_def)

section \<open>The store is well formed\<close>

lemma mail_rows:
  "room_rows.sealed hex_sha mail_room" "policies.sealed hex_sha mail_policy" "seats.sealed hex_sha (mail_seat ag rt)"
  "roles.sealed hex_sha (mail_role ag)" "disc.sealed hex_sha mail_disc"
  using new_discussion_simps(4) [of mail_alice]
  by (simp_all add: mail_room_def mail_policy_def mail_seat_def mail_role_def mail_disc_def room_rows.sealed_seal policies.sealed_seal
      seats.sealed_seal roles.sealed_seal)

lemma mail_columns [simp]:
  "seat_key (mail_seat ag rt) = (''team'', ''lobby'', ag)" "me_status (mail_seat ag rt) = Seat_Active" "me_left_utc (mail_seat ag rt) = None"
  "me_room_session_id (mail_seat ag rt) = ''rs''" "role_key (mail_role ag) = (''team'', ''lobby'', ag)"
  "mr_room_session_id (mail_role ag) = ''rs''" "mr_role_id (mail_role ag) = ''researcher''"
  "policy_key mail_policy = (''team'', ''lobby'')" "po_mode mail_policy = ''discussion''"
  "disc_room mail_disc = (''team'', ''lobby'')" "open_discussion mail_disc"
  by (simp_all add: mail_seat_def seal_seat_def seat_key_def mail_role_def seal_role_def role_key_def mail_policy_def seal_policy_def
      policy_key_def mail_disc_def disc_room_def new_discussion_simps mail_draft_def open_discussion_def)

lemma mail_policy_bounds: "policy_bounds mail_policy"
  by (simp add: mail_policy_def seal_policy_def policy_bounds_def ROOM_AUTOMATION_MODES_def MAX_DISCUSSION_ROUNDS_def MAX_DISCUSSION_MESSAGES_def)

lemma mail_store_rooms: "room_inv hex_sha mail_store"
proof -
  have "seats_ok hex_sha (room_memberships mail_store) (room_member_roles mail_store)"
    using mail_rows by (simp add: seats_ok_def seat_ok_def mail_store_def role_of_def ROOM_MEMBER_ROLES_def)
  moreover have "policies_ok hex_sha (room_automation_policies mail_store)"
    using mail_rows mail_policy_bounds by (simp add: policies_ok_def mail_store_def sealed_policy)
  moreover have "disc_inv hex_sha mail_store"
    using mail_rows by (simp add: disc_inv_def mail_store_def)
  moreover have "discussions_ok (room_automation_policies mail_store) (room_discussions mail_store)"
    by (simp add: discussions_ok_def mail_store_def discussion_mode_def)
  ultimately show ?thesis using mail_rows by (simp add: room_inv_def mail_store_def)
qed

lemma mail_store_mail: "mail_inv hex_sha mail_store"
proof -
  have "audit_inv hex_sha mail_store"
    by (simp add: audit_inv_def audit_valid_def sequence_ok_def usage_ok_def usage_row_ok_def mail_store_def mail_usage_def scope_events_def sum_bytes_def
        MAX_SCOPE_EVENT_ROWS_def MAX_SCOPE_EVENT_BYTES_def)
  moreover have "numbered (messages mail_store) (message_seq mail_store)"
    by (simp add: numbered_def mail_store_def mail_first_def mail_second_def)
  moreover have "cursors_ok (messages mail_store) (message_receipts mail_store) (message_seq mail_store) (consumer_cursors mail_store)"
    by (simp add: cursors_ok_def mail_store_def caught_up_def mail_first_def mail_second_def mail_cursor_def mail_receipt_def
        acknowledged_by_def)
  moreover have "quota_exact (messages mail_store) (scope_storage_usage mail_store)"
    by (simp add: quota_exact_def quota_but_def quota_row_def mail_store_def mail_usage_def count_messages_def mail_first_def mail_second_def
        MAX_SCOPE_MESSAGE_ROWS_def MAX_SCOPE_MESSAGE_BYTES_def)
  ultimately show ?thesis by (simp add: mail_inv_def)
qed

lemma mail_state_inv: "message_inv hex_sha (st_db mail_state)"
  using mail_store_rooms mail_store_mail by (simp add: message_inv_def)

text \<open>A history of one call, whatever it returns.\<close>

definition mail_acked :: "message_db pstate" where
  "mail_acked = snd (ack_message mail_bob ''m2'' None mail_state)"

lemma mail_history: "(mail_call hex_sha)\<^sup>*\<^sup>* mail_state mail_acked"
  using mc_ack [of mail_bob hex_sha mail_state "''m2''" None] by (simp add: mail_acked_def r_into_rtranclp)

section \<open>Its calls return\<close>

text \<open>An event is appended to a chain that is still empty.\<close>

lemma first_event_runs:
  fixes s :: "'a audit_db_scheme pstate"
  assumes "events (st_db s) = []" and "scope_storage_usage (st_db s) = [u]" and "us_scope u = br_scope b"
    and "us_event_rows u = 0" and "us_event_bytes u = 0"
    and "int (length (utf8_encode (json_dumps (event_payload b p)))) \<le> MAX_SCOPE_EVENT_BYTES"
  shows "\<exists>e t. event_op b ty p tid s = (Inr e, t)"
  using assms
  by (simp add: event_op_def Let_def tx_simps ensure_usage_def event_fits_def MAX_SCOPE_EVENT_ROWS_def)

lemma mail_bob_speaks: "may_speak mail_bob ''lobby'' ''bob'' mail_store"
  by (simp add: may_speak_def open_room_def mail_store_def mail_room_def seal_room_def room_is_def fetch_one_def DEFAULT_ROOM_ID_def
      seat_is_def mail_seat_def seal_seat_def)

lemma mail_second_plain: "evaluate_route b ps mail_second co = \<lparr>re_status = Not_Requested, re_request = None, re_mismatches = []\<rparr>"
  by (simp add: evaluate_route_def route_request_from_row_def mail_second_def new_message_def mail_draft_def requested_of_def is_set_def Let_def)

lemma mail_messages [simp]:
  "mg_sequence mail_first = 1" "mg_sequence mail_second = 2" "mg_message_id mail_first = ''m1''" "mg_message_id mail_second = ''m2''"
  "mg_scope mail_first = ''team''" "mg_scope mail_second = ''team''" "mg_room_id mail_first = ''lobby''" "mg_room_id mail_second = ''lobby''"
  "mg_recipient mail_first = ''bob''" "mg_recipient mail_second = ''bob''"
  by (simp_all add: mail_first_def mail_second_def mail_draft_def)

text \<open>The second message becomes acknowledged, and the cursor moves behind it.\<close>

lemma mail_moved:
  "moved_cursor mail_bob ''lobby'' ''bob'' (mail_store\<lparr>message_receipts := upsert_row (receipt_is ''team'' ''m2'' ''bob'') id
       \<lparr>rc_scope = ''team'', rc_message_id = ''m2'', rc_agent_id = ''bob'', rc_acknowledged_utc = now\<rparr> (message_receipts mail_store),
     messages := update_where (\<lambda>m. mg_message_id m = ''m2'') (mark_acknowledged now) (messages mail_store)\<rparr>) = 2"
  by (simp add: moved_cursor_def mail_store_def upsert_row_def receipt_is_def mail_receipt_def consumer_cursor_def fetch_one_def
      cursor_is_def mail_cursor_def channel_of_def eligible_rows_def advanced_cursor_def first_unacknowledged_def max_sequence_def
      acknowledged_by_def addressed_to_def mark_acknowledged_def)

lemma mail_ack_event:
  fixes s :: "'a audit_db_scheme pstate"
  assumes "events (st_db s) = []" and "scope_storage_usage (st_db s) = [mail_usage]"
  shows "\<exists>t e c. event_op mail_bob ''message.acknowledged'' [(''message_id'', JStr ''m2''), (''room_id'', JStr ''lobby''),
     (''consumer'', JStr ''bob''), (''cursor'', JInt 2), (''route_status'', JStr ''not_requested''),
     (''route_receipt_sha256'', JNull)] None s = (Inr (e, c), t)"
proof -
  have "int (length (utf8_encode (json_dumps (event_payload mail_bob [(''message_id'', JStr ''m2''), (''room_id'', JStr ''lobby''),
     (''consumer'', JStr ''bob''), (''cursor'', JInt 2), (''route_status'', JStr ''not_requested''),
     (''route_receipt_sha256'', JNull)])))) \<le> MAX_SCOPE_EVENT_BYTES"
    by code_simp
  from first_event_runs [OF assms _ _ _ this] show ?thesis by (simp add: mail_usage_def) blast
qed

lemma mail_acks: "\<exists>r t. ack_message mail_bob ''m2'' None mail_state = (Inr r, t)"
proof -
  have ids: "require_identifier ''m2'' ''message_id'' = Inr ''m2''" "require_identifier ''lobby'' ''room_id'' = Inr ''lobby''"
    "bound_consumer mail_bob None = Inr ''bob''" by code_simp+
  have row: "fetch_one (\<lambda>m. mg_scope m = ''team'' \<and> mg_message_id m = ''m2'') (messages mail_store) = Some mail_second"
    by (simp add: mail_store_def fetch_one_def)
  have base: "events mail_store = []" "scope_storage_usage mail_store = [mail_usage]" by (simp_all add: mail_store_def)
  show ?thesis
    using ids row mail_bob_speaks mail_moved [of "utc_at mail_state"] base
    by (simp add: ack_message_def ack_tx_def Let_def tx_simps mail_second_plain record_route_receipt_def advance_cursor_def
        moved_cursor_def addressed_to_def mail_ack_event)
qed

definition mail_poll :: poll_args where
  "mail_poll = \<lparr>pl_room_id = None, pl_agent_id = None, pl_limit = None, pl_include_sent = False, pl_after_cursor = None\<rparr>"

lemma mail_polls: "\<exists>r u. poll_messages mail_bob mail_poll mail_state = (Inr r, u) \<and> pq_room_id r = ''lobby''"
proof -
  have ids: "require_identifier ''lobby'' ''room_id'' = Inr ''lobby''" "bound_consumer mail_bob None = Inr ''bob''" by code_simp+
  have "mg_artifact_paths_json mail_second = ''[]''" "mg_artifact_paths_json mail_first = ''[]''"
    by (simp_all add: mail_first_def mail_second_def new_message_def mail_draft_def)
  moreover have "json_loads ''[]'' = Some (JList [])" by code_simp
  ultimately have paths: "json_loads (mg_artifact_paths_json m) = Some (JList [])" if "m \<in> {mail_first, mail_second}" for m
    using that by auto
  define cur where "cur = int_or (int (consumer_cursor mail_bob (channel_of ''lobby'') ''bob'' (consumer_cursors mail_store))) None"
  define rows where "rows = take (nat (poll_limit None)) (inbox_rows mail_bob ''lobby'' ''bob'' False cur (messages mail_store))"
  have "set rows \<subseteq> {mail_first, mail_second}"
    unfolding rows_def by (rule subset_trans [OF set_take_subset]) (auto simp: inbox_rows_def mail_store_def)
  then have "\<exists>is. res_map (poll_item_of mail_bob ''bob'' (message_receipts mail_store) (route_profiles mail_store)) rows = Inr is"
    by (induction rows) (auto simp: tx_simps poll_item_of_def paths)
  then obtain "is" where "res_map (poll_item_of mail_bob ''bob'' (message_receipts mail_store) (route_profiles mail_store)) rows = Inr is" ..
  then show ?thesis
    using ids mail_bob_speaks
    by (simp add: poll_messages_def mail_poll_def Let_def tx_simps DEFAULT_ROOM_ID_def rows_def cur_def)
qed

lemma mail_event_runs:
  fixes s :: "'a audit_db_scheme pstate"
  assumes "events (st_db s) = []" and "scope_storage_usage (st_db s) = [u]" and "us_scope u = br_scope b"
    and "us_event_rows u = 0" and "us_event_bytes u = 0" and "text_bound (event_payload b p) \<le> 100000"
  shows "\<exists>t e c. event_op b ty p tid s = (Inr (e, c), t)" "\<exists>e c t. event_op b ty p tid s = (Inr (e, c), t)"
    "\<exists>c t e. event_op b ty p tid s = (Inr (e, c), t)"
proof -
  have "int (length (utf8_encode (json_dumps (event_payload b p)))) \<le> int 200000"
    by (rule payload_fits) (use assms(6) in simp)
  then have "int (length (utf8_encode (json_dumps (event_payload b p)))) \<le> MAX_SCOPE_EVENT_BYTES"
    by (simp add: MAX_SCOPE_EVENT_BYTES_def)
  from first_event_runs [OF assms(1-5) this, of ty tid] obtain e c t where "event_op b ty p tid s = (Inr (e, c), t)" by auto
  then show "\<exists>t e c. event_op b ty p tid s = (Inr (e, c), t)" "\<exists>e c t. event_op b ty p tid s = (Inr (e, c), t)"
    "\<exists>c t e. event_op b ty p tid s = (Inr (e, c), t)" by blast+
qed

lemma mail_identity [simp]:
  "br_session_id mail_bob = ''s2''" "br_session_id mail_alice = ''s1''" "br_client_name mail_bob = None" "br_client_name mail_alice = None"
  "br_provider_id mail_bob = Some ''p''" "br_provider_id mail_alice = Some ''p''" "br_model_id mail_bob = Some ''m''"
  "br_model_id mail_alice = None" "br_reasoning_mode mail_bob = None" "br_reasoning_mode mail_alice = None"
  "br_route_class mail_bob = Some ''local''" "br_route_class mail_alice = None"
  by (simp_all add: mail_bob_def mail_alice_def demo_bridge_def)

lemmas mail_payload = event_payload_def obj_update_def runtime_identity_def

lemma mail_seats [simp]:
  "fetch_one (seat_is ''team'' ''lobby'' ''bob'') (room_memberships mail_store) = Some (mail_seat ''bob'' (Some ''r''))"
  "fetch_one (role_is ''team'' ''lobby'' ''bob'') (room_member_roles mail_store) = Some (mail_role ''bob'')"
  "fetch_one (room_is ''team'' ''lobby'') (rooms mail_store) = Some mail_room" "\<not> ro_archived mail_room"
  by (simp_all add: mail_store_def fetch_one_def seat_is_def mail_seat_def seal_seat_def role_is_def mail_role_def seal_role_def
      room_is_def mail_room_def seal_room_def)

lemma sealed_lengths [simp]:
  "length (me_membership_sha256 (seal_seat hex_sha r)) = 64" "length (mr_role_sha256 (seal_role hex_sha q)) = 64"
  "me_room_id (seal_seat H r) = me_room_id r" "me_agent_id (seal_seat H r) = me_agent_id r" "mr_role_id (seal_role H q) = mr_role_id q"
  by (simp_all add: seal_seat_def seal_role_def stable_sha256_def sha256_text_def sha256_bytes_def)

lemma mail_leaves: "\<exists>r t. leave_room mail_bob ''lobby'' None mail_state = (Inr r, t)"
proof -
  have ids: "require_identifier ''lobby'' ''room_id'' = Inr ''lobby''" "require_identifier ''bob'' ''agent_id'' = Inr ''bob''" by code_simp+
  have base: "events mail_store = []" "scope_storage_usage mail_store = [mail_usage]" by (simp_all add: mail_store_def)
  have usage: "us_scope mail_usage = ''team''" "us_event_rows mail_usage = 0" "us_event_bytes mail_usage = 0" by (simp_all add: mail_usage_def)
  have seat: "me_room_id (mail_seat ag rt) = ''lobby''" "me_agent_id (mail_seat ag rt) = ag" for ag rt
    by (simp_all add: mail_seat_def seal_seat_def)
  show ?thesis
    using ids base usage
    by (simp add: leave_room_def leave_tx_def upsert_room_role_def Let_def tx_simps open_room_def leaving_row_def DEFAULT_ROOM_ID_def
        seat_event_def left_seat_def) (rule mail_event_runs; simp add: mail_payload)
qed

section \<open>Sending\<close>

definition mail_space :: workspace where
  "mail_space = \<lparr>ws_resolve = (\<lambda>p. Some p), ws_protected = [''.git''], ws_file = (\<lambda>p. None)\<rparr>"

definition mail_message :: send_args where
  "mail_message = \<lparr>sm_receipt = None, sm_room_id = None, sm_task_id = ''T1'', sm_subject = ''s'', sm_body = ''hi'', sm_priority = None,
     sm_artifact_paths = [], sm_recipient = ''bob'', sm_reply_to = None, sm_route = \<lparr>ra_route_profile_id = None,
     ra_requested_provider_id = None, ra_requested_model_id = None, ra_requested_reasoning_mode = None, ra_requested_route_class = None\<rparr>\<rparr>"

definition mail_post :: post_args where
  "mail_post = \<lparr>sm_receipt = None, sm_room_id = Some ''lobby'', sm_task_id = ''T1'', sm_subject = ''s'', sm_body = ''hi'',
     sm_priority = None, sm_artifact_paths = []\<rparr>"

lemma mail_texts: "require_text ''s'' ''subject'' 500 = Inr ''s''" "require_text ''hi'' ''body'' MAX_TEXT_CHARS = Inr ''hi''"
proof -
  have "py_strip ''s'' = ''s''" "py_strip ''hi'' = ''hi''" "\<not> contains_secret ''s''" "\<not> contains_secret ''hi''" by code_simp+
  then show "require_text ''s'' ''subject'' 500 = Inr ''s''" "require_text ''hi'' ''body'' MAX_TEXT_CHARS = Inr ''hi''"
    by (simp_all add: require_text_def MAX_TEXT_CHARS_def Let_def)
qed

lemma mail_pieces:
  "require_identifier ''lobby'' ''room_id'' = Inr ''lobby''" "require_identifier ''T1'' ''task_id'' = Inr ''T1''"
  "parse_recipient ''bob'' = Inr ''bob''" "parse_priority None = Inr ''normal''" "py_strip [] = []"
  by code_simp+

lemma mail_no_artifacts: "clean_artifacts H ws [] (Some MAX_CHAT_ATTACHMENT_COUNT) flag = Inr []"
  by (simp add: clean_artifacts_def MAX_CHAT_ATTACHMENT_COUNT_def Let_def res_bind_def res_require_def)

lemma mail_message_valid: "validate_send mail_alice mail_space mail_message = Inr (None, (mail_draft ''hi'')\<lparr>dr_created := []\<rparr>)"
  by (simp add: validate_send_def mail_message_def mcp_receipt_metadata_def mail_pieces mail_texts mail_no_artifacts res_bind_def
      DEFAULT_ROOM_ID_def text_or_empty_def Let_def mail_draft_def)

lemma mail_post_valid: "validate_post mail_alice mail_space mail_post ''send_room_fanout'' =
   Inr (None, (mail_draft ''hi'')\<lparr>dr_recipient := ''alice'', dr_visibility := ''room'', dr_created := []\<rparr>)"
  by (simp add: validate_post_def mail_post_def mcp_receipt_metadata_def mail_pieces mail_texts mail_no_artifacts res_bind_def
      text_or_empty_def Let_def mail_draft_def)

lemma mail_reserves:
  "0 \<le> n \<Longrightarrow> n \<le> 100 \<Longrightarrow> 0 \<le> bytes \<Longrightarrow> bytes \<le> 1000000
     \<Longrightarrow> length (filter (message_fits ''team'' n bytes) (ensure_usage ''team'' now [mail_usage])) = 1"
  by (simp add: ensure_usage_def mail_usage_def message_fits_def MAX_SCOPE_MESSAGE_ROWS_def MAX_SCOPE_MESSAGE_BYTES_def)

lemma mail_bytes: "0 \<le> serialized_message_bytes j" "text_bound j \<le> 10000 \<Longrightarrow> serialized_message_bytes j \<le> 20000"
  using payload_fits [of j 20000] by (simp_all add: serialized_message_bytes_def)

lemma mail_alice_speaks: "may_speak mail_alice ''lobby'' ''alice'' mail_store"
  by (simp add: may_speak_def open_room_def mail_store_def mail_room_def seal_room_def room_is_def fetch_one_def DEFAULT_ROOM_ID_def
      seat_is_def mail_seat_def seal_seat_def)

lemma mail_unrouted: "resolve_route_request mail_alice ps r (sm_route mail_message) = Inr None"
proof -
  have "optional_identifier None l = Inr None" "optional_route_class None l = Inr None" for l
    by (simp_all add: optional_identifier_def optional_route_class_def text_or_empty_def mail_pieces py_lower_def Let_def)
  then show ?thesis by (simp add: resolve_route_request_def mail_message_def res_bind_def is_set_def Let_def)
qed

lemma mail_world [simp]: "w_uuid (st_world mail_state) (w_calls (st_world mail_state)) = ''id-0''"
  "w_utc (st_world mail_state) n = ''2026-01-01T00:00:00Z''" "w_utc (st_world (tick s)) = w_utc (st_world s)"
proof -
  have "show_nat 0 = ''0''" by code_simp
  then show "w_uuid (st_world mail_state) (w_calls (st_world mail_state)) = ''id-0''" by (simp add: mail_state_def demo_world_def)
qed (simp_all add: mail_state_def demo_world_def tick_def)

lemma mail_draft_simps [simp]:
  "dr_room_id (mail_draft x) = ''lobby''" "dr_recipient (mail_draft x) = ''bob''" "dr_reply_to (mail_draft x) = None"
  "dr_task_id (mail_draft x) = ''T1''" "dr_sender (mail_draft x) = ''alice''" "dr_subject (mail_draft x) = ''s''" "dr_body (mail_draft x) = x"
  "dr_priority (mail_draft x) = ''normal''" "dr_artifacts (mail_draft x) = []" "dr_prompt (mail_draft x) = None"
  "dr_visibility (mail_draft x) = ''direct''" "dr_request (mail_draft x) = None" "dr_route_profile_id (mail_draft x) = None"
  by (simp_all add: mail_draft_def)

lemma reserved_simps [simp]:
  "messages (reserved_db b n bytes now d) = messages d" "message_seq (reserved_db b n bytes now d) = message_seq d"
  "events (reserved_db b n bytes now d) = events d"
  by (simp_all add: reserved_db_def)

lemma mail_base [simp]:
  "events mail_store = []" "scope_storage_usage mail_store = [mail_usage]" "messages mail_store = [mail_first, mail_second]"
  "message_seq mail_store = 2" "us_scope mail_usage = ''team''" "us_event_rows mail_usage = 0" "us_event_bytes mail_usage = 0"
  by (simp_all add: mail_store_def mail_usage_def)

lemma mail_fits:
  "text_bound j \<le> 10000 \<Longrightarrow> length (filter (message_fits ''team'' 1 (serialized_message_bytes j)) (ensure_usage ''team'' now [mail_usage])) = Suc 0"
  using mail_bytes [of j] mail_reserves [of 1 "serialized_message_bytes j" now] by simp

text \<open>The usage row after a charge.\<close>

definition mail_charged :: "int \<Rightarrow> int \<Rightarrow> string \<Rightarrow> usage_row" where
  "mail_charged n bytes now = (if message_fits ''team'' n bytes mail_usage then add_messages n bytes now mail_usage else mail_usage)"

lemma mail_charged_simps [simp]:
  "us_scope (mail_charged n bytes now) = ''team''" "us_event_rows (mail_charged n bytes now) = 0" "us_event_bytes (mail_charged n bytes now) = 0"
  by (simp_all add: mail_charged_def add_messages_def)

lemma mail_reserved [simp]:
  "scope_storage_usage d = [mail_usage] \<Longrightarrow> scope_storage_usage (reserved_db mail_alice n bytes now d) = [mail_charged n bytes now]"
  "scope_storage_usage (added_db row d) = scope_storage_usage d" "events (added_db row d) = events d"
  by (simp_all add: reserved_db_def ensure_usage_def mail_charged_def added_db_def)

end
