(* ===== verification/MailRuns.thy ===== *)
theory MailRuns
  imports MailExamples
begin

text \<open>
  Calls of \<open>send_message\<close> and \<open>send_room_fanout\<close> that return in the store of \<open>MailExamples\<close>.
\<close>

lemma length_stable_sha [simp]: "length (stable_sha256 hex_sha j) = 64"
  by (simp add: stable_sha256_def sha256_text_def sha256_bytes_def)

lemma mail_sends: "\<exists>r t. send_message mail_alice mail_space mail_message mail_state = (Inr r, t)"
proof -
  have three: "show_int 3 = ''3''" by code_simp
  have usage: "us_scope (mail_charged n x now) = ''team''" "us_event_rows (mail_charged n x now) = 0" "us_event_bytes (mail_charged n x now) = 0" for n x now
    by (simp_all add: mail_charged_def add_messages_def)
  have fit: "length (filter (message_fits ''team'' 1 (serialized_message_bytes (JObj kvs))) (ensure_usage ''team'' now [mail_usage])) = Suc 0"
    if "text_bound (JObj kvs) \<le> 10000" for kvs now
    using mail_fits [OF that] .
  show ?thesis
    using mail_alice_speaks
    apply (simp add: send_message_def mail_message_valid once_per_receipt_def load_receipt_def store_receipt_def send_tx_def
      write_message_def Let_def tx_simps mail_unrouted check_reply_def DEFAULT_ROOM_ID_def)
    apply (intro conjI mail_fits mail_event_runs)
    apply (simp_all add: mail_payload message_content_def sent_event_def route_request_content_binding_def new_message_def requested_of_def
      mail_bytes(1) three del: mail_charged_simps)
    apply (simp_all only: usage)
    done
qed

lemma mail_sent: "send_message mail_alice mail_space mail_message mail_state = (Inr r, t)
    \<Longrightarrow> messages (st_db t) \<noteq> messages mail_store"
  by (auto simp: send_message_def mail_message_valid once_per_receipt_def load_receipt_def store_receipt_def send_tx_def
      write_message_def Let_def tx_simps added_db_def appends_def dest!: event_op_ok)

section \<open>A route request\<close>

definition mail_request :: route_request where
  "mail_request = (let q = \<lparr>rq_route_profile_id = Some ''r'', rq_target_agent_id = ''bob'', rq_provider_id = Some ''p'',
     rq_model_id = Some ''m'', rq_reasoning_mode = None, rq_route_class = Some ''local'',
     rq_profile_sha256 = Some (Some (rp_profile_sha256 mail_profile)), rq_request_sha256 = None\<rparr>
   in q\<lparr>rq_request_sha256 := Some (request_digest hex_sha q)\<rparr>)"

lemma mail_profile_verified: "verified_route_profile_sha256 hex_sha mail_profile = Inr (rp_profile_sha256 mail_profile)"
proof -
  have "rp_profile_sha256 mail_profile = stable_sha256 hex_sha (JObj (route_profile_identity_payload mail_profile))"
    by (simp add: mail_profile_def new_route_def route_profile_identity_payload_def route_identity.extend_def route_row.fields_def)
  moreover have "is_sha256_hex (stable_sha256 hex_sha j)" for j by (simp add: stable_sha256_def sha256_text_def sha256_bytes_def)
  ultimately show ?thesis by (simp add: verified_route_profile_sha256_def Let_def)
qed

lemma mail_resolves: "resolve_route_request mail_alice (route_profiles mail_store) ''bob'' (profile_only ''r'') = Inr (Some mail_request)"
proof -
  have "optional_identifier (Some ''r'') l = Inr (Some ''r'')" "optional_identifier None l = Inr None"
    "optional_route_class None l = Inr None" for l by code_simp+
  moreover have "route_profiles mail_store = [mail_profile]" "rp_scope mail_profile = ''team''" "rp_route_id mail_profile = ''r''"
    "rp_agent_id mail_profile = ''bob''" "rp_enabled mail_profile" "rp_route_class mail_profile = ''local''"
    "rp_provider_id mail_profile = Some ''p''" "rp_model_id mail_profile = Some ''m''" "rp_reasoning_mode mail_profile = None"
    by (simp_all add: mail_store_def mail_profile_def new_route_def route_identity.extend_def route_row.fields_def)
  ultimately show ?thesis
    by (simp add: resolve_route_request_def profile_only_def Let_def merge_profile_def fetch_one_def enabled_route_def route_is_def
        merge_requested_def or_else_def is_set_def tx_simps mail_profile_verified mail_request_def)
qed

section \<open>A fanout\<close>

definition mail_open_store :: message_db where
  "mail_open_store = mail_store\<lparr>room_discussions := [], room_automation_policies := [mail_policy\<lparr>po_mode := ''once''\<rparr>]\<rparr>"

definition mail_open :: "message_db pstate" where
  "mail_open = \<lparr>st_db = mail_open_store, st_world = demo_world\<rparr>"

lemma mail_open_simps [simp]:
  "st_db mail_open = mail_open_store" "events mail_open_store = []" "scope_storage_usage mail_open_store = [mail_usage]"
  "messages mail_open_store = [mail_first, mail_second]" "message_seq mail_open_store = 2"
  "may_speak b r a mail_open_store = may_speak b r a mail_store" "open_room b r mail_open_store q = open_room b r mail_store q"
  "route_profiles mail_open_store = route_profiles mail_store" "room_memberships mail_open_store = room_memberships mail_store"
  by (simp_all add: mail_open_def mail_open_store_def may_speak_def open_room_def active_room_member_def)

lemma mail_fan_seats: "agent_seats mail_alice ''lobby'' (room_memberships mail_store) = [mail_seat ''bob'' (Some ''r'')]"
proof -
  have "me_scope (mail_seat a r) = ''team''" "me_room_id (mail_seat a r) = ''lobby''" "me_agent_id (mail_seat a r) = a" for a r
    by (simp_all add: mail_seat_def seal_seat_def)
  then show ?thesis by (simp add: agent_seats_def mail_store_def HUMAN_OPERATOR_ID_def)
qed

lemma mail_fan_route: "routed_room_seats mail_alice ''lobby'' note (room_memberships mail_store) (route_profiles mail_store)
    = Inr [(''bob'', ''r'', mail_request)]"
proof -
  have "me_agent_id (mail_seat a r) = a" "me_route_profile_id (mail_seat a r) = r" for a r
    by (simp_all add: mail_seat_def seal_seat_def)
  then show ?thesis
    using mail_resolves
    by (simp add: routed_room_seats_def mail_fan_seats seat_request_def Let_def tx_simps text_or_empty_def MAX_ROOM_FANOUT_RECIPIENTS_def)
qed

lemma mail_once_policy: "fetch_one (policy_is ''team'' ''lobby'') (room_automation_policies mail_open_store) = Some (mail_policy\<lparr>po_mode := ''once''\<rparr>)"
  by (simp add: mail_open_store_def fetch_one_def policy_is_def mail_policy_def seal_policy_def)

lemma mail_lobby: "open_room mail_alice ''lobby'' mail_store q \<longleftrightarrow> q = mail_room"
  by (auto simp: open_room_def)

lemma mail_fans: "\<exists>r t. send_room_fanout mail_alice mail_space mail_post mail_open = (Inr r, t)"
proof -
  have world: "st_world mail_open = demo_world" "w_utc demo_world n = ''2026-01-01T00:00:00Z''"
    "w_utc (st_world mail_open) n = ''2026-01-01T00:00:00Z''" "w_utc (st_world (tick mail_open)) n = ''2026-01-01T00:00:00Z''" for n
    by (simp_all add: mail_open_def demo_world_def tick_def)
  have digits: "show_nat (Suc (Suc (Suc 0))) = ''3''" "show_nat 0 = ''0''" "show_int 1 = ''1''" "show_int 3 = ''3''" by code_simp+
  then have ids: "uuid_at (tick (tick (tick mail_open))) = ''id-3''" "uuid_at mail_open = ''id-0''"
    by (simp_all add: tick_def world(1) demo_world_def)
  have usage: "us_scope (mail_charged n x now) = ''team''" "us_event_rows (mail_charged n x now) = 0" "us_event_bytes (mail_charged n x now) = 0" for n x now
    by (simp_all add: mail_charged_def add_messages_def)
  have "open_room mail_alice ''lobby'' mail_open_store mail_room" by (simp add: mail_lobby)
  then have room: "Ex (open_room mail_alice ''lobby'' mail_open_store)" by blast
  have sealed: "length (rp_profile_sha256 mail_profile) = 64"
    by (simp add: mail_profile_def new_route_def route_identity.extend_def route_row.fields_def)
  show ?thesis
  using mail_alice_speaks room
  apply (simp add: send_room_fanout_def mail_post_valid once_per_receipt_def load_receipt_def store_receipt_def fanout_tx_def
      write_messages_def Let_def tx_simps mail_fan_route mail_once_policy once_mode_def world(2-) ids)
  apply (intro conjI mail_event_runs)
  apply (simp_all add: mail_payload message_content_def route_request_content_binding_def new_message_def requested_of_def
      mail_bytes(1) digits sealed fanout_bytes_def mail_fits seat_draft_def recipient_item_def
      mail_request_def request_fields_def obj_pop_def request_digest_def request_profile_sha_def del: mail_charged_simps)
  apply (simp_all only: usage)
  done
qed

end
