(* ===== verification/MailProperties.thy ===== *)
theory MailProperties
  imports MailRuns
begin

text \<open>
  The properties of rooms and messages over all histories of the calls of all bridges, with instances
  on concrete data: what is delivered, what is remembered, and who may change what.
\<close>

section \<open>Where a cursor stands\<close>

lemma reached:
  assumes "message_inv H (st_db s)" and "(mail_call H)\<^sup>*\<^sup>* s t"
  shows "mail_inv H (st_db t)" and "room_inv H (st_db t)" and "mail_leads (st_db s) (st_db t)"
  using desk.history [OF assms(2) assms(1)] by (simp_all add: message_inv_def)

lemma cursor_caught_up:
  assumes "mail_inv H d" and "c \<in> set (consumer_cursors d)"
  shows "caught_up (messages d) (message_receipts d) c"
  using assms by (simp add: mail_inv_def cursors_ok_def)

text \<open>Nothing at or before the position a poll starts from is unacknowledged.\<close>

lemma stored_cursor_caught_up:
  assumes "mail_inv H d" and "m \<in> set (messages d)" and "mg_scope m = br_scope b" and "mg_room_id m = rm"
    and "addressed_to co m" and "\<not> acknowledged_by co (message_receipts d) m"
  shows "consumer_cursor b (channel_of rm) co (consumer_cursors d) < mg_sequence m"
proof (rule ccontr)
  assume "\<not> ?thesis"
  then have le: "mg_sequence m \<le> consumer_cursor b (channel_of rm) co (consumer_cursors d)" by simp
  have cs: "distinct (map cursor_key (consumer_cursors d))" "0 < mg_sequence m"
    using assms(1,2) by (simp_all add: mail_inv_def cursors_ok_def numbered_def)
  then obtain c where c: "c \<in> set (consumer_cursors d)" "cursor_key c = (br_scope b, channel_of rm, co)"
      "consumer_cursor b (channel_of rm) co (consumer_cursors d) = cc_position c"
    using consumer_cursor_cases [OF cs(1), of b "channel_of rm" co] le by auto
  have "on_channel c m" using c(2) assms(3-5) by (simp add: on_channel_def cursor_key_def)
  then show False using cursor_caught_up [OF assms(1) c(1)] assms(2,6) le c by (auto simp: caught_up_def cursor_key_def)
qed

lemma poll_messages_run:
  assumes "poll_messages b args s = (Inr r, t)" and "bound_consumer b (pl_agent_id args) = Inr co"
  shows "t = s \<and> may_speak b (pq_room_id r) co (st_db s)
    \<and> pq_stored_cursor r = consumer_cursor b (channel_of (pq_room_id r)) co (consumer_cursors (st_db s))
    \<and> pq_requested_cursor r = int_or (int (pq_stored_cursor r)) (pl_after_cursor args)
    \<and> map pi_message (pq_messages r) = take (nat (poll_limit (pl_limit args)))
        (inbox_rows b (pq_room_id r) co (pl_include_sent args) (pq_requested_cursor r) (messages (st_db s)))
    \<and> pq_next_cursor r = (if pq_messages r = [] then pq_requested_cursor r
        else int (mg_sequence (pi_message (last (pq_messages r)))))
    \<and> (\<forall>i \<in> set (pq_messages r). pi_acknowledged i = acknowledged_by co (message_receipts (st_db s)) (pi_message i)
        \<and> pi_route_evaluation i = evaluate_route b (route_profiles (st_db s)) (pi_message i) co)"
proof -
  let ?item = "poll_item_of b co (message_receipts (st_db s)) (route_profiles (st_db s))"
  have item: "pi_message i = m \<and> pi_acknowledged i = acknowledged_by co (message_receipts (st_db s)) m
      \<and> pi_route_evaluation i = evaluate_route b (route_profiles (st_db s)) m co" if "?item m = Inr i" for m i
    using that by (auto simp: poll_item_of_def split: option.splits)
  have items: "map pi_message is = ms \<and> (\<forall>i \<in> set is. pi_acknowledged i = acknowledged_by co (message_receipts (st_db s)) (pi_message i)
      \<and> pi_route_evaluation i = evaluate_route b (route_profiles (st_db s)) (pi_message i) co)"
    if "res_map ?item ms = Inr is" for ms "is"
    using that
  proof (induction ms arbitrary: "is")
    case (Cons m ms)
    then obtain i rest where "?item m = Inr i" "res_map ?item ms = Inr rest" "is = i # rest"
      by (auto simp: tx_simps)
    then show ?case using Cons.IH [of rest] item by auto
  qed simp
  show ?thesis using assms unfolding poll_messages_def Let_def by (auto simp: tx_simps dest!: items)
qed

lemma poll_limit_pos: "0 < nat (poll_limit v)" "nat (poll_limit v) \<le> 500"
  by (auto simp: poll_limit_def)

lemma sorted_take_rest:
  assumes "sorted_wrt (<) (map f xs)" and "x \<in> set xs" and "x \<notin> set (take n xs)"
  shows "length (take n xs) = n \<and> (\<forall>y \<in> set (take n xs). f y < (f x :: nat))"
proof -
  have xs: "take n xs @ drop n xs = xs" by simp
  then have x: "x \<in> set (drop n xs)" using assms(2,3) by (metis Un_iff set_append)
  then have "n < length xs" by (metis drop_all empty_iff empty_set leI)
  moreover have "sorted_wrt (\<lambda>a b. f a < f b) (take n xs @ drop n xs)" using assms(1) by (simp add: sorted_wrt_map)
  ultimately show ?thesis using x unfolding sorted_wrt_append by auto
qed

lemma inbox_rows_sorted:
  assumes "mail_inv H d"
  shows "sorted_wrt (<) (map mg_sequence (inbox_rows b rm co incl n (messages d)))"
proof -
  let ?rows = "filter (\<lambda>m. mg_scope m = br_scope b \<and> mg_room_id m = rm \<and> int (mg_sequence m) > n
     \<and> (addressed_to co m \<or> incl \<and> mg_sender m = co)) (messages d)"
  have s: "sorted_wrt (<) (map mg_sequence (messages d))" using assms by (simp add: mail_inv_def numbered_def)
  then have s': "sorted_wrt (<) (map mg_sequence ?rows)" by (simp add: sorted_wrt_map sorted_wrt_filter)
  then have "sorted (map mg_sequence ?rows)" by (simp add: strict_sorted_iff)
  then show ?thesis using s' by (simp add: inbox_rows_def sorted_sort_id sort_key_id_if_sorted)
qed

section \<open>Delivery\<close>

text \<open>C6: No message is skipped. In any history of the calls of all bridges, a stored cursor never
  stands at or beyond a message that was addressed to its consumer in its room and that the consumer
  has not acknowledged.\<close>

theorem cursor_never_skips:
  assumes "message_inv H (st_db s)" and "(mail_call H)\<^sup>*\<^sup>* s t"
    and "c \<in> set (consumer_cursors (st_db t))" and "m \<in> set (messages (st_db t))"
    and "mg_scope m = cc_scope c" and "channel_of (mg_room_id m) = cc_channel c" and "addressed_to (cc_consumer c) m"
    and "mg_sequence m \<le> cc_position c"
  shows "acknowledged_by (cc_consumer c) (message_receipts (st_db t)) m"
  using cursor_caught_up [OF reached(1) [OF assms(1,2)] assms(3)] assms(4-8)
  by (simp add: caught_up_def on_channel_def)

theorem cursor_never_skips_witness: "acknowledged_by ''bob'' (message_receipts (st_db mail_state)) mail_first"
  using cursor_never_skips [OF mail_state_inv rtranclp.rtrancl_refl, of mail_cursor mail_first]
  by (simp add: mail_cursor_def mail_store_def channel_of_def addressed_to_def)

text \<open>C20: An unacknowledged message is delivered. In any history, a poll without an explicit position
  that returns either contains a given unacknowledged message for its consumer in its room, or is full,
  with at most 500 messages, all of them older.\<close>

theorem unacknowledged_is_polled:
  assumes "message_inv H (st_db s)" and "(mail_call H)\<^sup>*\<^sup>* s t"
    and "poll_messages b args t = (Inr r, u)" and "pl_after_cursor args = None" and "bound_consumer b (pl_agent_id args) = Inr co"
    and "m \<in> set (messages (st_db t))" and "mg_scope m = br_scope b" and "mg_room_id m = pq_room_id r"
    and "addressed_to co m" and "\<not> acknowledged_by co (message_receipts (st_db t)) m"
  shows "m \<in> pi_message ` set (pq_messages r)
    \<or> (length (pq_messages r) = nat (poll_limit (pl_limit args)) \<and> length (pq_messages r) \<le> 500
        \<and> (\<forall>i \<in> set (pq_messages r). mg_sequence (pi_message i) < mg_sequence m))"
proof -
  have inv: "mail_inv H (st_db t)" using reached(1) [OF assms(1,2)] .
  note run = poll_messages_run [OF assms(3,5)]
  let ?rows = "inbox_rows b (pq_room_id r) co (pl_include_sent args) (pq_requested_cursor r) (messages (st_db t))"
  let ?n = "nat (poll_limit (pl_limit args))"
  have "m \<in> set ?rows"
    using stored_cursor_caught_up [OF inv assms(6-10)] run assms(4,6-9) by (simp add: inbox_rows_def int_or_def)
  then have "m \<in> set (take ?n ?rows) \<or> length (take ?n ?rows) = ?n \<and> (\<forall>y \<in> set (take ?n ?rows). mg_sequence y < mg_sequence m)"
    using sorted_take_rest [OF inbox_rows_sorted [OF inv]] by blast
  moreover have "map pi_message (pq_messages r) = take ?n ?rows" using run by simp
  ultimately show ?thesis using poll_limit_pos(2) by (metis length_map list.set_map image_eqI)
qed

theorem unacknowledged_is_polled_witness:
  "\<exists>r u. poll_messages mail_bob mail_poll mail_state = (Inr r, u) \<and> (mail_second \<in> pi_message ` set (pq_messages r)
    \<or> length (pq_messages r) = 50 \<and> length (pq_messages r) \<le> 500 \<and> (\<forall>i \<in> set (pq_messages r). mg_sequence (pi_message i) < 2))"
proof -
  obtain r u where r: "poll_messages mail_bob mail_poll mail_state = (Inr r, u)" "pq_room_id r = ''lobby''" using mail_polls by blast
  have co: "bound_consumer mail_bob (pl_agent_id mail_poll) = Inr ''bob''" by code_simp
  have m: "mail_second \<in> set (messages (st_db mail_state))" "\<not> acknowledged_by ''bob'' (message_receipts (st_db mail_state)) mail_second"
    by (simp_all add: mail_store_def acknowledged_by_def mail_receipt_def)
  have "nat (poll_limit (pl_limit mail_poll)) = 50" by (simp add: mail_poll_def poll_limit_def int_or_def)
  then show ?thesis
    using unacknowledged_is_polled [OF mail_state_inv rtranclp.rtrancl_refl r(1) _ co m(1) _ _ _ m(2)] r
    by (intro exI [of _ r] exI [of _ u]) (simp add: mail_poll_def addressed_to_def)
qed

section \<open>Acknowledging\<close>

lemma moved_cursor_prefix:
  assumes "m \<in> set (messages d)" and "mg_scope m = br_scope b" and "mg_room_id m = rm" and "addressed_to co m"
    and "\<And>n. n \<in> set (messages d) \<Longrightarrow> mg_scope n = br_scope b \<Longrightarrow> mg_room_id n = rm \<Longrightarrow> addressed_to co n \<Longrightarrow>
      mg_sequence n \<le> mg_sequence m \<Longrightarrow> acknowledged_by co (message_receipts d) n"
  shows "mg_sequence m \<le> moved_cursor b rm co d"
proof -
  let ?current = "consumer_cursor b (channel_of rm) co (consumer_cursors d)"
  let ?rows = "eligible_rows b rm co ?current (messages d)"
  have "\<forall>n \<in> set ?rows. ?current < mg_sequence n" by (simp add: eligible_rows_def)
  note spec = advanced_cursor_spec [OF this, where acked = "acknowledged_by co (message_receipts d)"]
  show ?thesis
  proof (cases "mg_sequence m \<le> ?current")
    case True
    then show ?thesis using spec(1) by (simp add: moved_cursor_def Let_def)
  next
    case False
    then have "m \<in> set ?rows" using assms(1-4) by (simp add: eligible_rows_def)
    moreover have "\<forall>n \<in> set ?rows. mg_sequence n \<le> mg_sequence m \<longrightarrow> acknowledged_by co (message_receipts d) n"
      using assms(5) by (simp add: eligible_rows_def)
    ultimately show ?thesis using spec(3) by (simp add: moved_cursor_def Let_def)
  qed
qed

lemma upsert_receipt_acknowledges:
  "mg_scope m = br_scope b \<Longrightarrow> mg_message_id m = i \<Longrightarrow> acknowledged_by co (upsert_row (receipt_is (br_scope b) i co) id
     \<lparr>rc_scope = br_scope b, rc_message_id = i, rc_agent_id = co, rc_acknowledged_utc = now\<rparr> rs) m"
  by (auto simp: acknowledged_by_def upsert_row_def receipt_is_def list_ex_iff update_where_def)

lemma record_route_receipt_ok:
  assumes "record_route_receipt b row co now st s = (Inr x, t)"
  shows "\<exists>rs. st_db t = (st_db s)\<lparr>message_route_receipts := rs\<rparr>"
  using assms unfolding record_route_receipt_def Let_def
  by (auto simp: tx_simps split: if_splits intro: exI [of _ "message_route_receipts (st_db s)"])

lemma addressed_row_ok:
  "(case (case found of None \<Rightarrow> None | Some m \<Rightarrow> if P m then Some m else None) of None \<Rightarrow> tx_raise e | Some m \<Rightarrow> f m) s = (Inr x, t)
     \<longleftrightarrow> (\<exists>m. found = Some m \<and> P m \<and> f m s = (Inr x, t))"
  by (cases found) (auto simp: tx_simps)

lemma execute_when_ok:
  "(if c then tx_execute f else tx_return ()) s = (Inr u, t) \<longleftrightarrow> t = (if c then s\<lparr>st_db := f (st_db s)\<rparr> else s)"
  by (auto simp: tx_simps)

text \<open>What a returning acknowledgement did, up to the columns \<open>acknowledged_utc\<close> and the route receipts.\<close>

lemma ack_message_run:
  fixes s :: "'a message_db_scheme pstate"
  assumes "ack_message b i a s = (Inr r, t)" and "mail_inv H (st_db s)"
  shows "\<exists>(d :: 'a message_db_scheme) m. m \<in> set (messages (st_db s)) \<and> mg_message_id m = ak_message_id r \<and> mg_scope m = br_scope b
    \<and> py_strip (mg_room_id m) = ak_room_id r \<and> addressed_to (ak_consumer r) m \<and> acknowledged_by (ak_consumer r) (message_receipts (st_db t)) m
    \<and> may_speak b (ak_room_id r) (ak_consumer r) (st_db s) \<and> ak_route_evaluation r = evaluate_route b (route_profiles (st_db s)) m (ak_consumer r)
    \<and> re_status (ak_route_evaluation r) \<noteq> Route_Mismatch \<and> ak_cursor r = moved_cursor b (ak_room_id r) (ak_consumer r) d
    \<and> messages (st_db t) = messages d \<and> message_receipts (st_db t) = message_receipts d
    \<and> (\<exists>c \<in> set (consumer_cursors (st_db t)). cursor_key c = (br_scope b, channel_of (ak_room_id r), ak_consumer r)
        \<and> cc_position c = ak_cursor r)"
proof -
  obtain co row rm n rr ev p ty tid and u1 u2 u3 :: "'a message_db_scheme pstate" and mid
    where co: "bound_consumer b a = Inr co"
    and row: "fetch_one (\<lambda>m. mg_scope m = br_scope b \<and> mg_message_id m = mid) (messages (st_db s)) = Some row"
      "addressed_to co row" "require_identifier (mg_room_id row) ''room_id'' = Inr rm" "may_speak b rm co (st_db s)"
      "re_status (evaluate_route b (route_profiles (st_db s)) row co) \<noteq> Route_Mismatch"
    and rr: "record_route_receipt b row co (utc_at s) (re_status (evaluate_route b (route_profiles (st_db s)) row co))
      ((tick s)\<lparr>st_db := (st_db s)\<lparr>message_receipts := upsert_row (receipt_is (br_scope b) mid co) id
         \<lparr>rc_scope = br_scope b, rc_message_id = mid, rc_agent_id = co, rc_acknowledged_utc = utc_at s\<rparr> (message_receipts (st_db s))\<rparr>\<rparr>) = (Inr rr, u1)"
    and u2: "u2 = (if mg_recipient row \<noteq> ''*'' then u1\<lparr>st_db := (st_db u1)\<lparr>messages :=
        update_where (\<lambda>m. mg_message_id m = mid) (mark_acknowledged (utc_at s)) (messages (st_db u1))\<rparr>\<rparr> else u1)"
    and adv: "advance_cursor b rm co u2 = (Inr n, u3)"
    and ev: "event_op b ty p tid u3 = (Inr ev, t)"
    and r: "r = \<lparr>ak_message_id = mid, ak_room_id = rm, ak_consumer = co, ak_cursor = n,
       ak_route_evaluation = evaluate_route b (route_profiles (st_db s)) row co, ak_route_receipt = rr\<rparr>"
    using assms(1) unfolding ack_message_def ack_tx_def Let_def
    by (simp add: tx_simps addressed_row_ok execute_when_ok) blast
  let ?d1 = "(st_db s)\<lparr>message_receipts := upsert_row (receipt_is (br_scope b) mid co) id
     \<lparr>rc_scope = br_scope b, rc_message_id = mid, rc_agent_id = co, rc_acknowledged_utc = utc_at s\<rparr> (message_receipts (st_db s))\<rparr>"
  obtain rs where u1: "st_db u1 = ?d1\<lparr>message_route_receipts := rs\<rparr>" using record_route_receipt_ok [OF rr] by auto
  have receipts: "message_receipts (st_db u2) = message_receipts ?d1" "consumer_cursors (st_db u2) = consumer_cursors (st_db s)"
    using u1 u2 by simp_all
  have "distinct (map cursor_key (consumer_cursors (st_db u2)))" using assms(2) receipts by (simp add: mail_inv_def cursors_ok_def)
  from advance_cursor_run [OF adv this] obtain c cs where n: "n = moved_cursor b rm co (st_db u2)"
    and c: "c \<in> set cs" "cursor_key c = (br_scope b, channel_of rm, co)" "cc_position c = n"
    and u3: "st_db u3 = (st_db u2)\<lparr>consumer_cursors := cs\<rparr>" by auto
  obtain e now where "appends b ty p tid e now (st_db u3) (st_db t)" using event_op_ok [OF ev] by blast
  then have t: "messages (st_db t) = messages (st_db u2)" "message_receipts (st_db t) = message_receipts (st_db u2)"
      "consumer_cursors (st_db t) = cs"
    using u3 by (simp_all add: appends_def)
  have m: "row \<in> set (messages (st_db s))" "mg_scope row = br_scope b" "mg_message_id row = mid"
    using fetch_one_SomeD [OF row(1)] by simp_all
  have "acknowledged_by co (message_receipts (st_db t)) row"
    using upsert_receipt_acknowledges [OF m(2,3)] t receipts by simp
  then show ?thesis
    using row m n c t r by (intro exI [of _ "st_db u2"] exI [of _ row]) (auto simp: require_identifier_Inr)
qed

text \<open>C21: An acknowledgement moves the cursor exactly over the acknowledged prefix. After a returning
  \<open>ack_message\<close> the message has a receipt of the consumer, the stored cursor is the returned one, and a
  message for the consumer in that room is at or before the cursor exactly when it and all earlier ones
  for the consumer are acknowledged.\<close>

theorem ack_moves_cursor:
  fixes s :: "'a message_db_scheme pstate"
  assumes "mail_inv (br_sha256 b) (st_db s)" and "ack_message b i a s = (Inr r, t)"
  shows "\<exists>m c. m \<in> set (messages (st_db s)) \<and> mg_message_id m = ak_message_id r \<and> addressed_to (ak_consumer r) m
    \<and> acknowledged_by (ak_consumer r) (message_receipts (st_db t)) m
    \<and> c \<in> set (consumer_cursors (st_db t)) \<and> cursor_key c = (br_scope b, channel_of (ak_room_id r), ak_consumer r)
    \<and> cc_position c = ak_cursor r
    \<and> (\<forall>m \<in> set (messages (st_db t)). on_channel c m \<longrightarrow> (mg_sequence m \<le> ak_cursor r
        \<longleftrightarrow> (\<forall>n \<in> set (messages (st_db t)). on_channel c n \<longrightarrow> mg_sequence n \<le> mg_sequence m
            \<longrightarrow> acknowledged_by (ak_consumer r) (message_receipts (st_db t)) n)))"
proof -
  obtain d :: "'a message_db_scheme" and m c where m: "m \<in> set (messages (st_db s))" "mg_message_id m = ak_message_id r" "addressed_to (ak_consumer r) m"
      "acknowledged_by (ak_consumer r) (message_receipts (st_db t)) m"
    and d: "ak_cursor r = moved_cursor b (ak_room_id r) (ak_consumer r) d" "messages (st_db t) = messages d"
      "message_receipts (st_db t) = message_receipts d"
    and c: "c \<in> set (consumer_cursors (st_db t))" "cursor_key c = (br_scope b, channel_of (ak_room_id r), ak_consumer r)"
      "cc_position c = ak_cursor r"
    using ack_message_run [OF assms(2,1)] by blast
  have "mail_inv (br_sha256 b) (st_db t)"
    using mail.framedD [OF mail_calls(5) assms(2)] assms(1) by (simp add: mail_step_def)
  note caught = cursor_caught_up [OF this c(1)]
  have chan: "on_channel c n \<longleftrightarrow> mg_scope n = br_scope b \<and> mg_room_id n = ak_room_id r \<and> addressed_to (ak_consumer r) n" for n
    using c(2) by (auto simp: on_channel_def cursor_key_def)
  have "mg_sequence m \<le> ak_cursor r \<longleftrightarrow> (\<forall>n \<in> set (messages (st_db t)). on_channel c n \<longrightarrow> mg_sequence n \<le> mg_sequence m
      \<longrightarrow> acknowledged_by (ak_consumer r) (message_receipts (st_db t)) n)" if "m \<in> set (messages (st_db t))" "on_channel c m" for m
  proof
    show "mg_sequence m \<le> ak_cursor r \<Longrightarrow> \<forall>n \<in> set (messages (st_db t)). on_channel c n \<longrightarrow> mg_sequence n \<le> mg_sequence m
      \<longrightarrow> acknowledged_by (ak_consumer r) (message_receipts (st_db t)) n"
      using caught c by (auto simp: caught_up_def cursor_key_def)
    show "\<forall>n \<in> set (messages (st_db t)). on_channel c n \<longrightarrow> mg_sequence n \<le> mg_sequence m
      \<longrightarrow> acknowledged_by (ak_consumer r) (message_receipts (st_db t)) n \<Longrightarrow> mg_sequence m \<le> ak_cursor r"
      unfolding d by (rule moved_cursor_prefix) (use that chan d in auto)
  qed
  then show ?thesis using m c by blast
qed

theorem ack_moves_cursor_witness:
  "\<exists>r t c. ack_message mail_bob ''m2'' None mail_state = (Inr r, t) \<and> c \<in> set (consumer_cursors (st_db t))
    \<and> cc_position c = ak_cursor r"
proof -
  obtain r t where r: "ack_message mail_bob ''m2'' None mail_state = (Inr r, t)" using mail_acks by blast
  have "mail_inv (br_sha256 mail_bob) (st_db mail_state)" using mail_store_mail by simp
  from ack_moves_cursor [OF this r] show ?thesis using r by blast
qed

section \<open>What is never lost\<close>

text \<open>C18: Nothing that was written is lost or rewritten. In any history of the calls of all bridges the
  messages of the past are the first messages of the present, in their order and in every column but the
  time of their acknowledgement; receipts of consumers, of routes and of tool calls, route profiles and
  rooms are kept as they are.\<close>

theorem records_are_permanent:
  assumes "message_inv H (st_db s)" and "(mail_call H)\<^sup>*\<^sup>* s t"
  shows "\<exists>ms rs qs cs ps os. map msg_core (messages (st_db t)) = map msg_core (messages (st_db s)) @ ms
    \<and> message_receipts (st_db t) = message_receipts (st_db s) @ rs
    \<and> message_route_receipts (st_db t) = message_route_receipts (st_db s) @ qs
    \<and> mcp_mutation_receipts (st_db t) = mcp_mutation_receipts (st_db s) @ cs
    \<and> route_profiles (st_db t) = route_profiles (st_db s) @ ps \<and> rooms (st_db t) = rooms (st_db s) @ os"
  using reached(3) [OF assms] by (simp add: mail_leads_def extends_list_def)

theorem records_are_permanent_witness:
  "\<exists>rs. message_receipts (st_db mail_acked) = message_receipts mail_store @ rs"
  using records_are_permanent [OF mail_state_inv mail_history] by auto

text \<open>C19: The storage quota is exact. In any history the usage row of a scope counts exactly the messages
  of that scope, at most two hundred thousand, and the bytes charged stay within 256 MiB.\<close>

theorem message_quota_exact:
  assumes "message_inv H (st_db s)" and "(mail_call H)\<^sup>*\<^sup>* s t" and "u \<in> set (scope_storage_usage (st_db t))"
  shows "us_message_rows u = int (length (filter (\<lambda>m. mg_scope m = us_scope u) (messages (st_db t))))
    \<and> us_message_rows u \<le> 200000 \<and> us_message_bytes u \<le> 256 * 1024 * 1024"
proof -
  have "quota_row [] 0 (messages (st_db t)) u"
    using reached(1) [OF assms(1,2)] assms(3) by (simp add: mail_inv_def quota_exact_def quota_but_def)
  then show ?thesis
    by (simp add: quota_row_def count_messages_def MAX_SCOPE_MESSAGE_ROWS_def MAX_SCOPE_MESSAGE_BYTES_def)
qed

theorem message_quota_exact_witness: "us_message_rows mail_usage = int (length (messages mail_store))"
  using message_quota_exact [OF mail_state_inv rtranclp.rtrancl_refl, of mail_usage] by (simp add: mail_store_def)

section \<open>Fanout\<close>

text \<open>What \<open>write_messages\<close> leaves: one row per draft, in order, with rising numbers.\<close>

lemma insert_loop_rows:
  assumes "tx_for (\<lambda>m. tx_bind uuid4_hex (insert_message b m)) ds s = (Inr rows, t)"
  shows "messages (st_db t) = messages (st_db s) @ rows \<and> length rows = length ds
    \<and> (\<forall>i < length ds. \<exists>mid. rows ! i = new_message b (ds ! i) mid (message_seq (st_db s) + Suc i))"
  using assms
proof (induction ds arbitrary: s rows)
  case (Cons m ds)
  define u where "u = (tick s)\<lparr>st_db := added_db (new_message b m (uuid_at s) (Suc (message_seq (st_db s)))) (st_db s)\<rparr>"
  from Cons.prems obtain rest where rows: "rows = new_message b m (uuid_at s) (Suc (message_seq (st_db s))) # rest"
    and rest: "tx_for (\<lambda>m. tx_bind uuid4_hex (insert_message b m)) ds u = (Inr rest, t)"
    unfolding u_def by (auto simp: tx_simps)
  have u: "st_db u = added_db (new_message b m (uuid_at s) (Suc (message_seq (st_db s)))) (st_db s)" by (simp add: u_def)
  have "\<exists>mid. rows ! i = new_message b ((m # ds) ! i) mid (message_seq (st_db s) + Suc i)" if "i < length (m # ds)" for i
  proof (cases i)
    case (Suc j)
    then show ?thesis using Cons.IH [OF rest] that rows u by (auto simp: added_db_def)
  qed (auto simp: rows)
  then show ?case using Cons.IH [OF rest] rows u by (simp add: added_db_def)
qed (simp add: tx_simps)

lemma seat_drafts:
  assumes "res_map (seat_request b profiles note) seats = Inr prepared"
  shows "list_all2 (\<lambda>seat d. dr_recipient d = me_agent_id seat \<and> dr_route_profile_id d = me_route_profile_id seat
    \<and> me_route_profile_id seat \<noteq> None \<and> dr_request d \<noteq> None \<and> dr_room_id d = dr_room_id m \<and> dr_sender d = dr_sender m)
    seats (map (seat_draft m) prepared)"
proof -
  have one: "dr_recipient (seat_draft m p) = me_agent_id seat \<and> dr_route_profile_id (seat_draft m p) = me_route_profile_id seat
      \<and> me_route_profile_id seat \<noteq> None \<and> dr_request (seat_draft m p) \<noteq> None
      \<and> dr_room_id (seat_draft m p) = dr_room_id m \<and> dr_sender (seat_draft m p) = dr_sender m"
    if "seat_request b profiles note seat = Inr p" for seat p
    using that by (cases "me_route_profile_id seat")
      (auto simp: seat_request_def Let_def tx_simps seat_draft_def text_or_empty_def split: option.splits)
  show ?thesis
    using assms unfolding res_map_Inr list_all2_map2 by (rule list_all2_mono) (rule one)
qed

lemma new_message_route: "mg_route_profile_id (new_message b d i n) = dr_route_profile_id d"
  by (simp add: new_message_def)

text \<open>The row of a seat's message.\<close>

definition row_for_seat :: "string \<Rightarrow> string \<Rightarrow> member_row \<Rightarrow> msg_row \<Rightarrow> bool" where
  "row_for_seat rm sender seat row \<longleftrightarrow> mg_recipient row = me_agent_id seat \<and> mg_route_profile_id row = me_route_profile_id seat
     \<and> mg_route_profile_id row \<noteq> None \<and> mg_room_id row = rm \<and> mg_sender row = sender \<and> mg_acknowledged_utc row = None"

lemma once_guard_ok:
  "(if c then tx_bind (room_policy b rm) (\<lambda>p. tx_require (P p) e) else tx_return ()) s = (Inr u, t)
     \<longleftrightarrow> t = s \<and> (c \<longrightarrow> (\<exists>p r. open_room b rm (st_db s) r \<and> P p
       \<and> fetch_one (policy_is (br_scope b) rm) (room_automation_policies (st_db s)) = Some p))"
  by (auto simp: tx_simps)

lemma fanout_tx_rows:
  fixes s :: "'a message_db_scheme pstate"
  assumes "fanout_tx b m flag s = (Inr answer, t)"
  shows "may_speak b (dr_room_id m) (br_agent_id b) (st_db s)
    \<and> length (agent_seats b (dr_room_id m) (room_memberships (st_db s))) \<le> MAX_ROOM_FANOUT_RECIPIENTS
    \<and> agent_seats b (dr_room_id m) (room_memberships (st_db s)) \<noteq> []
    \<and> (\<exists>rows. messages (st_db t) = messages (st_db s) @ rows
      \<and> list_all2 (row_for_seat (dr_room_id m) (dr_sender m)) (agent_seats b (dr_room_id m) (room_memberships (st_db s))) rows)"
proof -
  let ?seats = "agent_seats b (dr_room_id m) (room_memberships (st_db s))"
  obtain prepared rows ty p tid ev and u v :: "'a message_db_scheme pstate" and bytes c
    where member: "may_speak b (dr_room_id m) (br_agent_id b) (st_db s)"
    and seats: "routed_room_seats b (dr_room_id m) ''fanout was not written'' (room_memberships (st_db s)) (route_profiles (st_db s)) = Inr prepared"
    and res: "reserve_message_storage b (int (length (map (seat_draft (m\<lparr>dr_created := c\<rparr>)) prepared))) bytes (tick (tick s)) = (Inr (), u)"
    and loop: "tx_for (\<lambda>m. tx_bind uuid4_hex (insert_message b m)) (map (seat_draft (m\<lparr>dr_created := c\<rparr>)) prepared) u = (Inr rows, v)"
    and ev: "event_op b ty p tid v = (Inr ev, t)"
    using assms unfolding fanout_tx_def write_messages_def Let_def
    by (simp add: tx_simps once_guard_ok del: tx_for.simps reserve_message_storage_ok) blast
  let ?drafts = "map (seat_draft (m\<lparr>dr_created := c\<rparr>)) prepared"
  have ok: "?seats \<noteq> []" "length ?seats \<le> MAX_ROOM_FANOUT_RECIPIENTS"
    and map: "res_map (seat_request b (route_profiles (st_db s)) ''fanout was not written'') ?seats = Inr prepared"
    using seats by (auto simp: routed_room_seats_def Let_def tx_simps)
  have u: "messages (st_db u) = messages (st_db s)" using res by (auto simp: tx_simps reserved_db_def)
  obtain e now where "appends b ty p tid e now (st_db v) (st_db t)" using event_op_ok [OF ev] by blast
  then have "messages (st_db t) = messages (st_db s) @ rows" using insert_loop_rows [OF loop] u by (simp add: appends_def)
  moreover have "list_all2 (row_for_seat (dr_room_id m) (dr_sender m)) ?seats rows"
  proof (rule list_all2_all_nthI)
    note drafts = seat_drafts [OF map, of "m\<lparr>dr_created := c\<rparr>"]
    show len: "length ?seats = length rows" using list_all2_lengthD [OF drafts] insert_loop_rows [OF loop] by simp
    fix i assume i: "i < length ?seats"
    obtain mid where "rows ! i = new_message b (?drafts ! i) mid (message_seq (st_db u) + Suc i)"
      using insert_loop_rows [OF loop] i len by auto
    then show "row_for_seat (dr_room_id m) (dr_sender m) (?seats ! i) (rows ! i)"
      using list_all2_nthD [OF drafts i] by (auto simp: row_for_seat_def new_message_route simp del: nth_map)
  qed
  ultimately show ?thesis using member ok by blast
qed

text \<open>C22: A fanout reaches every seat. A returning \<open>send_room_fanout\<close> without a receipt wrote exactly one
  message for each active seat of another agent in the room, in the order of the agents and under the
  route of the seat; there are between one and 32 of them, and the sender is a member of the room.\<close>

theorem fanout_reaches_every_seat:
  fixes s :: "'a message_db_scheme pstate"
  assumes "send_room_fanout b ws args s = (Inr r, t)" and "sm_receipt args = None"
  shows "\<exists>rm rows. may_speak b rm (br_agent_id b) (st_db s) \<and> messages (st_db t) = messages (st_db s) @ rows
    \<and> list_all2 (row_for_seat rm (br_agent_id b)) (agent_seats b rm (room_memberships (st_db s))) rows
    \<and> 1 \<le> length rows \<and> length rows \<le> 32"
proof -
  obtain m answer where v: "validate_post b ws args ''send_room_fanout'' = Inr (None, m)"
    and run: "fanout_tx b m True s = (Inr answer, t)"
    using assms unfolding send_room_fanout_def once_per_receipt_def load_receipt_def store_receipt_def
    by (auto simp: tx_simps validate_post_def mcp_receipt_metadata_def Let_def)
  have "dr_sender m = br_agent_id b" using v by (auto simp: validate_post_def tx_simps Let_def)
  then show ?thesis
    using fanout_tx_rows [OF run] by (fastforce simp: MAX_ROOM_FANOUT_RECIPIENTS_def Suc_le_eq dest: list_all2_lengthD)
qed

theorem fanout_reaches_every_seat_witness:
  "\<exists>rm rows (t :: message_db pstate). messages (st_db t) = messages mail_open_store @ rows
     \<and> list_all2 (row_for_seat rm ''alice'') (agent_seats mail_alice rm (room_memberships mail_open_store)) rows
     \<and> 1 \<le> length rows"
proof -
  obtain r t where run: "send_room_fanout mail_alice mail_space mail_post mail_open = (Inr r, t)" using mail_fans by blast
  have "sm_receipt mail_post = None" by (simp add: mail_post_def)
  from fanout_reaches_every_seat [OF run this] show ?thesis by fastforce
qed

end
