(* ===== verification/MailReceipts.thy ===== *)
theory MailReceipts
  imports MailRuns JsonRoundtrip
begin

text \<open>
  Tool calls that carry a receipt are answered once: a retry, by any later process of the same session
  and in any later state of the store, gets the recorded answer and writes nothing.
\<close>

section \<open>Answers as stored text\<close>

lemma sort_key_twice: "sort_key f (sort_key f xs) = sort_key f xs"
  by (rule sort_key_id_if_sorted) simp

lemma dumps_canon: "json_dumps (canon j) = json_dumps j"
proof (induction j)
  case (JList xs)
  then have "map json_dumps (map canon xs) = map json_dumps xs" by simp
  then show ?case by (simp only: canon.simps json_dumps.simps)
next
  case (JObj kvs)
  have "map (\<lambda>kv. (fst kv, json_dumps (snd kv))) (map (\<lambda>kv. (fst kv, canon (snd kv))) kvs)
      = map (\<lambda>kv. (fst kv, json_dumps (snd kv))) kvs"
    using JObj by (auto simp: snds.simps)
  then have "map (\<lambda>kv. (fst kv, json_dumps (snd kv))) (sort_key fst (map (\<lambda>kv. (fst kv, canon (snd kv))) kvs))
      = sort_key fst (map (\<lambda>kv. (fst kv, json_dumps (snd kv))) kvs)"
    by (simp only: sort_key_values [symmetric])
  then show ?case by (simp only: canon.simps json_dumps.simps sort_key_twice)
qed simp_all

lemma canon_idem: "canon (canon j) = canon j"
proof (induction j)
  case (JObj kvs)
  then have "map (\<lambda>kv. (fst kv, canon (snd kv))) (map (\<lambda>kv. (fst kv, canon (snd kv))) kvs) = map (\<lambda>kv. (fst kv, canon (snd kv))) kvs"
    by (auto simp: snds.simps)
  then show ?case by (simp only: canon.simps sort_key_values [symmetric] sort_key_twice)
qed simp_all

lemma wf_strings [simp]: "wf_json (json_opt JStr v)"
  by (cases v) simp_all

lemma wf_request [simp]: "wf_json (request_json v)"
  by (auto simp: request_json_def request_fields_def split: option.splits)

lemma wf_recipient [simp]: "wf_json (recipient_item row)"
  by (simp add: recipient_item_def)

lemma wf_answers:
  "wf_json (JObj (send_result q row))"
  "wf_json (JObj (send_result q row @ [(''automation_mode'', JStr m), (''fanout_count'', JInt n), (''audit_chain_sha256'', JStr c)]))"
  "wf_json (JObj (discussion_result d m rows c))"
  "wf_json (JObj (fanout_fields b dr i rows @ [(''fanout_count'', JInt n), (''fanout_sha256'', JStr x),
     (''content_sha256'', JStr y), (''audit_chain_sha256'', JStr c)]))"
  "wf_json (JObj (fanout_fields b dr i rows @ [(''fanout_count'', JInt n), (''fanout_sha256'', JStr x),
     (''content_sha256'', JStr y), (''audit_chain_sha256'', JStr c), (''automation_mode'', JStr m)]))"
  by (simp_all add: send_result_def discussion_result_def fanout_fields_def)

text \<open>A call whose answers are dictionaries with distinct keys.\<close>

definition answers_object :: "('d, json) op \<Rightarrow> bool" where
  "answers_object m \<longleftrightarrow> (\<forall>s r t. m s = (Inr r, t) \<longrightarrow> wf_json r \<and> is_mapping r)"

lemma answers_objectI: "(\<And>s r t. m s = (Inr r, t) \<Longrightarrow> wf_json r \<and> is_mapping r) \<Longrightarrow> answers_object m"
  by (simp add: answers_object_def)

lemma answers_objectD: "answers_object m \<Longrightarrow> m s = (Inr r, t) \<Longrightarrow> wf_json r \<and> is_mapping r"
  by (auto simp: answers_object_def)

lemma send_answers: "answers_object (send_tx b m route)"
  by (rule answers_objectI) (auto simp: send_tx_def Let_def tx_simps wf_answers is_mapping_def simp del: wf_json.simps)

lemma fanout_answers: "answers_object (tx_bind (fanout_tx b m flag) (\<lambda>result. tx_return (JObj result)))"
  by (rule answers_objectI)
     (auto simp: fanout_tx_def Let_def tx_simps wf_answers is_mapping_def simp del: wf_json.simps tx_for.simps)


lemma start_answers: "answers_object (start_discussion b m policy)"
  by (rule answers_objectI)
     (auto simp: start_discussion_def Let_def tx_simps wf_answers is_mapping_def simp del: wf_json.simps tx_for.simps)

lemma post_answers: "answers_object (post_tx b m)"
proof (rule answers_objectI)
  fix s :: "'a message_db_scheme pstate" and r t
  assume "post_tx b m s = (Inr r, t)"
  then obtain p where "(if po_mode p = ''off'' then post_history b m
       else if po_mode p = ''once'' then tx_bind (fanout_tx b m False) (\<lambda>receipt. tx_return (JObj (receipt @ [(''automation_mode'', JStr (po_mode p))])))
       else tx_then (tx_require (po_mode p \<in> {''discussion'', ''free'', ''goal''}) (BridgeError ''unsupported room automation mode''))
         (start_discussion b m p)) s = (Inr r, t)"
    unfolding post_tx_def by (auto simp: tx_simps)
  then consider "post_history b m s = (Inr r, t)"
    | "tx_bind (fanout_tx b m False) (\<lambda>receipt. tx_return (JObj (receipt @ [(''automation_mode'', JStr (po_mode p))]))) s = (Inr r, t)"
    | "start_discussion b m p s = (Inr r, t)"
    by (auto simp: tx_simps split: if_splits)
  then show "wf_json r \<and> is_mapping r"
  proof cases
    case 1
    then show ?thesis by (auto simp: post_history_def tx_simps wf_answers is_mapping_def simp del: wf_json.simps)
  next
    case 2
    then show ?thesis
      by (auto simp: fanout_tx_def Let_def tx_simps wf_answers is_mapping_def simp del: wf_json.simps tx_for.simps)
  next
    case 3
    then show ?thesis by (rule answers_objectD [OF start_answers])
  qed
qed

section \<open>Replaying\<close>

lemma answer_reads_back:
  assumes "wf_json r" and "is_mapping r"
  shows "receipt_answer b meta (new_receipt b meta r) = Inr (canon r)"
proof -
  have "is_mapping (canon r)" using assms(2) by (cases r) (simp_all add: is_mapping_def)
  moreover have "stable_sha256 (br_sha256 b) (canon r) = stable_sha256 (br_sha256 b) r"
    by (simp add: stable_sha256_def sha256_text_def dumps_canon)
  ultimately show ?thesis using loads_dumps [OF assms(1)] by (simp add: receipt_answer_def new_receipt_def tx_simps)
qed

text \<open>The row that answers the metadata, with an answer that is \<open>r\<close> up to the order of keys.\<close>

definition recorded :: "bridge \<Rightarrow> receipt_metadata \<Rightarrow> json \<Rightarrow> 'a message_db_scheme \<Rightarrow> bool" where
  "recorded b meta r d \<longleftrightarrow> (\<exists>row x. fetch_one (tool_receipt_is (rm_call_sha256 meta) (br_scope b)) (mcp_mutation_receipts d) = Some row
     \<and> receipt_answer b meta row = Inr x \<and> canon x = canon r)"

lemma fetch_one_append:
  "fetch_one P (xs @ ys) = (case fetch_one P xs of Some x \<Rightarrow> Some x | None \<Rightarrow> fetch_one P ys)"
  by (induction xs) (simp_all add: fetch_one_def)

lemma recorded_later: "recorded b meta r d \<Longrightarrow> mail_leads d d' \<Longrightarrow> recorded b meta r d'"
  by (auto simp: recorded_def mail_leads_def extends_list_def fetch_one_append)

lemma once_records:
  assumes "once_per_receipt b (Some meta) body s = (Inr r, t)" and "answers_object body"
  shows "recorded b meta r (st_db t)"
proof -
  consider row where "t = s" "fetch_one (tool_receipt_is (rm_call_sha256 meta) (br_scope b)) (mcp_mutation_receipts (st_db s)) = Some row"
      "receipt_answer b meta row = Inr r"
    | u where "body s = (Inr r, u)" "\<not> list_ex (\<lambda>q. mc_call_sha256 q = rm_call_sha256 meta) (mcp_mutation_receipts (st_db u))"
      "mcp_mutation_receipts (st_db t) = mcp_mutation_receipts (st_db u) @ [new_receipt b meta r]"
    using assms(1) unfolding once_per_receipt_def load_receipt_def store_receipt_def
    by (auto simp: tx_simps split: option.splits)
  then show ?thesis
  proof cases
    case (2 u)
    have "wf_json r \<and> is_mapping r" using answers_objectD [OF assms(2) 2(1)] .
    then have answer: "receipt_answer b meta (new_receipt b meta r) = Inr (canon r)" using answer_reads_back by blast
    have "fetch_one (tool_receipt_is (rm_call_sha256 meta) (br_scope b)) (mcp_mutation_receipts (st_db u)) = None"
      using 2(2) by (auto simp: fetch_one_def find_None_iff list_ex_iff tool_receipt_is_def)
    then have "fetch_one (tool_receipt_is (rm_call_sha256 meta) (br_scope b)) (mcp_mutation_receipts (st_db t)) = Some (new_receipt b meta r)"
      using 2(3) by (simp add: fetch_one_append) (simp add: fetch_one_def tool_receipt_is_def new_receipt_def)
    then show ?thesis using answer by (auto simp: recorded_def canon_idem)
  qed (auto simp: recorded_def)
qed

lemma once_replays:
  assumes "recorded b meta r (st_db u)"
  shows "\<exists>x. once_per_receipt b (Some meta) body u = (Inr x, u) \<and> canon x = canon r"
  using assms unfolding recorded_def once_per_receipt_def load_receipt_def
  by (auto simp: tx_bind_def tx_query_def tx_lift_def tx_return_def)

text \<open>A call with a receipt: any run that returns is answered the same way ever after, and for nothing.\<close>

definition answered_once :: "(string \<Rightarrow> string) \<Rightarrow> (message_db, json) op \<Rightarrow> bool" where
  "answered_once H m \<longleftrightarrow> (\<forall>s r t u. message_inv H (st_db s) \<longrightarrow> m s = (Inr r, t) \<longrightarrow> (mail_call H)\<^sup>*\<^sup>* t u
     \<longrightarrow> (\<exists>x v. m u = (Inr x, v) \<and> canon x = canon r \<and> st_db v = st_db u))"

lemma answered_onceI:
  assumes "good_mail H m" and "\<And>s r t. m s = (Inr r, t) \<Longrightarrow> recorded b meta r (st_db t)
    \<and> (\<forall>u. recorded b meta r (st_db u) \<longrightarrow> (\<exists>x v. m u = (Inr x, v) \<and> canon x = canon r \<and> st_db v = st_db u))"
  shows "answered_once H m"
  unfolding answered_once_def
proof (intro allI impI)
  fix s u t :: "message_db pstate" and r
  assume inv: "message_inv H (st_db s)" and run: "m s = (Inr r, t)" and hist: "(mail_call H)\<^sup>*\<^sup>* t u"
  have "message_inv H (st_db t)" using good_mail_step [OF assms(1) inv] run by simp
  then have "mail_leads (st_db t) (st_db u)" using desk.history [OF hist] by blast
  then show "\<exists>x v. m u = (Inr x, v) \<and> canon x = canon r \<and> st_db v = st_db u"
    using assms(2) [OF run] recorded_later by blast
qed

lemma recorded_connection:
  "with_connection (once_per_receipt b (Some meta) body) s = (Inr r, t) \<Longrightarrow> answers_object body \<Longrightarrow> recorded b meta r (st_db t)"
  using once_records by (auto simp: tx_simps)

lemma replayed_connection:
  assumes "recorded b meta r (st_db u)"
  shows "\<exists>x v. with_connection (once_per_receipt b (Some meta) body) u = (Inr x, v) \<and> canon x = canon r \<and> st_db v = st_db u"
  using once_replays [OF assms, of body] by (auto simp: tx_simps)

lemma validated_metadata:
  "validate_send b ws sargs = Inr (metadata, m) \<Longrightarrow> mcp_receipt_metadata b (sm_receipt sargs) ''send_message'' = Inr metadata"
  "validate_post b ws pargs tool = Inr (metadata, m) \<Longrightarrow> mcp_receipt_metadata b (sm_receipt pargs) tool = Inr metadata"
  by (auto simp: validate_send_def validate_post_def tx_simps Let_def)

lemma send_answered_once:
  assumes meta: "mcp_receipt_metadata b (sm_receipt args) ''send_message'' = Inr (Some meta)"
  shows "answered_once (br_sha256 b) (send_message b ws args)"
proof (rule answered_onceI [OF good_mail_calls(1)])
  fix s t :: "message_db pstate" and r
  assume "send_message b ws args s = (Inr r, t)"
  then obtain metadata m where v: "validate_send b ws args = Inr (metadata, m)"
    and run: "with_connection (once_per_receipt b metadata (send_tx b m (sm_route args))) s = (Inr r, t)"
    unfolding send_message_def by (auto simp: tx_simps simp del: with_connection_ok)
  have md: "metadata = Some meta" using validated_metadata(1) [OF v] meta by simp
  have call: "send_message b ws args u = with_connection (once_per_receipt b (Some meta) (send_tx b m (sm_route args))) u" for u :: "message_db pstate"
    by (simp add: send_message_def v md tx_bind_def tx_lift_def)
  show "recorded b meta r (st_db t) \<and> (\<forall>u :: message_db pstate. recorded b meta r (st_db u)
      \<longrightarrow> (\<exists>x v. send_message b ws args u = (Inr x, v) \<and> canon x = canon r \<and> st_db v = st_db u))"
  proof (intro conjI allI impI)
    show "recorded b meta r (st_db t)" by (rule recorded_connection [OF run [unfolded md] send_answers])
    fix u :: "message_db pstate"
    assume "recorded b meta r (st_db u)"
    then show "\<exists>x v. send_message b ws args u = (Inr x, v) \<and> canon x = canon r \<and> st_db v = st_db u"
      unfolding call by (rule replayed_connection)
  qed
qed

lemma fanout_answered_once:
  assumes meta: "mcp_receipt_metadata b (sm_receipt args) ''send_room_fanout'' = Inr (Some meta)"
  shows "answered_once (br_sha256 b) (send_room_fanout b ws args)"
proof (rule answered_onceI [OF good_mail_calls(2)])
  fix s t :: "message_db pstate" and r
  let ?body = "\<lambda>m. tx_bind (fanout_tx b m True) (\<lambda>result. tx_return (JObj result))"
  assume "send_room_fanout b ws args s = (Inr r, t)"
  then obtain metadata m where v: "validate_post b ws args ''send_room_fanout'' = Inr (metadata, m)"
    and run: "with_connection (once_per_receipt b metadata (?body m)) s = (Inr r, t)"
    unfolding send_room_fanout_def by (auto simp: tx_simps simp del: with_connection_ok)
  have md: "metadata = Some meta" using validated_metadata(2) [OF v] meta by simp
  have call: "send_room_fanout b ws args u = with_connection (once_per_receipt b (Some meta) (?body m)) u" for u :: "message_db pstate"
    by (simp add: send_room_fanout_def v md tx_bind_def tx_lift_def)
  show "recorded b meta r (st_db t) \<and> (\<forall>u :: message_db pstate. recorded b meta r (st_db u)
      \<longrightarrow> (\<exists>x v. send_room_fanout b ws args u = (Inr x, v) \<and> canon x = canon r \<and> st_db v = st_db u))"
  proof (intro conjI allI impI)
    show "recorded b meta r (st_db t)" by (rule recorded_connection [OF run [unfolded md] fanout_answers])
    fix u :: "message_db pstate"
    assume "recorded b meta r (st_db u)"
    then show "\<exists>x v. send_room_fanout b ws args u = (Inr x, v) \<and> canon x = canon r \<and> st_db v = st_db u"
      unfolding call by (rule replayed_connection)
  qed
qed

lemma post_answered_once:
  assumes meta: "mcp_receipt_metadata b (sm_receipt args) ''post_room_message'' = Inr (Some meta)"
  shows "answered_once (br_sha256 b) (post_room_message b ws args)"
proof (rule answered_onceI [OF good_mail_calls(3)])
  fix s t :: "message_db pstate" and r
  let ?call = "\<lambda>m now. with_connection (once_per_receipt b (Some meta) (post_tx b (m\<lparr>dr_created := now\<rparr>)))"
  assume "post_room_message b ws args s = (Inr r, t)"
  then obtain metadata m where v: "validate_post b ws args ''post_room_message'' = Inr (metadata, m)"
    and run: "with_connection (once_per_receipt b metadata (post_tx b (m\<lparr>dr_created := utc_at s\<rparr>))) (tick s) = (Inr r, t)"
    unfolding post_room_message_def by (auto simp: tx_simps simp del: with_connection_ok)
  have md: "metadata = Some meta" using validated_metadata(2) [OF v] meta by simp
  have call: "post_room_message b ws args u = (Inr x, w) \<longleftrightarrow> ?call m (utc_at u) (tick u) = (Inr x, w)" for x w and u :: "message_db pstate"
    by (simp add: post_room_message_def v md tx_simps del: with_connection_ok)
  have "recorded b meta r (st_db (tick u)) \<Longrightarrow> \<exists>x w. ?call m (utc_at u) (tick u) = (Inr x, w) \<and> canon x = canon r
      \<and> st_db w = st_db (tick u)" for u :: "message_db pstate"
    by (rule replayed_connection)
  then show "recorded b meta r (st_db t) \<and> (\<forall>u :: message_db pstate. recorded b meta r (st_db u)
      \<longrightarrow> (\<exists>x v. post_room_message b ws args u = (Inr x, v) \<and> canon x = canon r \<and> st_db v = st_db u))"
    using recorded_connection [OF run [unfolded md] post_answers] unfolding call by simp
qed

text \<open>C10: A retried tool call is answered once. When a call of \<open>send_message\<close>, \<open>send_room_fanout\<close> or
  \<open>post_room_message\<close> that carries a receipt has returned, the same call in any later state of the
  store returns the same answer, up to the order of its keys, and leaves the database as it is.\<close>

theorem retried_calls_are_answered_once:
  fixes args :: send_args
  assumes "mcp_receipt_metadata b (sm_receipt args) tool = Inr (Some meta)"
  shows "(tool = ''send_message'' \<longrightarrow> answered_once (br_sha256 b) (send_message b ws args))
    \<and> (tool = ''send_room_fanout'' \<longrightarrow> answered_once (br_sha256 b) (send_room_fanout b ws args))
    \<and> (tool = ''post_room_message'' \<longrightarrow> answered_once (br_sha256 b) (post_room_message b ws args))"
  using assms send_answered_once fanout_answered_once post_answered_once by blast

text \<open>The receipt metadata of the example call.\<close>

definition mail_key :: json where
  "mail_key = JObj [(''call_sha256'', JStr (replicate 64 (CHR ''a''))), (''arguments_sha256'', JStr (replicate 64 (CHR ''b''))),
     (''session_id'', JStr ''s1''), (''tool'', JStr ''send_message'')]"

lemma mail_key_parses: "\<exists>meta. mcp_receipt_metadata mail_alice (Some mail_key) ''send_message'' = Inr (Some meta)"
proof -
  have "require_identifier ''send_message'' l = Inr ''send_message''" "require_identifier ''s1'' l = Inr ''s1''" for l by code_simp+
  moreover have "require_sha256 (Some (replicate 64 (CHR ''a''))) l = Inr (replicate 64 (CHR ''a''))"
    "require_sha256 (Some (replicate 64 (CHR ''b''))) l = Inr (replicate 64 (CHR ''b''))" for l by code_simp+
  ultimately show ?thesis
    by (auto simp: mcp_receipt_metadata_def mail_key_def tx_simps json_str_or_empty_def py_str_def)
qed

theorem retried_calls_are_answered_once_witness:
  "answered_once hex_sha (send_message mail_alice mail_space (mail_message\<lparr>sm_receipt := Some mail_key\<rparr>))"
proof -
  obtain meta where "mcp_receipt_metadata mail_alice (sm_receipt (mail_message\<lparr>sm_receipt := Some mail_key\<rparr>)) ''send_message'' = Inr (Some meta)"
    using mail_key_parses by auto
  from retried_calls_are_answered_once [OF this, of mail_space] show ?thesis by simp
qed

end
