(* ===== verification/RouteProperties.thy ===== *)
theory RouteProperties
  imports MailRuns
begin

text \<open>
  Routed messages: the request a message is stored with is read back from its row, and the check of the
  reader's runtime accepts exactly the identity the request names, in every later state of the store.
\<close>

section \<open>Profiles\<close>

lemma fetch_one_more: "fetch_one P xs = Some x \<Longrightarrow> extends_list xs ys \<Longrightarrow> fetch_one P ys = Some x"
  by (auto simp: extends_list_def fetch_one_def find_Some_iff nth_append)

lemma verified_sha_hex: "verified_route_profile_sha256 H row = Inr sha \<Longrightarrow> is_sha256_hex sha"
  by (auto simp: verified_route_profile_sha256_def Let_def split: if_splits)

lemma optional_identifier_set: "optional_identifier v l = Inr (Some t) \<Longrightarrow> t \<noteq> []"
  by (auto simp: optional_identifier_def Let_def require_identifier_Inr safe_id_def split: if_splits sum.splits)

section \<open>Requests\<close>

text \<open>What merging the profile of a request gives.\<close>

definition profile_bound :: "bridge \<Rightarrow> route_row list \<Rightarrow> string \<Rightarrow> route_request \<Rightarrow> bool" where
  "profile_bound b profiles p q \<longleftrightarrow> (\<exists>row sha. fetch_one (enabled_route (br_scope b) p) profiles = Some row
     \<and> verified_route_profile_sha256 (br_sha256 b) row = Inr sha \<and> rq_profile_sha256 q = Some (Some sha))"

lemma merge_profile_ok:
  assumes "merge_profile b profiles p q = Inr m"
  shows "profile_bound b profiles p m \<and> rq_target_agent_id m = rq_target_agent_id q
    \<and> rq_route_profile_id m = rq_route_profile_id q"
  using assms unfolding merge_profile_def profile_bound_def by (auto simp: tx_simps split: option.splits)

definition named_by :: "route_request \<Rightarrow> bool" where
  "named_by q \<longleftrightarrow> is_set (rq_provider_id q) \<or> is_set (rq_model_id q) \<or> is_set (rq_reasoning_mode q) \<or> is_set (rq_route_class q)"

lemma resolve_route_request_Some:
  "resolve_route_request b profiles recipient args = Inr (Some q) \<longleftrightarrow>
    (\<exists>pid provider model mode cls m. optional_identifier (ra_route_profile_id args) ''route_profile_id'' = Inr pid
      \<and> optional_identifier (ra_requested_provider_id args) ''requested_provider_id'' = Inr provider
      \<and> optional_identifier (ra_requested_model_id args) ''requested_model_id'' = Inr model
      \<and> optional_identifier (ra_requested_reasoning_mode args) ''requested_reasoning_mode'' = Inr mode
      \<and> optional_route_class (ra_requested_route_class args) ''requested_route_class'' = Inr cls
      \<and> (case pid of None \<Rightarrow> Inr \<lparr>rq_route_profile_id = pid, rq_target_agent_id = recipient, rq_provider_id = provider,
           rq_model_id = model, rq_reasoning_mode = mode, rq_route_class = cls, rq_profile_sha256 = None, rq_request_sha256 = None\<rparr>
         | Some p \<Rightarrow> merge_profile b profiles p \<lparr>rq_route_profile_id = pid, rq_target_agent_id = recipient, rq_provider_id = provider,
           rq_model_id = model, rq_reasoning_mode = mode, rq_route_class = cls, rq_profile_sha256 = None, rq_request_sha256 = None\<rparr>) = Inr m
      \<and> (pid = None \<longrightarrow> named_by m) \<and> recipient \<noteq> ''*'' \<and> rq_route_class m \<noteq> None
      \<and> q = m\<lparr>rq_request_sha256 := Some (request_digest (br_sha256 b) m)\<rparr>)"
  unfolding resolve_route_request_def Let_def by (simp add: tx_simps named_by_def) blast

text \<open>A resolved request: its target, its digest, and what its profile adds.\<close>

lemma resolved_request:
  assumes "resolve_route_request b profiles recipient args = Inr (Some q)"
  shows "rq_target_agent_id q = recipient" "rq_request_sha256 q = Some (request_digest (br_sha256 b) q)"
    "rq_route_class q \<noteq> None" "rq_route_profile_id q = None \<longrightarrow> rq_profile_sha256 q = None \<and> named_by q"
    "rq_route_profile_id q = Some p \<longrightarrow> p \<noteq> [] \<and> profile_bound b profiles p q"
proof -
  obtain pid provider model mode cls m where pid: "optional_identifier (ra_route_profile_id args) ''route_profile_id'' = Inr pid"
    and m: "(case pid of None \<Rightarrow> Inr \<lparr>rq_route_profile_id = pid, rq_target_agent_id = recipient, rq_provider_id = provider,
           rq_model_id = model, rq_reasoning_mode = mode, rq_route_class = cls, rq_profile_sha256 = None, rq_request_sha256 = None\<rparr>
         | Some p \<Rightarrow> merge_profile b profiles p \<lparr>rq_route_profile_id = pid, rq_target_agent_id = recipient, rq_provider_id = provider,
           rq_model_id = model, rq_reasoning_mode = mode, rq_route_class = cls, rq_profile_sha256 = None, rq_request_sha256 = None\<rparr>) = Inr m"
    and q: "pid = None \<longrightarrow> named_by m" "rq_route_class m \<noteq> None" "q = m\<lparr>rq_request_sha256 := Some (request_digest (br_sha256 b) m)\<rparr>"
    using assms unfolding resolve_route_request_Some by blast
  have digest: "request_digest (br_sha256 b) q = request_digest (br_sha256 b) m"
    by (simp add: q(3) request_digest_def request_fields_def)
  have set: "pid = Some p \<Longrightarrow> p \<noteq> []" for p using pid optional_identifier_set by blast
  have "rq_target_agent_id m = recipient \<and> rq_route_profile_id m = pid
      \<and> (pid = None \<longrightarrow> rq_profile_sha256 m = None) \<and> (\<forall>p. pid = Some p \<longrightarrow> profile_bound b profiles p m)"
  proof (cases pid)
    case None
    then show ?thesis using m by auto
  next
    case (Some p)
    then show ?thesis using merge_profile_ok [of b profiles p] m by fastforce
  qed
  then show "rq_target_agent_id q = recipient" "rq_request_sha256 q = Some (request_digest (br_sha256 b) q)"
    "rq_route_class q \<noteq> None" "rq_route_profile_id q = None \<longrightarrow> rq_profile_sha256 q = None \<and> named_by q"
    "rq_route_profile_id q = Some p \<longrightarrow> p \<noteq> [] \<and> profile_bound b profiles p q"
    using q digest set by (auto simp: named_by_def profile_bound_def)
qed

text \<open>The request of the row of a draft that carries it.\<close>

definition carries :: "route_request \<Rightarrow> draft \<Rightarrow> bool" where
  "carries q m \<longleftrightarrow> dr_request m = Some q \<and> dr_recipient m = rq_target_agent_id q \<and> dr_route_profile_id m = rq_route_profile_id q"

lemma new_message_request:
  "mg_route_profile_id (new_message b m i n) = dr_route_profile_id m"
  "mg_route_profile_sha256 (new_message b m i n) = requested_of request_profile_sha m"
  "mg_requested_provider_id (new_message b m i n) = requested_of rq_provider_id m"
  "mg_requested_model_id (new_message b m i n) = requested_of rq_model_id m"
  "mg_requested_reasoning_mode (new_message b m i n) = requested_of rq_reasoning_mode m"
  "mg_requested_route_class (new_message b m i n) = requested_of rq_route_class m"
  "mg_route_request_sha256 (new_message b m i n) = requested_of rq_request_sha256 m"
  by (simp_all add: new_message_def)

lemma request_of_row:
  assumes "resolve_route_request b profiles recipient args = Inr (Some q)" and "carries q m"
  shows "route_request_from_row (new_message b m i n) = Some q"
proof -
  note r = resolved_request [OF assms(1)]
  have "(case rq_route_profile_id q of None \<Rightarrow> rq_profile_sha256 q = None \<and> named_by q
      | Some p \<Rightarrow> p \<noteq> [] \<and> (\<exists>sha. rq_profile_sha256 q = Some (Some sha)))"
    using r(4,5) by (auto simp: profile_bound_def split: option.splits)
  then have sha: "(if is_set (rq_route_profile_id q) \<or> request_profile_sha q \<noteq> None
       then Some (request_profile_sha q) else None) = rq_profile_sha256 q"
    and named: "is_set (rq_route_profile_id q) \<or> named_by q"
    using assms(2) by (auto simp: request_profile_sha_def is_set_def split: option.splits)
  let ?row = "new_message b m i n"
  have row: "\<lparr>rq_route_profile_id = mg_route_profile_id ?row, rq_target_agent_id = mg_recipient ?row,
      rq_provider_id = mg_requested_provider_id ?row, rq_model_id = mg_requested_model_id ?row,
      rq_reasoning_mode = mg_requested_reasoning_mode ?row, rq_route_class = mg_requested_route_class ?row,
      rq_profile_sha256 = (if is_set (mg_route_profile_id ?row) \<or> mg_route_profile_sha256 ?row \<noteq> None
        then Some (mg_route_profile_sha256 ?row) else None), rq_request_sha256 = mg_route_request_sha256 ?row\<rparr> = q"
    using assms(2) sha by (intro route_request.equality) (auto simp: new_message_request carries_def requested_of_def)
  have "\<not> (\<not> is_set (rq_request_sha256 q) \<and> \<not> (is_set (rq_route_profile_id q) \<or> is_set (rq_provider_id q)
      \<or> is_set (rq_model_id q) \<or> is_set (rq_reasoning_mode q) \<or> is_set (rq_route_class q)
      \<or> is_set (case rq_profile_sha256 q of None \<Rightarrow> None | Some v \<Rightarrow> v)))"
    using named by (auto simp: named_by_def)
  then show ?thesis unfolding route_request_from_row_def Let_def row by (rule if_not_P)
qed

text \<open>The runtime of a bridge has the identity a request names.\<close>

definition runs_as :: "route_request \<Rightarrow> bridge \<Rightarrow> bool" where
  "runs_as q b \<longleftrightarrow> br_route_class b = rq_route_class q \<and> is_route_class (rq_route_class q)
     \<and> (is_set (rq_provider_id q) \<longrightarrow> br_provider_id b = rq_provider_id q)
     \<and> (is_set (rq_model_id q) \<longrightarrow> br_model_id b = rq_model_id q)
     \<and> (is_set (rq_reasoning_mode q) \<longrightarrow> br_reasoning_mode b = rq_reasoning_mode q)"

lemma profile_still_bound:
  assumes "profile_bound b profiles p q" and "extends_list profiles profiles'" and "br_scope b' = br_scope b" and "br_sha256 b' = br_sha256 b"
  shows "profile_identity_matches b' profiles' p (case rq_profile_sha256 q of None \<Rightarrow> None | Some v \<Rightarrow> v)"
proof -
  obtain row sha where row: "fetch_one (enabled_route (br_scope b) p) profiles = Some row"
    and sha: "verified_route_profile_sha256 (br_sha256 b) row = Inr sha" "rq_profile_sha256 q = Some (Some sha)"
    using assms(1) unfolding profile_bound_def by blast
  then show ?thesis
    using fetch_one_more [OF row assms(2)] verified_sha_hex [OF sha(1)] assms(3,4) by (simp add: profile_identity_matches_def)
qed

text \<open>C11: A routed message stays verifiable. The request a call resolved is read back from the row of the
  message as it was resolved, and at any later time a runtime of the same scope verifies that row exactly
  when it is the addressed agent and runs on the provider, model, mode and route class the request names;
  the profile it was resolved from can never come to disagree.\<close>

theorem routed_message_stays_verifiable:
  assumes "message_inv H (st_db s)" and "(mail_call H)\<^sup>*\<^sup>* s t"
    and "resolve_route_request b (route_profiles (st_db s)) recipient args = Inr (Some q)" and "carries q m"
    and "br_scope b' = br_scope b" and "br_sha256 b' = br_sha256 b"
  shows "route_request_from_row (new_message b m i n) = Some q
    \<and> (re_status (evaluate_route b' (route_profiles (st_db t)) (new_message b m i n) consumer) = Route_Verified
       \<longleftrightarrow> consumer = br_agent_id b' \<and> recipient = br_agent_id b' \<and> runs_as q b')"
proof -
  have later: "extends_list (route_profiles (st_db s)) (route_profiles (st_db t))"
    using desk.history [OF assms(2,1)] by (simp add: mail_leads_def)
  note r = resolved_request [OF assms(3)] and row = request_of_row [OF assms(3,4)]
  have match: "\<not> profile_mismatch b' (route_profiles (st_db t)) q"
  proof (cases "rq_route_profile_id q")
    case None
    then show ?thesis using r(4) by (simp add: profile_mismatch_def is_set_def)
  next
    case (Some p)
    then have "profile_bound b (route_profiles (st_db s)) p q" using r(5) by blast
    from profile_still_bound [OF this later assms(5,6)] show ?thesis
      using Some r(5) by (simp add: profile_mismatch_def text_or_empty_def Let_def is_set_def)
  qed
  have "route_mismatches b' (route_profiles (st_db t)) consumer q = []
      \<longleftrightarrow> consumer = br_agent_id b' \<and> recipient = br_agent_id b' \<and> runs_as q b'"
    using match r(1,2) assms(6) by (auto simp: route_mismatches_def runs_as_def requested_differs_def)
  then show ?thesis using row by (simp add: evaluate_route_def)
qed

lemma mail_request_runs: "runs_as mail_request mail_bob"
  by (simp add: runs_as_def mail_request_def is_route_class_def ROUTE_CLASSES_def is_set_def)

theorem routed_message_stays_verifiable_witness:
  "\<exists>q m. route_request_from_row (new_message mail_alice m [] 3) = Some q
     \<and> re_status (evaluate_route mail_bob (route_profiles mail_store) (new_message mail_alice m [] 3) ''bob'') = Route_Verified"
proof -
  have q: "resolve_route_request mail_alice (route_profiles (st_db mail_state)) ''bob'' (profile_only ''r'') = Inr (Some mail_request)"
    using mail_resolves by simp
  define m where "m = (mail_draft ''go'')\<lparr>dr_request := Some mail_request, dr_recipient := rq_target_agent_id mail_request,
    dr_route_profile_id := rq_route_profile_id mail_request\<rparr>"
  have "carries mail_request m" by (simp add: carries_def m_def)
  from routed_message_stays_verifiable [OF mail_state_inv rtranclp.rtrancl_refl q this, of mail_bob "[]" 3 "''bob''"]
  have "route_request_from_row (new_message mail_alice m [] 3) = Some mail_request
     \<and> re_status (evaluate_route mail_bob (route_profiles mail_store) (new_message mail_alice m [] 3) ''bob'') = Route_Verified"
    using mail_request_runs by simp
  then show ?thesis by blast
qed

end
