(* ===== verification/RoomProperties.thy ===== *)
theory RoomProperties
  imports MailRuns
begin

text \<open>
  The properties of rooms over all histories: seats and their roles, who may change them and who may
  speak, the open discussion of a room, the bounds of its policy, and which rooms an agent sees.
\<close>

lemma reached_rooms:
  assumes "message_inv H (st_db s)" and "(mail_call H)\<^sup>*\<^sup>* s t"
  shows "room_inv H (st_db t)"
  using desk.history [OF assms(2,1)] by (simp add: message_inv_def)

section \<open>Seats\<close>

text \<open>C25: Every seat is sealed and has its role. In any history a seat carries the digest of its other
  columns, is the only one of its agent in its room, has a leaving time exactly when it was left, and
  there is a sealed role row with one of the five roles, of the same agent, room and session.\<close>

theorem seats_bound_to_roles:
  assumes "message_inv H (st_db s)" and "(mail_call H)\<^sup>*\<^sup>* s t" and "seat \<in> set (room_memberships (st_db t))"
  shows "me_membership_sha256 seat = stable_sha256 H (membership_payload seat)
    \<and> (me_status seat = Seat_Left \<longleftrightarrow> me_left_utc seat \<noteq> None)
    \<and> (\<forall>other \<in> set (room_memberships (st_db t)). seat_key other = seat_key seat \<longrightarrow> other = seat)
    \<and> (\<exists>role \<in> set (room_member_roles (st_db t)). role_key role = seat_key seat
        \<and> mr_room_session_id role = me_room_session_id seat \<and> mr_role_id role \<in> set ROOM_MEMBER_ROLES
        \<and> mr_role_sha256 role = stable_sha256 H (room_role_payload role))"
proof -
  have ok: "seats_ok H (room_memberships (st_db t)) (room_member_roles (st_db t))"
    using reached_rooms [OF assms(1,2)] by (simp add: room_inv_def)
  then have "distinct (map seat_key (room_memberships (st_db t)))" by (simp add: seats_ok_def)
  then have "\<forall>other \<in> set (room_memberships (st_db t)). seat_key other = seat_key seat \<longrightarrow> other = seat"
    using assms(3) by (auto simp: distinct_map inj_on_def)
  moreover have "seat_ok H seat" "\<exists>role \<in> set (room_member_roles (st_db t)). role_of seat role"
    using ok assms(3) by (simp_all add: seats_ok_def)
  ultimately show ?thesis using ok by (auto simp: seats_ok_def seat_ok_def seats.sealed_def roles.sealed_def role_of_def)
qed

theorem seats_bound_to_roles_witness:
  "\<exists>role \<in> set (room_member_roles mail_store). role_key role = (''team'', ''lobby'', ''bob'') \<and> mr_room_session_id role = ''rs''"
  using seats_bound_to_roles [OF mail_state_inv rtranclp.rtrancl_refl, of "mail_seat ''bob'' (Some ''r'')"]
  by (simp add: mail_store_def)

text \<open>The seats and roles other than those with the key \<open>k\<close>.\<close>

definition other_seats :: "string \<times> string \<times> string \<Rightarrow> 'a room_db_scheme \<Rightarrow> member_row set \<times> role_row set" where
  "other_seats k d = ({m \<in> set (room_memberships d). seat_key m \<noteq> k}, {r \<in> set (room_member_roles d). role_key r \<noteq> k})"

lemma seats_agent_others:
  assumes "seats_agent b rm ag st d d'" and "room_inv (br_sha256 b) d"
  shows "other_seats (br_scope b, rm, ag) d' = other_seats (br_scope b, rm, ag) d
    \<and> (\<exists>seat \<in> set (room_memberships d'). seat_key seat = (br_scope b, rm, ag) \<and> me_status seat = st)"
proof -
  obtain seat role where g: "good_seat (br_sha256 b) seat role d" and k: "seat_key seat = (br_scope b, rm, ag)" "me_status seat = st"
    and same: "same_rooms (bind_seat seat role d) d'"
    using assms(1) unfolding seats_agent_def by blast
  have d: "distinct (map seat_key (room_memberships d))" "distinct (map role_key (room_member_roles d))"
    using assms(2) by (simp_all add: room_inv_def seats_ok_def)
  have r: "role_key role = seat_key seat" "continues_role role (room_member_roles d)"
    using g by (simp_all add: good_seat_def role_of_def)
  have t: "room_memberships d' = put_seat seat (room_memberships d)" "room_member_roles d' = put_role role (room_member_roles d)"
    using same by (simp_all add: same_rooms_def bind_seat_def)
  show ?thesis
    unfolding other_seats_def t using k r put_seat_set [OF d(1), of seat] put_role_set [OF d(2) r(2)] by auto
qed

text \<open>C8: Seats are changed by right. A returning \<open>join_room\<close>, \<open>set_room_member_role\<close> or \<open>leave_room\<close> writes
  the seat of one agent in one room and leaves every other seat and role alone. Another agent's seat is
  written only by the human operator or by the creator of the room while it has an active seat, and only
  they make a seat active: an agent by itself can do no more than leave.\<close>

theorem seats_change_by_right:
  fixes s t :: "'a room_db_scheme pstate"
  assumes "room_inv (br_sha256 b) (st_db s)" and "call s = (Inr x, t)"
    and "call \<in> {join_room b args, set_room_member_role b i n rarg larg, leave_room b i agent}"
  shows "\<exists>rm ag. other_seats (br_scope b, rm, ag) (st_db t) = other_seats (br_scope b, rm, ag) (st_db s)
    \<and> (\<exists>seat \<in> set (room_memberships (st_db t)). seat_key seat = (br_scope b, rm, ag)
        \<and> (manages b rm (st_db s) \<or> ag = br_agent_id b \<and> me_status seat = Seat_Left))"
proof -
  have "\<exists>rm ag st. (manages b rm (st_db s) \<or> ag = br_agent_id b \<and> st = Seat_Left) \<and> seats_agent b rm ag st (st_db s) (st_db t)"
    using assms join_room_run [of b args s x t] set_room_member_role_run [of b i n rarg larg s x t] leave_room_run [of b i agent s x t]
    by auto
  then show ?thesis using seats_agent_others [OF _ assms(1)] by fastforce
qed

theorem seats_change_by_right_witness:
  "\<exists>rm ag (t :: message_db pstate). other_seats (''team'', rm, ag) (st_db t) = other_seats (''team'', rm, ag) mail_store"
proof -
  obtain r t where run: "leave_room mail_bob ''lobby'' None mail_state = (Inr r, t)" using mail_leaves by blast
  have inv: "room_inv (br_sha256 mail_bob) (st_db mail_state)" using mail_store_rooms by simp
  have "\<exists>rm ag. other_seats (br_scope mail_bob, rm, ag) (st_db t) = other_seats (br_scope mail_bob, rm, ag) (st_db mail_state)
      \<and> (\<exists>seat \<in> set (room_memberships (st_db t)). seat_key seat = (br_scope mail_bob, rm, ag)
        \<and> (manages mail_bob rm (st_db mail_state) \<or> ag = br_agent_id mail_bob \<and> me_status seat = Seat_Left))"
    by (rule seats_change_by_right [where call = "leave_room mail_bob ''lobby'' None" and i = "''lobby''" and n = "[]"
        and rarg = None and larg = None and agent = None, OF inv run]) simp
  then show ?thesis by auto
qed

section \<open>Policies and discussions\<close>

text \<open>C7: A room has at most one open discussion. In any history two open discussions of the same room are
  the same row, and the policy of that room asks for discussions.\<close>

theorem one_open_discussion:
  assumes "message_inv H (st_db s)" and "(mail_call H)\<^sup>*\<^sup>* s t"
    and "r \<in> set (room_discussions (st_db t))" and "q \<in> set (room_discussions (st_db t))"
    and "di_scope r = di_scope q" and "di_room_id r = di_room_id q" 
    and "di_status r \<in> {''active'', ''paused'', ''waiting_human''}"
    and "di_status q \<in> {''active'', ''paused'', ''waiting_human''}"
  shows "r = q \<and> (\<exists>p \<in> set (room_automation_policies (st_db t)). po_scope p = di_scope r \<and> po_room_id p = di_room_id r
    \<and> po_mode p \<in> {''discussion'', ''free'', ''goal''})"
proof -
  have ok: "discussions_ok (room_automation_policies (st_db t)) (room_discussions (st_db t))"
    using reached_rooms [OF assms(1,2)] by (simp add: room_inv_def)
  have op: "open_discussion r" "open_discussion q" "disc_room r = disc_room q"
    using assms(5-8) by (auto simp: open_discussion_def disc_room_def)
  obtain p where "p \<in> set (room_automation_policies (st_db t))" "policy_key p = disc_room r" "discussion_mode (po_mode p)"
    using ok op assms(3) unfolding discussions_ok_def by blast
  then show ?thesis
    using ok op assms(3,4) unfolding discussions_ok_def by (auto simp: policy_key_def disc_room_def discussion_mode_def)
qed

theorem one_open_discussion_witness:
  "\<exists>p \<in> set (room_automation_policies mail_store). po_room_id p = ''lobby'' \<and> po_mode p \<in> {''discussion'', ''free'', ''goal''}"
proof -
  have "di_status mail_disc = ''active''" "di_room_id mail_disc = ''lobby''" "mail_disc \<in> set (room_discussions mail_store)"
    by (simp_all add: mail_disc_def new_discussion_simps mail_store_def)
  then show ?thesis
    using one_open_discussion [OF mail_state_inv rtranclp.rtrancl_refl, of mail_disc mail_disc] by auto
qed

text \<open>Automation stays within its bounds. In any history, openings of the database included, the policy of
  a room has one of the five modes and from one to five stagnation rounds, and unless the mode is \<open>goal\<close>,
  which counts nothing, from the stagnation rounds up to 20 rounds and from 2 up to 200 messages. Its digest
  is the one of its columns, except for a lobby policy in mode once under the name \<open>peerbridge-system\<close>:
  opening the database may have given it the digest of the default bounds.\<close>

theorem automation_within_bounds:
  assumes "message_inv H (st_db s)" and "(mail_call H)\<^sup>*\<^sup>* s t" and "p \<in> set (room_automation_policies (st_db t))"
  shows "po_mode p \<in> {''off'', ''once'', ''discussion'', ''free'', ''goal''}
    \<and> 1 \<le> po_stagnation_rounds p \<and> po_stagnation_rounds p \<le> 5
    \<and> (if po_mode p = ''goal'' then po_max_rounds p = 0 \<and> po_max_messages p = 0
       else po_stagnation_rounds p \<le> po_max_rounds p \<and> po_max_rounds p \<le> 20 \<and> 2 \<le> po_max_messages p \<and> po_max_messages p \<le> 200)
    \<and> (po_policy_sha256 p = stable_sha256 H (policy_payload p)
       \<or> po_room_id p = DEFAULT_ROOM_ID \<and> po_mode p = ''once'' \<and> po_updated_by p = ''peerbridge-system''
         \<and> po_policy_sha256 p = stable_sha256 H (policy_payload (p\<lparr>po_max_rounds := DEFAULT_DISCUSSION_MAX_ROUNDS,
           po_max_messages := DEFAULT_DISCUSSION_MAX_MESSAGES, po_stagnation_rounds := DEFAULT_DISCUSSION_STAGNATION_ROUNDS\<rparr>)))"
proof -
  have "policy_sealed H p" "policy_bounds p"
    using reached_rooms [OF assms(1,2)] assms(3) by (simp_all add: room_inv_def policies_ok_def)
  then show ?thesis
    by (auto simp: policy_sealed_def policies.sealed_def policy_bounds_def ROOM_AUTOMATION_MODES_def MAX_DISCUSSION_ROUNDS_def MAX_DISCUSSION_MESSAGES_def)
qed

theorem automation_within_bounds_witness: "po_max_rounds mail_policy \<le> 20"
  using automation_within_bounds [OF mail_state_inv rtranclp.rtrancl_refl, of mail_policy]
  by (simp add: mail_store_def split: if_splits)

section \<open>Visible rooms\<close>

lemma room_rows_key:
  assumes "room_inv H d" and "r \<in> set (rooms d)" and "ro_scope r = br_scope b"
  shows "open_room b (ro_room_id r) d r \<longleftrightarrow> \<not> ro_archived r"
proof -
  have "fetch_one (room_is (br_scope b) (ro_room_id r)) (rooms d) = Some r"
    using assms by (subst fetch_one_key [where key = room_key and k = "(br_scope b, ro_room_id r)"])
      (auto simp: room_inv_def key_tests room_key_def)
  then show ?thesis by (simp add: open_room_def)
qed

lemma may_speak_iff:
  assumes "room_inv H d" and "r \<in> set (rooms d)" and "ro_scope r = br_scope b" and "\<not> ro_archived r"
  shows "may_speak b (ro_room_id r) ag d \<longleftrightarrow>
    (if ro_room_id r = DEFAULT_ROOM_ID then \<not> list_ex (\<lambda>m. seat_is (br_scope b) (ro_room_id r) ag m \<and> me_status m \<noteq> Seat_Active) (room_memberships d)
     else list_ex (active_seat (br_scope b) (ro_room_id r) ag) (room_memberships d))"
proof -
  have d: "distinct (map seat_key (room_memberships d))" using assms(1) by (simp add: room_inv_def seats_ok_def)
  have "fetch_one (seat_is (br_scope b) rm ag) (room_memberships d) = Some m \<longleftrightarrow> m \<in> set (room_memberships d) \<and> seat_is (br_scope b) rm ag m" for rm m
    by (rule fetch_one_key [OF d]) (simp add: key_tests)
  moreover have "active_room_member b rm ag d \<noteq> None \<longleftrightarrow> list_ex (active_seat (br_scope b) rm ag) (room_memberships d)" for rm
    by (auto simp: active_room_member_def fetch_one_def find_None_iff list_ex_iff)
  ultimately show ?thesis
    using room_rows_key [OF assms(1-3)] assms(4) by (auto simp: may_speak_def list_ex_iff)
qed

lemma room_order_set [simp]: "set (room_order rows) = set rows"
  by (simp add: room_order_def)

lemma member_views_agree:
  fixes s t :: "'a message_db_scheme pstate"
  assumes "message_inv (br_sha256 b) (st_db s)" and "(mail_call (br_sha256 b))\<^sup>*\<^sup>* s t"
    and "list_rooms b flag t = (Inr items, u)" and "r \<in> set (rooms (st_db t))" and "ro_scope r = br_scope b"
    and "\<not> ro_archived r" and "br_agent_id b \<noteq> HUMAN_OPERATOR_ID"
  shows "(r \<in> ri_room ` set items \<longleftrightarrow> may_speak b (ro_room_id r) (br_agent_id b) (st_db t))
    \<and> (r \<in> ri_room ` set items \<longleftrightarrow> ro_room_id r \<in> set (visible_room_ids b (br_agent_id b) (st_db t)))"
proof -
  let ?d = "st_db t" and ?ag = "br_agent_id b"
  have inv: "room_inv (br_sha256 b) ?d" by (rule reached_rooms [OF assms(1,2)])
  have d: "distinct (map seat_key (room_memberships ?d))" using inv by (simp add: room_inv_def seats_ok_def)
  have listed: "r \<in> ri_room ` set items \<longleftrightarrow> visible_room b (room_memberships ?d) r"
    using assms(3-6) unfolding list_rooms_def by (auto simp: tx_simps room_item_of_def image_iff)
  have speak: "visible_room b (room_memberships ?d) r \<longleftrightarrow> may_speak b (ro_room_id r) ?ag ?d"
  proof -
    have "\<not> list_ex (active_seat (br_scope b) (ro_room_id r) ?ag) (room_memberships ?d)"
      if "list_ex (\<lambda>m. seat_is (br_scope b) (ro_room_id r) ?ag m \<and> me_status m \<noteq> Seat_Active) (room_memberships ?d)"
      using that distinct_key_eq [OF d] by (auto simp: list_ex_iff active_seat_def key_tests) metis
    then show ?thesis
      unfolding may_speak_iff [OF inv assms(4-6)] visible_room_def using assms(5,7) by auto
  qed
  have fetch: "fetch_one (seat_is (br_scope b) rm ?ag) (room_memberships ?d) = Some m
      \<longleftrightarrow> m \<in> set (room_memberships ?d) \<and> seat_is (br_scope b) rm ?ag m" for rm m
    by (rule fetch_one_key [OF d]) (simp add: key_tests)
  have "ro_room_id r \<in> set (visible_room_ids b ?ag ?d) \<longleftrightarrow> may_speak b (ro_room_id r) ?ag ?d"
  proof (cases "ro_room_id r = DEFAULT_ROOM_ID")
    case True
    show ?thesis
    proof (cases "fetch_one (seat_is (br_scope b) DEFAULT_ROOM_ID ?ag) (room_memberships ?d)")
      case None
      then show ?thesis using True fetch_one_NoneD [OF None] assms(7) room_rows_key [OF inv assms(4,5)] assms(6)
        by (auto simp: visible_room_ids_def may_speak_def)
    next
      case (Some m)
      then have "m \<in> set (room_memberships ?d)" "seat_is (br_scope b) DEFAULT_ROOM_ID ?ag m" using fetch by blast+
      then show ?thesis
        using True Some assms(6,7) room_rows_key [OF inv assms(4,5)] distinct_key_eq [OF d _ _ ]
        by (auto simp: visible_room_ids_def may_speak_def key_tests seat_key_def image_iff) metis+
    qed
  next
    case False
    then show ?thesis unfolding may_speak_iff [OF inv assms(4-6)]
      using assms(7) by (auto simp: visible_room_ids_def list_ex_iff active_seat_def seat_is_def image_iff split: option.splits)
  qed
  then show ?thesis using listed speak by blast
qed

text \<open>C24: The views of the rooms agree. In any history, an open room of the scope is in the answer of
  \<open>list_rooms\<close> for the human operator always, and its id is one of its visible room ids; for any other agent
  it is in that answer exactly when the agent passes the membership check of the message calls in the room,
  and exactly when its id is one of its visible room ids.\<close>

theorem room_views_agree:
  fixes s t :: "'a message_db_scheme pstate"
  assumes "message_inv (br_sha256 b) (st_db s)" and "(mail_call (br_sha256 b))\<^sup>*\<^sup>* s t"
    and "list_rooms b flag t = (Inr items, u)" and "r \<in> set (rooms (st_db t))" and "ro_scope r = br_scope b"
    and "\<not> ro_archived r"
  shows "if br_agent_id b = HUMAN_OPERATOR_ID
    then r \<in> ri_room ` set items \<and> ro_room_id r \<in> set (visible_room_ids b (br_agent_id b) (st_db t))
    else (r \<in> ri_room ` set items \<longleftrightarrow> may_speak b (ro_room_id r) (br_agent_id b) (st_db t))
      \<and> (r \<in> ri_room ` set items \<longleftrightarrow> ro_room_id r \<in> set (visible_room_ids b (br_agent_id b) (st_db t)))"
proof (cases "br_agent_id b = HUMAN_OPERATOR_ID")
  case True
  have "r \<in> ri_room ` set items"
    using assms(3-6) True unfolding list_rooms_def by (auto simp: tx_simps room_item_of_def image_iff visible_room_def)
  then show ?thesis using True assms(4,5) by (auto simp: visible_room_ids_def)
next
  case False
  then show ?thesis using member_views_agree [OF assms] by auto
qed

theorem room_views_agree_witness:
  "\<exists>items u. list_rooms mail_bob False mail_state = (Inr items, u) \<and> mail_room \<in> ri_room ` set items"
proof -
  obtain items u where run: "list_rooms mail_bob False mail_state = (Inr items, u)" by (auto simp: list_rooms_def tx_simps)
  have inv: "message_inv (br_sha256 mail_bob) (st_db mail_state)" using mail_state_inv by simp
  have room: "mail_room \<in> set (rooms (st_db mail_state))" "ro_scope mail_room = br_scope mail_bob" "ro_room_id mail_room = ''lobby''"
    by (simp_all add: mail_store_def mail_room_def seal_room_def)
  have "br_agent_id mail_bob \<noteq> HUMAN_OPERATOR_ID" by (simp add: HUMAN_OPERATOR_ID_def)
  then show ?thesis
    using run room_views_agree [OF inv rtranclp.rtrancl_refl run room(1,2)] mail_bob_speaks room(3) by (auto split: if_splits)
qed

section \<open>Who writes where\<close>

text \<open>The messages a call added are all in the room \<open>rm\<close>, from the agent \<open>ag\<close>.\<close>

definition adds_posts :: "string \<Rightarrow> string \<Rightarrow> string \<Rightarrow> 'a message_db_scheme \<Rightarrow> 'a message_db_scheme \<Rightarrow> bool" where
  "adds_posts sc rm ag d d' \<longleftrightarrow> (\<exists>ms. messages d' = messages d @ ms
     \<and> (\<forall>m \<in> set ms. mg_scope m = sc \<and> mg_room_id m = rm \<and> mg_sender m = ag))"

interpretation posts: db_frame "adds_posts sc rm ag" for sc rm ag
proof
  show "adds_posts sc rm ag d d" for d :: "'a message_db_scheme" by (simp add: adds_posts_def)
  show "adds_posts sc rm ag d e \<Longrightarrow> adds_posts sc rm ag e f \<Longrightarrow> adds_posts sc rm ag d f" for d e f :: "'a message_db_scheme"
    by (fastforce simp: adds_posts_def)
qed

lemma no_posts: "messages d' = messages d \<Longrightarrow> adds_posts sc rm ag d d'"
  by (simp add: adds_posts_def)

lemma posts_event: "posts.framed sc rm ag (event_op b ty p tid)"
  by (rule posts.framedI) (auto dest!: event_op_ok intro!: no_posts simp: appends_def)

lemma posts_insert:
  assumes "dr_room_id m = rm" and "dr_sender m = ag"
  shows "posts.framed (br_scope b) rm ag (insert_message b m i)"
  by (rule posts.framedI) (use assms in \<open>auto simp: tx_simps added_db_def adds_posts_def\<close>)

lemma posts_reserve: "posts.framed sc rm ag (reserve_message_storage b n bytes)"
  unfolding reserve_message_storage_def by (intro posts.framed_intros posts.framed_execute) (simp_all add: no_posts)

lemma posts_write:
  assumes "dr_room_id m = rm" and "dr_sender m = ag"
  shows "posts.framed (br_scope b) rm ag (write_message b m i)"
  unfolding write_message_def by (intro posts.framed_intros posts_reserve posts_insert assms)

lemma posts_inserts:
  "\<forall>m \<in> set ms. dr_room_id m = rm \<and> dr_sender m = ag
     \<Longrightarrow> posts.framed (br_scope b) rm ag (tx_for (\<lambda>draft. tx_bind uuid4_hex (insert_message b draft)) ms :: ('a message_db_scheme, msg_row list) op)"
proof (induction ms)
  case (Cons m ms)
  have "posts.framed (br_scope b) rm ag (tx_bind uuid4_hex (insert_message b m) :: ('a message_db_scheme, msg_row) op)"
    by (rule posts.framed_bind [OF posts.framed_basic(9)], rule posts_insert) (use Cons.prems in auto)
  then show ?case using Cons by (simp add: posts.framed_bind posts.framed_basic)
qed (simp add: posts.framed_basic)

lemma posts_write_all:
  "\<forall>m \<in> set ms. dr_room_id m = rm \<and> dr_sender m = ag \<Longrightarrow> posts.framed (br_scope b) rm ag (write_messages b ms)"
  unfolding write_messages_def by (intro posts.framed_then posts_reserve posts_inserts)

lemma seat_draft_room [simp]: "dr_room_id (seat_draft m p) = dr_room_id m" "dr_sender (seat_draft m p) = dr_sender m"
  by (simp_all add: seat_draft_def split: prod.splits)

lemma posts_reads:
  "posts.framed sc rm ag (room_of b r)" "posts.framed sc rm ag (require_room_member b r a)" "posts.framed sc rm ag (room_policy b r)"
  by (rule posts.framedI; auto simp: tx_simps posts.frame_refl)+

lemmas posts_frames = posts_event posts_write posts_write_all posts_reads

lemma posts_fanout: "dr_sender m = ag \<Longrightarrow> posts.framed (br_scope b) (dr_room_id m) ag (fanout_tx b m flag)"
  unfolding fanout_tx_def Let_def by (intro posts.framed_intros posts_frames) auto

lemma posts_start: "dr_sender m = ag \<Longrightarrow> posts.framed (br_scope b) (dr_room_id m) ag (start_discussion b m policy)"
  unfolding start_discussion_def supersede_def insert_discussion_prompt_def insert_discussion_def Let_def
    stop_discussion_def store_discussion_state_def cancel_discussion_dispatches_def cancel_dispatch_def
  by (intro posts.framed_intros posts_frames posts.framed_execute) (simp_all add: no_posts)

lemma posts_tx:
  assumes "dr_sender m = ag"
  shows "posts.framed (br_scope b) (dr_room_id m) ag (send_tx b m route)" "posts.framed (br_scope b) (dr_room_id m) ag (post_tx b m)"
  unfolding send_tx_def post_tx_def post_history_def Let_def
  by (intro posts.framed_intros posts_frames posts_fanout posts_start; simp add: assms)+

lemma posts_once: "posts.framed sc rm ag body \<Longrightarrow> posts.framed sc rm ag (once_per_receipt b metadata body)"
  unfolding once_per_receipt_def load_receipt_def store_receipt_def
  by (intro posts.framed_intros posts.framed_execute) (auto intro!: posts.framed_intros posts.framed_execute no_posts split: option.splits)

text \<open>A body that starts with the membership check of its room.\<close>

lemma member_body:
  assumes "once_per_receipt b metadata body s = (Inr r, t)" and "messages (st_db t) \<noteq> messages (st_db s)"
    and "posts.framed (br_scope b) rm ag body"
    and "\<And>x u. body s = (Inr x, u) \<Longrightarrow> may_speak b rm ag (st_db s)"
  shows "may_speak b rm ag (st_db s) \<and> adds_posts (br_scope b) rm ag (st_db s) (st_db t)"
proof -
  have "\<exists>x u. body s = (Inr x, u)"
    using assms(1,2) unfolding once_per_receipt_def load_receipt_def by (auto simp: tx_simps split: option.splits)
  then have "may_speak b rm ag (st_db s)" using assms(4) by blast
  moreover have "adds_posts (br_scope b) rm ag (st_db s) (st_db t)" by (rule posts.framedD [OF posts_once [OF assms(3)] assms(1)])
  ultimately show ?thesis by blast
qed

text \<open>C9: Only members write, and only as themselves. A returning \<open>send_message\<close>, \<open>send_room_fanout\<close> or
  \<open>post_room_message\<close> that changed the messages has a room that is open and in which the caller passes
  the membership check, and it only appended messages of the caller in that room.\<close>

theorem members_write_as_themselves:
  fixes s t :: "'a message_db_scheme pstate"
  assumes "call s = (Inr r, t)" and "call \<in> {send_message b ws args, send_room_fanout b ws pargs, post_room_message b ws pargs}"
    and "messages (st_db t) \<noteq> messages (st_db s)"
  shows "\<exists>rm ms. may_speak b rm (br_agent_id b) (st_db s) \<and> messages (st_db t) = messages (st_db s) @ ms
    \<and> (\<forall>m \<in> set ms. mg_scope m = br_scope b \<and> mg_room_id m = rm \<and> mg_sender m = br_agent_id b)"
proof -
  have sender: "validate_send b ws args = Inr (metadata, m) \<Longrightarrow> dr_sender m = br_agent_id b"
      "validate_post b ws pargs tool = Inr (metadata, m) \<Longrightarrow> dr_sender m = br_agent_id b" for metadata m tool
    by (auto simp: validate_send_def validate_post_def tx_simps Let_def)
  consider metadata m where "validate_send b ws args = Inr (metadata, m)"
      "once_per_receipt b metadata (send_tx b m (sm_route args)) s = (Inr r, t)"
    | metadata m where "validate_post b ws pargs ''send_room_fanout'' = Inr (metadata, m)"
      "once_per_receipt b metadata (tx_bind (fanout_tx b m True) (\<lambda>result. tx_return (JObj result))) s = (Inr r, t)"
    | metadata m where "validate_post b ws pargs ''post_room_message'' = Inr (metadata, m)"
      "once_per_receipt b metadata (post_tx b (m\<lparr>dr_created := utc_at s\<rparr>)) (tick s) = (Inr r, t)"
    using assms(1,2) unfolding send_message_def send_room_fanout_def post_room_message_def by (auto simp: tx_simps)
  then have "\<exists>rm. may_speak b rm (br_agent_id b) (st_db s) \<and> adds_posts (br_scope b) rm (br_agent_id b) (st_db s) (st_db t)"
  proof cases
    case (1 metadata m)
    show ?thesis
      using member_body [OF 1(2) assms(3) posts_tx(1) [OF sender(1) [OF 1(1)]]] by (auto simp: send_tx_def tx_simps)
  next
    case (2 metadata m)
    have "posts.framed (br_scope b) (dr_room_id m) (br_agent_id b) (tx_bind (fanout_tx b m True) (\<lambda>result. tx_return (JObj result)))"
      by (intro posts.framed_intros posts_fanout sender(2) [OF 2(1)])
    from member_body [OF 2(2) assms(3) this] show ?thesis by (auto simp: fanout_tx_def Let_def tx_simps)
  next
    case (3 metadata m)
    let ?m = "m\<lparr>dr_created := utc_at s\<rparr>"
    have "dr_sender ?m = br_agent_id b" using sender(2) [OF 3(1)] by simp
    from member_body [OF 3(2) _ posts_tx(2) [OF this]] assms(3) show ?thesis by (auto simp: post_tx_def tx_simps)
  qed
  then show ?thesis unfolding adds_posts_def by blast
qed

theorem members_write_as_themselves_witness:
  "\<exists>rm (t :: message_db pstate) ms. may_speak mail_alice rm ''alice'' mail_store \<and> messages (st_db t) = messages mail_store @ ms"
proof -
  obtain r t where run: "send_message mail_alice mail_space mail_message mail_state = (Inr r, t)" using mail_sends by blast
  have "messages (st_db t) \<noteq> messages (st_db mail_state)" using mail_sent [OF run] by simp
  have "(send_message mail_alice mail_space mail_message :: (message_db, _) op) \<in> {send_message mail_alice mail_space mail_message,
      send_room_fanout mail_alice mail_space mail_post, post_room_message mail_alice mail_space mail_post}" by simp
  from members_write_as_themselves [where call = "send_message mail_alice mail_space mail_message", OF run this] this
  show ?thesis using mail_sent [OF run] by auto
qed

end
