(* ===== verification/SecretWords.thy ===== *)
theory SecretWords
  imports SecretScan "HOL-Library.Sublist"
begin

text \<open>
  The words a secret must contain. Each pattern of \<open>secret_scan.py\<close> has a set of literal words one of which
  every match contains, whatever the case of its letters; a text without any of them has no secret, which is
  decided without running the backtracking matcher.
\<close>

section \<open>Required words\<close>

text \<open>The literal a pattern is, in lower case, and the words one of which a match contains.\<close>

primrec re_word :: "re \<Rightarrow> string option" where
  "re_word REps = Some []"
| "re_word (RLit p) = Some [py_lower_char p]"
| "re_word (RCls k) = None"
| "re_word (RSeq r q) = (case (re_word r, re_word q) of (Some v, Some w) \<Rightarrow> Some (v @ w) | _ \<Rightarrow> None)"
| "re_word (RAlt r q) = None"
| "re_word (RStar g r) = None"
| "re_word (RGroup n r) = None"
| "re_word (RRef n) = None"
| "re_word (RNotBehind k) = None"
| "re_word RWordB = None"

primrec re_words :: "re \<Rightarrow> string list option" where
  "re_words REps = None"
| "re_words (RLit p) = Some [[py_lower_char p]]"
| "re_words (RCls k) = None"
| "re_words (RSeq r q) = (case re_word (RSeq r q) of Some w \<Rightarrow> Some [w]
     | None \<Rightarrow> (case re_words r of Some ws \<Rightarrow> Some ws | None \<Rightarrow> re_words q))"
| "re_words (RAlt r q) = (case (re_words r, re_words q) of (Some v, Some w) \<Rightarrow> Some (v @ w) | _ \<Rightarrow> None)"
| "re_words (RStar g r) = None"
| "re_words (RGroup n r) = re_words r"
| "re_words (RRef n) = None"
| "re_words (RNotBehind k) = None"
| "re_words RWordB = None"

text \<open>What a match consumes.\<close>

lemma re_iter_suffix:
  assumes "\<And>x y. y \<in> set (step x) \<Longrightarrow> suffix (fst (snd y)) (fst (snd x))"
  shows "y \<in> set (re_iter g step n x) \<Longrightarrow> suffix (fst (snd y)) (fst (snd x))"
proof (induction n arbitrary: x)
  case (Suc n)
  show ?case
  proof (cases "y = x")
    case False
    then obtain z where z: "z \<in> set (step x)" "y \<in> set (re_iter g step n z)"
      using Suc.prems by (auto simp: Let_def split: if_splits)
    then show ?thesis using Suc.IH [OF z(2)] assms [OF z(1)] by (meson suffix_order.trans)
  qed simp
qed simp

lemma re_match_suffix: "y \<in> set (re_match ic r x) \<Longrightarrow> suffix (fst (snd y)) (fst (snd x))"
proof (induction r arbitrary: x y)
  case (RSeq r q)
  then obtain z where z: "z \<in> set (re_match ic r x)" "y \<in> set (re_match ic q z)" by auto
  then show ?case using RSeq.IH(1) [OF z(1)] RSeq.IH(2) [OF z(2)] by (meson suffix_order.trans)
next
  case (RStar g r)
  have step: "\<And>x y. y \<in> set (re_match ic r x) \<Longrightarrow> suffix (fst (snd y)) (fst (snd x))" using RStar.IH by blast
  then show ?case using re_iter_suffix [of "re_match ic r", OF step] RStar.prems by auto
next
  case (RGroup n r)
  then obtain b a g where x: "x = (b, a, g)" by (cases x)
  then obtain z where "z \<in> set (re_match ic r (b, a, g))" "fst (snd y) = fst (snd z)"
    using RGroup.prems by auto
  then show ?case using RGroup.IH [of z "(b, a, g)"] x by simp
next
  case (RAlt r q)
  then consider "y \<in> set (re_match ic r x)" | "y \<in> set (re_match ic q x)" by auto
  then show ?case using RAlt.IH [where x = x and y = y] by cases auto
next
  case (RNotBehind k)
  then have "y = x" by (cases x) (auto split: list.splits if_splits)
  then show ?case by simp
qed (auto simp: suffix_drop suffix_Cons split: list.splits if_splits option.splits)

definition consumed :: "string \<Rightarrow> string \<Rightarrow> string" where
  "consumed a a' = map py_lower_char (take (length a - length a') a)"

lemma consumed_trans:
  assumes "suffix b a" "suffix c b"
  shows "consumed a c = consumed a b @ consumed b c"
  using assms by (auto simp: consumed_def suffix_def)

lemma lower_fold: "fold_case ic c = fold_case ic d \<Longrightarrow> py_lower_char c = py_lower_char d"
  by (auto simp: fold_case_def split: if_splits)

lemma re_word_consumed:
  "re_word r = Some w \<Longrightarrow> y \<in> set (re_match ic r x) \<Longrightarrow> consumed (fst (snd x)) (fst (snd y)) = w"
proof (induction r arbitrary: w x y)
  case (RSeq r q)
  then obtain v u where w: "re_word r = Some v" "re_word q = Some u" "w = v @ u" by (auto split: option.splits)
  obtain z where z: "z \<in> set (re_match ic r x)" "y \<in> set (re_match ic q z)" using RSeq.prems by auto
  show ?case
    using RSeq.IH(1) [OF w(1) z(1)] RSeq.IH(2) [OF w(2) z(2)] w(3)
      consumed_trans [OF re_match_suffix [OF z(1)] re_match_suffix [OF z(2)]] by simp
qed (auto simp: consumed_def dest: lower_fold split: list.splits if_splits)

lemma re_words_consumed:
  "re_words r = Some ws \<Longrightarrow> y \<in> set (re_match ic r x) \<Longrightarrow> \<exists>w\<in>set ws. sublist w (consumed (fst (snd x)) (fst (snd y)))"
proof (induction r arbitrary: ws x y)
  case (RSeq r q)
  obtain z where z: "z \<in> set (re_match ic r x)" "y \<in> set (re_match ic q z)" using RSeq.prems by auto
  have split: "consumed (fst (snd x)) (fst (snd y)) = consumed (fst (snd x)) (fst (snd z)) @ consumed (fst (snd z)) (fst (snd y))"
    by (rule consumed_trans [OF re_match_suffix [OF z(1)] re_match_suffix [OF z(2)]])
  show ?case
  proof (cases "re_word (RSeq r q)")
    case (Some w)
    then show ?thesis using re_word_consumed [OF Some RSeq.prems(2)] RSeq.prems(1) by (auto simp del: re_word.simps)
  next
    case None
    then have "re_words r = Some ws \<or> re_words q = Some ws"
      using RSeq.prems(1) by (auto simp del: re_word.simps split: option.splits)
    then show ?thesis
      using RSeq.IH(1) [of ws z x] RSeq.IH(2) [of ws y z] z unfolding split by (meson sublist_appendI sublist_append_leftI sublist_append_rightI sublist_order.order.trans)
  qed
next
  case (RLit p)
  then show ?case using re_word_consumed [of "RLit p" _ y ic x] by force
next
  case (RAlt r q)
  then obtain v u where w: "re_words r = Some v" "re_words q = Some u" "ws = v @ u" by (auto split: option.splits)
  consider "y \<in> set (re_match ic r x)" | "y \<in> set (re_match ic q x)" using RAlt.prems(2) by auto
  then have "\<exists>w\<in>set v \<union> set u. sublist w (consumed (fst (snd x)) (fst (snd y)))"
  proof cases
    case 1
    then show ?thesis using RAlt.IH(1) [OF w(1) 1] by blast
  next
    case 2
    then show ?thesis using RAlt.IH(2) [OF w(2) 2] by blast
  qed
  then show ?case using w(3) by simp
next
  case (RGroup n r)
  then obtain b a g where x: "x = (b, a, g)" by (cases x)
  then obtain z where "z \<in> set (re_match ic r (b, a, g))" "fst (snd y) = fst (snd z)"
    using RGroup.prems by auto
  then show ?case using RGroup.IH [of ws z "(b, a, g)"] RGroup.prems(1) x by simp
qed simp_all

section \<open>Searching\<close>

lemma re_find_words:
  assumes "re_words r = Some ws" and "re_find_from n ic r b a \<noteq> []"
  shows "\<exists>w\<in>set ws. sublist w (map py_lower_char a)"
  using assms(2)
proof (induction n arbitrary: a b)
  case (Suc n)
  show ?case
  proof (cases "re_match ic r (b, a, [])")
    case (Cons y ys)
    then obtain w where w: "w \<in> set ws" "sublist w (consumed a (fst (snd y)))"
      using re_words_consumed [OF assms(1), of y ic "(b, a, [])"] by auto
    have "sublist (consumed a (fst (snd y))) (map py_lower_char a)"
      unfolding consumed_def by (intro map_mono_sublist sublist_take)
    then show ?thesis using w by (meson sublist_order.order.trans)
  next
    case Nil
    then obtain c cs where a: "a = c # cs" and f: "re_find_from n ic r (c # b) cs \<noteq> []"
      using Suc.prems by (auto split: list.splits)
    obtain w where "w \<in> set ws" "sublist w (map py_lower_char cs)" using Suc.IH [OF f] by blast
    then show ?thesis unfolding a by (metis list.simps(9) sublist_Cons_right)
  qed
qed simp

text \<open>Whether a text can match a pattern at all.\<close>

definition may_match :: "pattern \<Rightarrow> string \<Rightarrow> bool" where
  "may_match p s = (re_min (snd p) \<le> length s \<and>
     (case re_words (snd p) of None \<Rightarrow> True | Some ws \<Rightarrow> list_ex (\<lambda>w. sublist w (map py_lower_char s)) ws))"

lemma finditer_may_match: "re_finditer p s \<noteq> [] \<Longrightarrow> may_match p s"
proof -
  assume found: "re_finditer p s \<noteq> []"
  have "re_min (snd p) \<le> length s" using re_finditer_short [of s p] found by force
  moreover have "\<exists>w\<in>set ws. sublist w (map py_lower_char s)" if "re_words (snd p) = Some ws" for ws
    using re_find_words [OF that] found unfolding re_finditer_def by blast
  ultimately show ?thesis by (simp add: may_match_def list_ex_iff split: option.splits)
qed

lemma finditer_none: "\<not> may_match p s \<Longrightarrow> re_finditer p s = []"
  using finditer_may_match by blast

lemma finditer_filtered [code]: "re_finditer p s = (if may_match p s then re_find_from (Suc (length s)) (fst p) (snd p) [] s else [])"
  using finditer_may_match [of p s] by (auto simp: re_finditer_def)

definition SECRET_PATTERNS :: "pattern list" where
  "SECRET_PATTERNS = [PREFIXED_TOKEN_PATTERN, JWT_PATTERN, AWS_ACCESS_KEY_PATTERN, PRIVATE_KEY_PATTERN, AUTH_PATTERN,
     SENSITIVE_QUERY_PATTERN, ASSIGNMENT_PATTERN]"

lemma contains_secret_words:
  assumes "contains_secret s"
  shows "\<exists>p\<in>set SECRET_PATTERNS. may_match p s"
proof (rule ccontr)
  assume "\<not> (\<exists>p\<in>set SECRET_PATTERNS. may_match p s)"
  then have "\<forall>p\<in>set SECRET_PATTERNS. re_finditer p s = []" using finditer_none by blast
  then show False using assms by (simp add: contains_secret_def re_search_def SECRET_PATTERNS_def)
qed

end
