(* ===== verification/Usage.thy ===== *)
theory Usage
  imports SecretWords TaskPaths
begin

text \<open>
  Token usage of provider calls, \<open>usage.py\<close>: \<open>normalize_provider_usage\<close> reads the usage of one call,
  \<open>aggregate_usage\<close> adds up the calls of a run, and \<open>validate_usage\<close> checks a record that was read from
  a receipt. A mapping is a JSON object; a missing key and a null are told apart where the code does. An
  error is the text of the \<open>UsageError\<close>.
\<close>

definition USAGE_SCHEMA :: string where "USAGE_SCHEMA = ''peerbridge.inference-usage.v1''"
definition USAGE_STATUSES :: "string list" where "USAGE_STATUSES = [''reported'', ''partial'', ''unavailable'']"

datatype token_field = Input_Tokens | Output_Tokens | Total_Tokens | Cached_Input_Tokens | Reasoning_Tokens

definition TOKEN_FIELDS :: "token_field list" where
  "TOKEN_FIELDS = [Input_Tokens, Output_Tokens, Total_Tokens, Cached_Input_Tokens, Reasoning_Tokens]"

fun token_key :: "token_field \<Rightarrow> string" where
  "token_key Input_Tokens = ''input_tokens''"
| "token_key Output_Tokens = ''output_tokens''"
| "token_key Total_Tokens = ''total_tokens''"
| "token_key Cached_Input_Tokens = ''cached_input_tokens''"
| "token_key Reasoning_Tokens = ''reasoning_tokens''"

record usage =
  iu_status :: string
  iu_source :: string
  iu_counts :: "token_field \<Rightarrow> int option"
  iu_coverage :: "token_field \<Rightarrow> int"
  iu_reported_calls :: int
  iu_total_calls :: int
  iu_total_derived :: bool

text \<open>The dictionary of a record.\<close>

definition usage_json :: "usage \<Rightarrow> json" where
  "usage_json u = JObj ([(''schema'', JStr USAGE_SCHEMA), (''status'', JStr (iu_status u)), (''source'', JStr (iu_source u))]
     @ map (\<lambda>f. (token_key f, json_opt JInt (iu_counts u f))) TOKEN_FIELDS
     @ [(''field_reported_calls'', JObj (map (\<lambda>f. (token_key f, JInt (iu_coverage u f))) TOKEN_FIELDS)),
        (''reported_calls'', JInt (iu_reported_calls u)), (''total_calls'', JInt (iu_total_calls u)),
        (''total_tokens_derived'', JBool (iu_total_derived u))])"

text \<open>A loop over the token fields that may raise.\<close>

definition each_field :: "(token_field \<Rightarrow> string + 'v) \<Rightarrow> string + (token_field \<Rightarrow> 'v)" where
  "each_field g =
     res_bind (g Input_Tokens) (\<lambda>i. res_bind (g Output_Tokens) (\<lambda>out. res_bind (g Total_Tokens) (\<lambda>t.
     res_bind (g Cached_Input_Tokens) (\<lambda>c. res_bind (g Reasoning_Tokens) (\<lambda>r.
     Inr (\<lambda>f. case f of Input_Tokens \<Rightarrow> i | Output_Tokens \<Rightarrow> out | Total_Tokens \<Rightarrow> t | Cached_Input_Tokens \<Rightarrow> c
       | Reasoning_Tokens \<Rightarrow> r))))))"

definition nonnegative_int :: "json option \<Rightarrow> string + int option" where
  "nonnegative_int v = (case v of None \<Rightarrow> Inr None | Some JNull \<Rightarrow> Inr None
     | Some (JInt i) \<Rightarrow> if i < 0 then Inl ''token counts must be non-negative integers'' else Inr (Some i)
     | _ \<Rightarrow> Inl ''token counts must be non-negative integers'')"

section \<open>One call\<close>

definition unavailable_usage :: "string \<Rightarrow> usage" where
  "unavailable_usage source = \<lparr>iu_status = ''unavailable'', iu_source = source, iu_counts = (\<lambda>f. None), iu_coverage = (\<lambda>f. 0),
     iu_reported_calls = 0, iu_total_calls = 1, iu_total_derived = False\<rparr>"

text \<open>The value of the first key that is present.\<close>

fun first_of :: "json \<Rightarrow> string list \<Rightarrow> json option" where
  "first_of m [] = None"
| "first_of m (k # ks) = (case json_get m k of Some v \<Rightarrow> Some v | None \<Rightarrow> first_of m ks)"

definition is_object :: "json option \<Rightarrow> bool" where
  "is_object v = (case v of Some (JObj kvs) \<Rightarrow> True | _ \<Rightarrow> False)"

definition details_of :: "json \<Rightarrow> string \<Rightarrow> string \<Rightarrow> json" where
  "details_of raw k1 k2 = (if is_object (json_get raw k1) then the (json_get raw k1)
     else if is_object (json_get raw k2) then the (json_get raw k2) else JObj [])"

definition int_or_zero :: "int option \<Rightarrow> int" where
  "int_or_zero v = (case v of None \<Rightarrow> 0 | Some i \<Rightarrow> i)"

definition or_first :: "int option \<Rightarrow> string + int option \<Rightarrow> string + int option" where
  "or_first v other = (if v = None then other else Inr v)"

text \<open>The token counts; \<open>input_tokens\<close> of a provider that reports its cache apart includes the cache.\<close>

definition cached_counts :: "json \<Rightarrow> json \<Rightarrow> int option \<Rightarrow> string + int option \<times> int option" where
  "cached_counts raw prompt_details input_tokens =
     res_bind (nonnegative_int (json_get raw ''cache_creation_input_tokens'')) (\<lambda>creation.
     res_bind (nonnegative_int (json_get raw ''cache_read_input_tokens'')) (\<lambda>reading.
     if json_get raw ''cache_creation_input_tokens'' \<noteq> None \<or> json_get raw ''cache_read_input_tokens'' \<noteq> None then
       let cached = int_or_zero creation + int_or_zero reading in
       Inr (map_option (\<lambda>i. i + cached) input_tokens, Some cached)
     else
       res_bind (nonnegative_int (first_of raw [''cached_input_tokens'', ''cachedInputTokens''])) (\<lambda>cached.
       res_bind (or_first cached (nonnegative_int (first_of prompt_details [''cached_tokens'', ''cache_read_tokens'']))) (\<lambda>cached.
       Inr (input_tokens, cached)))))"

definition provider_counts :: "json \<Rightarrow> string + (token_field \<Rightarrow> int option)" where
  "provider_counts raw =
    (let prompt_details = details_of raw ''prompt_tokens_details'' ''input_tokens_details'';
         completion_details = details_of raw ''completion_tokens_details'' ''output_tokens_details'' in
     res_bind (nonnegative_int (first_of raw [''input_tokens'', ''prompt_tokens'', ''inputTokens''])) (\<lambda>input.
     res_bind (nonnegative_int (first_of raw [''output_tokens'', ''completion_tokens'', ''outputTokens''])) (\<lambda>out.
     res_bind (nonnegative_int (first_of raw [''total_tokens'', ''totalTokens''])) (\<lambda>total.
     res_bind (cached_counts raw prompt_details input) (\<lambda>(input, cached).
     res_bind (nonnegative_int (first_of raw [''reasoning_tokens'', ''reasoningTokens''])) (\<lambda>reasoning.
     res_bind (or_first reasoning (nonnegative_int (first_of completion_details [''reasoning_tokens'', ''reasoningTokens''])))
       (\<lambda>reasoning.
     Inr (\<lambda>f. case f of Input_Tokens \<Rightarrow> input | Output_Tokens \<Rightarrow> out | Total_Tokens \<Rightarrow> total | Cached_Input_Tokens \<Rightarrow> cached
       | Reasoning_Tokens \<Rightarrow> reasoning))))))))"

definition call_usage :: "string \<Rightarrow> (token_field \<Rightarrow> int option) \<Rightarrow> usage" where
  "call_usage source counts =
    (if counts Input_Tokens = None \<and> counts Output_Tokens = None \<and> counts Total_Tokens = None then unavailable_usage source
     else let derived = (counts Total_Tokens = None \<and> counts Input_Tokens \<noteq> None \<and> counts Output_Tokens \<noteq> None);
              all_counts = (if derived then counts(Total_Tokens :=
                Some (int_or_zero (counts Input_Tokens) + int_or_zero (counts Output_Tokens))) else counts) in
       \<lparr>iu_status = ''reported'', iu_source = source, iu_counts = all_counts,
        iu_coverage = (\<lambda>f. if all_counts f = None then 0 else 1), iu_reported_calls = 1, iu_total_calls = 1,
        iu_total_derived = derived\<rparr>)"

definition normalize_provider_usage :: "json option \<Rightarrow> string \<Rightarrow> usage" where
  "normalize_provider_usage raw source =
    (case raw of
       Some (JObj kvs) \<Rightarrow> (case provider_counts (JObj kvs) of
          Inl e \<Rightarrow> unavailable_usage (source @ '':invalid'') | Inr counts \<Rightarrow> call_usage source counts)
     | _ \<Rightarrow> unavailable_usage source)"

section \<open>Checking a record\<close>

definition source_start :: "char \<Rightarrow> bool" where
  "source_start c = (97 \<le> code_of c \<and> code_of c \<le> 122 \<or> is_digit c)"

definition source_char :: "char \<Rightarrow> bool" where
  "source_char c = (source_start c \<or> c \<in> set ''._/-'')"

text \<open>\<open>[a-z0-9][a-z0-9._/-]*(?::[a-z0-9._/-]+)?\<close>, at most 160 characters, no secret.\<close>

definition usage_source_ok :: "string \<Rightarrow> bool" where
  "usage_source_ok s =
    (let name = takeWhile (\<lambda>c. c \<noteq> CHR '':'') s; rest = dropWhile (\<lambda>c. c \<noteq> CHR '':'') s in
     s \<noteq> [] \<and> length s \<le> 160 \<and> name \<noteq> [] \<and> source_start (hd name) \<and> list_all source_char name
     \<and> (rest = [] \<or> tl rest \<noteq> [] \<and> list_all source_char (tl rest)) \<and> \<not> contains_secret s)"

definition field_coverage_of :: "json \<Rightarrow> (token_field \<Rightarrow> int option) \<Rightarrow> int \<Rightarrow> string + (token_field \<Rightarrow> int)" where
  "field_coverage_of v counts reported_calls =
    (case json_get v ''field_reported_calls'' of
       None \<Rightarrow> Inr (\<lambda>f. if counts f = None then 0 else reported_calls)
     | Some JNull \<Rightarrow> Inr (\<lambda>f. if counts f = None then 0 else reported_calls)
     | Some (JObj kvs) \<Rightarrow>
         res_require (set (map fst kvs) = set (map token_key TOKEN_FIELDS)) ''field_reported_calls must contain every token field''
        (each_field (\<lambda>f. res_bind (nonnegative_int (json_get (JObj kvs) (token_key f))) (\<lambda>count.
           case count of None \<Rightarrow> Inl ''field usage coverage exceeds reported calls''
           | Some n \<Rightarrow> res_require (n \<le> reported_calls) ''field usage coverage exceeds reported calls'' (Inr n))))
     | _ \<Rightarrow> Inl ''field_reported_calls must contain every token field'')"

definition has_tokens :: "(token_field \<Rightarrow> int option) \<Rightarrow> bool" where
  "has_tokens counts = (counts Input_Tokens \<noteq> None \<or> counts Output_Tokens \<noteq> None \<or> counts Total_Tokens \<noteq> None)"

definition check_status :: "string \<Rightarrow> (token_field \<Rightarrow> int option) \<Rightarrow> (token_field \<Rightarrow> int) \<Rightarrow> int \<Rightarrow> int \<Rightarrow> string + unit" where
  "check_status status counts coverage reported_calls total_calls =
     res_bind (if status = ''unavailable''
       then res_require (\<not> (reported_calls \<noteq> 0 \<or> list_ex (\<lambda>f. counts f \<noteq> None) TOKEN_FIELDS
          \<or> list_ex (\<lambda>f. coverage f \<noteq> 0) TOKEN_FIELDS)) ''unavailable usage cannot claim token counts'' (Inr ())
       else res_require (\<not> (reported_calls < 1 \<or> \<not> has_tokens counts)) ''reported usage requires provider token evidence'' (Inr ())) (\<lambda>_.
     res_require (\<not> (status = ''reported'' \<and> reported_calls \<noteq> total_calls)) ''fully reported usage must cover every call''
    (res_require (\<not> (status = ''partial'' \<and> \<not> (0 < reported_calls \<and> reported_calls < total_calls)))
       ''partial usage requires incomplete call coverage'' (Inr ())))"

definition check_derived :: "json \<Rightarrow> (token_field \<Rightarrow> int option) \<Rightarrow> string + bool" where
  "check_derived v counts =
    (case (case json_get v ''total_tokens_derived'' of None \<Rightarrow> JBool False | Some j \<Rightarrow> j) of
       JBool False \<Rightarrow> Inr False
     | JBool True \<Rightarrow> (case (counts Input_Tokens, counts Output_Tokens, counts Total_Tokens) of
          (Some i, Some out, Some t) \<Rightarrow> res_require (t = i + out) ''derived total does not equal input plus output tokens'' (Inr True)
        | _ \<Rightarrow> Inl ''derived total requires input, output, and total tokens'')
     | _ \<Rightarrow> Inl ''total_tokens_derived must be a boolean'')"

definition validate_usage :: "json \<Rightarrow> string + usage" where
  "validate_usage v =
     res_require (json_get v ''schema'' = Some (JStr USAGE_SCHEMA)) ''unsupported inference usage schema''
    (let status = json_str_or_empty (json_get v ''status'') in
     res_require (status \<in> set USAGE_STATUSES) ''unsupported inference usage status''
    (let source = py_strip (json_str_or_empty (json_get v ''source'')) in
     res_require (usage_source_ok source) ''inference usage source is invalid''
    (res_bind (each_field (\<lambda>f. nonnegative_int (json_get v (token_key f)))) (\<lambda>counts.
     res_bind (nonnegative_int (json_get v ''reported_calls'')) (\<lambda>reported.
     res_bind (nonnegative_int (json_get v ''total_calls'')) (\<lambda>total.
     case reported of None \<Rightarrow> Inl ''inference usage call counts are invalid'' | Some reported_calls \<Rightarrow>
    (case total of None \<Rightarrow> Inl ''inference usage call counts are invalid'' | Some total_calls \<Rightarrow>
       res_require (1 \<le> total_calls) ''inference usage call counts are invalid''
      (res_require (reported_calls \<le> total_calls) ''reported usage calls exceed total calls''
      (res_bind (field_coverage_of v counts reported_calls) (\<lambda>coverage.
       res_require (list_all (\<lambda>f. counts f = None \<longleftrightarrow> coverage f = 0) TOKEN_FIELDS)
         ''token value and field usage coverage disagree''
      (res_bind (check_status status counts coverage reported_calls total_calls) (\<lambda>_.
       res_bind (check_derived v counts) (\<lambda>derived.
       Inr \<lparr>iu_status = status, iu_source = source, iu_counts = counts, iu_coverage = coverage,
         iu_reported_calls = reported_calls, iu_total_calls = total_calls, iu_total_derived = derived\<rparr>)))))))))))))"

section \<open>Many calls\<close>

definition sum_counts :: "token_field \<Rightarrow> usage list \<Rightarrow> int" where
  "sum_counts f us = sum_list (map (\<lambda>u. int_or_zero (iu_counts u f)) us)"

definition sum_usage :: "string \<Rightarrow> usage list \<Rightarrow> usage" where
  "sum_usage source us =
    (let total_calls = sum_list (map iu_total_calls us); reported_calls = sum_list (map iu_reported_calls us);
         coverage = (\<lambda>f. sum_list (map (\<lambda>u. iu_coverage u f) us));
         bearing = filter (\<lambda>u. iu_counts u Total_Tokens \<noteq> None) us in
     if reported_calls = 0 then (unavailable_usage source)\<lparr>iu_total_calls := total_calls\<rparr>
     else \<lparr>iu_status = (if reported_calls = total_calls then ''reported'' else ''partial''), iu_source = source,
       iu_counts = (\<lambda>f. if coverage f = 0 then None else Some (sum_counts f us)), iu_coverage = coverage,
       iu_reported_calls = reported_calls, iu_total_calls = total_calls,
       iu_total_derived = (bearing \<noteq> [] \<and> list_all iu_total_derived bearing)\<rparr>)"

definition aggregate_usage :: "json list \<Rightarrow> string \<Rightarrow> string + usage" where
  "aggregate_usage records source =
    (if records = [] then Inr (unavailable_usage source)
     else res_bind (res_map validate_usage records) (\<lambda>us. Inr (sum_usage source us)))"

text \<open>The usage of a receipt: only a valid canonical record counts.\<close>

definition usage_from_receipt :: "json \<Rightarrow> usage" where
  "usage_from_receipt receipt =
    (case json_get receipt ''usage'' of
       Some (JObj kvs) \<Rightarrow> (case validate_usage (JObj kvs) of
          Inl e \<Rightarrow> unavailable_usage ''runner-receipt-usage-invalid'' | Inr u \<Rightarrow> u)
     | _ \<Rightarrow> unavailable_usage ''runner-receipt-not-reported'')"

section \<open>The sessions of the native command line clients\<close>

text \<open>\<open>managed_agents.py\<close>: the usage in a terminal event of a Codex or Claude Code session, the records a
  session keeps of its turns, and the usage its snapshot reports. A result of \<open>None\<close> is Python's \<open>None\<close>.\<close>

definition MAX_USAGE_RECORDS_PER_SESSION :: nat where "MAX_USAGE_RECORDS_PER_SESSION = 16"

definition json_get_or_null :: "json \<Rightarrow> string \<Rightarrow> json" where
  "json_get_or_null m k = (case json_get m k of None \<Rightarrow> JNull | Some v \<Rightarrow> v)"

definition codex_usage :: "json \<Rightarrow> usage option" where
  "codex_usage payload =
    (if \<not> is_object (json_get payload ''usage'') then None
     else let raw = the (json_get payload ''usage'') in
       Some (normalize_provider_usage (Some (JObj [(''input_tokens'', json_get_or_null raw ''input_tokens''),
         (''output_tokens'', json_get_or_null raw ''output_tokens''),
         (''cached_input_tokens'', json_get_or_null raw ''cached_input_tokens''),
         (''reasoning_tokens'', json_get_or_null raw ''reasoning_output_tokens'')])) ''codex-exec-jsonl''))"

definition claude_usage :: "json \<Rightarrow> string + usage option" where
  "claude_usage payload =
    (if is_object (json_get payload ''usage'')
     then Inr (Some (normalize_provider_usage (json_get payload ''usage'') ''claude-stream-json''))
     else case json_get payload ''modelUsage'' of
       Some (JObj kvs) \<Rightarrow>
         (let records = map (\<lambda>v. normalize_provider_usage (Some v) ''claude-stream-json:model-usage'')
                (filter (\<lambda>v. is_object (Some v)) (take MAX_USAGE_RECORDS_PER_SESSION (map snd kvs))) in
          if records = [] then Inr None
          else res_bind (aggregate_usage (map usage_json records) ''claude-stream-json:model-usage'') (\<lambda>u. Inr (Some u)))
     | _ \<Rightarrow> Inr None)"

definition record_usage :: "usage option \<Rightarrow> usage list \<times> bool \<Rightarrow> usage list \<times> bool" where
  "record_usage u session =
    (case u of None \<Rightarrow> session
     | Some u \<Rightarrow> if MAX_USAGE_RECORDS_PER_SESSION \<le> length (fst session) then (fst session, True)
         else (fst session @ [u], snd session))"

definition usage_snapshot :: "string \<Rightarrow> usage list \<Rightarrow> string + usage" where
  "usage_snapshot agent_id records =
    (if records = [] then Inr (unavailable_usage ''managed-agent-event-not-reported'')
     else aggregate_usage (map usage_json records) (agent_id @ ''-managed-session''))"

end
