(* ===== verification/UsageProperties.thy ===== *)
theory UsageProperties
  imports Usage
begin

text \<open>
  Usage records: what a validated record is, that its JSON form is read back as it is, and when the sum
  over several calls is a valid record again.
\<close>

section \<open>Text\<close>

lemma py_strip_plain: "list_all (\<lambda>c. \<not> py_space c) s \<Longrightarrow> py_strip s = s"
proof -
  have drop: "list_all (\<lambda>c. \<not> py_space c) xs \<Longrightarrow> dropWhile py_space xs = xs" for xs by (cases xs) simp_all
  then show "list_all (\<lambda>c. \<not> py_space c) s \<Longrightarrow> py_strip s = s"
    using drop [of "rev s"] by (simp add: py_strip_def list_all_iff)
qed

lemma source_char_plain: "source_char c \<Longrightarrow> \<not> py_space c"
  by (auto simp: source_char_def source_start_def is_digit_def py_space_def Let_def)

lemma source_ok_plain:
  assumes "usage_source_ok s"
  shows "py_strip s = s" "s \<noteq> []"
proof -
  let ?p = "\<lambda>c. c \<noteq> CHR '':''"
  have "list_all (\<lambda>c. \<not> py_space c) (takeWhile ?p s)"
    using assms source_char_plain by (auto simp: usage_source_ok_def Let_def list_all_iff)
  moreover have "list_all (\<lambda>c. \<not> py_space c) (dropWhile ?p s)"
  proof (cases "dropWhile ?p s")
    case Nil
    then show ?thesis by (simp only: list_all_iff list.set ball_empty)
  next
    case (Cons c cs)
    have "\<not> ?p c" using hd_dropWhile [of ?p s] Cons by simp
    moreover have "list_all (\<lambda>c. \<not> py_space c) cs"
      using assms Cons source_char_plain by (auto simp: usage_source_ok_def Let_def list_all_iff)
    moreover have "\<not> py_space (CHR '':'')" by (simp add: py_space_def)
    ultimately show ?thesis unfolding Cons by simp
  qed
  ultimately have "list_all (\<lambda>c. \<not> py_space c) (takeWhile ?p s @ dropWhile ?p s)" by (simp only: list_all_append)
  then show "py_strip s = s" using py_strip_plain by (simp only: takeWhile_dropWhile_id)
  show "s \<noteq> []" using assms by (simp add: usage_source_ok_def Let_def)
qed

section \<open>Fields\<close>

lemma all_fields: "(\<forall>f. P f) \<longleftrightarrow> list_all P TOKEN_FIELDS"
proof -
  have "f \<in> set TOKEN_FIELDS" for f by (cases f) (simp_all add: TOKEN_FIELDS_def)
  then show ?thesis by (auto simp: list_all_iff)
qed

lemma each_field_Inr: "each_field g = Inr h \<longleftrightarrow> (\<forall>f. g f = Inr (h f))"
proof
  assume "each_field g = Inr h"
  then obtain i out t c r where "g Input_Tokens = Inr i" "g Output_Tokens = Inr out" "g Total_Tokens = Inr t"
    "g Cached_Input_Tokens = Inr c" "g Reasoning_Tokens = Inr r" "h = (\<lambda>f. case f of Input_Tokens \<Rightarrow> i | Output_Tokens \<Rightarrow> out
      | Total_Tokens \<Rightarrow> t | Cached_Input_Tokens \<Rightarrow> c | Reasoning_Tokens \<Rightarrow> r)"
    by (auto simp: each_field_def tx_simps)
  then show "\<forall>f. g f = Inr (h f)" by (auto split: token_field.splits)
next
  assume "\<forall>f. g f = Inr (h f)"
  then show "each_field g = Inr h" by (auto simp: each_field_def res_bind_def split: token_field.splits)
qed

lemma nonnegative_int_Inr: "nonnegative_int v = Inr n \<Longrightarrow> nonnegative_int (Some (json_opt JInt n)) = Inr n \<and> (\<forall>i. n = Some i \<longrightarrow> 0 \<le> i)"
  by (auto simp: nonnegative_int_def split: option.splits json.splits if_splits)

lemma nonnegative_int_back: "(\<forall>i. n = Some i \<longrightarrow> 0 \<le> i) \<Longrightarrow> nonnegative_int (Some (json_opt JInt n)) = Inr n"
  by (cases n) (simp_all add: nonnegative_int_def)

section \<open>Valid records\<close>

definition usage_valid :: "usage \<Rightarrow> bool" where
  "usage_valid u \<longleftrightarrow> iu_status u \<in> set USAGE_STATUSES \<and> usage_source_ok (iu_source u)
     \<and> (\<forall>f i. iu_counts u f = Some i \<longrightarrow> 0 \<le> i) \<and> 0 \<le> iu_reported_calls u \<and> 1 \<le> iu_total_calls u
     \<and> iu_reported_calls u \<le> iu_total_calls u
     \<and> (\<forall>f. 0 \<le> iu_coverage u f \<and> iu_coverage u f \<le> iu_reported_calls u \<and> (iu_counts u f = None \<longleftrightarrow> iu_coverage u f = 0))
     \<and> (if iu_status u = ''unavailable'' then iu_reported_calls u = 0
        else 1 \<le> iu_reported_calls u \<and> has_tokens (iu_counts u))
     \<and> (iu_status u = ''reported'' \<longrightarrow> iu_reported_calls u = iu_total_calls u)
     \<and> (iu_status u = ''partial'' \<longrightarrow> iu_reported_calls u < iu_total_calls u)
     \<and> (iu_total_derived u \<longrightarrow> (\<exists>i out. iu_counts u Input_Tokens = Some i \<and> iu_counts u Output_Tokens = Some out
         \<and> iu_counts u Total_Tokens = Some (i + out)))"

lemma check_status_ok: "check_status st counts cov r t = Inr x \<longleftrightarrow>
    (if st = ''unavailable'' then r = 0 \<and> (\<forall>f. counts f = None) \<and> (\<forall>f. cov f = 0) else 1 \<le> r \<and> has_tokens counts)
    \<and> (st = ''reported'' \<longrightarrow> r = t) \<and> (st = ''partial'' \<longrightarrow> 0 < r \<and> r < t)"
  unfolding all_fields by (auto simp: check_status_def tx_simps list_ex_iff list_all_iff)

lemma check_derived_ok: "check_derived v counts = Inr d \<Longrightarrow>
    d \<longrightarrow> (\<exists>i out. counts Input_Tokens = Some i \<and> counts Output_Tokens = Some out \<and> counts Total_Tokens = Some (i + out))"
  by (auto simp: check_derived_def tx_simps split: option.splits json.splits bool.splits)

lemma field_coverage_ok:
  assumes "field_coverage_of v counts r = Inr cov" and "0 \<le> r"
  shows "0 \<le> cov f \<and> cov f \<le> r"
  using assms nonnegative_int_Inr
  by (auto simp: field_coverage_of_def tx_simps each_field_Inr split: option.splits json.splits if_splits) metis+

lemma option_case_Inr: "(case x of None \<Rightarrow> Inl e | Some y \<Rightarrow> g y) = Inr z \<longleftrightarrow> (\<exists>y. x = Some y \<and> g y = Inr z)"
  by (cases x) simp_all

lemma validate_usage_parts:
  assumes "validate_usage v = Inr u"
  obtains counts r t cov where "iu_status u \<in> set USAGE_STATUSES" "usage_source_ok (iu_source u)"
    "each_field (\<lambda>f. nonnegative_int (json_get v (token_key f))) = Inr counts"
    "nonnegative_int (json_get v ''reported_calls'') = Inr (Some r)" "1 \<le> t" "r \<le> t"
    "field_coverage_of v counts r = Inr cov" "list_all (\<lambda>f. counts f = None \<longleftrightarrow> cov f = 0) TOKEN_FIELDS"
    "check_status (iu_status u) counts cov r t = Inr ()" "check_derived v counts = Inr (iu_total_derived u)"
    "iu_counts u = counts" "iu_coverage u = cov" "iu_reported_calls u = r" "iu_total_calls u = t"
  using assms
  by (clarsimp simp: validate_usage_def Let_def tx_simps option_case_Inr)

lemma validated_usage:
  assumes "validate_usage v = Inr u"
  shows "usage_valid u"
proof -
  obtain counts r t cov where src: "iu_status u \<in> set USAGE_STATUSES" "usage_source_ok (iu_source u)"
    and counts: "each_field (\<lambda>f. nonnegative_int (json_get v (token_key f))) = Inr counts"
    and calls: "nonnegative_int (json_get v ''reported_calls'') = Inr (Some r)" "1 \<le> t" "r \<le> t"
    and cov: "field_coverage_of v counts r = Inr cov" "list_all (\<lambda>f. counts f = None \<longleftrightarrow> cov f = 0) TOKEN_FIELDS"
    and st: "check_status (iu_status u) counts cov r t = Inr ()" and d: "check_derived v counts = Inr (iu_total_derived u)"
    and u: "iu_counts u = counts" "iu_coverage u = cov" "iu_reported_calls u = r" "iu_total_calls u = t"
    using assms by (rule validate_usage_parts)
  have r: "0 \<le> r" using nonnegative_int_Inr [OF calls(1)] by simp
  have "\<forall>f i. counts f = Some i \<longrightarrow> 0 \<le> i" using counts nonnegative_int_Inr unfolding each_field_Inr by blast
  moreover have "\<forall>f. 0 \<le> cov f \<and> cov f \<le> r \<and> (counts f = None \<longleftrightarrow> cov f = 0)"
    using field_coverage_ok [OF cov(1) r] cov(2) unfolding all_fields by (simp add: list_all_iff)
  ultimately show ?thesis
    using src calls(2,3) r st check_derived_ok [OF d] unfolding usage_valid_def u check_status_ok by (auto split: if_splits)
qed

lemma usage_json_get:
  "json_get (usage_json u) ''schema'' = Some (JStr USAGE_SCHEMA)" "json_get (usage_json u) ''status'' = Some (JStr (iu_status u))"
  "json_get (usage_json u) ''source'' = Some (JStr (iu_source u))"
  "json_get (usage_json u) (token_key f) = Some (json_opt JInt (iu_counts u f))"
  "json_get (usage_json u) ''field_reported_calls'' = Some (JObj (map (\<lambda>f. (token_key f, JInt (iu_coverage u f))) TOKEN_FIELDS))"
  "json_get (usage_json u) ''reported_calls'' = Some (JInt (iu_reported_calls u))"
  "json_get (usage_json u) ''total_calls'' = Some (JInt (iu_total_calls u))"
  "json_get (usage_json u) ''total_tokens_derived'' = Some (JBool (iu_total_derived u))"
  "json_get (JObj (map (\<lambda>f. (token_key f, JInt (iu_coverage u f))) TOKEN_FIELDS)) (token_key f) = Some (JInt (iu_coverage u f))"
  by (cases f; simp add: usage_json_def TOKEN_FIELDS_def)+

lemma coverage_back:
  assumes "\<And>f. 0 \<le> iu_coverage u f \<and> iu_coverage u f \<le> iu_reported_calls u"
  shows "field_coverage_of (usage_json u) (iu_counts u) (iu_reported_calls u) = Inr (iu_coverage u)"
proof -
  have "each_field (\<lambda>f. res_bind (nonnegative_int (Some (JInt (iu_coverage u f)))) (\<lambda>count.
      case count of None \<Rightarrow> Inl ''field usage coverage exceeds reported calls''
      | Some n \<Rightarrow> if n \<le> iu_reported_calls u then Inr n else Inl ''field usage coverage exceeds reported calls'')) = Inr (iu_coverage u)"
    unfolding each_field_Inr using assms by (auto simp: nonnegative_int_def res_bind_def not_less)
  moreover have "map_of (map (\<lambda>f. (token_key f, JInt (iu_coverage u f))) TOKEN_FIELDS) (token_key f) = Some (JInt (iu_coverage u f))" for f
    using usage_json_get(9) [of u f] by simp
  ultimately show ?thesis
    by (simp add: field_coverage_of_def usage_json_get res_require_def comp_def)
qed

lemma derived_back:
  assumes "usage_valid u"
  shows "check_derived (usage_json u) (iu_counts u) = Inr (iu_total_derived u)"
  using assms by (cases "iu_total_derived u") (auto simp: check_derived_def usage_json_get usage_valid_def res_require_def)

lemma validate_json:
  assumes "iu_status u \<in> set USAGE_STATUSES" "usage_source_ok (iu_source u)" "\<And>f i. iu_counts u f = Some i \<Longrightarrow> 0 \<le> i"
    "0 \<le> iu_reported_calls u" "1 \<le> iu_total_calls u" "iu_reported_calls u \<le> iu_total_calls u"
    "\<And>f. 0 \<le> iu_coverage u f \<and> iu_coverage u f \<le> iu_reported_calls u" "\<And>f. iu_counts u f = None \<longleftrightarrow> iu_coverage u f = 0"
  shows "validate_usage (usage_json u) =
    res_bind (check_status (iu_status u) (iu_counts u) (iu_coverage u) (iu_reported_calls u) (iu_total_calls u)) (\<lambda>_.
    res_bind (check_derived (usage_json u) (iu_counts u)) (\<lambda>derived. Inr (u\<lparr>iu_total_derived := derived\<rparr>)))"
proof -
  have texts: "json_str_or_empty (Some (JStr (iu_status u))) = iu_status u" "json_str_or_empty (Some (JStr (iu_source u))) = iu_source u"
    by (auto simp: json_str_or_empty_def py_str_def)
  have counts: "each_field (\<lambda>f. nonnegative_int (Some (json_opt JInt (iu_counts u f)))) = Inr (iu_counts u)"
    unfolding each_field_Inr using assms(3) nonnegative_int_back by blast
  have calls: "nonnegative_int (Some (JInt (iu_reported_calls u))) = Inr (Some (iu_reported_calls u))"
    "nonnegative_int (Some (JInt (iu_total_calls u))) = Inr (Some (iu_total_calls u))"
    using assms by (simp_all add: nonnegative_int_def)
  have cov: "list_all (\<lambda>f. iu_counts u f = None \<longleftrightarrow> iu_coverage u f = 0) TOKEN_FIELDS"
    using assms(8) by (simp add: list_all_iff)
  show ?thesis
    using assms(1,2,5,6) source_ok_plain(1) [of "iu_source u"] cov
    by (simp add: validate_usage_def usage_json_get texts counts calls coverage_back [OF assms(7)] res_bind_def res_require_def Let_def
        split: sum.split)
qed

lemma valid_usage_back:
  assumes "usage_valid u"
  shows "validate_usage (usage_json u) = Inr u"
proof -
  have "(if iu_status u = ''unavailable'' then iu_reported_calls u = 0 \<and> (\<forall>f. iu_counts u f = None) \<and> (\<forall>f. iu_coverage u f = 0)
      else 1 \<le> iu_reported_calls u \<and> has_tokens (iu_counts u))"
    using assms by (auto simp: usage_valid_def split: if_splits)
  then have st: "check_status (iu_status u) (iu_counts u) (iu_coverage u) (iu_reported_calls u) (iu_total_calls u) = Inr ()"
    unfolding check_status_ok using assms by (auto simp: usage_valid_def)
  have "validate_usage (usage_json u) = res_bind (Inr ()) (\<lambda>_. res_bind (Inr (iu_total_derived u)) (\<lambda>derived.
      Inr (u\<lparr>iu_total_derived := derived\<rparr>)))"
    unfolding st [symmetric] derived_back [OF assms, symmetric]
    using assms by (intro validate_json) (auto simp: usage_valid_def)
  then show ?thesis by (simp add: res_bind_def)
qed

text \<open>C37: A validated usage record is canonical: its JSON form is validated again and read back as it is,
  and it claims tokens only for calls that were reported.\<close>

theorem usage_reads_back:
  assumes "validate_usage v = Inr u"
  shows "validate_usage (usage_json u) = Inr u \<and> iu_reported_calls u \<le> iu_total_calls u
    \<and> (\<forall>f. (iu_counts u f = None \<longleftrightarrow> iu_coverage u f = 0) \<and> iu_coverage u f \<le> iu_reported_calls u)
    \<and> (iu_status u = ''unavailable'' \<longleftrightarrow> iu_reported_calls u = 0)"
  using valid_usage_back [OF validated_usage [OF assms]] validated_usage [OF assms] by (auto simp: usage_valid_def split: if_splits)


section \<open>Sums\<close>

lemma sum_list_positive:
  assumes "\<forall>x\<in>set xs. 0 \<le> (g x :: int)"
  shows "0 \<le> sum_list (map g xs)" and "0 < sum_list (map g xs) \<longleftrightarrow> (\<exists>x\<in>set xs. 0 < g x)"
    and "sum_list (map g xs) = 0 \<longleftrightarrow> (\<forall>x\<in>set xs. g x = 0)"
  using assms by (induction xs) force+

lemma sum_list_below: "\<forall>x\<in>set xs. g x \<le> (h x :: int) \<Longrightarrow> sum_list (map g xs) \<le> sum_list (map h xs)"
  by (induction xs) (simp_all add: add_mono)

lemma sum_list_split: "\<forall>x\<in>set xs. (t x :: int) = i x + w x \<Longrightarrow> sum_list (map t xs) = sum_list (map i xs) + sum_list (map w xs)"
  by (induction xs) simp_all

text \<open>Every call whose input or output was counted also has a total.\<close>

definition totals_complete :: "usage list \<Rightarrow> bool" where
  "totals_complete us \<longleftrightarrow> (\<forall>u\<in>set us. iu_counts u Total_Tokens = None \<longrightarrow> iu_counts u Input_Tokens = None \<and> iu_counts u Output_Tokens = None)"

lemma valid_coverage:
  assumes "usage_valid u"
  shows "0 \<le> iu_coverage u f" "iu_coverage u f \<le> iu_reported_calls u" "iu_counts u f = None \<longleftrightarrow> iu_coverage u f = 0"
    "0 \<le> iu_reported_calls u" "iu_reported_calls u \<le> iu_total_calls u" "1 \<le> iu_total_calls u" "0 \<le> int_or_zero (iu_counts u f)"
    "0 < iu_reported_calls u \<Longrightarrow> has_tokens (iu_counts u)"
  using assms by (auto simp: usage_valid_def int_or_zero_def split: option.splits if_splits)

lemma sum_derived:
  assumes valid: "\<forall>u\<in>set us. usage_valid u" and totals: "totals_complete us"
    and d: "\<forall>u\<in>set us. iu_counts u Total_Tokens \<noteq> None \<longrightarrow> iu_total_derived u"
    and some: "\<exists>u\<in>set us. iu_counts u Total_Tokens \<noteq> None"
  shows "sum_counts Total_Tokens us = sum_counts Input_Tokens us + sum_counts Output_Tokens us"
    and "\<forall>f\<in>{Input_Tokens, Output_Tokens, Total_Tokens}. sum_list (map (\<lambda>u. iu_coverage u f) us) \<noteq> 0"
proof -
  have "int_or_zero (iu_counts u Total_Tokens) = int_or_zero (iu_counts u Input_Tokens) + int_or_zero (iu_counts u Output_Tokens)"
    if u: "u \<in> set us" for u
  proof (cases "iu_counts u Total_Tokens")
    case None
    then show ?thesis using totals u by (simp add: totals_complete_def int_or_zero_def)
  next
    case (Some t)
    then show ?thesis using d u valid by (force simp: usage_valid_def int_or_zero_def)
  qed
  then show "sum_counts Total_Tokens us = sum_counts Input_Tokens us + sum_counts Output_Tokens us"
    unfolding sum_counts_def by (intro sum_list_split) blast
  obtain u where u: "u \<in> set us" "iu_counts u Total_Tokens \<noteq> None" "iu_total_derived u" using some d by blast
  have vu: "usage_valid u" using valid u(1) by blast
  then obtain i out where "iu_counts u Input_Tokens = Some i" "iu_counts u Output_Tokens = Some out"
    using u(3) unfolding usage_valid_def by blast
  then have "iu_coverage u f \<noteq> 0" if "f \<in> {Input_Tokens, Output_Tokens, Total_Tokens}" for f
    using that u(2) valid_coverage(3) [OF vu, of f] by auto
  then have pos: "\<forall>f\<in>{Input_Tokens, Output_Tokens, Total_Tokens}. \<exists>x\<in>set us. iu_coverage x f \<noteq> 0" using u(1) by blast
  have "sum_list (map (\<lambda>u. iu_coverage u f) us) = 0 \<longleftrightarrow> (\<forall>x\<in>set us. iu_coverage x f = 0)" for f
    using sum_list_positive(3) [of us "\<lambda>u. iu_coverage u f"] valid valid_coverage(1) by blast
  then show "\<forall>f\<in>{Input_Tokens, Output_Tokens, Total_Tokens}. sum_list (map (\<lambda>u. iu_coverage u f) us) \<noteq> 0"
    using pos by blast
qed

lemma sum_has_tokens:
  assumes valid: "\<forall>u\<in>set us. usage_valid u" and some: "sum_list (map iu_reported_calls us) \<noteq> 0"
  shows "\<exists>f\<in>{Input_Tokens, Output_Tokens, Total_Tokens}. sum_list (map (\<lambda>u. iu_coverage u f) us) \<noteq> 0"
proof -
  obtain u where u: "u \<in> set us" "iu_reported_calls u \<noteq> 0"
    using some sum_list_positive(3) [of us iu_reported_calls] valid valid_coverage(4) by blast
  then have "has_tokens (iu_counts u)" using valid valid_coverage(4,8) by force
  then obtain f where f: "f \<in> {Input_Tokens, Output_Tokens, Total_Tokens}" "iu_coverage u f \<noteq> 0"
    using valid u(1) valid_coverage(3) by (auto simp: has_tokens_def)
  have "sum_list (map (\<lambda>u. iu_coverage u f) us) = 0 \<longleftrightarrow> (\<forall>x\<in>set us. iu_coverage x f = 0)"
    using sum_list_positive(3) [of us "\<lambda>u. iu_coverage u f"] valid valid_coverage(1) by blast
  then show ?thesis using f u(1) by blast
qed

lemma sum_calls:
  assumes "\<forall>u\<in>set us. usage_valid u" and "us \<noteq> []"
  shows "1 \<le> sum_list (map iu_total_calls us)" "0 \<le> sum_list (map iu_reported_calls us)"
    "sum_list (map iu_reported_calls us) \<le> sum_list (map iu_total_calls us)"
    "0 \<le> sum_list (map (\<lambda>u. iu_coverage u f) us)" "sum_list (map (\<lambda>u. iu_coverage u f) us) \<le> sum_list (map iu_reported_calls us)"
    "0 \<le> sum_counts f us"
proof -
  obtain u where "u \<in> set us" using assms(2) by (cases us) auto
  moreover have "\<forall>u\<in>set us. 1 \<le> iu_total_calls u" using assms(1) valid_coverage(6) by blast
  ultimately show "1 \<le> sum_list (map iu_total_calls us)"
    using sum_list_positive(2) [of us iu_total_calls] by force
  show "0 \<le> sum_list (map iu_reported_calls us)" using assms(1) valid_coverage(4) sum_list_positive(1) by metis
  show "sum_list (map iu_reported_calls us) \<le> sum_list (map iu_total_calls us)"
    using assms(1) valid_coverage(5) by (intro sum_list_below) blast
  show "0 \<le> sum_list (map (\<lambda>u. iu_coverage u f) us)"
    using assms(1) valid_coverage(1) by (intro sum_list_positive(1)) blast
  show "sum_list (map (\<lambda>u. iu_coverage u f) us) \<le> sum_list (map iu_reported_calls us)"
    using assms(1) valid_coverage(2) by (intro sum_list_below) blast
  show "0 \<le> sum_counts f us"
    unfolding sum_counts_def using assms(1) valid_coverage(7) by (intro sum_list_positive(1)) blast
qed

lemma sum_usage_valid:
  assumes valid: "\<forall>u\<in>set us. usage_valid u" and some: "us \<noteq> []" and source: "usage_source_ok source" and totals: "totals_complete us"
  shows "usage_valid (sum_usage source us)"
proof (cases "sum_list (map iu_reported_calls us) = 0")
  case True
  then show ?thesis
    using sum_calls(1) [OF valid some] source
    by (simp add: sum_usage_def unavailable_usage_def usage_valid_def USAGE_STATUSES_def)
next
  case False
  have derived: "\<exists>i out. iu_counts (sum_usage source us) Input_Tokens = Some i \<and> iu_counts (sum_usage source us) Output_Tokens = Some out
      \<and> iu_counts (sum_usage source us) Total_Tokens = Some (i + out)" if "iu_total_derived (sum_usage source us)"
  proof -
    have "\<forall>u\<in>set us. iu_counts u Total_Tokens \<noteq> None \<longrightarrow> iu_total_derived u" "\<exists>u\<in>set us. iu_counts u Total_Tokens \<noteq> None"
      using that False by (auto simp: sum_usage_def Let_def list_all_iff filter_empty_conv)
    from sum_derived [OF valid totals this] show ?thesis using False by (simp add: sum_usage_def Let_def)
  qed
  have tokens: "has_tokens (iu_counts (sum_usage source us))"
    using sum_has_tokens [OF valid False] False by (auto simp: has_tokens_def sum_usage_def Let_def)
  have parts: "iu_status (sum_usage source us) = (if sum_list (map iu_reported_calls us) = sum_list (map iu_total_calls us) then ''reported'' else ''partial'')"
    "iu_source (sum_usage source us) = source" "iu_reported_calls (sum_usage source us) = sum_list (map iu_reported_calls us)"
    "iu_total_calls (sum_usage source us) = sum_list (map iu_total_calls us)"
    "iu_coverage (sum_usage source us) = (\<lambda>f. sum_list (map (\<lambda>u. iu_coverage u f) us))"
    "iu_counts (sum_usage source us) = (\<lambda>f. if sum_list (map (\<lambda>u. iu_coverage u f) us) = 0 then None else Some (sum_counts f us))"
    using False by (simp_all add: sum_usage_def Let_def)
  show ?thesis
    using derived tokens sum_calls [OF valid some] source False unfolding usage_valid_def parts
    by (auto simp: USAGE_STATUSES_def less_le)
qed

lemma validated_list:
  assumes "res_map validate_usage records = Inr us"
  shows "\<forall>u\<in>set us. usage_valid u" and "length us = length records"
proof -
  have all2: "list_all2 (\<lambda>v u. validate_usage v = Inr u) records us" using assms by (simp add: res_map_Inr)
  show "length us = length records" using all2 by (simp add: list_all2_lengthD)
  show "\<forall>u\<in>set us. usage_valid u"
    using all2 validated_usage by (induction rule: list_all2_induct) auto
qed

text \<open>C38: The sum over a run's calls is a valid record again whenever its source is a valid one and each call
  that counted input or output also has a total. It is read back as it is and covers all calls; every one of
  the five token counts is the sum of the counts of the calls that have it, and absent exactly when no call
  has it, each coverage is the sum of the calls' coverages, and the total is claimed as derived exactly when
  some call has a total and all such totals are derived.\<close>

theorem usage_sum_reads_back:
  assumes "res_map validate_usage records = Inr us" "records \<noteq> []" "usage_source_ok source" "totals_complete us"
    "aggregate_usage records source = Inr u"
  shows "validate_usage (usage_json u) = Inr u \<and> iu_source u = source \<and> iu_total_calls u = sum_list (map iu_total_calls us)
    \<and> iu_reported_calls u = sum_list (map iu_reported_calls us)
    \<and> (\<forall>f. iu_coverage u f = sum_list (map (\<lambda>x. iu_coverage x f) us)
        \<and> iu_counts u f = (if \<exists>x \<in> set us. iu_counts x f \<noteq> None
            then Some (sum_list (List.map_filter (\<lambda>x. iu_counts x f) us)) else None))
    \<and> (iu_total_derived u \<longleftrightarrow> (\<exists>x \<in> set us. iu_counts x Total_Tokens \<noteq> None)
        \<and> (\<forall>x \<in> set us. iu_counts x Total_Tokens \<noteq> None \<longrightarrow> iu_total_derived x))"
proof -
  have valid: "\<forall>x\<in>set us. usage_valid x" and some: "us \<noteq> []" using validated_list [OF assms(1)] assms(2) by auto
  have u: "u = sum_usage source us" using assms(1,2,5) by (simp add: aggregate_usage_def res_bind_def)
  have summed: "sum_counts f us = sum_list (List.map_filter (\<lambda>x. iu_counts x f) us)" for f
    unfolding sum_counts_def by (induction us) (auto simp: map_filter_simps int_or_zero_def split: option.splits)
  have covered: "sum_list (map (\<lambda>x. iu_coverage x f) us) = 0 \<longleftrightarrow> (\<forall>x \<in> set us. iu_counts x f = None)" for f
    using sum_list_positive(3) [of us "\<lambda>x. iu_coverage x f"] valid valid_coverage(1,3) by blast
  have silent: "sum_list (map (\<lambda>x. iu_coverage x f) us) = 0" if "sum_list (map iu_reported_calls us) = 0" for f
    using sum_calls(4,5) [OF valid some, of f] that by simp
  have parts: "iu_source u = source" "iu_total_calls u = sum_list (map iu_total_calls us)"
    "iu_reported_calls u = sum_list (map iu_reported_calls us)" "iu_coverage u f = sum_list (map (\<lambda>x. iu_coverage x f) us)"
    "iu_counts u f = (if sum_list (map (\<lambda>x. iu_coverage x f) us) = 0 then None else Some (sum_counts f us))"
    "iu_total_derived u \<longleftrightarrow> (\<exists>x \<in> set us. iu_counts x Total_Tokens \<noteq> None)
        \<and> (\<forall>x \<in> set us. iu_counts x Total_Tokens \<noteq> None \<longrightarrow> iu_total_derived x)" for f
    using silent [of f] silent [of Total_Tokens] covered [of Total_Tokens] unfolding u
    by (auto simp: sum_usage_def Let_def unavailable_usage_def list_all_iff filter_empty_conv)
  show ?thesis
    using valid_usage_back [OF sum_usage_valid [OF valid some assms(3,4)]] covered summed unfolding u [symmetric]
    by (auto simp: parts)
qed

section \<open>Provider records\<close>

definition nonneg :: "int option \<Rightarrow> bool" where "nonneg v \<longleftrightarrow> 0 \<le> int_or_zero v"

lemma nonneg_int: "nonnegative_int v = Inr n \<Longrightarrow> nonneg n"
  using nonnegative_int_Inr [of v n] by (auto simp: nonneg_def int_or_zero_def split: option.splits)

lemma nonneg_or: "or_first v (nonnegative_int w) = Inr n \<Longrightarrow> nonneg v \<Longrightarrow> nonneg n"
  using nonneg_int by (auto simp: or_first_def split: if_splits)

lemma cached_counts_nonneg:
  assumes "cached_counts raw details input = Inr (i, c)" and "nonneg input"
  shows "nonneg i \<and> nonneg c"
proof -
  obtain a b where ab: "nonnegative_int (json_get raw ''cache_creation_input_tokens'') = Inr a"
    "nonnegative_int (json_get raw ''cache_read_input_tokens'') = Inr b"
    using assms(1) by (auto simp: cached_counts_def tx_simps)
  have pos: "0 \<le> int_or_zero a" "0 \<le> int_or_zero b" using nonneg_int ab by (simp_all add: nonneg_def)
  show ?thesis
  proof (cases "json_get raw ''cache_creation_input_tokens'' \<noteq> None \<or> json_get raw ''cache_read_input_tokens'' \<noteq> None")
    case True
    then have "i = map_option (\<lambda>i. i + (int_or_zero a + int_or_zero b)) input" "c = Some (int_or_zero a + int_or_zero b)"
      using assms(1) ab by (auto simp: cached_counts_def res_bind_def Let_def)
    then show ?thesis using pos assms(2) by (cases input) (simp_all add: nonneg_def int_or_zero_def)
  next
    case False
    then obtain d where "i = input" "nonnegative_int (first_of raw [''cached_input_tokens'', ''cachedInputTokens'']) = Inr d"
      "or_first d (nonnegative_int (first_of details [''cached_tokens'', ''cache_read_tokens''])) = Inr c"
      using assms(1) ab by (auto simp: cached_counts_def tx_simps simp del: first_of.simps)
    then show ?thesis using nonneg_int nonneg_or assms(2) by blast
  qed
qed

lemma provider_counts_nonneg:
  assumes "provider_counts raw = Inr counts"
  shows "nonneg (counts f)"
proof -
  obtain input out total cached reasoning i v w x details more r where
    n: "nonnegative_int v = Inr input" "nonnegative_int w = Inr out" "nonnegative_int x = Inr total"
    and c: "cached_counts raw details input = Inr (i, cached)"
    and r: "nonnegative_int r = Inr more" "or_first more (nonnegative_int (first_of (details_of raw ''completion_tokens_details''
      ''output_tokens_details'') [''reasoning_tokens'', ''reasoningTokens''])) = Inr reasoning"
    and counts: "counts = (\<lambda>f. case f of Input_Tokens \<Rightarrow> i | Output_Tokens \<Rightarrow> out | Total_Tokens \<Rightarrow> total
      | Cached_Input_Tokens \<Rightarrow> cached | Reasoning_Tokens \<Rightarrow> reasoning)"
    using assms by (auto simp: provider_counts_def Let_def tx_simps simp del: first_of.simps)
  have "nonneg input" "nonneg out" "nonneg total" "nonneg reasoning" using nonneg_int n nonneg_or r by blast+
  then show ?thesis using cached_counts_nonneg [OF c] by (cases f) (simp_all add: counts)
qed

lemma call_usage_valid:
  assumes "usage_source_ok source" and "\<And>f. nonneg (counts f)"
  shows "usage_valid (call_usage source counts)"
proof -
  have pos: "0 \<le> i" if "counts f = Some i" for f i using assms(2) [of f] that by (simp add: nonneg_def int_or_zero_def)
  show ?thesis
  proof (cases "has_tokens counts")
    case False
    then show ?thesis
      using assms(1) by (auto simp: call_usage_def has_tokens_def usage_valid_def unavailable_usage_def USAGE_STATUSES_def)
  next
    case True
    have "int_or_zero (counts f) \<ge> 0" for f using assms(2) by (simp add: nonneg_def)
    then have "0 \<le> i" if "(counts(Total_Tokens := Some (int_or_zero (counts Input_Tokens) + int_or_zero (counts Output_Tokens)))) f = Some i" for f i
      using that pos by (auto split: if_splits)
    then show ?thesis
      using True assms(1) pos unfolding call_usage_def Let_def has_tokens_def usage_valid_def
      by (auto simp: USAGE_STATUSES_def int_or_zero_def has_tokens_def)
  qed
qed

lemma normalized_valid:
  assumes "usage_source_ok source" and "\<And>kvs e. raw = Some (JObj kvs) \<Longrightarrow> provider_counts (JObj kvs) = Inl e \<Longrightarrow> usage_source_ok (source @ '':invalid'')"
  shows "usage_valid (normalize_provider_usage raw source)"
proof -
  have un: "usage_source_ok s \<Longrightarrow> usage_valid (unavailable_usage s)" for s
    by (simp add: usage_valid_def unavailable_usage_def USAGE_STATUSES_def)
  show ?thesis
    using assms un call_usage_valid provider_counts_nonneg
    by (auto simp: normalize_provider_usage_def split: option.splits json.splits sum.splits)
qed

section \<open>The clients' records\<close>

lemma client_sources:
  "usage_source_ok ''claude-stream-json:model-usage''" "usage_source_ok ''openai-compatible/chat.completions''"
  by code_simp+

lemma second_colon: "\<not> usage_source_ok ''claude-stream-json:model-usage:invalid''"
  by code_simp

lemma invalid_source_refused:
  assumes "\<not> usage_source_ok source" and "py_strip source = source"
  shows "validate_usage (usage_json (unavailable_usage source)) = Inl ''inference usage source is invalid''"
proof -
  have "json_str_or_empty (Some (JStr source)) = source" by (simp add: json_str_or_empty_def py_str_def)
  moreover have "json_str_or_empty (Some (JStr ''unavailable'')) = ''unavailable''" by (simp add: json_str_or_empty_def py_str_def)
  ultimately show ?thesis
    using assms unfolding validate_usage_def usage_json_get unavailable_usage_def
    by (simp add: res_require_def USAGE_STATUSES_def)
qed

lemma res_map_first:
  assumes "\<forall>x\<in>set xs. (\<exists>y. g x = Inr y) \<or> g x = Inl e" and "\<exists>x\<in>set xs. g x = Inl e"
  shows "res_map g xs = Inl e"
  using assms
proof (induction xs)
  case (Cons x xs)
  show ?case
  proof (cases "g x = Inl e")
    case False
    then have "res_map g xs = Inl e" using Cons by auto
    then show ?thesis using False Cons.prems(1) by (auto simp: res_bind_def)
  qed (simp add: res_bind_def)
qed simp

lemma res_map_map: "res_map g (map f xs) = res_map (\<lambda>x. g (f x)) xs"
  by (induction xs) simp_all

text \<open>C39: A Claude Code result without a \<open>usage\<close> object whose \<open>modelUsage\<close> has a malformed entry among its
  first sixteen raises, whatever the other entries report: the entry is normalized to the source \<open>claude-stream-json:model-usage:invalid\<close>,
  which no usage record may have.\<close>

theorem malformed_model_usage_raises:
  assumes "\<not> is_object (json_get payload ''usage'')" "json_get payload ''modelUsage'' = Some (JObj kvs)"
    "JObj entry \<in> set (take MAX_USAGE_RECORDS_PER_SESSION (map snd kvs))" "provider_counts (JObj entry) = Inl e"
  shows "claude_usage payload = Inl ''inference usage source is invalid''"
proof -
  let ?src = "''claude-stream-json:model-usage''"
  let ?vs = "filter (\<lambda>v. is_object (Some v)) (take MAX_USAGE_RECORDS_PER_SESSION (map snd kvs))"
  let ?norm = "\<lambda>v. usage_json (normalize_provider_usage (Some v) ?src)"
  have strip: "py_strip ''claude-stream-json:model-usage:invalid'' = ''claude-stream-json:model-usage:invalid''" by code_simp
  have bad: "validate_usage (?norm (JObj m)) = Inl ''inference usage source is invalid''" if "provider_counts (JObj m) = Inl x" for m x
    using invalid_source_refused [OF second_colon strip] that by (simp add: normalize_provider_usage_def)
  have one: "(\<exists>y. validate_usage (?norm v) = Inr y) \<or> validate_usage (?norm v) = Inl ''inference usage source is invalid''"
    if mem: "v \<in> set ?vs" for v
  proof -
    have "is_object (Some v)" using mem by simp
    then obtain m where m: "v = JObj m" by (cases v) (simp_all add: is_object_def)
    show ?thesis
    proof (cases "provider_counts (JObj m)")
      case (Inr counts)
      then have "usage_valid (normalize_provider_usage (Some v) ?src)"
        using m by (intro normalized_valid client_sources(1)) simp
      then show ?thesis using valid_usage_back by blast
    qed (use bad m in blast)
  qed
  have here: "JObj entry \<in> set ?vs" using assms(3) by (simp add: is_object_def)
  then have "res_map (\<lambda>v. validate_usage (?norm v)) ?vs = Inl ''inference usage source is invalid''"
    using one bad [OF assms(4)] by (intro res_map_first) blast+
  then show ?thesis
    using assms(1,2) here by (auto simp: claude_usage_def Let_def aggregate_usage_def res_map_map comp_def res_bind_def)
qed

section \<open>Two calls\<close>

text \<open>One call that reports input and output, one that reports input alone; a malformed entry.\<close>

definition full_call :: json where
  "full_call = JObj [(''prompt_tokens'', JInt 9), (''completion_tokens'', JInt 4)]"

definition input_call :: json where "input_call = JObj [(''prompt_tokens'', JInt 3)]"

definition bad_result :: json where
  "bad_result = JObj [(''modelUsage'', JObj [(''m1'', JObj [(''inputTokens'', JInt 9), (''outputTokens'', JInt 4)]),
     (''m2'', JObj [(''inputTokens'', JInt (- 1))])])]"

definition chat_usage :: "json \<Rightarrow> usage" where
  "chat_usage raw = normalize_provider_usage (Some raw) ''openai-compatible/chat.completions''"

lemma chat_usage_back: "validate_usage (usage_json (chat_usage (JObj kvs))) = Inr (chat_usage (JObj kvs))"
  if "\<And>e. provider_counts (JObj kvs) \<noteq> Inl e"
  unfolding chat_usage_def using that by (intro valid_usage_back normalized_valid client_sources(2)) auto

lemma call_records:
  "chat_usage full_call = \<lparr>iu_status = ''reported'', iu_source = ''openai-compatible/chat.completions'',
     iu_counts = (\<lambda>f. case f of Input_Tokens \<Rightarrow> Some 9 | Output_Tokens \<Rightarrow> Some 4 | Total_Tokens \<Rightarrow> Some 13
       | Cached_Input_Tokens \<Rightarrow> None | Reasoning_Tokens \<Rightarrow> None),
     iu_coverage = (\<lambda>f. case f of Input_Tokens \<Rightarrow> 1 | Output_Tokens \<Rightarrow> 1 | Total_Tokens \<Rightarrow> 1 | Cached_Input_Tokens \<Rightarrow> 0
       | Reasoning_Tokens \<Rightarrow> 0), iu_reported_calls = 1, iu_total_calls = 1, iu_total_derived = True\<rparr>"
  "chat_usage input_call = \<lparr>iu_status = ''reported'', iu_source = ''openai-compatible/chat.completions'',
     iu_counts = (\<lambda>f. case f of Input_Tokens \<Rightarrow> Some 3 | Output_Tokens \<Rightarrow> None | Total_Tokens \<Rightarrow> None
       | Cached_Input_Tokens \<Rightarrow> None | Reasoning_Tokens \<Rightarrow> None),
     iu_coverage = (\<lambda>f. case f of Input_Tokens \<Rightarrow> 1 | Output_Tokens \<Rightarrow> 0 | Total_Tokens \<Rightarrow> 0 | Cached_Input_Tokens \<Rightarrow> 0
       | Reasoning_Tokens \<Rightarrow> 0), iu_reported_calls = 1, iu_total_calls = 1, iu_total_derived = False\<rparr>"
  by (simp_all add: chat_usage_def full_call_def input_call_def normalize_provider_usage_def provider_counts_def details_of_def
      is_object_def Let_def res_bind_def nonnegative_int_def cached_counts_def or_first_def call_usage_def int_or_zero_def
      fun_eq_iff split: token_field.splits)

lemma calls_back: "validate_usage (usage_json (chat_usage full_call)) = Inr (chat_usage full_call)"
  "validate_usage (usage_json (chat_usage input_call)) = Inr (chat_usage input_call)"
  unfolding full_call_def input_call_def
  by (intro chat_usage_back; simp add: provider_counts_def details_of_def is_object_def Let_def res_bind_def nonnegative_int_def
      cached_counts_def or_first_def)+

theorem usage_reads_back_witness:
  "validate_usage (usage_json (chat_usage full_call)) = Inr (chat_usage full_call) \<and> iu_reported_calls (chat_usage full_call) = 1"
  using usage_reads_back [OF calls_back(1)] by (simp add: call_records)

lemma sum_full: "aggregate_usage [usage_json (chat_usage full_call), usage_json (chat_usage full_call)] ''openai-compatible/chat.completions''
    = Inr (sum_usage ''openai-compatible/chat.completions'' [chat_usage full_call, chat_usage full_call])"
  by (simp add: aggregate_usage_def res_bind_def calls_back)

theorem usage_sum_reads_back_witness:
  "validate_usage (usage_json (sum_usage ''openai-compatible/chat.completions'' [chat_usage full_call, chat_usage full_call]))
     = Inr (sum_usage ''openai-compatible/chat.completions'' [chat_usage full_call, chat_usage full_call])
   \<and> sum_counts Total_Tokens [chat_usage full_call, chat_usage full_call] = 26"
proof -
  have "res_map validate_usage [usage_json (chat_usage full_call), usage_json (chat_usage full_call)]
      = Inr [chat_usage full_call, chat_usage full_call]" by (simp add: res_bind_def calls_back)
  moreover have "totals_complete [chat_usage full_call, chat_usage full_call]" by (simp add: totals_complete_def call_records)
  ultimately show ?thesis
    using usage_sum_reads_back [OF _ _ client_sources(2) _ sum_full] by (simp add: sum_counts_def call_records int_or_zero_def)
qed

theorem malformed_model_usage_raises_witness:
  "claude_usage bad_result = Inl ''inference usage source is invalid''"
proof (rule malformed_model_usage_raises)
  show "\<not> is_object (json_get bad_result ''usage'')" by (simp add: bad_result_def is_object_def)
  show "json_get bad_result ''modelUsage'' = Some (JObj [(''m1'', JObj [(''inputTokens'', JInt 9), (''outputTokens'', JInt 4)]),
     (''m2'', JObj [(''inputTokens'', JInt (- 1))])])" by (simp add: bad_result_def)
  show "JObj [(''inputTokens'', JInt (- 1))] \<in> set (take MAX_USAGE_RECORDS_PER_SESSION (map snd
      [(''m1'', JObj [(''inputTokens'', JInt 9), (''outputTokens'', JInt 4)]), (''m2'', JObj [(''inputTokens'', JInt (- 1))])]))"
    by (simp add: MAX_USAGE_RECORDS_PER_SESSION_def)
  show "provider_counts (JObj [(''inputTokens'', JInt (- 1))]) = Inl ''token counts must be non-negative integers''"
    by (simp add: provider_counts_def Let_def res_bind_def nonnegative_int_def)
qed

text \<open>C40: The sum of two valid records need not be valid: when one call reports input and output and another
  input alone, the sum claims that its total is derived, although it is not the sum of input and output,
  and a receipt with it counts as a receipt without usage.\<close>

theorem summed_usage_refused:
  "\<exists>u. aggregate_usage [usage_json (chat_usage full_call), usage_json (chat_usage input_call)] ''openai-compatible/chat.completions'' = Inr u
     \<and> validate_usage (usage_json u) = Inl ''derived total does not equal input plus output tokens''
     \<and> usage_from_receipt (JObj [(''usage'', usage_json u)]) = unavailable_usage ''runner-receipt-usage-invalid''"
proof -
  let ?u = "sum_usage ''openai-compatible/chat.completions'' [chat_usage full_call, chat_usage input_call]"
  have agg: "aggregate_usage [usage_json (chat_usage full_call), usage_json (chat_usage input_call)] ''openai-compatible/chat.completions'' = Inr ?u"
    by (simp add: aggregate_usage_def res_bind_def calls_back)
  have parts: "iu_status ?u = ''reported''" "iu_source ?u = ''openai-compatible/chat.completions''"
    "iu_counts ?u = (\<lambda>f. case f of Input_Tokens \<Rightarrow> Some 12 | Output_Tokens \<Rightarrow> Some 4 | Total_Tokens \<Rightarrow> Some 13
       | Cached_Input_Tokens \<Rightarrow> None | Reasoning_Tokens \<Rightarrow> None)"
    "iu_coverage ?u = (\<lambda>f. case f of Input_Tokens \<Rightarrow> 2 | Output_Tokens \<Rightarrow> 1 | Total_Tokens \<Rightarrow> 1 | Cached_Input_Tokens \<Rightarrow> 0
       | Reasoning_Tokens \<Rightarrow> 0)" "iu_reported_calls ?u = 2" "iu_total_calls ?u = 2" "iu_total_derived ?u"
    by (simp_all add: sum_usage_def Let_def call_records sum_counts_def int_or_zero_def fun_eq_iff split: token_field.splits)
  have "validate_usage (usage_json ?u) = Inl ''derived total does not equal input plus output tokens''"
  proof -
    have "validate_usage (usage_json ?u) =
      res_bind (check_status (iu_status ?u) (iu_counts ?u) (iu_coverage ?u) (iu_reported_calls ?u) (iu_total_calls ?u)) (\<lambda>_.
      res_bind (check_derived (usage_json ?u) (iu_counts ?u)) (\<lambda>derived. Inr (?u\<lparr>iu_total_derived := derived\<rparr>)))"
      using client_sources(2) by (intro validate_json) (auto simp: parts USAGE_STATUSES_def split: token_field.splits)
    moreover have "check_status (iu_status ?u) (iu_counts ?u) (iu_coverage ?u) (iu_reported_calls ?u) (iu_total_calls ?u) = Inr ()"
      unfolding check_status_ok by (simp add: parts has_tokens_def)
    moreover have "check_derived (usage_json ?u) (iu_counts ?u) = Inl ''derived total does not equal input plus output tokens''"
      unfolding check_derived_def usage_json_get by (simp add: parts res_require_def)
    ultimately show ?thesis by (simp add: res_bind_def)
  qed
  then show ?thesis using agg by (simp add: usage_from_receipt_def usage_json_def)
qed

end
