(* ===== verification/InferenceReceipts.thy ===== *)
theory InferenceReceipts
  imports Usage Routes
begin

text \<open>
  \<open>inference_receipts.py\<close>: a provider's receipt authorizes a reply only when it is a supported receipt that
  hashes to its own digest, the reply is the assistant's text, and every field of the schema that names the
  route, the source message or the output is the expected one. The expected route comes from the bridge: its
  values are texts or nulls, for which Python's inequality is that of the values. A missing key reads as null.
  An error is the text of the \<open>InferenceReceiptError\<close>.
\<close>

definition OPENAI_SCHEMA :: string where "OPENAI_SCHEMA = ''peerbridge.openai-compatible-run.v1''"
definition ACPX_SCHEMA :: string where "ACPX_SCHEMA = ''peerbridge.acpx-inference-receipt.v1''"
definition NATIVE_SCHEMA :: string where "NATIVE_SCHEMA = ''peerbridge.claude-native-wcm-inference-receipt.v1''"
definition CCSWITCH_SCHEMA :: string where "CCSWITCH_SCHEMA = ''peerbridge.ccswitch-inference-receipt.v1''"

definition SUPPORTED_RECEIPT_SCHEMAS :: "string list" where
  "SUPPORTED_RECEIPT_SCHEMAS = [OPENAI_SCHEMA, ACPX_SCHEMA, NATIVE_SCHEMA, CCSWITCH_SCHEMA]"

record receipt_binding =
  rb_schema :: string
  rb_receipt_sha256 :: string
  rb_assistant_message_sha256 :: string
  rb_assistant_content_sha256 :: string
  rb_reply_body_sha256 :: string
  rb_expected_route_sha256 :: string

definition receipt_digest :: "json option \<Rightarrow> string \<Rightarrow> string + string" where
  "receipt_digest v name =
    (let text = json_str_or_empty v in res_require (is_sha256_hex text) (name @ '' is not a SHA-256 digest'') (Inr text))"

definition expect_value :: "json \<Rightarrow> json \<Rightarrow> string \<Rightarrow> string + unit" where
  "expect_value actual expected name = res_require (actual = expected) (''provider receipt '' @ name @ '' does not match'') (Inr ())"

text \<open>One \<open>_expect\<close> per pair of a key and its expected value; the message names the key after a prefix.\<close>

fun expect_fields :: "json \<Rightarrow> string \<Rightarrow> (string \<times> json) list \<Rightarrow> string + unit" where
  "expect_fields m pre [] = Inr ()"
| "expect_fields m pre ((k, v) # rest) =
     res_bind (expect_value (json_get_or_null m k) v (pre @ k)) (\<lambda>_. expect_fields m pre rest)"

text \<open>The fields of each schema.\<close>

definition openai_route_fields :: "json \<Rightarrow> (string \<times> json) list" where
  "openai_route_fields route =
    (let get = json_get_or_null route in
     [(''route_profile_id'', get ''route_profile_id''), (''route_profile_sha256'', get ''route_profile_sha256''),
      (''route_class'', get ''route_class''), (''provider_id'', get ''provider_id''), (''model_id'', get ''model_id''),
      (''response_model_id'', if py_truth (get ''response_model_id'') then get ''response_model_id'' else get ''model_id''),
      (''reasoning_mode'', get ''reasoning_mode''), (''connection_id'', get ''connection_id''),
      (''connection_sha256'', get ''connection_sha256'')])"

definition openai_run_fields :: "(string \<Rightarrow> string) \<Rightarrow> json \<Rightarrow> string \<Rightarrow> json \<Rightarrow> (string \<times> json) list" where
  "openai_run_fields H route message_id assistant =
     [(''room_id'', json_get_or_null route ''room_id''), (''session_id'', json_get_or_null route ''session_id''),
      (''message_id_sha256'', JStr (stable_sha256 H (JStr message_id))),
      (''output_message_sha256'', JStr (stable_sha256 H assistant))]"

definition acpx_fields :: "(string \<Rightarrow> string) \<Rightarrow> json \<Rightarrow> string \<Rightarrow> string \<Rightarrow> (string \<times> json) list" where
  "acpx_fields H route message_id content =
    (let get = json_get_or_null route in
     [(''secret_backend'', JStr ''native-acp''), (''route_profile_id'', get ''route_profile_id''),
      (''route_profile_sha256'', get ''route_profile_sha256''), (''route_class'', get ''route_class''),
      (''requested_provider_id'', get ''provider_id''), (''requested_model'', get ''model_id''),
      (''requested_reasoning_mode'', get ''reasoning_mode''), (''connection_id'', get ''connection_id''),
      (''message_id'', JStr message_id), (''response_sha256'', JStr (sha256_text H content))])"

definition ccswitch_fields :: "(string \<Rightarrow> string) \<Rightarrow> json \<Rightarrow> string \<Rightarrow> string \<Rightarrow> (string \<times> json) list" where
  "ccswitch_fields H route message_id content =
    (let get = json_get_or_null route in
     [(''secret_backend'', JStr ''cc-switch''), (''route_profile_id'', get ''route_profile_id''),
      (''route_profile_sha256'', get ''route_profile_sha256''), (''route_class'', get ''route_class''),
      (''requested_model'', get ''model_id''), (''connection_id'', get ''connection_id''),
      (''message_id'', JStr message_id), (''response_sha256'', JStr (sha256_text H content))])"

definition native_fields :: "(string \<Rightarrow> string) \<Rightarrow> json \<Rightarrow> string \<Rightarrow> string \<Rightarrow> (string \<times> json) list" where
  "native_fields H route message_id content =
    (let get = json_get_or_null route in
     [(''secret_backend'', JStr ''windows-credential-manager''), (''route_profile_id'', get ''route_profile_id''),
      (''route_profile_sha256'', get ''route_profile_sha256''), (''route_class'', get ''route_class''),
      (''requested_provider_id'', get ''provider_id''), (''requested_model'', get ''model_id''),
      (''requested_reasoning_mode'', get ''reasoning_mode''), (''connection_id'', get ''connection_id''),
      (''endpoint_sha256'', get ''endpoint_sha256''), (''credential_version_sha256'', get ''credential_version_sha256''),
      (''message_id'', JStr message_id), (''response_sha256'', JStr (sha256_text H content))])"

definition expect_schema :: "(string \<Rightarrow> string) \<Rightarrow> string \<Rightarrow> json \<Rightarrow> string \<Rightarrow> json \<Rightarrow> string \<Rightarrow> json \<Rightarrow> string + unit" where
  "expect_schema H schema receipt message_id assistant content route =
    (if schema = OPENAI_SCHEMA then
       let bound = json_get_or_null receipt ''route'' in
       res_require (is_mapping bound) ''receipt.route must be an object''
      (res_bind (expect_fields bound ''route.'' (openai_route_fields route)) (\<lambda>_.
       expect_fields receipt [] (openai_run_fields H route message_id assistant)))
     else if schema = ACPX_SCHEMA then expect_fields receipt [] (acpx_fields H route message_id content)
     else if schema = CCSWITCH_SCHEMA then expect_fields receipt [] (ccswitch_fields H route message_id content)
     else expect_fields receipt [] (native_fields H route message_id content))"

definition validate_inference_receipt :: "(string \<Rightarrow> string) \<Rightarrow> (string \<times> json) list \<Rightarrow> string \<Rightarrow> json \<Rightarrow> string \<Rightarrow> json
    \<Rightarrow> string + receipt_binding" where
  "validate_inference_receipt H kvs message_id assistant reply_body route =
    (let receipt = JObj kvs; schema = json_str_or_empty (json_get receipt ''schema'') in
     res_require (schema \<in> set SUPPORTED_RECEIPT_SCHEMAS) ''unsupported provider receipt schema''
    (res_bind (receipt_digest (json_get receipt ''receipt_sha256'') ''receipt_sha256'') (\<lambda>claimed_sha.
     res_require (stable_sha256 H (JObj (obj_pop kvs ''receipt_sha256'')) = claimed_sha)
       ''provider receipt self-hash does not match''
    (res_require (json_get assistant ''role'' = Some (JStr ''assistant'')) ''provider output is not an assistant message''
    (case json_get assistant ''content'' of
       Some (JStr content) \<Rightarrow>
         res_require (py_strip content \<noteq> []) ''provider output content is empty or unsupported''
        (res_require (reply_body = py_strip content) ''reply body does not match provider output''
        (res_bind (expect_schema H schema receipt message_id assistant content route) (\<lambda>_.
         Inr \<lparr>rb_schema = schema, rb_receipt_sha256 = claimed_sha, rb_assistant_message_sha256 = stable_sha256 H assistant,
           rb_assistant_content_sha256 = sha256_text H content, rb_reply_body_sha256 = sha256_text H reply_body,
           rb_expected_route_sha256 = stable_sha256 H route\<rparr>)))
     | _ \<Rightarrow> Inl ''provider output content is empty or unsupported'')))))"

section \<open>What an accepted receipt says\<close>

lemma expect_fields_Inr: "expect_fields m p kvs = Inr u \<longleftrightarrow> (\<forall>(k, v) \<in> set kvs. json_get_or_null m k = v)"
  by (induction kvs) (auto simp: expect_value_def tx_simps)

text \<open>The keys under which a receipt of each schema names the message and the digest of the text.\<close>

lemma expect_schema_Inr:
  assumes "expect_schema H schema receipt message_id assistant content route = Inr u"
  shows "(if schema = OPENAI_SCHEMA then json_get_or_null receipt ''message_id_sha256'' = JStr (stable_sha256 H (JStr message_id))
        \<and> json_get_or_null receipt ''output_message_sha256'' = JStr (stable_sha256 H assistant)
        \<and> json_get_or_null (json_get_or_null receipt ''route'') ''route_profile_sha256'' = json_get_or_null route ''route_profile_sha256''
      else json_get_or_null receipt ''message_id'' = JStr message_id
        \<and> json_get_or_null receipt ''response_sha256'' = JStr (sha256_text H content)
        \<and> json_get_or_null receipt ''route_profile_sha256'' = json_get_or_null route ''route_profile_sha256'')"
  using assms
  by (auto simp: expect_schema_def expect_value_def tx_simps Let_def openai_route_fields_def openai_run_fields_def acpx_fields_def
      ccswitch_fields_def native_fields_def split: if_splits)

end
