(* ===== verification/Dispatches.thy ===== *)
theory Dispatches
  imports Inbox Tasks InferenceReceipts
begin

text \<open>
  Dispatches of \<open>bridge.py\<close>: an agent's worker claims one message addressed to it under a lease
  (\<open>claim_message_dispatch\<close>), keeps the lease alive (\<open>renew_message_dispatch\<close>), and gives the message up, for
  good or until a scheduled retry (\<open>fail_message_dispatch\<close>). A claim hands out a token; its digest is stored,
  and every later call needs the token, the session and an unexpired lease. Every row stores the digest of
  its other columns. The tables that \<open>bridge.py\<close> keeps beside the dispatches extend the message store.
\<close>

definition DEFAULT_DISPATCH_LEASE_SECONDS :: int where "DEFAULT_DISPATCH_LEASE_SECONDS = 300"
definition MAX_DISPATCH_ATTEMPTS :: int where "MAX_DISPATCH_ATTEMPTS = 5"
definition DEFAULT_DISPATCH_RETRY_SECONDS :: int where "DEFAULT_DISPATCH_RETRY_SECONDS = 15"
definition MAX_DISPATCH_RETRY_SECONDS :: int where "MAX_DISPATCH_RETRY_SECONDS = 86400"
definition CLAIM_WINDOW :: nat where "CLAIM_WINDOW = 500"

section \<open>Tables\<close>

record retry_row =
  rs_scope :: string
  rs_message_id :: string
  rs_agent_id :: string
  rs_attempt_count :: int
  rs_not_before_epoch :: int
  rs_error_code :: string
  rs_created_utc :: string
  rs_schedule_sha256 :: string

record trusted_row =
  tr_scope :: string
  tr_message_id :: string
  tr_agent_id :: string
  tr_session_id :: string
  tr_attempt_count :: int
  tr_lease_token_sha256 :: string
  tr_source_content_sha256 :: string
  tr_source_route_request_sha256 :: "string option"
  tr_receipt_schema :: string
  tr_inference_receipt_sha256 :: string
  tr_assistant_message_sha256 :: string
  tr_assistant_content_sha256 :: string
  tr_reply_body_sha256 :: string
  tr_inference_usage_sha256 :: string
  tr_route_profile_id :: "string option"
  tr_route_profile_sha256 :: "string option"
  tr_connection_id :: "string option"
  tr_connection_sha256 :: "string option"
  tr_provider_id :: "string option"
  tr_model_id :: "string option"
  tr_response_model_id :: "string option"
  tr_reasoning_mode :: "string option"
  tr_route_class :: "string option"
  tr_room_id :: string
  tr_recorded_utc :: string
  tr_binding_sha256 :: string

text \<open>The sixteen usage columns of a row are a validated usage record.\<close>

record inference_usage_row =
  iw_scope :: string
  iw_message_id :: string
  iw_agent_id :: string
  iw_reply_message_id :: string
  iw_route_profile_id :: "string option"
  iw_provider_id :: "string option"
  iw_model_id :: "string option"
  iw_reasoning_mode :: "string option"
  iw_route_class :: "string option"
  iw_usage :: usage
  iw_recorded_utc :: string
  iw_inference_receipt_sha256 :: string
  iw_usage_sha256 :: string

record connection_row =
  pc_scope :: string
  pc_connection_id :: string
  pc_display_name :: string
  pc_route_class :: string
  pc_provider_id :: "string option"
  pc_secret_backend :: string
  pc_credential_target :: string
  pc_endpoint_sha256 :: string
  pc_credential_fingerprint_sha256 :: string
  pc_descriptor_schema :: "string option"
  pc_credential_version_sha256 :: "string option"
  pc_enabled :: bool
  pc_created_utc :: string
  pc_updated_utc :: string
  pc_connection_sha256 :: string

record dispatch_db = message_db +
  dispatch_retries :: "retry_row list"
  trusted_receipts :: "trusted_row list"
  inference_usages :: "inference_usage_row list"
  provider_connections :: "connection_row list"

section \<open>Digests\<close>

definition retry_payload :: "retry_row \<Rightarrow> json" where
  "retry_payload r = JObj [(''scope'', JStr (rs_scope r)), (''message_id'', JStr (rs_message_id r)),
     (''agent_id'', JStr (rs_agent_id r)), (''attempt_count'', JInt (rs_attempt_count r)),
     (''not_before_epoch'', json_epoch (rs_not_before_epoch r)), (''error_code'', JStr (rs_error_code r)),
     (''created_utc'', JStr (rs_created_utc r))]"

definition seal_retry :: "(string \<Rightarrow> string) \<Rightarrow> retry_row \<Rightarrow> retry_row" where
  "seal_retry H r = r\<lparr>rs_schedule_sha256 := stable_sha256 H (retry_payload r)\<rparr>"

definition dispatch_is :: "string \<Rightarrow> string \<Rightarrow> string \<Rightarrow> dispatch_row \<Rightarrow> bool" where
  "dispatch_is scope message_id agent_id r = (dp_scope r = scope \<and> dp_message_id r = message_id \<and> dp_agent_id r = agent_id)"

definition retry_is :: "string \<Rightarrow> string \<Rightarrow> string \<Rightarrow> int \<Rightarrow> retry_row \<Rightarrow> bool" where
  "retry_is scope message_id agent_id attempt r =
     (rs_scope r = scope \<and> rs_message_id r = message_id \<and> rs_agent_id r = agent_id \<and> rs_attempt_count r = attempt)"

text \<open>The answer's view of a row: all columns but the digest of the token.\<close>

definition public_dispatch :: "dispatch_row \<Rightarrow> json" where
  "public_dispatch r = (case dispatch_payload r of
     JObj kvs \<Rightarrow> JObj (obj_pop kvs ''lease_token_sha256'' @ [(''dispatch_sha256'', JStr (dp_dispatch_sha256 r))]) | j \<Rightarrow> j)"

section \<open>The lease\<close>

definition check_dispatch_lease :: "bridge \<Rightarrow> string \<Rightarrow> bool \<Rightarrow> dispatch_row \<Rightarrow> exn + unit" where
  "check_dispatch_lease b token allow_completed row =
     res_bind (if allow_completed \<and> dp_status row = ''completed'' then
         res_require (dp_claimed_session_id row = Some (br_session_id b))
           (BridgeError ''message dispatch was completed by another session'') (Inr ())
       else res_require (dp_status row = ''claimed'') (BridgeError ''message dispatch has no active lease'') (Inr ())) (\<lambda>_.
     res_require (dp_claimed_session_id row = Some (br_session_id b))
       (BridgeError ''message dispatch is claimed by another session'')
    (res_require (text_or_empty (dp_lease_token_sha256 row) = sha256_text (br_sha256 b) token)
       (BridgeError ''message dispatch lease token does not match'') (Inr ())))"

definition require_dispatch_lease :: "bridge \<Rightarrow> string \<Rightarrow> string \<Rightarrow> bool \<Rightarrow> ('a message_db_scheme, dispatch_row) op" where
  "require_dispatch_lease b message_id token allow_completed =
     tx_then (tx_require (token \<noteq> []) (BridgeError ''lease_token is required''))
    (tx_bind (tx_query (\<lambda>d. fetch_one (dispatch_is (br_scope b) message_id (br_agent_id b)) (message_dispatches d))) (\<lambda>found.
     case found of None \<Rightarrow> tx_raise (BridgeError ''message dispatch is not claimed by this agent'')
     | Some row \<Rightarrow>
         tx_then (tx_lift (check_dispatch_lease b token allow_completed row))
        (if dp_status row = ''claimed'' then
           case dp_lease_expires_epoch row of None \<Rightarrow> tx_return row
           | Some expires \<Rightarrow> tx_bind time_time (\<lambda>now.
               tx_then (tx_require (\<not> expires \<le> now) (BridgeError ''message dispatch lease has expired'')) (tx_return row))
         else tx_return row)))"

section \<open>Claiming\<close>

record claim_dispatch_args =
  cl_message_id :: "string option"
  cl_room_id :: "string option"
  cl_route_profile_id :: "string option"
  cl_require_route :: bool
  cl_lease_seconds :: "int option"
  cl_max_attempts :: "int option"

definition dispatch_lease_seconds :: "int option \<Rightarrow> int" where
  "dispatch_lease_seconds v = max 30 (min (int_or DEFAULT_DISPATCH_LEASE_SECONDS v) MAX_LEASE_SECONDS)"

definition attempt_limit :: "int option \<Rightarrow> int" where
  "attempt_limit v = max 1 (min (int_or MAX_DISPATCH_ATTEMPTS v) 100)"

definition in_active_discussion :: "disc_row list \<Rightarrow> msg_row \<Rightarrow> bool" where
  "in_active_discussion discussions m = (case mg_discussion_id m of None \<Rightarrow> True
     | Some i \<Rightarrow> list_ex (\<lambda>r. di_scope r = mg_scope m \<and> di_discussion_id r = i \<and> di_status r = ''active'') discussions)"

definition wanted :: "string option \<Rightarrow> string option \<Rightarrow> bool" where
  "wanted requested column = (requested = None \<or> column = requested)"

text \<open>The WHERE clause over messages, their receipts and discussions.\<close>

definition claim_candidate :: "bridge \<Rightarrow> claim_dispatch_args \<Rightarrow> 'a message_db_scheme \<Rightarrow> msg_row \<Rightarrow> bool" where
  "claim_candidate b args d m = (mg_scope m = br_scope b \<and> addressed_to (br_agent_id b) m \<and> mg_sender m \<noteq> br_agent_id b
     \<and> (mg_reply_to m = None \<or> mg_discussion_id m \<noteq> None \<and> mg_discussion_role m = Some ''prompt'')
     \<and> \<not> acknowledged_by (br_agent_id b) (message_receipts d) m \<and> in_active_discussion (room_discussions d) m
     \<and> (cl_require_route args \<longrightarrow> mg_route_request_sha256 m \<noteq> None)
     \<and> wanted (cl_message_id args) (Some (mg_message_id m)) \<and> wanted (cl_room_id args) (Some (mg_room_id m))
     \<and> wanted (cl_route_profile_id args) (mg_route_profile_id m))"

definition claim_rows :: "bridge \<Rightarrow> claim_dispatch_args \<Rightarrow> 'a message_db_scheme \<Rightarrow> msg_row list" where
  "claim_rows b args d = take CLAIM_WINDOW (sort_key mg_sequence (filter (claim_candidate b args d) (messages d)))"

definition dispatch_of :: "bridge \<Rightarrow> string \<Rightarrow> 'a message_db_scheme \<Rightarrow> dispatch_row option" where
  "dispatch_of b message_id d = fetch_one (dispatch_is (br_scope b) message_id (br_agent_id b)) (message_dispatches d)"

definition attempts_of :: "dispatch_row option \<Rightarrow> int" where
  "attempts_of v = (case v of None \<Rightarrow> 0 | Some r \<Rightarrow> dp_attempt_count r)"

definition retry_of :: "dispatch_row option \<Rightarrow> 'a dispatch_db_scheme \<Rightarrow> retry_row option" where
  "retry_of v d = (case v of None \<Rightarrow> None
     | Some r \<Rightarrow> fetch_one (retry_is (dp_scope r) (dp_message_id r) (dp_agent_id r) (dp_attempt_count r)) (dispatch_retries d))"

definition status_is :: "dispatch_row option \<Rightarrow> string \<Rightarrow> bool" where
  "status_is v status = (case v of None \<Rightarrow> False | Some r \<Rightarrow> dp_status r = status)"

definition lease_active :: "int \<Rightarrow> dispatch_row option \<Rightarrow> bool" where
  "lease_active now v = (case v of None \<Rightarrow> False
     | Some r \<Rightarrow> dp_status r = ''claimed'' \<and> int_or 0 (dp_lease_expires_epoch r) > now)"

definition retry_waits :: "int \<Rightarrow> retry_row option \<Rightarrow> bool" where
  "retry_waits now schedule = (case schedule of None \<Rightarrow> False
     | Some s \<Rightarrow> rs_schedule_sha256 s \<noteq> [] \<and> rs_not_before_epoch s > now)"

definition retry_broken :: "(string \<Rightarrow> string) \<Rightarrow> retry_row option \<Rightarrow> bool" where
  "retry_broken H schedule = (case schedule of None \<Rightarrow> False
     | Some s \<Rightarrow> rs_schedule_sha256 s \<noteq> [] \<and> stable_sha256 H (retry_payload s) \<noteq> rs_schedule_sha256 s)"

text \<open>Whether the row of a candidate lets it be claimed; a broken schedule raises.\<close>

definition dispatch_due :: "bridge \<Rightarrow> int \<Rightarrow> int \<Rightarrow> dispatch_row option \<Rightarrow> retry_row option \<Rightarrow> exn + bool" where
  "dispatch_due b now max_attempts row schedule =
    (if status_is row ''completed'' \<or> status_is row ''failed'' then Inr False
     else res_require (\<not> retry_broken (br_sha256 b) schedule) (BridgeError ''message dispatch retry schedule SHA mismatch'')
       (if status_is row ''retryable'' \<and> retry_waits now schedule then Inr False
        else if lease_active now row then Inr False
        else Inr (attempts_of row < max_attempts)))"

definition B_route_not_satisfied :: "route_evaluation \<Rightarrow> exn" where
  "B_route_not_satisfied e = BridgeError (''route request is not satisfied by this runtime identity: ''
     @ sep_join '', '' (re_mismatches e))"

text \<open>One candidate: skipped (False), chosen (True), or an error that ends the call.\<close>

definition claim_check :: "bridge \<Rightarrow> claim_dispatch_args \<Rightarrow> int \<Rightarrow> msg_row \<Rightarrow> ('a dispatch_db_scheme, bool) op" where
  "claim_check b args now m =
     tx_bind (tx_catch (tx_then (require_room_member b (mg_room_id m) (br_agent_id b)) (tx_return True)) is_bridge_error
       (tx_return False)) (\<lambda>member.
     if \<not> member then tx_return False
     else
       tx_then (tx_require (\<not> (is_set (mg_route_profile_id m) \<and> cl_message_id args \<noteq> None \<and> cl_route_profile_id args = None))
         (BridgeError ''route_profile_id is required to claim this routed message''))
      (tx_bind (tx_query (\<lambda>d. evaluate_route b (route_profiles d) m (br_agent_id b))) (\<lambda>route.
       if re_status route = Route_Mismatch then
         tx_then (tx_require (cl_message_id args = None) (B_route_not_satisfied route)) (tx_return False)
       else
         tx_bind (tx_query (\<lambda>d. dispatch_of b (mg_message_id m) d)) (\<lambda>row.
         tx_bind (tx_query (retry_of row)) (\<lambda>schedule.
         tx_lift (dispatch_due b now (attempt_limit (cl_max_attempts args)) row schedule))))))"

text \<open>The first candidate that is chosen.\<close>

fun first_due :: "('x \<Rightarrow> ('d, bool) op) \<Rightarrow> 'x list \<Rightarrow> ('d, 'x option) op" where
  "first_due f [] = tx_return None"
| "first_due f (x # xs) = tx_bind (f x) (\<lambda>ok. if ok then tx_return (Some x) else first_due f xs)"

record claimed_dispatch =
  cd_lease_token :: string
  cd_message :: msg_row
  cd_artifact_paths :: json
  cd_route_request :: "route_request option"
  cd_route_evaluation :: route_evaluation
  cd_dispatch :: json
  cd_chain_sha256 :: string

definition leased_dispatch :: "bridge \<Rightarrow> string \<Rightarrow> string \<Rightarrow> int \<Rightarrow> int \<Rightarrow> string \<Rightarrow> dispatch_row" where
  "leased_dispatch b message_id token_sha expires attempts now = seal_dispatch (br_sha256 b)
     \<lparr>dp_scope = br_scope b, dp_message_id = message_id, dp_agent_id = br_agent_id b, dp_status = ''claimed'',
      dp_claimed_session_id = Some (br_session_id b), dp_lease_token_sha256 = Some token_sha,
      dp_lease_expires_epoch = Some expires, dp_attempt_count = attempts, dp_claimed_utc = Some now, dp_updated_utc = now,
      dp_completed_utc = None, dp_reply_message_id = None, dp_inference_receipt_sha256 = None, dp_error_code = None,
      dp_dispatch_sha256 = []\<rparr>"

definition put_dispatch :: "dispatch_row \<Rightarrow> (dispatch_row \<Rightarrow> dispatch_row) \<Rightarrow> ('a message_db_scheme, unit) op" where
  "put_dispatch row f = tx_execute (\<lambda>d. d\<lparr>message_dispatches :=
     upsert_row (dispatch_is (dp_scope row) (dp_message_id row) (dp_agent_id row)) f row (message_dispatches d)\<rparr>)"

text \<open>Leasing the chosen message: \<open>ON CONFLICT\<close> sets every column.\<close>

definition lease_dispatch :: "bridge \<Rightarrow> int \<Rightarrow> string \<Rightarrow> int \<Rightarrow> msg_row \<Rightarrow> ('a dispatch_db_scheme, claimed_dispatch) op" where
  "lease_dispatch b now_epoch now lease_seconds m =
     tx_bind (tx_query (\<lambda>d. attempts_of (dispatch_of b (mg_message_id m) d) + 1)) (\<lambda>attempts.
     tx_bind token_urlsafe (\<lambda>token.
     let row = leased_dispatch b (mg_message_id m) (sha256_text (br_sha256 b) token) (now_epoch + lease_seconds) attempts now in
     tx_then (put_dispatch row (\<lambda>_. row))
    (tx_bind (event_op b ''message.dispatch_claimed'' [(''message_id'', JStr (mg_message_id m)), (''room_id'', JStr (mg_room_id m)),
        (''attempt_count'', JInt attempts), (''lease_expires_epoch'', json_epoch (now_epoch + lease_seconds)),
        (''dispatch_sha256'', JStr (dp_dispatch_sha256 row))] (Some (mg_task_id m))) (\<lambda>event.
     tx_bind (tx_lift (case json_loads (mg_artifact_paths_json m) of None \<Rightarrow> Inl (ValueError ''JSONDecodeError'')
       | Some paths \<Rightarrow> Inr paths)) (\<lambda>paths.
     tx_bind (tx_query (\<lambda>d. evaluate_route b (route_profiles d) m (br_agent_id b))) (\<lambda>evaluation.
     tx_return \<lparr>cd_lease_token = token, cd_message = m, cd_artifact_paths = paths,
       cd_route_request = route_request_from_row m, cd_route_evaluation = evaluation, cd_dispatch = public_dispatch row,
       cd_chain_sha256 = snd event\<rparr>))))))"

definition claim_dispatch_tx :: "bridge \<Rightarrow> claim_dispatch_args \<Rightarrow> int \<Rightarrow> string \<Rightarrow> ('a dispatch_db_scheme, claimed_dispatch option) op" where
  "claim_dispatch_tx b args now_epoch now =
     tx_bind (tx_query (claim_rows b args)) (\<lambda>rows.
     tx_bind (first_due (claim_check b args now_epoch) rows) (\<lambda>selected.
     case selected of None \<Rightarrow>
         tx_then (tx_require (\<not> (cl_message_id args \<noteq> None \<and> rows = [])) (BridgeError ''message is not available to this agent''))
         (tx_return None)
     | Some m \<Rightarrow> tx_bind (lease_dispatch b now_epoch now (dispatch_lease_seconds (cl_lease_seconds args)) m) (\<lambda>c.
         tx_return (Some c))))"

definition validate_claim_dispatch :: "claim_dispatch_args \<Rightarrow> exn + claim_dispatch_args" where
  "validate_claim_dispatch args =
     res_bind (optional_identifier (cl_message_id args) ''message_id'') (\<lambda>message_id.
     res_bind (optional_identifier (cl_room_id args) ''room_id'') (\<lambda>room_id.
     res_bind (optional_identifier (cl_route_profile_id args) ''route_profile_id'') (\<lambda>route_profile_id.
     Inr (args\<lparr>cl_message_id := message_id, cl_room_id := room_id, cl_route_profile_id := route_profile_id\<rparr>))))"

definition claim_message_dispatch :: "bridge \<Rightarrow> claim_dispatch_args \<Rightarrow> ('a dispatch_db_scheme, claimed_dispatch option) op" where
  "claim_message_dispatch b raw =
     tx_bind (tx_lift (validate_claim_dispatch raw)) (\<lambda>args.
     tx_bind time_time (\<lambda>now_epoch.
     tx_bind utc_now (\<lambda>now.
     with_connection (claim_dispatch_tx b args now_epoch now))))"

section \<open>Renewing and failing\<close>

text \<open>An UPDATE of the row a call holds: the columns and the digest of the caller's copy.\<close>

definition change_dispatch :: "bridge \<Rightarrow> dispatch_row \<Rightarrow> (dispatch_row \<Rightarrow> dispatch_row) \<Rightarrow> ('a message_db_scheme, dispatch_row) op" where
  "change_dispatch b row f =
    (let changed = seal_dispatch (br_sha256 b) (f row) in
     tx_then (tx_execute (\<lambda>d. d\<lparr>message_dispatches := update_where (same_dispatch b row)
        (\<lambda>r. (f r)\<lparr>dp_dispatch_sha256 := dp_dispatch_sha256 changed\<rparr>) (message_dispatches d)\<rparr>))
     (tx_return changed))"

definition source_task :: "bridge \<Rightarrow> string \<Rightarrow> ('a message_db_scheme, string) op" where
  "source_task b message_id =
     tx_bind (tx_query (\<lambda>d. fetch_one (\<lambda>m. mg_scope m = br_scope b \<and> mg_message_id m = message_id) (messages d))) (\<lambda>source.
     case source of None \<Rightarrow> tx_raise (BridgeError ''source message is absent'') | Some m \<Rightarrow> tx_return (mg_task_id m))"

definition renewed_row :: "int \<Rightarrow> string \<Rightarrow> dispatch_row \<Rightarrow> dispatch_row" where
  "renewed_row expires updated r = r\<lparr>dp_lease_expires_epoch := Some expires, dp_updated_utc := updated\<rparr>"

definition renew_dispatch_tx :: "bridge \<Rightarrow> string \<Rightarrow> string \<Rightarrow> int \<Rightarrow> ('a message_db_scheme, dispatch_row \<times> string) op" where
  "renew_dispatch_tx b message_id token lease_seconds =
     tx_bind (require_dispatch_lease b message_id token False) (\<lambda>row.
     tx_then (source_task b message_id)
    (tx_bind utc_now (\<lambda>updated.
     tx_bind time_time (\<lambda>now.
     tx_bind (change_dispatch b row (renewed_row (now + lease_seconds) updated)) (\<lambda>renewed.
     tx_bind (event_op b ''message.dispatch_renewed'' [(''message_id'', JStr message_id),
        (''lease_expires_epoch'', json_epoch (now + lease_seconds)), (''dispatch_sha256'', JStr (dp_dispatch_sha256 renewed))] None)
       (\<lambda>event.
     tx_return (renewed, snd event)))))))"

definition renew_message_dispatch :: "bridge \<Rightarrow> string \<Rightarrow> string option \<Rightarrow> int option
    \<Rightarrow> ('a message_db_scheme, dispatch_row \<times> string) op" where
  "renew_message_dispatch b message_arg token lease_seconds =
     tx_bind (tx_lift (require_identifier message_arg ''message_id'')) (\<lambda>message_id.
     with_connection (renew_dispatch_tx b message_id (text_or_empty token) (dispatch_lease_seconds lease_seconds)))"

definition given_up :: "bool \<Rightarrow> string \<Rightarrow> string \<Rightarrow> dispatch_row \<Rightarrow> dispatch_row" where
  "given_up retryable error_code updated r = r\<lparr>dp_status := (if retryable then ''retryable'' else ''failed''),
     dp_claimed_session_id := None, dp_lease_token_sha256 := None, dp_lease_expires_epoch := None,
     dp_updated_utc := updated, dp_error_code := Some error_code\<rparr>"

definition new_retry :: "bridge \<Rightarrow> dispatch_row \<Rightarrow> int \<Rightarrow> string \<Rightarrow> string \<Rightarrow> retry_row" where
  "new_retry b row not_before error_code updated = seal_retry (br_sha256 b)
     \<lparr>rs_scope = br_scope b, rs_message_id = dp_message_id row, rs_agent_id = br_agent_id b,
      rs_attempt_count = dp_attempt_count row, rs_not_before_epoch = not_before, rs_error_code = error_code,
      rs_created_utc = updated, rs_schedule_sha256 = []\<rparr>"

definition insert_retry :: "retry_row \<Rightarrow> ('a dispatch_db_scheme, unit) op" where
  "insert_retry row =
     tx_bind (tx_query (\<lambda>d. list_ex (retry_is (rs_scope row) (rs_message_id row) (rs_agent_id row) (rs_attempt_count row))
        (dispatch_retries d))) (\<lambda>clash.
     tx_then (tx_require (\<not> clash) IntegrityError)
     (tx_execute (\<lambda>d. d\<lparr>dispatch_retries := dispatch_retries d @ [row]\<rparr>)))"

definition retry_seconds :: "int option \<Rightarrow> int" where
  "retry_seconds v = max 1 (min (int_or DEFAULT_DISPATCH_RETRY_SECONDS v) MAX_DISPATCH_RETRY_SECONDS)"

definition fail_dispatch_tx :: "bridge \<Rightarrow> string \<Rightarrow> string \<Rightarrow> string \<Rightarrow> bool \<Rightarrow> int
    \<Rightarrow> ('a dispatch_db_scheme, dispatch_row \<times> retry_row option \<times> string) op" where
  "fail_dispatch_tx b message_id token error_code retryable delay =
     tx_bind (require_dispatch_lease b message_id token False) (\<lambda>row.
     tx_bind (source_task b message_id) (\<lambda>task_id.
     tx_bind utc_now (\<lambda>updated.
     tx_bind (if retryable then
         tx_bind time_time (\<lambda>now.
         let schedule = new_retry b row (now + delay) error_code updated in
         tx_then (insert_retry schedule) (tx_return (Some schedule)))
       else tx_return None) (\<lambda>schedule.
     tx_bind (change_dispatch b row (given_up retryable error_code updated)) (\<lambda>failed.
     tx_bind (event_op b ''message.dispatch_failed'' [(''message_id'', JStr message_id), (''status'', JStr (dp_status failed)),
        (''error_code'', JStr error_code), (''retry_after_seconds'', if retryable then JInt delay else JNull),
        (''retry_not_before_epoch'', json_opt json_epoch (map_option rs_not_before_epoch schedule)),
        (''retry_schedule_sha256'', json_opt JStr (map_option rs_schedule_sha256 schedule)),
        (''dispatch_sha256'', JStr (dp_dispatch_sha256 failed))] (Some task_id)) (\<lambda>event.
     tx_return (failed, schedule, snd event)))))))"

record fail_dispatch_args =
  fa_message_id :: string
  fa_lease_token :: "string option"
  fa_error_code :: string
  fa_retryable :: "bool option"
  fa_retry_after_seconds :: "int option"

definition fail_message_dispatch :: "bridge \<Rightarrow> fail_dispatch_args
    \<Rightarrow> ('a dispatch_db_scheme, dispatch_row \<times> retry_row option \<times> string) op" where
  "fail_message_dispatch b args =
     tx_bind (tx_lift (
       res_bind (require_identifier (fa_message_id args) ''message_id'') (\<lambda>message_id.
       res_bind (require_identifier (fa_error_code args) ''error_code'') (\<lambda>error_code. Inr (message_id, error_code)))))
       (\<lambda>(message_id, error_code).
     let retryable = (case fa_retryable args of None \<Rightarrow> True | Some r \<Rightarrow> r) in
     with_connection (fail_dispatch_tx b message_id (text_or_empty (fa_lease_token args)) error_code retryable
       (if retryable then retry_seconds (fa_retry_after_seconds args) else 0)))"

text \<open>The rows of the caller, all rows of the scope for the human operator, the latest update first.\<close>

definition dispatch_before :: "dispatch_row \<Rightarrow> dispatch_row \<Rightarrow> bool" where
  "dispatch_before r q = (dp_updated_utc q < dp_updated_utc r
     \<or> dp_updated_utc q = dp_updated_utc r \<and> dp_message_id r \<le> dp_message_id q)"

fun insert_dispatch :: "dispatch_row \<Rightarrow> dispatch_row list \<Rightarrow> dispatch_row list" where
  "insert_dispatch r [] = [r]"
| "insert_dispatch r (q # qs) = (if dispatch_before r q then r # q # qs else q # insert_dispatch r qs)"

definition list_message_dispatches :: "bridge \<Rightarrow> string option \<Rightarrow> int option \<Rightarrow> ('a message_db_scheme, json list) op" where
  "list_message_dispatches b status_arg limit =
     tx_bind (tx_lift (let status = py_lower (py_strip (text_or_empty status_arg)) in
       res_require (status = [] \<or> status \<in> {''claimed'', ''retryable'', ''failed'', ''completed''})
         (BridgeError ''dispatch status is invalid'') (Inr status))) (\<lambda>status.
     with_connection (tx_query (\<lambda>d. map public_dispatch (take (nat (max 1 (min (int_or 100 limit) 500)))
       (foldr insert_dispatch (filter (\<lambda>r. dp_scope r = br_scope b
          \<and> (br_agent_id b \<noteq> HUMAN_OPERATOR_ID \<longrightarrow> dp_agent_id r = br_agent_id b)
          \<and> (status = [] \<or> dp_status r = status)) (message_dispatches d)) [])))))"

end
