(* ===== verification/DispatchReplies.thy ===== *)
theory DispatchReplies
  imports Dispatches
begin

text \<open>
  How a claimed message is answered (\<open>bridge.py\<close>). \<open>record_trusted_inference_receipt\<close> binds one provider receipt
  to the attempt that holds the lease; \<open>complete_message_dispatch\<close> then writes the reply, acknowledges the
  message, moves the cursor, completes the dispatch and records the tokens used, all in one transaction, and
  answers a repeated call without writing. \<open>upsert_provider_connection\<close> keeps the connections a receipt may
  be bound to. A name that is missing in a row is null in the payload.
\<close>

definition SECRET_BACKENDS :: "string list" where
  "SECRET_BACKENDS = [''windows-credential-manager'', ''cc-switch'', ''native-acp'']"

section \<open>Provider connections\<close>

definition connection_is :: "string \<Rightarrow> string \<Rightarrow> connection_row \<Rightarrow> bool" where
  "connection_is scope connection_id r = (pc_scope r = scope \<and> pc_connection_id r = connection_id)"

definition connection_metadata :: "connection_row \<Rightarrow> (string \<times> json) list" where
  "connection_metadata r = [(''scope'', JStr (pc_scope r)), (''connection_id'', JStr (pc_connection_id r)),
     (''display_name'', JStr (pc_display_name r)), (''route_class'', JStr (pc_route_class r)),
     (''provider_id'', json_opt JStr (pc_provider_id r)), (''secret_backend'', JStr (pc_secret_backend r)),
     (''credential_target'', JStr (pc_credential_target r)), (''endpoint_sha256'', JStr (pc_endpoint_sha256 r)),
     (''credential_fingerprint_sha256'', JStr (pc_credential_fingerprint_sha256 r)),
     (''descriptor_schema'', json_opt JStr (pc_descriptor_schema r)),
     (''credential_version_sha256'', json_opt JStr (pc_credential_version_sha256 r)), (''enabled'', JBool (pc_enabled r))]"

definition seal_connection :: "(string \<Rightarrow> string) \<Rightarrow> connection_row \<Rightarrow> connection_row" where
  "seal_connection H r = r\<lparr>pc_connection_sha256 := stable_sha256 H (JObj (connection_metadata r))\<rparr>"

text \<open>\<open>credentials.credential_target\<close>, for a scope and an id that are safe.\<close>

definition credential_target :: "(string \<Rightarrow> string) \<Rightarrow> string \<Rightarrow> string \<Rightarrow> string" where
  "credential_target H scope connection_id = ''PeerBridgeMCP:v2:''
     @ sha256_text H (json_dumps (JObj [(''connection_id'', JStr connection_id), (''scope'', JStr scope)]))"

record connection_args =
  ka_connection_id :: string
  ka_display_name :: string
  ka_route_class :: "string option"
  ka_provider_id :: string
  ka_secret_backend :: "string option"
  ka_credential_target :: string
  ka_endpoint_sha256 :: "string option"
  ka_credential_fingerprint_sha256 :: "string option"
  ka_descriptor_schema :: string
  ka_credential_version_sha256 :: "string option"
  ka_enabled :: "bool option"

definition backend_route_class :: "string \<Rightarrow> string \<Rightarrow> exn + unit" where
  "backend_route_class secret_backend route_class =
     res_require (secret_backend \<in> set SECRET_BACKENDS)
       (BridgeError ''secret_backend must be windows-credential-manager, cc-switch or native-acp'')
    (res_require (\<not> (secret_backend = ''cc-switch'' \<and> route_class \<noteq> ''relay''))
       (BridgeError ''cc-switch provider connections must use relay route_class'')
    (res_require (\<not> (secret_backend = ''native-acp'' \<and> route_class \<noteq> ''official''))
       (BridgeError ''native-acp provider connections must use official route_class'') (Inr ())))"

definition validate_connection :: "bridge \<Rightarrow> connection_args \<Rightarrow> exn + connection_row" where
  "validate_connection b args =
     res_require (br_agent_id b = HUMAN_OPERATOR_ID)
       (BridgeError ''only the human operator can register a provider connection'')
    (res_bind (require_identifier (ka_connection_id args) ''connection_id'') (\<lambda>connection_id.
     res_bind (require_text (ka_display_name args) ''display_name'' 200) (\<lambda>display_name.
     let route_class = py_lower (py_strip (text_or_empty (or_else (ka_route_class args) (Some ''relay'')))) in
     res_require (route_class \<in> set ROUTE_CLASSES) (BridgeError ''route_class must be official, relay or local'')
    (res_bind (require_identifier (ka_provider_id args) ''provider_id'') (\<lambda>provider_id.
     let secret_backend = py_lower (py_strip (text_or_empty (ka_secret_backend args))) in
     res_bind (backend_route_class secret_backend route_class) (\<lambda>_.
     res_bind (require_identifier (ka_credential_target args) ''credential_target'') (\<lambda>target.
     res_require (\<not> (secret_backend = ''windows-credential-manager''
         \<and> target \<noteq> credential_target (br_sha256 b) (br_scope b) connection_id))
       (BridgeError ''credential_target does not match this scope and connection'')
    (res_bind (require_sha256 (ka_endpoint_sha256 args) ''endpoint_sha256'') (\<lambda>endpoint.
     res_bind (require_sha256 (ka_credential_fingerprint_sha256 args) ''credential_fingerprint_sha256'') (\<lambda>credential.
     res_bind (require_identifier (ka_descriptor_schema args) ''descriptor_schema'') (\<lambda>descriptor.
     res_bind (require_sha256 (ka_credential_version_sha256 args) ''credential_version_sha256'') (\<lambda>version.
     Inr (seal_connection (br_sha256 b) \<lparr>pc_scope = br_scope b, pc_connection_id = connection_id, pc_display_name = display_name,
       pc_route_class = route_class, pc_provider_id = Some provider_id, pc_secret_backend = secret_backend,
       pc_credential_target = target, pc_endpoint_sha256 = endpoint, pc_credential_fingerprint_sha256 = credential,
       pc_descriptor_schema = Some descriptor, pc_credential_version_sha256 = Some version,
       pc_enabled = (case ka_enabled args of None \<Rightarrow> True | Some e \<Rightarrow> e), pc_created_utc = [], pc_updated_utc = [],
       pc_connection_sha256 = []\<rparr>)))))))))))))"

text \<open>\<open>ON CONFLICT\<close> keeps the time of creation.\<close>

definition upsert_provider_connection :: "bridge \<Rightarrow> connection_args \<Rightarrow> ('a dispatch_db_scheme, connection_row) op" where
  "upsert_provider_connection b args =
     tx_bind (tx_lift (validate_connection b args)) (\<lambda>metadata.
     tx_bind utc_now (\<lambda>now.
     let row = metadata\<lparr>pc_created_utc := now, pc_updated_utc := now\<rparr> in
     with_connection (
       tx_then (tx_execute (\<lambda>d. d\<lparr>provider_connections := upsert_row (connection_is (br_scope b) (pc_connection_id row))
          (\<lambda>r. row\<lparr>pc_created_utc := pc_created_utc r\<rparr>) row (provider_connections d)\<rparr>))
      (tx_then (event_op b ''provider.connection_upserted'' [(''connection_id'', JStr (pc_connection_id row)),
          (''connection_sha256'', JStr (pc_connection_sha256 row)), (''endpoint_sha256'', JStr (pc_endpoint_sha256 row)),
          (''secret_backend'', JStr (pc_secret_backend row)), (''enabled'', JBool (pc_enabled row))] None)
       (tx_return row)))))"

definition list_provider_connections :: "bridge \<Rightarrow> bool \<Rightarrow> ('a dispatch_db_scheme, connection_row list) op" where
  "list_provider_connections b enabled_only =
     with_connection (tx_query (\<lambda>d. sort_key (\<lambda>r. (pc_display_name r, pc_connection_id r))
       (filter (\<lambda>r. pc_scope r = br_scope b \<and> (enabled_only \<longrightarrow> pc_enabled r)) (provider_connections d))))"

section \<open>The source message\<close>

text \<open>The claimed message, still addressed to the agent; its room and its route, checked again.\<close>

definition addressed_source :: "bridge \<Rightarrow> string \<Rightarrow> ('a message_db_scheme, msg_row) op" where
  "addressed_source b message_id =
     tx_bind (tx_query (\<lambda>d. fetch_one (\<lambda>m. mg_scope m = br_scope b \<and> mg_message_id m = message_id) (messages d))) (\<lambda>source.
     case source of None \<Rightarrow> tx_raise (BridgeError ''source message is not addressed to this agent'')
     | Some m \<Rightarrow> tx_then (tx_require (addressed_to (br_agent_id b) m)
         (BridgeError ''source message is not addressed to this agent'')) (tx_return m))"

definition routed_source :: "bridge \<Rightarrow> msg_row \<Rightarrow> ('a message_db_scheme, route_evaluation) op" where
  "routed_source b source =
     tx_then (require_room_member b (mg_room_id source) (br_agent_id b))
    (tx_bind (tx_query (\<lambda>d. evaluate_route b (route_profiles d) source (br_agent_id b))) (\<lambda>evaluation.
     tx_then (tx_require (re_status evaluation \<noteq> Route_Mismatch) (B_route_not_satisfied evaluation)) (tx_return evaluation)))"

section \<open>Trusting a receipt\<close>

record trust_args =
  ta_message_id :: string
  ta_lease_token :: "string option"
  ta_body :: string
  ta_receipt :: json
  ta_assistant_message :: json
  ta_connection_id :: "string option"
  ta_connection_sha256 :: "string option"
  ta_profile_id :: "string option"
  ta_profile_sha256 :: "string option"

text \<open>The arguments after the checks before the transaction.\<close>

record trust_request =
  tq_message_id :: string
  tq_lease_token :: string
  tq_body :: string
  tq_receipt :: "(string \<times> json) list"
  tq_assistant_message :: json
  tq_connection :: "(string \<times> string) option"
  tq_profile :: "(string \<times> string) option"

definition optional_sha256 :: "string option \<Rightarrow> string \<Rightarrow> exn + string option" where
  "optional_sha256 value label =
    (let raw = py_strip (text_or_empty value) in
     if raw = [] then Inr None else res_bind (require_sha256 (Some raw) label) (\<lambda>sha. Inr (Some sha)))"

definition supplied_together :: "string option \<Rightarrow> string option \<Rightarrow> string \<Rightarrow> exn + (string \<times> string) option" where
  "supplied_together i sha message = (case (i, sha) of
     (None, None) \<Rightarrow> Inr None | (Some i, Some sha) \<Rightarrow> Inr (Some (i, sha)) | _ \<Rightarrow> Inl (BridgeError message))"

definition validate_trust :: "trust_args \<Rightarrow> exn + trust_request" where
  "validate_trust args =
     res_bind (require_identifier (ta_message_id args) ''message_id'') (\<lambda>message_id.
     res_bind (require_text (ta_body args) ''body'' MAX_TEXT_CHARS) (\<lambda>body.
     case ta_receipt args of JObj receipt \<Rightarrow>
       res_require (is_mapping (ta_assistant_message args)) (BridgeError ''assistant_message must be an object'')
      (res_bind (optional_identifier (ta_connection_id args) ''connection_id'') (\<lambda>connection_id.
       res_bind (optional_sha256 (ta_connection_sha256 args) ''connection_sha256'') (\<lambda>connection_sha.
       res_bind (supplied_together connection_id connection_sha ''connection_id and connection_sha256 must be supplied together'')
         (\<lambda>bound.
       res_bind (optional_identifier (ta_profile_id args) ''execution_route_profile_id'') (\<lambda>profile_id.
       res_bind (optional_sha256 (ta_profile_sha256 args) ''execution_route_profile_sha256'') (\<lambda>profile_sha.
       res_bind (supplied_together profile_id profile_sha ''execution route profile id and sha256 must be supplied together'')
         (\<lambda>profile.
       Inr \<lparr>tq_message_id = message_id, tq_lease_token = text_or_empty (ta_lease_token args), tq_body = body,
         tq_receipt = receipt, tq_assistant_message = ta_assistant_message args, tq_connection = bound,
         tq_profile = profile\<rparr>))))))
       )
     | _ \<Rightarrow> Inl (BridgeError ''receipt must be an object'')))"

text \<open>What the receipt must have been produced with: the route profile and the connection of the run.\<close>

record execution =
  ex_profile_id :: "string option"
  ex_profile_sha256 :: "string option"
  ex_response_model_id :: "string option"
  ex_client_name :: "string option"
  ex_schema :: string
  ex_native :: "(string \<times> string option) option"

definition profile_pair :: "trust_request \<Rightarrow> msg_row \<Rightarrow> string option \<times> string option" where
  "profile_pair q source = (case tq_profile q of Some (i, sha) \<Rightarrow> (Some i, Some sha)
     | None \<Rightarrow> if is_set (mg_route_profile_id source) then (mg_route_profile_id source, mg_route_profile_sha256 source)
         else (None, None))"

definition agent_route :: "bridge \<Rightarrow> string \<Rightarrow> route_row \<Rightarrow> bool" where
  "agent_route b route_id r = (enabled_route (br_scope b) route_id r \<and> rp_agent_id r = br_agent_id b)"

text \<open>The stored profile is the identity of this runtime.\<close>

definition exact_profile :: "bridge \<Rightarrow> string option \<Rightarrow> route_row \<Rightarrow> bool" where
  "exact_profile b sha r = (Some (rp_profile_sha256 r) = sha \<and> rp_provider_id r = br_provider_id b
     \<and> rp_model_id r = br_model_id b \<and> rp_reasoning_mode r = br_reasoning_mode b \<and> Some (rp_route_class r) = br_route_class b)"

definition execution_profile :: "bridge \<Rightarrow> route_row list \<Rightarrow> string option \<times> string option \<Rightarrow> exn + string option \<times> string option" where
  "execution_profile b profiles pair =
    (if \<not> is_set (fst pair) then Inr (br_model_id b, br_client_name b)
     else case fetch_one (agent_route b (text_or_empty (fst pair))) profiles of
       None \<Rightarrow> Inl (BridgeError ''execution route profile is no longer exact'')
     | Some r \<Rightarrow> res_require (exact_profile b (snd pair) r) (BridgeError ''execution route profile is no longer exact'')
         (Inr (or_else (rp_response_model_id r) (rp_model_id r), rp_client_name r)))"

definition bound_provider :: "connection_row \<Rightarrow> string option" where
  "bound_provider r = (if \<not> is_set (pc_provider_id r) \<and> pc_secret_backend r = ''cc-switch'' then Some (pc_connection_id r)
     else pc_provider_id r)"

definition backend_schema :: "string \<Rightarrow> exn + string" where
  "backend_schema backend = (if backend = ''windows-credential-manager'' then Inr OPENAI_SCHEMA
     else if backend = ''native-acp'' then Inr ACPX_SCHEMA else if backend = ''cc-switch'' then Inr CCSWITCH_SCHEMA
     else Inl KeyError)"

definition native_client :: "connection_row \<Rightarrow> string option \<Rightarrow> bool" where
  "native_client r client_name = (pc_secret_backend r = ''windows-credential-manager'' \<and> client_name = Some ''claude-native'')"

text \<open>The schema of the receipt, and for a native client the endpoint and the version of the credential.\<close>

definition execution_connection :: "bridge \<Rightarrow> connection_row list \<Rightarrow> (string \<times> string) option \<Rightarrow> string option \<Rightarrow> string option
    \<Rightarrow> exn + string \<times> (string \<times> string option) option" where
  "execution_connection b connections bound profile_id client_name =
    (case bound of None \<Rightarrow> Inr (OPENAI_SCHEMA, None)
     | Some (connection_id, connection_sha) \<Rightarrow>
         res_require (profile_id \<noteq> None) (BridgeError ''routed inference receipt is missing its execution profile'')
        (case fetch_one (\<lambda>r. connection_is (br_scope b) connection_id r \<and> pc_enabled r) connections of
           None \<Rightarrow> Inl (BridgeError ''provider connection binding does not match'')
         | Some r \<Rightarrow>
             res_require (pc_connection_sha256 r = connection_sha \<and> bound_provider r = br_provider_id b
                 \<and> Some (pc_route_class r) = br_route_class b) (BridgeError ''provider connection binding does not match'')
            (res_bind (backend_schema (pc_secret_backend r)) (\<lambda>schema.
             Inr (if native_client r client_name
               then (NATIVE_SCHEMA, Some (pc_endpoint_sha256 r, pc_credential_version_sha256 r)) else (schema, None))))))"

definition execution_of :: "bridge \<Rightarrow> trust_request \<Rightarrow> msg_row \<Rightarrow> route_row list \<Rightarrow> connection_row list \<Rightarrow> exn + execution" where
  "execution_of b q source profiles connections =
    (let pair = profile_pair q source in
     res_require (\<not> (is_set (mg_route_profile_id source)
         \<and> pair \<noteq> (mg_route_profile_id source, mg_route_profile_sha256 source)))
       (BridgeError ''execution route profile does not match the source request'')
    (res_bind (execution_profile b profiles pair) (\<lambda>(response_model_id, client_name).
     res_bind (execution_connection b connections (tq_connection q) (fst pair) client_name) (\<lambda>(schema, native).
     Inr \<lparr>ex_profile_id = fst pair, ex_profile_sha256 = snd pair, ex_response_model_id = response_model_id,
       ex_client_name = client_name, ex_schema = schema, ex_native = native\<rparr>))))"

definition expected_route :: "bridge \<Rightarrow> trust_request \<Rightarrow> msg_row \<Rightarrow> execution \<Rightarrow> json" where
  "expected_route b q source e = JObj ([(''route_profile_id'', json_opt JStr (ex_profile_id e)),
     (''route_profile_sha256'', json_opt JStr (ex_profile_sha256 e)), (''route_class'', json_opt JStr (br_route_class b)),
     (''provider_id'', json_opt JStr (br_provider_id b)), (''model_id'', json_opt JStr (br_model_id b)),
     (''response_model_id'', json_opt JStr (ex_response_model_id e)), (''reasoning_mode'', json_opt JStr (br_reasoning_mode b)),
     (''connection_id'', json_opt JStr (map_option fst (tq_connection q))),
     (''connection_sha256'', json_opt JStr (map_option snd (tq_connection q))), (''room_id'', JStr (mg_room_id source)),
     (''session_id'', JStr (br_session_id b))]
     @ (case ex_native e of None \<Rightarrow> [] | Some (endpoint, version) \<Rightarrow> [(''endpoint_sha256'', JStr endpoint),
          (''credential_version_sha256'', json_opt JStr version)]))"

text \<open>\<open>TRUSTED_INFERENCE_RECEIPT_PAYLOAD_FIELDS\<close> of a row.\<close>

definition trusted_payload :: "trusted_row \<Rightarrow> json" where
  "trusted_payload r = JObj [(''scope'', JStr (tr_scope r)), (''message_id'', JStr (tr_message_id r)),
     (''agent_id'', JStr (tr_agent_id r)), (''session_id'', JStr (tr_session_id r)),
     (''attempt_count'', JInt (tr_attempt_count r)), (''lease_token_sha256'', JStr (tr_lease_token_sha256 r)),
     (''source_content_sha256'', JStr (tr_source_content_sha256 r)),
     (''source_route_request_sha256'', json_opt JStr (tr_source_route_request_sha256 r)),
     (''receipt_schema'', JStr (tr_receipt_schema r)), (''inference_receipt_sha256'', JStr (tr_inference_receipt_sha256 r)),
     (''assistant_message_sha256'', JStr (tr_assistant_message_sha256 r)),
     (''assistant_content_sha256'', JStr (tr_assistant_content_sha256 r)), (''reply_body_sha256'', JStr (tr_reply_body_sha256 r)),
     (''inference_usage_sha256'', JStr (tr_inference_usage_sha256 r)), (''route_profile_id'', json_opt JStr (tr_route_profile_id r)),
     (''route_profile_sha256'', json_opt JStr (tr_route_profile_sha256 r)), (''connection_id'', json_opt JStr (tr_connection_id r)),
     (''connection_sha256'', json_opt JStr (tr_connection_sha256 r)), (''provider_id'', json_opt JStr (tr_provider_id r)),
     (''model_id'', json_opt JStr (tr_model_id r)), (''response_model_id'', json_opt JStr (tr_response_model_id r)),
     (''reasoning_mode'', json_opt JStr (tr_reasoning_mode r)), (''route_class'', json_opt JStr (tr_route_class r)),
     (''room_id'', JStr (tr_room_id r)), (''recorded_utc'', JStr (tr_recorded_utc r))]"

definition seal_trusted :: "(string \<Rightarrow> string) \<Rightarrow> trusted_row \<Rightarrow> trusted_row" where
  "seal_trusted H r = r\<lparr>tr_binding_sha256 := stable_sha256 H (trusted_payload r)\<rparr>"

definition new_trusted :: "bridge \<Rightarrow> trust_request \<Rightarrow> msg_row \<Rightarrow> execution \<Rightarrow> receipt_binding \<Rightarrow> int \<Rightarrow> string \<Rightarrow> string \<Rightarrow> trusted_row" where
  "new_trusted b q source e v attempts usage_sha now = seal_trusted (br_sha256 b)
     \<lparr>tr_scope = br_scope b, tr_message_id = tq_message_id q, tr_agent_id = br_agent_id b, tr_session_id = br_session_id b,
      tr_attempt_count = attempts, tr_lease_token_sha256 = sha256_text (br_sha256 b) (tq_lease_token q),
      tr_source_content_sha256 = mg_content_sha256 source, tr_source_route_request_sha256 = mg_route_request_sha256 source,
      tr_receipt_schema = rb_schema v, tr_inference_receipt_sha256 = rb_receipt_sha256 v,
      tr_assistant_message_sha256 = rb_assistant_message_sha256 v, tr_assistant_content_sha256 = rb_assistant_content_sha256 v,
      tr_reply_body_sha256 = rb_reply_body_sha256 v, tr_inference_usage_sha256 = usage_sha,
      tr_route_profile_id = ex_profile_id e, tr_route_profile_sha256 = ex_profile_sha256 e,
      tr_connection_id = map_option fst (tq_connection q), tr_connection_sha256 = map_option snd (tq_connection q),
      tr_provider_id = br_provider_id b, tr_model_id = br_model_id b, tr_response_model_id = ex_response_model_id e,
      tr_reasoning_mode = br_reasoning_mode b, tr_route_class = br_route_class b, tr_room_id = mg_room_id source,
      tr_recorded_utc = now, tr_binding_sha256 = []\<rparr>"

definition trusted_is :: "string \<Rightarrow> string \<Rightarrow> string \<Rightarrow> int \<Rightarrow> trusted_row \<Rightarrow> bool" where
  "trusted_is scope message_id agent_id attempt r = (tr_scope r = scope \<and> tr_message_id r = message_id
     \<and> tr_agent_id r = agent_id \<and> tr_attempt_count r = attempt)"

text \<open>A second receipt of the attempt is the recorded one.\<close>

definition same_trusted :: "bridge \<Rightarrow> trust_request \<Rightarrow> receipt_binding \<Rightarrow> string \<Rightarrow> trusted_row \<Rightarrow> bool" where
  "same_trusted b q v usage_sha r = (tr_session_id r = br_session_id b
     \<and> tr_lease_token_sha256 r = sha256_text (br_sha256 b) (tq_lease_token q)
     \<and> tr_inference_receipt_sha256 r = rb_receipt_sha256 v \<and> tr_reply_body_sha256 r = rb_reply_body_sha256 v
     \<and> tr_inference_usage_sha256 r = usage_sha
     \<and> tr_binding_sha256 r = stable_sha256 (br_sha256 b) (trusted_payload r))"

text \<open>The unique index over the receipt digest.\<close>

definition same_receipt :: "trusted_row \<Rightarrow> trusted_row \<Rightarrow> bool" where
  "same_receipt row r = (tr_scope r = tr_scope row \<and> tr_message_id r = tr_message_id row \<and> tr_agent_id r = tr_agent_id row
     \<and> tr_inference_receipt_sha256 r = tr_inference_receipt_sha256 row)"

definition insert_trusted :: "trusted_row \<Rightarrow> ('a dispatch_db_scheme, unit) op" where
  "insert_trusted row =
     tx_bind (tx_query (\<lambda>d. list_ex (same_receipt row) (trusted_receipts d))) (\<lambda>clash.
     tx_then (tx_require (\<not> clash) IntegrityError)
     (tx_execute (\<lambda>d. d\<lparr>trusted_receipts := trusted_receipts d @ [row]\<rparr>)))"

text \<open>The answer: whether it was recorded before, the row, and the head of the audit chain.\<close>

definition validated_receipt :: "bridge \<Rightarrow> trust_request \<Rightarrow> msg_row \<Rightarrow> execution \<Rightarrow> exn + receipt_binding" where
  "validated_receipt b q source e =
    (case validate_inference_receipt (br_sha256 b) (tq_receipt q) (tq_message_id q) (tq_assistant_message q) (tq_body q)
        (expected_route b q source e) of
       Inl message \<Rightarrow> Inl (BridgeError message)
     | Inr v \<Rightarrow> res_require (rb_schema v = ex_schema e)
         (BridgeError ''provider receipt schema does not match the bound secret backend'') (Inr v))"

definition trust_tx :: "bridge \<Rightarrow> trust_request \<Rightarrow> string \<Rightarrow> string \<Rightarrow> ('a dispatch_db_scheme, bool \<times> trusted_row \<times> string option) op" where
  "trust_tx b q usage_sha now =
     tx_bind (require_dispatch_lease b (tq_message_id q) (tq_lease_token q) False) (\<lambda>dispatch.
     tx_bind (addressed_source b (tq_message_id q)) (\<lambda>source.
     tx_then (routed_source b source)
    (tx_bind (tx_query (\<lambda>d. execution_of b q source (route_profiles d) (provider_connections d))) (\<lambda>found.
     tx_bind (tx_lift found) (\<lambda>e.
     tx_bind (tx_lift (validated_receipt b q source e)) (\<lambda>v.
     tx_bind (tx_query (\<lambda>d. fetch_one (trusted_is (br_scope b) (tq_message_id q) (br_agent_id b) (dp_attempt_count dispatch))
       (trusted_receipts d))) (\<lambda>existing.
     case existing of
       Some r \<Rightarrow> tx_then (tx_require (same_trusted b q v usage_sha r)
           (BridgeError ''dispatch attempt already has a different trusted receipt''))
         (tx_return (True, r, None))
     | None \<Rightarrow>
         let row = new_trusted b q source e v (dp_attempt_count dispatch) usage_sha now in
         tx_then (insert_trusted row)
        (tx_bind (event_op b ''message.inference_receipt_trusted'' [(''message_id'', JStr (tq_message_id q)),
            (''agent_id'', JStr (br_agent_id b)), (''attempt_count'', JInt (dp_attempt_count dispatch)),
            (''inference_receipt_sha256'', JStr (rb_receipt_sha256 v)), (''binding_sha256'', JStr (tr_binding_sha256 row))]
            (Some (mg_task_id source))) (\<lambda>event.
         tx_return (False, row, Some (snd event)))))))))))"

definition record_trusted_inference_receipt :: "bridge \<Rightarrow> trust_args
    \<Rightarrow> ('a dispatch_db_scheme, bool \<times> trusted_row \<times> string option) op" where
  "record_trusted_inference_receipt b args =
     tx_bind (tx_lift (validate_trust args)) (\<lambda>q.
     tx_bind utc_now (\<lambda>now.
     with_connection (trust_tx b q (stable_sha256 (br_sha256 b) (usage_json (usage_from_receipt (JObj (tq_receipt q))))) now)))"

section \<open>Completing\<close>

record complete_args =
  ce_message_id :: string
  ce_lease_token :: "string option"
  ce_body :: string
  ce_inference_receipt_sha256 :: "string option"
  ce_inference_usage :: "json option"
  ce_subject :: "string option"

record reply_call =
  co_message_id :: string
  co_lease_token :: string
  co_body :: string
  co_receipt_sha256 :: string
  co_usage :: usage
  co_subject :: string

text \<open>\<open>validate_usage(args.get("inference_usage") or unavailable_usage())\<close>.\<close>

definition claimed_usage :: "json option \<Rightarrow> string + usage" where
  "claimed_usage v = validate_usage (case v of None \<Rightarrow> usage_json (unavailable_usage ''runner-receipt-not-reported'')
     | Some j \<Rightarrow> if py_truth j then j else usage_json (unavailable_usage ''runner-receipt-not-reported''))"

definition validate_completion :: "complete_args \<Rightarrow> exn + reply_call" where
  "validate_completion args =
     res_bind (require_identifier (ce_message_id args) ''message_id'') (\<lambda>message_id.
     res_bind (require_text (ce_body args) ''body'' MAX_TEXT_CHARS) (\<lambda>body.
     res_bind (require_sha256 (ce_inference_receipt_sha256 args) ''inference_receipt_sha256'') (\<lambda>receipt_sha.
     case claimed_usage (ce_inference_usage args) of Inl message \<Rightarrow> Inl (BridgeError message)
     | Inr used \<Rightarrow> Inr \<lparr>co_message_id = message_id, co_lease_token = text_or_empty (ce_lease_token args), co_body = body,
         co_receipt_sha256 = receipt_sha, co_usage = used, co_subject = text_or_empty (ce_subject args)\<rparr>)))"

definition discussion_fence :: "msg_row \<Rightarrow> disc_row list \<Rightarrow> exn + unit" where
  "discussion_fence source discussions =
    (if \<not> is_set (mg_discussion_id source) then Inr ()
     else case fetch_one (\<lambda>r. di_scope r = mg_scope source \<and> Some (di_discussion_id r) = mg_discussion_id source) discussions of
       None \<Rightarrow> Inl (BridgeError ''discussion is no longer active; reply completion is fenced'')
     | Some r \<Rightarrow> res_require (di_status r \<in> {''active'', ''paused''})
         (BridgeError ''discussion is no longer active; reply completion is fenced'') (Inr ()))"

definition trusted_for :: "bridge \<Rightarrow> reply_call \<Rightarrow> int \<Rightarrow> trusted_row \<Rightarrow> bool" where
  "trusted_for b c attempts r = (trusted_is (br_scope b) (co_message_id c) (br_agent_id b) attempts r
     \<and> tr_session_id r = br_session_id b \<and> tr_lease_token_sha256 r = sha256_text (br_sha256 b) (co_lease_token c)
     \<and> tr_inference_receipt_sha256 r = co_receipt_sha256 c)"

definition source_profile_matches :: "msg_row \<Rightarrow> trusted_row \<Rightarrow> bool" where
  "source_profile_matches source r = (mg_route_profile_id source = None
     \<or> tr_route_profile_id r = mg_route_profile_id source \<and> tr_route_profile_sha256 r = mg_route_profile_sha256 source)"

definition trusted_profile_matches :: "bridge \<Rightarrow> route_row list \<Rightarrow> trusted_row \<Rightarrow> bool" where
  "trusted_profile_matches b profiles r = (tr_route_profile_id r = None
     \<or> is_set (tr_route_profile_id r)
       \<and> (case fetch_one (agent_route b (text_or_empty (tr_route_profile_id r))) profiles of None \<Rightarrow> False
         | Some p \<Rightarrow> exact_profile b (tr_route_profile_sha256 r) p))"

text \<open>Everything the binding says must still hold of the source, the reply, the usage and this runtime.\<close>

definition binding_matches :: "bridge \<Rightarrow> reply_call \<Rightarrow> msg_row \<Rightarrow> route_row list \<Rightarrow> trusted_row \<Rightarrow> bool" where
  "binding_matches b c source profiles r =
    (tr_binding_sha256 r = stable_sha256 (br_sha256 b) (trusted_payload r)
     \<and> tr_source_content_sha256 r = mg_content_sha256 source \<and> tr_source_route_request_sha256 r = mg_route_request_sha256 source
     \<and> tr_reply_body_sha256 r = sha256_text (br_sha256 b) (co_body c)
     \<and> tr_inference_usage_sha256 r = stable_sha256 (br_sha256 b) (usage_json (co_usage c))
     \<and> source_profile_matches source r \<and> trusted_profile_matches b profiles r
     \<and> tr_provider_id r = br_provider_id b \<and> tr_model_id r = br_model_id b \<and> tr_reasoning_mode r = br_reasoning_mode b
     \<and> tr_route_class r = br_route_class b \<and> tr_room_id r = mg_room_id source)"

text \<open>The reply: its content, its row, and the one charge and insert.\<close>

definition reply_visibility :: "msg_row \<Rightarrow> string" where
  "reply_visibility source = (if mg_visibility source = ''room'' then ''room'' else ''direct'')"

definition reply_role :: "msg_row \<Rightarrow> string option" where
  "reply_role source = (if is_set (mg_discussion_id source) then Some ''response'' else None)"

definition reply_content :: "bridge \<Rightarrow> msg_row \<Rightarrow> string \<Rightarrow> string \<Rightarrow> string \<Rightarrow> string \<Rightarrow> json" where
  "reply_content b source reply_id subject body created = JObj [(''message_id'', JStr reply_id), (''scope'', JStr (br_scope b)),
     (''room_id'', JStr (mg_room_id source)), (''task_id'', JStr (mg_task_id source)), (''sender'', JStr (br_agent_id b)),
     (''recipient'', JStr (mg_sender source)), (''subject'', JStr subject), (''body'', JStr body), (''priority'', JStr ''normal''),
     (''reply_to'', JStr (mg_message_id source)), (''artifact_paths'', JList []), (''route_request'', JNull),
     (''discussion_id'', json_opt JStr (mg_discussion_id source)),
     (''discussion_round'', json_opt JInt (mg_discussion_round source)),
     (''discussion_role'', json_opt JStr (reply_role source)), (''visibility'', JStr (reply_visibility source)),
     (''created_utc'', JStr created)]"

definition reply_row :: "bridge \<Rightarrow> msg_row \<Rightarrow> string \<Rightarrow> string \<Rightarrow> string \<Rightarrow> string \<Rightarrow> nat \<Rightarrow> msg_row" where
  "reply_row b source reply_id subject body created sequence = \<lparr>mg_sequence = sequence, mg_message_id = reply_id,
     mg_scope = br_scope b, mg_room_id = mg_room_id source, mg_task_id = mg_task_id source, mg_sender = br_agent_id b,
     mg_recipient = mg_sender source, mg_subject = subject, mg_body = body, mg_priority = ''normal'',
     mg_reply_to = Some (mg_message_id source), mg_artifact_paths_json = ''[]'', mg_route_profile_id = None,
     mg_route_profile_sha256 = None, mg_requested_provider_id = None, mg_requested_model_id = None,
     mg_requested_reasoning_mode = None, mg_requested_route_class = None, mg_route_request_sha256 = None,
     mg_discussion_id = mg_discussion_id source, mg_discussion_round = mg_discussion_round source,
     mg_discussion_role = reply_role source, mg_visibility = reply_visibility source, mg_created_utc = created,
     mg_acknowledged_utc = None,
     mg_content_sha256 = stable_sha256 (br_sha256 b) (reply_content b source reply_id subject body created)\<rparr>"

definition write_reply :: "bridge \<Rightarrow> msg_row \<Rightarrow> string \<Rightarrow> string \<Rightarrow> string \<Rightarrow> string \<Rightarrow> ('a message_db_scheme, msg_row) op" where
  "write_reply b source reply_id subject body created =
     tx_then (reserve_message_storage b 1 (serialized_message_bytes (reply_content b source reply_id subject body created)))
    (tx_bind (tx_query (\<lambda>d. reply_row b source reply_id subject body created (Suc (message_seq d)))) (\<lambda>row.
     tx_bind (tx_query (\<lambda>d. list_ex (\<lambda>r. mg_message_id r = reply_id) (messages d))) (\<lambda>clash.
     tx_then (tx_require (\<not> clash) IntegrityError)
    (tx_then (tx_execute (\<lambda>d. d\<lparr>message_seq := mg_sequence row, messages := messages d @ [row]\<rparr>))
     (tx_return row)))))"

text \<open>The loop over the later messages of the room, in order: it stops at the first one not acknowledged.\<close>

fun cursor_after :: "(msg_row \<Rightarrow> bool) \<Rightarrow> nat \<Rightarrow> msg_row list \<Rightarrow> nat" where
  "cursor_after acked current [] = current"
| "cursor_after acked current (m # ms) = (if acked m then cursor_after acked (mg_sequence m) ms else current)"

definition acknowledge_source :: "bridge \<Rightarrow> msg_row \<Rightarrow> route_evaluation \<Rightarrow> string
    \<Rightarrow> ('a message_db_scheme, string option \<times> nat) op" where
  "acknowledge_source b source evaluation created =
    (let message_id = mg_message_id source; channel = channel_of (mg_room_id source);
         receipt = new_route_receipt b message_id (br_agent_id b) (mg_route_request_sha256 source) created in
     tx_then (tx_execute (\<lambda>d. d\<lparr>message_receipts := upsert_row (receipt_is (br_scope b) message_id (br_agent_id b)) id
        \<lparr>rc_scope = br_scope b, rc_message_id = message_id, rc_agent_id = br_agent_id b, rc_acknowledged_utc = created\<rparr>
        (message_receipts d)\<rparr>))
    (tx_then (if re_status evaluation = Route_Verified then tx_execute (\<lambda>d. d\<lparr>message_route_receipts :=
          upsert_row (route_receipt_is (br_scope b) message_id (br_agent_id b)) id receipt (message_route_receipts d)\<rparr>)
        else tx_return ())
    (tx_then (if mg_recipient source \<noteq> ''*'' then tx_execute (\<lambda>d. d\<lparr>messages := update_where
          (\<lambda>m. mg_scope m = br_scope b \<and> mg_message_id m = message_id) (mark_acknowledged created) (messages d)\<rparr>)
        else tx_return ())
    (tx_bind (tx_query (\<lambda>d. let current = consumer_cursor b channel (br_agent_id b) (consumer_cursors d) in
        cursor_after (acknowledged_by (br_agent_id b) (message_receipts d)) current
          (sort_key mg_sequence (eligible_rows b (mg_room_id source) (br_agent_id b) current (messages d))))) (\<lambda>advanced.
     tx_then (tx_execute (\<lambda>d. d\<lparr>consumer_cursors := upsert_row (cursor_is (br_scope b) channel (br_agent_id b))
        (\<lambda>r. r\<lparr>cc_position := advanced, cc_updated_utc := created\<rparr>)
        \<lparr>cc_scope = br_scope b, cc_channel = channel, cc_consumer = br_agent_id b, cc_position = advanced,
         cc_updated_utc = created\<rparr> (consumer_cursors d)\<rparr>))
     (tx_return (if re_status evaluation = Route_Verified then Some (rr_receipt_sha256 receipt) else None, advanced)))))))"

definition completed_row :: "string \<Rightarrow> string \<Rightarrow> string \<Rightarrow> dispatch_row \<Rightarrow> dispatch_row" where
  "completed_row reply_id receipt_sha created r = r\<lparr>dp_status := ''completed'', dp_lease_expires_epoch := None,
     dp_updated_utc := created, dp_completed_utc := Some created, dp_reply_message_id := Some reply_id,
     dp_inference_receipt_sha256 := Some receipt_sha, dp_error_code := None\<rparr>"

definition usage_content :: "inference_usage_row \<Rightarrow> json" where
  "usage_content r = (let u = iw_usage r in JObj ([(''scope'', JStr (iw_scope r)), (''message_id'', JStr (iw_message_id r)),
     (''agent_id'', JStr (iw_agent_id r)), (''reply_message_id'', JStr (iw_reply_message_id r)),
     (''route_profile_id'', json_opt JStr (iw_route_profile_id r)), (''provider_id'', json_opt JStr (iw_provider_id r)),
     (''model_id'', json_opt JStr (iw_model_id r)), (''reasoning_mode'', json_opt JStr (iw_reasoning_mode r)),
     (''route_class'', json_opt JStr (iw_route_class r)), (''usage_status'', JStr (iu_status u)),
     (''usage_source'', JStr (iu_source u))]
     @ map (\<lambda>f. (token_key f, json_opt JInt (iu_counts u f))) TOKEN_FIELDS
     @ [(''field_reported_calls'', JObj (map (\<lambda>f. (token_key f, JInt (iu_coverage u f))) TOKEN_FIELDS)),
        (''reported_calls'', JInt (iu_reported_calls u)), (''total_calls'', JInt (iu_total_calls u)),
        (''total_tokens_derived'', JBool (iu_total_derived u)), (''recorded_utc'', JStr (iw_recorded_utc r)),
        (''inference_receipt_sha256'', JStr (iw_inference_receipt_sha256 r))]))"

definition seal_usage :: "(string \<Rightarrow> string) \<Rightarrow> inference_usage_row \<Rightarrow> inference_usage_row" where
  "seal_usage H r = r\<lparr>iw_usage_sha256 := stable_sha256 H (usage_content r)\<rparr>"

definition new_usage :: "bridge \<Rightarrow> reply_call \<Rightarrow> msg_row \<Rightarrow> string \<Rightarrow> string \<Rightarrow> inference_usage_row" where
  "new_usage b c source reply_id created = seal_usage (br_sha256 b)
     \<lparr>iw_scope = br_scope b, iw_message_id = co_message_id c, iw_agent_id = br_agent_id b, iw_reply_message_id = reply_id,
      iw_route_profile_id = mg_route_profile_id source, iw_provider_id = br_provider_id b, iw_model_id = br_model_id b,
      iw_reasoning_mode = br_reasoning_mode b, iw_route_class = br_route_class b, iw_usage = co_usage c,
      iw_recorded_utc = created, iw_inference_receipt_sha256 = co_receipt_sha256 c, iw_usage_sha256 = []\<rparr>"

definition usage_row_is :: "string \<Rightarrow> string \<Rightarrow> string \<Rightarrow> inference_usage_row \<Rightarrow> bool" where
  "usage_row_is scope message_id agent_id r = (iw_scope r = scope \<and> iw_message_id r = message_id \<and> iw_agent_id r = agent_id)"

definition insert_usage :: "inference_usage_row \<Rightarrow> ('a dispatch_db_scheme, unit) op" where
  "insert_usage row =
     tx_bind (tx_query (\<lambda>d. list_ex (usage_row_is (iw_scope row) (iw_message_id row) (iw_agent_id row)) (inference_usages d))) (\<lambda>clash.
     tx_then (tx_require (\<not> clash) IntegrityError)
     (tx_execute (\<lambda>d. d\<lparr>inference_usages := inference_usages d @ [row]\<rparr>)))"

text \<open>The answer of a completion; a repeated call has only the first two parts.\<close>

record complete_result =
  cr_replay :: bool
  cr_dispatch :: dispatch_row
  cr_reply :: "msg_row option"
  cr_cursor :: nat
  cr_usage :: "inference_usage_row option"
  cr_chain :: "string option"

definition reply_subject :: "reply_call \<Rightarrow> msg_row \<Rightarrow> exn + string" where
  "reply_subject c source = require_text (py_strip (if co_subject c = [] then ''Re: '' @ mg_subject source else co_subject c))
     ''subject'' 500"

definition bound_receipt :: "bridge \<Rightarrow> reply_call \<Rightarrow> msg_row \<Rightarrow> int \<Rightarrow> ('a dispatch_db_scheme, trusted_row) op" where
  "bound_receipt b c source attempts =
     tx_bind (tx_query (\<lambda>d. fetch_one (trusted_for b c attempts) (trusted_receipts d))) (\<lambda>found.
     case found of None \<Rightarrow> tx_raise (BridgeError ''trusted inference receipt binding is required before completion'')
     | Some r \<Rightarrow>
         tx_bind (tx_query (\<lambda>d. binding_matches b c source (route_profiles d) r)) (\<lambda>ok.
         tx_then (tx_require ok (BridgeError ''trusted inference receipt binding does not match'')) (tx_return r)))"

definition store_completion :: "bridge \<Rightarrow> reply_call \<Rightarrow> dispatch_row \<Rightarrow> msg_row \<Rightarrow> route_evaluation \<Rightarrow> string
    \<Rightarrow> ('a dispatch_db_scheme, complete_result) op" where
  "store_completion b c dispatch source evaluation subject =
     tx_bind utc_now (\<lambda>created.
     tx_bind uuid4_hex (\<lambda>reply_id.
     tx_bind (write_reply b source reply_id subject (co_body c) created) (\<lambda>reply.
     tx_bind (acknowledge_source b source evaluation created) (\<lambda>(route_receipt_sha, advanced).
     tx_bind (change_dispatch b dispatch (completed_row reply_id (co_receipt_sha256 c) created)) (\<lambda>completed.
     let used = new_usage b c source reply_id created in
     tx_then (insert_usage used)
    (tx_then (event_op b ''message.sent'' [(''message_id'', JStr reply_id), (''room_id'', JStr (mg_room_id source)),
        (''sequence'', JInt (int (mg_sequence reply))), (''content_sha256'', JStr (mg_content_sha256 reply)),
        (''route_request_sha256'', JNull)] (Some (mg_task_id source)))
    (tx_bind (event_op b ''message.dispatch_completed'' [(''message_id'', JStr (co_message_id c)),
        (''reply_message_id'', JStr reply_id), (''dispatch_sha256'', JStr (dp_dispatch_sha256 completed)),
        (''inference_receipt_sha256'', JStr (co_receipt_sha256 c)),
        (''route_receipt_sha256'', json_opt JStr route_receipt_sha), (''inference_usage_sha256'', JStr (iw_usage_sha256 used)),
        (''inference_usage_status'', JStr (iu_status (co_usage c)))] (Some (mg_task_id source))) (\<lambda>event.
     tx_return \<lparr>cr_replay = False, cr_dispatch = completed, cr_reply = Some reply, cr_cursor = advanced, cr_usage = Some used,
       cr_chain = Some (snd event)\<rparr>))))))))"

definition complete_dispatch_tx :: "bridge \<Rightarrow> reply_call \<Rightarrow> ('a dispatch_db_scheme, complete_result) op" where
  "complete_dispatch_tx b c =
     tx_bind (require_dispatch_lease b (co_message_id c) (co_lease_token c) True) (\<lambda>dispatch.
     if dp_status dispatch = ''completed'' then
       tx_return \<lparr>cr_replay = True, cr_dispatch = dispatch, cr_reply = None, cr_cursor = 0, cr_usage = None, cr_chain = None\<rparr>
     else
       tx_bind (addressed_source b (co_message_id c)) (\<lambda>source.
       tx_bind (tx_query (\<lambda>d. discussion_fence source (room_discussions d))) (\<lambda>fence.
       tx_then (tx_lift fence)
      (tx_bind (routed_source b source) (\<lambda>evaluation.
       tx_then (bound_receipt b c source (dp_attempt_count dispatch))
      (tx_bind (tx_lift (reply_subject c source)) (\<lambda>subject.
       store_completion b c dispatch source evaluation subject)))))))"

definition complete_message_dispatch :: "bridge \<Rightarrow> complete_args \<Rightarrow> ('a dispatch_db_scheme, complete_result) op" where
  "complete_message_dispatch b args =
     tx_bind (tx_lift (validate_completion args)) (\<lambda>c. with_connection (complete_dispatch_tx b c))"

end
