(* ===== verification/DispatchReconcile.thy ===== *)
theory DispatchReconcile
  imports DispatchReplies
begin

text \<open>
  \<open>reconcile_message_dispatches\<close> of \<open>bridge.py\<close>: the discussion coordinator fails, for good, the dispatches of
  routed messages that can no longer be answered: the seat of the recipient is gone or has another route,
  the route profile is gone or changed, the attempts are used up, or no runtime or several were observed
  for the route. The flag \<open>discussion_coordinator\<close> of the bridge is the argument \<open>coordinator\<close>.
\<close>

definition DISCUSSION_COORDINATOR_ID :: string where "DISCUSSION_COORDINATOR_ID = ''mailbox-supervisor''"

section \<open>Observations\<close>

record observation =
  ob_message_id :: string
  ob_route_request_sha256 :: string
  ob_match_count :: int

record observation_args =
  oa_message_id :: string
  oa_route_request_sha256 :: "string option"
  oa_match_count :: int

definition parse_observation :: "observation list \<Rightarrow> observation_args \<Rightarrow> exn + observation list" where
  "parse_observation seen raw =
     res_bind (require_identifier (oa_message_id raw) ''message_id'') (\<lambda>message_id.
     res_bind (require_sha256 (oa_route_request_sha256 raw) ''route_request_sha256'') (\<lambda>sha.
     res_bind (bounded_integer (oa_match_count raw) ''match_count'' 0 1000) (\<lambda>count.
     res_require (count \<noteq> 1) (BridgeError ''route runtime observations only describe terminal match counts'')
    (res_require (message_id \<notin> set (map ob_message_id seen)) (BridgeError ''route runtime observation is duplicated'')
    (Inr (seen @ [\<lparr>ob_message_id = message_id, ob_route_request_sha256 = sha, ob_match_count = count\<rparr>]))))))"

fun parse_observations :: "observation list \<Rightarrow> observation_args list \<Rightarrow> exn + observation list" where
  "parse_observations seen [] = Inr seen"
| "parse_observations seen (raw # rest) = res_bind (parse_observation seen raw) (\<lambda>seen. parse_observations seen rest)"

definition observation_sha256 :: "(string \<Rightarrow> string) \<Rightarrow> observation \<Rightarrow> string" where
  "observation_sha256 H ob = stable_sha256 H (JObj [(''message_id'', JStr (ob_message_id ob)),
     (''route_request_sha256'', JStr (ob_route_request_sha256 ob)), (''match_count'', JInt (ob_match_count ob))])"

section \<open>Pending messages\<close>

definition recipient_dispatch :: "msg_row \<Rightarrow> dispatch_row list \<Rightarrow> dispatch_row option" where
  "recipient_dispatch m rows = fetch_one (dispatch_is (mg_scope m) (mg_message_id m) (mg_recipient m)) rows"

definition settled :: "dispatch_row option \<Rightarrow> bool" where
  "settled v = (status_is v ''completed'' \<or> status_is v ''failed'')"

definition pending_routed :: "bridge \<Rightarrow> 'a message_db_scheme \<Rightarrow> msg_row \<Rightarrow> bool" where
  "pending_routed b d m = (mg_scope m = br_scope b \<and> mg_recipient m \<noteq> ''*'' \<and> mg_sender m \<noteq> mg_recipient m
     \<and> mg_reply_to m = None \<and> mg_route_request_sha256 m \<noteq> None
     \<and> \<not> acknowledged_by (mg_recipient m) (message_receipts d) m \<and> in_active_discussion (room_discussions d) m
     \<and> \<not> settled (recipient_dispatch m (message_dispatches d)))"

definition pending_rows :: "bridge \<Rightarrow> int \<Rightarrow> 'a message_db_scheme \<Rightarrow> msg_row list" where
  "pending_rows b limit d = take (nat limit) (sort_key mg_sequence (filter (pending_routed b d) (messages d)))"

text \<open>Why a message can no longer be dispatched.\<close>

definition seat_error :: "bridge \<Rightarrow> 'a message_db_scheme \<Rightarrow> msg_row \<Rightarrow> string option" where
  "seat_error b d m =
    (if mg_room_id m = DEFAULT_ROOM_ID then None
     else case active_room_member b (mg_room_id m) (mg_recipient m) d of
       None \<Rightarrow> Some ''room_seat_unavailable''
     | Some seat \<Rightarrow> if text_or_empty (me_route_profile_id seat) \<noteq> text_or_empty (mg_route_profile_id m)
         then Some ''room_seat_route_changed'' else None)"

definition stored_request_args :: "msg_row \<Rightarrow> route_request_args" where
  "stored_request_args m = \<lparr>ra_route_profile_id = mg_route_profile_id m, ra_requested_provider_id = mg_requested_provider_id m,
     ra_requested_model_id = mg_requested_model_id m, ra_requested_reasoning_mode = mg_requested_reasoning_mode m,
     ra_requested_route_class = mg_requested_route_class m\<rparr>"

text \<open>Only a \<open>BridgeError\<close> is caught.\<close>

definition route_error :: "bridge \<Rightarrow> route_row list \<Rightarrow> msg_row \<Rightarrow> exn + string option" where
  "route_error b profiles m = (case resolve_route_request b profiles (mg_recipient m) (stored_request_args m) of
     Inl e \<Rightarrow> if is_bridge_error e then Inr (Some ''route_profile_unavailable'') else Inl e
   | Inr current \<Rightarrow> Inr (if current \<noteq> route_request_from_row m then Some ''route_profile_changed'' else None))"

definition dispatch_error :: "int \<Rightarrow> int \<Rightarrow> observation option \<Rightarrow> dispatch_row option \<Rightarrow> string option" where
  "dispatch_error now max_attempts observed row =
    (if lease_active now row then None
     else if max_attempts \<le> attempts_of row then Some ''dispatch_attempts_exhausted''
     else case observed of None \<Rightarrow> None
       | Some ob \<Rightarrow> Some (if ob_match_count ob = 0 then ''route_runtime_unavailable'' else ''route_runtime_ambiguous''))"

definition terminal_error :: "bridge \<Rightarrow> int \<Rightarrow> int \<Rightarrow> observation option \<Rightarrow> 'a message_db_scheme \<Rightarrow> msg_row \<Rightarrow> exn + string option" where
  "terminal_error b now max_attempts observed d m =
    (case seat_error b d m of Some e \<Rightarrow> Inr (Some e)
     | None \<Rightarrow> res_bind (route_error b (route_profiles d) m) (\<lambda>e.
         Inr (case e of Some e \<Rightarrow> Some e
           | None \<Rightarrow> dispatch_error now max_attempts observed (recipient_dispatch m (message_dispatches d)))))"

section \<open>Failing them\<close>

record reconciled =
  rn_message :: msg_row
  rn_error_code :: string
  rn_observation :: "observation option"
  rn_dispatch :: dispatch_row

definition terminal_row :: "bridge \<Rightarrow> msg_row \<Rightarrow> dispatch_row option \<Rightarrow> string \<Rightarrow> string \<Rightarrow> dispatch_row" where
  "terminal_row b m row error_code now = seal_dispatch (br_sha256 b)
     \<lparr>dp_scope = br_scope b, dp_message_id = mg_message_id m, dp_agent_id = mg_recipient m, dp_status = ''failed'',
      dp_claimed_session_id = None, dp_lease_token_sha256 = None, dp_lease_expires_epoch = None,
      dp_attempt_count = attempts_of row, dp_claimed_utc = (case row of None \<Rightarrow> None | Some r \<Rightarrow> dp_claimed_utc r),
      dp_updated_utc = now, dp_completed_utc = Some now, dp_reply_message_id = None, dp_inference_receipt_sha256 = None,
      dp_error_code = Some error_code, dp_dispatch_sha256 = []\<rparr>"

text \<open>\<open>ON CONFLICT\<close> sets every column but \<open>claimed_utc\<close>.\<close>

definition reconcile_row :: "bridge \<Rightarrow> observation list \<Rightarrow> int \<Rightarrow> int \<Rightarrow> string \<Rightarrow> msg_row
    \<Rightarrow> ('a message_db_scheme, reconciled option) op" where
  "reconcile_row b observations now_epoch max_attempts now m =
    (let observed = find (\<lambda>ob. ob_message_id ob = mg_message_id m) observations in
     tx_then (tx_require (case observed of None \<Rightarrow> True
         | Some ob \<Rightarrow> text_or_empty (mg_route_request_sha256 m) = ob_route_request_sha256 ob)
       (BridgeError ''route runtime observation does not match the message route SHA''))
    (tx_bind (tx_query (\<lambda>d. terminal_error b now_epoch max_attempts observed d m)) (\<lambda>found.
     tx_bind (tx_lift found) (\<lambda>error_code.
     case error_code of None \<Rightarrow> tx_return None
     | Some e \<Rightarrow>
         tx_bind (tx_query (\<lambda>d. terminal_row b m (recipient_dispatch m (message_dispatches d)) e now)) (\<lambda>row.
         tx_then (put_dispatch row (\<lambda>r. row\<lparr>dp_claimed_utc := dp_claimed_utc r\<rparr>))
         (tx_return (Some \<lparr>rn_message = m, rn_error_code = e, rn_observation = observed, rn_dispatch = row\<rparr>)))))))"

definition reconciled_json :: "(string \<Rightarrow> string) \<Rightarrow> reconciled \<Rightarrow> json" where
  "reconciled_json H r = JObj [(''message_id'', JStr (mg_message_id (rn_message r))),
     (''discussion_id'', json_opt JStr (mg_discussion_id (rn_message r))), (''agent_id'', JStr (mg_recipient (rn_message r))),
     (''error_code'', JStr (rn_error_code r)),
     (''route_runtime_observation_sha256'', json_opt JStr (map_option (observation_sha256 H) (rn_observation r))),
     (''dispatch_sha256'', JStr (dp_dispatch_sha256 (rn_dispatch r)))]"

fun present :: "'x option list \<Rightarrow> 'x list" where
  "present [] = []"
| "present (None # xs) = present xs"
| "present (Some x # xs) = x # present xs"

definition reconcile_dispatches_tx :: "bridge \<Rightarrow> int \<Rightarrow> int \<Rightarrow> observation list \<Rightarrow> string \<Rightarrow> int
    \<Rightarrow> ('a message_db_scheme, reconciled list \<times> string option) op" where
  "reconcile_dispatches_tx b limit max_attempts observations now now_epoch =
     tx_bind (tx_query (pending_rows b limit)) (\<lambda>rows.
     tx_bind (tx_for (reconcile_row b observations now_epoch max_attempts now) rows) (\<lambda>found.
     tx_then (tx_require (set (map ob_message_id observations) \<subseteq> set (map mg_message_id rows))
       (BridgeError ''route runtime observation does not identify a pending routed message''))
    (let reconciled = present found in
     if reconciled = [] then tx_return ([], None)
     else tx_bind (event_op b ''message.dispatches_reconciled'' [(''count'', JInt (int (length reconciled))),
         (''dispatches'', JList (map (reconciled_json (br_sha256 b)) reconciled))] None) (\<lambda>event.
       tx_return (reconciled, Some (snd event))))))"

record reconcile_args =
  rx_limit :: "int option"
  rx_max_attempts :: "int option"
  rx_observations :: "observation_args list"

definition validate_reconcile :: "bridge \<Rightarrow> bool \<Rightarrow> reconcile_args \<Rightarrow> exn + int \<times> int \<times> observation list" where
  "validate_reconcile b coordinator args =
     res_require (br_agent_id b = DISCUSSION_COORDINATOR_ID \<and> coordinator)
       (BridgeError ''only the discussion coordinator may reconcile dispatches'')
    (res_bind (bounded_integer (int_or 250 (rx_limit args)) ''limit'' 1 1000) (\<lambda>limit.
     res_bind (bounded_integer (int_or MAX_DISPATCH_ATTEMPTS (rx_max_attempts args)) ''max_attempts'' 1 100) (\<lambda>max_attempts.
     res_bind (parse_observations [] (rx_observations args)) (\<lambda>observations.
     Inr (limit, max_attempts, observations)))))"

definition reconcile_message_dispatches :: "bridge \<Rightarrow> bool \<Rightarrow> reconcile_args
    \<Rightarrow> ('a message_db_scheme, reconciled list \<times> string option) op" where
  "reconcile_message_dispatches b coordinator args =
     tx_bind (tx_lift (validate_reconcile b coordinator args)) (\<lambda>(limit, max_attempts, observations).
     tx_bind utc_now (\<lambda>now.
     tx_bind time_time (\<lambda>now_epoch.
     with_connection (reconcile_dispatches_tx b limit max_attempts observations now now_epoch))))"

end
