(* ===== verification/DispatchInvariant.thy ===== *)
theory DispatchInvariant
  imports DispatchReconcile MailSystem
begin

text \<open>
  The invariant of the dispatches. Every row has the shape of its status; a completed one has its evidence,
  which is the reply, the trusted receipt of the attempt and the tokens used; a retryable one has its schedule;
  receipts, schedules and usage rows are unique and sealed. A future only appends to these tables and leaves
  the settled dispatches as they are. The calls on rooms and messages stay within a frame that only fails
  unfinished dispatches.
\<close>

section \<open>Shapes\<close>

definition no_lease :: "dispatch_row \<Rightarrow> bool" where
  "no_lease r \<longleftrightarrow> dp_claimed_session_id r = None \<and> dp_lease_token_sha256 r = None \<and> dp_lease_expires_epoch r = None
     \<and> dp_reply_message_id r = None \<and> dp_inference_receipt_sha256 r = None \<and> dp_error_code r \<noteq> None"

definition claimed_shape :: "dispatch_row \<Rightarrow> bool" where
  "claimed_shape r \<longleftrightarrow> dp_claimed_session_id r \<noteq> None \<and> dp_lease_token_sha256 r \<noteq> None \<and> dp_lease_expires_epoch r \<noteq> None
     \<and> dp_reply_message_id r = None \<and> dp_inference_receipt_sha256 r = None"

definition dispatch_shape :: "dispatch_row \<Rightarrow> bool" where
  "dispatch_shape r \<longleftrightarrow> (dp_status r = ''claimed'' \<and> claimed_shape r) \<or> (dp_status r \<in> {''retryable'', ''failed''} \<and> no_lease r)
     \<or> (dp_status r = ''completed'' \<and> dp_lease_expires_epoch r = None \<and> dp_error_code r = None)"

definition final :: "dispatch_row \<Rightarrow> bool" where
  "final r \<longleftrightarrow> dp_status r \<in> {''completed'', ''failed''}"

definition retry_key :: "retry_row \<Rightarrow> string \<times> string \<times> string \<times> int" where
  "retry_key r = (rs_scope r, rs_message_id r, rs_agent_id r, rs_attempt_count r)"

definition trusted_key :: "trusted_row \<Rightarrow> string \<times> string \<times> string \<times> int" where
  "trusted_key r = (tr_scope r, tr_message_id r, tr_agent_id r, tr_attempt_count r)"

definition usage_key :: "inference_usage_row \<Rightarrow> string \<times> string \<times> string" where
  "usage_key r = (iw_scope r, iw_message_id r, iw_agent_id r)"

definition attempt_key :: "dispatch_row \<Rightarrow> string \<times> string \<times> string \<times> int" where
  "attempt_key r = (dp_scope r, dp_message_id r, dp_agent_id r, dp_attempt_count r)"

interpretation retries: sealed_row "\<lambda>r. stable_sha256 H (retry_payload r)" rs_schedule_sha256 "seal_retry H" for H
  by unfold_locales (simp_all add: seal_retry_def retry_payload_def)

interpretation trusts: sealed_row "\<lambda>r. stable_sha256 H (trusted_payload r)" tr_binding_sha256 "seal_trusted H" for H
  by unfold_locales (simp_all add: seal_trusted_def trusted_payload_def)

interpretation usages: sealed_row "\<lambda>r. stable_sha256 H (usage_content r)" iw_usage_sha256 "seal_usage H" for H
  by unfold_locales (simp_all add: seal_usage_def usage_content_def Let_def)

lemma desk_tests:
  "dispatch_is sc i ag r \<longleftrightarrow> disp_key r = (sc, i, ag)" "retry_is sc i ag n q \<longleftrightarrow> retry_key q = (sc, i, ag, n)"
  "trusted_is sc i ag n tr \<longleftrightarrow> trusted_key tr = (sc, i, ag, n)" "usage_row_is sc i ag u \<longleftrightarrow> usage_key u = (sc, i, ag)"
  by (auto simp: dispatch_is_def disp_key_def retry_is_def retry_key_def trusted_is_def trusted_key_def usage_row_is_def usage_key_def)

text \<open>What a completed dispatch rests on.\<close>

definition evidence :: "(string \<Rightarrow> string) \<Rightarrow> msg_row list \<Rightarrow> trusted_row list \<Rightarrow> inference_usage_row list \<Rightarrow> dispatch_row \<Rightarrow> bool" where
  "evidence H ms ts us r \<longleftrightarrow> (\<exists>m \<in> set ms. \<exists>tr \<in> set ts. \<exists>u \<in> set us.
     dp_reply_message_id r = Some (mg_message_id m) \<and> mg_scope m = dp_scope r \<and> mg_reply_to m = Some (dp_message_id r)
     \<and> mg_sender m = dp_agent_id r
     \<and> trusted_key tr = attempt_key r \<and> dp_claimed_session_id r = Some (tr_session_id tr)
     \<and> dp_lease_token_sha256 r = Some (tr_lease_token_sha256 tr)
     \<and> dp_inference_receipt_sha256 r = Some (tr_inference_receipt_sha256 tr)
     \<and> tr_reply_body_sha256 tr = sha256_text H (mg_body m)
     \<and> usage_key u = disp_key r \<and> iw_reply_message_id u = mg_message_id m
     \<and> iw_inference_receipt_sha256 u = tr_inference_receipt_sha256 tr
     \<and> tr_inference_usage_sha256 tr = stable_sha256 H (usage_json (iw_usage u)))"

definition scheduled :: "retry_row list \<Rightarrow> dispatch_row \<Rightarrow> bool" where
  "scheduled ss r \<longleftrightarrow> (\<exists>q \<in> set ss. retry_key q = attempt_key r \<and> dp_error_code r = Some (rs_error_code q))"

definition row_ok :: "(string \<Rightarrow> string) \<Rightarrow> 'a dispatch_db_scheme \<Rightarrow> dispatch_row \<Rightarrow> bool" where
  "row_ok H d r \<longleftrightarrow> dispatch_shape r
     \<and> (dp_status r = ''completed'' \<longrightarrow> evidence H (messages d) (trusted_receipts d) (inference_usages d) r)
     \<and> (dp_status r = ''retryable'' \<longrightarrow> scheduled (dispatch_retries d) r)"

definition desk_inv :: "(string \<Rightarrow> string) \<Rightarrow> 'a dispatch_db_scheme \<Rightarrow> bool" where
  "desk_inv H d \<longleftrightarrow> (\<forall>r \<in> set (message_dispatches d). row_ok H d r)
     \<and> distinct (map retry_key (dispatch_retries d)) \<and> (\<forall>q \<in> set (dispatch_retries d). retries.sealed H q)
     \<and> distinct (map trusted_key (trusted_receipts d)) \<and> (\<forall>tr \<in> set (trusted_receipts d). trusts.sealed H tr)
     \<and> distinct (map usage_key (inference_usages d)) \<and> (\<forall>u \<in> set (inference_usages d). usages.sealed H u)"

text \<open>The future of the rows: no row is lost, attempts never fall, and a final row stays as it is.\<close>

definition row_leads :: "dispatch_row list \<Rightarrow> dispatch_row list \<Rightarrow> bool" where
  "row_leads rs rs' \<longleftrightarrow> (\<forall>r \<in> set rs. \<exists>r' \<in> set rs'. disp_key r' = disp_key r \<and> dp_attempt_count r \<le> dp_attempt_count r'
     \<and> (final r \<longrightarrow> r' = r))"

definition desk_leads :: "'a dispatch_db_scheme \<Rightarrow> 'a dispatch_db_scheme \<Rightarrow> bool" where
  "desk_leads d d' \<longleftrightarrow> row_leads (message_dispatches d) (message_dispatches d')
     \<and> extends_list (dispatch_retries d) (dispatch_retries d') \<and> extends_list (trusted_receipts d) (trusted_receipts d')
     \<and> extends_list (inference_usages d) (inference_usages d')"

lemma row_leads_refl: "row_leads rs rs"
  by (auto simp: row_leads_def)

lemma row_leads_trans: "row_leads a b \<Longrightarrow> row_leads b c \<Longrightarrow> row_leads a c"
  unfolding row_leads_def by (metis order_trans)

lemma desk_leads_refl: "desk_leads d d"
  by (simp add: desk_leads_def row_leads_refl)

lemma desk_leads_trans: "desk_leads a b \<Longrightarrow> desk_leads b c \<Longrightarrow> desk_leads a c"
proof -
  assume l: "desk_leads a b" "desk_leads b c"
  show "desk_leads a c"
    unfolding desk_leads_def
  proof (intro conjI)
    show "row_leads (message_dispatches a) (message_dispatches c)"
      using l by (auto simp: desk_leads_def intro: row_leads_trans [of _ "message_dispatches b"])
  qed (use l in \<open>auto simp: desk_leads_def dest: extends_trans\<close>)
qed

lemma msg_core_same:
  "msg_core m' = msg_core m \<Longrightarrow> mg_message_id m' = mg_message_id m \<and> mg_scope m' = mg_scope m \<and> mg_reply_to m' = mg_reply_to m
     \<and> mg_sender m' = mg_sender m \<and> mg_body m' = mg_body m"
  by (cases m, cases m') (simp add: msg_core_def)

lemma evidence_mono:
  assumes "evidence H ms ts us r" and "set (map msg_core ms) \<subseteq> set (map msg_core ms')" and "set ts \<subseteq> set ts'" and "set us \<subseteq> set us'"
  shows "evidence H ms' ts' us' r"
proof -
  have "\<exists>m' \<in> set ms'. mg_message_id m' = mg_message_id m \<and> mg_scope m' = mg_scope m \<and> mg_reply_to m' = mg_reply_to m
      \<and> mg_sender m' = mg_sender m \<and> mg_body m' = mg_body m" if m: "m \<in> set ms" for m
  proof -
    obtain m' where "m' \<in> set ms'" "msg_core m' = msg_core m" using assms(2) m by fastforce
    then show ?thesis using msg_core_same by blast
  qed
  then obtain f where f: "f m \<in> set ms' \<and> mg_message_id (f m) = mg_message_id m \<and> mg_scope (f m) = mg_scope m
      \<and> mg_reply_to (f m) = mg_reply_to m \<and> mg_sender (f m) = mg_sender m \<and> mg_body (f m) = mg_body m" if "m \<in> set ms" for m
    by metis
  obtain m tr u where "m \<in> set ms" "tr \<in> set ts" "u \<in> set us" and "evidence H [m] [tr] [u] r"
    using assms(1) unfolding evidence_def by auto
  then show ?thesis
    using f [of m] assms(3,4) unfolding evidence_def by (intro bexI [of _ "f m"] bexI [of _ tr] bexI [of _ u]) auto
qed

section \<open>The frame of the other calls\<close>

text \<open>An unfinished dispatch that was failed, or the row as it was.\<close>

definition fenced :: "(string \<Rightarrow> string) \<Rightarrow> dispatch_row \<Rightarrow> dispatch_row \<Rightarrow> bool" where
  "fenced H r r' \<longleftrightarrow> r' = r \<or> dp_status r \<in> {''claimed'', ''retryable''} \<and> disp_key r' = disp_key r
     \<and> dp_attempt_count r' = dp_attempt_count r \<and> dp_status r' = ''failed'' \<and> no_lease r' \<and> disp.sealed H r'"

definition kept_desk :: "(string \<Rightarrow> string) \<Rightarrow> 'a dispatch_db_scheme \<Rightarrow> 'a dispatch_db_scheme \<Rightarrow> bool" where
  "kept_desk H d d' \<longleftrightarrow> (distinct (map disp_key (message_dispatches d)) \<longrightarrow>
     list_all2 (fenced H) (message_dispatches d) (message_dispatches d')
     \<and> dispatch_retries d' = dispatch_retries d \<and> trusted_receipts d' = trusted_receipts d
     \<and> inference_usages d' = inference_usages d)"

lemma fenced_refl: "fenced H r r" by (simp add: fenced_def)

lemma fenced_trans: "fenced H a b \<Longrightarrow> fenced H b c \<Longrightarrow> fenced H a c"
  by (auto simp: fenced_def)

lemma fenced_keys: "list_all2 (fenced H) rs rs' \<Longrightarrow> map disp_key rs' = map disp_key rs"
  by (induction rule: list_all2_induct) (auto simp: fenced_def)

interpretation kept: db_frame "kept_desk H" for H
proof
  show "kept_desk H d d" for d :: "'a dispatch_db_scheme" by (simp add: kept_desk_def list_all2_refl fenced_refl)
  show "kept_desk H d f" if "kept_desk H d e" "kept_desk H e f" for d e f :: "'a dispatch_db_scheme"
  proof -
    have "list_all2 (fenced H) (message_dispatches d) (message_dispatches f)"
      if "list_all2 (fenced H) (message_dispatches d) (message_dispatches e)"
        "list_all2 (fenced H) (message_dispatches e) (message_dispatches f)"
      using list_all2_trans [OF _ that, of "fenced H"] fenced_trans by blast
    then show ?thesis using that fenced_keys [of H "message_dispatches d" "message_dispatches e"] unfolding kept_desk_def by metis
  qed
qed

lemma kept_execute:
  assumes "\<And>d. message_dispatches (f d) = message_dispatches d \<and> dispatch_retries (f d) = dispatch_retries d
    \<and> trusted_receipts (f d) = trusted_receipts d \<and> inference_usages (f d) = inference_usages d"
  shows "kept.framed H (tx_execute f)"
  by (rule kept.framed_execute) (simp add: kept_desk_def assms list_all2_refl fenced_refl)

lemma kept_reads:
  "kept.framed H (room_of b rm)" "kept.framed H (require_room_member b rm ag)" "kept.framed H (room_policy b rm)"
  "kept.framed H (require_room_manager b rm)" "kept.framed H (require_own_or_manager b rm ag)" "kept.framed H (seat_session row)"
  "kept.framed H (load_receipt b metadata)"
proof -
  show "kept.framed H (load_receipt b metadata)"
    unfolding load_receipt_def by (auto intro!: kept.framed_intros split: option.splits)
  show "kept.framed H (seat_session row)" unfolding seat_session_def by (intro kept.framed_intros)
qed (rule kept.framedI; auto simp: tx_simps kept.frame_refl)+

lemma kept_event: "kept.framed H (event_op b ty p tid)"
  by (rule kept.framedI) (auto dest!: event_op_ok simp: appends_def kept_desk_def list_all2_refl fenced_refl)

lemma kept_messages:
  "kept.framed H (reserve_message_storage b n bytes)" "kept.framed H (insert_message b m i)"
  "kept.framed H (store_receipt b metadata result)" "kept.framed H (record_route_receipt b row co now st)"
  "kept.framed H (advance_cursor b rm co)" "kept.framed H (insert_discussion drow)"
  unfolding reserve_message_storage_def insert_message_def store_receipt_def record_route_receipt_def advance_cursor_def
    insert_discussion_def Let_def
  by (auto intro!: kept.framed_intros kept_execute split: option.splits)

lemma kept_rooms:
  "kept.framed H (store_seat row)" "kept.framed H (upsert_room_role b rm ag sess rid lab now)"
  "kept.framed H (stop_discussion b now reason r)" "kept.framed H (store_policy b p now)"
proof -
  show stop: "kept.framed H (stop_discussion b now reason r)" for reason r
    unfolding stop_discussion_def store_discussion_state_def Let_def by (intro kept.framed_intros kept_execute) simp
  show "kept.framed H (store_policy b p now)"
    unfolding store_policy_def by (intro kept.framed_intros kept_execute stop) simp
qed (unfold store_seat_def upsert_room_role_def Let_def; intro kept.framed_intros kept_execute; simp)+

lemma kept_membership: "kept.framed H (upsert_room_membership b rm ag route now rid lab)"
  unfolding upsert_room_membership_def Let_def by (intro kept.framed_intros kept_reads kept_rooms)

lemma kept_cancel: "kept.framed (br_sha256 b) (cancel_discussion_dispatches b i e now)"
proof (rule kept.framedI)
  fix s n and t :: "'a dispatch_db_scheme pstate"
  assume run: "cancel_discussion_dispatches b i e now s = (Inr n, t)"
  show "kept_desk (br_sha256 b) (st_db s) (st_db t)"
    unfolding kept_desk_def
  proof
    assume d: "distinct (map disp_key (message_dispatches (st_db s)))"
    have t: "st_db t = fence_db (br_sha256 b) (br_scope b) i e now (st_db s)"
      using run by (auto simp: cancel_discussion_dispatches_run [OF d])
    have "fenced (br_sha256 b) r (if unfinished_in (br_scope b) i ms r then fence (br_sha256 b) e now r else r)" for r ms
      by (auto simp: fenced_def unfinished_in_def unfinished_prompt_def no_lease_def fence_def)
        (simp_all add: seal_dispatch_def fail_dispatch_def disp_key_def)
    then show "list_all2 (fenced (br_sha256 b)) (message_dispatches (st_db s)) (message_dispatches (st_db t))
        \<and> dispatch_retries (st_db t) = dispatch_retries (st_db s) \<and> trusted_receipts (st_db t) = trusted_receipts (st_db s)
        \<and> inference_usages (st_db t) = inference_usages (st_db s)"
      unfolding t by (simp add: fence_db_def update_where_def list_all2_map2 list_all2_same)
  qed
qed

lemma kept_writes:
  "kept.framed H (write_message b m i)" "kept.framed H (write_messages b ms)"
  "kept.framed H body \<Longrightarrow> kept.framed H (once_per_receipt b metadata body)"
  unfolding write_message_def write_messages_def once_per_receipt_def
  by (intro kept.framed_intros kept_messages kept_reads; assumption)+

lemmas kept_frames = kept_reads kept_event kept_messages kept_rooms kept_membership kept_writes

section \<open>Every call of the mail stays within the frame\<close>

lemma kept_fanout_tx: "kept.framed H (fanout_tx b m enforce)"
  unfolding fanout_tx_def Let_def by (intro kept.framed_intros kept_frames)

lemma kept_start: "kept.framed (br_sha256 b) (start_discussion b m policy)"
  unfolding start_discussion_def supersede_def insert_discussion_prompt_def Let_def
  by (intro kept.framed_intros kept_cancel kept_frames)

lemma kept_post: "kept.framed (br_sha256 b) (post_room_message b ws pargs)"
  unfolding post_room_message_def post_tx_def post_history_def
  by (intro kept.framed_intros kept_frames kept_fanout_tx kept_start)

lemma kept_mail_calls:
  "kept.framed H (send_message b ws args)" "kept.framed H (send_room_fanout b ws pargs)"
  "kept.framed H (poll_messages b qargs)" "kept.framed H (ack_message b i a)"
proof -
  show "kept.framed H (send_message b ws args)"
    unfolding send_message_def send_tx_def Let_def by (intro kept.framed_intros kept_frames)
  show "kept.framed H (send_room_fanout b ws pargs)"
    unfolding send_room_fanout_def by (intro kept.framed_intros kept_frames kept_fanout_tx)
  show "kept.framed H (poll_messages b qargs)"
    unfolding poll_messages_def Let_def by (intro kept.framed_intros kept_frames)
  show "kept.framed H (ack_message b i a)"
    unfolding ack_message_def ack_tx_def Let_def by (intro kept.framed_intros kept_frames kept_execute) simp_all
qed

lemma kept_room_calls:
  "kept.framed H (seed_lobby b)" "kept.framed H (create_room b i n)" "kept.framed H (join_room b sargs)"
  "kept.framed H (set_room_member_role b i n o1 o2)" "kept.framed H (leave_room b i a)"
  "kept.framed H (get_room_automation b i)" "kept.framed H (list_rooms b flag)" "kept.framed H (upsert_route_profile b rargs)"
proof -
  show "kept.framed H (seed_lobby b)"
    unfolding seed_lobby_def Let_def by (intro kept.framed_intros kept_execute) simp_all
  show "kept.framed H (create_room b i n)"
    unfolding create_room_def Let_def by (intro kept.framed_intros kept_frames kept_execute) simp_all
  show "kept.framed H (upsert_route_profile b rargs)"
    unfolding upsert_route_profile_def Let_def by (intro kept.framed_intros kept_frames kept_execute) simp_all
qed (unfold join_room_def set_room_member_role_def set_role_tx_def leave_room_def leave_tx_def get_room_automation_def
    list_rooms_def Let_def; intro kept.framed_intros kept_frames)+

lemma kept_automation: "kept.framed (br_sha256 b) (set_room_automation b aargs)"
  unfolding set_room_automation_def Let_def by (intro kept.framed_intros kept_cancel kept_frames)

section \<open>A call on the mail keeps the desk\<close>

lemma fenced_row_leads:
  assumes "list_all2 (fenced H) rs rs'"
  shows "row_leads rs rs'"
  unfolding row_leads_def
proof
  fix r assume "r \<in> set rs"
  then obtain k where k: "k < length rs" "r = rs ! k" by (metis in_set_conv_nth)
  then have "fenced H r (rs' ! k)" "rs' ! k \<in> set rs'" using assms by (simp_all add: list_all2_conv_all_nth)
  then show "\<exists>r' \<in> set rs'. disp_key r' = disp_key r \<and> dp_attempt_count r \<le> dp_attempt_count r' \<and> (final r \<longrightarrow> r' = r)"
    by (intro bexI [of _ "rs' ! k"]) (auto simp: fenced_def final_def)
qed

lemma fenced_from:
  assumes "list_all2 (fenced H) rs rs'" and "r' \<in> set rs'"
  obtains r where "r \<in> set rs" "fenced H r r'"
  using assms by (metis in_set_conv_nth list_all2_conv_all_nth)

lemma leads_core:
  assumes "mail_leads d d'"
  shows "set (map msg_core (messages d)) \<subseteq> set (map msg_core (messages d'))"
proof -
  obtain zs where "map msg_core (messages d') = map msg_core (messages d) @ zs"
    using assms by (auto simp: mail_leads_def extends_list_def)
  then show ?thesis by (simp only: set_append Un_upper1)
qed

text \<open>The rows before are kept or failed, the evidence of the completed ones stays.\<close>

lemma kept_desk_step:
  assumes "kept_desk H d d'" and "desk_inv H d" and "distinct (map disp_key (message_dispatches d))" and "mail_leads d d'"
  shows "desk_inv H d' \<and> desk_leads d d'"
proof -
  have rows: "list_all2 (fenced H) (message_dispatches d) (message_dispatches d')"
    and same: "dispatch_retries d' = dispatch_retries d" "trusted_receipts d' = trusted_receipts d"
      "inference_usages d' = inference_usages d"
    using assms(1,3) by (auto simp: kept_desk_def)
  have core: "set (map msg_core (messages d)) \<subseteq> set (map msg_core (messages d'))"
    by (rule leads_core [OF assms(4)])
  have "row_ok H d' r'" if r': "r' \<in> set (message_dispatches d')" for r'
  proof -
    obtain r where r: "r \<in> set (message_dispatches d)" "fenced H r r'" using fenced_from [OF rows r'] .
    have ok: "row_ok H d r" using assms(2) r(1) by (simp add: desk_inv_def)
    have "row_ok H d' r" using ok evidence_mono [OF _ core order_refl order_refl] by (auto simp: row_ok_def same)
    then show ?thesis using r(2) by (auto simp: fenced_def row_ok_def dispatch_shape_def)
  qed
  then have "desk_inv H d'" using assms(2) by (simp add: desk_inv_def same)
  moreover have "desk_leads d d'" using fenced_row_leads [OF rows] by (simp add: desk_leads_def same)
  ultimately show ?thesis by blast
qed

section \<open>Placing a row\<close>

text \<open>One row put under its key, the others as they were.\<close>

definition placed :: "dispatch_row \<Rightarrow> dispatch_row list \<Rightarrow> dispatch_row list \<Rightarrow> bool" where
  "placed row rs rs' \<longleftrightarrow> set rs' = {r \<in> set rs. disp_key r \<noteq> disp_key row} \<union> {row} \<and> distinct (map disp_key rs')"

text \<open>A row may be put when the old row of its key is not final and has no more attempts.\<close>

definition may_place :: "dispatch_row \<Rightarrow> dispatch_row list \<Rightarrow> bool" where
  "may_place row rs \<longleftrightarrow> (\<forall>r \<in> set rs. disp_key r = disp_key row \<longrightarrow> \<not> final r \<and> dp_attempt_count r \<le> dp_attempt_count row)"

lemma placed_leads: "placed row rs rs' \<Longrightarrow> may_place row rs \<Longrightarrow> row_leads rs rs'"
  unfolding row_leads_def placed_def may_place_def by (metis (mono_tags, lifting) Un_iff mem_Collect_eq order_refl singletonI)

lemma placed_disc:
  assumes "disc_inv H d" and "placed row (message_dispatches d) rs" and "disp.sealed H row"
  shows "disc_inv H (d\<lparr>message_dispatches := rs\<rparr>)"
  using assms by (auto simp: disc_inv_def placed_def)

lemma placed_room:
  assumes "room_inv H d" and "placed row (message_dispatches d) rs" and "disp.sealed H row"
  shows "room_inv H (d\<lparr>message_dispatches := rs\<rparr>)"
  using assms placed_disc [of H d row rs] by (simp add: room_inv_def)

text \<open>The tables may grow in the same step, as long as they stay unique and sealed.\<close>

lemma placed_desk:
  assumes "desk_inv H d" and p: "placed row (message_dispatches d) (message_dispatches d')" and "may_place row (message_dispatches d)"
    and "row_ok H d' row" and core: "set (map msg_core (messages d)) \<subseteq> set (map msg_core (messages d'))"
    and x: "extends_list (dispatch_retries d) (dispatch_retries d')" "extends_list (trusted_receipts d) (trusted_receipts d')"
      "extends_list (inference_usages d) (inference_usages d')"
    and "distinct (map retry_key (dispatch_retries d'))" "\<forall>q \<in> set (dispatch_retries d'). retries.sealed H q"
    and "distinct (map trusted_key (trusted_receipts d'))" "\<forall>tr \<in> set (trusted_receipts d'). trusts.sealed H tr"
    and "distinct (map usage_key (inference_usages d'))" "\<forall>u \<in> set (inference_usages d'). usages.sealed H u"
  shows "desk_inv H d' \<and> desk_leads d d'"
proof -
  have sub: "set (dispatch_retries d) \<subseteq> set (dispatch_retries d')" "set (trusted_receipts d) \<subseteq> set (trusted_receipts d')"
      "set (inference_usages d) \<subseteq> set (inference_usages d')"
    using x by (auto simp: extends_list_def)
  have "row_ok H d' r" if "r \<in> set (message_dispatches d)" for r
    using assms(1) that evidence_mono [OF _ core sub(2,3)] sub(1) by (fastforce simp: desk_inv_def row_ok_def scheduled_def)
  then have "\<forall>r \<in> set (message_dispatches d'). row_ok H d' r" using p assms(4) by (auto simp: placed_def)
  then show ?thesis using assms placed_leads [OF p assms(3)] by (simp add: desk_inv_def desk_leads_def)
qed

end
