(* ===== verification/DispatchSystem.thy ===== *)
theory DispatchSystem
  imports DispatchInvariant
begin

text \<open>
  The dispatch calls as steps of the shared store, beside the calls of the rooms and messages. Each call is
  atomic, keeps the invariant of the rooms, the mail and the dispatches, and leads to a future in which
  settled dispatches, receipts and usage rows are as they were.
\<close>

section \<open>Steps\<close>

definition store_inv :: "(string \<Rightarrow> string) \<Rightarrow> 'a dispatch_db_scheme \<Rightarrow> bool" where
  "store_inv H d \<longleftrightarrow> message_inv H d \<and> desk_inv H d"

definition store_leads :: "'a dispatch_db_scheme \<Rightarrow> 'a dispatch_db_scheme \<Rightarrow> bool" where
  "store_leads d d' \<longleftrightarrow> mail_leads d d' \<and> desk_leads d d'"

definition store_step :: "(string \<Rightarrow> string) \<Rightarrow> 'a dispatch_db_scheme \<Rightarrow> 'a dispatch_db_scheme \<Rightarrow> bool" where
  "store_step H d d' \<longleftrightarrow> (store_inv H d \<longrightarrow> store_inv H d' \<and> store_leads d d')"

lemma store_leads_trans: "store_leads a b \<Longrightarrow> store_leads b c \<Longrightarrow> store_leads a c"
  using mail_leads_trans desk_leads_trans by (auto simp: store_leads_def)

interpretation stores: db_frame "store_step H" for H
proof
  show "store_step H d d" for d :: "'a dispatch_db_scheme"
    by (simp add: store_step_def store_leads_def mail_leads_refl desk_leads_refl)
  show "store_step H d e \<Longrightarrow> store_step H e f \<Longrightarrow> store_step H d f" for d e f :: "'a dispatch_db_scheme"
    unfolding store_step_def using store_leads_trans by blast
qed

lemma store_keys: "store_inv H d \<Longrightarrow> distinct (map disp_key (message_dispatches d))"
  by (simp add: store_inv_def message_inv_def room_inv_def disc_inv_def)

text \<open>Code that leaves the rooms alone, steps the mail and stays within the frame of the dispatches.\<close>

lemma step_of_frames:
  assumes "rooms.framed m" and "mail.framed H m" and "kept.framed H m"
  shows "stores.framed H m"
proof (rule stores.framedI)
  fix s x and t :: "'a dispatch_db_scheme pstate"
  assume run: "m s = (Inr x, t)"
  have r: "same_rooms (st_db s) (st_db t)" and l: "mail_step H (st_db s) (st_db t)" and k: "kept_desk H (st_db s) (st_db t)"
    using rooms.framedD [OF assms(1) run] mail.framedD [OF assms(2) run] kept.framedD [OF assms(3) run] .
  show "store_step H (st_db s) (st_db t)"
    unfolding store_step_def
  proof
    assume inv: "store_inv H (st_db s)"
    then have leads: "mail_inv H (st_db t)" "mail_leads (st_db s) (st_db t)" using l by (auto simp: store_inv_def message_inv_def mail_step_def)
    moreover have "desk_inv H (st_db t) \<and> desk_leads (st_db s) (st_db t)"
      using kept_desk_step [OF k _ store_keys [OF inv] leads(2)] inv by (simp add: store_inv_def)
    ultimately show "store_inv H (st_db t) \<and> store_leads (st_db s) (st_db t)"
      using inv same_rooms_inv [OF r, of H] by (simp add: store_inv_def message_inv_def store_leads_def)
  qed
qed

lemma event_step: "stores.framed (br_sha256 b) (event_op b ty p tid)"
  by (intro step_of_frames event_same_rooms event_mail kept_event)

text \<open>Placing a row.\<close>

lemma place_step:
  assumes "placed row (message_dispatches d) ds" and "may_place row (message_dispatches d)" and "row_ok H d row" and "disp.sealed H row"
  shows "store_step H d (d\<lparr>message_dispatches := ds\<rparr>)"
  unfolding store_step_def
proof
  let ?d = "d\<lparr>message_dispatches := ds\<rparr>"
  assume inv: "store_inv H d"
  have "row_ok H ?d row" using assms(3) by (simp add: row_ok_def)
  then have "desk_inv H ?d \<and> desk_leads d ?d"
    using inv placed_desk [of H d row ?d] assms(1,2) by (simp add: store_inv_def desk_inv_def)
  moreover have "room_inv H ?d" using placed_room [OF _ assms(1,4)] inv by (simp add: store_inv_def message_inv_def)
  moreover have "mail_inv H ?d \<and> mail_leads d ?d"
    using inv by (auto simp: store_inv_def message_inv_def mail_inv_def mail_leads_def audit_inv_def)
  ultimately show "store_inv H ?d \<and> store_leads d ?d" by (simp add: store_inv_def message_inv_def store_leads_def)
qed

text \<open>The tables of the dispatches may grow.\<close>

lemma grow_step:
  assumes "same_rooms d d'" and "same_mail d d'" and "events d' = events d" "event_seq d' = event_seq d"
    "scope_storage_usage d' = scope_storage_usage d" "message_dispatches d' = message_dispatches d"
    and x: "extends_list (dispatch_retries d) (dispatch_retries d')" "extends_list (trusted_receipts d) (trusted_receipts d')"
      "extends_list (inference_usages d) (inference_usages d')"
    and "distinct (map retry_key (dispatch_retries d'))" "\<forall>q \<in> set (dispatch_retries d'). retries.sealed H q"
    and "distinct (map trusted_key (trusted_receipts d'))" "\<forall>tr \<in> set (trusted_receipts d'). trusts.sealed H tr"
    and "distinct (map usage_key (inference_usages d'))" "\<forall>u \<in> set (inference_usages d'). usages.sealed H u"
  shows "store_step H d d'"
  unfolding store_step_def
proof
  assume inv: "store_inv H d"
  have "mail_step H d d'" using assms(1-5) by (intro mail_step_same) (simp_all add: same_rooms_def)
  moreover have "row_ok H d' r" if "r \<in> set (message_dispatches d)" for r
    using inv that evidence_mono [of H "messages d" "trusted_receipts d" "inference_usages d" r] x assms(2)
    by (fastforce simp: store_inv_def desk_inv_def row_ok_def scheduled_def extends_list_def same_mail_def)
  then have "desk_inv H d'" using assms(6,10-) by (simp add: desk_inv_def)
  moreover have "desk_leads d d'" using assms(6) x by (simp add: desk_leads_def row_leads_refl)
  ultimately show "store_inv H d' \<and> store_leads d d'"
    using inv same_rooms_inv [OF assms(1), of H] by (simp add: store_inv_def message_inv_def store_leads_def mail_step_def)
qed

section \<open>The lease\<close>

text \<open>The row under a token: of this agent and session, live, or completed where that is allowed.\<close>

definition holds_dispatch :: "bridge \<Rightarrow> string \<Rightarrow> string \<Rightarrow> int \<Rightarrow> dispatch_row \<Rightarrow> bool" where
  "holds_dispatch b i token now row \<longleftrightarrow> token \<noteq> [] \<and> disp_key row = (br_scope b, i, br_agent_id b)
     \<and> dp_claimed_session_id row = Some (br_session_id b)
     \<and> text_or_empty (dp_lease_token_sha256 row) = sha256_text (br_sha256 b) token
     \<and> (dp_status row = ''claimed'' \<longrightarrow> (\<forall>e. dp_lease_expires_epoch row = Some e \<longrightarrow> now < e))"

lemma require_dispatch_lease_run:
  assumes "require_dispatch_lease b i token al s = (Inr row, t)"
  shows "st_db t = st_db s \<and> row \<in> set (message_dispatches (st_db s)) \<and> holds_dispatch b i token (time_at s) row
    \<and> (dp_status row = ''claimed'' \<or> al \<and> dp_status row = ''completed'')"
proof -
  obtain u where found: "fetch_one (dispatch_is (br_scope b) i (br_agent_id b)) (message_dispatches (st_db s)) = Some u"
    using assms by (auto simp: require_dispatch_lease_def tx_simps split: option.splits)
  have u: "u \<in> set (message_dispatches (st_db s))" "disp_key u = (br_scope b, i, br_agent_id b)"
    using fetch_one_SomeD [OF found] by (simp_all add: desk_tests)
  have run: "token \<noteq> []" "check_dispatch_lease b token al u = Inr ()" "row = u" "st_db t = st_db s"
    "dp_status u = ''claimed'' \<longrightarrow> (\<forall>e. dp_lease_expires_epoch u = Some e \<longrightarrow> time_at s < e)"
    using assms found by (auto simp: require_dispatch_lease_def tx_simps split: option.splits if_splits)
  then show ?thesis using u by (auto simp: holds_dispatch_def check_dispatch_lease_def tx_simps split: if_splits)
qed

section \<open>Changing the row under the lease\<close>

lemma seal_key [simp]: "disp_key (seal_dispatch H r) = disp_key r" "dp_attempt_count (seal_dispatch H r) = dp_attempt_count r"
  "dp_status (seal_dispatch H r) = dp_status r" "final (seal_dispatch H r) = final r" "dispatch_shape (seal_dispatch H r) = dispatch_shape r"
  "attempt_key (seal_dispatch H r) = attempt_key r" "dp_error_code (seal_dispatch H r) = dp_error_code r"
  by (simp_all add: seal_dispatch_def disp_key_def final_def dispatch_shape_def claimed_shape_def no_lease_def attempt_key_def)

lemma change_dispatch_run:
  assumes run: "change_dispatch b row f s = (Inr x, t)" and d: "distinct (map disp_key (message_dispatches (st_db s)))"
    and row: "row \<in> set (message_dispatches (st_db s))" "dp_scope row = br_scope b" and f: "\<And>r. disp_key (f r) = disp_key r"
  shows "x = seal_dispatch (br_sha256 b) (f row)
    \<and> (\<exists>ds. placed x (message_dispatches (st_db s)) ds \<and> st_db t = (st_db s)\<lparr>message_dispatches := ds\<rparr>)"
proof -
  let ?rows = "message_dispatches (st_db s)"
  define g where "g r = (f r)\<lparr>dp_dispatch_sha256 := dp_dispatch_sha256 (seal_dispatch (br_sha256 b) (f row))\<rparr>" for r
  let ?ds = "update_where (same_dispatch b row) g ?rows"
  have x: "x = seal_dispatch (br_sha256 b) (f row)" and t: "st_db t = (st_db s)\<lparr>message_dispatches := ?ds\<rparr>"
    using run by (auto simp: change_dispatch_def tx_simps Let_def g_def [abs_def])
  have same: "same_dispatch b row r \<longleftrightarrow> disp_key r = disp_key row" for r
    using row(2) by (auto simp: same_dispatch_def disp_key_def)
  have g: "g row = x" "disp_key (g r) = disp_key r" for r
    using f by (simp_all add: g_def x disp_key_def seal_dispatch_def)
  have "map disp_key ?ds = map disp_key ?rows" by (rule map_update_where) (simp add: g)
  moreover have "?ds = map (\<lambda>r. if r = row then x else r) ?rows"
  proof -
    have "disp_key r = disp_key row \<longleftrightarrow> r = row" if "r \<in> set ?rows" for r using that row(1) distinct_key_eq [OF d] by blast
    then show ?thesis using g(1) by (auto simp: update_where_def same)
  qed
  then have "set ?ds = {r \<in> set ?rows. r \<noteq> row} \<union> {x}" using row(1) by auto
  moreover have "r \<noteq> row \<longleftrightarrow> disp_key r \<noteq> disp_key x" if "r \<in> set ?rows" for r
    using that row(1) distinct_key_eq [OF d] f by (auto simp: x)
  then have "{r \<in> set ?rows. r \<noteq> row} = {r \<in> set ?rows. disp_key r \<noteq> disp_key x}" by blast
  ultimately show ?thesis using x t d by (auto simp: placed_def)
qed

lemma may_place_held:
  assumes "distinct (map disp_key rs)" and "row \<in> set rs" and "disp_key new = disp_key row" and "\<not> final row"
    and "dp_attempt_count row \<le> dp_attempt_count new"
  shows "may_place new rs"
  unfolding may_place_def using assms distinct_key_eq [OF assms(1)] by metis

lemma row_ok_seal [simp]: "row_ok H d (seal_dispatch H2 r) = row_ok H d r"
  by (simp add: row_ok_def scheduled_def evidence_def) (simp add: seal_dispatch_def disp_key_def)

lemma sealed_dispatch [simp]: "disp.sealed H (seal_dispatch H r)"
  by (rule disp.sealed_seal)

lemma store_stepI: "(store_inv H d \<Longrightarrow> store_step H d e) \<Longrightarrow> store_step H d e"
  by (auto simp: store_step_def)

lemma store_chain: "store_step H d e \<Longrightarrow> (store_inv H e \<Longrightarrow> store_step H e f) \<Longrightarrow> store_step H d f"
  unfolding store_step_def using store_leads_trans by blast

lemma change_step:
  fixes s t :: "'a dispatch_db_scheme pstate"
  assumes run: "change_dispatch b row f s = (Inr x, t)" and inv: "store_inv (br_sha256 b) (st_db s)"
    and row: "row \<in> set (message_dispatches (st_db s))" "dp_scope row = br_scope b" "dp_status row = ''claimed''"
    and f: "\<And>r. disp_key (f r) = disp_key r" "dp_attempt_count (f row) = dp_attempt_count row"
    and ok: "row_ok (br_sha256 b) (st_db s) (f row)"
  shows "store_step (br_sha256 b) (st_db s) (st_db t) \<and> x = seal_dispatch (br_sha256 b) (f row)"
proof -
  obtain ds where x: "x = seal_dispatch (br_sha256 b) (f row)" and p: "placed x (message_dispatches (st_db s)) ds"
    and t: "st_db t = (st_db s)\<lparr>message_dispatches := ds\<rparr>"
    using change_dispatch_run [OF run store_keys [OF inv] row(1,2)] f(1) by blast
  have "may_place x (message_dispatches (st_db s))"
    using row f by (intro may_place_held [OF store_keys [OF inv] row(1)]) (simp_all add: x final_def)
  then show ?thesis using place_step [OF p] ok x t by simp
qed

lemma source_task_run: "source_task b i s = (Inr x, t) \<Longrightarrow> t = s"
  by (auto simp: source_task_def tx_simps split: option.splits)

section \<open>Renewing and failing\<close>

lemma renewed_ok:
  assumes "row_ok H d row" and "dp_status row = ''claimed''"
  shows "row_ok H d (renewed_row e n row)"
  using assms by (auto simp: row_ok_def renewed_row_def dispatch_shape_def claimed_shape_def)

lemma held_ok: "store_inv H d \<Longrightarrow> row \<in> set (message_dispatches d) \<Longrightarrow> row_ok H d row"
  by (simp add: store_inv_def desk_inv_def)

lemma held_scope: "holds_dispatch b i token now row \<Longrightarrow> dp_scope row = br_scope b"
  by (simp add: holds_dispatch_def disp_key_def)

lemma renew_step: "stores.framed (br_sha256 b) (renew_dispatch_tx b i token secs)"
proof (rule stores.framedI)
  fix s x and t :: "'a dispatch_db_scheme pstate"
  assume "renew_dispatch_tx b i token secs s = (Inr x, t)"
  then obtain row task new ev e n pl and u v w :: "'a dispatch_db_scheme pstate"
    where lease: "require_dispatch_lease b i token False s = (Inr row, u)" and task: "source_task b i u = (Inr task, v)"
    and change: "change_dispatch b row (renewed_row e n) (tick (tick v)) = (Inr new, w)"
    and ev: "event_op b ''message.dispatch_renewed'' pl None w = (Inr ev, t)"
    unfolding renew_dispatch_tx_def by (auto simp: tx_simps)
  have db: "st_db v = st_db s" and row: "row \<in> set (message_dispatches (st_db s))" "dp_scope row = br_scope b" "dp_status row = ''claimed''"
    using require_dispatch_lease_run [OF lease] source_task_run [OF task] held_scope by auto
  show "store_step (br_sha256 b) (st_db s) (st_db t)"
  proof (rule store_stepI)
    assume inv: "store_inv (br_sha256 b) (st_db s)"
    have "store_step (br_sha256 b) (st_db (tick (tick v))) (st_db w)"
      using change_step [OF change] inv row renewed_ok [OF held_ok [OF inv row(1)] row(3)]
      by (simp add: db renewed_row_def disp_key_def)
    then show ?thesis using store_chain stores.framedD [OF event_step ev] by (simp add: db)
  qed
qed

lemma insert_retry_step:
  fixes s t :: "'a dispatch_db_scheme pstate"
  assumes run: "insert_retry q s = (Inr x, t)" and q: "retries.sealed H q"
  shows "store_step H (st_db s) (st_db t) \<and> st_db t = (st_db s)\<lparr>dispatch_retries := dispatch_retries (st_db s) @ [q]\<rparr>"
proof -
  have fresh: "retry_key q \<notin> retry_key ` set (dispatch_retries (st_db s))"
    and t: "st_db t = (st_db s)\<lparr>dispatch_retries := dispatch_retries (st_db s) @ [q]\<rparr>"
    using run by (auto simp: insert_retry_def tx_simps list_ex_iff desk_tests retry_key_def)
  have "store_step H (st_db s) (st_db t)"
  proof (rule store_stepI)
    assume "store_inv H (st_db s)"
    then have d: "desk_inv H (st_db s)" by (simp add: store_inv_def)
    show "store_step H (st_db s) (st_db t)"
      unfolding t using d q fresh
      by (intro grow_step) (auto simp: same_rooms_def same_mail_def desk_inv_def extends_list_def)
  qed
  then show ?thesis using t by simp
qed

lemma given_up_ok:
  assumes "row_ok H d row" and "dp_status row = ''claimed''"
    and "retryable \<longrightarrow> scheduled (dispatch_retries d) (given_up retryable e n row)"
  shows "row_ok H d (given_up retryable e n row)"
  using assms by (auto simp: row_ok_def given_up_def dispatch_shape_def no_lease_def claimed_shape_def)

text \<open>The schedule of the attempt, written before the row is given up.\<close>

definition schedule_retry_of :: "bridge \<Rightarrow> dispatch_row \<Rightarrow> bool \<Rightarrow> int \<Rightarrow> string \<Rightarrow> string \<Rightarrow> ('a dispatch_db_scheme, retry_row option) op" where
  "schedule_retry_of b row retryable delay e n =
     (if retryable then tx_bind time_time (\<lambda>now. let q = new_retry b row (now + delay) e n in
         tx_then (insert_retry q) (tx_return (Some q)))
      else tx_return None)"

lemma schedule_step:
  fixes s t :: "'a dispatch_db_scheme pstate"
  assumes run: "schedule_retry_of b row retryable delay e n s = (Inr x, t)" and row: "dp_scope row = br_scope b" "dp_agent_id row = br_agent_id b"
  shows "store_step (br_sha256 b) (st_db s) (st_db t) \<and> message_dispatches (st_db t) = message_dispatches (st_db s)
    \<and> (retryable \<longrightarrow> scheduled (dispatch_retries (st_db t)) (given_up retryable e n row))"
proof (cases retryable)
  case False
  then show ?thesis using run by (simp add: schedule_retry_of_def tx_simps stores.frame_refl)
next
  case True
  let ?q = "new_retry b row (time_at s + delay) e n"
  have q: "retries.sealed (br_sha256 b) ?q" unfolding new_retry_def by (rule retries.sealed_seal)
  have "insert_retry ?q (tick s) = (Inr (), t)"
    using run True by (auto simp: schedule_retry_of_def tx_simps Let_def)
  note step = insert_retry_step [OF this q]
  have "retry_key ?q = attempt_key (given_up retryable e n row)" "rs_error_code ?q = e"
    using row by (simp_all add: new_retry_def seal_retry_def retry_key_def attempt_key_def given_up_def)
  then show ?thesis using step by (auto simp: scheduled_def given_up_def)
qed

lemma fail_step: "stores.framed (br_sha256 b) (fail_dispatch_tx b i token e retryable delay)"
proof (rule stores.framedI)
  fix s x and t :: "'a dispatch_db_scheme pstate"
  assume "fail_dispatch_tx b i token e retryable delay s = (Inr x, t)"
  then obtain row task q new ev pl tid and u v w y :: "'a dispatch_db_scheme pstate"
    where lease: "require_dispatch_lease b i token False s = (Inr row, u)" and task: "source_task b i u = (Inr task, v)"
    and sched: "schedule_retry_of b row retryable delay e (utc_at v) (tick v) = (Inr q, w)"
    and change: "change_dispatch b row (given_up retryable e (utc_at v)) w = (Inr new, y)"
    and ev: "event_op b ''message.dispatch_failed'' pl tid y = (Inr ev, t)"
    unfolding fail_dispatch_tx_def schedule_retry_of_def by (auto simp: tx_simps simp del: tx_for.simps)
  have db: "st_db v = st_db s" and row: "row \<in> set (message_dispatches (st_db s))" "dp_scope row = br_scope b" "dp_status row = ''claimed''"
    "dp_agent_id row = br_agent_id b"
    using require_dispatch_lease_run [OF lease] source_task_run [OF task] by (auto simp: holds_dispatch_def disp_key_def)
  note sch = schedule_step [OF sched row(2,4)]
  show "store_step (br_sha256 b) (st_db s) (st_db t)"
  proof (rule store_chain)
    show "store_step (br_sha256 b) (st_db s) (st_db w)" using sch by (simp add: db)
    assume inv: "store_inv (br_sha256 b) (st_db w)"
    have mem: "row \<in> set (message_dispatches (st_db w))" using sch row(1) by (simp add: db)
    then have "store_step (br_sha256 b) (st_db w) (st_db y)"
      using change_step [OF change inv mem row(2,3)] given_up_ok [OF held_ok [OF inv mem] row(3)] sch
      by (simp add: given_up_def disp_key_def)
    then show "store_step (br_sha256 b) (st_db w) (st_db t)" using store_chain stores.framedD [OF event_step ev] by blast
  qed
qed

section \<open>Trusting a receipt\<close>

lemma insert_trusted_step:
  fixes s t :: "'a dispatch_db_scheme pstate"
  assumes run: "insert_trusted r s = (Inr x, t)" and r: "trusts.sealed H r" and fresh: "trusted_key r \<notin> trusted_key ` set (trusted_receipts (st_db s))"
  shows "store_step H (st_db s) (st_db t)"
proof (rule store_stepI)
  assume "store_inv H (st_db s)"
  then have d: "desk_inv H (st_db s)" by (simp add: store_inv_def)
  have "st_db t = (st_db s)\<lparr>trusted_receipts := trusted_receipts (st_db s) @ [r]\<rparr>"
    using run by (auto simp: insert_trusted_def tx_simps)
  then show "store_step H (st_db s) (st_db t)"
    using d r fresh by (intro grow_step) (auto simp: same_rooms_def same_mail_def desk_inv_def extends_list_def)
qed

lemma addressed_source_run:
  "addressed_source b i s = (Inr m, t) \<Longrightarrow> t = s \<and> m \<in> set (messages (st_db s)) \<and> mg_scope m = br_scope b
     \<and> mg_message_id m = i \<and> addressed_to (br_agent_id b) m"
  by (auto simp: addressed_source_def tx_simps dest!: fetch_one_SomeD split: option.splits)

lemma routed_source_run: "routed_source b m s = (Inr e, t) \<Longrightarrow> t = s"
  by (auto simp: routed_source_def tx_simps)

lemma trust_step: "stores.framed (br_sha256 b) (trust_tx b q usage_sha now)"
proof (rule stores.framedI)
  fix s x and t :: "'a dispatch_db_scheme pstate"
  assume run: "trust_tx b q usage_sha now s = (Inr x, t)"
  then obtain row m ev e v old and u w y :: "'a dispatch_db_scheme pstate"
    where lease: "require_dispatch_lease b (tq_message_id q) (tq_lease_token q) False s = (Inr row, u)"
    and src: "addressed_source b (tq_message_id q) u = (Inr m, w)" and route: "routed_source b m w = (Inr ev, y)"
    and old: "old = fetch_one (trusted_is (br_scope b) (tq_message_id q) (br_agent_id b) (dp_attempt_count row)) (trusted_receipts (st_db y))"
    and rest: "(case old of Some r \<Rightarrow> tx_then (tx_require (same_trusted b q v usage_sha r)
           (BridgeError ''dispatch attempt already has a different trusted receipt'')) (tx_return (True, r, None))
       | None \<Rightarrow> let r = new_trusted b q m e v (dp_attempt_count row) usage_sha now in
         tx_then (insert_trusted r)
        (tx_bind (event_op b ''message.inference_receipt_trusted'' [(''message_id'', JStr (tq_message_id q)),
            (''agent_id'', JStr (br_agent_id b)), (''attempt_count'', JInt (dp_attempt_count row)),
            (''inference_receipt_sha256'', JStr (rb_receipt_sha256 v)), (''binding_sha256'', JStr (tr_binding_sha256 r))]
            (Some (mg_task_id m))) (\<lambda>event. tx_return (False, r, Some (snd event))))) y = (Inr x, t)"
    unfolding trust_tx_def by (simp add: tx_simps del: tx_for.simps) blast
  have db: "st_db y = st_db s"
    using require_dispatch_lease_run [OF lease] addressed_source_run [OF src] routed_source_run [OF route] by simp
  show "store_step (br_sha256 b) (st_db s) (st_db t)"
  proof (cases old)
    case (Some r)
    then show ?thesis using rest db by (auto simp: tx_simps stores.frame_refl)
  next
    case None
    let ?r = "new_trusted b q m e v (dp_attempt_count row) usage_sha now"
    have sealed: "trusts.sealed (br_sha256 b) ?r" unfolding new_trusted_def by (rule trusts.sealed_seal)
    have "trusted_key ?r = (br_scope b, tq_message_id q, br_agent_id b, dp_attempt_count row)"
      by (simp add: new_trusted_def seal_trusted_def trusted_key_def)
    then have fresh: "trusted_key ?r \<notin> trusted_key ` set (trusted_receipts (st_db y))"
      using None old by (auto dest!: fetch_one_NoneD simp: desk_tests)
    obtain ev pl tid and z :: "'a dispatch_db_scheme pstate" where ins: "insert_trusted ?r y = (Inr (), z)"
      and ev: "event_op b ''message.inference_receipt_trusted'' pl tid z = (Inr ev, t)"
      using rest None by (auto simp: tx_simps Let_def)
    show ?thesis
      using store_chain [OF insert_trusted_step [OF ins sealed fresh]] stores.framedD [OF event_step ev] by (simp add: db)
  qed
qed

end
