(* ===== verification/DispatchCompletion.thy ===== *)
theory DispatchCompletion
  imports DispatchSystem
begin

text \<open>
  What a completion writes. The reply, the receipt, the mark and the cursor are a step of the mail; then the
  row is completed together with its usage record. The cursor loop of \<open>complete_message_dispatch\<close> moves to the
  same position as the SQL of \<open>ack_message\<close>.
\<close>

section \<open>The cursor\<close>

lemma max_sequence_Cons:
  assumes "0 < mg_sequence m" and "\<forall>x \<in> set ms. mg_sequence m < mg_sequence x"
  shows "max_sequence c (m # ms) = max_sequence (mg_sequence m) ms"
proof (cases ms)
  case Nil
  then show ?thesis using assms(1) by (simp add: max_sequence_def)
next
  case (Cons x xs)
  have "mg_sequence m < mg_sequence x" using assms(2) Cons by simp
  then have "fold max (map mg_sequence (m # ms)) 0 = fold max (map mg_sequence ms) 0" by (simp add: Cons max_def)
  moreover have "mg_sequence x \<le> fold max (map mg_sequence ms) 0" by (simp add: fold_max Cons)
  ultimately show ?thesis using \<open>mg_sequence m < mg_sequence x\<close> by (simp add: max_sequence_def Let_def)
qed

lemma first_unacknowledged_Cons:
  assumes "\<forall>x \<in> set ms. mg_sequence m < mg_sequence x"
  shows "first_unacknowledged acked (m # ms) = (if acked m then first_unacknowledged acked ms else Some (mg_sequence m))"
proof (cases "acked m")
  case False
  have "fold min (map mg_sequence xs) n = n" if "\<forall>x \<in> set xs. n < mg_sequence x" for xs :: "msg_row list" and n
    using that by (induction xs) (auto simp: min_def)
  then show ?thesis using False assms by (simp add: first_unacknowledged_def)
qed (simp add: first_unacknowledged_def)

lemma first_unacknowledged_in:
  assumes "first_unacknowledged acked ms = Some f" shows "\<exists>x \<in> set ms. f = mg_sequence x"
proof -
  obtain n ns where l: "map mg_sequence (filter (\<lambda>m. \<not> acked m) ms) = n # ns" "f = fold min ns n"
    using assms by (auto simp: first_unacknowledged_def split: list.splits)
  have "fold min ns n \<in> insert n (set ns)" for n :: nat by (induction ns arbitrary: n) (auto simp: min_def)
  then have "f \<in> set (map mg_sequence (filter (\<lambda>m. \<not> acked m) ms))" unfolding l by simp
  then show ?thesis by auto
qed

lemma cursor_after_advanced:
  assumes "sorted_wrt (<) (map mg_sequence ms)" and "\<forall>m \<in> set ms. 0 < mg_sequence m"
  shows "cursor_after acked c ms = advanced_cursor acked c ms"
  using assms
proof (induction ms arbitrary: c)
  case Nil
  then show ?case by (simp add: advanced_cursor_def first_unacknowledged_def max_sequence_def)
next
  case (Cons m ms)
  have above: "\<forall>x \<in> set ms. mg_sequence m < mg_sequence x" and m: "0 < mg_sequence m" using Cons.prems by auto
  show ?case
  proof (cases "acked m")
    case True
    have "cursor_after acked c (m # ms) = advanced_cursor acked (mg_sequence m) ms" using True Cons by simp
    also have "\<dots> = advanced_cursor acked c (m # ms)"
    proof (cases "first_unacknowledged acked ms")
      case None
      then show ?thesis
        using True max_sequence_Cons [OF m above] by (simp add: advanced_cursor_def first_unacknowledged_Cons [OF above])
    next
      case (Some f)
      then have f: "mg_sequence m < f" using first_unacknowledged_in above by blast
      have "max_sequence c (m # filter (\<lambda>m. acked m \<and> mg_sequence m < f) ms)
          = max_sequence (mg_sequence m) (filter (\<lambda>m. acked m \<and> mg_sequence m < f) ms)"
        using above by (intro max_sequence_Cons [OF m]) simp
      then show ?thesis
        using True Some f by (simp add: advanced_cursor_def first_unacknowledged_Cons [OF above])
    qed
    finally show ?thesis .
  next
    case False
    have "filter (\<lambda>x. acked x \<and> mg_sequence x < mg_sequence m) ms = []" using above by (auto simp: filter_empty_conv)
    then show ?thesis
      using False by (simp add: advanced_cursor_def first_unacknowledged_Cons [OF above] max_sequence_def)
  qed
qed

lemma cursor_loop:
  assumes "numbered (messages d) n"
  shows "cursor_after (acknowledged_by (br_agent_id b) (message_receipts d)) c
      (sort_key mg_sequence (eligible_rows b rm (br_agent_id b) c (messages d)))
    = advanced_cursor (acknowledged_by (br_agent_id b) (message_receipts d)) c (eligible_rows b rm (br_agent_id b) c (messages d))"
proof -
  have sorted: "sorted_wrt (<) (map mg_sequence (eligible_rows b rm (br_agent_id b) c (messages d)))"
    using assms by (simp add: numbered_def eligible_rows_def sorted_wrt_map sorted_wrt_filter)
  then have "sort_key mg_sequence (eligible_rows b rm (br_agent_id b) c (messages d)) = eligible_rows b rm (br_agent_id b) c (messages d)"
    by (intro sort_key_id_if_sorted strict_sorted_imp_sorted)
  moreover have "\<forall>m \<in> set (eligible_rows b rm (br_agent_id b) c (messages d)). 0 < mg_sequence m"
    using assms by (simp add: numbered_def eligible_rows_def)
  ultimately show ?thesis using cursor_after_advanced [OF sorted] by simp
qed

section \<open>The reply\<close>

lemma write_reply_run:
  assumes "write_reply b source i subject body created s = (Inr m, t)"
  shows "m \<in> set (messages (st_db t)) \<and> mg_message_id m = i \<and> mg_scope m = br_scope b \<and> mg_reply_to m = Some (mg_message_id source)
    \<and> mg_sender m = br_agent_id b \<and> mg_body m = body \<and> mg_room_id m = mg_room_id source \<and> mg_recipient m = mg_sender source"
proof -
  obtain n and u :: "'a message_db_scheme pstate" where m: "m = reply_row b source i subject body created n"
    and t: "messages (st_db t) = messages (st_db u) @ [m]"
    using assms by (auto simp: write_reply_def tx_simps simp del: reserve_message_storage_ok)
  show ?thesis using t by (simp add: m) (simp add: reply_row_def)
qed

lemma write_reply_mail: "mail.framed H (write_reply b source i subject body created)"
proof (rule mail.framedI)
  fix s m and t :: "'a message_db_scheme pstate"
  assume run: "write_reply b source i subject body created s = (Inr m, t)"
  obtain bytes y and u :: "'a message_db_scheme pstate" where r: "reserve_message_storage b 1 bytes s = (Inr y, u)"
    and fresh: "\<forall>x \<in> set (messages (st_db u)). mg_message_id x \<noteq> mg_message_id m"
    and m: "m = reply_row b source i subject body created (Suc (message_seq (st_db u)))" and t: "st_db t = added_db m (st_db u)"
    using run by (auto simp: write_reply_def tx_simps added_db_def list_ex_iff reply_row_def simp del: reserve_message_storage_ok)
  show "mail_step H (st_db s) (st_db t)"
    unfolding mail_step_def
  proof
    assume inv: "mail_inv H (st_db s)"
    have "mail_but (br_scope b) (0 + 1) H (st_db u)" "mail_leads (st_db s) (st_db u)" using reserve_step [OF r inv] by simp_all
    moreover have "mg_sequence m = Suc (message_seq (st_db u))" "mg_scope m = br_scope b" by (simp_all add: m reply_row_def)
    ultimately show "mail_inv H (st_db t) \<and> mail_leads (st_db s) (st_db t)"
      using added_step [of "br_scope b" 0 H "st_db u" m] t fresh mail_leads_trans by (auto simp: mail_inv_but [of H _ "br_scope b"])
  qed
qed

lemma write_reply_rooms: "rooms.framed (write_reply b source i subject body created)"
  unfolding write_reply_def by (intro rooms.framed_intros room_parts rooms.framed_execute) (simp add: same_rooms_def)

lemma write_reply_step: "stores.framed H (write_reply b source i subject body created)"
proof (rule step_of_frames [OF write_reply_rooms write_reply_mail])
  show "kept.framed H (write_reply b source i subject body created)"
    unfolding write_reply_def by (intro kept.framed_intros kept_messages kept_execute) simp
qed

section \<open>The acknowledgement\<close>

text \<open>The last part of \<open>acknowledge_source\<close>, which moves the cursor.\<close>

definition move_cursor_to :: "bridge \<Rightarrow> string \<Rightarrow> string \<Rightarrow> ('a message_db_scheme, nat) op" where
  "move_cursor_to b rm created =
     tx_bind (tx_query (\<lambda>d. let current = consumer_cursor b (channel_of rm) (br_agent_id b) (consumer_cursors d) in
        cursor_after (acknowledged_by (br_agent_id b) (message_receipts d)) current
          (sort_key mg_sequence (eligible_rows b rm (br_agent_id b) current (messages d))))) (\<lambda>advanced.
     tx_then (tx_execute (\<lambda>d. d\<lparr>consumer_cursors := upsert_row (cursor_is (br_scope b) (channel_of rm) (br_agent_id b))
        (\<lambda>r. r\<lparr>cc_position := advanced, cc_updated_utc := created\<rparr>)
        \<lparr>cc_scope = br_scope b, cc_channel = channel_of rm, cc_consumer = br_agent_id b, cc_position = advanced,
         cc_updated_utc = created\<rparr> (consumer_cursors d)\<rparr>))
     (tx_return advanced))"

lemma move_cursor_mail: "mail.framed H (move_cursor_to b rm created)"
proof (rule mail.framedI)
  fix s n and t :: "'a message_db_scheme pstate"
  assume run: "move_cursor_to b rm created s = (Inr n, t)"
  let ?row = "\<lparr>cc_scope = br_scope b, cc_channel = channel_of rm, cc_consumer = br_agent_id b, cc_position = n, cc_updated_utc = created\<rparr>"
  let ?cs = "upsert_row (cursor_is (br_scope b) (channel_of rm) (br_agent_id b)) (\<lambda>r. r\<lparr>cc_position := n, cc_updated_utc := created\<rparr>)
      ?row (consumer_cursors (st_db s))"
  show "mail_step H (st_db s) (st_db t)"
    unfolding mail_step_def
  proof
    assume inv: "mail_inv H (st_db s)"
    then have d: "distinct (map cursor_key (consumer_cursors (st_db s)))" and num: "numbered (messages (st_db s)) (message_seq (st_db s))"
      by (simp_all add: mail_inv_def cursors_ok_def)
    have n: "n = moved_cursor b rm (br_agent_id b) (st_db s)" and t: "st_db t = (st_db s)\<lparr>consumer_cursors := ?cs\<rparr>"
      using run cursor_loop [OF num] by (auto simp: move_cursor_to_def moved_cursor_def Let_def tx_simps)
    have key: "cursor_is (br_scope b) (channel_of rm) (br_agent_id b) r \<longleftrightarrow> cursor_key r = cursor_key ?row" for r
      by (auto simp: cursor_is_def cursor_key_def)
    have "set ?cs = {c \<in> set (consumer_cursors (st_db s)). cursor_key c \<noteq> cursor_key ?row} \<union> {?row}" "distinct (map cursor_key ?cs)"
      by (rule upsert_row_set [OF d key]; simp add: cursor_is_def)+
    then show "mail_inv H (st_db t) \<and> mail_leads (st_db s) (st_db t)"
      using moved_step [OF inv, of ?row b rm "br_agent_id b" ?cs] n t by (simp add: cursor_key_def)
  qed
qed

lemma bind_assoc: "tx_bind (tx_bind m f) g = tx_bind m (\<lambda>x. tx_bind (f x) g)"
  by (rule ext) (simp add: tx_bind_def split: prod.split sum.split)

lemma return_bind: "tx_bind (tx_return x) f = f x"
  by (rule ext) (simp add: tx_bind_def tx_return_def)

lemma acknowledge_source_parts:
  "acknowledge_source b source evaluation created =
     tx_then (tx_execute (\<lambda>d. d\<lparr>message_receipts := upsert_row (receipt_is (br_scope b) (mg_message_id source) (br_agent_id b)) id
        \<lparr>rc_scope = br_scope b, rc_message_id = mg_message_id source, rc_agent_id = br_agent_id b, rc_acknowledged_utc = created\<rparr>
        (message_receipts d)\<rparr>))
    (tx_then (if re_status evaluation = Route_Verified then tx_execute (\<lambda>d. d\<lparr>message_route_receipts :=
          upsert_row (route_receipt_is (br_scope b) (mg_message_id source) (br_agent_id b)) id
            (new_route_receipt b (mg_message_id source) (br_agent_id b) (mg_route_request_sha256 source) created)
            (message_route_receipts d)\<rparr>)
        else tx_return ())
    (tx_then (if mg_recipient source \<noteq> ''*'' then tx_execute (\<lambda>d. d\<lparr>messages := update_where
          (\<lambda>m. mg_scope m = br_scope b \<and> mg_message_id m = mg_message_id source) (mark_acknowledged created) (messages d)\<rparr>)
        else tx_return ())
    (tx_bind (move_cursor_to b (mg_room_id source) created) (\<lambda>advanced.
     tx_return (if re_status evaluation = Route_Verified then Some (rr_receipt_sha256 (new_route_receipt b (mg_message_id source)
       (br_agent_id b) (mg_route_request_sha256 source) created)) else None, advanced)))))"
  unfolding acknowledge_source_def move_cursor_to_def Let_def tx_then_def bind_assoc return_bind by (rule refl)

lemma routes_step: "extends_list (message_route_receipts d) rs \<Longrightarrow> mail_step H d (d\<lparr>message_route_receipts := rs\<rparr>)"
  by (auto simp: mail_step_def mail_inv_def mail_leads_def audit_inv_def)

lemma move_cursor_frames: "rooms.framed (move_cursor_to b rm created)" "kept.framed H (move_cursor_to b rm created)"
  unfolding move_cursor_to_def
  by (intro rooms.framed_intros rooms.framed_execute, simp add: same_rooms_def) (intro kept.framed_intros kept_execute, simp)

lemma acknowledge_source_rooms: "rooms.framed (acknowledge_source b source evaluation created)"
  unfolding acknowledge_source_parts
  by (intro rooms.framed_intros move_cursor_frames rooms.framed_execute) (simp_all add: same_rooms_def)

lemma acknowledge_source_step: "stores.framed H (acknowledge_source b source evaluation created)"
proof (rule step_of_frames [OF acknowledge_source_rooms])
  show "kept.framed H (acknowledge_source b source evaluation created)"
    unfolding acknowledge_source_parts by (intro kept.framed_intros move_cursor_frames kept_execute) simp_all
  show "mail.framed H (acknowledge_source b source evaluation created)"
    unfolding acknowledge_source_parts
    by (intro mail.framed_intros move_cursor_mail mail.framed_execute receipts_step marked_step routes_step) simp_all
qed

section \<open>Completing the row with its usage\<close>

lemma bound_receipt_run:
  "bound_receipt b c source n s = (Inr r, t) \<Longrightarrow> t = s \<and> r \<in> set (trusted_receipts (st_db s)) \<and> trusted_for b c n r
     \<and> binding_matches b c source (route_profiles (st_db s)) r"
  by (auto simp: bound_receipt_def tx_simps dest!: fetch_one_SomeD split: option.splits)

text \<open>What the row and the records of a completion have in common.\<close>

lemma completed_evidence:
  assumes row: "holds_dispatch b (co_message_id c) (co_lease_token c) now row" "row_ok H d row" "dp_status row = ''claimed''"
    and src: "mg_message_id source = co_message_id c"
    and reply: "m \<in> set (messages d)" "mg_message_id m = i" "mg_scope m = br_scope b" "mg_reply_to m = Some (mg_message_id source)"
      "mg_sender m = br_agent_id b" "mg_body m = co_body c"
    and tr: "tr \<in> set (trusted_receipts d)" "trusted_for b c (dp_attempt_count row) tr" "binding_matches b c source rps tr"
    and H: "H = br_sha256 b"
  shows "evidence H (messages d) (trusted_receipts d) (inference_usages d @ [new_usage b c source i created])
    (completed_row i (co_receipt_sha256 c) created row)"
proof -
  let ?u = "new_usage b c source i created"
  have key: "disp_key row = (br_scope b, co_message_id c, br_agent_id b)" and sess: "dp_claimed_session_id row = Some (br_session_id b)"
    and tok: "text_or_empty (dp_lease_token_sha256 row) = sha256_text (br_sha256 b) (co_lease_token c)"
    using row(1) by (simp_all add: holds_dispatch_def)
  obtain k where k: "dp_lease_token_sha256 row = Some k"
    using row(2,3) by (auto simp: row_ok_def dispatch_shape_def claimed_shape_def)
  then have tok: "dp_lease_token_sha256 row = Some (sha256_text (br_sha256 b) (co_lease_token c))" using tok by (simp add: text_or_empty_def)
  have u: "usage_key ?u = (br_scope b, co_message_id c, br_agent_id b)" "iw_reply_message_id ?u = i"
    "iw_inference_receipt_sha256 ?u = co_receipt_sha256 c" "iw_usage ?u = co_usage c"
    by (simp_all add: new_usage_def seal_usage_def usage_key_def)
  show ?thesis
    unfolding evidence_def using reply tr key sess tok u src
    by (intro bexI [of _ m] bexI [of _ tr] bexI [of _ ?u])
      (auto simp: completed_row_def disp_key_def attempt_key_def trusted_key_def trusted_is_def trusted_for_def binding_matches_def H)
qed

text \<open>The row and the usage are stored together, the row first.\<close>

lemma complete_row_step:
  fixes s w t :: "'a dispatch_db_scheme pstate"
  assumes change: "change_dispatch b row f s = (Inr new, w)" and ins: "insert_usage u w = (Inr y, t)"
    and inv: "store_inv (br_sha256 b) (st_db s)" and row: "row \<in> set (message_dispatches (st_db s))" "dp_scope row = br_scope b"
      "dp_status row = ''claimed''"
    and f: "\<And>r. disp_key (f r) = disp_key r" "dp_attempt_count (f row) = dp_attempt_count row"
    and ok: "row_ok (br_sha256 b) ((st_db s)\<lparr>inference_usages := inference_usages (st_db s) @ [u]\<rparr>) (f row)"
    and u: "usages.sealed (br_sha256 b) u"
  shows "store_step (br_sha256 b) (st_db s) (st_db t) \<and> new = seal_dispatch (br_sha256 b) (f row) \<and> new \<in> set (message_dispatches (st_db t))
    \<and> u \<in> set (inference_usages (st_db t))"
proof -
  let ?d = "(st_db s)\<lparr>inference_usages := inference_usages (st_db s) @ [u]\<rparr>"
  obtain ds where new: "new = seal_dispatch (br_sha256 b) (f row)" and p: "placed new (message_dispatches (st_db s)) ds"
    and w: "st_db w = (st_db s)\<lparr>message_dispatches := ds\<rparr>"
    using change_dispatch_run [OF change store_keys [OF inv] row(1,2)] f(1) by blast
  have fresh: "usage_key u \<notin> usage_key ` set (inference_usages (st_db s))" and t: "st_db t = ?d\<lparr>message_dispatches := ds\<rparr>"
    using ins w by (auto simp: insert_usage_def tx_simps list_ex_iff desk_tests usage_key_def)
  have may: "may_place new (message_dispatches (st_db s))"
    using row f by (intro may_place_held [OF store_keys [OF inv] row(1)]) (simp_all add: new final_def)
  have d: "desk_inv (br_sha256 b) (st_db s)" using inv by (simp add: store_inv_def)
  have "store_step (br_sha256 b) (st_db s) ?d"
    using d u fresh by (intro grow_step) (auto simp: same_rooms_def same_mail_def desk_inv_def extends_list_def)
  moreover have "store_step (br_sha256 b) ?d (st_db t)"
    unfolding t using place_step [of new ?d ds "br_sha256 b"] p may ok by (simp add: new)
  ultimately have "store_step (br_sha256 b) (st_db s) (st_db t)" by (rule stores.frame_trans)
  then show ?thesis using p by (simp add: new t placed_def)
qed

lemma store_completion_step:
  fixes s t :: "'a dispatch_db_scheme pstate"
  assumes run: "store_completion b c row source ev subject s = (Inr x, t)" and inv: "store_inv (br_sha256 b) (st_db s)"
    and row: "row \<in> set (message_dispatches (st_db s))" "holds_dispatch b (co_message_id c) (co_lease_token c) now row"
      "dp_status row = ''claimed''" and src: "mg_message_id source = co_message_id c"
    and tr: "tr \<in> set (trusted_receipts (st_db s))" "trusted_for b c (dp_attempt_count row) tr" "binding_matches b c source rps tr"
  shows "store_step (br_sha256 b) (st_db s) (st_db t)"
proof -
  let ?H = "br_sha256 b"
  define n i where "n = utc_at s" and "i = uuid_at (tick s)"
  obtain m ra adv new e1 e2 p1 p2 t1 t2 and s1 s2 s3 s4 s5 :: "'a dispatch_db_scheme pstate"
    where reply: "write_reply b source i subject (co_body c) n (tick (tick s)) = (Inr m, s1)"
    and ack: "acknowledge_source b source ev n s1 = (Inr (ra, adv), s2)"
    and change: "change_dispatch b row (completed_row i (co_receipt_sha256 c) n) s2 = (Inr new, s3)"
    and ins: "insert_usage (new_usage b c source i n) s3 = (Inr (), s4)"
    and ev1: "event_op b ''message.sent'' p1 t1 s4 = (Inr e1, s5)" and ev2: "event_op b ''message.dispatch_completed'' p2 t2 s5 = (Inr e2, t)"
    using run unfolding store_completion_def n_def i_def Let_def by (auto simp: tx_simps)
  note m = write_reply_run [OF reply]
  have "store_step ?H (st_db (tick (tick s))) (st_db s1)" by (rule stores.framedD [OF write_reply_step reply])
  then have st1: "store_inv ?H (st_db s1)" "store_leads (st_db s) (st_db s1)" using inv by (simp_all add: store_step_def)
  have st2: "store_inv ?H (st_db s2)" "store_leads (st_db s1) (st_db s2)"
    using stores.framedD [OF acknowledge_source_step ack, of ?H] st1(1) by (simp_all add: store_step_def)
  have lead: "store_leads (st_db s) (st_db s2)" by (rule store_leads_trans [OF st1(2) st2(2)])
  have rows: "message_dispatches (st_db s2) = message_dispatches (st_db s)"
    using rooms.framedD [OF write_reply_rooms reply] rooms.framedD [OF acknowledge_source_rooms ack] by (simp add: same_rooms_def)
  obtain m' where m': "m' \<in> set (messages (st_db s2))" "msg_core m' = msg_core m"
    using leads_core [of "st_db s1" "st_db s2"] st2(2) m by (fastforce simp: store_leads_def)
  have tr2: "tr \<in> set (trusted_receipts (st_db s2))" using lead tr(1) by (auto simp: store_leads_def desk_leads_def extends_list_def)
  have mem: "row \<in> set (message_dispatches (st_db s2))" "dp_scope row = br_scope b" using row(1,2) rows by (simp_all add: held_scope)
  have "evidence ?H (messages (st_db s2)) (trusted_receipts (st_db s2)) (inference_usages (st_db s2) @ [new_usage b c source i n])
      (completed_row i (co_receipt_sha256 c) n row)"
    using completed_evidence [OF row(2) held_ok [OF st2(1) mem(1)] row(3) src m'(1) _ _ _ _ _ tr2 tr(2,3) refl] m msg_core_same [OF m'(2)]
    by simp
  then have ok: "row_ok ?H ((st_db s2)\<lparr>inference_usages := inference_usages (st_db s2) @ [new_usage b c source i n]\<rparr>)
      (completed_row i (co_receipt_sha256 c) n row)"
    by (simp add: row_ok_def) (simp add: completed_row_def dispatch_shape_def)
  have "usages.sealed ?H (new_usage b c source i n)" unfolding new_usage_def by (rule usages.sealed_seal)
  then have "store_step ?H (st_db s2) (st_db s4)"
    using complete_row_step [OF change ins st2(1) mem row(3) _ _ ok] by (simp add: completed_row_def disp_key_def)
  then have "store_step ?H (st_db s2) (st_db t)"
    using stores.frame_trans stores.framedD [OF event_step ev1] stores.framedD [OF event_step ev2] by blast
  then show ?thesis using st2(1) lead store_leads_trans unfolding store_step_def by blast
qed

text \<open>A run of a completion: the replay of a completed row, or the checks and the writes.\<close>

lemma complete_dispatch_run:
  fixes s t :: "'a dispatch_db_scheme pstate"
  assumes run: "complete_dispatch_tx b c s = (Inr x, t)"
  obtains (replay) row where "row \<in> set (message_dispatches (st_db s))" "holds_dispatch b (co_message_id c) (co_lease_token c) (time_at s) row"
      "dp_status row = ''completed''" "st_db t = st_db s"
      "x = \<lparr>cr_replay = True, cr_dispatch = row, cr_reply = None, cr_cursor = 0, cr_usage = None, cr_chain = None\<rparr>"
  | (fresh) row source ev tr subject and u :: "'a dispatch_db_scheme pstate" where "row \<in> set (message_dispatches (st_db s))"
      "holds_dispatch b (co_message_id c) (co_lease_token c) (time_at s) row" "dp_status row = ''claimed''"
      "source \<in> set (messages (st_db s))" "mg_scope source = br_scope b" "mg_message_id source = co_message_id c"
      "addressed_to (br_agent_id b) source" "tr \<in> set (trusted_receipts (st_db s))" "trusted_for b c (dp_attempt_count row) tr"
      "binding_matches b c source (route_profiles (st_db s)) tr" "st_db u = st_db s" "reply_subject c source = Inr subject"
      "store_completion b c row source ev subject u = (Inr x, t)"
proof -
  obtain row and u0 :: "'a dispatch_db_scheme pstate"
    where lease: "require_dispatch_lease b (co_message_id c) (co_lease_token c) True s = (Inr row, u0)"
    and rest: "(if dp_status row = ''completed'' then
       tx_return \<lparr>cr_replay = True, cr_dispatch = row, cr_reply = None, cr_cursor = 0, cr_usage = None, cr_chain = None\<rparr>
     else tx_bind (addressed_source b (co_message_id c)) (\<lambda>source.
       tx_bind (tx_query (\<lambda>d. discussion_fence source (room_discussions d))) (\<lambda>fence.
       tx_then (tx_lift fence)
      (tx_bind (routed_source b source) (\<lambda>evaluation.
       tx_then (bound_receipt b c source (dp_attempt_count row))
      (tx_bind (tx_lift (reply_subject c source)) (\<lambda>subject.
       store_completion b c row source evaluation subject))))))) u0 = (Inr x, t)"
    using run unfolding complete_dispatch_tx_def by (auto simp only: tx_bind_ok)
  note l = require_dispatch_lease_run [OF lease]
  show thesis
  proof (cases "dp_status row = ''completed''")
    case True
    then show thesis using rest l by (intro replay [of row]) (simp_all add: tx_simps)
  next
    case False
    then obtain source ev tr subject and u1 u2 u3 :: "'a dispatch_db_scheme pstate"
      where src: "addressed_source b (co_message_id c) u0 = (Inr source, u1)" and route: "routed_source b source u1 = (Inr ev, u2)"
      and tr: "bound_receipt b c source (dp_attempt_count row) u2 = (Inr tr, u3)" and subject: "reply_subject c source = Inr subject"
      and st: "store_completion b c row source ev subject u3 = (Inr x, t)"
      using rest by (auto simp: tx_simps)
    have "st_db u3 = st_db s" "u2 = u1" "u1 = u0"
      using l addressed_source_run [OF src] routed_source_run [OF route] bound_receipt_run [OF tr] by auto
    then show thesis
      using fresh [of row source tr u3 subject ev] l addressed_source_run [OF src] bound_receipt_run [OF tr] subject st False by auto
  qed
qed

lemma complete_step: "stores.framed (br_sha256 b) (complete_dispatch_tx b c)"
proof (rule stores.framedI)
  fix s x and t :: "'a dispatch_db_scheme pstate"
  assume run: "complete_dispatch_tx b c s = (Inr x, t)"
  show "store_step (br_sha256 b) (st_db s) (st_db t)"
    using run
  proof (cases rule: complete_dispatch_run)
    case (replay row)
    then show ?thesis by (simp add: stores.frame_refl)
  next
    case (fresh row source ev tr subject u)
    show ?thesis
    proof (rule store_stepI)
      assume inv: "store_inv (br_sha256 b) (st_db s)"
      show ?thesis
        using store_completion_step [OF fresh(13), of "time_at s" tr "route_profiles (st_db s)"] inv fresh by simp
    qed
  qed
qed

end
