(* ===== verification/DispatchCalls.thy ===== *)
theory DispatchCalls
  imports DispatchCompletion
begin

text \<open>
  The remaining dispatch calls, and all calls on rooms, messages and dispatches as one system: claiming places
  the leased row, reconciliation places failed rows, connections are apart. The system is interpreted as a
  history of calls.
\<close>

section \<open>Claiming\<close>

lemma member_check_readonly: "readonly (require_room_member b rm ag)"
  by (rule readonlyI) (auto simp: require_room_member_def room_of_def tx_bind_def tx_query_def tx_then_def tx_require_def
      tx_return_def tx_raise_def split: option.splits)

lemma readonly_catch:
  assumes "readonly m" and "readonly h" shows "readonly (tx_catch m P h)"
proof (rule readonlyI)
  fix s
  obtain r t where m: "m s = (r, t)" by (cases "m s")
  have "st_db t = st_db s" using readonlyD [OF assms(1) m] .
  moreover have "st_db (snd (h t)) = st_db t" using assms(2) by (simp add: readonly_def)
  ultimately show "st_db (snd (tx_catch m P h s)) = st_db s" by (simp add: tx_catch_def m split: sum.split)
qed

text \<open>The first check of a candidate, whose error is caught.\<close>

lemma member_catch_readonly:
  "readonly (tx_catch (tx_then (require_room_member b rm ag) (tx_return True)) is_bridge_error (tx_return False))"
  by (intro readonly_catch atomic_intros member_check_readonly)

lemma claim_check_readonly: "readonly (claim_check b args now m)"
  unfolding claim_check_def by (intro atomic_intros member_catch_readonly)

lemma first_due_readonly: "(\<And>x. readonly (f x)) \<Longrightarrow> readonly (first_due f xs)"
  by (induction xs) (auto intro!: atomic_intros)

lemma first_due_run:
  assumes "first_due f xs s = (Inr (Some x), t)" and "\<And>x. readonly (f x)"
  shows "x \<in> set xs \<and> st_db t = st_db s \<and> (\<exists>u v. st_db u = st_db s \<and> f x u = (Inr True, v))"
  using assms(1)
proof (induction xs arbitrary: s)
  case Nil
  then show ?case by (simp add: tx_simps)
next
  case (Cons y ys)
  then obtain ok u where y: "f y s = (Inr ok, u)" and rest: "(if ok then tx_return (Some y) else first_due f ys) u = (Inr (Some x), t)"
    by (auto simp: tx_simps)
  have u: "st_db u = st_db s" using readonlyD [OF assms(2) y] .
  show ?case
  proof (cases ok)
    case True
    then show ?thesis using rest y u by (auto simp: tx_simps)
  next
    case False
    then have "first_due f ys u = (Inr (Some x), t)" using rest by simp
    then show ?thesis using Cons.IH u by fastforce
  qed
qed

text \<open>A chosen message has no settled dispatch.\<close>

lemma claim_check_due:
  assumes "claim_check b args now m u = (Inr True, v)"
  shows "dispatch_due b now (attempt_limit (cl_max_attempts args)) (dispatch_of b (mg_message_id m) (st_db u))
      (retry_of (dispatch_of b (mg_message_id m) (st_db u)) (st_db u)) = Inr True"
proof -
  note catch = readonlyD [OF member_catch_readonly]
  show ?thesis using assms unfolding claim_check_def by (auto simp: tx_simps catch split: if_splits)
qed

lemma dispatch_of_key:
  assumes "distinct (map disp_key (message_dispatches d))"
  shows "dispatch_of b i d = Some r \<longleftrightarrow> r \<in> set (message_dispatches d) \<and> disp_key r = (br_scope b, i, br_agent_id b)"
  unfolding dispatch_of_def by (subst fetch_one_key [OF assms]) (simp_all add: desk_tests)

lemma put_dispatch_run:
  assumes run: "put_dispatch row f s = (Inr x, t)" and d: "distinct (map disp_key (message_dispatches (st_db s)))"
    and f: "\<And>r. r \<in> set (message_dispatches (st_db s)) \<Longrightarrow> disp_key r = disp_key row \<Longrightarrow> f r = row"
  shows "\<exists>ds. placed row (message_dispatches (st_db s)) ds \<and> st_db t = (st_db s)\<lparr>message_dispatches := ds\<rparr>"
proof -
  let ?P = "dispatch_is (dp_scope row) (dp_message_id row) (dp_agent_id row)"
  have P: "?P r \<longleftrightarrow> disp_key r = disp_key row" for r by (simp add: desk_tests disp_key_def [of row])
  have "placed row (message_dispatches (st_db s)) (upsert_row ?P f row (message_dispatches (st_db s)))"
    unfolding placed_def using upsert_row_set [where P = ?P and f = f, OF d P] f P by blast
  then show ?thesis using run by (auto simp: put_dispatch_def tx_simps)
qed

lemma leased_dispatch_simps:
  "disp_key (leased_dispatch b i k e n now) = (br_scope b, i, br_agent_id b)" "dp_attempt_count (leased_dispatch b i k e n now) = n"
  "dp_status (leased_dispatch b i k e n now) = ''claimed''" "disp.sealed (br_sha256 b) (leased_dispatch b i k e n now)"
  "row_ok H d (leased_dispatch b i k e n now)" "dp_lease_expires_epoch (leased_dispatch b i k e n now) = Some e"
  "dp_lease_token_sha256 (leased_dispatch b i k e n now) = Some k" "dp_claimed_session_id (leased_dispatch b i k e n now) = Some (br_session_id b)"
proof -
  show "disp.sealed (br_sha256 b) (leased_dispatch b i k e n now)" unfolding leased_dispatch_def by simp
  show "row_ok H d (leased_dispatch b i k e n now)"
    unfolding leased_dispatch_def row_ok_seal by (simp add: row_ok_def dispatch_shape_def claimed_shape_def)
qed (simp_all add: leased_dispatch_def seal_dispatch_def disp_key_def)

lemma due_attempts:
  "dispatch_due b now limit row q = Inr True \<Longrightarrow> \<not> status_is row ''completed'' \<and> \<not> status_is row ''failed'' \<and> attempts_of row < limit
     \<and> \<not> lease_active now row \<and> \<not> (status_is row ''retryable'' \<and> retry_waits now q)"
  by (auto simp: dispatch_due_def tx_simps split: if_splits)

lemma lease_dispatch_step:
  fixes s t :: "'a dispatch_db_scheme pstate"
  assumes run: "lease_dispatch b now_epoch now secs m s = (Inr x, t)"
    and due: "dispatch_due b e limit (dispatch_of b (mg_message_id m) (st_db s)) q = Inr True"
  shows "store_step (br_sha256 b) (st_db s) (st_db t)"
proof (rule store_stepI)
  assume inv: "store_inv (br_sha256 b) (st_db s)"
  note d = store_keys [OF inv]
  let ?row = "leased_dispatch b (mg_message_id m) (sha256_text (br_sha256 b) (token_at s)) (now_epoch + secs)
      (attempts_of (dispatch_of b (mg_message_id m) (st_db s)) + 1) now"
  obtain ev pl tid and u :: "'a dispatch_db_scheme pstate" where put: "put_dispatch ?row (\<lambda>_. ?row) (tick s) = (Inr (), u)"
    and ev: "event_op b ''message.dispatch_claimed'' pl tid u = (Inr ev, t)"
    using run unfolding lease_dispatch_def Let_def by (auto simp: tx_simps)
  obtain ds where p: "placed ?row (message_dispatches (st_db s)) ds" and u: "st_db u = (st_db s)\<lparr>message_dispatches := ds\<rparr>"
    using put_dispatch_run [OF put] d by auto
  have "may_place ?row (message_dispatches (st_db s))"
    unfolding may_place_def
  proof (intro ballI impI)
    fix r assume "r \<in> set (message_dispatches (st_db s))" "disp_key r = disp_key ?row"
    then have "dispatch_of b (mg_message_id m) (st_db s) = Some r" using dispatch_of_key [OF d] by (simp add: leased_dispatch_simps)
    then show "\<not> final r \<and> dp_attempt_count r \<le> dp_attempt_count ?row"
      using due_attempts [OF due] by (auto simp: leased_dispatch_simps attempts_of_def status_is_def final_def)
  qed
  then have "store_step (br_sha256 b) (st_db s) (st_db u)"
    unfolding u by (intro place_step [OF p]) (simp_all add: leased_dispatch_simps)
  then show "store_step (br_sha256 b) (st_db s) (st_db t)" using stores.frame_trans stores.framedD [OF event_step ev] by blast
qed

lemma claim_dispatch_run:
  fixes s t :: "'a dispatch_db_scheme pstate"
  assumes run: "claim_dispatch_tx b args now_epoch now s = (Inr (Some c), t)"
  obtains m and u v w :: "'a dispatch_db_scheme pstate" where "m \<in> set (claim_rows b args (st_db s))" "st_db u = st_db s" "st_db v = st_db s"
    "claim_check b args now_epoch m u = (Inr True, w)"
    "lease_dispatch b now_epoch now (dispatch_lease_seconds (cl_lease_seconds args)) m v = (Inr c, t)"
proof -
  obtain m and v :: "'a dispatch_db_scheme pstate" where
    first: "first_due (claim_check b args now_epoch) (claim_rows b args (st_db s)) s = (Inr (Some m), v)"
    and lease: "lease_dispatch b now_epoch now (dispatch_lease_seconds (cl_lease_seconds args)) m v = (Inr c, t)"
    using run unfolding claim_dispatch_tx_def by (auto simp: tx_simps split: option.splits)
  show thesis using first_due_run [OF first claim_check_readonly] lease that by blast
qed

lemma claim_step: "stores.framed (br_sha256 b) (claim_dispatch_tx b args now_epoch now)"
proof (rule stores.framedI)
  fix s x and t :: "'a dispatch_db_scheme pstate"
  assume run: "claim_dispatch_tx b args now_epoch now s = (Inr x, t)"
  show "store_step (br_sha256 b) (st_db s) (st_db t)"
  proof (cases x)
    case None
    then obtain v :: "'a dispatch_db_scheme pstate"
      where first: "first_due (claim_check b args now_epoch) (claim_rows b args (st_db s)) s = (Inr None, v)" and t: "st_db t = st_db v"
      using run unfolding claim_dispatch_tx_def by (auto simp: tx_simps split: option.splits)
    have "st_db v = st_db s" by (rule readonlyD [OF first_due_readonly first]) (rule claim_check_readonly)
    then show ?thesis using t by (simp add: stores.frame_refl)
  next
    case (Some c)
    have "claim_dispatch_tx b args now_epoch now s = (Inr (Some c), t)" using run Some by simp
    then show ?thesis
    proof (rule claim_dispatch_run)
      fix m and u v w :: "'a dispatch_db_scheme pstate"
      assume db: "st_db u = st_db s" "st_db v = st_db s" and check: "claim_check b args now_epoch m u = (Inr True, w)"
        and lease: "lease_dispatch b now_epoch now (dispatch_lease_seconds (cl_lease_seconds args)) m v = (Inr c, t)"
      have "store_step (br_sha256 b) (st_db v) (st_db t)"
        by (rule lease_dispatch_step [OF lease]) (use claim_check_due [OF check] db in simp)
      then show ?thesis by (simp add: db)
    qed
  qed
qed

section \<open>Reconciling\<close>

definition recipient_key :: "msg_row \<Rightarrow> string \<times> string \<times> string" where
  "recipient_key m = (mg_scope m, mg_message_id m, mg_recipient m)"

lemma recipient_dispatch_key:
  assumes "distinct (map disp_key rows)"
  shows "recipient_dispatch m rows = Some r \<longleftrightarrow> r \<in> set rows \<and> disp_key r = recipient_key m"
  unfolding recipient_dispatch_def by (subst fetch_one_key [OF assms]) (simp_all add: desk_tests recipient_key_def)

definition open_dispatch :: "dispatch_row list \<Rightarrow> msg_row \<Rightarrow> bool" where
  "open_dispatch rows m \<longleftrightarrow> (\<forall>r \<in> set rows. disp_key r = recipient_key m \<longrightarrow> \<not> final r)"

lemma settled_open:
  assumes "distinct (map disp_key rows)"
  shows "settled (recipient_dispatch m rows) \<longleftrightarrow> \<not> open_dispatch rows m"
proof (cases "recipient_dispatch m rows")
  case None
  then have "\<forall>r \<in> set rows. disp_key r \<noteq> recipient_key m" using recipient_dispatch_key [OF assms, of m] by auto
  then show ?thesis using None by (auto simp: settled_def status_is_def open_dispatch_def)
next
  case (Some r)
  then have r: "r \<in> set rows" "disp_key r = recipient_key m" using recipient_dispatch_key [OF assms] by auto
  have "q = r" if "q \<in> set rows" "disp_key q = recipient_key m" for q
    using distinct_key_eq [OF assms that(1) r(1)] that(2) r(2) by simp
  then have "open_dispatch rows m \<longleftrightarrow> \<not> final r" using r unfolding open_dispatch_def by blast
  then show ?thesis using Some by (auto simp: settled_def status_is_def final_def)
qed

lemma terminal_row_simps:
  assumes "mg_scope m = br_scope b"
  shows "disp_key (terminal_row b m v e n) = recipient_key m" "disp.sealed (br_sha256 b) (terminal_row b m v e n)"
    "row_ok H d (terminal_row b m v e n)" "dp_attempt_count (terminal_row b m v e n) = attempts_of v"
    "dp_claimed_utc (terminal_row b m v e n) = (case v of None \<Rightarrow> None | Some r \<Rightarrow> dp_claimed_utc r)"
proof -
  show "disp.sealed (br_sha256 b) (terminal_row b m v e n)" unfolding terminal_row_def by simp
  show "row_ok H d (terminal_row b m v e n)"
    unfolding terminal_row_def row_ok_seal by (simp add: row_ok_def dispatch_shape_def no_lease_def)
qed (simp_all add: assms terminal_row_def seal_dispatch_def disp_key_def recipient_key_def)

lemma reconcile_row_step:
  fixes s t :: "'a dispatch_db_scheme pstate"
  assumes run: "reconcile_row b obs ne mx n m s = (Inr x, t)" and inv: "store_inv (br_sha256 b) (st_db s)"
    and m: "mg_scope m = br_scope b" "open_dispatch (message_dispatches (st_db s)) m"
  shows "store_step (br_sha256 b) (st_db s) (st_db t)
    \<and> (\<forall>r. disp_key r \<noteq> recipient_key m \<longrightarrow> r \<in> set (message_dispatches (st_db t)) \<longrightarrow> r \<in> set (message_dispatches (st_db s)))"
proof -
  note d = store_keys [OF inv]
  consider "st_db t = st_db s" | e where "put_dispatch (terminal_row b m (recipient_dispatch m (message_dispatches (st_db s))) e n)
      (\<lambda>r. (terminal_row b m (recipient_dispatch m (message_dispatches (st_db s))) e n)\<lparr>dp_claimed_utc := dp_claimed_utc r\<rparr>) s = (Inr (), t)"
    using run unfolding reconcile_row_def Let_def by (auto simp: tx_simps split: option.splits)
  then show ?thesis
  proof cases
    case 1
    then show ?thesis by (simp add: stores.frame_refl)
  next
    case (2 e)
    let ?v = "recipient_dispatch m (message_dispatches (st_db s))" let ?row = "terminal_row b m ?v e n"
    have same: "?v = Some r" if "r \<in> set (message_dispatches (st_db s))" "disp_key r = disp_key ?row" for r
      using that recipient_dispatch_key [OF d] by (simp add: terminal_row_simps [OF m(1)])
    obtain ds where p: "placed ?row (message_dispatches (st_db s)) ds" and t: "st_db t = (st_db s)\<lparr>message_dispatches := ds\<rparr>"
    proof -
      have "?row\<lparr>dp_claimed_utc := dp_claimed_utc r\<rparr> = ?row" if "r \<in> set (message_dispatches (st_db s))" "disp_key r = disp_key ?row" for r
        using same [OF that] terminal_row_simps(5) [OF m(1), of ?v e n] by (cases ?row) simp
      then show thesis using put_dispatch_run [OF 2 d] that by blast
    qed
    have "may_place ?row (message_dispatches (st_db s))"
      unfolding may_place_def using m(2) same by (auto simp: open_dispatch_def terminal_row_simps [OF m(1)] attempts_of_def)
    then have "store_step (br_sha256 b) (st_db s) (st_db t)"
      unfolding t by (intro place_step [OF p]) (simp_all add: terminal_row_simps [OF m(1)])
    then show ?thesis using p by (auto simp: t placed_def terminal_row_simps [OF m(1)])
  qed
qed

lemma reconcile_loop:
  fixes s t :: "'a dispatch_db_scheme pstate"
  assumes "tx_for (reconcile_row b obs ne mx n) ms s = (Inr xs, t)" and "store_inv (br_sha256 b) (st_db s)"
    and "\<forall>m \<in> set ms. mg_scope m = br_scope b \<and> open_dispatch (message_dispatches (st_db s)) m" and "distinct (map mg_message_id ms)"
  shows "store_step (br_sha256 b) (st_db s) (st_db t)"
  using assms
proof (induction ms arbitrary: s xs)
  case Nil
  then show ?case by (simp add: tx_simps stores.frame_refl)
next
  case (Cons m ms)
  from Cons.prems(1) obtain y ys and u :: "'a dispatch_db_scheme pstate" where u: "reconcile_row b obs ne mx n m s = (Inr y, u)"
    and rest: "tx_for (reconcile_row b obs ne mx n) ms u = (Inr ys, t)"
    by (auto simp: tx_bind_ok tx_return_ok)
  note step = reconcile_row_step [OF u Cons.prems(2)]
  have su: "store_step (br_sha256 b) (st_db s) (st_db u)" using step Cons.prems(3) by simp
  then have inv: "store_inv (br_sha256 b) (st_db u)" using Cons.prems(2) by (simp add: store_step_def)
  have "open_dispatch (message_dispatches (st_db u)) m'" if "m' \<in> set ms" for m'
  proof -
    have "recipient_key m' \<noteq> recipient_key m" using that Cons.prems(4) by (auto simp: recipient_key_def image_iff)
    then show ?thesis using that step Cons.prems(3) unfolding open_dispatch_def by auto
  qed
  then have "store_step (br_sha256 b) (st_db u) (st_db t)" using Cons.IH [OF rest inv] Cons.prems(3,4) by simp
  then show ?case using su stores.frame_trans by blast
qed

lemma pending_rows_in: "m \<in> set (pending_rows b k d) \<Longrightarrow> pending_routed b d m \<and> m \<in> set (messages d)"
  unfolding pending_rows_def by (drule in_set_takeD) simp

lemma pending_distinct: "distinct (map mg_message_id (messages d)) \<Longrightarrow> distinct (map mg_message_id (pending_rows b k d))"
proof -
  assume d: "distinct (map mg_message_id (messages d))"
  have "distinct (pending_rows b k d)" using d by (simp add: pending_rows_def distinct_map)
  moreover have "inj_on mg_message_id (set (pending_rows b k d))"
    by (rule inj_on_subset [of _ "set (messages d)"]) (use d pending_rows_in in \<open>auto simp: distinct_map\<close>)
  ultimately show ?thesis by (simp add: distinct_map)
qed

lemma reconcile_step: "stores.framed (br_sha256 b) (reconcile_dispatches_tx b k mx obs n ne)"
proof (rule stores.framedI)
  fix s x and t :: "'a dispatch_db_scheme pstate"
  assume run: "reconcile_dispatches_tx b k mx obs n ne s = (Inr x, t)"
  obtain found and u :: "'a dispatch_db_scheme pstate" where loop: "tx_for (reconcile_row b obs ne mx n) (pending_rows b k (st_db s)) s = (Inr found, u)"
    and rest: "(let reconciled = present found in
     if reconciled = [] then tx_return ([], None)
     else tx_bind (event_op b ''message.dispatches_reconciled'' [(''count'', JInt (int (length reconciled))),
         (''dispatches'', JList (map (reconciled_json (br_sha256 b)) reconciled))] None) (\<lambda>event.
       tx_return (reconciled, Some (snd event)))) u = (Inr x, t)"
    using run unfolding reconcile_dispatches_tx_def tx_then_def by (auto simp only: tx_bind_ok tx_query_ok tx_require_ok)
  have ut: "store_step (br_sha256 b) (st_db u) (st_db t)"
    using rest stores.framedD [OF event_step] by (auto simp: Let_def tx_simps stores.frame_refl split: if_splits)
  have "store_step (br_sha256 b) (st_db s) (st_db u)"
  proof (rule store_stepI)
    assume inv: "store_inv (br_sha256 b) (st_db s)"
    have "distinct (map mg_message_id (messages (st_db s)))"
      using inv by (simp add: store_inv_def message_inv_def mail_inv_def numbered_def)
    then show "store_step (br_sha256 b) (st_db s) (st_db u)"
      using settled_open [OF store_keys [OF inv]]
      by (intro reconcile_loop [OF loop inv] pending_distinct) (auto simp: pending_routed_def dest!: pending_rows_in)
  qed
  then show "store_step (br_sha256 b) (st_db s) (st_db t)" using ut by (rule stores.frame_trans)
qed

section \<open>Connections\<close>

lemma connections_step: "store_step H d (d\<lparr>provider_connections := cs\<rparr>)"
proof (rule store_stepI)
  assume "store_inv H d"
  then have "desk_inv H d" by (simp add: store_inv_def)
  then show ?thesis by (intro grow_step) (simp_all add: same_rooms_def same_mail_def desk_inv_def)
qed

lemma upsert_connection_step: "stores.framed (br_sha256 b) (upsert_provider_connection b args)"
  unfolding upsert_provider_connection_def Let_def
  by (intro stores.framed_intros event_step stores.framed_execute connections_step)

section \<open>The system\<close>

lemma dispatch_steps:
  "stores.framed (br_sha256 b) (claim_message_dispatch b cargs)" "stores.framed (br_sha256 b) (renew_message_dispatch b i token secs)"
  "stores.framed (br_sha256 b) (fail_message_dispatch b fargs)" "stores.framed (br_sha256 b) (record_trusted_inference_receipt b targs)"
  "stores.framed (br_sha256 b) (complete_message_dispatch b eargs)" "stores.framed (br_sha256 b) (reconcile_message_dispatches b co rargs)"
  unfolding claim_message_dispatch_def renew_message_dispatch_def fail_message_dispatch_def record_trusted_inference_receipt_def
    complete_message_dispatch_def reconcile_message_dispatches_def Let_def
  by (auto intro!: stores.framed_intros claim_step renew_step fail_step trust_step complete_step reconcile_step split: prod.splits)

lemma atomic_dispatch_calls:
  "atomic (claim_message_dispatch b cargs)" "atomic (renew_message_dispatch b i token secs)" "atomic (fail_message_dispatch b fargs)"
  "atomic (record_trusted_inference_receipt b targs)" "atomic (complete_message_dispatch b eargs)"
  "atomic (reconcile_message_dispatches b co rargs)" "atomic (upsert_provider_connection b kargs)"
  unfolding claim_message_dispatch_def renew_message_dispatch_def fail_message_dispatch_def record_trusted_inference_receipt_def
    complete_message_dispatch_def reconcile_message_dispatches_def upsert_provider_connection_def Let_def
  by (auto intro!: atomic_intros split: prod.splits)

lemma mail_call_kept:
  assumes "mail_call H s t"
  shows "kept_desk H (st_db s) (st_db (t :: 'a dispatch_db_scheme pstate))"
  using assms
proof (cases rule: mail_call.cases)
  case (mc_seed b)
  then show ?thesis using kept.framedD [OF kept_room_calls(1)] by blast
next
  case mc_world
  then show ?thesis by (simp add: kept.frame_refl)
qed (hypsubst, rule kept.framed_call; intro kept_room_calls kept_mail_calls kept_automation kept_post atomic_mail_calls)+

text \<open>One call on the rooms, the messages or the dispatches, whatever its outcome, or the world moving on.\<close>

inductive store_call :: "(string \<Rightarrow> string) \<Rightarrow> 'a dispatch_db_scheme pstate \<Rightarrow> 'a dispatch_db_scheme pstate \<Rightarrow> bool" for H where
  sc_mail: "mail_call H s t \<Longrightarrow> store_call H s t"
| sc_claim: "br_sha256 b = H \<Longrightarrow> store_call H s (snd (claim_message_dispatch b cargs s))"
| sc_renew: "br_sha256 b = H \<Longrightarrow> store_call H s (snd (renew_message_dispatch b i token secs s))"
| sc_fail: "br_sha256 b = H \<Longrightarrow> store_call H s (snd (fail_message_dispatch b fargs s))"
| sc_trust: "br_sha256 b = H \<Longrightarrow> store_call H s (snd (record_trusted_inference_receipt b targs s))"
| sc_complete: "br_sha256 b = H \<Longrightarrow> store_call H s (snd (complete_message_dispatch b eargs s))"
| sc_reconcile: "br_sha256 b = H \<Longrightarrow> store_call H s (snd (reconcile_message_dispatches b co rargs s))"
| sc_connection: "br_sha256 b = H \<Longrightarrow> store_call H s (snd (upsert_provider_connection b kargs s))"

inductive_cases store_callE: "store_call H s t"

lemma store_call_step:
  assumes "store_call H s t"
  shows "store_step H (st_db s) (st_db t)"
  using assms
proof (cases rule: store_call.cases)
  case sc_mail
  show ?thesis
    unfolding store_step_def
  proof
    assume inv: "store_inv H (st_db s)"
    then have "message_inv H (st_db t)" "mail_leads (st_db s) (st_db t)" using mail_call_step [OF sc_mail] by (simp_all add: store_inv_def)
    then show "store_inv H (st_db t) \<and> store_leads (st_db s) (st_db t)"
      using kept_desk_step [OF mail_call_kept [OF sc_mail] _ store_keys [OF inv]] inv by (simp add: store_inv_def store_leads_def)
  qed
qed (hypsubst, rule stores.framed_call; intro dispatch_steps upsert_connection_step atomic_dispatch_calls)+

interpretation dispatching: call_history "store_call H" "\<lambda>s. store_inv H (st_db s)" "\<lambda>s t. store_leads (st_db s) (st_db t)" for H
proof
  fix s t u :: "'a dispatch_db_scheme pstate"
  show "store_inv H (st_db s) \<Longrightarrow> store_call H s t \<Longrightarrow> store_inv H (st_db t)" using store_call_step by (blast dest: store_step_def [THEN iffD1])
  show "store_inv H (st_db s) \<Longrightarrow> store_call H s t \<Longrightarrow> store_leads (st_db s) (st_db t)"
    using store_call_step by (blast dest: store_step_def [THEN iffD1])
  show "store_leads (st_db s) (st_db s)" by (simp add: store_leads_def mail_leads_refl desk_leads_refl)
  show "store_leads (st_db s) (st_db t) \<Longrightarrow> store_leads (st_db t) (st_db u) \<Longrightarrow> store_leads (st_db s) (st_db u)"
    by (rule store_leads_trans)
qed

end
