(* ===== verification/DispatchExamples.thy ===== *)
theory DispatchExamples
  imports DispatchCalls MailExamples UsageProperties
begin

text \<open>
  Concrete data for the properties of dispatches: a lobby with one message from alice for bob, who has claimed it;
  the receipt of the attempt is recorded. Calls that return there. The example digest is constant.
\<close>

definition flat_sha :: "string \<Rightarrow> string" where "flat_sha x = ''0''"

definition desk_bridge :: "string \<Rightarrow> bridge" where
  "desk_bridge agent = \<lparr>br_agent_id = agent, br_scope = ''team'', br_session_id = ''s-'' @ agent, br_client_name = None,
     br_provider_id = Some ''p'', br_model_id = Some ''m'', br_reasoning_mode = None, br_route_class = Some ''local'',
     br_workspace_root_key = ''/w'', br_sha256 = flat_sha\<rparr>"

abbreviation "desk_bob \<equiv> desk_bridge ''bob''"

definition desk_draft :: draft where
  "desk_draft = \<lparr>dr_room_id = ''lobby'', dr_task_id = ''T1'', dr_sender = ''alice'', dr_recipient = ''bob'', dr_subject = ''s'',
     dr_body = ''one'', dr_priority = ''normal'', dr_reply_to = None, dr_artifacts = [], dr_route_profile_id = None, dr_request = None,
     dr_prompt = None, dr_visibility = ''direct'', dr_created = ''u''\<rparr>"

definition desk_message :: msg_row where "desk_message = new_message (desk_bridge ''alice'') desk_draft ''m1'' 1"

definition desk_room :: room_row where
  "desk_room = seal_room flat_sha \<lparr>ro_scope = ''team'', ro_room_id = ''lobby'', ro_name = ''Lobby'', ro_created_by = ''peerbridge-system'',
     ro_archived = False, ro_created_utc = ''u'', ro_updated_utc = ''u'', ro_room_sha256 = []\<rparr>"

definition desk_counted :: usage_row where
  "desk_counted = \<lparr>us_scope = ''team'', us_message_rows = 1, us_message_bytes = 300, us_event_rows = 0, us_event_bytes = 0,
     us_updated_utc = ''u''\<rparr>"

definition desk_base :: dispatch_db where
  "desk_base = \<lparr>events = [], event_seq = 0, scope_storage_usage = [desk_counted], messages = [desk_message],
     message_dispatches = [], room_discussions = [], route_profiles = [], rooms = [desk_room],
     room_memberships = [], room_member_roles = [], room_automation_policies = [], message_seq = 1,
     message_receipts = [], message_route_receipts = [], consumer_cursors = [], mcp_mutation_receipts = [],
     dispatch_retries = [], trusted_receipts = [], inference_usages = [], provider_connections = []\<rparr>"

definition desk_row :: dispatch_row where
  "desk_row = leased_dispatch desk_bob ''m1'' (sha256_text flat_sha ''tok'') 900 1 ''u''"

definition desk_usage :: usage where "desk_usage = unavailable_usage ''x''"

definition desk_request :: trust_request where
  "desk_request = \<lparr>tq_message_id = ''m1'', tq_lease_token = ''tok'', tq_body = ''hi'', tq_receipt = [], tq_assistant_message = JObj [],
     tq_connection = None, tq_profile = None\<rparr>"

definition desk_trusted :: trusted_row where
  "desk_trusted = new_trusted desk_bob desk_request desk_message
     \<lparr>ex_profile_id = None, ex_profile_sha256 = None, ex_response_model_id = Some ''m'', ex_client_name = None,
      ex_schema = OPENAI_SCHEMA, ex_native = None\<rparr>
     \<lparr>rb_schema = ''x'', rb_receipt_sha256 = replicate 64 (CHR ''a''), rb_assistant_message_sha256 = ''b'',
      rb_assistant_content_sha256 = sha256_text flat_sha ''hi'', rb_reply_body_sha256 = sha256_text flat_sha ''hi'',
      rb_expected_route_sha256 = ''c''\<rparr> 1 (stable_sha256 flat_sha (usage_json desk_usage)) ''u''"

definition desk_store :: dispatch_db where
  "desk_store = desk_base\<lparr>message_dispatches := [desk_row], trusted_receipts := [desk_trusted]\<rparr>"

definition desk_in :: "dispatch_db \<Rightarrow> dispatch_db pstate" where
  "desk_in d = \<lparr>st_db = d, st_world = demo_world\<rparr>"

lemma desk_in_db [simp]: "st_db (desk_in d) = d"
  by (simp add: desk_in_def)

section \<open>The store is well formed\<close>

lemma desk_bridge_simps [simp]:
  "br_sha256 (desk_bridge ag) = flat_sha" "br_scope (desk_bridge ag) = ''team''" "br_agent_id (desk_bridge ag) = ag"
  by (simp_all add: desk_bridge_def)

lemma desk_base_inv: "store_inv flat_sha desk_base"
proof -
  have "room_rows.sealed flat_sha desk_room" by (simp add: desk_room_def room_rows.sealed_seal)
  then have "room_inv flat_sha desk_base"
    by (simp add: room_inv_def seats_ok_def policies_ok_def disc_inv_def discussions_ok_def desk_base_def)
  moreover have "mail_inv flat_sha desk_base"
    by (simp add: mail_inv_def audit_inv_def audit_valid_def sequence_ok_def usage_ok_def usage_row_ok_def scope_events_def sum_bytes_def
        MAX_SCOPE_EVENT_ROWS_def MAX_SCOPE_EVENT_BYTES_def numbered_def cursors_ok_def quota_exact_def quota_but_def quota_row_def
        count_messages_def MAX_SCOPE_MESSAGE_ROWS_def MAX_SCOPE_MESSAGE_BYTES_def desk_base_def desk_counted_def desk_message_def)
  moreover have "desk_inv flat_sha desk_base" by (simp add: desk_inv_def desk_base_def)
  ultimately show ?thesis by (simp add: store_inv_def message_inv_def)
qed

text \<open>A claimed row and a receipt are added as the calls add them.\<close>

lemma desk_claimed_inv: "store_inv flat_sha (desk_base\<lparr>message_dispatches := [desk_row]\<rparr>)"
proof -
  have p: "placed desk_row (message_dispatches desk_base) [desk_row]" "may_place desk_row (message_dispatches desk_base)"
    by (simp_all add: placed_def may_place_def desk_base_def)
  have "store_step flat_sha desk_base (desk_base\<lparr>message_dispatches := [desk_row]\<rparr>)"
    using leased_dispatch_simps(4) [of desk_bob] by (intro place_step [OF p]) (simp_all add: desk_row_def leased_dispatch_simps)
  then show ?thesis using desk_base_inv by (simp add: store_step_def)
qed

lemma desk_store_inv: "store_inv flat_sha desk_store"
proof -
  let ?d = "desk_base\<lparr>message_dispatches := [desk_row]\<rparr>"
  have "trusts.sealed flat_sha desk_trusted" using trusts.sealed_seal [of flat_sha] by (simp add: desk_trusted_def new_trusted_def)
  moreover have "desk_inv flat_sha ?d" using desk_claimed_inv by (simp add: store_inv_def)
  ultimately have "store_step flat_sha ?d desk_store"
    by (intro grow_step) (simp_all add: same_rooms_def same_mail_def desk_inv_def desk_store_def desk_base_def extends_list_def)
  then show ?thesis using desk_claimed_inv by (simp add: store_step_def)
qed

section \<open>Its calls return\<close>

definition desk_answer :: complete_args where
  "desk_answer = \<lparr>ce_message_id = ''m1'', ce_lease_token = Some ''tok'', ce_body = ''hi'',
     ce_inference_receipt_sha256 = Some (replicate 64 (CHR ''a'')), ce_inference_usage = Some (usage_json desk_usage), ce_subject = None\<rparr>"

definition desk_completion :: reply_call where
  "desk_completion = \<lparr>co_message_id = ''m1'', co_lease_token = ''tok'', co_body = ''hi'', co_receipt_sha256 = replicate 64 (CHR ''a''),
     co_usage = desk_usage, co_subject = []\<rparr>"

section \<open>Evaluation\<close>

text \<open>Decimal digits by arithmetic on integers.\<close>

function int_digits :: "int \<Rightarrow> string" where
  "int_digits i = (if i < 10 then [char_of (48 + nat i)] else int_digits (i div 10) @ [char_of (48 + nat (i mod 10))])"
  by auto
termination by (relation "measure nat") auto

declare int_digits.simps [simp del]

lemma show_nat_decimal [code]: "show_nat n = int_digits (int n)"
proof (induction n rule: show_nat.induct)
  case (1 n)
  have "int n div 10 = int (n div 10)" "nat (int n mod 10) = n mod 10" by (simp_all add: zdiv_int nat_mod_as_int)
  then show ?case using 1 by (subst show_nat.simps, subst int_digits.simps) simp
qed

lemma show_int_decimal [code]: "show_int i = (if i < 0 then CHR ''-'' # int_digits (- i) else int_digits i)"
  by (simp add: show_int_def show_nat_decimal)

text \<open>The stored rows with their digests, for evaluation.\<close>

lemma flat_digest [simp]: "stable_sha256 flat_sha j = flat_sha []" "sha256_text flat_sha x = flat_sha []"
  by (simp_all add: stable_sha256_def sha256_text_def sha256_bytes_def flat_sha_def)

lemma desk_message_code [code]:
  "desk_message = \<lparr>mg_sequence = 1, mg_message_id = ''m1'', mg_scope = ''team'', mg_room_id = ''lobby'', mg_task_id = ''T1'',
     mg_sender = ''alice'', mg_recipient = ''bob'', mg_subject = ''s'', mg_body = ''one'', mg_priority = ''normal'', mg_reply_to = None,
     mg_artifact_paths_json = ''[]'', mg_route_profile_id = None, mg_route_profile_sha256 = None, mg_requested_provider_id = None,
     mg_requested_model_id = None, mg_requested_reasoning_mode = None, mg_requested_route_class = None, mg_route_request_sha256 = None,
     mg_discussion_id = None, mg_discussion_round = None, mg_discussion_role = None, mg_visibility = ''direct'',
     mg_created_utc = ''u'', mg_acknowledged_utc = None, mg_content_sha256 = flat_sha []\<rparr>"
proof -
  have "json_dumps (JList []) = ''[]''" "json_spaced (JList []) = ''[]''" by code_simp+
  then show ?thesis by (simp add: desk_message_def new_message_def desk_draft_def requested_of_def Let_def)
qed

lemma desk_row_code [code]:
  "desk_row = \<lparr>dp_scope = ''team'', dp_message_id = ''m1'', dp_agent_id = ''bob'', dp_status = ''claimed'',
      dp_claimed_session_id = Some ''s-bob'', dp_lease_token_sha256 = Some (flat_sha []),
      dp_lease_expires_epoch = Some 900, dp_attempt_count = 1, dp_claimed_utc = Some ''u'', dp_updated_utc = ''u'',
      dp_completed_utc = None, dp_reply_message_id = None, dp_inference_receipt_sha256 = None, dp_error_code = None,
      dp_dispatch_sha256 = flat_sha []\<rparr>"
  by (simp add: desk_row_def leased_dispatch_def seal_dispatch_def dispatch_digest_def) (simp add: desk_bridge_def)

lemma desk_trusted_code [code]:
  "desk_trusted = \<lparr>tr_scope = ''team'', tr_message_id = ''m1'', tr_agent_id = ''bob'', tr_session_id = ''s-bob'',
      tr_attempt_count = 1, tr_lease_token_sha256 = flat_sha [], tr_source_content_sha256 = flat_sha [],
      tr_source_route_request_sha256 = None, tr_receipt_schema = ''x'', tr_inference_receipt_sha256 = replicate 64 (CHR ''a''),
      tr_assistant_message_sha256 = ''b'', tr_assistant_content_sha256 = flat_sha [],
      tr_reply_body_sha256 = flat_sha [], tr_inference_usage_sha256 = flat_sha [], tr_route_profile_id = None,
      tr_route_profile_sha256 = None, tr_connection_id = None, tr_connection_sha256 = None, tr_provider_id = Some ''p'',
      tr_model_id = Some ''m'', tr_response_model_id = Some ''m'', tr_reasoning_mode = None, tr_route_class = Some ''local'',
      tr_room_id = ''lobby'', tr_recorded_utc = ''u'', tr_binding_sha256 = flat_sha []\<rparr>"
  by (simp add: desk_trusted_def new_trusted_def seal_trusted_def desk_request_def desk_message_code) (simp add: desk_bridge_def)

lemma desk_room_code [code]:
  "desk_room = \<lparr>ro_scope = ''team'', ro_room_id = ''lobby'', ro_name = ''Lobby'', ro_created_by = ''peerbridge-system'',
     ro_archived = False, ro_created_utc = ''u'', ro_updated_utc = ''u'', ro_room_sha256 = flat_sha []\<rparr>"
  by (simp add: desk_room_def seal_room_def)

lemma desk_renews: "succeeds (renew_message_dispatch desk_bob ''m1'' (Some ''tok'') None) (desk_in desk_store)"
  by code_simp

lemma desk_completes_tx: "case complete_dispatch_tx desk_bob desk_completion (desk_in desk_store) of
    (Inr x, t) \<Rightarrow> \<not> cr_replay x \<and> map dp_status (message_dispatches (st_db t)) = [''completed''] | (Inl e, t) \<Rightarrow> False"
  by code_simp

lemma desk_answer_valid: "validate_completion desk_answer = Inr desk_completion"
proof -
  have ids: "require_identifier ''m1'' ''message_id'' = Inr ''m1''" and src: "usage_source_ok ''x''"
    by code_simp+
  have sha: "require_sha256 (Some (replicate 64 (CHR ''a''))) ''inference_receipt_sha256'' = Inr (replicate 64 (CHR ''a''))"
    by code_simp
  have "usage_valid desk_usage" using src by (simp add: desk_usage_def usage_valid_def unavailable_usage_def USAGE_STATUSES_def)
  then have used: "claimed_usage (Some (usage_json desk_usage)) = Inr desk_usage"
    using valid_usage_back by (simp add: claimed_usage_def usage_json_def)
  show ?thesis
    by (simp add: validate_completion_def desk_answer_def ids mail_texts sha used res_bind_def desk_completion_def text_or_empty_def)
qed

lemma desk_completes: "\<exists>x t. complete_message_dispatch desk_bob desk_answer (desk_in desk_store) = (Inr x, t) \<and> \<not> cr_replay x
    \<and> map dp_status (message_dispatches (st_db t)) = [''completed'']"
proof -
  have run: "complete_message_dispatch desk_bob desk_answer (desk_in desk_store)
      = with_connection (complete_dispatch_tx desk_bob desk_completion) (desk_in desk_store)"
    by (simp add: complete_message_dispatch_def tx_bind_def tx_lift_def desk_answer_valid)
  show ?thesis using desk_completes_tx unfolding run
    by (cases "complete_dispatch_tx desk_bob desk_completion (desk_in desk_store)")
      (auto simp: with_connection_def split: sum.splits)
qed

end
