(* ===== verification/DispatchProperties.thy ===== *)
theory DispatchProperties
  imports DispatchExamples
begin

text \<open>
  The properties of dispatches: who may act on a claimed message, what a claim takes, what a completed dispatch
  rests on, what a completion writes, and that settled dispatches stay as they are.
\<close>

section \<open>Fences\<close>

text \<open>The row that a session holds under a token, live or completed.\<close>

definition leased_by :: "bridge \<Rightarrow> string \<Rightarrow> string \<Rightarrow> int \<Rightarrow> dispatch_row \<Rightarrow> bool" where
  "leased_by b i token now row \<longleftrightarrow> token \<noteq> [] \<and> dp_scope row = br_scope b \<and> dp_message_id row = i \<and> dp_agent_id row = br_agent_id b
     \<and> dp_claimed_session_id row = Some (br_session_id b)
     \<and> dp_lease_token_sha256 row = Some (sha256_text (br_sha256 b) token)
     \<and> (dp_status row = ''completed'' \<or> dp_status row = ''claimed'' \<and> (\<exists>e. dp_lease_expires_epoch row = Some e \<and> now < e))"

lemma held_leased:
  assumes "holds_dispatch b i token now row" and "row_ok H d row" and "dp_status row = ''claimed'' \<or> dp_status row = ''completed''"
  shows "leased_by b i token now row"
proof -
  obtain k where "dp_lease_token_sha256 row = Some k"
    using assms(2,3) by (auto simp: row_ok_def dispatch_shape_def claimed_shape_def evidence_def)
  then have "dp_lease_token_sha256 row = Some (sha256_text (br_sha256 b) token)"
    using assms(1) by (simp add: holds_dispatch_def text_or_empty_def)
  moreover have "dp_status row = ''claimed'' \<longrightarrow> (\<exists>e. dp_lease_expires_epoch row = Some e \<and> now < e)"
    using assms(1,2) by (auto simp: holds_dispatch_def row_ok_def dispatch_shape_def claimed_shape_def)
  ultimately show ?thesis using assms(1,3) by (auto simp: holds_dispatch_def leased_by_def disp_key_def)
qed

lemma lease_leased:
  assumes "require_dispatch_lease b i token al s = (Inr row, u)" and "store_inv (br_sha256 b) (st_db s)"
  shows "row \<in> set (message_dispatches (st_db s)) \<and> leased_by b i token (time_at s) row
    \<and> (dp_status row = ''claimed'' \<or> al \<and> dp_status row = ''completed'')"
  using require_dispatch_lease_run [OF assms(1)] held_leased held_ok [OF assms(2)] by blast

lemma require_identifier_strip: "require_identifier i l = Inr j \<Longrightarrow> j = py_strip i"
  by (auto simp: require_identifier_def Let_def split: if_splits)

lemma validate_trust_ids:
  "validate_trust args = Inr q \<Longrightarrow> tq_message_id q = py_strip (ta_message_id args) \<and> tq_lease_token q = text_or_empty (ta_lease_token args)"
  by (cases "ta_receipt args") (auto simp: validate_trust_def tx_simps dest!: require_identifier_strip)

lemma validate_completion_ids:
  "validate_completion args = Inr c \<Longrightarrow> co_message_id c = py_strip (ce_message_id args) \<and> co_lease_token c = text_or_empty (ce_lease_token args)
     \<and> co_subject c = text_or_empty (ce_subject args)"
  by (cases "claimed_usage (ce_inference_usage args)") (auto simp: validate_completion_def tx_simps dest!: require_identifier_strip)

text \<open>C5: A message that an agent has claimed is renewed, given up, bound to a provider receipt or answered only by
  the session that claimed it, with the token of that claim, before the lease expires; a completed one is
  only read again.\<close>

theorem dispatch_calls_are_fenced:
  assumes "store_inv (br_sha256 b) (st_db s)"
    and "(\<exists>x. renew_message_dispatch b i (Some token) secs s = (Inr x, t))
      \<or> (\<exists>x code retry after. fail_message_dispatch b (fail_dispatch_args.make i (Some token) code retry after) s = (Inr x, t))
      \<or> (\<exists>x args. ta_message_id args = i \<and> ta_lease_token args = Some token \<and> record_trusted_inference_receipt b args s = (Inr x, t))
      \<or> (\<exists>x args. ce_message_id args = i \<and> ce_lease_token args = Some token \<and> complete_message_dispatch b args s = (Inr x, t))"
  shows "\<exists>row \<in> set (message_dispatches (st_db s)). \<exists>now \<in> {time_at s, time_at (tick s)}. leased_by b (py_strip i) token now row
    \<and> (dp_status row = ''completed'' \<longrightarrow> st_db t = st_db s)"
proof -
  have held: "\<exists>row \<in> set (message_dispatches (st_db s)). \<exists>now \<in> {time_at s, time_at (tick s)}. leased_by b (py_strip i) token now row
      \<and> (dp_status row = ''completed'' \<longrightarrow> st_db t = st_db s)"
    if "require_dispatch_lease b (py_strip i) token False v = (Inr row, u)" "v = s \<or> v = tick s" for v u row
    using lease_leased [OF that(1)] that(2) assms(1) by (intro bexI [of _ row] bexI [of _ "time_at v"]) auto
  consider x where "renew_message_dispatch b i (Some token) secs s = (Inr x, t)"
    | x code retry after where "fail_message_dispatch b (fail_dispatch_args.make i (Some token) code retry after) s = (Inr x, t)"
    | x args where "ta_message_id args = i" "ta_lease_token args = Some token" "record_trusted_inference_receipt b args s = (Inr x, t)"
    | x args where "ce_message_id args = i" "ce_lease_token args = Some token" "complete_message_dispatch b args s = (Inr x, t)"
    using assms(2) by blast
  then show ?thesis
  proof cases
    case 1
    then show ?thesis
      using held by (auto simp: renew_message_dispatch_def renew_dispatch_tx_def tx_simps text_or_empty_def dest!: require_identifier_strip)
  next
    case 2
    then show ?thesis
      using held by (auto simp: fail_message_dispatch_def fail_dispatch_tx_def fail_dispatch_args.defs Let_def tx_simps text_or_empty_def
          simp del: tx_for.simps dest!: require_identifier_strip)
  next
    case 3
    then obtain q u where q: "validate_trust args = Inr q" and tx: "trust_tx b q u (utc_at s) (tick s) = (Inr x, t)"
      by (auto simp: record_trusted_inference_receipt_def tx_simps)
    then show ?thesis using tx held validate_trust_ids [OF q] 3 by (auto simp: trust_tx_def tx_simps text_or_empty_def)
  next
    case 4
    then obtain c where c: "validate_completion args = Inr c" and tx: "complete_dispatch_tx b c s = (Inr x, t)"
      by (auto simp: complete_message_dispatch_def tx_simps)
    have id: "co_message_id c = py_strip i" "co_lease_token c = token" using validate_completion_ids [OF c] 4 by (simp_all add: text_or_empty_def)
    have leased: ?thesis if "row \<in> set (message_dispatches (st_db s))" "holds_dispatch b (co_message_id c) (co_lease_token c) (time_at s) row"
      "dp_status row = ''claimed'' \<or> dp_status row = ''completed'' \<and> st_db t = st_db s" for row
      using held_leased [OF that(2) held_ok [OF assms(1) that(1)]] that(1,3) id by (intro bexI [of _ row] bexI [of _ "time_at s"]) auto
    from tx show ?thesis by (cases rule: complete_dispatch_run) (use leased in blast)+
  qed
qed

theorem dispatch_calls_are_fenced_witness: "leased_by desk_bob ''m1'' ''tok'' 100 desk_row"
proof -
  have strip: "py_strip ''m1'' = ''m1''" by code_simp
  have inv: "store_inv (br_sha256 desk_bob) (st_db (desk_in desk_store))" using desk_store_inv by simp
  have "\<exists>row \<in> set (message_dispatches (st_db (desk_in desk_store))). \<exists>now \<in> {time_at (desk_in desk_store), time_at (tick (desk_in desk_store))}.
      leased_by desk_bob (py_strip ''m1'') ''tok'' now row \<and> (dp_status row = ''completed'' \<longrightarrow>
        st_db (after (renew_message_dispatch desk_bob ''m1'' (Some ''tok'') None) (desk_in desk_store)) = st_db (desk_in desk_store))"
    using succeeds_run [OF desk_renews] by (intro dispatch_calls_are_fenced [OF inv]) blast
  then show ?thesis
    by (auto simp: strip desk_store_def desk_in_def demo_world_def tick_def leased_by_def desk_row_code)
qed

section \<open>Histories\<close>

text \<open>In any history of the calls on rooms, messages and dispatches no dispatch is ever lost and its attempts
  never fall; a completed or failed one is never changed again; retry schedules, trusted receipts and usage
  records are only appended to.\<close>

theorem settled_dispatches_are_final:
  assumes "(store_call H)\<^sup>*\<^sup>* s t" and "store_inv H (st_db s)" and "row \<in> set (message_dispatches (st_db s))"
  shows "\<exists>row' \<in> set (message_dispatches (st_db t)). disp_key row' = disp_key row \<and> dp_attempt_count row \<le> dp_attempt_count row'
      \<and> (dp_status row \<in> {''completed'', ''failed''} \<longrightarrow> row' = row)
    \<and> extends_list (dispatch_retries (st_db s)) (dispatch_retries (st_db t))
    \<and> extends_list (trusted_receipts (st_db s)) (trusted_receipts (st_db t))
    \<and> extends_list (inference_usages (st_db s)) (inference_usages (st_db t))"
  using dispatching.history [OF assms(1,2)] assms(3) by (auto simp: store_leads_def desk_leads_def row_leads_def final_def)

definition desk_done :: "dispatch_db pstate" where
  "desk_done = snd (complete_message_dispatch desk_bob desk_answer (desk_in desk_store))"

lemma desk_history: "(store_call flat_sha)\<^sup>*\<^sup>* (desk_in desk_store) desk_done"
  using sc_complete [of desk_bob flat_sha "desk_in desk_store" desk_answer] by (simp add: desk_done_def r_into_rtranclp)

theorem settled_dispatches_are_final_witness:
  "\<exists>row' \<in> set (message_dispatches (st_db desk_done)). disp_key row' = (''team'', ''m1'', ''bob'')"
proof -
  have "desk_row \<in> set (message_dispatches (st_db (desk_in desk_store)))" by (simp add: desk_store_def)
  from settled_dispatches_are_final [OF desk_history _ this] desk_store_inv show ?thesis
    by (auto simp: desk_row_code disp_key_def)
qed

text \<open>C13: In any history every completed dispatch rests on its evidence: a reply of the agent to the claimed
  message, a provider receipt bound to the session, the token and the attempt of the claim and to the digest
  of the body of that reply, and one usage record with exactly the usage of that receipt.\<close>

theorem completed_dispatch_has_evidence:
  assumes "(store_call H)\<^sup>*\<^sup>* s t" and "store_inv H (st_db s)"
    and "row \<in> set (message_dispatches (st_db t))" and "dp_status row = ''completed''"
  shows "\<exists>m \<in> set (messages (st_db t)). \<exists>tr \<in> set (trusted_receipts (st_db t)). \<exists>u \<in> set (inference_usages (st_db t)).
     dp_reply_message_id row = Some (mg_message_id m) \<and> mg_scope m = dp_scope row \<and> mg_reply_to m = Some (dp_message_id row)
     \<and> mg_sender m = dp_agent_id row
     \<and> trusted_key tr = attempt_key row \<and> dp_claimed_session_id row = Some (tr_session_id tr)
     \<and> dp_lease_token_sha256 row = Some (tr_lease_token_sha256 tr)
     \<and> dp_inference_receipt_sha256 row = Some (tr_inference_receipt_sha256 tr)
     \<and> tr_reply_body_sha256 tr = sha256_text H (mg_body m) \<and> tr_binding_sha256 tr = stable_sha256 H (trusted_payload tr)
     \<and> usage_key u = disp_key row \<and> iw_reply_message_id u = mg_message_id m
     \<and> tr_inference_usage_sha256 tr = stable_sha256 H (usage_json (iw_usage u))"
proof -
  have inv: "desk_inv H (st_db t)" using dispatching.history [OF assms(1,2)] by (simp add: store_inv_def)
  then have "evidence H (messages (st_db t)) (trusted_receipts (st_db t)) (inference_usages (st_db t)) row"
    using assms(3,4) by (simp add: desk_inv_def row_ok_def)
  then show ?thesis
    using inv unfolding evidence_def desk_inv_def trusts.sealed_def by fast
qed

theorem completed_dispatch_has_evidence_witness:
  "\<exists>row \<in> set (message_dispatches (st_db desk_done)). \<exists>m \<in> set (messages (st_db desk_done)). \<exists>u \<in> set (inference_usages (st_db desk_done)).
     dp_reply_message_id row = Some (mg_message_id m) \<and> mg_sender m = dp_agent_id row \<and> iw_reply_message_id u = mg_message_id m"
proof -
  obtain x t where "complete_message_dispatch desk_bob desk_answer (desk_in desk_store) = (Inr x, t)"
    "map dp_status (message_dispatches (st_db t)) = [''completed'']"
    using desk_completes by auto
  then have "map dp_status (message_dispatches (st_db desk_done)) = [''completed'']" by (simp add: desk_done_def)
  then obtain row where row: "row \<in> set (message_dispatches (st_db desk_done))" "dp_status row = ''completed''"
    by (auto simp: map_eq_Cons_conv)
  have "store_inv flat_sha (st_db (desk_in desk_store))" using desk_store_inv by simp
  from completed_dispatch_has_evidence [OF desk_history this row] obtain m tr u where
    "m \<in> set (messages (st_db desk_done))" "u \<in> set (inference_usages (st_db desk_done))"
    "dp_reply_message_id row = Some (mg_message_id m)" "mg_sender m = dp_agent_id row" "iw_reply_message_id u = mg_message_id m"
    by blast
  then show ?thesis using row(1) by blast
qed

section \<open>Claiming\<close>

text \<open>The checks of a candidate change nothing at all, so they are a function of the state.\<close>

definition tx_pure :: "('d, 'e, 'a) tx \<Rightarrow> bool" where
  "tx_pure m \<longleftrightarrow> (\<forall>s. snd (m s) = s)"

lemma tx_pure_intros:
  "tx_pure (tx_return a)" "tx_pure (tx_require c e)" "tx_pure (tx_lift r)" "tx_pure (tx_query g)" "tx_pure (tx_raise e)"
  by (simp_all add: tx_pure_def tx_return_def tx_require_def tx_raise_def tx_lift_def tx_query_def)

lemma tx_pure_bind: "tx_pure m \<Longrightarrow> (\<And>a. tx_pure (f a)) \<Longrightarrow> tx_pure (tx_bind m f)"
  by (auto simp: tx_pure_def tx_bind_def split: prod.splits sum.splits) (metis snd_conv)+

lemma tx_pure_then: "tx_pure m \<Longrightarrow> tx_pure n \<Longrightarrow> tx_pure (tx_then m n)"
  by (simp add: tx_then_def tx_pure_bind)

lemma tx_pure_catch: "tx_pure m \<Longrightarrow> tx_pure h \<Longrightarrow> tx_pure (tx_catch m P h)"
  by (auto simp: tx_pure_def tx_catch_def split: prod.splits sum.splits) (metis snd_conv)+

lemma claim_check_pure: "tx_pure (claim_check b args now m)"
proof -
  have "tx_pure (require_room_member b rm ag)" for rm ag
    unfolding require_room_member_def room_of_def
    by (auto intro!: tx_pure_bind tx_pure_then tx_pure_intros split: option.splits)
  then show ?thesis
    unfolding claim_check_def by (auto intro!: tx_pure_bind tx_pure_then tx_pure_catch tx_pure_intros)
qed

lemma first_due_split:
  assumes "first_due f xs s = (Inr (Some x), t)" and "\<And>y. tx_pure (f y)"
  shows "t = s \<and> (\<exists>pre post. xs = pre @ x # post \<and> (\<forall>y \<in> set pre. fst (f y s) = Inr False) \<and> f x s = (Inr True, s))"
  using assms(1)
proof (induction xs)
  case Nil
  then show ?case by (simp add: tx_simps)
next
  case (Cons y ys)
  then obtain ok u where y: "f y s = (Inr ok, u)" and rest: "(if ok then tx_return (Some y) else first_due f ys) u = (Inr (Some x), t)"
    by (auto simp: tx_simps)
  have u: "u = s" using assms(2) [of y] y by (metis snd_conv tx_pure_def)
  show ?case
  proof (cases ok)
    case True
    then have "x = y" "t = s" using rest u by (auto simp: tx_simps)
    then show ?thesis using y u True by (intro conjI exI [of _ "[]"] exI [of _ ys]) simp_all
  next
    case False
    then obtain pre post where "t = s" "ys = pre @ x # post" "\<forall>y \<in> set pre. fst (f y s) = Inr False" "f x s = (Inr True, s)"
      using Cons.IH rest u by auto
    then show ?thesis using y u False by (intro conjI exI [of _ "y # pre"] exI [of _ post]) simp_all
  qed
qed

lemma lease_dispatch_run:
  fixes s t :: "'a dispatch_db_scheme pstate"
  assumes run: "lease_dispatch b now_epoch now secs m s = (Inr c, t)" and inv: "store_inv (br_sha256 b) (st_db s)"
  shows "cd_message c = m \<and> messages (st_db t) = messages (st_db s)
    \<and> placed (leased_dispatch b (mg_message_id m) (sha256_text (br_sha256 b) (cd_lease_token c)) (now_epoch + secs)
        (attempts_of (dispatch_of b (mg_message_id m) (st_db s)) + 1) now) (message_dispatches (st_db s)) (message_dispatches (st_db t))"
proof -
  let ?row = "leased_dispatch b (mg_message_id m) (sha256_text (br_sha256 b) (token_at s)) (now_epoch + secs)
      (attempts_of (dispatch_of b (mg_message_id m) (st_db s)) + 1) now"
  obtain ev pl tid and u :: "'a dispatch_db_scheme pstate" where put: "put_dispatch ?row (\<lambda>_. ?row) (tick s) = (Inr (), u)"
    and ev: "event_op b ''message.dispatch_claimed'' pl tid u = (Inr ev, t)" and c: "cd_message c = m" "cd_lease_token c = token_at s"
    using run unfolding lease_dispatch_def Let_def by (auto simp: tx_simps)
  obtain ds where p: "placed ?row (message_dispatches (st_db s)) ds" and u: "st_db u = (st_db s)\<lparr>message_dispatches := ds\<rparr>"
    using put_dispatch_run [OF put] store_keys [OF inv] by auto
  have "messages (st_db t) = messages (st_db u)" "message_dispatches (st_db t) = message_dispatches (st_db u)"
    using event_op_ok [OF ev] by (auto simp: appends_def)
  then show ?thesis using p u c by simp
qed

text \<open>C28: A claim that returns takes the first message of its window, in order of sequence, that passes the checks: the
  dispatch of the message is neither settled nor leased at that time nor waiting for its retry, and attempts
  are left. Its row then has the digest of the returned token, the session, the expiry and one more attempt;
  no other row changes.\<close>

theorem claim_leases_first_due:
  fixes s t :: "'a dispatch_db_scheme pstate"
  assumes "claim_message_dispatch b args s = (Inr (Some c), t)" and "store_inv (br_sha256 b) (st_db s)"
  shows "\<exists>args' pre post. validate_claim_dispatch args = Inr args' \<and> claim_rows b args' (st_db s) = pre @ cd_message c # post
    \<and> (\<forall>x \<in> set pre. fst (claim_check b args' (time_at s) x (tick (tick s))) = Inr False)
    \<and> fst (claim_check b args' (time_at s) (cd_message c) (tick (tick s))) = Inr True
    \<and> (let old = dispatch_of b (mg_message_id (cd_message c)) (st_db s) in
        \<not> settled old \<and> \<not> lease_active (time_at s) old \<and> attempts_of old < attempt_limit (cl_max_attempts args')
        \<and> \<not> (status_is old ''retryable'' \<and> retry_waits (time_at s) (retry_of old (st_db s)))
        \<and> placed (leased_dispatch b (mg_message_id (cd_message c)) (sha256_text (br_sha256 b) (cd_lease_token c))
            (time_at s + dispatch_lease_seconds (cl_lease_seconds args')) (attempts_of old + 1) (utc_at (tick s)))
          (message_dispatches (st_db s)) (message_dispatches (st_db t)))"
proof -
  let ?u = "tick (tick s)"
  obtain args' where a: "validate_claim_dispatch args = Inr args'"
    and tx: "claim_dispatch_tx b args' (time_at s) (utc_at (tick s)) ?u = (Inr (Some c), t)"
    using assms(1) by (auto simp: claim_message_dispatch_def tx_simps)
  obtain m v where first: "first_due (claim_check b args' (time_at s)) (claim_rows b args' (st_db ?u)) ?u = (Inr (Some m), v)"
    and lease: "lease_dispatch b (time_at s) (utc_at (tick s)) (dispatch_lease_seconds (cl_lease_seconds args')) m v = (Inr c, t)"
    using tx unfolding claim_dispatch_tx_def by (auto simp: tx_simps split: option.splits)
  obtain pre post where v: "v = ?u" and rows: "claim_rows b args' (st_db s) = pre @ m # post"
    "\<forall>x \<in> set pre. fst (claim_check b args' (time_at s) x ?u) = Inr False" and chosen: "claim_check b args' (time_at s) m ?u = (Inr True, ?u)"
    using first_due_split [OF first claim_check_pure] by auto
  have m: "cd_message c = m" and p: "placed (leased_dispatch b (mg_message_id m) (sha256_text (br_sha256 b) (cd_lease_token c))
      (time_at s + dispatch_lease_seconds (cl_lease_seconds args')) (attempts_of (dispatch_of b (mg_message_id m) (st_db s)) + 1) (utc_at (tick s)))
      (message_dispatches (st_db s)) (message_dispatches (st_db t))"
    using lease_dispatch_run [OF lease] assms(2) v by simp_all
  show ?thesis
    using a rows chosen p due_attempts [OF claim_check_due [OF chosen]] by (auto simp: m Let_def settled_def)
qed

definition desk_claim :: claim_dispatch_args where
  "desk_claim = \<lparr>cl_message_id = None, cl_room_id = None, cl_route_profile_id = None, cl_require_route = False, cl_lease_seconds = None,
     cl_max_attempts = None\<rparr>"

lemma desk_claims: "\<exists>c t. claim_message_dispatch desk_bob desk_claim (desk_in desk_base) = (Inr (Some c), t)"
proof -
  have "case fst (claim_message_dispatch desk_bob desk_claim (desk_in desk_base)) of Inr (Some c) \<Rightarrow> True | _ \<Rightarrow> False"
    by code_simp
  then show ?thesis
    by (cases "claim_message_dispatch desk_bob desk_claim (desk_in desk_base)") (auto split: sum.splits option.splits)
qed

theorem claim_leases_first_due_witness:
  "\<exists>c t. claim_message_dispatch desk_bob desk_claim (desk_in desk_base) = (Inr (Some c), t)
    \<and> (\<exists>row \<in> set (message_dispatches (st_db t)). dp_status row = ''claimed'' \<and> dp_attempt_count row = 1)"
proof -
  obtain c t where run: "claim_message_dispatch desk_bob desk_claim (desk_in desk_base) = (Inr (Some c), t)" using desk_claims by blast
  have none: "dispatch_of desk_bob i desk_base = None" for i by (simp add: dispatch_of_def desk_base_def fetch_one_def)
  have "store_inv (br_sha256 desk_bob) (st_db (desk_in desk_base))" using desk_base_inv by simp
  from claim_leases_first_due [OF run this] show ?thesis
    using run none by (auto simp: placed_def attempts_of_def Let_def leased_dispatch_simps)
qed

section \<open>Answering\<close>

lemma write_reply_db:
  assumes "write_reply b source i subject body created s = (Inr m, t)"
  shows "messages (st_db t) = messages (st_db s) @ [m] \<and> message_dispatches (st_db t) = message_dispatches (st_db s)"
  using assms by (auto simp: write_reply_def tx_simps reserved_db_def)

lemma event_keeps_rows:
  assumes "event_op b ty p tid s = (Inr e, t)"
  shows "messages (st_db t) = messages (st_db s) \<and> message_receipts (st_db t) = message_receipts (st_db s)
    \<and> message_dispatches (st_db t) = message_dispatches (st_db s)"
  using event_op_ok [OF assms] by (auto simp: appends_def)

lemma acknowledge_source_db:
  assumes "acknowledge_source b source ev created s = (Inr x, t)" and "mg_scope source = br_scope b"
  shows "map msg_core (messages (st_db t)) = map msg_core (messages (st_db s))
    \<and> acknowledged_by (br_agent_id b) (message_receipts (st_db t)) source \<and> message_dispatches (st_db t) = message_dispatches (st_db s)"
proof -
  have move: "messages (st_db v) = messages (st_db u) \<and> message_receipts (st_db v) = message_receipts (st_db u)
      \<and> message_dispatches (st_db v) = message_dispatches (st_db u)"
    if "move_cursor_to b rm created u = (Inr n, v)" for u v rm n using that by (auto simp: move_cursor_to_def tx_simps Let_def)
  have ack: "acknowledged_by (br_agent_id b) (upsert_row (receipt_is (br_scope b) (mg_message_id source) (br_agent_id b)) id
      \<lparr>rc_scope = br_scope b, rc_message_id = mg_message_id source, rc_agent_id = br_agent_id b, rc_acknowledged_utc = n\<rparr> rs) source" for rs n
    using assms(2) by (auto simp: acknowledged_by_def upsert_row_def update_where_def receipt_is_def list_ex_iff)
  show ?thesis
    using assms(1) unfolding acknowledge_source_parts
    by (auto simp: tx_simps map_update_where dest!: move split: if_splits intro: ack)
qed

text \<open>C23: A completion that is not a repetition is one whole: one message is added, the reply of the agent to the sender
  of the claimed message with the text of the call; the claimed message is acknowledged by the agent; the row
  of the dispatch is completed with that reply; and no other dispatch changes.\<close>

theorem completion_writes_one_reply:
  fixes s t :: "'a dispatch_db_scheme pstate"
  assumes "complete_message_dispatch b args s = (Inr x, t)" and "store_inv (br_sha256 b) (st_db s)" and "\<not> cr_replay x"
  shows "\<exists>c source m. validate_completion args = Inr c \<and> source \<in> set (messages (st_db s)) \<and> mg_message_id source = co_message_id c
    \<and> addressed_to (br_agent_id b) source \<and> cr_reply x = Some m
    \<and> map msg_core (messages (st_db t)) = map msg_core (messages (st_db s)) @ [msg_core m]
    \<and> mg_sender m = br_agent_id b \<and> mg_recipient m = mg_sender source \<and> mg_room_id m = mg_room_id source
    \<and> mg_reply_to m = Some (mg_message_id source) \<and> mg_body m = co_body c
    \<and> acknowledged_by (br_agent_id b) (message_receipts (st_db t)) source
    \<and> placed (cr_dispatch x) (message_dispatches (st_db s)) (message_dispatches (st_db t))
    \<and> disp_key (cr_dispatch x) = (br_scope b, co_message_id c, br_agent_id b)
    \<and> dp_status (cr_dispatch x) = ''completed'' \<and> dp_reply_message_id (cr_dispatch x) = Some (mg_message_id m)"
proof -
  obtain c where c: "validate_completion args = Inr c" and tx: "complete_dispatch_tx b c s = (Inr x, t)"
    using assms(1) by (auto simp: complete_message_dispatch_def tx_simps)
  obtain row source ev subject and u :: "'a dispatch_db_scheme pstate" where row: "row \<in> set (message_dispatches (st_db s))"
      "holds_dispatch b (co_message_id c) (co_lease_token c) (time_at s) row"
    and src: "source \<in> set (messages (st_db s))" "mg_scope source = br_scope b" "mg_message_id source = co_message_id c"
      "addressed_to (br_agent_id b) source" and u: "st_db u = st_db s" and run: "store_completion b c row source ev subject u = (Inr x, t)"
    using tx assms(3) by (cases rule: complete_dispatch_run) auto
  define n i where "n = utc_at u" and "i = uuid_at (tick u)"
  obtain m ra adv new e1 e2 p1 p2 t1 t2 and s1 s2 s3 s4 s5 :: "'a dispatch_db_scheme pstate"
    where reply: "write_reply b source i subject (co_body c) n (tick (tick u)) = (Inr m, s1)"
    and ack: "acknowledge_source b source ev n s1 = (Inr (ra, adv), s2)"
    and change: "change_dispatch b row (completed_row i (co_receipt_sha256 c) n) s2 = (Inr new, s3)"
    and ins: "insert_usage (new_usage b c source i n) s3 = (Inr (), s4)"
    and ev1: "event_op b ''message.sent'' p1 t1 s4 = (Inr e1, s5)" and ev2: "event_op b ''message.dispatch_completed'' p2 t2 s5 = (Inr e2, t)"
    and x: "cr_dispatch x = new" "cr_reply x = Some m"
    using run unfolding store_completion_def n_def i_def Let_def by (auto simp: tx_simps)
  note w = write_reply_db [OF reply] and a = acknowledge_source_db [OF ack src(2)]
  have rows: "message_dispatches (st_db s2) = message_dispatches (st_db s)" using w a u by simp
  obtain ds where new: "new = seal_dispatch (br_sha256 b) (completed_row i (co_receipt_sha256 c) n row)"
    and p: "placed new (message_dispatches (st_db s)) ds" and s3: "st_db s3 = (st_db s2)\<lparr>message_dispatches := ds\<rparr>"
    using change_dispatch_run [OF change] store_keys [OF assms(2)] row held_scope [OF row(2)]
    by (auto simp: rows completed_row_def disp_key_def)
  have s4: "messages (st_db s4) = messages (st_db s2)" "message_receipts (st_db s4) = message_receipts (st_db s2)" "message_dispatches (st_db s4) = ds"
    using ins s3 by (auto simp: insert_usage_def tx_simps)
  have key: "disp_key new = (br_scope b, co_message_id c, br_agent_id b)" "dp_status new = ''completed''" "dp_reply_message_id new = Some i"
    using row(2) by (simp_all add: new completed_row_def holds_dispatch_def) (simp_all add: seal_dispatch_def disp_key_def)
  show ?thesis
    using c src x w a u p s4 key write_reply_run [OF reply] event_keeps_rows [OF ev1] event_keeps_rows [OF ev2]
    by (intro exI [of _ c] exI [of _ source] exI [of _ m]) simp
qed

theorem completion_writes_one_reply_witness:
  "\<exists>x t m. complete_message_dispatch desk_bob desk_answer (desk_in desk_store) = (Inr x, t)
    \<and> cr_reply x = Some m \<and> mg_sender m = ''bob'' \<and> mg_body m = ''hi''"
proof -
  obtain x t where run: "complete_message_dispatch desk_bob desk_answer (desk_in desk_store) = (Inr x, t)" "\<not> cr_replay x"
    using desk_completes by auto
  have "store_inv (br_sha256 desk_bob) (st_db (desk_in desk_store))" using desk_store_inv by simp
  from completion_writes_one_reply [OF run(1) this run(2)] obtain m where
    "cr_reply x = Some m" "mg_sender m = ''bob''" "mg_body m = co_body desk_completion"
    by (auto simp: desk_answer_valid)
  then show ?thesis using run(1) by (auto simp: desk_completion_def)
qed

end
