(* ===== verification/Spec2Isabelle.thy ===== *)
theory Spec2Isabelle
  imports JsonRoundtrip QueueProperties QueueRecovery ProofRecords ReviewLimits MailProperties MailReceipts
    RouteProperties RoomProperties UsageProperties DispatchProperties
begin

text \<open>
  PeerBridge lets several coding agents share one project. Every agent talks to its own bridge process;
  all bridges share one SQLite database, and every public call opens a connection, takes the write lock
  with BEGIN IMMEDIATE and commits or rolls back as a whole. What the program promises is therefore
  about interleavings of atomic calls on one shared state: nobody works on what another agent has
  leased, a task is completed only with evidence and the reviews its policy asks for, and every change
  leaves a trace in a hash chain. This development models the stores of
  \<open>src/peerbridge_mcp/bridge.py\<close> and \<open>operation_queue.py\<close> that carry these promises.

  How the program is modelled. A call is a function on a state made of the database and the world: the
  record of the tables, and the sources of clock readings, identifiers and tokens, read in order
  (Prelude: \<open>pstate\<close>, \<open>tx\<close>, \<open>world_call\<close>). A call returns an error of Errors or a value, with the state
  after it; \<open>with_connection\<close> restores the database when its body raises, but not the world. A table is
  a list of records in rowid order; SELECT, UPDATE and INSERT are \<open>filter\<close>, \<open>update_where\<close> and append.
  Records of tables extend each other, so the laws of one store hold in every larger database. Strings
  are lists of characters that stand for bytes or code points as the source has them; the dictionary
  order of JSON objects, the digests and the escaping are those of the source. SHA-256 is not part of
  the source: it is the field \<open>br_sha256\<close> of a bridge, an arbitrary function, and the theorems about
  digests end in an equality or in a collision. The file system is a record of functions that may
  answer differently at every reading (Disk), as other processes change files at any time.

  The theories.
  Prelude, Errors: state passing, error values, list and map lemmas, the collections \<open>tx_simps\<close>, \<open>tx_errs\<close>.
  Json, JsonRoundtrip: \<open>json.dumps\<close> and \<open>json.loads\<close> as the program uses them, UTF-8, and that reading
  returns what was written, with the keys in order.
  SecretScan: the text patterns of \<open>secret_scan.py\<close> that every stored text is checked with. SecretWords: the
  words a match must contain, which decide most texts without the matcher.
  BridgeBase, AuditChain: the identity of a bridge and the checks of its arguments; the event table, its
  storage accounting, \<open>_event\<close> and \<open>verify_audit_chain\<close>.
  OperationQueue, Discussions, GuidedBinding, QueueWorkers, Schedules: \<open>DurableOperationQueue\<close>. One
  definition per method, from \<open>enqueue\<close> and \<open>claim\<close> to the schedules; the parts of the discussion store
  that the queue reads and writes.
  QueueSpec, QueueRefinement, QueueSteps, QueueSystem: the abstract life cycle of an operation, that
  every method is a sequence of its steps, the invariant of the database, and the histories of calls
  of any agents. Examples, QueueProperties, WorkerProperties: the properties, each with an instance on
  concrete data.
  TaskPaths, Tasks, Reviews: normalised and protected paths and their overlap; \<open>claim_task\<close>,
  \<open>renew_task\<close>, \<open>release_task\<close>, \<open>announce_work\<close>, \<open>request_review\<close>, presence, expiry; \<open>submit_review\<close>,
  \<open>review_summary\<close> with the four approval modes, \<open>poll_reviews\<close>.
  Disk, Proofs, Completion: bounded hashing of files, \<open>record_proof\<close>, the live check of proofs,
  \<open>complete_task\<close>, \<open>change_log\<close>, \<open>workboard\<close>, and what their successful runs did. Readings: the calls to the
  clock and the disk of a run are numbered, and what a run read between two of them.
  TaskSystem, TaskCalls, TaskHistory: what every task call does to the rows, the invariant and the
  histories of calls. TaskProperties, CompletionProperties, ReviewProperties: the properties.
  QueueRecovery, ProofRecords, ReviewLimits: recovery of lost workers, proof records read back, and what
  the review gates do not promise.
  Routes: immutable route profiles, the request a message is stored with, its evaluation by the reader.
  Rooms: rooms, seats, roles and automation policies. Messages, Inbox: sending, fanout, posting with the
  start of a discussion, polling and acknowledging, the message quota, receipts of tool calls.
  Frames: relations that every sub-operation of a call keeps. RoomInvariant, MailInvariant, MailSystem:
  what each call does to rooms and messages, the invariant and the histories of calls. MailExamples,
  MailRuns: a concrete store and calls that return in it. RoomProperties, MailProperties, MailReceipts,
  RouteProperties: the properties of seats, discussions, inboxes, retried calls and routed messages.
  Usage, UsageProperties: the token usage of provider calls (\<open>usage.py\<close>, and the usage records that the
  sessions of \<open>managed_agents.py\<close> keep): normalising, checking and adding up records, and which sums are
  valid records again.
  InferenceReceipts, Dispatches, DispatchReplies, DispatchReconcile: the receipts that a provider run leaves
  (\<open>inference_receipts.py\<close>); \<open>claim_message_dispatch\<close>, \<open>renew_message_dispatch\<close>, \<open>fail_message_dispatch\<close>,
  provider connections, \<open>record_trusted_inference_receipt\<close>, \<open>complete_message_dispatch\<close> and
  \<open>reconcile_message_dispatches\<close>: how an agent takes a message, binds its answer to a receipt and answers once.
  DispatchInvariant, DispatchSystem, DispatchCompletion, DispatchCalls: what each of these calls does to the
  rows, the invariant of dispatches and the histories of all calls on rooms, messages and dispatches.
  DispatchExamples: a desk with one claimed message and its receipt. DispatchProperties: the properties.
  Histories: the contract of a store whose calls keep an invariant and lead from a state to one of its
  futures; interpreted by the queue (QueueSystem), the task board (TaskHistory), the mail (MailSystem)
  and the dispatches (DispatchCalls).

  Bounds and recursion. All recursion is structural, except for the scanner of JSON, which takes one
  more unit of fuel than the text has characters; JsonRoundtrip shows that this is enough for every
  text the program writes. Reading a file in chunks is recursion on the list of chunks the disk returns.
  Python integers are \<open>int\<close>, counters and lengths \<open>nat\<close>; the program has no machine integers.

  Where the model is coarser than the code. Every public call is one atomic step. \<open>record_proof\<close> and
  \<open>complete_task\<close> check and hash the files, and \<open>complete_task\<close> reads the review summary, in connections of
  their own before the transaction that writes, so other calls may come between; what the writing transaction
  checks again, the lease, the list of proofs, size and time of the files, is checked there in the model too, at a
  later reading of clock and disk. \<open>poll_messages\<close> reads the cursor and the rows without the write lock. The
  workspace that \<open>send_message\<close> looks artifacts up in is an argument and the same for a call and its retry.
  Paths are those of POSIX, without the case folding on Windows. An argument that is null is one that is
  absent, except for the role of \<open>join_room\<close>, where the code tells them apart.

  Not modelled. The user interfaces, the transports, the runners of child processes and the
  services around them only call the stores. Memories, drafts, patches and the discussion engine of
  \<open>bridge.py\<close>, which opens the next round of a discussion, are stores of the same kind that are left out; of
  discussions the start, the end, the binding to an operation and the fence of a reply are here.
\<close>

end
